(* ===== verification/Prelude.thy ===== *)
theory Prelude
  imports Main "HOL-Library.Word" "HOL-Library.State_Monad" "HOL-Library.Sublist"
begin

text \<open>
  Shared vocabulary of the development: the parts of Rust's standard library that the agent's
  crates use on strings, numbers and IPv4 addresses, and the small Hoare calculus over
  \<open>State_Monad\<close> in which the effectful components are written.

  Rust strings are UTF-8 byte sequences, so they are modelled as \<open>string\<close> (a list of 8-bit
  \<open>char\<close>): \<open>length\<close> is Rust's \<open>len()\<close>. White space is the ASCII white space of
  \<open>char::is_whitespace\<close>; white space above ASCII does not occur in the kernel and command
  output the agent parses. A \<open>Result<T, String>\<close> is \<open>string + 'a\<close> with \<open>Inl\<close> the error.
\<close>

unbundle bit_operations_syntax

type_synonym u8 = "8 word"
type_synonym u16 = "16 word"
type_synonym u32 = "32 word"
type_synonym u64 = "64 word"
type_synonym 'a res = "string + 'a"

named_theorems keep_intros \<open>introduction rules for preserved predicates of state computations\<close>
named_theorems ok_intros \<open>introduction rules for computations that do not fail\<close>
named_theorems path_intros \<open>introduction rules for the files that a computation writes to\<close>

section \<open>Strings\<close>

definition utf8 :: "nat list \<Rightarrow> string" where
  "utf8 bs = map char_of bs"

definition nl :: char where "nl = CHR 0x0A"

definition is_ws :: "char \<Rightarrow> bool" where
  "is_ws c \<longleftrightarrow> c \<in> {CHR 0x20, CHR 0x09, CHR 0x0A, CHR 0x0B, CHR 0x0C, CHR 0x0D}"

definition starts_with :: "string \<Rightarrow> string \<Rightarrow> bool" where
  "starts_with p s \<longleftrightarrow> take (length p) s = p"

definition ends_with :: "string \<Rightarrow> string \<Rightarrow> bool" where
  "ends_with p s \<longleftrightarrow> length p \<le> length s \<and> drop (length s - length p) s = p"

fun str_contains :: "string \<Rightarrow> string \<Rightarrow> bool" where
  "str_contains p [] = (p = [])"
| "str_contains p (c # s) = (starts_with p (c # s) \<or> str_contains p s)"

text \<open>\<open>str::split\<close> on one character: an empty string gives one empty piece.\<close>

fun split_char :: "char \<Rightarrow> string \<Rightarrow> string list" where
  "split_char c [] = [[]]"
| "split_char c (x # xs) =
     (if x = c then [] # split_char c xs
      else (case split_char c xs of [] \<Rightarrow> [[x]] | y # ys \<Rightarrow> (x # y) # ys))"

definition split_once :: "char \<Rightarrow> string \<Rightarrow> (string \<times> string) option" where
  "split_once c s =
     (case dropWhile (\<lambda>x. x \<noteq> c) s of
        [] \<Rightarrow> None
      | _ # r \<Rightarrow> Some (takeWhile (\<lambda>x. x \<noteq> c) s, r))"

fun split_ws_acc :: "string \<Rightarrow> string \<Rightarrow> string list" where
  "split_ws_acc w [] = (if w = [] then [] else [rev w])"
| "split_ws_acc w (c # s) =
     (if is_ws c then (if w = [] then split_ws_acc [] s else rev w # split_ws_acc [] s)
      else split_ws_acc (c # w) s)"

definition split_whitespace :: "string \<Rightarrow> string list" where
  "split_whitespace = split_ws_acc []"

definition trim_start :: "string \<Rightarrow> string" where "trim_start = dropWhile is_ws"

definition trim_end :: "string \<Rightarrow> string" where "trim_end s = rev (dropWhile is_ws (rev s))"

definition trim :: "string \<Rightarrow> string" where "trim s = trim_end (trim_start s)"

text \<open>\<open>str::to_lowercase\<close> on ASCII text; other bytes are left alone.\<close>

definition lower_char :: "char \<Rightarrow> char" where
  "lower_char c = (let n = (of_char c :: nat) in if 65 \<le> n \<and> n \<le> 90 then char_of (n + 32) else c)"

definition to_lowercase :: "string \<Rightarrow> string" where
  "to_lowercase s = map lower_char s"

text \<open>\<open>trim_end_matches\<close> with one character.\<close>

definition trim_end_char :: "char \<Rightarrow> string \<Rightarrow> string" where
  "trim_end_char c s = rev (dropWhile (\<lambda>x. x = c) (rev s))"

text \<open>\<open>str::lines\<close>: pieces between newlines, no empty last piece, one trailing CR dropped.\<close>

definition strip_cr :: "string \<Rightarrow> string" where
  "strip_cr l = (if l \<noteq> [] \<and> last l = CHR 0x0D then butlast l else l)"

definition str_lines :: "string \<Rightarrow> string list" where
  "str_lines s =
     (let ps = split_char nl s
      in map strip_cr (if last ps = [] then butlast ps else ps))"

fun join :: "string \<Rightarrow> string list \<Rightarrow> string" where
  "join sep [] = []"
| "join sep [x] = x"
| "join sep (x # y # ys) = x @ sep @ join sep (y # ys)"

definition contains_char :: "char \<Rightarrow> string \<Rightarrow> bool" where
  "contains_char c s \<longleftrightarrow> c \<in> set s"

text \<open>The Debug form (\<open>{:?}\<close>) of a string and of a slice of strings.\<close>

definition hex_digit :: "nat \<Rightarrow> char" where
  "hex_digit n = (if n < 10 then char_of (48 + n) else char_of (87 + n))"

definition debug_char :: "char \<Rightarrow> string" where
  "debug_char c =
     (if c = CHR 0x22 then [CHR 0x5C, CHR 0x22]
      else if c = CHR 0x5C then [CHR 0x5C, CHR 0x5C]
      else if c = CHR 0x0A then [CHR 0x5C, CHR ''n'']
      else if c = CHR 0x0D then [CHR 0x5C, CHR ''r'']
      else if c = CHR 0x09 then [CHR 0x5C, CHR ''t'']
      else if c = CHR 0x00 then [CHR 0x5C, CHR ''0'']
      else let n = (of_char c :: nat) in
        if n < 32 \<or> n = 127
        then [CHR 0x5C, CHR ''u'', CHR ''{''] @
             (if n < 16 then [hex_digit n] else [hex_digit (n div 16), hex_digit (n mod 16)]) @
             [CHR ''}'']
        else [c])"

definition debug_str :: "string \<Rightarrow> string" where
  "debug_str s = [CHR 0x22] @ concat (map debug_char s) @ [CHR 0x22]"

definition debug_list :: "string list \<Rightarrow> string" where
  "debug_list xs = ''['' @ join '', '' (map debug_str xs) @ '']''"

lemma split_char_nonempty [simp]: "split_char c s \<noteq> []"
  by (cases s) (auto split: list.splits)

lemma split_char_single [simp]: "c \<notin> set s \<Longrightarrow> split_char c s = [s]"
  by (induction s) auto

lemma split_char_append:
  "c \<notin> set x \<Longrightarrow> split_char c (x @ c # s) = x # split_char c s"
  by (induction x) auto

lemma split_char_join:
  "xs \<noteq> [] \<Longrightarrow> \<forall>x \<in> set xs. c \<notin> set x \<Longrightarrow> split_char c (join [c] xs) = xs"
  by (induction "[c]" xs rule: join.induct) (auto simp: split_char_append)

lemma join_split_char: "join [c] (split_char c s) = s"
proof (induction s)
  case Nil
  then show ?case by simp
next
  case (Cons x s)
  obtain y ys where sp: "split_char c s = y # ys"
    by (cases "split_char c s") auto
  with Cons have j: "join [c] (y # ys) = s" by simp
  show ?case
  proof (cases "x = c")
    case True
    then show ?thesis by (simp add: sp j)
  next
    case False
    then show ?thesis using j by (cases ys) (simp_all add: sp)
  qed
qed

lemma starts_with_append [simp]: "starts_with p (p @ s)"
  by (simp add: starts_with_def)

lemma starts_with_iff_prefix: "starts_with p s \<longleftrightarrow> prefix p s"
  unfolding starts_with_def prefix_def by (metis append_eq_conv_conj)

lemma str_contains_iff_sublist: "str_contains p s \<longleftrightarrow> sublist p s"
  by (induction s) (auto simp: starts_with_iff_prefix sublist_Cons_right)

lemma split_once_Some_iff:
  "split_once c s = Some (a, b) \<longleftrightarrow> s = a @ c # b \<and> c \<notin> set a"
proof
  assume h: "split_once c s = Some (a, b)"
  then have a: "a = takeWhile (\<lambda>x. x \<noteq> c) s" and d: "\<exists>y. dropWhile (\<lambda>x. x \<noteq> c) s = y # b"
    by (auto simp: split_once_def split: list.splits)
  from d obtain y where y: "dropWhile (\<lambda>x. x \<noteq> c) s = y # b" by blast
  have "y = c" using hd_dropWhile [of "\<lambda>x. x \<noteq> c" s] y by simp
  with y a show "s = a @ c # b \<and> c \<notin> set a"
    by (metis set_takeWhileD takeWhile_dropWhile_id)
next
  assume "s = a @ c # b \<and> c \<notin> set a"
  then show "split_once c s = Some (a, b)"
    by (auto simp: split_once_def takeWhile_append dropWhile_append)
qed

lemma split_once_None_iff: "split_once c s = None \<longleftrightarrow> c \<notin> set s"
proof (cases "c \<in> set s")
  case True
  then obtain a b where "s = a @ c # b" "c \<notin> set a" by (meson split_list_first)
  with True show ?thesis by (auto simp: split_once_Some_iff [THEN iffD2])
next
  case False
  then have "dropWhile (\<lambda>x. x \<noteq> c) s = []" by (auto simp: dropWhile_eq_Nil_conv)
  with False show ?thesis by (simp add: split_once_def del: dropWhile_eq_Nil_conv)
qed

section \<open>Decimal numbers\<close>

definition digit :: "nat \<Rightarrow> char" where "digit n = char_of (48 + n)"

definition is_digit :: "char \<Rightarrow> bool" where
  "is_digit c \<longleftrightarrow> 48 \<le> (of_char c :: nat) \<and> (of_char c :: nat) \<le> 57"

definition digit_val :: "char \<Rightarrow> nat" where "digit_val c = of_char c - 48"

fun show_nat :: "nat \<Rightarrow> string" where
  "show_nat n = (if n < 10 then [digit n] else show_nat (n div 10) @ [digit (n mod 10)])"

declare show_nat.simps [simp del]

definition digits_val :: "string \<Rightarrow> nat" where
  "digits_val s = foldl (\<lambda>a c. 10 * a + digit_val c) 0 s"

text \<open>\<open>str::parse\<close> at an unsigned type with maximum \<open>mx\<close>: an optional plus sign, at least
  one digit, nothing else, and an error on overflow.\<close>

definition parse_uint :: "nat \<Rightarrow> string \<Rightarrow> nat option" where
  "parse_uint mx s =
     (let t = (case s of [] \<Rightarrow> [] | c # r \<Rightarrow> if c = CHR ''+'' then r else s)
      in if t = [] \<or> \<not> list_all is_digit t then None
         else if digits_val t \<le> mx then Some (digits_val t) else None)"

definition parse_u8 :: "string \<Rightarrow> u8 option" where
  "parse_u8 s = map_option of_nat (parse_uint 255 s)"

abbreviation show_word :: "'a::len word \<Rightarrow> string" where
  "show_word w \<equiv> show_nat (unat w)"

lemma of_char_digit: "n < 10 \<Longrightarrow> (of_char (digit n) :: nat) = 48 + n"
  by (simp add: digit_def)

lemma is_digit_digit [simp]: "n < 10 \<Longrightarrow> is_digit (digit n)"
  by (simp add: is_digit_def of_char_digit)

lemma digit_val_digit [simp]: "n < 10 \<Longrightarrow> digit_val (digit n) = n"
  by (simp add: digit_val_def of_char_digit)

lemma show_nat_nonempty [simp]: "show_nat n \<noteq> []"
  by (subst show_nat.simps) simp

lemma show_nat_digits: "list_all is_digit (show_nat n)"
proof (induction n rule: show_nat.induct)
  case (1 n)
  then show ?case by (subst show_nat.simps) auto
qed

lemma digits_val_snoc: "digits_val (s @ [c]) = 10 * digits_val s + digit_val c"
  by (simp add: digits_val_def)

lemma digits_val_show_nat [simp]: "digits_val (show_nat n) = n"
proof (induction n rule: show_nat.induct)
  case (1 n)
  show ?case
  proof (cases "n < 10")
    case True
    then show ?thesis by (subst show_nat.simps) (simp add: digits_val_def)
  next
    case False
    with 1 show ?thesis by (subst show_nat.simps) (simp add: digits_val_snoc)
  qed
qed

lemma digit_ne [simp]: "is_digit c \<Longrightarrow> c \<noteq> CHR ''+''" "is_digit c \<Longrightarrow> c \<noteq> CHR ''.''"
  "is_digit c \<Longrightarrow> c \<noteq> CHR ''/''" "is_digit c \<Longrightarrow> c \<noteq> CHR 0x2C" "is_digit c \<Longrightarrow> \<not> is_ws c"
  by (auto simp: is_digit_def is_ws_def)

lemma parse_uint_show_nat: "n \<le> mx \<Longrightarrow> parse_uint mx (show_nat n) = Some n"
proof -
  assume mx: "n \<le> mx"
  obtain c r where cr: "show_nat n = c # r"
    by (cases "show_nat n") auto
  with show_nat_digits [of n] have "c \<noteq> CHR ''+''" by auto
  with cr have "(case show_nat n of [] \<Rightarrow> [] | c # r \<Rightarrow> if c = CHR ''+'' then r else show_nat n)
      = show_nat n" by simp
  then show ?thesis using mx show_nat_digits [of n] by (simp add: parse_uint_def)
qed

lemma parse_uint_bound: "parse_uint mx s = Some v \<Longrightarrow> v \<le> mx"
  by (auto simp: parse_uint_def Let_def split: if_splits)

lemma not_in_show_nat: "\<not> is_digit c \<Longrightarrow> c \<notin> set (show_nat n)"
  using show_nat_digits [of n] by (auto simp: list_all_iff)

lemma show_nat_inject [simp]: "show_nat m = show_nat n \<longleftrightarrow> m = n"
  by (metis digits_val_show_nat)

definition show_int :: "int \<Rightarrow> string" where
  "show_int i = (if i < 0 then ''-'' @ show_nat (nat (- i)) else show_nat (nat i))"

lemma show_int_inject [simp]: "show_int i = show_int j \<longleftrightarrow> i = j"
proof -
  have "CHR ''-'' \<notin> set (show_nat n)" for n by (rule not_in_show_nat) (simp add: is_digit_def)
  then have "show_nat n \<noteq> CHR ''-'' # s" for n s by (metis list.set_intros(1))
  then show ?thesis by (auto simp: show_int_def dest: sym)
qed

lemma comma_notin_show [simp]: "CHR 0x2C \<notin> set (show_nat n)" "CHR 0x2C \<notin> set (show_int i)"
  by (auto simp: show_int_def not_in_show_nat is_digit_def)

section \<open>IPv4 addresses\<close>

text \<open>\<open>std::net::Ipv4Addr\<close>: four octets. The textual form is the strict dotted decimal one:
  one to three digits per octet, no leading zero, at most 255.\<close>

type_synonym ipv4 = "u8 \<times> u8 \<times> u8 \<times> u8"

definition parse_octet :: "string \<Rightarrow> u8 option" where
  "parse_octet s =
     (if s = [] \<or> 3 < length s \<or> \<not> list_all is_digit s \<or> 255 < digits_val s
         \<or> (1 < length s \<and> hd s = CHR ''0'')
      then None else Some (of_nat (digits_val s)))"

definition parse_ipv4 :: "string \<Rightarrow> ipv4 option" where
  "parse_ipv4 s =
     (case split_char (CHR ''.'') s of
        [a, b, c, d] \<Rightarrow>
          (case (parse_octet a, parse_octet b, parse_octet c, parse_octet d) of
             (Some a, Some b, Some c, Some d) \<Rightarrow> Some (a, b, c, d)
           | _ \<Rightarrow> None)
      | _ \<Rightarrow> None)"

fun show_ipv4 :: "ipv4 \<Rightarrow> string" where
  "show_ipv4 (a, b, c, d) =
     show_word a @ ''.'' @ show_word b @ ''.'' @ show_word c @ ''.'' @ show_word d"

fun ipv4_to_u32 :: "ipv4 \<Rightarrow> u32" where
  "ipv4_to_u32 (a, b, c, d) =
     push_bit 24 (ucast a) OR push_bit 16 (ucast b) OR push_bit 8 (ucast c) OR ucast d"

lemma show_nat_lt_1000: "n < 1000 \<Longrightarrow> length (show_nat n) \<le> 3"
  by (simp add: show_nat.simps)

lemma show_nat_hd_nonzero: "10 \<le> n \<Longrightarrow> hd (show_nat n) \<noteq> CHR ''0''"
proof (induction n rule: show_nat.induct)
  case (1 n)
  show ?case
  proof (cases "n div 10 < 10")
    case True
    have "digit (n div 10) \<noteq> CHR ''0''"
    proof
      assume "digit (n div 10) = CHR ''0''"
      then have "(of_char (digit (n div 10)) :: nat) = 48" by simp
      with True 1 show False by (simp add: of_char_digit)
    qed
    with True 1 show ?thesis by (simp add: show_nat.simps [of n] show_nat.simps [of "n div 10"])
  next
    case False
    with 1 show ?thesis by (subst show_nat.simps) (simp add: hd_append)
  qed
qed

lemma parse_octet_show [simp]: "parse_octet (show_word (w :: u8)) = Some w"
proof -
  have b: "unat w < 256" using unsigned_less [of w] by simp
  have "length (show_word w) \<le> 3" using b by (intro show_nat_lt_1000) simp
  moreover have "\<not> (1 < length (show_word w) \<and> hd (show_word w) = CHR ''0'')"
  proof (cases "unat w < 10")
    case True
    then show ?thesis by (simp add: show_nat.simps)
  next
    case False
    then show ?thesis using show_nat_hd_nonzero [of "unat w"] by simp
  qed
  ultimately show ?thesis using b show_nat_digits [of "unat w"] by (simp add: parse_octet_def)
qed

lemma show_ipv4_join:
  "show_ipv4 (a, b, c, d) = join ''.'' [show_word a, show_word b, show_word c, show_word d]"
  by simp

lemma not_is_digit_dot [simp]: "\<not> is_digit (CHR ''.'')" "\<not> is_digit (CHR ''/'')"
  by (simp_all add: is_digit_def)

lemma split_show_ipv4:
  "split_char (CHR ''.'') (show_ipv4 (a, b, c, d)) = [show_word a, show_word b, show_word c, show_word d]"
  unfolding show_ipv4_join by (rule split_char_join) (auto simp: not_in_show_nat)

lemma parse_show_ipv4: "parse_ipv4 (show_ipv4 ip) = Some ip"
proof (cases ip)
  case (fields a b c d)
  then show ?thesis by (simp only: parse_ipv4_def split_show_ipv4) simp
qed

lemma slash_notin_show_ipv4: "CHR ''/'' \<notin> set (show_ipv4 ip)"
  by (cases ip) (auto simp: not_in_show_nat)

section \<open>Predicates kept by a state computation\<close>

text \<open>\<open>keeps P m\<close>: every run of \<open>m\<close> from a state with \<open>P\<close> ends in a state with \<open>P\<close>. The
  rules follow the constructs the components use, so that a preservation proof is one
  \<open>intro\<close> with the rules of the operations it calls.\<close>

definition keeps :: "('s \<Rightarrow> bool) \<Rightarrow> ('s, 'a) state \<Rightarrow> bool" where
  "keeps P m \<longleftrightarrow> (\<forall>s. P s \<longrightarrow> P (snd (run_state m s)))"

definition modify :: "('s \<Rightarrow> 's) \<Rightarrow> ('s, unit) state" where
  "modify f = State (\<lambda>s. ((), f s))"

definition gets :: "('s \<Rightarrow> 'a) \<Rightarrow> ('s, 'a) state" where
  "gets f = State (\<lambda>s. (f s, s))"

fun for_each :: "'a list \<Rightarrow> ('a \<Rightarrow> ('s, unit) state) \<Rightarrow> ('s, unit) state" where
  "for_each [] f = State_Monad.return ()"
| "for_each (x # xs) f = State_Monad.bind (f x) (\<lambda>_. for_each xs f)"

lemma run_modify [simp]: "run_state (modify f) s = ((), f s)"
  by (simp add: modify_def)

lemma run_gets [simp]: "run_state (gets f) s = (f s, s)"
  by (simp add: gets_def)

lemma keepsD: "keeps P m \<Longrightarrow> P s \<Longrightarrow> P (snd (run_state m s))"
  by (simp add: keeps_def)

lemma keepsD_run: "keeps P m \<Longrightarrow> P s \<Longrightarrow> run_state m s = (r, s') \<Longrightarrow> P s'"
  by (metis keepsD snd_conv)

lemma keepsI: "(\<And>s r s'. P s \<Longrightarrow> run_state m s = (r, s') \<Longrightarrow> P s') \<Longrightarrow> keeps P m"
  unfolding keeps_def by (metis prod.collapse)

lemma keeps_return [keep_intros]: "keeps P (State_Monad.return x)"
  by (simp add: keeps_def)

lemma keeps_gets [keep_intros]: "keeps P (gets f)"
  by (simp add: keeps_def)

lemma keeps_modify [keep_intros]: "(\<And>s. P s \<Longrightarrow> P (f s)) \<Longrightarrow> keeps P (modify f)"
  by (simp add: keeps_def)

lemma keeps_bind [keep_intros]:
  "keeps P m \<Longrightarrow> (\<And>x. keeps P (f x)) \<Longrightarrow> keeps P (State_Monad.bind m f)"
  unfolding keeps_def by (simp split: prod.splits) (metis snd_conv)

lemma keeps_if [keep_intros]:
  "(b \<Longrightarrow> keeps P m) \<Longrightarrow> (\<not> b \<Longrightarrow> keeps P n) \<Longrightarrow> keeps P (if b then m else n)"
  by simp

lemma keeps_case_sum [keep_intros]:
  "(\<And>e. x = Inl e \<Longrightarrow> keeps P (f e)) \<Longrightarrow> (\<And>v. x = Inr v \<Longrightarrow> keeps P (g v)) \<Longrightarrow>
     keeps P (case x of Inl e \<Rightarrow> f e | Inr v \<Rightarrow> g v)"
  by (cases x) auto

lemma keeps_case_option [keep_intros]:
  "(x = None \<Longrightarrow> keeps P m) \<Longrightarrow> (\<And>v. x = Some v \<Longrightarrow> keeps P (f v)) \<Longrightarrow>
     keeps P (case x of None \<Rightarrow> m | Some v \<Rightarrow> f v)"
  by (cases x) auto

lemma keeps_case_prod [keep_intros]:
  "(\<And>a b. x = (a, b) \<Longrightarrow> keeps P (f a b)) \<Longrightarrow> keeps P (case x of (a, b) \<Rightarrow> f a b)"
  by (cases x) auto

lemma keeps_for_each [keep_intros]: "(\<And>x. keeps P (f x)) \<Longrightarrow> keeps P (for_each xs f)"
  by (induction xs) (auto intro!: keeps_return keeps_bind)

text \<open>The \<open>?\<close> operator: leave with the error, or go on with the value.\<close>

definition tryE :: "('s, 'a res) state \<Rightarrow> ('a \<Rightarrow> ('s, 'b res) state) \<Rightarrow> ('s, 'b res) state" where
  "tryE m f = State_Monad.bind m
     (\<lambda>r. case r of Inl e \<Rightarrow> State_Monad.return (Inl e) | Inr v \<Rightarrow> f v)"

definition map_err :: "(string \<Rightarrow> string) \<Rightarrow> ('s, 'a res) state \<Rightarrow> ('s, 'a res) state" where
  "map_err g m = State_Monad.bind m
     (\<lambda>r. State_Monad.return (case r of Inl e \<Rightarrow> Inl (g e) | Inr v \<Rightarrow> Inr v))"

lemma run_tryE [simp]:
  "run_state (tryE m f) s =
     (case run_state m s of (Inl e, s') \<Rightarrow> (Inl e, s') | (Inr v, s') \<Rightarrow> run_state (f v) s')"
  by (auto simp: tryE_def split: prod.splits sum.splits)

lemma run_map_err [simp]:
  "run_state (map_err g m) s =
     (case run_state m s of (Inl e, s') \<Rightarrow> (Inl (g e), s') | (Inr v, s') \<Rightarrow> (Inr v, s'))"
  by (auto simp: map_err_def split: prod.splits sum.splits)

lemma keeps_tryE [keep_intros]:
  "keeps P m \<Longrightarrow> (\<And>v. keeps P (f v)) \<Longrightarrow> keeps P (tryE m f)"
  unfolding tryE_def by (intro keep_intros)

lemma keeps_map_err [keep_intros]: "keeps P m \<Longrightarrow> keeps P (map_err g m)"
  unfolding map_err_def by (intro keep_intros)

text \<open>The rules of the monad alone, and two that keep what is known of a value.\<close>

lemmas monad_intros = keeps_return keeps_gets keeps_bind keeps_if keeps_case_sum keeps_case_option
  keeps_case_prod keeps_tryE keeps_map_err

lemma keeps_bind_gets: "(\<And>s. keeps P (f (g s))) \<Longrightarrow> keeps P (State_Monad.bind (gets g) f)"
  by (auto simp: keeps_def)

lemma keeps_for_each_set: "(\<And>x. x \<in> set xs \<Longrightarrow> keeps P (f x)) \<Longrightarrow> keeps P (for_each xs f)"
  by (induction xs) (auto intro!: keeps_return keeps_bind)

text \<open>\<open>zoom get put m\<close> runs \<open>m\<close> on a part of a larger state.\<close>

definition zoom :: "('a \<Rightarrow> 's) \<Rightarrow> ('s \<Rightarrow> 'a \<Rightarrow> 'a) \<Rightarrow> ('s, 'r) state \<Rightarrow> ('a, 'r) state" where
  "zoom get put m = State (\<lambda>a. case run_state m (get a) of (r, s) \<Rightarrow> (r, put s a))"

lemma run_zoom [simp]:
  "run_state (zoom get put m) a = (fst (run_state m (get a)), put (snd (run_state m (get a))) a)"
  by (simp add: zoom_def case_prod_beta)

text \<open>\<open>succeeds m\<close>: no run of \<open>m\<close> ends with an error.\<close>

definition succeeds :: "('s, 'a res) state \<Rightarrow> bool" where
  "succeeds m \<longleftrightarrow> (\<forall>s. \<not> isl (fst (run_state m s)))"

lemma succeeds_return [ok_intros]: "succeeds (State_Monad.return (Inr v))"
  by (simp add: succeeds_def)

lemma succeeds_bind [ok_intros]: "(\<And>x. succeeds (f x)) \<Longrightarrow> succeeds (State_Monad.bind m f)"
  by (simp add: succeeds_def split: prod.splits)

lemma succeeds_tryE [ok_intros]:
  "succeeds m \<Longrightarrow> (\<And>v. succeeds (f v)) \<Longrightarrow> succeeds (tryE m f)"
  unfolding succeeds_def by (simp split: prod.splits sum.splits) (metis fst_conv sum.disc(1))

lemma succeeds_map_err [ok_intros]: "succeeds m \<Longrightarrow> succeeds (map_err g m)"
  unfolding succeeds_def by (simp split: prod.splits sum.splits) (metis fst_conv sum.disc(1))

lemma succeedsD: "succeeds m \<Longrightarrow> run_state m s = (r, s') \<Longrightarrow> \<exists>v. r = Inr v"
  unfolding succeeds_def by (metis fst_conv isl_def sum.exhaust)

text \<open>\<open>triple P m Q E\<close>: from a state with \<open>P\<close>, a run of \<open>m\<close> ends with a value and \<open>Q\<close>, or with an
  error and \<open>E\<close>.\<close>

definition triple :: "('s \<Rightarrow> bool) \<Rightarrow> ('s, 'a res) state \<Rightarrow> ('a \<Rightarrow> 's \<Rightarrow> bool) \<Rightarrow> ('s \<Rightarrow> bool) \<Rightarrow> bool" where
  "triple P m Q E \<longleftrightarrow>
     (\<forall>s. P s \<longrightarrow> (case run_state m s of (Inl e, t) \<Rightarrow> E t | (Inr v, t) \<Rightarrow> Q v t))"

lemma triple_tryE:
  "triple P m Q E \<Longrightarrow> (\<And>v. triple (Q v) (f v) R E) \<Longrightarrow> triple P (tryE m f) R E"
  unfolding triple_def by (fastforce split: prod.splits sum.splits)

lemma triple_bind:
  "(\<And>s x t. P s \<Longrightarrow> run_state m s = (x, t) \<Longrightarrow> Q x t) \<Longrightarrow> (\<And>x. triple (Q x) (f x) R E) \<Longrightarrow>
     triple P (State_Monad.bind m f) R E"
  unfolding triple_def by (fastforce split: prod.splits)

lemma triple_inv: "keeps P m \<Longrightarrow> (\<And>s. P s \<Longrightarrow> E s) \<Longrightarrow> triple P m (\<lambda>_. P) E"
  unfolding triple_def keeps_def by (auto split: prod.splits sum.splits)

lemma triple_weaken:
  "triple P m Q E \<Longrightarrow> (\<And>s. P' s \<Longrightarrow> P s) \<Longrightarrow> (\<And>v s. Q v s \<Longrightarrow> Q' v s) \<Longrightarrow> (\<And>s. E s \<Longrightarrow> E' s) \<Longrightarrow> triple P' m Q' E'"
  unfolding triple_def by (fastforce split: prod.splits sum.splits)

lemma tripleD:
  "triple P m Q E \<Longrightarrow> P s \<Longrightarrow> run_state m s = (r, t) \<Longrightarrow> (case r of Inl e \<Rightarrow> E t | Inr v \<Rightarrow> Q v t)"
  unfolding triple_def by (auto split: sum.splits)

end
