(* ===== verification/Netlink.thy ===== *)
theory Netlink
  imports Prelude
begin

text \<open>
  The netlink socket between the agent and its kernel module: \<^verbatim>\<open>crates/netlink/src/netlink.rs\<close> and
  the messages that travel over it, \<^verbatim>\<open>crates/kernel_event/src/msg_handler/mod.rs\<close>.

  System calls are parameters (record \<open>nl_ext\<close>). The targets of the agent (x86_64, aarch64) are
  little-endian, so native and little-endian byte order are the same.
\<close>

section \<open>Numbers as bytes\<close>

definition le_bytes :: "nat \<Rightarrow> 'a::len word \<Rightarrow> u8 list" where
  "le_bytes n w = map (\<lambda>i. ucast (drop_bit (8 * i) w)) [0..<n]"

definition from_le :: "u8 list \<Rightarrow> 'a::len word" where
  "from_le bs = foldr (\<lambda>b w. push_bit 8 w OR ucast b) bs 0"

lemma length_le_bytes [simp]: "length (le_bytes n w) = n"
  by (simp add: le_bytes_def)

lemma le_bytes_Suc: "le_bytes (Suc n) w = ucast w # le_bytes n (drop_bit 8 w)"
  unfolding le_bytes_def upt_conv_Cons [OF zero_less_Suc] map_Suc_upt [symmetric]
  by (simp add: algebra_simps)

lemma from_le_le_bytes: "from_le (le_bytes n w) = take_bit (8 * n) w"
proof (induction n arbitrary: w)
  case 0
  then show ?case by (simp add: le_bytes_def from_le_def)
next
  case (Suc n)
  have "push_bit 8 (take_bit (8 * n) (drop_bit 8 w)) OR ucast (ucast w :: u8) = take_bit (8 * Suc n) w"
    by (rule bit_word_eqI) (auto simp: bit_simps)
  with Suc [of "drop_bit 8 w"] show ?case by (simp add: le_bytes_Suc from_le_def)
qed

lemma from_le_u32 [simp]: "from_le (le_bytes 4 w) = (w :: u32)"
  by (simp add: from_le_le_bytes take_bit_word_eq_self)

lemma from_le_u16 [simp]: "from_le (le_bytes 2 w) = (w :: u16)"
  by (simp add: from_le_le_bytes take_bit_word_eq_self)

text \<open>\<^verbatim>\<open>str::parse::<i32>\<close>: an optional sign, digits, and the range of the type.\<close>

definition parse_i32 :: "string \<Rightarrow> int option" where
  "parse_i32 s =
     (case s of
        c # r \<Rightarrow>
          if c = CHR ''-''
          then (if r = [] \<or> \<not> list_all is_digit r then None
                else if digits_val r \<le> 2147483648 then Some (- int (digits_val r)) else None)
          else map_option int (parse_uint 2147483647 s)
      | [] \<Rightarrow> None)"

section \<open>The socket\<close>

record sockaddr_nl =
  nl_family :: u16
  nl_pid :: u32

record nl_sock_info =
  nls_sock :: int
  nl_dest_addr :: sockaddr_nl
  nl_src_addr :: sockaddr_nl

text \<open>\<open>nx_recvmsg\<close> gets the size of the buffer and gives the result of the call with the bytes it
  put into the buffer.\<close>

record 'w nl_ext =
  nx_exists :: "string \<Rightarrow> 'w \<Rightarrow> bool"
  nx_read :: "string \<Rightarrow> 'w \<Rightarrow> string res"
  nx_sleep :: "nat \<Rightarrow> 'w \<Rightarrow> 'w"
  nx_socket :: "int \<Rightarrow> 'w \<Rightarrow> int \<times> 'w"
  nx_bind :: "int \<Rightarrow> sockaddr_nl \<Rightarrow> 'w \<Rightarrow> int \<times> 'w"
  nx_sendmsg :: "int \<Rightarrow> sockaddr_nl \<Rightarrow> u8 list \<Rightarrow> 'w \<Rightarrow> int \<times> 'w"
  nx_recvmsg :: "int \<Rightarrow> nat \<Rightarrow> 'w \<Rightarrow> (int \<times> u8 list) \<times> 'w"
  nx_last_error :: "'w \<Rightarrow> string"
  nx_getpid :: "'w \<Rightarrow> u32"

definition proto_path :: string where "proto_path = ''/sys/osec/proto''"

definition strip_netlink :: "string \<Rightarrow> int res" where
  "strip_netlink contents =
     (if starts_with ''netlink:'' contents
      then (case parse_i32 (trim (drop 8 contents)) of
              Some proto \<Rightarrow> Inr proto
            | None \<Rightarrow> Inl ''Invalid protocol format in /sys/osec/proto'')
      else Inl (''Missing '' @ [CHR 0x27] @ ''netlink:'' @ [CHR 0x27] @ '' prefix in /sys/osec/proto''))"

text \<open>The attempts; \<open>left\<close> is the number of those that follow.\<close>

fun proto_attempt :: "'w nl_ext \<Rightarrow> nat \<Rightarrow> ('w, int res) state" where
  "proto_attempt N left = do {
     w \<leftarrow> State_Monad.get;
     if nx_exists N proto_path w
     then State_Monad.return (case nx_read N proto_path w of Inl e \<Rightarrow> Inl e | Inr contents \<Rightarrow> strip_netlink contents)
     else (case left of
             0 \<Rightarrow> State_Monad.return (Inr 21)
           | Suc n \<Rightarrow> do { modify (nx_sleep N 2); proto_attempt N n })
   }"

declare proto_attempt.simps [simp del]

definition get_netlink_proto :: "'w nl_ext \<Rightarrow> ('w, int res) state" where
  "get_netlink_proto N = proto_attempt N (10 - 1)"

definition AF_NETLINK :: u16 where "AF_NETLINK = 16"

definition create_socket :: "'w nl_ext \<Rightarrow> ('w, nl_sock_info res) state" where
  "create_socket N =
     tryE (get_netlink_proto N) (\<lambda>proto. do {
       sock \<leftarrow> State (nx_socket N proto);
       w \<leftarrow> State_Monad.get;
       if sock < 0 then State_Monad.return (Inl (nx_last_error N w))
       else do {
         let src = \<lparr>nl_family = AF_NETLINK, nl_pid = nx_getpid N w\<rparr>;
         ret \<leftarrow> State (nx_bind N sock src);
         w2 \<leftarrow> State_Monad.get;
         State_Monad.return
           (if ret < 0 then Inl (nx_last_error N w2)
            else Inr \<lparr>nls_sock = sock, nl_dest_addr = \<lparr>nl_family = AF_NETLINK, nl_pid = 0\<rparr>, nl_src_addr = src\<rparr>)
       }
     })"

section \<open>Messages to the kernel\<close>

text \<open>\<^verbatim>\<open>nlmsghdr\<close> has sixteen bytes: length, type, flags, sequence number and sender. The flag
  \<^verbatim>\<open>NLM_F_REQUEST\<close> is 1.\<close>

definition create_netlink_message :: "u32 \<Rightarrow> u16 \<Rightarrow> u8 list \<Rightarrow> u8 list" where
  "create_netlink_message pid msg_type data =
     le_bytes 4 (of_nat (16 + length data) :: u32) @ le_bytes 2 msg_type @ le_bytes 2 (1 :: u16)
     @ le_bytes 4 (0 :: u32) @ le_bytes 4 pid @ data"

definition send_message :: "'w nl_ext \<Rightarrow> nl_sock_info \<Rightarrow> u16 \<Rightarrow> u8 list \<Rightarrow> ('w, int res) state" where
  "send_message N sock msg_type data = do {
     w \<leftarrow> State_Monad.get;
     send_len \<leftarrow> State (nx_sendmsg N (nls_sock sock) (nl_dest_addr sock)
                   (create_netlink_message (nx_getpid N w) msg_type data));
     w2 \<leftarrow> State_Monad.get;
     State_Monad.return (if send_len < 0 then Inl (nx_last_error N w2) else Inr send_len)
   }"

definition send_bool :: "'w nl_ext \<Rightarrow> nl_sock_info \<Rightarrow> u16 \<Rightarrow> bool \<Rightarrow> ('w, int res) state" where
  "send_bool N sock msg_type value = send_message N sock msg_type (if value then [1, 0, 0, 0] else [0, 0, 0, 0])"

definition send_network_close :: "'w nl_ext \<Rightarrow> nl_sock_info \<Rightarrow> ('w, int res) state" where
  "send_network_close N sock = send_message N sock 0x706 [0, 0, 0, 0]"

definition send_uint32 :: "'w nl_ext \<Rightarrow> nl_sock_info \<Rightarrow> u16 \<Rightarrow> u32 \<Rightarrow> ('w, int res) state" where
  "send_uint32 N sock msg_type value = send_message N sock msg_type (le_bytes 4 value)"

section \<open>Messages from the kernel\<close>

definition receive_netlink_message :: "'w nl_ext \<Rightarrow> nl_sock_info \<Rightarrow> ('w, u8 list res) state" where
  "receive_netlink_message N sock = do {
     r \<leftarrow> State (nx_recvmsg N (nls_sock sock) 4096);
     w \<leftarrow> State_Monad.get;
     State_Monad.return (if fst r < 0 then Inl (nx_last_error N w) else Inr (take (nat (fst r)) (snd r)))
   }"

text \<open>One turn of \<^verbatim>\<open>receive_messages_loop\<close>: an error, the end of the connection, or a message.\<close>

datatype received = RecvError string | RecvClosed | RecvData "u8 list"

definition receive_turn :: "'w nl_ext \<Rightarrow> nl_sock_info \<Rightarrow> ('w, received) state" where
  "receive_turn N sock = do {
     r \<leftarrow> State (nx_recvmsg N (nls_sock sock) 4096);
     w \<leftarrow> State_Monad.get;
     State_Monad.return
       (if fst r < 0 then RecvError (nx_last_error N w)
        else if fst r = 0 then RecvClosed
        else RecvData (take (nat (fst r)) (snd r)))
   }"

record kosecs_msg_data =
  km_data_type :: u32
  km_data_len :: u32
  km_payload :: "u8 list"

definition kosecs_parse :: "u8 list \<Rightarrow> kosecs_msg_data option" where
  "kosecs_parse raw =
     (if length raw < 8 then None
      else let data_type = from_le (take 4 raw);
               data_len = from_le (take 4 (drop 4 raw)) :: u32
           in if length raw < 8 + unat data_len then None
              else Some \<lparr>km_data_type = data_type, km_data_len = data_len, km_payload = take (unat data_len) (drop 8 raw)\<rparr>)"

text \<open>The other reader of a whole message. A slice beyond the end of the data panics, which is
  \<open>None\<close>.\<close>

definition parse_kosecs_msg_data :: "u8 list \<Rightarrow> (u32 \<times> u8 list \<times> nat) res option" where
  "parse_kosecs_msg_data data =
     (if length data < 8 then Some (Inl ''Insufficient data'')
      else if length data < 16 then None
      else if length data < 16 + 8 then Some (Inl ''vsec_msg_data header missing'')
      else let data_type = from_le (take 4 (drop 16 data));
               data_len = from_le (take 4 (drop 20 data)) :: u32
           in if length data < 16 + 8 + unat data_len then Some (Inl ''Data length mismatch'')
              else let data_content = take (unat data_len) (drop 24 data)
                   in Some (Inr (data_type, data_content, length data_content)))"

text \<open>The header of a message as the kernel reads it.\<close>

definition message_header :: "u8 list \<Rightarrow> u32 \<times> u16 \<times> u16 \<times> u32 \<times> u32" where
  "message_header m = (from_le (take 4 m), from_le (take 2 (drop 4 m)), from_le (take 2 (drop 6 m)),
     from_le (take 4 (drop 8 m)), from_le (take 4 (drop 12 m)))"

section \<open>Properties\<close>

lemma drop_le_bytes [simp]:
  "m \<le> n \<Longrightarrow> drop n (le_bytes m w @ xs) = drop (n - m) xs" "take m (le_bytes m w @ xs) = le_bytes m w"
  by simp_all

lemma kosecs_parse_bounds:
  assumes "kosecs_parse raw = Some m"
  shows "length (km_payload m) = unat (km_data_len m)" and "8 + length (km_payload m) \<le> length raw"
    and "km_payload m = take (unat (km_data_len m)) (drop 8 raw)"
  using assms by (auto simp: kosecs_parse_def Let_def split: if_splits)

lemma create_message_header:
  "message_header (create_netlink_message pid t d) = (of_nat (16 + length d), t, 1, 0, pid)"
  by (simp add: message_header_def create_netlink_message_def)

lemma drop_header [simp]: "drop 16 (create_netlink_message pid t d) = d"
  by (simp add: create_netlink_message_def)

text \<open>The two readers of a kernel message agree. On a message of at least sixteen bytes, the
  reader of the whole message succeeds exactly when the reader of what follows the header does, with
  the same type and content, and what either reads lies inside the message; a message of eight to
  fifteen bytes makes the first one panic, and a shorter one is refused.\<close>

theorem kernel_message_readers_agree:
  "(case parse_kosecs_msg_data data of
      None \<Rightarrow> 8 \<le> length data \<and> length data < 16
    | Some (Inl e) \<Rightarrow> length data < 8 \<or> (16 \<le> length data \<and> kosecs_parse (drop 16 data) = None)
    | Some (Inr (t, content, n)) \<Rightarrow>
        kosecs_parse (drop 16 data) = Some \<lparr>km_data_type = t, km_data_len = of_nat n, km_payload = content\<rparr>
        \<and> n = length content \<and> 24 + n \<le> length data)"
  by (auto simp: parse_kosecs_msg_data_def kosecs_parse_def Let_def)

section \<open>The search for the protocol ends\<close>

lemma proto_attempt_run:
  "\<exists>k \<le> left. run_state (proto_attempt N left) w =
     (if nx_exists N proto_path ((nx_sleep N 2 ^^ k) w)
      then (case nx_read N proto_path ((nx_sleep N 2 ^^ k) w) of Inl e \<Rightarrow> Inl e | Inr contents \<Rightarrow> strip_netlink contents)
      else Inr 21, (nx_sleep N 2 ^^ k) w)
     \<and> (\<forall>j < k. \<not> nx_exists N proto_path ((nx_sleep N 2 ^^ j) w)) \<and> (nx_exists N proto_path ((nx_sleep N 2 ^^ k) w) \<or> k = left)"
proof (induction left arbitrary: w)
  case 0
  show ?case by (simp add: proto_attempt.simps [of N 0])
next
  case (Suc n)
  show ?case
  proof (cases "nx_exists N proto_path w")
    case True
    then show ?thesis by (intro exI [of _ 0]) (simp add: proto_attempt.simps [of N "Suc n"])
  next
    case False
    obtain k where k: "k \<le> n" "run_state (proto_attempt N n) (nx_sleep N 2 w) =
     (if nx_exists N proto_path ((nx_sleep N 2 ^^ k) (nx_sleep N 2 w))
      then (case nx_read N proto_path ((nx_sleep N 2 ^^ k) (nx_sleep N 2 w)) of Inl e \<Rightarrow> Inl e | Inr contents \<Rightarrow> strip_netlink contents)
      else Inr 21, (nx_sleep N 2 ^^ k) (nx_sleep N 2 w))"
      "\<forall>j < k. \<not> nx_exists N proto_path ((nx_sleep N 2 ^^ j) (nx_sleep N 2 w))"
      "nx_exists N proto_path ((nx_sleep N 2 ^^ k) (nx_sleep N 2 w)) \<or> k = n"
      using Suc [of "nx_sleep N 2 w"] by blast
    have "\<forall>j < Suc k. \<not> nx_exists N proto_path ((nx_sleep N 2 ^^ j) w)"
      using k(3) False by (auto simp: less_Suc_eq_0_disj funpow_Suc_right simp del: funpow.simps)
    with k(1,2,4) False show ?thesis
      by (intro exI [of _ "Suc k"]) (simp add: proto_attempt.simps [of N "Suc n"] funpow_Suc_right del: funpow.simps)
  qed
qed

text \<open>C19: the search for the netlink protocol ends, whatever happens to the file: it looks until the file is
  there, with two seconds between the looks and at most nine such waits, gives what the file says at
  that moment, and falls back to 21 when the file is still missing after the ninth wait.\<close>

theorem netlink_proto_ends:
  "\<exists>k \<le> 9. run_state (get_netlink_proto N) w =
     (if nx_exists N proto_path ((nx_sleep N 2 ^^ k) w)
      then (case nx_read N proto_path ((nx_sleep N 2 ^^ k) w) of Inl e \<Rightarrow> Inl e | Inr contents \<Rightarrow> strip_netlink contents)
      else Inr 21, (nx_sleep N 2 ^^ k) w)
     \<and> (\<forall>j < k. \<not> nx_exists N proto_path ((nx_sleep N 2 ^^ j) w)) \<and> (nx_exists N proto_path ((nx_sleep N 2 ^^ k) w) \<or> k = 9)"
  using proto_attempt_run [of 9 N w] by (simp add: get_netlink_proto_def)

text \<open>The file appears after two seconds.\<close>

definition late_proto :: "nat nl_ext" where
  "late_proto = \<lparr>nx_exists = (\<lambda>p w. 2 \<le> w), nx_read = (\<lambda>p w. Inr ''netlink:31''), nx_sleep = (\<lambda>n w. w + n), nx_socket = (\<lambda>p w. (3, w)),
     nx_bind = (\<lambda>s a w. (0, w)), nx_sendmsg = (\<lambda>s a d w. (int (length d), w)), nx_recvmsg = (\<lambda>s n w. ((0, []), w)),
     nx_last_error = (\<lambda>w. []), nx_getpid = (\<lambda>w. 7)\<rparr>"

theorem netlink_proto_ends_witness: "run_state (get_netlink_proto late_proto) 0 = (Inr 31, 2)"
proof -
  obtain k where k: "run_state (get_netlink_proto late_proto) 0 =
     (if nx_exists late_proto proto_path ((nx_sleep late_proto 2 ^^ k) 0)
      then (case nx_read late_proto proto_path ((nx_sleep late_proto 2 ^^ k) 0) of Inl e \<Rightarrow> Inl e | Inr contents \<Rightarrow> strip_netlink contents)
      else Inr 21, (nx_sleep late_proto 2 ^^ k) 0)"
    "\<forall>j < k. \<not> nx_exists late_proto proto_path ((nx_sleep late_proto 2 ^^ j) 0)"
    "nx_exists late_proto proto_path ((nx_sleep late_proto 2 ^^ k) 0) \<or> k = 9"
    using netlink_proto_ends [of late_proto 0] by blast
  have s: "(nx_sleep late_proto 2 ^^ j) 0 = 2 * j" for j by (induction j) (simp_all add: late_proto_def)
  have "\<not> 1 < k" using k(2) s [of 1] by (auto simp: late_proto_def)
  moreover have "k \<noteq> 0" using k(3) unfolding s by (auto simp: late_proto_def)
  ultimately have "k = 1" by simp
  moreover have "strip_netlink ''netlink:31'' = Inr 31"
    by (simp add: strip_netlink_def parse_i32_def parse_uint_def digits_val_def starts_with_def trim_def trim_end_def trim_start_def is_ws_def is_digit_def digit_val_def)
  ultimately show ?thesis using k(1) s [of 1] by (simp add: late_proto_def)
qed

end
