(* ===== verification/Proc_File.thy ===== *)
theory Proc_File
  imports Prelude "HOL-Library.Multiset"
begin

text \<open>
  Control files under \<^verbatim>\<open>/proc/osec\<close>, through which the agent drives its kernel module, and the
  parts of Rust's collections whose order is not fixed.

  Opening, creating and writing files are parameters (record \<open>file_ext\<close>); the state
  \<open>proc_state\<close> is the world plus the writes that succeeded, in order, each with its file. A
  rule file is cleared by the line \<^verbatim>\<open>c\<close>, and accumulates the other texts written to it:
  \<open>loaded\<close> reads from the log of writes what a file holds.
\<close>

section \<open>Files\<close>

record 'w file_ext =
  fx_exists :: "string \<Rightarrow> 'w \<Rightarrow> bool"
  fx_open :: "string \<Rightarrow> 'w \<Rightarrow> unit res \<times> 'w"
  fx_create :: "string \<Rightarrow> 'w \<Rightarrow> unit res \<times> 'w"
  fx_write :: "string \<Rightarrow> string \<Rightarrow> 'w \<Rightarrow> unit res \<times> 'w"

record 'w proc_state =
  fos :: 'w
  write_log :: "(string \<times> string) list"

definition path_exists :: "'w file_ext \<Rightarrow> string \<Rightarrow> (('w, 'z) proc_state_scheme, bool) state" where
  "path_exists F path = gets (\<lambda>s. fx_exists F path (fos s))"

text \<open>\<^verbatim>\<open>OpenOptions::new().write(true).open(path)\<close>, \<^verbatim>\<open>File::create(path)\<close> and \<^verbatim>\<open>write_all\<close>.\<close>

definition open_write :: "'w file_ext \<Rightarrow> string \<Rightarrow> (('w, 'z) proc_state_scheme, unit res) state" where
  "open_write F path = State (\<lambda>s. case fx_open F path (fos s) of (r, w) \<Rightarrow> (r, s\<lparr>fos := w\<rparr>))"

definition create_file :: "'w file_ext \<Rightarrow> string \<Rightarrow> (('w, 'z) proc_state_scheme, unit res) state" where
  "create_file F path = State (\<lambda>s. case fx_create F path (fos s) of (r, w) \<Rightarrow> (r, s\<lparr>fos := w\<rparr>))"

definition write_all ::
  "'w file_ext \<Rightarrow> string \<Rightarrow> string \<Rightarrow> (('w, 'z) proc_state_scheme, unit res) state" where
  "write_all F path content = State (\<lambda>s.
     case fx_write F path content (fos s) of
       (Inl e, w) \<Rightarrow> (Inl e, s\<lparr>fos := w\<rparr>)
     | (Inr _, w) \<Rightarrow> (Inr (), s\<lparr>fos := w, write_log := write_log s @ [(path, content)]\<rparr>))"

section \<open>What a rule file holds\<close>

definition clear_line :: string where "clear_line = ''c'' @ [nl]"

definition load_step :: "string \<Rightarrow> string \<times> string \<Rightarrow> string list \<Rightarrow> string list" where
  "load_step path wr acc =
     (if fst wr \<noteq> path then acc else if snd wr = clear_line then [] else acc @ [snd wr])"

definition loaded :: "string \<Rightarrow> (string \<times> string) list \<Rightarrow> string list" where
  "loaded path log = fold (load_step path) log []"

lemma loaded_snoc [simp]:
  "loaded path (log @ [(p, c)]) =
     (if p \<noteq> path then loaded path log else if c = clear_line then [] else loaded path log @ [c])"
  by (simp add: loaded_def load_step_def)

lemma loaded_other:
  "\<forall>w \<in> set ws. fst w \<noteq> path \<Longrightarrow> loaded path (log @ ws) = loaded path log"
  by (induction ws arbitrary: log) (simp_all add: loaded_def load_step_def)

lemma loaded_lines:
  "clear_line \<notin> set cs \<Longrightarrow> loaded path (log @ map (Pair path) cs) = loaded path log @ cs"
proof (induction cs arbitrary: log)
  case (Cons c cs)
  have "loaded path (log @ map (Pair path) (c # cs)) = loaded path ((log @ [(path, c)]) @ map (Pair path) cs)"
    by simp
  also have "\<dots> = loaded path (log @ [(path, c)]) @ cs" by (rule Cons.IH) (use Cons.prems in simp)
  finally show ?case using Cons.prems by auto
qed simp

lemma loaded_append:
  "(path, clear_line) \<notin> set ws \<Longrightarrow>
     loaded path (log @ ws) = loaded path log @ map snd (filter (\<lambda>w. fst w = path) ws)"
proof (induction ws arbitrary: log)
  case (Cons w ws)
  obtain p c where w: "w = (p, c)" by (rule prod.exhaust)
  have "loaded path ((log @ [w]) @ ws) = loaded path (log @ [w]) @ map snd (filter (\<lambda>w. fst w = path) ws)"
    using Cons by (intro Cons.IH) simp
  then show ?case using Cons.prems by (auto simp: w)
qed simp

lemma loaded_reload:
  "clear_line \<notin> set cs \<Longrightarrow> loaded path (log @ (path, clear_line) # map (Pair path) cs) = cs"
  using loaded_lines [of cs path "log @ [(path, clear_line)]"] by simp

section \<open>What file operations leave alone\<close>

text \<open>A predicate that looks neither at the world nor at the log of writes is kept by every
  file operation.\<close>

definition file_blind :: "(('w, 'z) proc_state_scheme \<Rightarrow> bool) \<Rightarrow> bool" where
  "file_blind P \<longleftrightarrow> (\<forall>s w l. P s \<longrightarrow> P (s\<lparr>fos := w, write_log := l\<rparr>))"

lemma file_blind_fos: "file_blind P \<Longrightarrow> P s \<Longrightarrow> P (s\<lparr>fos := w\<rparr>)"
  unfolding file_blind_def by (drule spec [of _ s], drule spec [of _ w], drule spec [of _ "write_log s"]) simp

lemma file_blind_both: "file_blind P \<Longrightarrow> P s \<Longrightarrow> P (s\<lparr>fos := w, write_log := l\<rparr>)"
  by (simp add: file_blind_def)

lemma keeps_path_exists [keep_intros]: "keeps P (path_exists F path)"
  by (simp add: path_exists_def keep_intros)

lemma keeps_open_write [keep_intros]: "file_blind P \<Longrightarrow> keeps P (open_write F path)"
  by (auto simp: keeps_def open_write_def file_blind_fos split: prod.splits)

lemma keeps_create_file [keep_intros]: "file_blind P \<Longrightarrow> keeps P (create_file F path)"
  by (auto simp: keeps_def create_file_def file_blind_fos split: prod.splits)

lemma keeps_write_all [keep_intros]: "file_blind P \<Longrightarrow> keeps P (write_all F path c)"
  by (auto simp: keeps_def write_all_def file_blind_fos file_blind_both split: prod.splits sum.splits)

text \<open>What a file operation adds to the log.\<close>

lemma run_open_write_log:
  "run_state (open_write F path) s = (r, s') \<Longrightarrow> write_log s' = write_log s"
  by (auto simp: open_write_def split: prod.splits)

lemma run_create_file_log:
  "run_state (create_file F path) s = (r, s') \<Longrightarrow> write_log s' = write_log s"
  by (auto simp: create_file_def split: prod.splits)

lemma run_write_all_log:
  "run_state (write_all F path c) s = (r, s') \<Longrightarrow>
     write_log s' = write_log s @ (if r = Inr () then [(path, c)] else [])"
  by (auto simp: write_all_def split: prod.splits sum.splits)

section \<open>Writable files\<close>

text \<open>Every file can be opened and written.\<close>

definition files_ok :: "'w file_ext \<Rightarrow> bool" where
  "files_ok F \<longleftrightarrow> (\<forall>p c w. fst (fx_open F p w) = Inr () \<and> fst (fx_create F p w) = Inr ()
     \<and> fst (fx_write F p c w) = Inr () \<and> fx_exists F p w)"

lemma files_ok_open [ok_intros]: "files_ok F \<Longrightarrow> succeeds (open_write F p)"
  unfolding files_ok_def open_write_def succeeds_def by (simp add: case_prod_beta)

lemma files_ok_create [ok_intros]: "files_ok F \<Longrightarrow> succeeds (create_file F p)"
  unfolding files_ok_def create_file_def succeeds_def by (simp add: case_prod_beta)

lemma files_ok_write [ok_intros]: "files_ok F \<Longrightarrow> succeeds (write_all F p c)"
  unfolding files_ok_def write_all_def succeeds_def
  by (simp split: prod.splits sum.splits) (metis fst_conv sum.distinct(1))

text \<open>A file system that accepts everything and keeps no world of its own.\<close>

definition free_files :: "unit file_ext" where
  "free_files = \<lparr>fx_exists = (\<lambda>p w. True), fx_open = (\<lambda>p w. (Inr (), w)),
     fx_create = (\<lambda>p w. (Inr (), w)), fx_write = (\<lambda>p c w. (Inr (), w))\<rparr>"

lemma free_files_ok: "files_ok free_files"
  by (simp add: files_ok_def free_files_def)

section \<open>Truncating and writing\<close>

text \<open>\<^verbatim>\<open>File::create(path)\<close> followed by \<^verbatim>\<open>write_all\<close>.\<close>

definition create_and_write ::
  "'w file_ext \<Rightarrow> string \<Rightarrow> string \<Rightarrow> (('w, 'z) proc_state_scheme, unit res) state" where
  "create_and_write F path content = tryE (create_file F path) (\<lambda>_. write_all F path content)"

lemma keeps_create_and_write [keep_intros]: "file_blind P \<Longrightarrow> keeps P (create_and_write F path c)"
  unfolding create_and_write_def by (intro keep_intros)

lemma create_and_write_log:
  assumes "files_ok F" and "run_state (create_and_write F path c) s = (r, t)"
  shows "write_log t = write_log s @ [(path, c)]"
proof -
  obtain r1 s1 where o: "run_state (create_file F path) s = (r1, s1)" by (rule prod.exhaust)
  obtain r2 s2 where w: "run_state (write_all F path c) s1 = (r2, s2)" by (rule prod.exhaust)
  from succeedsD [OF files_ok_create [OF assms(1)] o] succeedsD [OF files_ok_write [OF assms(1)] w]
  have "r1 = Inr ()" "r2 = Inr ()" by auto
  then show ?thesis
    using assms(2) o w run_create_file_log [OF o] run_write_all_log [OF w]
    by (simp add: create_and_write_def)
qed

section \<open>The files written to\<close>

text \<open>\<open>wrote l Q s\<close>: since the log was \<open>l\<close>, only files in \<open>Q\<close> were written to.\<close>

definition wrote :: "(string \<times> string) list \<Rightarrow> string set \<Rightarrow> ('w, 'z) proc_state_scheme \<Rightarrow> bool" where
  "wrote l Q s \<longleftrightarrow> (\<exists>k. write_log s = l @ k \<and> fst ` set k \<subseteq> Q)"

lemma wrote_start: "wrote (write_log s) Q s"
  by (simp add: wrote_def)

lemma wrote_modify [path_intros]:
  "(\<And>s. write_log (f s) = write_log s) \<Longrightarrow> keeps (wrote l Q) (modify f)"
  by (simp add: keeps_def wrote_def)

lemma wrote_exists [path_intros]: "keeps (wrote l Q) (path_exists F path)"
  by (simp add: path_exists_def keeps_gets)

lemma wrote_open [path_intros]: "keeps (wrote l Q) (open_write F path)"
  by (auto simp: keeps_def wrote_def open_write_def split: prod.splits)

lemma wrote_create [path_intros]: "keeps (wrote l Q) (create_file F path)"
  by (auto simp: keeps_def wrote_def create_file_def split: prod.splits)

lemma wrote_write_all [path_intros]: "path \<in> Q \<Longrightarrow> keeps (wrote l Q) (write_all F path c)"
  by (auto simp: keeps_def wrote_def write_all_def split: prod.splits sum.splits)

lemma wrote_create_and_write [path_intros]: "path \<in> Q \<Longrightarrow> keeps (wrote l Q) (create_and_write F path c)"
  unfolding create_and_write_def by (intro path_intros monad_intros)

section \<open>Rule texts\<close>

text \<open>The line \<^verbatim>\<open>b\<close> makes the kernel module build its matcher from the patterns it holds.\<close>

definition build_line :: string where "build_line = ''b'' @ [nl]"

text \<open>A text is empty or longer than a command line, so it is never read as one.\<close>

definition long :: "string \<Rightarrow> bool" where
  "long g \<longleftrightarrow> g = [] \<or> 2 < length g"

lemma long_Nil [simp]: "long []"
  by (simp add: long_def)

lemma long_append [intro]: "long a \<Longrightarrow> long b \<Longrightarrow> long (a @ b)"
  by (auto simp: long_def)

lemma long_concat: "(\<And>x. x \<in> set xs \<Longrightarrow> 2 < length x) \<Longrightarrow> long (concat xs)"
proof (induction xs)
  case (Cons x xs)
  then have "2 < length x" by simp
  then show ?case by (simp add: long_def)
qed simp

lemma long_commands [simp]: "\<not> long clear_line" "\<not> long build_line" "build_line \<noteq> clear_line"
  "clear_line \<noteq> build_line"
  by (simp_all add: long_def clear_line_def build_line_def)

definition nonempty :: "string list \<Rightarrow> string list" where
  "nonempty ts = filter (\<lambda>t. t \<noteq> []) ts"

section \<open>Iteration over hashed collections\<close>

text \<open>A \<^verbatim>\<open>HashMap\<close> or \<^verbatim>\<open>HashSet\<close> is iterated in an unspecified order that visits every element
  once. An operation that iterates takes the order \<open>h\<close> as a parameter; \<open>visit h\<close> is \<open>h\<close> where
  \<open>h\<close> gives a permutation of the elements, so that \<open>visit\<close> ranges over all orders and only
  those.\<close>

definition visit :: "('a list \<Rightarrow> 'a list) \<Rightarrow> 'a list \<Rightarrow> 'a list" where
  "visit h xs = (if mset (h xs) = mset xs then h xs else xs)"

lemma mset_visit [simp]: "mset (visit h xs) = mset xs"
  by (simp add: visit_def)

lemma set_visit [simp]: "set (visit h xs) = set xs"
  by (metis mset_visit set_mset_mset)

lemma visit_any_order: "mset ys = mset xs \<Longrightarrow> \<exists>h. visit h xs = ys"
  by (intro exI [of _ "\<lambda>_. ys"]) (simp add: visit_def)

lemma distinct_visit [simp]: "distinct (visit h xs) = distinct xs"
  by (metis mset_visit mset_eq_imp_distinct_iff)

end
