(* ===== verification/Net_Info.thy ===== *)
theory Net_Info
  imports Proc_File
begin

text \<open>
  \<^verbatim>\<open>crates/config/src/net_info.rs\<close>: the agent's configuration and the file it is saved to. The
  fields of \<^verbatim>\<open>NetInfoConfig\<close> carry the prefix \<open>nc_\<close>. Reading the file (an INI parser) is not part
  of this theory.
\<close>

record net_info_config =
  nc_app_path :: string
  nc_mid :: string
  nc_ver :: string
  nc_com_time :: u32
  nc_cron_time :: u32
  nc_extortion_protect :: bool
  nc_extortion_switch :: bool
  nc_self_protect_switch :: bool
  nc_fast_time :: u32
  nc_file_protect :: bool
  nc_file_switch :: bool
  nc_dynamic_switch :: bool
  nc_log_ip_port :: "string option"
  nc_log_proto :: u32
  nc_log_sent :: u32
  nc_cli_port :: u32
  nc_module_switch :: u32
  nc_open_port_switch :: bool
  nc_proc_protect :: bool
  nc_proc_switch :: bool
  nc_scan_file_time :: u32
  nc_scan_proc_time :: u32
  nc_server_ip_port :: string
  nc_server_ip :: string
  nc_server_port :: u32
  nc_usb_protect :: bool
  nc_usb_switch :: bool
  nc_syslog_dns_switch :: bool
  nc_syslog_outer_switch :: bool
  nc_syslog_inner_switch :: bool
  nc_syslog_process_switch :: bool
  nc_syslog_login_switch :: bool
  nc_internet_switch :: bool
  nc_baseline_switch :: bool
  nc_baseline_time :: u32
  nc_outreach_switch :: bool
  nc_outreach_time :: u32
  nc_hardware_switch :: bool
  nc_hardware_time :: u32
  nc_user_id :: string
  nc_dev_uid :: string
  nc_macid :: string
  nc_ips :: string
  nc_ifcfg :: string
  nc_os :: string
  nc_memsize :: string
  nc_cpu :: string
  nc_hdsize :: string
  nc_auth :: string
  nc_host_name :: string
  nc_mod_ver :: string
  nc_arch_type :: u8
  nc_is_offline_mode :: bool

text \<open>The derived \<^verbatim>\<open>Default\<close>.\<close>

definition net_info_default :: net_info_config where
  "net_info_default = \<lparr>nc_app_path = [], nc_mid = [], nc_ver = [], nc_com_time = 0, nc_cron_time = 0,
     nc_extortion_protect = False, nc_extortion_switch = False, nc_self_protect_switch = False, nc_fast_time = 0,
     nc_file_protect = False, nc_file_switch = False, nc_dynamic_switch = False, nc_log_ip_port = None,
     nc_log_proto = 0, nc_log_sent = 0, nc_cli_port = 0, nc_module_switch = 0, nc_open_port_switch = False,
     nc_proc_protect = False, nc_proc_switch = False, nc_scan_file_time = 0, nc_scan_proc_time = 0,
     nc_server_ip_port = [], nc_server_ip = [], nc_server_port = 0, nc_usb_protect = False, nc_usb_switch = False,
     nc_syslog_dns_switch = False, nc_syslog_outer_switch = False, nc_syslog_inner_switch = False,
     nc_syslog_process_switch = False, nc_syslog_login_switch = False, nc_internet_switch = False,
     nc_baseline_switch = False, nc_baseline_time = 0, nc_outreach_switch = False, nc_outreach_time = 0,
     nc_hardware_switch = False, nc_hardware_time = 0, nc_user_id = [], nc_dev_uid = [], nc_macid = [], nc_ips = [],
     nc_ifcfg = [], nc_os = [], nc_memsize = [], nc_cpu = [], nc_hdsize = [], nc_auth = [], nc_host_name = [],
     nc_mod_ver = [], nc_arch_type = 0, nc_is_offline_mode = False\<rparr>"

text \<open>\<^verbatim>\<open>b as u8\<close> printed.\<close>

definition show_flag :: "bool \<Rightarrow> string" where
  "show_flag b = (if b then ''1'' else ''0'')"

text \<open>The lines of the saved file. \<^verbatim>\<open>IPS\<close>, \<^verbatim>\<open>IFCFG\<close>, \<^verbatim>\<open>OS\<close>, \<^verbatim>\<open>MEMSIZE\<close> and \<^verbatim>\<open>HDSIZE\<close> are not saved.\<close>

definition ini_lines :: "net_info_config \<Rightarrow> string list" where
  "ini_lines c =
     [''[CLIENTINFO]'', ''MID='' @ nc_mid c,
      ''[SERVERINFO]'', ''USER_ID='' @ nc_user_id c, ''COMTIME='' @ show_word (nc_com_time c),
      ''CRONTIME='' @ show_word (nc_cron_time c),
      ''EXTORTION_PROTECT='' @ show_flag (nc_extortion_protect c),
      ''EXTORTION_SWITCH='' @ show_flag (nc_extortion_switch c),
      ''SELF_PROTECT_SWITCH='' @ show_flag (nc_self_protect_switch c),
      ''FASTTIME='' @ show_word (nc_fast_time c), ''FILE_PROTECT='' @ show_flag (nc_file_protect c),
      ''FILE_SWITCH='' @ show_flag (nc_file_switch c),
      ''LOGIPPORT='' @ (case nc_log_ip_port c of None \<Rightarrow> [] | Some v \<Rightarrow> v),
      ''LOGPROTO='' @ show_word (nc_log_proto c), ''LOGSENT='' @ show_word (nc_log_sent c),
      ''CLI_SERVER_PORT='' @ show_word (nc_cli_port c), ''MODULE_SWITCH='' @ show_word (nc_module_switch c),
      ''OPEN_PORT_SWITCH='' @ show_flag (nc_open_port_switch c),
      ''PROC_PROTECT='' @ show_flag (nc_proc_protect c), ''PROC_SWITCH='' @ show_flag (nc_proc_switch c),
      ''DYNAMIC_SWITCH='' @ show_flag (nc_dynamic_switch c),
      ''SCANFILETIME='' @ show_word (nc_scan_file_time c), ''SCANPROCTIME='' @ show_word (nc_scan_proc_time c),
      ''SERVERIPPORT='' @ nc_server_ip_port c, ''SERVER_IP='' @ nc_server_ip c,
      ''SERVER_PORT='' @ show_word (nc_server_port c), ''USB_PROTECT='' @ show_flag (nc_usb_protect c),
      ''USB_SWITCH='' @ show_flag (nc_usb_switch c), ''DNS_SWITCH='' @ show_flag (nc_syslog_dns_switch c),
      ''INTERNAL_COMMUNICATION_SWITCH='' @ show_flag (nc_syslog_inner_switch c),
      ''EXTERNAL_COMMUNICATION_SWITCH='' @ show_flag (nc_syslog_outer_switch c),
      ''SYSLOG_PROCESS_SWITCH='' @ show_flag (nc_syslog_process_switch c),
      ''SYSLOG_LOGIN_SWITCH='' @ show_flag (nc_syslog_login_switch c),
      ''INTERNET_SWITCH='' @ show_flag (nc_internet_switch c),
      ''OFFLINE_MODE='' @ show_flag (nc_is_offline_mode c),
      ''BASELINE_SWITCH='' @ show_flag (nc_baseline_switch c), ''BASELINE_TIME='' @ show_word (nc_baseline_time c),
      ''HARDWARE_SWITCH='' @ show_flag (nc_hardware_switch c), ''HARDWARE_TIME='' @ show_word (nc_hardware_time c),
      ''OUTREACH_SWITCH='' @ show_flag (nc_outreach_switch c), ''OUTREACH_TIME='' @ show_word (nc_outreach_time c),
      ''VERSION='' @ nc_ver c,
      ''[HOSTINFO]'', ''DEV_UID='' @ nc_dev_uid c, ''MACID='' @ nc_macid c, ''CPU='' @ nc_cpu c,
      ''AUTH='' @ nc_auth c, ''HOSTNAME='' @ nc_host_name c]"

fun write_lines :: "'w file_ext \<Rightarrow> string \<Rightarrow> string list \<Rightarrow> (('w, 'z) proc_state_scheme, unit res) state" where
  "write_lines F path [] = State_Monad.return (Inr ())"
| "write_lines F path (line # ls) = tryE (write_all F path (line @ [nl])) (\<lambda>_. write_lines F path ls)"

definition to_ini :: "'w file_ext \<Rightarrow> net_info_config \<Rightarrow> string \<Rightarrow> (('w, 'z) proc_state_scheme, unit res) state" where
  "to_ini F c file_name = tryE (create_file F file_name) (\<lambda>_. write_lines F file_name (ini_lines c))"

lemma wrote_write_lines [path_intros]: "path \<in> Q \<Longrightarrow> keeps (wrote l Q) (write_lines F path ls)"
  by (induction ls) (auto intro!: path_intros monad_intros)

lemma wrote_to_ini [path_intros]: "path \<in> Q \<Longrightarrow> keeps (wrote l Q) (to_ini F c path)"
  unfolding to_ini_def by (intro path_intros monad_intros)

end
