(* ===== verification/Net_Client.thy ===== *)
theory Net_Client
  imports Prelude
begin

text \<open>
  The HTTP client of the agent, \<^verbatim>\<open>crates/net_client/src/core/client.rs\<close>. The packages
  underneath are parameters: \<^verbatim>\<open>reqwest\<close> (building a client, sending a request, reading a
  body), \<^verbatim>\<open>url\<close> and the resolver of \<^verbatim>\<open>tokio\<close>. They are fields of the record \<open>http_ext\<close>,
  over an arbitrary client handle \<open>'c\<close>, proxy \<open>'p\<close> and world \<open>'w\<close>.
\<close>

section \<open>Requests, responses and the packages underneath\<close>

datatype http_method = GET | POST

record http_request =
  rq_method :: http_method
  rq_url :: string
  rq_headers :: "(string \<times> string) list"
  rq_timeout :: nat
  rq_body :: "string option"

text \<open>A response as \<^verbatim>\<open>reqwest\<close> hands it out: its status, with the class predicates and the
  printed form of \<^verbatim>\<open>StatusCode\<close>, and what reading the body gives.\<close>

record http_response =
  st_success :: bool
  st_client_error :: bool
  st_display :: string
  rs_text :: "string res"
  rs_bytes :: "string res"

record 'p client_builder =
  cb_timeout :: nat
  cb_accept_invalid_certs :: bool
  cb_proxy :: "'p option"

record ('c, 'p, 'w) http_ext =
  x_env_var :: "string \<Rightarrow> 'w \<Rightarrow> string res"
  x_proxy_http :: "string \<Rightarrow> 'p res"
  x_build :: "'p client_builder \<Rightarrow> 'c res"
  x_send :: "'c \<Rightarrow> http_request \<Rightarrow> 'w \<Rightarrow> http_response res \<times> 'w"
  x_url_parse :: "string \<Rightarrow> (string option \<times> u16 option) res"
  x_lookup_host :: "string \<Rightarrow> 'w \<Rightarrow> string list res \<times> 'w"

record 'c net_client =
  client :: 'c
  base_url :: "string option"

record get_data_with_ip_response =
  gr_body :: string
  gr_domain_ips :: "string list"

record post_data_with_ip_response =
  pr_body :: string
  pr_domain_ips :: "string list"

section \<open>Operations\<close>

definition net_client_new ::
  "('c, 'p, 'w) http_ext \<Rightarrow> string option \<Rightarrow> bool \<Rightarrow> 'w \<Rightarrow> 'c net_client res" where
  "net_client_new X burl disable_ssl w =
     (let b = \<lparr>cb_timeout = 10, cb_accept_invalid_certs = disable_ssl, cb_proxy = None\<rparr>;
          b' = (case x_env_var X ''HTTP_PROXY'' w of
                  Inl _ \<Rightarrow> Inr b
                | Inr proxy_url \<Rightarrow>
                    (case x_proxy_http X proxy_url of
                       Inl e \<Rightarrow> Inl (''Failed to set proxy: '' @ e)
                     | Inr p \<Rightarrow> Inr (b\<lparr>cb_proxy := Some p\<rparr>)))
      in case b' of
           Inl e \<Rightarrow> Inl e
         | Inr b \<Rightarrow>
             (case x_build X b of
                Inl e \<Rightarrow> Inl (''Failed to create client: '' @ e)
              | Inr c \<Rightarrow> Inr \<lparr>client = c, base_url = burl\<rparr>))"

definition json_headers :: "(string \<times> string) list" where
  "json_headers = [(''Content-Type'', ''application/json''), (''Accept'', ''application/json'')]"

definition auth_headers :: "string option \<Rightarrow> (string \<times> string) list" where
  "auth_headers token = (case token of None \<Rightarrow> [] | Some t \<Rightarrow> [(''Authorization'', t)])"

definition post_request :: "string \<Rightarrow> string \<Rightarrow> nat \<Rightarrow> string option \<Rightarrow> http_request" where
  "post_request url json_data timeout token =
     \<lparr>rq_method = POST, rq_url = url, rq_headers = json_headers @ auth_headers token,
      rq_timeout = timeout, rq_body = Some json_data\<rparr>"

definition get_request :: "string \<Rightarrow> nat \<Rightarrow> string option \<Rightarrow> http_request" where
  "get_request url timeout token =
     \<lparr>rq_method = GET, rq_url = url,
      rq_headers = [(''Accept'', ''application/json'')] @ auth_headers token,
      rq_timeout = timeout, rq_body = None\<rparr>"

definition post_data_async ::
  "('c, 'p, 'w) http_ext \<Rightarrow> 'c net_client \<Rightarrow> string \<Rightarrow> string \<Rightarrow> nat \<Rightarrow> string option
     \<Rightarrow> ('w, string res) state" where
  "post_data_async X c url json_data timeout token = do {
     response \<leftarrow> State (x_send X (client c) (post_request url json_data timeout token));
     State_Monad.return
       (case response of
          Inr r \<Rightarrow>
            (case rs_text r of
               Inl e \<Rightarrow> Inl (''Failed to read response text: '' @ e)
             | Inr txt \<Rightarrow>
                 if st_success r then Inr txt
                 else if st_client_error r then Inr txt
                 else Inl (''POST request failed with status: '' @ st_display r @ '' - '' @ txt))
        | Inl e \<Rightarrow> Inl (''Failed to send POST request: '' @ e))
   }"

definition get_data_async ::
  "('c, 'p, 'w) http_ext \<Rightarrow> 'c net_client \<Rightarrow> string \<Rightarrow> nat \<Rightarrow> string option
     \<Rightarrow> ('w, string res) state" where
  "get_data_async X c url timeout token = do {
     resp \<leftarrow> State (x_send X (client c) (get_request url timeout token));
     State_Monad.return
       (case resp of
          Inr r \<Rightarrow>
            (case rs_text r of
               Inl e \<Rightarrow> Inl (''Failed to read response: '' @ e)
             | Inr txt \<Rightarrow>
                 if st_success r then Inr txt
                 else Inl (''GET failed '' @ st_display r @ '': '' @ txt))
        | Inl e \<Rightarrow> Inl (''Request failed: '' @ e))
   }"

text \<open>The first half of the two \<^verbatim>\<open>..._with_ip_async\<close> operations: the addresses of the URL's
  host, looked up with port 80 when the URL names none.\<close>

definition resolve_domain :: "('c, 'p, 'w) http_ext \<Rightarrow> string \<Rightarrow> ('w, string list res) state" where
  "resolve_domain X url =
     (case x_url_parse X url of
        Inl e \<Rightarrow> State_Monad.return (Inl (utf8 [85, 82, 76, 32, 232, 167, 163, 230, 158, 144, 229, 164, 177, 232, 180, 165, 58, 32] @ e))
      | Inr (None, _) \<Rightarrow> State_Monad.return (Inl (utf8 [85, 82, 76, 32, 228, 184, 173, 230, 178, 161, 230, 156, 137, 229, 159, 159, 229, 144, 141]))
      | Inr (Some domain, port) \<Rightarrow> do {
          ips \<leftarrow> State (x_lookup_host X
                  (domain @ '':'' @ (case port of None \<Rightarrow> show_nat 80 | Some p \<Rightarrow> show_word p)));
          State_Monad.return (case ips of Inl e \<Rightarrow> Inl (utf8 [68, 78, 83, 32, 232, 167, 163, 230, 158, 144, 229, 164, 177, 232, 180, 165, 58, 32] @ e) | Inr l \<Rightarrow> Inr l)
        })"

definition get_data_with_ip_async ::
  "('c, 'p, 'w) http_ext \<Rightarrow> 'c net_client \<Rightarrow> string \<Rightarrow> nat \<Rightarrow> string option
     \<Rightarrow> ('w, get_data_with_ip_response res) state" where
  "get_data_with_ip_async X c url timeout token = do {
     d \<leftarrow> resolve_domain X url;
     (case d of
        Inl e \<Rightarrow> State_Monad.return (Inl e)
      | Inr ips \<Rightarrow> do {
          resp \<leftarrow> State (x_send X (client c) (get_request url timeout token));
          State_Monad.return
            (case resp of
               Inr r \<Rightarrow>
                 (case rs_text r of
                    Inl e \<Rightarrow> Inl (''Failed to read response: '' @ e)
                  | Inr txt \<Rightarrow>
                      if st_success r then Inr \<lparr>gr_body = txt, gr_domain_ips = ips\<rparr>
                      else Inl (''GET failed '' @ st_display r @ '': '' @ txt))
             | Inl e \<Rightarrow> Inl (''Request failed: '' @ e))
        })
   }"

definition download_file_async ::
  "('c, 'p, 'w) http_ext \<Rightarrow> 'c net_client \<Rightarrow> string \<Rightarrow> nat \<Rightarrow> string option
     \<Rightarrow> ('w, string res) state" where
  "download_file_async X c url timeout token = do {
     response \<leftarrow> State (x_send X (client c)
        \<lparr>rq_method = GET, rq_url = url, rq_headers = auth_headers token,
         rq_timeout = timeout, rq_body = None\<rparr>);
     State_Monad.return
       (case response of
          Inl e \<Rightarrow> Inl (utf8 [232, 175, 183, 230, 177, 130, 229, 164, 177, 232, 180, 165, 58, 32] @ e)
        | Inr r \<Rightarrow>
            if \<not> st_success r
            then Inl (utf8 [228, 184, 139, 232, 189, 189, 229, 164, 177, 232, 180, 165, 32, 40, 72, 84, 84, 80, 32] @ st_display r @ ''): '' @
                   (case rs_text r of Inl _ \<Rightarrow> utf8 [60, 230, 151, 160, 230, 179, 149, 232, 175, 187, 229, 143, 150, 233, 148, 153, 232, 175, 175, 228, 191, 161, 230, 129, 175, 62] | Inr t \<Rightarrow> t))
            else (case rs_bytes r of
                    Inl e \<Rightarrow> Inl (utf8 [232, 175, 187, 229, 143, 150, 229, 147, 141, 229, 186, 148, 230, 149, 176, 230, 141, 174, 229, 164, 177, 232, 180, 165, 58, 32] @ e)
                  | Inr bytes \<Rightarrow> Inr bytes))
   }"

definition post_data_with_ip_async ::
  "('c, 'p, 'w) http_ext \<Rightarrow> 'c net_client \<Rightarrow> string \<Rightarrow> string \<Rightarrow> nat \<Rightarrow> string option
     \<Rightarrow> ('w, post_data_with_ip_response res) state" where
  "post_data_with_ip_async X c url json_data timeout token = do {
     d \<leftarrow> resolve_domain X url;
     (case d of
        Inl e \<Rightarrow> State_Monad.return (Inl e)
      | Inr ips \<Rightarrow> do {
          resp \<leftarrow> State (x_send X (client c) (post_request url json_data timeout token));
          State_Monad.return
            (case resp of
               Inr r \<Rightarrow>
                 (case rs_text r of
                    Inl e \<Rightarrow> Inl (''Failed to read response: '' @ e)
                  | Inr txt \<Rightarrow>
                      if st_success r \<or> st_client_error r
                      then Inr \<lparr>pr_body = txt, pr_domain_ips = ips\<rparr>
                      else Inl (''POST failed '' @ st_display r @ '': '' @ txt))
             | Inl e \<Rightarrow> Inl (''Request failed: '' @ e))
        })
   }"

definition get_base_url :: "'c net_client \<Rightarrow> string option" where
  "get_base_url c = base_url c"

section \<open>What the operations return\<close>

lemma post_data_async_run:
  "run_state (post_data_async X c url d t tok) w =
     (case x_send X (client c) (post_request url d t tok) w of
        (Inl e, w') \<Rightarrow> (Inl (''Failed to send POST request: '' @ e), w')
      | (Inr r, w') \<Rightarrow>
          ((case rs_text r of
              Inl e \<Rightarrow> Inl (''Failed to read response text: '' @ e)
            | Inr txt \<Rightarrow>
                if st_success r \<or> st_client_error r then Inr txt
                else Inl (''POST request failed with status: '' @ st_display r @ '' - '' @ txt)), w'))"
  by (auto simp: post_data_async_def split: prod.splits sum.splits)

lemma auth_header_iff:
  "(''Authorization'', v) \<in> set (rq_headers (post_request url d t tok)) \<longleftrightarrow> tok = Some v"
  by (auto simp: post_request_def json_headers_def auth_headers_def split: option.splits)

text \<open>A POST hands its caller the response body exactly when a response arrived, its
  body could be read and its status is a success or a client error (a 4xx answer is not an
  error for the caller); one request is sent, carrying the token as the only
  \<^verbatim>\<open>Authorization\<close> header.\<close>

theorem post_data_async_ok_iff:
  "(fst (run_state (post_data_async X c url d t tok) w) = Inr body \<longleftrightarrow>
     (\<exists>r. fst (x_send X (client c) (post_request url d t tok) w) = Inr r \<and> rs_text r = Inr body
        \<and> (st_success r \<or> st_client_error r)))
   \<and> snd (run_state (post_data_async X c url d t tok) w)
       = snd (x_send X (client c) (post_request url d t tok) w)
   \<and> {v. (''Authorization'', v) \<in> set (rq_headers (post_request url d t tok))}
       = (case tok of None \<Rightarrow> {} | Some v \<Rightarrow> {v})"
proof -
  have hdr: "{v. (''Authorization'', v) \<in> set (rq_headers (post_request url d t tok))}
      = (case tok of None \<Rightarrow> {} | Some v \<Rightarrow> {v})"
    by (auto simp: auth_header_iff split: option.splits)
  have "snd (run_state (post_data_async X c url d t tok) w)
       = snd (x_send X (client c) (post_request url d t tok) w)"
    by (auto simp: post_data_async_run split: prod.splits sum.splits)
  moreover have "fst (run_state (post_data_async X c url d t tok) w) = Inr body \<longleftrightarrow>
     (\<exists>r. fst (x_send X (client c) (post_request url d t tok) w) = Inr r \<and> rs_text r = Inr body
        \<and> (st_success r \<or> st_client_error r))"
    by (auto simp: post_data_async_run split: prod.splits sum.splits)
  ultimately show ?thesis using hdr by blast
qed

end
