(* ===== verification/Jump_Utils.thy ===== *)
theory Jump_Utils
  imports Json Net_Client "HOL-Library.List_Lexorder" "HOL-Library.Char_ord"
begin

text \<open>
  \<^verbatim>\<open>crates/rules_jump_mgr/src/utils.rs\<close>: running external commands, the two netmask
  conversions, and what the address-jump feature reads from the output of \<^verbatim>\<open>ip\<close>.

  Parameters (record \<open>sys_ext\<close>): starting a process and waiting for it, the \<^verbatim>\<open>regex\<close> and
  \<^verbatim>\<open>ipnet\<close> packages, reading a file. Text output is what \<^verbatim>\<open>from_utf8_lossy\<close> gives. The state
  \<open>sys_state\<close> is the world outside plus a record of what was done to it: the commands run and
  the documents posted, in order. Components extend it with their own fields.
\<close>

section \<open>The system underneath\<close>

record proc_output =
  po_success :: bool
  po_stdout :: string
  po_stderr :: string

record proc_status =
  ps_success :: bool
  ps_display :: string

record 'w sys_ext =
  x_output :: "string \<Rightarrow> string list \<Rightarrow> 'w \<Rightarrow> proc_output res \<times> 'w"
  x_status :: "string \<Rightarrow> string list \<Rightarrow> 'w \<Rightarrow> proc_status res \<times> 'w"
  x_captures :: "string \<Rightarrow> string \<Rightarrow> string list option"
  x_ipv4net :: "string \<Rightarrow> (ipv4 \<times> u8) res"
  x_net_contains :: "ipv4 \<times> u8 \<Rightarrow> ipv4 \<Rightarrow> bool"
  x_read_file :: "string \<Rightarrow> 'w \<Rightarrow> string res"

record 'w sys_state =
  os :: 'w
  cmd_log :: "(string \<times> string list) list"
  post_log :: "(string \<times> string) list"

definition exec_output ::
  "'w sys_ext \<Rightarrow> string \<Rightarrow> string list \<Rightarrow> (('w, 'z) sys_state_scheme, proc_output res) state" where
  "exec_output X cmd args = State (\<lambda>s.
     case x_output X cmd args (os s) of
       (r, w) \<Rightarrow> (r, s\<lparr>os := w, cmd_log := cmd_log s @ [(cmd, args)]\<rparr>))"

definition exec_status ::
  "'w sys_ext \<Rightarrow> string \<Rightarrow> string list \<Rightarrow> (('w, 'z) sys_state_scheme, proc_status res) state" where
  "exec_status X cmd args = State (\<lambda>s.
     case x_status X cmd args (os s) of
       (r, w) \<Rightarrow> (r, s\<lparr>os := w, cmd_log := cmd_log s @ [(cmd, args)]\<rparr>))"

section \<open>Commands\<close>

definition run_cmd_capture ::
  "'w sys_ext \<Rightarrow> string \<Rightarrow> string list \<Rightarrow> (('w, 'z) sys_state_scheme, string res) state" where
  "run_cmd_capture X cmd args = do {
     r \<leftarrow> exec_output X cmd args;
     State_Monad.return
       (case r of
          Inl e \<Rightarrow> Inl (''failed exec '' @ cmd @ '' '' @ debug_list args @ '': '' @ e)
        | Inr output \<Rightarrow>
            if \<not> po_success output
            then Inl (cmd @ '' '' @ debug_list args @ '' failed: '' @ po_stderr output)
            else Inr (po_stdout output))
   }"

definition run_cmd_status ::
  "'w sys_ext \<Rightarrow> string \<Rightarrow> string list \<Rightarrow> (('w, 'z) sys_state_scheme, unit res) state" where
  "run_cmd_status X cmd args = do {
     r \<leftarrow> exec_status X cmd args;
     State_Monad.return
       (case r of
          Inl e \<Rightarrow> Inl (''failed exec '' @ cmd @ '' '' @ debug_list args @ '': '' @ e)
        | Inr status \<Rightarrow>
            if \<not> ps_success status
            then Inl (cmd @ '' '' @ debug_list args @ '' exit code: '' @ ps_display status)
            else Inr ())
   }"

section \<open>Netmasks and prefixes\<close>

definition count_ones :: "u32 \<Rightarrow> nat" where
  "count_ones w = length (filter (\<lambda>i. bit w i) [0..<32])"

definition netmask_to_prefix :: "string \<Rightarrow> u8 res" where
  "netmask_to_prefix netmask =
     (case parse_ipv4 netmask of
        None \<Rightarrow> Inl ''invalid IPv4 address syntax''
      | Some ip \<Rightarrow> Inr (of_nat (count_ones (ipv4_to_u32 ip))))"

definition prefix_mask :: "u8 \<Rightarrow> u32" where
  "prefix_mask p = (if p = 0 then 0 else push_bit (32 - unat p) (- 1))"

definition prefix_to_netmask :: "u8 \<Rightarrow> string res" where
  "prefix_to_netmask p =
     (if 32 < p then Inl ''invalid prefix''
      else
        let mask = prefix_mask p;
            a = ucast (drop_bit 24 mask AND 0xFF) :: u8;
            b = ucast (drop_bit 16 mask AND 0xFF) :: u8;
            c = ucast (drop_bit 8 mask AND 0xFF) :: u8;
            d = ucast (mask AND 0xFF) :: u8
        in Inr (show_ipv4 (a, b, c, d)))"

definition parse_cidr :: "'w sys_ext \<Rightarrow> string \<Rightarrow> (string \<times> u8) res" where
  "parse_cidr X cidr =
     (case x_ipv4net X cidr of
        Inl e \<Rightarrow> Inl e
      | Inr (addr, plen) \<Rightarrow> Inr (show_ipv4 addr, plen))"

section \<open>Addresses of the host\<close>

definition ip_exists_on_iface ::
  "'w sys_ext \<Rightarrow> string \<Rightarrow> string \<Rightarrow> (('w, 'z) sys_state_scheme, bool) state" where
  "ip_exists_on_iface X iface ip = do {
     r \<leftarrow> run_cmd_capture X ''ip'' [''-4'', ''addr'', ''show'', ''dev'', iface];
     State_Monad.return (case r of Inr out \<Rightarrow> str_contains ip out | Inl _ \<Rightarrow> False)
   }"

definition re_inet :: string where
  "re_inet = ''inet'' @ [CHR 0x5C] @ ''s+('' @ [CHR 0x5C] @ ''d+'' @ [CHR 0x5C] @ ''.'' @ [CHR 0x5C] @ ''d+''
     @ [CHR 0x5C] @ ''.'' @ [CHR 0x5C] @ ''d+'' @ [CHR 0x5C] @ ''.'' @ [CHR 0x5C] @ ''d+)/'' @ [CHR 0x5C] @ ''d+''"

definition re_src :: string where
  "re_src = ''src'' @ [CHR 0x5C] @ ''s+('' @ [CHR 0x5C] @ ''d+'' @ [CHR 0x5C] @ ''.'' @ [CHR 0x5C] @ ''d+''
     @ [CHR 0x5C] @ ''.'' @ [CHR 0x5C] @ ''d+'' @ [CHR 0x5C] @ ''.'' @ [CHR 0x5C] @ ''d+)''"

definition usable_ip :: "string \<Rightarrow> bool" where
  "usable_ip ip \<longleftrightarrow> ip \<noteq> ''127.0.0.1'' \<and> \<not> starts_with ''169.254.'' ip"

text \<open>The addresses captured (group 1) on the lines of one \<^verbatim>\<open>ip addr\<close> listing.\<close>

definition captured_ips :: "'w sys_ext \<Rightarrow> string \<Rightarrow> string \<Rightarrow> string list" where
  "captured_ips X re out =
     concat (map (\<lambda>l. case x_captures X re l of None \<Rightarrow> [] | Some g \<Rightarrow> [g ! 1]) (str_lines out))"

definition fallback_ips ::
  "'w sys_ext \<Rightarrow> string list \<Rightarrow> (('w, 'z) sys_state_scheme, string list) state" where
  "fallback_ips X ips =
     (if ips = [] then do {
        r \<leftarrow> run_cmd_capture X ''ip'' [''route'', ''get'', ''1.1.1.1''];
        State_Monad.return
          (case r of
             Inl _ \<Rightarrow> []
           | Inr out \<Rightarrow>
               (case x_captures X re_src out of
                  None \<Rightarrow> []
                | Some g \<Rightarrow> if usable_ip (g ! 1) then [g ! 1] else []))
      } else State_Monad.return ips)"

definition get_local_ip :: "'w sys_ext \<Rightarrow> (('w, 'z) sys_state_scheme, string option) state" where
  "get_local_ip X = do {
     r \<leftarrow> run_cmd_capture X ''ip'' [''-o'', ''-4'', ''addr'', ''show'', ''scope'', ''global''];
     ips \<leftarrow> fallback_ips X
        (case r of Inl _ \<Rightarrow> [] | Inr out \<Rightarrow> filter usable_ip (captured_ips X re_inet out));
     State_Monad.return
       (case remdups_adj (sort ips) of [] \<Rightarrow> None | ip # _ \<Rightarrow> Some ip)
   }"

definition get_local_ips_exclude ::
  "'w sys_ext \<Rightarrow> string \<Rightarrow> (('w, 'z) sys_state_scheme, string list) state" where
  "get_local_ips_exclude X excluded_ip = do {
     r \<leftarrow> run_cmd_capture X ''ip'' [''-o'', ''-4'', ''addr'', ''show'', ''scope'', ''global''];
     ips \<leftarrow> fallback_ips X
        (case r of Inl _ \<Rightarrow> []
         | Inr out \<Rightarrow> filter (\<lambda>ip. usable_ip ip \<and> ip \<noteq> excluded_ip) (captured_ips X re_inet out));
     State_Monad.return (remdups_adj (sort ips))
   }"

definition bad_ifaces :: "string list" where
  "bad_ifaces = [''lo'', ''docker'', ''veth'', ''br-'', ''cni'', ''flannel'', ''kube'', ''virbr'']"

text \<open>One line of \<^verbatim>\<open>ip -o addr show\<close>: the address of the fourth column, unless the interface of
  the second column is a virtual one.\<close>

definition line_ip :: "string \<Rightarrow> string option" where
  "line_ip line =
     (let parts = split_whitespace line in
      if length parts < 4 then None
      else if list_ex (\<lambda>bad. starts_with bad (parts ! 1)) bad_ifaces then None
      else map_option fst (split_once (CHR ''/'') (parts ! 3)))"

definition ipv6_skipped :: "string \<Rightarrow> bool" where
  "ipv6_skipped ip \<longleftrightarrow> ip = ''::1'' \<or> starts_with ''fe80:'' ip \<or> starts_with ''ff'' ip"

definition get_local_ips_all :: "'w sys_ext \<Rightarrow> (('w, 'z) sys_state_scheme, string option) state" where
  "get_local_ips_all X = do {
     out4 \<leftarrow> run_cmd_capture X ''ip'' [''-o'', ''-4'', ''addr'', ''show''];
     out6 \<leftarrow> run_cmd_capture X ''ip'' [''-o'', ''-6'', ''addr'', ''show''];
     let ips4 = (case out4 of Inl _ \<Rightarrow> [] | Inr out \<Rightarrow> List.map_filter line_ip (str_lines out));
         ips6 = (case out6 of Inl _ \<Rightarrow> []
                 | Inr out \<Rightarrow> filter (\<lambda>ip. \<not> ipv6_skipped ip) (List.map_filter line_ip (str_lines out)));
         ips = ips4 @ ips6
     in State_Monad.return (if ips = [] then None else Some (join '','' ips))
   }"

definition hex_upper :: "nat \<Rightarrow> char" where
  "hex_upper n = (if n < 10 then char_of (48 + n) else char_of (55 + n))"

definition hex2 :: "u8 \<Rightarrow> string" where
  "hex2 w = [hex_upper (unat w div 16), hex_upper (unat w mod 16)]"

definition has_established_connection :: "'w sys_ext \<Rightarrow> 'w \<Rightarrow> string \<Rightarrow> bool" where
  "has_established_connection X w target_ip =
     (case x_read_file X ''/proc/net/tcp'' w of
        Inl _ \<Rightarrow> False
      | Inr content \<Rightarrow>
          (case parse_ipv4 target_ip of
             None \<Rightarrow> False
           | Some (a, b, c, d) \<Rightarrow>
               let hex = hex2 d @ hex2 c @ hex2 b @ hex2 a in
               list_ex (\<lambda>line. let fields = split_whitespace line in
                   3 < length fields \<and> starts_with hex (fields ! 2) \<and> fields ! 3 = ''01'')
                 (drop 1 (str_lines content))))"

section \<open>What commands leave alone\<close>

text \<open>A predicate that does not look at the world and stays true when the command log grows is
  kept by every command; one that does not look at the posts either is kept by every request.\<close>

definition cmd_blind :: "(('w, 'z) sys_state_scheme \<Rightarrow> bool) \<Rightarrow> bool" where
  "cmd_blind P \<longleftrightarrow> (\<forall>s w cs. P s \<longrightarrow> P (s\<lparr>os := w, cmd_log := cmd_log s @ cs\<rparr>))"

definition sys_blind :: "(('w, 'z) sys_state_scheme \<Rightarrow> bool) \<Rightarrow> bool" where
  "sys_blind P \<longleftrightarrow> cmd_blind P \<and> (\<forall>s pl. P s \<longrightarrow> P (s\<lparr>post_log := pl\<rparr>))"

lemma sys_blind_cmd_blind [simp]: "sys_blind P \<Longrightarrow> cmd_blind P"
  by (simp add: sys_blind_def)

lemma cmd_blind_cmd: "cmd_blind P \<Longrightarrow> P s \<Longrightarrow> P (s\<lparr>os := w, cmd_log := cmd_log s @ cs\<rparr>)"
  by (simp add: cmd_blind_def)

lemma cmd_blind_os: "cmd_blind P \<Longrightarrow> P s \<Longrightarrow> P (s\<lparr>os := w\<rparr>)"
  using cmd_blind_cmd [of P s "[]" w] by simp

lemma sys_blind_post: "sys_blind P \<Longrightarrow> P s \<Longrightarrow> P (s\<lparr>post_log := pl\<rparr>)"
  by (simp add: sys_blind_def)

lemma cmd_blind_post_log [simp]: "cmd_blind (\<lambda>s. post_log s = l)"
  by (simp add: cmd_blind_def)

lemma sys_blind_cmd_log [simp]: "sys_blind (\<lambda>s. prefix l (cmd_log s))"
  by (simp add: sys_blind_def cmd_blind_def)

lemma keeps_exec_output: "cmd_blind P \<Longrightarrow> keeps P (exec_output X cmd args)"
  by (auto simp: keeps_def exec_output_def cmd_blind_cmd split: prod.splits)

lemma keeps_exec_status: "cmd_blind P \<Longrightarrow> keeps P (exec_status X cmd args)"
  by (auto simp: keeps_def exec_status_def cmd_blind_cmd split: prod.splits)

lemma keeps_run_cmd_capture [keep_intros]: "cmd_blind P \<Longrightarrow> keeps P (run_cmd_capture X cmd args)"
  unfolding run_cmd_capture_def by (intro keep_intros keeps_exec_output)

lemma keeps_run_cmd_status [keep_intros]: "cmd_blind P \<Longrightarrow> keeps P (run_cmd_status X cmd args)"
  unfolding run_cmd_status_def by (intro keep_intros keeps_exec_status)

lemma keeps_ip_exists [keep_intros]: "cmd_blind P \<Longrightarrow> keeps P (ip_exists_on_iface X iface ip)"
  unfolding ip_exists_on_iface_def by (intro keep_intros)

lemma keeps_get_local_ips_exclude [keep_intros]: "cmd_blind P \<Longrightarrow> keeps P (get_local_ips_exclude X ip)"
  unfolding get_local_ips_exclude_def fallback_ips_def by (intro keep_intros)

lemma keeps_get_local_ips_all [keep_intros]: "cmd_blind P \<Longrightarrow> keeps P (get_local_ips_all X)"
  unfolding get_local_ips_all_def Let_def by (intro keep_intros)

text \<open>Every command appends to the log.\<close>

lemma run_cmd_status_log:
  "run_state (run_cmd_status X cmd args) s = (r, s') \<Longrightarrow> cmd_log s' = cmd_log s @ [(cmd, args)]"
  by (auto simp: run_cmd_status_def exec_status_def split: prod.splits)

lemma run_cmd_capture_log:
  "run_state (run_cmd_capture X cmd args) s = (r, s') \<Longrightarrow> cmd_log s' = cmd_log s @ [(cmd, args)]"
  by (auto simp: run_cmd_capture_def exec_output_def split: prod.splits)

section \<open>Properties\<close>

lemma ff_mask: "(0xFF :: u32) = mask 8" by (simp add: mask_eq_exp_minus_1)

lemma ipv4_octets_u32:
  fixes m :: u32
  shows "ipv4_to_u32 (ucast (drop_bit 24 m AND 0xFF), ucast (drop_bit 16 m AND 0xFF),
     ucast (drop_bit 8 m AND 0xFF), ucast (m AND 0xFF)) = m"
proof (rule bit_word_eqI)
  fix n assume n: "n < LENGTH(32)"
  note bits = bit_or_iff bit_push_bit_iff bit_unsigned_iff bit_and_iff bit_drop_bit_eq bit_mask_iff
  consider "n < 8" | "8 \<le> n" "n < 16" | "16 \<le> n" "n < 24" | "24 \<le> n" by linarith
  then show "bit (ipv4_to_u32 (ucast (drop_bit 24 m AND 0xFF), ucast (drop_bit 16 m AND 0xFF),
     ucast (drop_bit 8 m AND 0xFF), ucast (m AND 0xFF))) n = bit m n"
  proof cases
    case 1 then show ?thesis unfolding ff_mask by (simp add: bits)
  next
    case 2 then have "n - 8 < 8" by simp
    with 2 show ?thesis unfolding ff_mask by (simp add: bits)
  next
    case 3 then have "n - 16 < 8" "\<not> n - 8 < 8" by simp_all
    with 3 show ?thesis unfolding ff_mask by (simp add: bits)
  next
    case 4 then have "n - 24 < 8" "\<not> n - 16 < 8" "\<not> n - 8 < 8" using n by simp_all
    with 4 n show ?thesis unfolding ff_mask by (simp add: bits)
  qed
qed

lemma count_ones_prefix_mask: "p \<le> 32 \<Longrightarrow> count_ones (prefix_mask p) = unat p"
proof -
  assume p: "p \<le> 32"
  then have u: "unat p \<le> 32" by (simp add: word_le_nat_alt)
  show ?thesis
  proof (cases "p = 0")
    case True then show ?thesis by (simp add: count_ones_def prefix_mask_def)
  next
    case False
    have "filter (\<lambda>i. bit (prefix_mask p) i) [0..<32] = filter (\<lambda>i. 32 - unat p \<le> i) [0..<32]"
      using False by (intro filter_cong) (auto simp: prefix_mask_def bit_push_bit_iff bit_not_iff bit_mask_iff)
    also have "\<dots> = [32 - unat p..<32]"
    proof -
      have "[0..<32] = [0..<32 - unat p] @ [32 - unat p..<32]" using upt_add_eq_append [of 0 "32 - unat p" "unat p"] u by simp
      then show ?thesis by (simp only: filter_append) (simp add: filter_empty_conv filter_id_conv)
    qed
    finally show ?thesis using u by (simp add: count_ones_def)
  qed
qed
text \<open>On the prefix lengths of IPv4 the two conversions are inverse: the dotted netmask
  printed for a prefix exists, parses back, and its bit count is that prefix; every longer
  prefix is rejected.\<close>

theorem netmask_prefix_roundtrip:
  "(p \<le> 32 \<longrightarrow> (\<exists>m. prefix_to_netmask p = Inr m \<and> netmask_to_prefix m = Inr p))
   \<and> (32 < p \<longrightarrow> prefix_to_netmask p = Inl ''invalid prefix'')"
proof -
  have "netmask_to_prefix (show_ipv4 (ucast (drop_bit 24 (prefix_mask p) AND 0xFF),
      ucast (drop_bit 16 (prefix_mask p) AND 0xFF), ucast (drop_bit 8 (prefix_mask p) AND 0xFF),
      ucast (prefix_mask p AND 0xFF))) = Inr p" if "p \<le> 32"
    by (simp only: netmask_to_prefix_def parse_show_ipv4 option.case ipv4_octets_u32
        count_ones_prefix_mask [OF that]) simp
  then show ?thesis by (auto simp: prefix_to_netmask_def Let_def)
qed

theorem netmask_prefix_roundtrip_witness:
  "prefix_to_netmask 24 = Inr ''255.255.255.0'' \<and> netmask_to_prefix ''255.255.255.0'' = Inr 24
   \<and> prefix_to_netmask 33 = Inl ''invalid prefix''"
proof -
  have m: "prefix_to_netmask 24 = Inr ''255.255.255.0''" by code_simp
  show ?thesis using netmask_prefix_roundtrip [of 24] netmask_prefix_roundtrip [of 33] m by simp
qed

end
