(* ===== verification/Snapman.thy ===== *)
theory Snapman
  imports Jump_Utils
begin

text \<open>
  \<^verbatim>\<open>crates/snapman/src/lib.rs\<close>: snapshots of the logical volumes of the host, through the commands
  \<^verbatim>\<open>vgs\<close>, \<^verbatim>\<open>lvs\<close>, \<^verbatim>\<open>lvcreate\<close>, \<^verbatim>\<open>lvconvert\<close> and \<^verbatim>\<open>lvremove\<close>. The arithmetic on \<^verbatim>\<open>f64\<close> is a parameter
  (record \<open>f64_ext\<close>): reading a decimal text and rounding it up to gigabytes, and a tenth of a
  number of gigabytes rounded up. Listing the snapshots only prints and is not part of the model.
\<close>

section \<open>Data\<close>

record lv_info =
  lv_name :: string
  lv_vg :: string
  lv_origin :: "string option"

text \<open>\<^verbatim>\<open>x.parse::<f64>()\<close> and what the code makes of it: \<^verbatim>\<open>ceil\<close>, \<^verbatim>\<open>(x / 1024.0).ceil()\<close>,
  \<^verbatim>\<open>(x * 1024.0).ceil()\<close>, and \<^verbatim>\<open>(n as f64 * 0.1).ceil()\<close>.\<close>

record f64_ext =
  f64_ceil :: "string \<Rightarrow> u64 option"
  f64_ceil_div_1024 :: "string \<Rightarrow> u64 option"
  f64_ceil_mul_1024 :: "string \<Rightarrow> u64 option"
  f64_tenth :: "u64 \<Rightarrow> u64"

section \<open>Volumes\<close>

definition get_vg_name :: "'w sys_ext \<Rightarrow> (('w, 'z) sys_state_scheme, string res) state" where
  "get_vg_name X =
     tryE (exec_output X ''vgs'' [''--noheadings'', ''-o'', ''vg_name'']) (\<lambda>output.
       let vg_name = trim (po_stdout output)
       in State_Monad.return (if vg_name = [] then Inl (utf8 [230, 156, 170, 230, 137, 190, 229, 136, 176, 229, 141, 183, 231, 187, 132, 229, 144, 141, 231, 167, 176]) else Inr vg_name))"

definition parse_lv :: "string \<Rightarrow> lv_info option" where
  "parse_lv line =
     (let parts = split_whitespace line in
      if 2 \<le> length parts
      then Some \<lparr>lv_name = parts ! 0, lv_vg = parts ! 1,
                 lv_origin = (if 3 \<le> length parts \<and> parts ! 2 \<noteq> [] then Some (parts ! 2) else None)\<rparr>
      else None)"

definition lvs_args :: "string list" where
  "lvs_args = [''--noheadings'', ''-o'', ''lv_name,vg_name,origin'']"

definition lvs_of :: "string \<Rightarrow> lv_info list" where
  "lvs_of out = List.map_filter parse_lv (str_lines out)"

definition list_lvs :: "'w sys_ext \<Rightarrow> (('w, 'z) sys_state_scheme, lv_info list res) state" where
  "list_lvs X = tryE (exec_output X ''lvs'' lvs_args) (\<lambda>output. State_Monad.return (Inr (lvs_of (po_stdout output))))"

definition dev_path :: "lv_info \<Rightarrow> string" where
  "dev_path lv = ''/dev/'' @ lv_vg lv @ ''/'' @ lv_name lv"

section \<open>Sizes\<close>

definition is_dot :: "char \<Rightarrow> bool" where "is_dot c \<longleftrightarrow> c = CHR ''.''"

definition parse_size_to_gb :: "f64_ext \<Rightarrow> string \<Rightarrow> u64 res" where
  "parse_size_to_gb N size_str =
     (let cleaned = dropWhile (\<lambda>c. \<not> is_digit c \<and> \<not> is_dot c) (trim size_str) in
      if cleaned = [] then Inl (utf8 [230, 184, 133, 231, 144, 134, 229, 144, 142, 229, 164, 167, 229, 176, 143, 228, 184, 186, 231, 169, 186, 58, 32] @ size_str)
      else
        let s = to_lowercase cleaned;
            num = (\<lambda>unit. trim_end_char unit s);
            err = (\<lambda>name unit. Inl (utf8 [230, 151, 160, 230, 179, 149, 232, 167, 163, 230, 158, 144, 32] @ name @ utf8 [32, 230, 149, 176, 229, 128, 188, 58, 32, 39] @ num unit @ [CHR 0x27]))
        in if ends_with ''g'' s
           then (case f64_ceil N (num (CHR ''g'')) of Some v \<Rightarrow> Inr v | None \<Rightarrow> err ''GB'' (CHR ''g''))
           else if ends_with ''m'' s
           then (case f64_ceil_div_1024 N (num (CHR ''m'')) of Some v \<Rightarrow> Inr v | None \<Rightarrow> err ''MB'' (CHR ''m''))
           else if ends_with ''t'' s
           then (case f64_ceil_mul_1024 N (num (CHR ''t'')) of Some v \<Rightarrow> Inr v | None \<Rightarrow> err ''TB'' (CHR ''t''))
           else Inl (utf8 [230, 151, 160, 230, 179, 149, 232, 167, 163, 230, 158, 144, 229, 164, 167, 229, 176, 143, 239, 188, 136, 230, 156, 170, 231, 159, 165, 229, 141, 149, 228, 189, 141, 239, 188, 137, 58, 32, 39] @ size_str @ [CHR 0x27]))"

fun find_free :: "f64_ext \<Rightarrow> string \<Rightarrow> u64 \<Rightarrow> string list \<Rightarrow> unit res" where
  "find_free N vg required_gb [] = Inl (utf8 [230, 156, 170, 230, 137, 190, 229, 136, 176, 229, 141, 183, 231, 187, 132, 32] @ vg)"
| "find_free N vg required_gb (line # ls) =
     (let parts = split_whitespace line in
      if 2 \<le> length parts \<and> parts ! 0 = vg
      then (case parse_size_to_gb N (parts ! 1) of
              Inl e \<Rightarrow> Inl e
            | Inr free_gb \<Rightarrow>
                if free_gb < required_gb
                then Inl (utf8 [229, 141, 183, 231, 187, 132, 32] @ vg @ utf8 [32, 229, 137, 169, 228, 189, 153, 231, 169, 186, 233, 151, 180, 228, 184, 141, 232, 182, 179, 58, 32, 233, 156, 128, 232, 166, 129, 32] @ show_word required_gb
                       @ utf8 [71, 239, 188, 140, 229, 189, 147, 229, 137, 141, 229, 143, 175, 231, 148, 168, 32] @ show_word free_gb @ ''G'')
                else Inr ())
      else find_free N vg required_gb ls)"

definition check_free_space ::
  "'w sys_ext \<Rightarrow> f64_ext \<Rightarrow> string \<Rightarrow> string \<Rightarrow> (('w, 'z) sys_state_scheme, unit res) state" where
  "check_free_space X N vg required_size =
     (case parse_size_to_gb N required_size of
        Inl e \<Rightarrow> State_Monad.return (Inl e)
      | Inr required_gb \<Rightarrow>
          tryE (exec_output X ''vgs'' [''--noheadings'', ''-o'', ''vg_name,vg_free'']) (\<lambda>vg_output.
            State_Monad.return (find_free N vg required_gb (str_lines (po_stdout vg_output)))))"

section \<open>Creating, removing and restoring\<close>

definition snap_name :: "lv_info \<Rightarrow> string \<Rightarrow> string" where
  "snap_name lv name = lv_name lv @ ''_snap_'' @ name"

definition create_cmd :: "lv_info \<Rightarrow> string \<Rightarrow> string \<Rightarrow> string \<times> string list" where
  "create_cmd lv name sz = (''lvcreate'', [''-L'', sz, ''-s'', dev_path lv, ''-n'', snap_name lv name])"

text \<open>The loop over the volumes; the accumulator is the size of the last snapshot that was created.\<close>

fun create_each ::
  "'w sys_ext \<Rightarrow> f64_ext \<Rightarrow> string \<Rightarrow> string \<Rightarrow> string \<Rightarrow> lv_info list \<Rightarrow> string option
     \<Rightarrow> (('w, 'z) sys_state_scheme, string option res) state" where
  "create_each X N vg name sz [] acc = State_Monad.return (Inr acc)"
| "create_each X N vg name sz (lv # lvs) acc =
     (if str_contains ''swap'' (lv_name lv) \<or> str_contains ''_snap'' (lv_name lv)
      then create_each X N vg name sz lvs acc
      else
        tryE (map_err (\<lambda>e. utf8 [232, 142, 183, 229, 143, 150, 229, 141, 183, 229, 164, 167, 229, 176, 143, 229, 164, 177, 232, 180, 165, 58, 32] @ e)
                (exec_output X ''lvs'' [''--noheadings'', ''-o'', ''lv_size'', lv_vg lv @ ''/'' @ lv_name lv])) (\<lambda>size_output.
        case parse_size_to_gb N (trim (po_stdout size_output)) of
          Inl e \<Rightarrow> State_Monad.return (Inl e)
        | Inr lv_size_gb \<Rightarrow>
            let size_final = (if sz = [] then show_word (f64_tenth N lv_size_gb) @ ''G'' else sz)
            in tryE (check_free_space X N vg size_final) (\<lambda>_.
               tryE (exec_status X (fst (create_cmd lv name size_final)) (snd (create_cmd lv name size_final))) (\<lambda>status.
                 create_each X N vg name sz lvs (if ps_success status then Some size_final else acc)))))"

definition create_snapshot ::
  "'w sys_ext \<Rightarrow> f64_ext \<Rightarrow> string \<Rightarrow> string \<Rightarrow> (('w, 'z) sys_state_scheme, string res) state" where
  "create_snapshot X N name sz =
     tryE (get_vg_name X) (\<lambda>vg.
     tryE (list_lvs X) (\<lambda>lvs.
     tryE (create_each X N vg name sz lvs None) (\<lambda>acc.
       State_Monad.return
         (case acc of None \<Rightarrow> Inl (utf8 [230, 156, 170, 230, 137, 190, 229, 136, 176, 229, 143, 175, 231, 148, 168, 228, 186, 142, 229, 191, 171, 231, 133, 167, 231, 154, 132, 230, 160, 185, 229, 141, 183, 32, 40, 230, 142, 146, 233, 153, 164, 32, 115, 119, 97, 112, 32, 228, 184, 142, 32, 95, 115, 110, 97, 112, 95, 41]) | Some created_size \<Rightarrow> Inr created_size))))"

fun remove_each :: "'w sys_ext \<Rightarrow> lv_info list \<Rightarrow> bool \<Rightarrow> (('w, 'z) sys_state_scheme, bool res) state" where
  "remove_each X [] found = State_Monad.return (Inr found)"
| "remove_each X (lv # lvs) found =
     tryE (exec_status X ''lvremove'' [''-f'', dev_path lv]) (\<lambda>status. remove_each X lvs (found \<or> ps_success status))"

definition clean_snapshot :: "'w sys_ext \<Rightarrow> string \<Rightarrow> (('w, 'z) sys_state_scheme, unit res) state" where
  "clean_snapshot X name =
     tryE (list_lvs X) (\<lambda>lvs.
     tryE (remove_each X (filter (\<lambda>lv. str_contains name (lv_name lv) \<and> str_contains ''_snap'' (lv_name lv)) lvs) False)
       (\<lambda>found. State_Monad.return (if found then Inr () else Inl (utf8 [230, 156, 170, 230, 137, 190, 229, 136, 176, 229, 140, 185, 233, 133, 141, 231, 154, 132, 229, 191, 171, 231, 133, 167, 58, 32] @ name))))"

definition clean_all_snapshots :: "'w sys_ext \<Rightarrow> (('w, 'z) sys_state_scheme, unit res) state" where
  "clean_all_snapshots X =
     tryE (list_lvs X) (\<lambda>lvs. do {
       for_each (filter (\<lambda>lv. str_contains ''_snap'' (lv_name lv)) lvs)
         (\<lambda>lv. do { _ \<leftarrow> exec_status X ''lvremove'' [''-f'', dev_path lv]; State_Monad.return () });
       State_Monad.return (Inr ())
     })"

definition merge_cmd :: "lv_info \<Rightarrow> string \<times> string list" where
  "merge_cmd lv = (''lvconvert'', [''--merge'', dev_path lv])"

definition restorable :: "string \<Rightarrow> lv_info \<Rightarrow> bool" where
  "restorable sfx lv \<longleftrightarrow> ends_with sfx (lv_name lv) \<and> str_contains ''_snap'' (lv_name lv)"

fun merge_each :: "'w sys_ext \<Rightarrow> string \<Rightarrow> lv_info list \<Rightarrow> bool \<Rightarrow> (('w, 'z) sys_state_scheme, bool res) state" where
  "merge_each X sfx [] found = State_Monad.return (Inr found)"
| "merge_each X sfx (lv # lvs) found =
     (if restorable sfx lv
      then tryE (exec_status X (fst (merge_cmd lv)) (snd (merge_cmd lv)))
             (\<lambda>status. merge_each X sfx lvs (found \<or> ps_success status))
      else merge_each X sfx lvs found)"

definition restore_snapshot :: "'w sys_ext \<Rightarrow> string \<Rightarrow> (('w, 'z) sys_state_scheme, unit res) state" where
  "restore_snapshot X sfx =
     tryE (list_lvs X) (\<lambda>lvs.
     tryE (merge_each X sfx lvs False) (\<lambda>found.
       State_Monad.return (if found then Inr () else Inl (utf8 [230, 156, 170, 230, 137, 190, 229, 136, 176, 229, 140, 185, 233, 133, 141, 231, 154, 132, 229, 191, 171, 231, 133, 167, 58, 32] @ sfx))))"

section \<open>What the loops run\<close>

lemma str_contains_append: "str_contains p (x @ p @ y)"
proof (induction x)
  case Nil
  have "starts_with p (p @ y)" by (simp add: starts_with_def)
  then show ?case by (cases "p @ y") auto
next
  case (Cons c x)
  then show ?case by simp
qed

lemma ends_with_append: "ends_with p (x @ p)"
  by (simp add: ends_with_def)

text \<open>A snapshot is restorable under its own identifier.\<close>

lemma restorable_own: "lv_name v = snap_name lv name \<Longrightarrow> restorable name v"
proof -
  assume v: "lv_name v = snap_name lv name"
  have "ends_with name ((lv_name lv @ ''_snap_'') @ name)" by (rule ends_with_append)
  moreover have "str_contains ''_snap'' (lv_name lv @ ''_snap'' @ (''_'' @ name))" by (rule str_contains_append)
  ultimately show "restorable name v" by (simp add: restorable_def v snap_name_def)
qed

lemma exec_status_log: "run_state (exec_status X c as) s = (r, t) \<Longrightarrow> cmd_log t = cmd_log s @ [(c, as)]"
  by (auto simp: exec_status_def split: prod.splits)

text \<open>Every command can be started.\<close>

definition starts :: "'w sys_ext \<Rightarrow> bool" where
  "starts X \<longleftrightarrow> (\<forall>c as w. \<not> isl (fst (x_status X c as w)))"

lemma exec_status_starts:
  "starts X \<Longrightarrow> run_state (exec_status X c as) s = (r, t) \<Longrightarrow> \<exists>st. r = Inr st"
  unfolding starts_def exec_status_def
  by (auto split: prod.splits) (metis fst_conv isl_def sum.exhaust)

lemma merge_each_log:
  assumes "starts X" and "run_state (merge_each X sfx lvs found) s = (r, t)"
  shows "cmd_log t = cmd_log s @ map merge_cmd (filter (restorable sfx) lvs)
    \<and> (\<exists>b. r = Inr b \<and> (b \<longrightarrow> found \<or> (\<exists>lv \<in> set lvs. restorable sfx lv)))"
  using assms(2)
proof (induction lvs arbitrary: found s)
  case (Cons lv lvs)
  show ?case
  proof (cases "restorable sfx lv")
    case True
    obtain r1 s1 where e: "run_state (exec_status X (fst (merge_cmd lv)) (snd (merge_cmd lv))) s = (r1, s1)"
      by (rule prod.exhaust)
    from exec_status_starts [OF assms(1) e] obtain st where "r1 = Inr st" by blast
    with e Cons.prems True have "run_state (merge_each X sfx lvs (found \<or> ps_success st)) s1 = (r, t)" by simp
    from Cons.IH [OF this] exec_status_log [OF e] True show ?thesis by auto
  next
    case False
    with Cons.prems Cons.IH [of found s] show ?thesis by auto
  qed
qed auto

section \<open>Properties\<close>

text \<open>Restoring. When the volumes can be listed and the commands started, restoring an
  identifier merges exactly the snapshots whose name ends in it, in the order of the listing and
  each once, and it succeeds only if there is one; so the snapshots that were created under the
  identifier are among them. An identifier that is the end of another one restores the snapshots
  of the other as well: the name is not compared as a whole.\<close>

theorem restore_snapshot_merges:
  assumes "starts X" and "x_output X ''lvs'' lvs_args (os s) = (Inr out, w)"
    and "run_state (restore_snapshot X sfx) s = (r, s')"
  shows "cmd_log s' = cmd_log s @ (''lvs'', lvs_args) # map merge_cmd (filter (restorable sfx) (lvs_of (po_stdout out)))
    \<and> (r = Inr () \<longrightarrow> (\<exists>lv \<in> set (lvs_of (po_stdout out)). restorable sfx lv))
    \<and> (\<forall>lv v x. v \<in> set (lvs_of (po_stdout out)) \<and> lv_name v = snap_name lv (x @ sfx)
         \<longrightarrow> merge_cmd v \<in> set (cmd_log s'))"
proof -
  let ?s1 = "s\<lparr>os := w, cmd_log := cmd_log s @ [(''lvs'', lvs_args)]\<rparr>"
  obtain r1 t where m: "run_state (merge_each X sfx (lvs_of (po_stdout out)) False) ?s1 = (r1, t)"
    by (rule prod.exhaust)
  from merge_each_log [OF assms(1) m] obtain b where
    log: "cmd_log t = cmd_log s @ (''lvs'', lvs_args) # map merge_cmd (filter (restorable sfx) (lvs_of (po_stdout out)))"
    and b: "r1 = Inr b" "b \<longrightarrow> (\<exists>lv \<in> set (lvs_of (po_stdout out)). restorable sfx lv)" by auto
  have run: "s' = t" "r = (if b then Inr () else Inl (utf8 [230, 156, 170, 230, 137, 190, 229, 136, 176, 229, 140, 185, 233, 133, 141, 231, 154, 132, 229, 191, 171, 231, 133, 167, 58, 32] @ sfx))"
    using assms(3) m b(1) by (simp_all add: restore_snapshot_def list_lvs_def exec_output_def assms(2))
  have "restorable sfx v" if "lv_name v = snap_name lv (x @ sfx)" for lv v x
  proof -
    have "ends_with sfx ((lv_name lv @ ''_snap_'' @ x) @ sfx)" by (rule ends_with_append)
    moreover have "str_contains ''_snap'' (lv_name lv @ ''_snap'' @ (''_'' @ x @ sfx))" by (rule str_contains_append)
    ultimately show ?thesis by (simp add: restorable_def that snap_name_def)
  qed
  with log run b(2) show ?thesis by (auto split: if_splits)
qed

definition lab_f64 :: f64_ext where
  "lab_f64 = (let rd = (\<lambda>t. if t \<noteq> [] \<and> list_all is_digit t then Some (of_nat (digits_val t)) else None)
     in \<lparr>f64_ceil = rd, f64_ceil_div_1024 = rd, f64_ceil_mul_1024 = rd, f64_tenth = (\<lambda>n. n div 10 + 1)\<rparr>)"

definition lvm_sys :: "unit sys_ext" where
  "lvm_sys =
     \<lparr>x_output = (\<lambda>cmd args w. (Inr \<lparr>po_success = True,
          po_stdout = '' root vg0 '' @ [nl] @ '' root_snap_1 vg0 root'' @ [nl] @ '' root_snap_11 vg0 root'' @ [nl],
          po_stderr = []\<rparr>, w)),
      x_status = (\<lambda>cmd args w. (Inr \<lparr>ps_success = True, ps_display = ''exit status: 0''\<rparr>, w)),
      x_captures = (\<lambda>re t. None), x_ipv4net = (\<lambda>s. Inl ''invalid''), x_net_contains = (\<lambda>n ip. False),
      x_read_file = (\<lambda>path w. Inl ''not found'')\<rparr>"

text \<open>Restoring \<^verbatim>\<open>1\<close> on a host with the snapshots \<^verbatim>\<open>1\<close> and \<^verbatim>\<open>11\<close> of one volume merges both.\<close>

theorem restore_snapshot_merges_witness:
  "cmd_log (snd (run_state (restore_snapshot lvm_sys ''1'') \<lparr>os = (), cmd_log = [], post_log = []\<rparr>))
     = [(''lvs'', lvs_args), (''lvconvert'', [''--merge'', ''/dev/vg0/root_snap_1'']),
        (''lvconvert'', [''--merge'', ''/dev/vg0/root_snap_11''])]"
proof -
  let ?out = "\<lparr>po_success = True, po_stdout = '' root vg0 '' @ [nl] @ '' root_snap_1 vg0 root'' @ [nl] @ '' root_snap_11 vg0 root'' @ [nl],
          po_stderr = []\<rparr>"
  have st: "starts lvm_sys" by (simp add: starts_def lvm_sys_def)
  have o: "x_output lvm_sys ''lvs'' lvs_args (os \<lparr>os = (), cmd_log = [], post_log = []\<rparr>) = (Inr ?out, ())"
    by (simp add: lvm_sys_def)
  have "map merge_cmd (filter (restorable ''1'') (lvs_of (po_stdout ?out)))
      = [(''lvconvert'', [''--merge'', ''/dev/vg0/root_snap_1'']), (''lvconvert'', [''--merge'', ''/dev/vg0/root_snap_11''])]"
    by code_simp
  with restore_snapshot_merges [OF st o prod.collapse [symmetric], of "''1''", THEN conjunct1]
  show ?thesis by simp
qed

end
