(* ===== verification/Ip_Policy.thy ===== *)
theory Ip_Policy
  imports Proc_File "HOL-Library.AList"
begin

text \<open>
  \<^verbatim>\<open>crates/netblock/src/ip_policy.rs\<close>: the table of blocked addresses with its expiry timers.

  The two global maps are association lists with distinct keys (\<open>ip_policies\<close>,
  \<open>expiry_tasks\<close>). A timer is the moment at which its sleep ends; \<open>now\<close> is the clock in
  seconds. Both maps are locked, always in the same order, by an update and by the body of an
  expired timer, and neither awaits anything else in between, so each is one atomic step. The
  order in which the map's values are visited is given by the parameter \<open>h\<close>.
\<close>

section \<open>Data\<close>

record ip_policy =
  ipp_direction :: u32
  ipp_ip :: string
  ipp_duration :: u64
  ipp_is_ipv6 :: bool

record 'w ip_state = "'w proc_state" +
  ip_policies :: "(string \<times> ip_policy) list"
  expiry_tasks :: "(string \<times> nat) list"
  now :: nat

section \<open>Textual IPv6 addresses\<close>

text \<open>\<^verbatim>\<open>str::parse::<IpAddr>\<close> reads from the front: decimal octets without leading zero, groups
  of up to four hexadecimal digits, one double colon standing for at least one group, and an
  IPv4 address in place of the last two groups. Each reader gives the rest of the input.\<close>

definition is_hex :: "char \<Rightarrow> bool" where
  "is_hex c \<longleftrightarrow> is_digit c \<or> (let n = (of_char c :: nat) in (97 \<le> n \<and> n \<le> 102) \<or> (65 \<le> n \<and> n \<le> 70))"

definition read_dec_octet :: "string \<Rightarrow> string option" where
  "read_dec_octet s =
     (let d = takeWhile is_digit s in
      if d = [] \<or> 3 < length d \<or> (1 < length d \<and> hd d = CHR ''0'') \<or> 255 < digits_val d then None
      else Some (dropWhile is_digit s))"

definition read_hex_group :: "string \<Rightarrow> string option" where
  "read_hex_group s =
     (let d = takeWhile is_hex s in
      if d = [] \<or> 4 < length d then None else Some (dropWhile is_hex s))"

fun read_given :: "char \<Rightarrow> string \<Rightarrow> string option" where
  "read_given c [] = None"
| "read_given c (x # s) = (if x = c then Some s else None)"

definition read_ipv4_addr :: "string \<Rightarrow> string option" where
  "read_ipv4_addr s = do {
     s \<leftarrow> read_dec_octet s; s \<leftarrow> read_given (CHR ''.'') s;
     s \<leftarrow> read_dec_octet s; s \<leftarrow> read_given (CHR ''.'') s;
     s \<leftarrow> read_dec_octet s; s \<leftarrow> read_given (CHR ''.'') s;
     read_dec_octet s
   }"

definition read_separated :: "nat \<Rightarrow> (string \<Rightarrow> string option) \<Rightarrow> string \<Rightarrow> string option" where
  "read_separated i p s = (if i = 0 then p s else Option.bind (read_given (CHR '':'') s) p)"

text \<open>\<open>read_groups fuel limit i s\<close>: from group \<open>i\<close> of at most \<open>limit\<close>; \<open>fuel\<close> is the number of
  groups left, so it never runs out before the limit.\<close>

fun read_groups :: "nat \<Rightarrow> nat \<Rightarrow> nat \<Rightarrow> string \<Rightarrow> (nat \<times> bool) \<times> string" where
  "read_groups 0 limit i s = ((i, False), s)"
| "read_groups (Suc n) limit i s =
     (case (if i + 1 < limit then read_separated i read_ipv4_addr s else None) of
        Some r \<Rightarrow> ((i + 2, True), r)
      | None \<Rightarrow>
          (case read_separated i read_hex_group s of
             None \<Rightarrow> ((i, False), s)
           | Some r \<Rightarrow> read_groups n limit (i + 1) r))"

definition read_ipv6_addr :: "string \<Rightarrow> string option" where
  "read_ipv6_addr s =
     (case read_groups 8 8 0 s of
        ((head_size, head_ipv4), r) \<Rightarrow>
          if head_size = 8 then Some r
          else if head_ipv4 then None
          else do {
            r \<leftarrow> read_given (CHR '':'') r;
            r \<leftarrow> read_given (CHR '':'') r;
            Some (snd (read_groups (7 - head_size) (7 - head_size) 0 r))
          })"

definition is_ipv6 :: "string \<Rightarrow> bool" where
  "is_ipv6 ip \<longleftrightarrow> read_ipv4_addr ip = None \<and> read_ipv6_addr ip = Some []"

section \<open>Writing the tables\<close>

definition v4_path :: string where "v4_path = ''/proc/osec/osec_conn/block_saddr_rt''"
definition v6_path :: string where "v6_path = ''/proc/osec/osec_conn/block_saddr_rt_v6''"

fun write_ips :: "'w file_ext \<Rightarrow> string \<Rightarrow> string list \<Rightarrow> (('w, 'z) proc_state_scheme, unit res) state" where
  "write_ips F path [] = State_Monad.return (Inr ())"
| "write_ips F path (ip # ips) =
     tryE (map_err (\<lambda>e. ''Failed to write IP '' @ ip @ '' to '' @ path @ '': '' @ e)
             (write_all F path (ip @ [nl])))
       (\<lambda>_. write_ips F path ips)"

definition write_table ::
  "'w file_ext \<Rightarrow> string \<Rightarrow> string list \<Rightarrow> (('w, 'z) proc_state_scheme, unit res) state" where
  "write_table F path ips =
     tryE (map_err (\<lambda>e. ''Failed to open '' @ path @ '': '' @ e) (open_write F path)) (\<lambda>_.
     tryE (map_err (\<lambda>e. ''Failed to write '' @ [CHR 0x27] @ ''c'' @ [CHR 0x5C] @ ''n'' @ [CHR 0x27] @ '' to ''
                          @ path @ '': '' @ e)
             (write_all F path clear_line)) (\<lambda>_.
     write_ips F path ips))"

definition write_policies_to_proc ::
  "'w file_ext \<Rightarrow> (ip_policy list \<Rightarrow> ip_policy list) \<Rightarrow> ('w ip_state, unit res) state" where
  "write_policies_to_proc F h = do {
     ps \<leftarrow> gets (\<lambda>s. visit h (map snd (ip_policies s)));
     let ipv6_policies = filter ipp_is_ipv6 ps;
         ipv4_policies = filter (\<lambda>p. \<not> ipp_is_ipv6 p) ps
     in tryE (write_table F v4_path (map ipp_ip ipv4_policies))
          (\<lambda>_. write_table F v6_path (map ipp_ip ipv6_policies))
   }"

section \<open>Updates and timers\<close>

definition set_timer :: "ip_policy \<Rightarrow> 'w ip_state \<Rightarrow> 'w ip_state" where
  "set_timer p s =
     (let ip = ipp_ip p; has_task = (map_of (expiry_tasks s) ip \<noteq> None) in
      if ipp_duration p = 0 \<and> has_task then s\<lparr>expiry_tasks := AList.delete ip (expiry_tasks s)\<rparr>
      else if 0 < ipp_duration p \<and> \<not> has_task
        then s\<lparr>expiry_tasks := AList.update ip (now s + unat (ipp_duration p)) (expiry_tasks s)\<rparr>
      else s)"

definition merge_policy :: "ip_policy \<Rightarrow> 'w ip_state \<Rightarrow> 'w ip_state" where
  "merge_policy p s = (let s = set_timer p s in
     s\<lparr>ip_policies := AList.update (ipp_ip p) p (ip_policies s)\<rparr>)"

definition update_and_write_policies ::
  "'w file_ext \<Rightarrow> (ip_policy list \<Rightarrow> ip_policy list) \<Rightarrow> ip_policy list \<Rightarrow> ('w ip_state, unit res) state" where
  "update_and_write_policies F h policies = do {
     modify (fold merge_policy policies);
     write_policies_to_proc F h
   }"

text \<open>The body of a timer once its sleep is over.\<close>

definition expiry_task ::
  "'w file_ext \<Rightarrow> (ip_policy list \<Rightarrow> ip_policy list) \<Rightarrow> string \<Rightarrow> ('w ip_state, unit) state" where
  "expiry_task F h ip = do {
     modify (\<lambda>s. s\<lparr>ip_policies := AList.delete ip (ip_policies s)\<rparr>);
     modify (\<lambda>s. s\<lparr>expiry_tasks := AList.delete ip (expiry_tasks s)\<rparr>);
     _ \<leftarrow> write_policies_to_proc F h;
     State_Monad.return ()
   }"

inductive ip_step :: "'w file_ext \<Rightarrow> (ip_policy list \<Rightarrow> ip_policy list) \<Rightarrow> 'w ip_state \<Rightarrow> 'w ip_state \<Rightarrow> bool"
  for F :: "'w file_ext" and h :: "ip_policy list \<Rightarrow> ip_policy list" where
  update: "run_state (update_and_write_policies F h ps) s = (r, s') \<Longrightarrow> ip_step F h s s'"
| expire: "map_of (expiry_tasks s) ip = Some t \<Longrightarrow> t \<le> now s \<Longrightarrow>
     run_state (expiry_task F h ip) s = (u, s') \<Longrightarrow> ip_step F h s s'"
| wait: "ip_step F h s (s\<lparr>now := now s + d\<rparr>)"

definition ip_init :: "'w \<Rightarrow> 'w ip_state" where
  "ip_init w = \<lparr>fos = w, write_log = [], ip_policies = [], expiry_tasks = [], now = 0\<rparr>"

inductive ip_reach :: "'w file_ext \<Rightarrow> (ip_policy list \<Rightarrow> ip_policy list) \<Rightarrow> 'w ip_state \<Rightarrow> bool"
  for F :: "'w file_ext" and h :: "ip_policy list \<Rightarrow> ip_policy list" where
  init: "ip_reach F h (ip_init w)"
| step: "ip_reach F h s \<Longrightarrow> ip_step F h s s' \<Longrightarrow> ip_reach F h s'"

inductive_cases ip_stepE: "ip_step F h s s'"

section \<open>What a run writes\<close>

lemma write_ips_log:
  "run_state (write_ips F path ips) s = (Inr (), s') \<Longrightarrow>
     write_log s' = write_log s @ map (Pair path) (map (\<lambda>ip. ip @ [nl]) ips)"
proof (induction ips arbitrary: s)
  case (Cons ip ips)
  then obtain s1 where w: "run_state (write_all F path (ip @ [nl])) s = (Inr (), s1)"
      and r: "run_state (write_ips F path ips) s1 = (Inr (), s')"
    by (auto split: prod.splits sum.splits)
  from run_write_all_log [OF w] Cons.IH [OF r] show ?case by simp
qed simp

lemma write_table_log:
  assumes "run_state (write_table F path ips) s = (Inr (), s')"
  shows "write_log s' = write_log s @ (path, clear_line) # map (Pair path) (map (\<lambda>ip. ip @ [nl]) ips)"
proof -
  from assms obtain s1 s2 where o: "run_state (open_write F path) s = (Inr (), s1)"
      and c: "run_state (write_all F path clear_line) s1 = (Inr (), s2)"
      and w: "run_state (write_ips F path ips) s2 = (Inr (), s')"
    by (auto simp: write_table_def split: prod.splits sum.splits)
  show ?thesis
    using run_open_write_log [OF o] run_write_all_log [OF c] write_ips_log [OF w] by simp
qed

lemma paths_differ [simp]: "v4_path \<noteq> v6_path" "v6_path \<noteq> v4_path"
  by (simp_all add: v4_path_def v6_path_def)

lemma line_not_clear: "(ip @ [nl] = clear_line) = (ip = ''c'')"
  by (simp add: clear_line_def)

definition v4_lines :: "ip_policy list \<Rightarrow> string list" where
  "v4_lines ps = map (\<lambda>ip. ip @ [nl]) (map ipp_ip (filter (\<lambda>p. \<not> ipp_is_ipv6 p) ps))"

definition v6_lines :: "ip_policy list \<Rightarrow> string list" where
  "v6_lines ps = map (\<lambda>ip. ip @ [nl]) (map ipp_ip (filter ipp_is_ipv6 ps))"

lemma clear_notin_lines:
  "\<forall>p \<in> set ps. ipp_ip p \<noteq> ''c'' \<Longrightarrow> clear_line \<notin> set (v4_lines ps) \<and> clear_line \<notin> set (v6_lines ps)"
  by (auto simp: v4_lines_def v6_lines_def clear_line_def)

lemma write_policies_tables:
  assumes "run_state (write_policies_to_proc F h) s = (Inr (), s')"
    and "\<forall>p \<in> set (map snd (ip_policies s)). ipp_ip p \<noteq> ''c''"
  shows "loaded v4_path (write_log s') = v4_lines (visit h (map snd (ip_policies s)))
    \<and> loaded v6_path (write_log s') = v6_lines (visit h (map snd (ip_policies s)))"
proof -
  let ?ps = "visit h (map snd (ip_policies s))"
  have nv: "\<forall>p \<in> set ?ps. ipp_ip p \<noteq> ''c''" using assms(2) by simp
  from assms(1) obtain s1 where
      a: "run_state (write_table F v4_path (map ipp_ip (filter (\<lambda>p. \<not> ipp_is_ipv6 p) ?ps))) s = (Inr (), s1)" and
      b: "run_state (write_table F v6_path (map ipp_ip (filter ipp_is_ipv6 ?ps))) s1 = (Inr (), s')"
    by (auto simp: write_policies_to_proc_def Let_def split: prod.splits sum.splits)
  have l1: "write_log s1 = write_log s @ (v4_path, clear_line) # map (Pair v4_path) (v4_lines ?ps)"
    using write_table_log [OF a] by (simp add: v4_lines_def)
  have l2: "write_log s' = write_log s1 @ (v6_path, clear_line) # map (Pair v6_path) (v6_lines ?ps)"
    using write_table_log [OF b] by (simp add: v6_lines_def)
  note nc = clear_notin_lines [OF nv]
  have "loaded v4_path (write_log s') = loaded v4_path (write_log s1)"
    unfolding l2 by (rule loaded_other) auto
  moreover have "loaded v4_path (write_log s1) = v4_lines ?ps"
    unfolding l1 by (rule loaded_reload) (use nc in simp)
  moreover have "loaded v6_path (write_log s') = v6_lines ?ps"
    unfolding l2 by (rule loaded_reload) (use nc in simp)
  ultimately show ?thesis by simp
qed

lemma v4_lines_mset: "mset ps = mset qs \<Longrightarrow> mset (v4_lines ps) = mset (v4_lines qs)"
  unfolding v4_lines_def by (simp del: map_map)

lemma v6_lines_mset: "mset ps = mset qs \<Longrightarrow> mset (v6_lines ps) = mset (v6_lines qs)"
  unfolding v6_lines_def by (simp del: map_map)

definition tables_agree :: "'w ip_state \<Rightarrow> bool" where
  "tables_agree s \<longleftrightarrow>
     mset (loaded v4_path (write_log s)) = mset (v4_lines (map snd (ip_policies s)))
     \<and> mset (loaded v6_path (write_log s)) = mset (v6_lines (map snd (ip_policies s)))"

text \<open>Writing keeps the two maps and the clock.\<close>

lemma keeps_write_ips [keep_intros]: "file_blind P \<Longrightarrow> keeps P (write_ips F path ips)"
  by (induction ips) (auto intro!: keep_intros)

lemma keeps_write_table [keep_intros]: "file_blind P \<Longrightarrow> keeps P (write_table F path ips)"
  unfolding write_table_def by (intro keep_intros)

lemma keeps_write_policies [keep_intros]: "file_blind P \<Longrightarrow> keeps P (write_policies_to_proc F h)"
  unfolding write_policies_to_proc_def Let_def by (intro keep_intros)

lemma write_policies_maps:
  "run_state (write_policies_to_proc F h) s = (r, s') \<Longrightarrow>
     ip_policies s' = ip_policies s \<and> expiry_tasks s' = expiry_tasks s \<and> now s' = now s"
  by (rule keepsD_run [OF keeps_write_policies, of "\<lambda>t. ip_policies t = ip_policies s \<and>
        expiry_tasks t = expiry_tasks s \<and> now t = now s"]) (simp_all add: file_blind_def)

lemma write_policies_agree:
  assumes "run_state (write_policies_to_proc F h) s = (Inr (), s')"
    and "\<forall>p \<in> set (map snd (ip_policies s)). ipp_ip p \<noteq> ''c''"
  shows "tables_agree s'"
  using write_policies_tables [OF assms] write_policies_maps [OF assms(1)]
    v4_lines_mset [OF mset_visit] v6_lines_mset [OF mset_visit]
  by (simp add: tables_agree_def)

section \<open>The files written to\<close>

lemma wrote_write_ips [path_intros]: "path \<in> Q \<Longrightarrow> keeps (wrote l Q) (write_ips F path ips)"
  by (induction ips) (auto intro!: path_intros monad_intros)

lemma wrote_write_policies [path_intros]: "keeps (wrote l {v4_path, v6_path}) (write_policies_to_proc F h)"
  unfolding write_policies_to_proc_def write_table_def Let_def by (intro path_intros monad_intros) simp_all

lemma merge_policy_log: "write_log (fold merge_policy ps s) = write_log s"
  by (induction ps arbitrary: s) (simp_all add: merge_policy_def set_timer_def Let_def)

lemma wrote_update_policies: "keeps (wrote l {v4_path, v6_path}) (update_and_write_policies F h ps)"
  unfolding update_and_write_policies_def by (intro path_intros monad_intros) (rule merge_policy_log)

lemma wrote_expiry_task: "keeps (wrote l {v4_path, v6_path}) (expiry_task F h ip)"
  unfolding expiry_task_def by (intro path_intros monad_intros) simp_all

section \<open>Invariants of the two maps\<close>

definition timers_match :: "(string \<rightharpoonup> ip_policy) \<Rightarrow> (string \<rightharpoonup> nat) \<Rightarrow> bool" where
  "timers_match pm tm \<longleftrightarrow>
     (\<forall>ip p. pm ip = Some p \<longrightarrow> ipp_ip p = ip \<and> (0 < ipp_duration p \<longleftrightarrow> tm ip \<noteq> None))
     \<and> (\<forall>ip. tm ip \<noteq> None \<longrightarrow> pm ip \<noteq> None)"

definition ip_inv :: "'w ip_state \<Rightarrow> bool" where
  "ip_inv s \<longleftrightarrow> distinct (map fst (ip_policies s)) \<and> distinct (map fst (expiry_tasks s))
     \<and> timers_match (map_of (ip_policies s)) (map_of (expiry_tasks s))"

lemma timers_match_set:
  "timers_match pm tm \<Longrightarrow> 0 < ipp_duration p \<Longrightarrow> timers_match (pm(ipp_ip p \<mapsto> p)) (tm(ipp_ip p \<mapsto> t))"
  by (simp add: timers_match_def)

lemma timers_match_keep:
  "timers_match pm tm \<Longrightarrow> (0 < ipp_duration p \<longleftrightarrow> tm (ipp_ip p) \<noteq> None) \<Longrightarrow> timers_match (pm(ipp_ip p \<mapsto> p)) tm"
  by (simp add: timers_match_def)

lemma timers_match_cancel:
  "timers_match pm tm \<Longrightarrow> ipp_duration p = 0 \<Longrightarrow> timers_match (pm(ipp_ip p \<mapsto> p)) (tm(ipp_ip p := None))"
  by (simp add: timers_match_def)

lemma timers_match_delete:
  "timers_match pm tm \<Longrightarrow> timers_match (pm(ip := None)) (tm(ip := None))"
  by (simp add: timers_match_def)

lemma ip_inv_merge: "ip_inv s \<Longrightarrow> ip_inv (merge_policy p s)"
  unfolding ip_inv_def merge_policy_def set_timer_def Let_def
  by (auto simp: update_conv' delete_conv' distinct_update distinct_delete timers_match_set
      timers_match_keep timers_match_cancel word_neq_0_conv)

lemma ip_inv_fold_merge: "ip_inv s \<Longrightarrow> ip_inv (fold merge_policy ps s)"
  by (induction ps arbitrary: s) (auto simp: ip_inv_merge)

lemma ip_inv_delete:
  "ip_inv s \<Longrightarrow> ip_inv (s\<lparr>ip_policies := AList.delete ip (ip_policies s),
     expiry_tasks := AList.delete ip (expiry_tasks s)\<rparr>)"
  by (simp add: ip_inv_def delete_conv' distinct_delete timers_match_delete)

lemma ip_inv_cong:
  "ip_policies s' = ip_policies s \<Longrightarrow> expiry_tasks s' = expiry_tasks s \<Longrightarrow> ip_inv s' = ip_inv s"
  by (simp add: ip_inv_def)

lemma update_run:
  assumes "run_state (update_and_write_policies F h ps) s = (r, s')"
  shows "\<exists>s1. s1 = fold merge_policy ps s \<and> run_state (write_policies_to_proc F h) s1 = (r, s')"
  using assms by (simp add: update_and_write_policies_def)

lemma expiry_run:
  assumes "run_state (expiry_task F h ip) s = (u, s')"
  shows "\<exists>r. run_state (write_policies_to_proc F h)
      (s\<lparr>ip_policies := AList.delete ip (ip_policies s), expiry_tasks := AList.delete ip (expiry_tasks s)\<rparr>) = (r, s')"
  using assms by (auto simp: expiry_task_def split: prod.splits)

lemma ip_inv_step: "ip_step F h s s' \<Longrightarrow> ip_inv s \<Longrightarrow> ip_inv s'"
proof (induction rule: ip_step.induct)
  case (update ps s r s')
  then show ?case using update_run write_policies_maps ip_inv_fold_merge ip_inv_cong by metis
next
  case (expire s ip t u s')
  then obtain r where r: "run_state (write_policies_to_proc F h) (s\<lparr>ip_policies := AList.delete ip (ip_policies s),
      expiry_tasks := AList.delete ip (expiry_tasks s)\<rparr>) = (r, s')" using expiry_run by metis
  show ?case using ip_inv_delete [OF expire.prems, of ip] write_policies_maps [OF r] by (simp add: ip_inv_def)
next
  case (wait s d)
  then show ?case by (simp add: ip_inv_def)
qed

lemma ip_inv_init: "ip_inv (ip_init w)"
  by (simp add: ip_init_def ip_inv_def timers_match_def)

lemma ip_inv_reach: "ip_reach F h s \<Longrightarrow> ip_inv s"
  by (induction rule: ip_reach.induct) (auto intro: ip_inv_init ip_inv_step)

section \<open>Properties\<close>

lemma map_of_fold_merge:
  "map_of (ip_policies (fold merge_policy ps s))
     = map_of (ip_policies s) ++ map_of (rev (map (\<lambda>p. (ipp_ip p, p)) ps))"
proof (induction ps arbitrary: s)
  case (Cons p ps)
  have "map_of (ip_policies (merge_policy p s)) = (map_of (ip_policies s))(ipp_ip p \<mapsto> p)"
    by (simp add: merge_policy_def set_timer_def Let_def update_conv')
  with Cons show ?case by (simp add: map_add_def fun_eq_iff split: option.splits)
qed simp

lemma write_ips_ok [ok_intros]: "files_ok F \<Longrightarrow> succeeds (write_ips F p ips)"
  by (induction ips) (auto intro!: ok_intros)

lemma write_policies_ok: "files_ok F \<Longrightarrow> succeeds (write_policies_to_proc F h)"
  unfolding write_policies_to_proc_def write_table_def Let_def by (intro ok_intros)

lemma tables_agree_step:
  assumes "ip_step F h s s'" and "files_ok F"
    and "\<forall>p \<in> set (map snd (ip_policies s)). ipp_ip p \<noteq> ''c'' \<Longrightarrow> tables_agree s"
    and "\<forall>p \<in> set (map snd (ip_policies s')). ipp_ip p \<noteq> ''c''"
  shows "tables_agree s'"
proof -
  have written: "tables_agree s'" if "run_state (write_policies_to_proc F h) s1 = (r, s')" for s1 r
  proof -
    have "r = Inr ()" using succeedsD [OF write_policies_ok [OF assms(2)] that] by simp
    with that have w: "run_state (write_policies_to_proc F h) s1 = (Inr (), s')" by simp
    show ?thesis using assms(4) write_policies_maps [OF w] by (intro write_policies_agree [OF w]) simp
  qed
  from assms(1) show ?thesis
  proof (cases rule: ip_step.cases)
    case (update ps r)
    then show ?thesis using update_run written by metis
  next
    case (expire ip t u)
    then show ?thesis using expiry_run written by metis
  next
    case (wait d)
    then show ?thesis using assms(3,4) by (simp add: tables_agree_def)
  qed
qed

text \<open>C35: in every reachable state a blocked address is recorded under its own text, it has a
  running expiry timer exactly when its duration is positive, and no timer runs for an address
  that is not blocked.\<close>

theorem blocked_ips_have_timers:
  assumes "ip_reach F h s"
  shows "(\<forall>ip p. map_of (ip_policies s) ip = Some p \<longrightarrow>
            ipp_ip p = ip \<and> (0 < ipp_duration p \<longleftrightarrow> map_of (expiry_tasks s) ip \<noteq> None))
    \<and> (\<forall>ip. map_of (expiry_tasks s) ip \<noteq> None \<longrightarrow> map_of (ip_policies s) ip \<noteq> None)"
  using ip_inv_reach [OF assms] unfolding ip_inv_def timers_match_def by blast

text \<open>C3: the kernel's tables follow the map. While the control files accept writes, in every
  reachable state the IPv4 table holds one line for each blocked IPv4 address and the IPv6 table
  one for each blocked IPv6 address, and nothing else, whatever updates and expiries happened
  before (an address spelt \<^verbatim>\<open>c\<close> would be read as the clear command and is excluded).\<close>

theorem kernel_tables_follow_policies:
  assumes "ip_reach F h s" and "files_ok F"
    and "\<forall>p \<in> set (map snd (ip_policies s)). ipp_ip p \<noteq> ''c''"
  shows "mset (loaded v4_path (write_log s))
         = mset (map (\<lambda>p. ipp_ip p @ [nl]) (filter (\<lambda>p. \<not> ipp_is_ipv6 p) (map snd (ip_policies s))))
    \<and> mset (loaded v6_path (write_log s))
         = mset (map (\<lambda>p. ipp_ip p @ [nl]) (filter ipp_is_ipv6 (map snd (ip_policies s))))"
proof -
  from assms(1,3) have "tables_agree s"
  proof (induction rule: ip_reach.induct)
    case (init w)
    then show ?case by (simp add: tables_agree_def ip_init_def loaded_def v4_lines_def v6_lines_def)
  next
    case (step s s')
    then show ?case by (intro tables_agree_step [OF step.hyps(2) assms(2)])
  qed
  then show ?thesis by (simp add: tables_agree_def v4_lines_def v6_lines_def comp_def)
qed

text \<open>An update merges: for each address of the batch the last entry wins, every other
  address keeps its policy, and nothing is removed. A timer that is already running keeps its
  deadline when the address is sent again with a positive duration.\<close>

theorem update_merges_policies:
  assumes "run_state (update_and_write_policies F h ps) s = (r, s')"
  shows "map_of (ip_policies s') = map_of (ip_policies s) ++ map_of (rev (map (\<lambda>p. (ipp_ip p, p)) ps))
    \<and> (\<forall>ip t. map_of (expiry_tasks s) ip = Some t \<and> (\<forall>p \<in> set ps. ipp_ip p = ip \<longrightarrow> 0 < ipp_duration p)
         \<longrightarrow> map_of (expiry_tasks s') ip = Some t)"
proof -
  have keep: "map_of (expiry_tasks (fold merge_policy ps s0)) ip = Some t"
    if "map_of (expiry_tasks s0) ip = Some t" "\<forall>p \<in> set ps. ipp_ip p = ip \<longrightarrow> 0 < ipp_duration p"
    for ip t s0
    using that
  proof (induction ps arbitrary: s0)
    case (Cons p ps)
    have "map_of (expiry_tasks (merge_policy p s0)) ip = Some t"
      using Cons.prems by (auto simp: merge_policy_def set_timer_def Let_def update_conv' delete_conv')
    with Cons show ?case by simp
  qed simp
  from update_run [OF assms] write_policies_maps map_of_fold_merge keep show ?thesis by (metis (no_types, lifting))
qed

text \<open>When a timer fires, exactly its address leaves the map and its timer goes with it;
  the policy that leaves had a positive duration, so a permanent block is never lifted by a
  timer.\<close>

theorem expiry_lifts_only_its_block:
  assumes "ip_reach F h s" and "map_of (expiry_tasks s) ip = Some t"
    and "run_state (expiry_task F h ip) s = (u, s')"
  shows "map_of (ip_policies s') = (map_of (ip_policies s))(ip := None)
    \<and> map_of (expiry_tasks s') = (map_of (expiry_tasks s))(ip := None)
    \<and> (\<exists>p. map_of (ip_policies s) ip = Some p \<and> 0 < ipp_duration p)"
proof -
  from ip_inv_reach [OF assms(1)] assms(2) have "\<exists>p. map_of (ip_policies s) ip = Some p \<and> 0 < ipp_duration p"
    unfolding ip_inv_def timers_match_def by (metis not_None_eq)
  moreover from expiry_run [OF assms(3)] obtain r where
    "run_state (write_policies_to_proc F h) (s\<lparr>ip_policies := AList.delete ip (ip_policies s),
      expiry_tasks := AList.delete ip (expiry_tasks s)\<rparr>) = (r, s')" by blast
  ultimately show ?thesis using write_policies_maps by (fastforce simp: delete_conv')
qed

section \<open>The theorems on a small history\<close>

definition lab_block :: "ip_policy list" where
  "lab_block =
     [\<lparr>ipp_direction = 0, ipp_ip = ''10.0.0.1'', ipp_duration = 0, ipp_is_ipv6 = False\<rparr>,
      \<lparr>ipp_direction = 0, ipp_ip = ''fe80::1'', ipp_duration = 5, ipp_is_ipv6 = True\<rparr>,
      \<lparr>ipp_direction = 0, ipp_ip = ''10.0.0.2'', ipp_duration = 60, ipp_is_ipv6 = False\<rparr>]"

definition lab_blocked :: "unit ip_state" where
  "lab_blocked = snd (run_state (update_and_write_policies free_files rev lab_block) (ip_init ()))"

lemma lab_blocked_reach: "ip_reach free_files rev lab_blocked"
  unfolding lab_blocked_def
  by (rule ip_reach.step [OF ip_reach.init ip_step.update [OF prod.collapse [symmetric]]])

lemma lab_blocked_maps:
  "map fst (ip_policies lab_blocked) = [''10.0.0.1'', ''fe80::1'', ''10.0.0.2'']"
  "map (ipp_ip \<circ> snd) (ip_policies lab_blocked) = [''10.0.0.1'', ''fe80::1'', ''10.0.0.2'']"
  "expiry_tasks lab_blocked = [(''fe80::1'', 5), (''10.0.0.2'', 60)]"
  by code_simp+

lemma is_ipv6_samples:
  "is_ipv6 ''fe80::1'' \<and> is_ipv6 ''::ffff:10.0.0.1'' \<and> is_ipv6 ''1:2:3:4:5:6:7:8'' \<and> \<not> is_ipv6 ''10.0.0.1''
   \<and> \<not> is_ipv6 ''1:2:3'' \<and> \<not> is_ipv6 ''fe80::1/64''"
  by code_simp

theorem blocked_ips_have_timers_witness:
  "(\<exists>p. map_of (ip_policies lab_blocked) ''fe80::1'' = Some p \<and> ipp_ip p = ''fe80::1'' \<and> 0 < ipp_duration p)
   \<and> map_of (expiry_tasks lab_blocked) ''10.0.0.1'' = None"
proof -
  note t = blocked_ips_have_timers [OF lab_blocked_reach]
  have a: "map_of (expiry_tasks lab_blocked) ''fe80::1'' \<noteq> None"
    and b: "map_of (expiry_tasks lab_blocked) ''10.0.0.1'' = None" by (simp_all add: lab_blocked_maps)
  from a t obtain p where "map_of (ip_policies lab_blocked) ''fe80::1'' = Some p" by blast
  with a b t show ?thesis by blast
qed

theorem kernel_tables_follow_policies_witness:
  "mset (loaded v4_path (write_log lab_blocked)) = mset [''10.0.0.2'' @ [nl], ''10.0.0.1'' @ [nl]]
   \<and> mset (loaded v6_path (write_log lab_blocked)) = mset [''fe80::1'' @ [nl]]"
proof -
  have n: "\<forall>p \<in> set (map snd (ip_policies lab_blocked)). ipp_ip p \<noteq> ''c''" by code_simp
  have v: "map (\<lambda>p. ipp_ip p @ [nl]) (filter (\<lambda>p. \<not> ipp_is_ipv6 p) (map snd (ip_policies lab_blocked)))
      = [''10.0.0.1'' @ [nl], ''10.0.0.2'' @ [nl]]"
    "map (\<lambda>p. ipp_ip p @ [nl]) (filter ipp_is_ipv6 (map snd (ip_policies lab_blocked))) = [''fe80::1'' @ [nl]]"
    by code_simp+
  show ?thesis
    using kernel_tables_follow_policies [OF lab_blocked_reach free_files_ok n]
    unfolding v by (simp only: mset.simps simp_thms) (simp add: add_mset_commute)
qed

theorem update_merges_policies_witness:
  "map_of (expiry_tasks (snd (run_state (update_and_write_policies free_files rev
       [\<lparr>ipp_direction = 0, ipp_ip = ''fe80::1'', ipp_duration = 3600, ipp_is_ipv6 = True\<rparr>]) lab_blocked))) ''fe80::1''
     = Some 5"
proof -
  have t: "map_of (expiry_tasks lab_blocked) ''fe80::1'' = Some 5" by (simp add: lab_blocked_maps)
  have p: "\<forall>p \<in> set [\<lparr>ipp_direction = 0, ipp_ip = ''fe80::1'', ipp_duration = 3600, ipp_is_ipv6 = True\<rparr>].
      ipp_ip p = ''fe80::1'' \<longrightarrow> 0 < ipp_duration p" by simp
  show ?thesis
    using update_merges_policies [OF prod.collapse [symmetric], THEN conjunct2] t p by blast
qed

theorem expiry_lifts_only_its_block_witness:
  "map_of (ip_policies (snd (run_state (expiry_task free_files rev ''fe80::1'') lab_blocked)))
     = (map_of (ip_policies lab_blocked))(''fe80::1'' := None)"
proof -
  have t: "map_of (expiry_tasks lab_blocked) ''fe80::1'' = Some 5" by (simp add: lab_blocked_maps)
  show ?thesis
    using expiry_lifts_only_its_block [OF lab_blocked_reach t prod.collapse [symmetric]] by blast
qed

end
