(* ===== verification/Black_White.thy ===== *)
theory Black_White
  imports Prelude
begin

text \<open>
  The contract shared by the agent's two pairs of lists, the processes of
  \<^verbatim>\<open>process_mgr/src/policy_mgr.rs\<close> and the USB devices of \<^verbatim>\<open>udisk/src/list.rs\<close>: the server sends a
  whole white list or a whole black list; the new list replaces the old one of its colour, and
  its members leave the list of the other colour.
\<close>

locale black_white =
  fixes valid :: "'s \<Rightarrow> bool"
    and white black :: "'s \<Rightarrow> 'k set"
    and put :: "bool \<Rightarrow> 'x list \<Rightarrow> 's \<Rightarrow> 's"
    and key :: "'x \<Rightarrow> 'k"
  assumes valid_put: "valid s \<Longrightarrow> valid (put c xs s)"
    and white_put: "valid s \<Longrightarrow> white (put c xs s) = (if c then key ` set xs else white s - key ` set xs)"
    and black_put: "valid s \<Longrightarrow> black (put c xs s) = (if c then black s - key ` set xs else key ` set xs)"
begin

text \<open>A history of lists, oldest first; \<open>True\<close> marks a white list.\<close>

definition history :: "(bool \<times> 'x list) list \<Rightarrow> 's \<Rightarrow> 's" where
  "history ops = fold (\<lambda>(c, xs). put c xs) ops"

lemma history_Nil [simp]: "history [] s = s"
  by (simp add: history_def)

lemma history_snoc [simp]: "history (ops @ [(c, xs)]) s = put c xs (history ops s)"
  by (simp add: history_def)

lemma valid_history: "valid s \<Longrightarrow> valid (history ops s)"
  by (induction ops rule: rev_induct) (auto simp: valid_put)

lemma disjoint_put:
  "valid s \<Longrightarrow> white s \<inter> black s = {} \<Longrightarrow> white (put c xs s) \<inter> black (put c xs s) = {}"
  by (auto simp: white_put black_put)

lemma disjoint_history:
  "valid s \<Longrightarrow> white s \<inter> black s = {} \<Longrightarrow> white (history ops s) \<inter> black (history ops s) = {}"
proof (induction ops rule: rev_induct)
  case (snoc op ops)
  obtain c xs where "op = (c, xs)" by fastforce
  with disjoint_put [OF valid_history [OF snoc.prems(1), of ops]] snoc show ?case by simp
qed simp

text \<open>The verdict on one key: the newest list that decides it, looking back through the
  history. A list of a colour decides every key of that colour; of the other colour it decides
  the keys it contains.\<close>

fun listed :: "bool \<Rightarrow> (bool \<times> 'x list) list \<Rightarrow> 'k \<Rightarrow> bool" where
  "listed d [] k = False"
| "listed d ((c, xs) # older) k =
     (if c = d then k \<in> key ` set xs else k \<notin> key ` set xs \<and> listed d older k)"

lemma history_listed:
  assumes "valid s" and "white s = {}" and "black s = {}"
  shows "(k \<in> white (history ops s) \<longleftrightarrow> listed True (rev ops) k)
    \<and> (k \<in> black (history ops s) \<longleftrightarrow> listed False (rev ops) k)"
proof (induction ops rule: rev_induct)
  case Nil
  then show ?case using assms by simp
next
  case (snoc op ops)
  obtain c xs where op: "op = (c, xs)" by fastforce
  have v: "valid (history ops s)" by (rule valid_history [OF assms(1)])
  show ?case using snoc.IH by (cases c) (auto simp: op white_put [OF v] black_put [OF v])
qed

lemma put_again: "valid s \<Longrightarrow> white (put c xs (put c xs s)) = white (put c xs s)
   \<and> black (put c xs (put c xs s)) = black (put c xs s)"
  by (auto simp: white_put black_put valid_put)

end

end
