(* ===== verification/Process_Policy.thy ===== *)
theory Process_Policy
  imports Proc_File Black_White
begin

text \<open>
  \<^verbatim>\<open>crates/process_mgr/src/policy_mgr.rs\<close>: the process white and black lists. A new list is
  compared with what was last sent to the kernel module and only the differences are written to
  \<^verbatim>\<open>/proc/osec/md5_rt\<close>, one rule per write, followed by a notification on
  \<^verbatim>\<open>/proc/osec/process_rt\<close>. A \<^verbatim>\<open>HashSet\<close> is a list without repetition; the order of its iteration
  is given by \<open>h\<close>. Errors of the rule files are ignored, as in the code.
\<close>

definition PROCESS_RULE_FILE :: string where "PROCESS_RULE_FILE = ''/proc/osec/process_rt''"
definition MD5_RULE_FILE :: string where "MD5_RULE_FILE = ''/proc/osec/md5_rt''"

record 'w policy_state = "'w proc_state" +
  white_set :: "string list"
  black_set :: "string list"
  prev_white_set :: "string list"
  prev_black_set :: "string list"
  run_process_mode :: bool
  info_log :: "string list"

definition policy_new :: "'w \<Rightarrow> bool \<Rightarrow> 'w policy_state" where
  "policy_new w mode = \<lparr>fos = w, write_log = [], white_set = [], black_set = [], prev_white_set = [],
     prev_black_set = [], run_process_mode = mode, info_log = []\<rparr>"

section \<open>Operations\<close>

definition add_md5_rules :: "'w file_ext \<Rightarrow> string \<Rightarrow> ('w policy_state, unit) state" where
  "add_md5_rules F data = do {
     r \<leftarrow> open_write F MD5_RULE_FILE;
     case r of
       Inl _ \<Rightarrow> State_Monad.return ()
     | Inr _ \<Rightarrow> do { _ \<leftarrow> write_all F MD5_RULE_FILE data; State_Monad.return () }
   }"

definition notify_kernel_update :: "'w file_ext \<Rightarrow> ('w policy_state, unit) state" where
  "notify_kernel_update F = do {
     r \<leftarrow> open_write F PROCESS_RULE_FILE;
     case r of
       Inl _ \<Rightarrow> State_Monad.return ()
     | Inr _ \<Rightarrow> do { _ \<leftarrow> write_all F PROCESS_RULE_FILE (''update'' @ [nl]); State_Monad.return () }
   }"

definition kill_process :: "string \<Rightarrow> ('w policy_state, unit) state" where
  "kill_process path =
     modify (\<lambda>s. s\<lparr>info_log := info_log s @ [''Killing blacklisted process: '' @ path]\<rparr>)"

definition del_rule :: "string \<Rightarrow> string \<Rightarrow> string" where
  "del_rule tag path = ''del '' @ tag @ '' '' @ path @ [nl]"

definition add_rule :: "string \<Rightarrow> string \<Rightarrow> string" where
  "add_rule tag path = path @ ''='' @ tag @ [nl]"

text \<open>The loops; each returns whether it wrote a rule.\<close>

fun drop_from_black :: "'w file_ext \<Rightarrow> string list \<Rightarrow> ('w policy_state, bool) state" where
  "drop_from_black F [] = State_Monad.return False"
| "drop_from_black F (path # paths) = do {
     hit \<leftarrow> gets (\<lambda>s. path \<in> set (prev_black_set s));
     if hit then do {
       add_md5_rules F (del_rule ''1'' path);
       modify (\<lambda>s. s\<lparr>prev_black_set := removeAll path (prev_black_set s)\<rparr>);
       _ \<leftarrow> drop_from_black F paths;
       State_Monad.return True
     } else drop_from_black F paths
   }"

fun drop_from_white :: "'w file_ext \<Rightarrow> string list \<Rightarrow> ('w policy_state, bool) state" where
  "drop_from_white F [] = State_Monad.return False"
| "drop_from_white F (path # paths) = do {
     hit \<leftarrow> gets (\<lambda>s. path \<in> set (prev_white_set s));
     if hit then do {
       add_md5_rules F (del_rule ''0'' path);
       modify (\<lambda>s. s\<lparr>prev_white_set := removeAll path (prev_white_set s)\<rparr>);
       _ \<leftarrow> drop_from_white F paths;
       State_Monad.return True
     } else drop_from_white F paths
   }"

definition emit_rules :: "'w file_ext \<Rightarrow> (string \<Rightarrow> string) \<Rightarrow> string list \<Rightarrow> ('w policy_state, bool) state" where
  "emit_rules F rule paths = do {
     for_each paths (\<lambda>path. add_md5_rules F (rule path));
     State_Monad.return (paths \<noteq> [])
   }"

definition set_policy_process ::
  "'w file_ext \<Rightarrow> (string list \<Rightarrow> string list) \<Rightarrow> string list \<Rightarrow> bool \<Rightarrow> ('w policy_state, unit) state" where
  "set_policy_process F h process_list is_white =
     (if is_white then do {
        modify (\<lambda>s. s\<lparr>white_set := remdups process_list\<rparr>);
        white \<leftarrow> gets white_set;
        c1 \<leftarrow> drop_from_black F (visit h white);
        prev \<leftarrow> gets prev_white_set;
        c2 \<leftarrow> emit_rules F (add_rule ''0'') (filter (\<lambda>p. p \<notin> set prev) (visit h white));
        c3 \<leftarrow> emit_rules F (del_rule ''0'') (filter (\<lambda>p. p \<notin> set white) (visit h prev));
        if c1 \<or> c2 \<or> c3 then do {
          modify (\<lambda>s. s\<lparr>prev_white_set := white_set s\<rparr>);
          notify_kernel_update F
        } else State_Monad.return ()
      } else do {
        modify (\<lambda>s. s\<lparr>black_set := remdups process_list\<rparr>);
        mode \<leftarrow> gets run_process_mode;
        for_each process_list (\<lambda>path. if mode then kill_process path else State_Monad.return ());
        black \<leftarrow> gets black_set;
        c1 \<leftarrow> drop_from_white F (visit h black);
        prev \<leftarrow> gets prev_black_set;
        c2 \<leftarrow> emit_rules F (add_rule ''1'') (filter (\<lambda>p. p \<notin> set prev) (visit h black));
        c3 \<leftarrow> emit_rules F (del_rule ''1'') (filter (\<lambda>p. p \<notin> set black) (visit h prev));
        if c1 \<or> c2 \<or> c3 then do {
          modify (\<lambda>s. s\<lparr>prev_black_set := black_set s\<rparr>);
          notify_kernel_update F
        } else State_Monad.return ()
      })"

section \<open>What the loops do to the sets and to the log\<close>

lemma keeps_add_md5_rules [keep_intros]: "file_blind P \<Longrightarrow> keeps P (add_md5_rules F d)"
  unfolding add_md5_rules_def by (intro keep_intros)

lemma keeps_notify [keep_intros]: "file_blind P \<Longrightarrow> keeps P (notify_kernel_update F)"
  unfolding notify_kernel_update_def by (intro keep_intros)

text \<open>The sets of a state; the rule files do not change them.\<close>

definition policy_view :: "'w policy_state \<Rightarrow> string list \<times> string list \<times> string list \<times> string list \<times> bool" where
  "policy_view s = (white_set s, black_set s, prev_white_set s, prev_black_set s, run_process_mode s)"

lemma file_blind_view [simp]: "file_blind (\<lambda>s. policy_view s = v)"
  by (simp add: file_blind_def policy_view_def)

lemma view_kept:
  assumes "keeps (\<lambda>t. policy_view t = policy_view s) m" and "run_state m s = (r, t)"
  shows "policy_view t = policy_view s"
  using keepsD [OF assms(1), of s] assms(2) by simp

lemma add_md5_view: "run_state (add_md5_rules F d) s = (r, t) \<Longrightarrow> policy_view t = policy_view s"
  by (erule view_kept [rotated]) (intro keep_intros file_blind_view)

lemma notify_view: "run_state (notify_kernel_update F) s = (r, t) \<Longrightarrow> policy_view t = policy_view s"
  by (erule view_kept [rotated]) (intro keep_intros file_blind_view)

lemma emit_rules_view: "run_state (emit_rules F rule ps) s = (c, t) \<Longrightarrow> policy_view t = policy_view s \<and> (c \<longleftrightarrow> ps \<noteq> [])"
proof
  assume r: "run_state (emit_rules F rule ps) s = (c, t)"
  show "policy_view t = policy_view s"
    by (rule view_kept [OF _ r]) (unfold emit_rules_def, intro keep_intros file_blind_view)
  from r show "c \<longleftrightarrow> ps \<noteq> []" by (auto simp: emit_rules_def split: prod.splits)
qed

lemma kill_view:
  "keeps (\<lambda>t. policy_view t = v) (for_each ps (\<lambda>p. if b then kill_process p else State_Monad.return ()))"
  unfolding kill_process_def by (intro keep_intros) (simp add: policy_view_def)

lemma filter_removeAll: "filter (\<lambda>q. q \<noteq> p \<and> P q) xs = filter P (removeAll p xs)"
  by (induction xs) auto

lemma drop_from_black_view:
  "run_state (drop_from_black F ps) s = (c, t) \<Longrightarrow>
     policy_view t = (white_set s, black_set s, prev_white_set s,
        filter (\<lambda>p. p \<notin> set ps) (prev_black_set s), run_process_mode s)
     \<and> (c \<longleftrightarrow> set ps \<inter> set (prev_black_set s) \<noteq> {})"
proof (induction ps arbitrary: s c t)
  case (Cons p ps)
  show ?case
  proof (cases "p \<in> set (prev_black_set s)")
    case True
    obtain u s1 where a: "run_state (add_md5_rules F (del_rule ''1'' p)) s = (u, s1)" by (rule prod.exhaust)
    let ?s2 = "s1\<lparr>prev_black_set := removeAll p (prev_black_set s1)\<rparr>"
    obtain c' t' where d: "run_state (drop_from_black F ps) ?s2 = (c', t')" by (rule prod.exhaust)
    from Cons.prems True a d have "c = True" "t = t'" by simp_all
    with Cons.IH [OF d] add_md5_view [OF a] True show ?thesis
      by (auto simp: policy_view_def filter_removeAll)
  next
    case False
    with Cons.prems have d: "run_state (drop_from_black F ps) s = (c, t)" by simp
    have "filter (\<lambda>q. q \<notin> set ps) (prev_black_set s) = filter (\<lambda>q. q \<notin> set (p # ps)) (prev_black_set s)"
      using False by (intro filter_cong) auto
    with Cons.IH [OF d] False show ?thesis by auto
  qed
qed (simp add: policy_view_def)

lemma drop_from_white_view:
  "run_state (drop_from_white F ps) s = (c, t) \<Longrightarrow>
     policy_view t = (white_set s, black_set s, filter (\<lambda>p. p \<notin> set ps) (prev_white_set s),
        prev_black_set s, run_process_mode s)
     \<and> (c \<longleftrightarrow> set ps \<inter> set (prev_white_set s) \<noteq> {})"
proof (induction ps arbitrary: s c t)
  case (Cons p ps)
  show ?case
  proof (cases "p \<in> set (prev_white_set s)")
    case True
    obtain u s1 where a: "run_state (add_md5_rules F (del_rule ''0'' p)) s = (u, s1)" by (rule prod.exhaust)
    let ?s2 = "s1\<lparr>prev_white_set := removeAll p (prev_white_set s1)\<rparr>"
    obtain c' t' where d: "run_state (drop_from_white F ps) ?s2 = (c', t')" by (rule prod.exhaust)
    from Cons.prems True a d have "c = True" "t = t'" by simp_all
    with Cons.IH [OF d] add_md5_view [OF a] True show ?thesis
      by (auto simp: policy_view_def filter_removeAll)
  next
    case False
    with Cons.prems have d: "run_state (drop_from_white F ps) s = (c, t)" by simp
    have "filter (\<lambda>q. q \<notin> set ps) (prev_white_set s) = filter (\<lambda>q. q \<notin> set (p # ps)) (prev_white_set s)"
      using False by (intro filter_cong) auto
    with Cons.IH [OF d] False show ?thesis by auto
  qed
qed (simp add: policy_view_def)

section \<open>The contract of the two lists\<close>

definition put_process_list ::
  "'w file_ext \<Rightarrow> (string list \<Rightarrow> string list) \<Rightarrow> bool \<Rightarrow> string list \<Rightarrow> 'w policy_state \<Rightarrow> 'w policy_state" where
  "put_process_list F h c xs s = snd (run_state (set_policy_process F h xs c) s)"

abbreviation sent_white :: "'w policy_state \<Rightarrow> string set" where "sent_white s \<equiv> set (prev_white_set s)"
abbreviation sent_black :: "'w policy_state \<Rightarrow> string set" where "sent_black s \<equiv> set (prev_black_set s)"

lemma put_white_sets:
  "sent_white (put_process_list F h True xs s) = set xs
   \<and> sent_black (put_process_list F h True xs s) = sent_black s - set xs"
proof -
  let ?s0 = "s\<lparr>white_set := remdups xs\<rparr>"
  obtain c1 s1 where d: "run_state (drop_from_black F (visit h (remdups xs))) ?s0 = (c1, s1)" by (rule prod.exhaust)
  obtain c2 s2 where a: "run_state (emit_rules F (add_rule ''0'')
      (filter (\<lambda>p. p \<notin> set (prev_white_set s1)) (visit h (remdups xs)))) s1 = (c2, s2)" by (rule prod.exhaust)
  obtain c3 s3 where e: "run_state (emit_rules F (del_rule ''0'')
      (filter (\<lambda>p. p \<notin> set (remdups xs)) (visit h (prev_white_set s1)))) s2 = (c3, s3)" by (rule prod.exhaust)
  obtain u s4 where n: "run_state (notify_kernel_update F) (s3\<lparr>prev_white_set := white_set s3\<rparr>) = (u, s4)" by (rule prod.exhaust)
  have r: "put_process_list F h True xs s = (if c1 \<or> c2 \<or> c3 then s4 else s3)"
    unfolding put_process_list_def set_policy_process_def using d a e n by simp
  note v = drop_from_black_view [OF d] emit_rules_view [OF a] emit_rules_view [OF e] notify_view [OF n]
  from v have w: "white_set s3 = remdups xs" "prev_white_set s3 = prev_white_set s"
      "prev_white_set s1 = prev_white_set s" "prev_black_set s3 = filter (\<lambda>p. p \<notin> set xs) (prev_black_set s)"
    by (auto simp: policy_view_def)
  from v have n4: "prev_white_set s4 = white_set s3" "prev_black_set s4 = prev_black_set s3"
    by (simp_all add: policy_view_def)
  from v(2,3) w have c: "c2 \<longleftrightarrow> \<not> set xs \<subseteq> set (prev_white_set s)" "c3 \<longleftrightarrow> \<not> set (prev_white_set s) \<subseteq> set xs"
    by (auto simp: filter_empty_conv)
  show ?thesis using r n4 w c by (cases "c1 \<or> c2 \<or> c3") auto
qed

lemma put_black_sets:
  "sent_black (put_process_list F h False xs s) = set xs
   \<and> sent_white (put_process_list F h False xs s) = sent_white s - set xs"
proof -
  let ?s0 = "s\<lparr>black_set := remdups xs\<rparr>"
  obtain k s' where kl: "run_state (for_each xs (\<lambda>path. if run_process_mode s then kill_process path
      else State_Monad.return ())) ?s0 = (k, s')" by (rule prod.exhaust)
  obtain c1 s1 where d: "run_state (drop_from_white F (visit h (remdups xs))) s' = (c1, s1)" by (rule prod.exhaust)
  obtain c2 s2 where a: "run_state (emit_rules F (add_rule ''1'')
      (filter (\<lambda>p. p \<notin> set (prev_black_set s1)) (visit h (remdups xs)))) s1 = (c2, s2)" by (rule prod.exhaust)
  obtain c3 s3 where e: "run_state (emit_rules F (del_rule ''1'')
      (filter (\<lambda>p. p \<notin> set (remdups xs)) (visit h (prev_black_set s1)))) s2 = (c3, s3)" by (rule prod.exhaust)
  obtain u s4 where n: "run_state (notify_kernel_update F) (s3\<lparr>prev_black_set := black_set s3\<rparr>) = (u, s4)" by (rule prod.exhaust)
  have kv: "policy_view s' = policy_view ?s0" by (rule view_kept [OF kill_view kl])
  then have b: "black_set s' = remdups xs" by (simp add: policy_view_def)
  have r: "put_process_list F h False xs s = (if c1 \<or> c2 \<or> c3 then s4 else s3)"
    unfolding put_process_list_def set_policy_process_def using kl d a e n b by simp
  note v = drop_from_white_view [OF d] emit_rules_view [OF a] emit_rules_view [OF e] notify_view [OF n]
  from v kv have w: "black_set s3 = remdups xs" "prev_black_set s3 = prev_black_set s"
      "prev_black_set s1 = prev_black_set s" "prev_white_set s3 = filter (\<lambda>p. p \<notin> set xs) (prev_white_set s)"
    by (auto simp: policy_view_def)
  from v have n4: "prev_black_set s4 = black_set s3" "prev_white_set s4 = prev_white_set s3"
    by (simp_all add: policy_view_def)
  from v(2,3) w have c: "c2 \<longleftrightarrow> \<not> set xs \<subseteq> set (prev_black_set s)" "c3 \<longleftrightarrow> \<not> set (prev_black_set s) \<subseteq> set xs"
    by (auto simp: filter_empty_conv)
  show ?thesis using r n4 w c by (cases "c1 \<or> c2 \<or> c3") auto
qed

lemma put_process_sets:
  "sent_white (put_process_list F h c xs s) = (if c then (\<lambda>p. p) ` set xs else sent_white s - (\<lambda>p. p) ` set xs)"
  "sent_black (put_process_list F h c xs s) = (if c then sent_black s - (\<lambda>p. p) ` set xs else (\<lambda>p. p) ` set xs)"
  using put_white_sets [of F h xs s] put_black_sets [of F h xs s] by (cases c; simp)+

interpretation proc: black_white "\<lambda>_. True" sent_white sent_black "put_process_list F h" "\<lambda>p. p"
  for F :: "'w file_ext" and h :: "string list \<Rightarrow> string list"
  by unfold_locales (simp_all only: put_process_sets)

section \<open>The files written to\<close>

lemma wrote_add_md5 [path_intros]:
  "keeps (wrote l {PROCESS_RULE_FILE, MD5_RULE_FILE}) (add_md5_rules F d)"
  unfolding add_md5_rules_def by (intro path_intros monad_intros) simp

lemma wrote_drops [path_intros]:
  "keeps (wrote l {PROCESS_RULE_FILE, MD5_RULE_FILE}) (drop_from_black F ps)"
  "keeps (wrote l {PROCESS_RULE_FILE, MD5_RULE_FILE}) (drop_from_white F ps)"
  by (induction ps) (auto intro!: path_intros monad_intros)

lemma wrote_emit [path_intros]:
  "keeps (wrote l {PROCESS_RULE_FILE, MD5_RULE_FILE}) (emit_rules F rule ps)"
  unfolding emit_rules_def by (intro path_intros monad_intros keeps_for_each_set)

lemma wrote_set_policy:
  "keeps (wrote l {PROCESS_RULE_FILE, MD5_RULE_FILE}) (set_policy_process F h ps c)"
  unfolding set_policy_process_def notify_kernel_update_def kill_process_def
  by (intro path_intros monad_intros keeps_for_each_set) simp_all

section \<open>What the kernel module is told\<close>

text \<open>The meaning of the rules, as the code uses them: \<^verbatim>\<open>P=0\<close> puts \<open>P\<close> on the white list and
  \<^verbatim>\<open>P=1\<close> on the black list, \<^verbatim>\<open>del 0 P\<close> and \<^verbatim>\<open>del 1 P\<close> take it off.\<close>

definition apply_md5_rule :: "string \<Rightarrow> string set \<times> string set \<Rightarrow> string set \<times> string set" where
  "apply_md5_rule line k =
     (if starts_with ''del 0 '' line then (fst k - {butlast (drop 6 line)}, snd k)
      else if starts_with ''del 1 '' line then (fst k, snd k - {butlast (drop 6 line)})
      else if ends_with (''=0'' @ [nl]) line then (insert (take (length line - 3) line) (fst k), snd k)
      else if ends_with (''=1'' @ [nl]) line then (fst k, insert (take (length line - 3) line) (snd k))
      else k)"

definition kernel_lists :: "(string \<times> string) list \<Rightarrow> string set \<times> string set" where
  "kernel_lists log = fold (\<lambda>(p, line) k. if p = MD5_RULE_FILE then apply_md5_rule line k else k) log ({}, {})"

text \<open>A path that does not look like a deletion.\<close>

definition plain_path :: "string \<Rightarrow> bool" where
  "plain_path p \<longleftrightarrow> \<not> starts_with ''del '' p"

lemma add_rule_not_del:
  assumes "plain_path p"
  shows "\<not> starts_with (''del '' @ q) (add_rule t p)"
proof
  assume "starts_with (''del '' @ q) (add_rule t p)"
  then have "prefix ''del '' (p @ ''='' @ t @ [nl])"
    unfolding starts_with_iff_prefix add_rule_def by (rule append_prefixD)
  then have "prefix ''del '' (p @ CHR ''='' # t @ [nl])" by simp
  then consider "prefix ''del '' p" | us where "''del '' = p @ us" "prefix us (CHR ''='' # t @ [nl])"
    unfolding prefix_append by blast
  then show False
  proof cases
    case 1
    with assms show False by (simp add: plain_path_def starts_with_iff_prefix)
  next
    case 2
    show False
    proof (cases us)
      case Nil
      with 2 assms show False by (simp add: plain_path_def starts_with_def)
    next
      case (Cons x xs)
      with 2(2) have "x = CHR ''=''" by simp
      with 2(1) Cons have "CHR ''='' \<in> set ''del ''" by (metis in_set_conv_decomp)
      then show False by simp
    qed
  qed
qed

lemma ends_add_rule:
  "ends_with (''='' @ t @ [nl]) (add_rule t p)" "take (length (add_rule t p) - (length t + 2)) (add_rule t p) = p"
  by (simp_all add: ends_with_def add_rule_def)

lemma not_ends_0: "\<not> ends_with (''=0'' @ [nl]) (add_rule ''1'' p)"
  by (simp add: ends_with_def add_rule_def nl_def)

lemma apply_del_rule [simp]:
  "apply_md5_rule (del_rule ''0'' p) k = (fst k - {p}, snd k)"
  "apply_md5_rule (del_rule ''1'' p) k = (fst k, snd k - {p})"
  by (simp_all add: apply_md5_rule_def del_rule_def starts_with_def)

lemma apply_add_rule:
  assumes "plain_path p"
  shows "apply_md5_rule (add_rule ''0'' p) k = (insert p (fst k), snd k)"
    and "apply_md5_rule (add_rule ''1'' p) k = (fst k, insert p (snd k))"
  using add_rule_not_del [OF assms, of "''0 ''"] add_rule_not_del [OF assms, of "''1 ''"]
    ends_add_rule [of "''0''" p] ends_add_rule [of "''1''" p] not_ends_0 [of p]
  by (simp_all add: apply_md5_rule_def numeral_3_eq_3)

abbreviation kern :: "'w policy_state \<Rightarrow> string set \<times> string set" where
  "kern s \<equiv> kernel_lists (write_log s)"

lemma kernel_lists_snoc [simp]:
  "kernel_lists (log @ [(p, line)]) =
     (if p = MD5_RULE_FILE then apply_md5_rule line (kernel_lists log) else kernel_lists log)"
  by (simp add: kernel_lists_def)

lemma add_md5_kern:
  assumes "files_ok F" and "run_state (add_md5_rules F d) s = (r, t)"
  shows "kern t = apply_md5_rule d (kern s)"
proof -
  obtain r1 s1 where o: "run_state (open_write F MD5_RULE_FILE) s = (r1, s1)" by (rule prod.exhaust)
  obtain r2 s2 where w: "run_state (write_all F MD5_RULE_FILE d) s1 = (r2, s2)" by (rule prod.exhaust)
  from succeedsD [OF files_ok_open [OF assms(1)] o] succeedsD [OF files_ok_write [OF assms(1)] w]
  have "r1 = Inr ()" "r2 = Inr ()" by auto
  with assms(2) o w run_open_write_log [OF o] run_write_all_log [OF w] show ?thesis
    by (simp add: add_md5_rules_def)
qed

lemma emit_rules_kern:
  assumes "files_ok F" and "run_state (emit_rules F rule ps) s = (c, t)"
  shows "kern t = fold (\<lambda>p. apply_md5_rule (rule p)) ps (kern s)"
proof -
  have "kern t = fold (\<lambda>p. apply_md5_rule (rule p)) ps (kern s)"
    if "run_state (for_each ps (\<lambda>p. add_md5_rules F (rule p))) s = (u, t)" for u s
    using that
  proof (induction ps arbitrary: s)
    case (Cons p ps)
    obtain v s1 where a: "run_state (add_md5_rules F (rule p)) s = (v, s1)" by (rule prod.exhaust)
    with Cons.prems have "run_state (for_each ps (\<lambda>p. add_md5_rules F (rule p))) s1 = (u, t)" by simp
    from Cons.IH [OF this] add_md5_kern [OF assms(1) a] show ?case by simp
  qed simp
  then show ?thesis using assms(2) by (auto simp: emit_rules_def split: prod.splits)
qed

lemma notify_kern: "run_state (notify_kernel_update F) s = (r, t) \<Longrightarrow> kern t = kern s"
proof -
  assume n: "run_state (notify_kernel_update F) s = (r, t)"
  obtain r1 s1 where o: "run_state (open_write F PROCESS_RULE_FILE) s = (r1, s1)" by (rule prod.exhaust)
  obtain r2 s2 where w: "run_state (write_all F PROCESS_RULE_FILE (''update'' @ [nl])) s1 = (r2, s2)" by (rule prod.exhaust)
  have ne: "PROCESS_RULE_FILE \<noteq> MD5_RULE_FILE" by (simp add: PROCESS_RULE_FILE_def MD5_RULE_FILE_def)
  show ?thesis
    using n o w ne run_open_write_log [OF o] run_write_all_log [OF w]
    by (auto simp: notify_kernel_update_def split: sum.splits if_splits)
qed

lemma drop_from_black_kern:
  "files_ok F \<Longrightarrow> run_state (drop_from_black F ps) s = (c, t) \<Longrightarrow>
     kern t = (fst (kern s), snd (kern s) - (set ps \<inter> set (prev_black_set s)))"
proof (induction ps arbitrary: s c t)
  case (Cons p ps)
  show ?case
  proof (cases "p \<in> set (prev_black_set s)")
    case True
    obtain u s1 where a: "run_state (add_md5_rules F (del_rule ''1'' p)) s = (u, s1)" by (rule prod.exhaust)
    let ?s2 = "s1\<lparr>prev_black_set := removeAll p (prev_black_set s1)\<rparr>"
    obtain c' t' where d: "run_state (drop_from_black F ps) ?s2 = (c', t')" by (rule prod.exhaust)
    from Cons.prems True a d have "t = t'" by simp
    with Cons.IH [OF Cons.prems(1) d] add_md5_view [OF a] add_md5_kern [OF Cons.prems(1) a] True
    show ?thesis by (auto simp: policy_view_def)
  next
    case False
    with Cons.prems have "run_state (drop_from_black F ps) s = (c, t)" by simp
    from Cons.IH [OF Cons.prems(1) this] False show ?thesis by auto
  qed
qed simp

lemma drop_from_white_kern:
  "files_ok F \<Longrightarrow> run_state (drop_from_white F ps) s = (c, t) \<Longrightarrow>
     kern t = (fst (kern s) - (set ps \<inter> set (prev_white_set s)), snd (kern s))"
proof (induction ps arbitrary: s c t)
  case (Cons p ps)
  show ?case
  proof (cases "p \<in> set (prev_white_set s)")
    case True
    obtain u s1 where a: "run_state (add_md5_rules F (del_rule ''0'' p)) s = (u, s1)" by (rule prod.exhaust)
    let ?s2 = "s1\<lparr>prev_white_set := removeAll p (prev_white_set s1)\<rparr>"
    obtain c' t' where d: "run_state (drop_from_white F ps) ?s2 = (c', t')" by (rule prod.exhaust)
    from Cons.prems True a d have "t = t'" by simp
    with Cons.IH [OF Cons.prems(1) d] add_md5_view [OF a] add_md5_kern [OF Cons.prems(1) a] True
    show ?thesis by (auto simp: policy_view_def)
  next
    case False
    with Cons.prems have "run_state (drop_from_white F ps) s = (c, t)" by simp
    from Cons.IH [OF Cons.prems(1) this] False show ?thesis by auto
  qed
qed simp

lemma fold_add_rules:
  "\<forall>p \<in> set ps. plain_path p \<Longrightarrow> fold (\<lambda>p. apply_md5_rule (add_rule ''0'' p)) ps k = (fst k \<union> set ps, snd k)"
  "\<forall>p \<in> set ps. plain_path p \<Longrightarrow> fold (\<lambda>p. apply_md5_rule (add_rule ''1'' p)) ps k = (fst k, snd k \<union> set ps)"
  by (induction ps arbitrary: k) (auto simp: apply_add_rule)

lemma fold_del_rules:
  "fold (\<lambda>p. apply_md5_rule (del_rule ''0'' p)) ps k = (fst k - set ps, snd k)"
  "fold (\<lambda>p. apply_md5_rule (del_rule ''1'' p)) ps k = (fst k, snd k - set ps)"
  by (induction ps arbitrary: k) auto

definition kernel_told :: "'w policy_state \<Rightarrow> bool" where
  "kernel_told s \<longleftrightarrow> kern s = (sent_white s, sent_black s)"

lemma put_white_kern:
  assumes "files_ok F" and "kernel_told s" and "\<forall>p \<in> set xs. plain_path p"
  shows "kern (put_process_list F h True xs s) = (set xs, sent_black s - set xs)"
proof -
  let ?s0 = "s\<lparr>white_set := remdups xs\<rparr>"
  obtain c1 s1 where d: "run_state (drop_from_black F (visit h (remdups xs))) ?s0 = (c1, s1)" by (rule prod.exhaust)
  obtain c2 s2 where a: "run_state (emit_rules F (add_rule ''0'')
      (filter (\<lambda>p. p \<notin> set (prev_white_set s1)) (visit h (remdups xs)))) s1 = (c2, s2)" by (rule prod.exhaust)
  obtain c3 s3 where e: "run_state (emit_rules F (del_rule ''0'')
      (filter (\<lambda>p. p \<notin> set (remdups xs)) (visit h (prev_white_set s1)))) s2 = (c3, s3)" by (rule prod.exhaust)
  obtain u s4 where n: "run_state (notify_kernel_update F) (s3\<lparr>prev_white_set := white_set s3\<rparr>) = (u, s4)" by (rule prod.exhaust)
  have "kern (put_process_list F h True xs s) = kern s3"
    unfolding put_process_list_def set_policy_process_def using d a e n notify_kern [OF n] by simp
  moreover have "kern s1 = (sent_white s, sent_black s - set xs)"
    using drop_from_black_kern [OF assms(1) d] assms(2) by (auto simp: kernel_told_def)
  moreover have "prev_white_set s1 = prev_white_set s"
    using drop_from_black_view [OF d] by (simp add: policy_view_def)
  ultimately show ?thesis
    using emit_rules_kern [OF assms(1) a] emit_rules_kern [OF assms(1) e] assms(3)
    by (auto simp: fold_add_rules fold_del_rules)
qed

lemma put_black_kern:
  assumes "files_ok F" and "kernel_told s" and "\<forall>p \<in> set xs. plain_path p"
  shows "kern (put_process_list F h False xs s) = (sent_white s - set xs, set xs)"
proof -
  let ?s0 = "s\<lparr>black_set := remdups xs\<rparr>"
  let ?m = "for_each xs (\<lambda>path. if run_process_mode s then kill_process path else State_Monad.return ())"
  obtain k s' where kl: "run_state ?m ?s0 = (k, s')" by (rule prod.exhaust)
  obtain c1 s1 where d: "run_state (drop_from_white F (visit h (remdups xs))) s' = (c1, s1)" by (rule prod.exhaust)
  obtain c2 s2 where a: "run_state (emit_rules F (add_rule ''1'')
      (filter (\<lambda>p. p \<notin> set (prev_black_set s1)) (visit h (remdups xs)))) s1 = (c2, s2)" by (rule prod.exhaust)
  obtain c3 s3 where e: "run_state (emit_rules F (del_rule ''1'')
      (filter (\<lambda>p. p \<notin> set (remdups xs)) (visit h (prev_black_set s1)))) s2 = (c3, s3)" by (rule prod.exhaust)
  obtain u s4 where n: "run_state (notify_kernel_update F) (s3\<lparr>prev_black_set := black_set s3\<rparr>) = (u, s4)" by (rule prod.exhaust)
  have kv: "policy_view s' = policy_view ?s0" by (rule view_kept [OF kill_view kl])
  have "keeps (\<lambda>t. write_log t = write_log s) ?m"
    unfolding kill_process_def by (intro keep_intros) simp
  from keepsD_run [OF this _ kl] have kl': "write_log s' = write_log s" by simp
  have "kern (put_process_list F h False xs s) = kern s3"
    unfolding put_process_list_def set_policy_process_def using kl d a e n notify_kern [OF n] kv
    by (simp add: policy_view_def)
  moreover have "kern s1 = (sent_white s - set xs, sent_black s)"
    using drop_from_white_kern [OF assms(1) d] assms(2) kv kl' by (auto simp: kernel_told_def policy_view_def)
  moreover have "prev_black_set s1 = prev_black_set s"
    using drop_from_white_view [OF d] kv by (simp add: policy_view_def)
  ultimately show ?thesis
    using emit_rules_kern [OF assms(1) a] emit_rules_kern [OF assms(1) e] assms(3)
    by (auto simp: fold_add_rules fold_del_rules)
qed

lemma kernel_told_put:
  "files_ok F \<Longrightarrow> kernel_told s \<Longrightarrow> \<forall>p \<in> set xs. plain_path p \<Longrightarrow> kernel_told (put_process_list F h c xs s)"
  using put_white_kern [of F s xs h] put_black_kern [of F s xs h] put_process_sets [of F h c xs s]
  by (cases c) (simp_all add: kernel_told_def)

lemma settled_white:
  assumes "set xs = sent_white s" and "set xs \<inter> sent_black s = {}"
  shows "write_log (put_process_list F h True xs s) = write_log s"
proof -
  have d: "run_state (drop_from_black F ps) t = (False, t)" if "set ps \<inter> set (prev_black_set t) = {}"
    for ps and t :: "'a policy_state" using that by (induction ps) auto
  have f: "filter (\<lambda>p. p \<notin> set (prev_white_set s)) (visit h (remdups xs)) = []"
    "filter (\<lambda>p. p \<notin> set xs) (visit h (prev_white_set s)) = []"
    using assms(1) by (simp_all add: filter_empty_conv)
  show ?thesis
    unfolding put_process_list_def set_policy_process_def
    using assms d [of "visit h (remdups xs)" "s\<lparr>white_set := remdups xs\<rparr>"] f
    by (simp add: emit_rules_def)
qed

lemma settled_black:
  assumes "set xs = sent_black s" and "set xs \<inter> sent_white s = {}"
  shows "write_log (put_process_list F h False xs s) = write_log s"
proof -
  let ?s0 = "s\<lparr>black_set := remdups xs\<rparr>"
  let ?m = "for_each xs (\<lambda>path. if run_process_mode s then kill_process path else State_Monad.return ())"
  obtain k s' where kl: "run_state ?m ?s0 = (k, s')" by (rule prod.exhaust)
  have kv: "policy_view s' = policy_view ?s0" by (rule view_kept [OF kill_view kl])
  have "keeps (\<lambda>t. write_log t = write_log s) ?m"
    unfolding kill_process_def by (intro keep_intros) simp
  from keepsD_run [OF this _ kl] have w: "write_log s' = write_log s" by simp
  have d: "run_state (drop_from_white F ps) t = (False, t)" if "set ps \<inter> set (prev_white_set t) = {}"
    for ps and t :: "'a policy_state" using that by (induction ps) auto
  have v: "black_set s' = remdups xs" "prev_black_set s' = prev_black_set s" "prev_white_set s' = prev_white_set s"
    using kv by (simp_all add: policy_view_def)
  have f: "filter (\<lambda>p. p \<notin> set (prev_black_set s)) (visit h (remdups xs)) = []"
    "filter (\<lambda>p. p \<notin> set xs) (visit h (prev_black_set s)) = []"
    using assms(1) by (simp_all add: filter_empty_conv)
  show ?thesis
    unfolding put_process_list_def set_policy_process_def
    using assms d [of "visit h (remdups xs)" s'] f kl v w
    by (simp add: emit_rules_def)
qed

section \<open>Properties\<close>

text \<open>A process is never on both lists. After a white list arrives, the paths recorded as
  sent are exactly that list, and its members are off the black list; the same for a black list
  with the colours exchanged.\<close>

theorem process_lists_replace:
  "sent_white (put_process_list F h True xs s) = set xs
   \<and> sent_black (put_process_list F h True xs s) = sent_black s - set xs
   \<and> sent_black (put_process_list F h False xs s) = set xs
   \<and> sent_white (put_process_list F h False xs s) = sent_white s - set xs
   \<and> (let s' = fold (\<lambda>(c, xs). put_process_list F h c xs) ops (policy_new w mode)
      in sent_white s' \<inter> sent_black s' = {})"
proof -
  have "sent_white (proc.history F h ops (policy_new w mode)) \<inter> sent_black (proc.history F h ops (policy_new w mode)) = {}"
    by (rule proc.disjoint_history) (simp_all add: policy_new_def)
  then show ?thesis
    using put_white_sets [of F h xs s] put_black_sets [of F h xs s] by (simp add: proc.history_def)
qed

text \<open>C4: the differences add up. While the rule file accepts writes, the lists that the kernel
  module has after reading every rule written since the start are exactly the lists the manager
  keeps, after any sequence of white and black lists (of paths that do not begin like a deletion
  rule).\<close>

theorem kernel_lists_follow:
  assumes "files_ok F" and "\<forall>(c, xs) \<in> set ops. \<forall>p \<in> set xs. plain_path p"
  shows "let s = fold (\<lambda>(c, xs). put_process_list F h c xs) ops (policy_new w mode)
    in kernel_lists (write_log s) = (sent_white s, sent_black s)"
proof -
  have "kernel_told (fold (\<lambda>(c, xs). put_process_list F h c xs) ops (policy_new w mode))"
    using assms(2)
  proof (induction ops rule: rev_induct)
    case Nil
    then show ?case by (simp add: kernel_told_def policy_new_def kernel_lists_def)
  next
    case (snoc op ops)
    then show ?case using kernel_told_put [OF assms(1)] by (auto split: prod.splits)
  qed
  then show ?thesis by (simp add: kernel_told_def Let_def)
qed

theorem kernel_lists_follow_witness:
  "kernel_lists (write_log (fold (\<lambda>(c, xs). put_process_list free_files rev c xs)
       [(True, [''a'', ''b'']), (False, [''b''])] (policy_new () True))) = ({''a''}, {''b''})"
proof -
  have p: "\<forall>(c, xs) \<in> set [(True, [''a'', ''b'']), (False, [''b''])]. \<forall>p \<in> set xs. plain_path p" by code_simp
  show ?thesis
    using kernel_lists_follow [OF free_files_ok p, of rev "()" True]
    by (auto simp: Let_def put_process_sets policy_new_def)
qed

text \<open>Sending the list that is already in force, white or black and in whatever order,
  writes no rule and no notification.\<close>

theorem same_list_writes_nothing:
  assumes "set ys = set xs"
  shows "write_log (put_process_list F h c ys (put_process_list F h c xs s)) = write_log (put_process_list F h c xs s)"
proof (cases c)
  case True
  then show ?thesis using put_white_sets [of F h xs s] assms by (auto intro: settled_white)
next
  case False
  then show ?thesis using put_black_sets [of F h xs s] assms by (auto intro: settled_black)
qed

theorem same_list_writes_nothing_witness:
  "write_log (put_process_list free_files rev False [''b'', ''a''] (put_process_list free_files rev False [''a'', ''b''] (policy_new () True)))
     = write_log (put_process_list free_files rev False [''a'', ''b''] (policy_new () True))"
  by (rule same_list_writes_nothing) auto

end
