(* ===== verification/Pattern_Sync.thy ===== *)
theory Pattern_Sync
  imports Proc_File
begin

text \<open>
  The contract shared by the two pattern managers of \<^verbatim>\<open>crates/pattern\<close>: the manager remembers the
  texts it last loaded into the kernel module, and loads again only when the current texts differ
  from the remembered ones. \<open>cur\<close> are the texts compared, \<open>pre\<close> the remembered ones; \<open>reload\<close>
  clears the kernel's tables and writes everything, \<open>backup\<close> remembers.
\<close>

text \<open>A trusted directory of the server, used by both managers.\<close>

record global_trust_dir =
  td_dir :: string
  td_typ :: u8
  td_is_extend :: u8

locale change_tracker =
  fixes has_changed :: "'s \<Rightarrow> bool"
    and cur pre :: "'s \<Rightarrow> 'p"
    and reload :: "('s, unit) state"
    and backup :: "'s \<Rightarrow> 's"
    and set_rules :: "('s, unit) state"
  assumes changed_iff: "has_changed s \<longleftrightarrow> pre s \<noteq> cur s"
    and reload_cur: "cur (snd (run_state reload s)) = cur s"
    and backup_cur: "cur (backup s) = cur s"
    and backup_pre: "pre (backup s) = cur s"
    and set_rules_run: "run_state set_rules s =
      (if has_changed s then ((), backup (snd (run_state reload s))) else ((), s))"
begin

lemma set_rules_unchanged: "\<not> has_changed s \<Longrightarrow> run_state set_rules s = ((), s)"
  by (simp add: set_rules_run)

lemma set_rules_settles: "run_state set_rules s = (u, s') \<Longrightarrow> \<not> has_changed s' \<and> cur s' = cur s"
  by (auto simp: set_rules_run changed_iff reload_cur backup_cur backup_pre split: if_splits)

lemma set_rules_twice:
  "run_state set_rules s = (u, s') \<Longrightarrow> run_state set_rules s' = ((), s')"
  using set_rules_settles set_rules_unchanged by blast

text \<open>An edit that leaves the compared texts as they were loaded is not loaded.\<close>

lemma unseen_edit:
  "pre s = cur s \<Longrightarrow> pre (edit s) = pre s \<Longrightarrow> cur (edit s) = cur s \<Longrightarrow>
     run_state set_rules (edit s) = ((), edit s)"
  by (rule set_rules_unchanged) (simp add: changed_iff)

end

end
