(* ===== verification/Pattern_Rules.thy ===== *)
theory Pattern_Rules
  imports Pattern_Sync Json "HOL-Library.AList"
begin

text \<open>
  \<^verbatim>\<open>crates/pattern/src/pattern_rules_mgr.rs\<close>: the patterns and rules of the file protection. The
  policies of the server are rendered into texts, one pattern or rule per line, and the texts are
  loaded into the kernel module through three control files. The state extends \<open>proc_state\<close> with
  the fields of \<^verbatim>\<open>PatternRulesMgr\<close>; a \<^verbatim>\<open>HashMap\<close> is an association list with distinct keys whose
  iteration order is given by \<open>h\<close>.
\<close>

section \<open>Data\<close>

record policy_exipor_protect =
  ex_file_type :: string
  ex_typ :: u8
  ex_map_comm :: "(string \<times> string) list"

record policy_protect_dir =
  pd_id :: u32
  pd_dir :: string
  pd_protect_rw :: u8
  pd_typ :: u8
  pd_is_extend :: u8
  pd_include_file :: string
  pd_file_ext :: string
  pd_is_white :: string
  pd_white_hash :: string

record 'w pattern_state = "'w proc_state" +
  const_file_patterns :: string
  const_file_rules :: string
  global_trust_dir_patterns :: string
  global_trust_dir_rules :: string
  exiport_dir_patterns :: string
  exiport_dir_rules :: string
  protect_dir_patterns :: string
  protect_dir_rules :: string
  protect_dir_white_patterns :: string
  protect_dir_white_rules :: string
  protect_dir_include_exe_patterns :: string
  protect_dir_include_exe_rules :: string
  protect_dir_exclude_exe_patterns :: string
  protect_dir_exclude_exe_rules :: string
  exiport_true_process :: string
  protect_true_process :: string
  pre_global_trust_dir_patterns :: string
  pre_exiport_dir_patterns :: string
  pre_const_file_patterns :: string
  pre_protect_dir_patterns :: string
  pre_protect_dir_white_patterns :: string
  pre_protect_dir_include_exe_patterns :: string
  pre_protect_dir_exclude_exe_patterns :: string
  pre_exiport_true_process :: string
  pre_protect_true_process :: string
  default_global_trust_dirs :: "global_trust_dir list"
  load_pattern_rules_flag :: bool
  inited :: bool

definition pattern_mgr_new :: "'w \<Rightarrow> 'w pattern_state" where
  "pattern_mgr_new w =
     \<lparr>fos = w, write_log = [],
      const_file_patterns = [], const_file_rules = [], global_trust_dir_patterns = [],
      global_trust_dir_rules = [], exiport_dir_patterns = [], exiport_dir_rules = [],
      protect_dir_patterns = [], protect_dir_rules = [], protect_dir_white_patterns = [],
      protect_dir_white_rules = [], protect_dir_include_exe_patterns = [],
      protect_dir_include_exe_rules = [], protect_dir_exclude_exe_patterns = [],
      protect_dir_exclude_exe_rules = [], exiport_true_process = [], protect_true_process = [],
      pre_global_trust_dir_patterns = [], pre_exiport_dir_patterns = [], pre_const_file_patterns = [],
      pre_protect_dir_patterns = [], pre_protect_dir_white_patterns = [],
      pre_protect_dir_include_exe_patterns = [], pre_protect_dir_exclude_exe_patterns = [],
      pre_exiport_true_process = [], pre_protect_true_process = [],
      default_global_trust_dirs = [\<lparr>td_dir = ''/opt/osec/log'', td_typ = 0, td_is_extend = 0\<rparr>],
      load_pattern_rules_flag = False, inited = False\<rparr>"

section \<open>Policies from the server\<close>

definition json_u8 :: "json option \<Rightarrow> u8" where
  "json_u8 v = ucast (opt_or 0 (Option.bind v as_u64))"

definition json_text :: "json option \<Rightarrow> string" where
  "json_text v = opt_or [] (Option.bind v as_str)"

definition exipor_processes :: "json \<Rightarrow> (string \<times> string) list" where
  "exipor_processes item =
     fold (\<lambda>process m.
        case (Option.bind (json_get process ''name'') as_str, Option.bind (json_get process ''hash'') as_str) of
          (Some name, Some hash) \<Rightarrow> AList.update hash name m
        | _ \<Rightarrow> m)
       (opt_or [] (Option.bind (json_get item ''process'') as_array)) []"

definition parse_exipor_policy_from_json :: "json \<Rightarrow> policy_exipor_protect list res" where
  "parse_exipor_policy_from_json data =
     (case as_array data of
        None \<Rightarrow> Inl ''data is not an array''
      | Some array \<Rightarrow> Inr (map (\<lambda>item.
          \<lparr>ex_file_type = json_text (json_get item ''file_suffix''),
           ex_typ = json_u8 (json_get item ''type''),
           ex_map_comm = exipor_processes item\<rparr>) array))"

definition white_hashes :: "json \<Rightarrow> string list" where
  "white_hashes item =
     List.map_filter (\<lambda>p. as_str (json_index p ''hash'')) (opt_or [] (as_array (json_index item ''process'')))"

definition parse_protect_item :: "json \<Rightarrow> policy_protect_dir" where
  "parse_protect_item item =
     \<lparr>pd_id = ucast (opt_or 0 (as_u64 (json_index item ''id''))),
      pd_dir = opt_or [] (as_str (json_index item ''dir'')),
      pd_protect_rw = ucast (opt_or 0 (as_u64 (json_index item ''protect_rw''))),
      pd_typ = ucast (opt_or 0 (as_u64 (json_index item ''type''))),
      pd_is_extend = ucast (opt_or 0 (as_u64 (json_index item ''is_extend''))),
      pd_include_file = opt_or [] (as_str (json_index item ''include_file'')),
      pd_file_ext = opt_or [] (as_str (json_index item ''protect_file'')),
      pd_is_white = opt_or [] (as_str (json_index item ''protect_folder'')),
      pd_white_hash = join '','' (white_hashes item)\<rparr>"

definition parse_policy_from_json :: "json \<Rightarrow> policy_protect_dir list res" where
  "parse_policy_from_json data =
     (case as_array data of
        None \<Rightarrow> Inl ''data is not an array''
      | Some array \<Rightarrow> Inr (map parse_protect_item array))"

section \<open>The control files\<close>

definition file_patterns_path :: string where "file_patterns_path = ''/proc/osec/dpi/file_patterns''"
definition rules_path :: string where "rules_path = ''/proc/osec/dpi/rules''"
definition true_process_path :: string where "true_process_path = ''/proc/osec/dpi/true_process_rt''"
definition files_to_check :: "string list" where
  "files_to_check =
     [''/proc/osec/docker_rt'', ''/proc/osec/dpi/file_patterns'', ''/proc/osec/dpi/rules'',
      ''/proc/osec/dpi/true_process_rt'', ''/proc/osec/forward/forward_device'',
      ''/proc/osec/forward/forward_gateway'', ''/proc/osec/forward/session_cache_max'',
      ''/proc/osec/forward/session_cache_tbl'', ''/proc/osec/forward/session_cache_timeo'',
      ''/proc/osec/md5_rt'', ''/proc/osec/osec_conn/block_saddr_rt'',
      ''/proc/osec/osec_conn/block_saddr_rt_v6'', ''/proc/osec/osec_conn/ipv6_block_cache_max'',
      ''/proc/osec/osec_conn/ipv6_block_cache_tbl'', ''/proc/osec/process_rt'', ''/proc/osec/self'']"

definition check_files_exist :: "'w file_ext \<Rightarrow> (('w, 'z) proc_state_scheme, bool) state" where
  "check_files_exist F = gets (\<lambda>s. list_all (\<lambda>path. fx_exists F path (fos s)) files_to_check)"

definition pattern_init :: "('w pattern_state, unit) state" where
  "pattern_init = do {
     done \<leftarrow> gets inited;
     if done then State_Monad.return ()
     else modify (\<lambda>s. s\<lparr>load_pattern_rules_flag := False, inited := True\<rparr>)
   }"

text \<open>Write only where the file exists already.\<close>

definition write_to_proc_file ::
  "'w file_ext \<Rightarrow> string \<Rightarrow> string \<Rightarrow> (('w, 'z) proc_state_scheme, unit res) state" where
  "write_to_proc_file F path content = do {
     ex \<leftarrow> path_exists F path;
     if \<not> ex then State_Monad.return (Inl (''File '' @ path @ '' does not exist''))
     else tryE (open_write F path) (\<lambda>_. write_all F path content)
   }"

definition clear_file_pattern :: "'w file_ext \<Rightarrow> (('w, 'z) proc_state_scheme, unit res) state" where
  "clear_file_pattern F = create_and_write F file_patterns_path clear_line"

definition clear_dpi_rules :: "'w file_ext \<Rightarrow> (('w, 'z) proc_state_scheme, unit res) state" where
  "clear_dpi_rules F = create_and_write F rules_path clear_line"

definition clear_true_process :: "'w file_ext \<Rightarrow> (('w, 'z) proc_state_scheme, unit) state" where
  "clear_true_process F = do { _ \<leftarrow> create_and_write F true_process_path clear_line; State_Monad.return () }"

definition build_file_pattern :: "'w file_ext \<Rightarrow> (('w, 'z) proc_state_scheme, unit) state" where
  "build_file_pattern F = do { _ \<leftarrow> create_and_write F file_patterns_path build_line; State_Monad.return () }"

section \<open>Loading\<close>

text \<open>The conditional writes of \<^verbatim>\<open>load_pattern_rules\<close>, in the order of the code: a pattern text
  is written if it is not empty, and the rule text of its group after it.\<close>

definition load_plan :: "'w pattern_state \<Rightarrow> (string \<times> string) list" where
  "load_plan s =
     (if const_file_patterns s \<noteq> []
      then [(file_patterns_path, const_file_patterns s), (rules_path, const_file_rules s)] else [])
   @ (if global_trust_dir_patterns s \<noteq> []
      then [(file_patterns_path, global_trust_dir_patterns s), (rules_path, global_trust_dir_rules s)] else [])
   @ (if exiport_dir_patterns s \<noteq> []
      then [(file_patterns_path, exiport_dir_patterns s), (rules_path, exiport_dir_rules s)] else [])
   @ (if protect_dir_patterns s \<noteq> [] then [(file_patterns_path, protect_dir_patterns s)] else [])
   @ (if protect_dir_rules s \<noteq> [] then [(rules_path, protect_dir_rules s)] else [])
   @ (if protect_dir_white_patterns s \<noteq> []
      then [(file_patterns_path, protect_dir_white_patterns s), (rules_path, protect_dir_white_rules s)] else [])
   @ (if protect_dir_include_exe_patterns s \<noteq> []
      then [(file_patterns_path, protect_dir_include_exe_patterns s),
            (rules_path, protect_dir_include_exe_rules s)] else [])
   @ (if protect_dir_exclude_exe_patterns s \<noteq> []
      then [(file_patterns_path, protect_dir_exclude_exe_patterns s),
            (rules_path, protect_dir_exclude_exe_rules s)] else [])
   @ (if protect_true_process s \<noteq> [] then [(true_process_path, protect_true_process s)] else [])
   @ (if exiport_true_process s \<noteq> [] then [(true_process_path, exiport_true_process s)] else [])"

definition load_pattern_rules :: "'w file_ext \<Rightarrow> ('w pattern_state, unit) state" where
  "load_pattern_rules F = do {
     plan \<leftarrow> gets load_plan;
     for_each plan (\<lambda>(path, content). do { _ \<leftarrow> write_to_proc_file F path content; State_Monad.return () });
     build_file_pattern F
   }"

definition patterns_has_changed :: "'w pattern_state \<Rightarrow> bool" where
  "patterns_has_changed s \<longleftrightarrow>
     pre_global_trust_dir_patterns s \<noteq> global_trust_dir_patterns s \<or>
     pre_exiport_dir_patterns s \<noteq> exiport_dir_patterns s \<or>
     pre_const_file_patterns s \<noteq> const_file_patterns s \<or>
     pre_protect_dir_patterns s \<noteq> protect_dir_patterns s \<or>
     pre_protect_dir_white_patterns s \<noteq> protect_dir_white_patterns s \<or>
     pre_protect_dir_include_exe_patterns s \<noteq> protect_dir_include_exe_patterns s \<or>
     pre_protect_dir_exclude_exe_patterns s \<noteq> protect_dir_exclude_exe_patterns s \<or>
     pre_exiport_true_process s \<noteq> exiport_true_process s \<or>
     pre_protect_true_process s \<noteq> protect_true_process s"

definition patterns_backup :: "'w pattern_state \<Rightarrow> 'w pattern_state" where
  "patterns_backup s = s\<lparr>
     pre_global_trust_dir_patterns := global_trust_dir_patterns s,
     pre_exiport_dir_patterns := exiport_dir_patterns s,
     pre_const_file_patterns := const_file_patterns s,
     pre_protect_dir_patterns := protect_dir_patterns s,
     pre_protect_dir_white_patterns := protect_dir_white_patterns s,
     pre_protect_dir_include_exe_patterns := protect_dir_include_exe_patterns s,
     pre_protect_dir_exclude_exe_patterns := protect_dir_exclude_exe_patterns s,
     pre_exiport_true_process := exiport_true_process s,
     pre_protect_true_process := protect_true_process s\<rparr>"

definition reload_rules :: "'w file_ext \<Rightarrow> ('w pattern_state, unit) state" where
  "reload_rules F = do {
     _ \<leftarrow> clear_file_pattern F;
     _ \<leftarrow> clear_dpi_rules F;
     clear_true_process F;
     load_pattern_rules F
   }"

definition set_pattern_rules :: "'w file_ext \<Rightarrow> ('w pattern_state, unit) state" where
  "set_pattern_rules F = do {
     c \<leftarrow> gets patterns_has_changed;
     if c then do { reload_rules F; modify patterns_backup } else State_Monad.return ()
   }"

section \<open>Self protection and trusted directories\<close>

definition self_patterns :: string where
  "self_patterns =
     ''name=self_1,key=/var/lib/dpkg/info/osec.'' @ [nl]
   @ ''name=self_2,key=/opt/osec,pkt_len=-1,case_offset=1'' @ [nl]
   @ ''name=self_3,key=/opt/osec/,case_offset=1'' @ [nl]
   @ ''name=self_4,key=/etc/systemd/system/multi-user.target.wants/osec.'' @ [nl]
   @ ''name=self_5,key=/etc/systemd/system/multi-user.target.wants/agent_manager.'' @ [nl]"

definition self_rules :: string where
  "self_rules =
     ''target=self,pattern=self_1,type=3'' @ [nl]
   @ ''target=self,pattern=self_2,type=3'' @ [nl]
   @ ''target=self,pattern=self_3,type=3'' @ [nl]
   @ ''target=self,pattern=self_4,type=3'' @ [nl]
   @ ''target=self,pattern=self_5,type=3'' @ [nl]"

definition add_file_pattern :: "'w file_ext \<Rightarrow> bool \<Rightarrow> ('w pattern_state, unit) state" where
  "add_file_pattern F enable =
     (if \<not> enable then State_Monad.return ()
      else do {
        modify (\<lambda>s. s\<lparr>const_file_patterns := self_patterns, const_file_rules := self_rules\<rparr>);
        set_pattern_rules F
      })"

text \<open>At most fifty entries of a policy are rendered, each with its index.\<close>

definition numbered :: "'a list \<Rightarrow> (nat \<times> 'a) list" where
  "numbered xs = List.enumerate 0 (take 50 xs)"

definition trust_pattern :: "nat \<times> global_trust_dir \<Rightarrow> string" where
  "trust_pattern = (\<lambda>(i, dir).
     ''name=trueDir_'' @ show_nat i @ '',key='' @ td_dir dir
   @ (if td_is_extend dir = 0 then '',isnot_extend=1'' else [])
   @ (if td_typ dir = 1 then '',depth='' @ show_nat (length (td_dir dir)) else '',pkt_len=-1'')
   @ '',case_offset=1'' @ [nl])"

definition trust_rule :: "nat \<times> global_trust_dir \<Rightarrow> string" where
  "trust_rule = (\<lambda>(i, dir). ''target=TDir_rule,type=0,pattern=trueDir_'' @ show_nat i @ [nl])"

definition set_global_trust_dir :: "'w file_ext \<Rightarrow> global_trust_dir list \<Rightarrow> ('w pattern_state, unit) state" where
  "set_global_trust_dir F dirs = do {
     modify (\<lambda>s. s\<lparr>global_trust_dir_patterns := concat (map trust_pattern (numbered dirs)),
                   global_trust_dir_rules := concat (map trust_rule (numbered dirs))\<rparr>);
     set_pattern_rules F
   }"

section \<open>Ransomware protection\<close>

definition export_pattern :: "nat \<Rightarrow> policy_exipor_protect \<Rightarrow> string" where
  "export_pattern i export =
     ''name=exiportInfo_'' @ show_nat i
   @ (if ex_typ export = 1
      then '',key=.'' @ ex_file_type export @ '',offset=-'' @ show_nat (length (ex_file_type export) + 1)
      else '',case_offset=1,key='' @ ex_file_type export @ '',depth='' @ show_nat (length (ex_file_type export)))
   @ [nl]"

definition export_rule :: "nat \<Rightarrow> nat \<Rightarrow> policy_exipor_protect \<Rightarrow> string" where
  "export_rule i rule_id export =
     ''target=exiportInfo_'' @ show_nat i @ '',pattern=exiportInfo_'' @ show_nat i
   @ (if ex_typ export = 1 then '',action=3'' else [])
   @ (if ex_map_comm export \<noteq> [] then '',TPNC='' @ show_nat rule_id else [])
   @ '',type=1'' @ [nl]"

definition export_processes ::
  "(string list \<Rightarrow> string list) \<Rightarrow> nat \<Rightarrow> policy_exipor_protect \<Rightarrow> string" where
  "export_processes h rule_id export =
     concat (map (\<lambda>k. k @ '','' @ show_nat rule_id @ '',99'' @ [nl]) (visit h (map fst (ex_map_comm export))))"

text \<open>The loop: \<open>n\<close> is the number of trusted process lists so far.\<close>

fun export_loop ::
  "(string list \<Rightarrow> string list) \<Rightarrow> nat \<Rightarrow> (nat \<times> policy_exipor_protect) list \<Rightarrow> 'w pattern_state \<Rightarrow> 'w pattern_state" where
  "export_loop h n [] s = s"
| "export_loop h n ((i, export) # exports) s =
     (let n' = (if ex_map_comm export \<noteq> [] then n + 1 else n)
      in export_loop h n' exports
          (s\<lparr>exiport_dir_patterns := exiport_dir_patterns s @ export_pattern i export,
             exiport_true_process := exiport_true_process s
               @ (if ex_map_comm export \<noteq> [] then export_processes h n' export else []),
             exiport_dir_rules := exiport_dir_rules s @ export_rule i n' export\<rparr>))"

definition set_exiport_dir ::
  "'w file_ext \<Rightarrow> (string list \<Rightarrow> string list) \<Rightarrow> policy_exipor_protect list \<Rightarrow> ('w pattern_state, unit) state" where
  "set_exiport_dir F h exports = do {
     modify (\<lambda>s. s\<lparr>exiport_dir_patterns := [], exiport_dir_rules := [], exiport_true_process := []\<rparr>);
     modify (export_loop h 0 (numbered exports));
     set_pattern_rules F
   }"

definition clear_exiport_dir :: "'w file_ext \<Rightarrow> ('w pattern_state, unit) state" where
  "clear_exiport_dir F = do {
     modify (\<lambda>s. s\<lparr>exiport_dir_patterns := [], exiport_dir_rules := []\<rparr>);
     set_pattern_rules F
   }"

section \<open>Protected directories\<close>

definition protect_processes :: "nat \<Rightarrow> policy_protect_dir \<Rightarrow> string" where
  "protect_processes n dir =
     concat (map (\<lambda>hash. hash @ '','' @ show_nat n @ '',88'' @ [nl]) (split_char (CHR '','') (pd_white_hash dir)))"

definition pieces :: "string \<Rightarrow> (nat \<times> string) list" where
  "pieces s = (if s = [] then [] else List.enumerate 0 (split_char (CHR ''|'') s))"

definition sub :: "nat \<Rightarrow> nat \<Rightarrow> string" where
  "sub i j = show_nat i @ ''_'' @ show_nat j"

definition white_pattern :: "nat \<Rightarrow> nat \<times> string \<Rightarrow> string" where
  "white_pattern i = (\<lambda>(j, path). ''name=protectExcludeDir_'' @ sub i j @ '',key='' @ path @ [nl])"

definition white_rule :: "nat \<Rightarrow> nat \<times> string \<Rightarrow> string" where
  "white_rule i = (\<lambda>(j, path). ''target=protectExcludeDir,pattern=protectExcludeDir_'' @ sub i j
     @ '',type=2,action=1,rule_idx='' @ show_nat i @ '',level=1'' @ [nl])"

definition dir_pattern :: "nat \<Rightarrow> policy_protect_dir \<Rightarrow> string" where
  "dir_pattern i dir =
     ''name=ProtectDir_'' @ show_nat i @ '',type=2,key='' @ pd_dir dir
   @ (if pd_typ dir = 1
      then (if pd_is_extend dir = 0 then '',isnot_extend=1'' else [])
           @ '',depth='' @ show_nat (length (pd_dir dir)) @ '',case_offset=1''
      else '',case_offset=1,pkt_len=-1'')
   @ [nl]"

definition tpnc :: "bool \<Rightarrow> nat \<Rightarrow> string" where
  "tpnc has_white_hash n = (if has_white_hash then '',TPNC='' @ show_nat n else [])"

definition include_pattern :: "nat \<Rightarrow> nat \<times> string \<Rightarrow> string" where
  "include_pattern i = (\<lambda>(j, suffix). ''name=protectIncFileExe_'' @ sub i j @ '',key=.'' @ suffix
     @ '',offset=-'' @ show_nat (length suffix + 1) @ [nl])"

definition include_rule :: "nat \<Rightarrow> bool \<Rightarrow> nat \<Rightarrow> u8 \<Rightarrow> nat \<times> string \<Rightarrow> string" where
  "include_rule i w n rw = (\<lambda>(j, suffix). ''target=protectIncFileExe_'' @ show_nat i
     @ '',pattern=ProtectDir_'' @ show_nat i @ ''>protectIncFileExe_'' @ sub i j
     @ '',rule_idx='' @ show_nat i @ '',action=3,protect_rw='' @ show_word rw @ tpnc w n @ '',type=2'' @ [nl])"

definition dir_rule :: "nat \<Rightarrow> bool \<Rightarrow> nat \<Rightarrow> u8 \<Rightarrow> string" where
  "dir_rule i w n rw = ''target=ProtectDir_'' @ show_nat i @ '',pattern=ProtectDir_'' @ show_nat i
     @ '',rule_idx='' @ show_nat i @ '',protect_rw='' @ show_word rw @ tpnc w n @ '',type=2'' @ [nl]"

definition exclude_pattern :: "nat \<Rightarrow> nat \<times> string \<Rightarrow> string" where
  "exclude_pattern i = (\<lambda>(j, suffix). ''name=protectExcFileExe_'' @ sub i j @ '',key=.'' @ suffix
     @ '',offset=-'' @ show_nat (length suffix + 1) @ [nl])"

definition exclude_rule :: "nat \<Rightarrow> nat \<times> string \<Rightarrow> string" where
  "exclude_rule i = (\<lambda>(j, suffix). ''target=protectExcFileExe_'' @ sub i j @ '',pattern=ProtectDir_'' @ show_nat i
     @ ''>protectExcFileExe_'' @ sub i j @ '',rule_idx='' @ show_nat i @ '',action=2,type=2'' @ [nl])"

definition render :: "('a \<Rightarrow> string) \<Rightarrow> 'a list \<Rightarrow> string" where
  "render f xs = concat (map f xs)"

text \<open>One turn of the loop; \<open>n\<close> counts the trusted process lists up to and including this
  directory.\<close>

definition protect_step :: "nat \<Rightarrow> nat \<Rightarrow> policy_protect_dir \<Rightarrow> 'w pattern_state \<Rightarrow> 'w pattern_state" where
  "protect_step i n dir s =
     (let w = (pd_white_hash dir \<noteq> []);
          s = (if w then s\<lparr>protect_true_process := protect_true_process s @ protect_processes n dir\<rparr> else s);
          s = s\<lparr>protect_dir_white_patterns := protect_dir_white_patterns s @ render (white_pattern i) (pieces (pd_is_white dir)),
                protect_dir_white_rules := protect_dir_white_rules s @ render (white_rule i) (pieces (pd_is_white dir)),
                protect_dir_patterns := protect_dir_patterns s @ dir_pattern i dir\<rparr>
      in if pd_include_file dir \<noteq> []
         then s\<lparr>protect_dir_include_exe_patterns := protect_dir_include_exe_patterns s
                  @ render (include_pattern i) (pieces (pd_include_file dir)),
                protect_dir_include_exe_rules := protect_dir_include_exe_rules s
                  @ render (include_rule i w n (pd_protect_rw dir)) (pieces (pd_include_file dir))\<rparr>
         else if pd_file_ext dir \<noteq> []
         then s\<lparr>protect_dir_rules := protect_dir_rules s @ dir_rule i w n (pd_protect_rw dir),
                protect_dir_exclude_exe_patterns := protect_dir_exclude_exe_patterns s
                  @ render (exclude_pattern i) (pieces (pd_file_ext dir)),
                protect_dir_exclude_exe_rules := protect_dir_exclude_exe_rules s
                  @ render (exclude_rule i) (pieces (pd_file_ext dir))\<rparr>
         else s\<lparr>protect_dir_rules := protect_dir_rules s @ dir_rule i w n (pd_protect_rw dir)\<rparr>)"

fun protect_loop :: "nat \<Rightarrow> (nat \<times> policy_protect_dir) list \<Rightarrow> 'w pattern_state \<Rightarrow> 'w pattern_state" where
  "protect_loop n [] s = s"
| "protect_loop n ((i, dir) # dirs) s =
     (let n' = (if pd_white_hash dir \<noteq> [] then n + 1 else n)
      in protect_loop n' dirs (protect_step i n' dir s))"

definition clear_protect_fields :: "'w pattern_state \<Rightarrow> 'w pattern_state" where
  "clear_protect_fields s = s\<lparr>
     protect_dir_patterns := [], protect_dir_white_patterns := [], protect_dir_rules := [],
     protect_dir_white_rules := [], protect_dir_include_exe_patterns := [],
     protect_dir_include_exe_rules := [], protect_dir_exclude_exe_patterns := [],
     protect_dir_exclude_exe_rules := [], protect_true_process := []\<rparr>"

definition set_protect_dir :: "'w file_ext \<Rightarrow> policy_protect_dir list \<Rightarrow> ('w pattern_state, unit) state" where
  "set_protect_dir F dirs = do {
     modify clear_protect_fields;
     modify (protect_loop 0 (numbered dirs));
     set_pattern_rules F
   }"

definition clear_protect_dir :: "'w file_ext \<Rightarrow> ('w pattern_state, unit) state" where
  "clear_protect_dir F = do {
     modify clear_protect_fields;
     set_pattern_rules F
   }"

section \<open>Change tracking\<close>

definition cur_texts :: "'w pattern_state \<Rightarrow> string list" where
  "cur_texts s = [global_trust_dir_patterns s, exiport_dir_patterns s, const_file_patterns s,
     protect_dir_patterns s, protect_dir_white_patterns s, protect_dir_include_exe_patterns s,
     protect_dir_exclude_exe_patterns s, exiport_true_process s, protect_true_process s]"

definition pre_texts :: "'w pattern_state \<Rightarrow> string list" where
  "pre_texts s = [pre_global_trust_dir_patterns s, pre_exiport_dir_patterns s, pre_const_file_patterns s,
     pre_protect_dir_patterns s, pre_protect_dir_white_patterns s, pre_protect_dir_include_exe_patterns s,
     pre_protect_dir_exclude_exe_patterns s, pre_exiport_true_process s, pre_protect_true_process s]"

lemma file_blind_texts [simp]:
  "file_blind (\<lambda>s :: 'w pattern_state. cur_texts s = v)" "file_blind (\<lambda>s :: 'w pattern_state. pre_texts s = v)"
  "file_blind (\<lambda>s :: 'w pattern_state. load_plan s = p)"
  by (simp_all add: file_blind_def cur_texts_def pre_texts_def load_plan_def)

lemma keeps_write_to_proc_file [keep_intros]: "file_blind P \<Longrightarrow> keeps P (write_to_proc_file F path c)"
  unfolding write_to_proc_file_def by (intro keep_intros)

lemma keeps_load [keep_intros]: "file_blind P \<Longrightarrow> keeps P (load_pattern_rules F)"
  unfolding load_pattern_rules_def build_file_pattern_def by (intro keep_intros)

lemma keeps_reload [keep_intros]: "file_blind P \<Longrightarrow> keeps P (reload_rules F)"
  unfolding reload_rules_def clear_file_pattern_def clear_dpi_rules_def clear_true_process_def
  by (intro keep_intros)

interpretation prm: change_tracker patterns_has_changed cur_texts pre_texts "reload_rules F"
    patterns_backup "set_pattern_rules F" for F :: "'w file_ext"
proof
  fix s :: "'w pattern_state"
  show "patterns_has_changed s \<longleftrightarrow> pre_texts s \<noteq> cur_texts s"
    by (auto simp: patterns_has_changed_def pre_texts_def cur_texts_def)
  show "cur_texts (snd (run_state (reload_rules F) s)) = cur_texts s"
    using keepsD [OF keeps_reload [OF file_blind_texts(1)]] by blast
  show "cur_texts (patterns_backup s) = cur_texts s" "pre_texts (patterns_backup s) = cur_texts s"
    by (simp_all add: patterns_backup_def cur_texts_def pre_texts_def)
  show "run_state (set_pattern_rules F) s =
      (if patterns_has_changed s then ((), patterns_backup (snd (run_state (reload_rules F) s))) else ((), s))"
    by (simp add: set_pattern_rules_def split: prod.splits)
qed

section \<open>What a reload writes\<close>

lemma write_to_proc_log:
  assumes "files_ok F" and "run_state (write_to_proc_file F path c) s = (r, t)"
  shows "write_log t = write_log s @ [(path, c)]"
proof -
  obtain r1 s1 where o: "run_state (open_write F path) s = (r1, s1)" by (rule prod.exhaust)
  obtain r2 s2 where w: "run_state (write_all F path c) s1 = (r2, s2)" by (rule prod.exhaust)
  from succeedsD [OF files_ok_open [OF assms(1)] o] succeedsD [OF files_ok_write [OF assms(1)] w]
  have "r1 = Inr ()" "r2 = Inr ()" by auto
  moreover have "fx_exists F path (fos s)" using assms(1) by (simp add: files_ok_def)
  ultimately show ?thesis
    using assms(2) o w run_open_write_log [OF o] run_write_all_log [OF w]
    by (simp add: write_to_proc_file_def path_exists_def)
qed

lemma write_plan_log:
  assumes "files_ok F"
  shows "write_log (snd (run_state (for_each plan (\<lambda>(path, content).
      do { _ \<leftarrow> write_to_proc_file F path content; State_Monad.return () })) s)) = write_log s @ plan"
proof (induction plan arbitrary: s)
  case (Cons w plan)
  obtain path c where w: "w = (path, c)" by (rule prod.exhaust)
  obtain r t where r: "run_state (write_to_proc_file F path c) s = (r, t)" by (rule prod.exhaust)
  show ?case using Cons [of t] write_to_proc_log [OF assms r] by (simp add: w r)
qed simp

lemma reload_log:
  assumes "files_ok F"
  shows "write_log (snd (run_state (reload_rules F) s)) = write_log s
     @ [(file_patterns_path, clear_line), (rules_path, clear_line), (true_process_path, clear_line)]
     @ load_plan s @ [(file_patterns_path, build_line)]"
proof -
  obtain r1 s1 where c1: "run_state (create_and_write F file_patterns_path clear_line) s = (r1, s1)" by (rule prod.exhaust)
  obtain r2 s2 where c2: "run_state (create_and_write F rules_path clear_line) s1 = (r2, s2)" by (rule prod.exhaust)
  obtain r3 s3 where c3: "run_state (create_and_write F true_process_path clear_line) s2 = (r3, s3)" by (rule prod.exhaust)
  obtain u4 s4 where p: "run_state (for_each (load_plan s3) (\<lambda>(path, content).
      do { _ \<leftarrow> write_to_proc_file F path content; State_Monad.return () })) s3 = (u4, s4)" by (rule prod.exhaust)
  obtain r5 s5 where b: "run_state (create_and_write F file_patterns_path build_line) s4 = (r5, s5)" by (rule prod.exhaust)
  have pl: "load_plan s3 = load_plan s"
    using keepsD_run [OF keeps_create_and_write [OF file_blind_texts(3)] _ c1]
      keepsD_run [OF keeps_create_and_write [OF file_blind_texts(3)] _ c2]
      keepsD_run [OF keeps_create_and_write [OF file_blind_texts(3)] _ c3] by blast
  note logs = create_and_write_log [OF assms c1] create_and_write_log [OF assms c2]
    create_and_write_log [OF assms c3] write_plan_log [OF assms, of "load_plan s3" s3, unfolded p snd_conv]
    create_and_write_log [OF assms b]
  have "snd (run_state (reload_rules F) s) = s5"
    by (simp add: reload_rules_def clear_file_pattern_def clear_dpi_rules_def clear_true_process_def
        load_pattern_rules_def build_file_pattern_def c1 c2 c3 p b)
  then show ?thesis using logs pl by simp
qed

section \<open>The texts as the kernel module has them\<close>

lemma paths_distinct [simp]:
  "file_patterns_path \<noteq> rules_path" "rules_path \<noteq> file_patterns_path"
  "file_patterns_path \<noteq> true_process_path" "true_process_path \<noteq> file_patterns_path"
  "rules_path \<noteq> true_process_path" "true_process_path \<noteq> rules_path"
  by (simp_all add: file_patterns_path_def rules_path_def true_process_path_def)

definition pattern_texts :: "'w pattern_state \<Rightarrow> string list" where
  "pattern_texts s = nonempty [const_file_patterns s, global_trust_dir_patterns s, exiport_dir_patterns s,
     protect_dir_patterns s, protect_dir_white_patterns s, protect_dir_include_exe_patterns s,
     protect_dir_exclude_exe_patterns s]"

definition process_texts :: "'w pattern_state \<Rightarrow> string list" where
  "process_texts s = nonempty [protect_true_process s, exiport_true_process s]"

lemma plan_patterns: "map snd (filter (\<lambda>w. fst w = file_patterns_path) (load_plan s)) = pattern_texts s"
  unfolding load_plan_def pattern_texts_def nonempty_def by (simp add: filter_append)

lemma plan_processes: "map snd (filter (\<lambda>w. fst w = true_process_path) (load_plan s)) = process_texts s"
  unfolding load_plan_def process_texts_def nonempty_def by (simp add: filter_append)

lemma texts_cong:
  "cur_texts s = cur_texts t \<Longrightarrow> pattern_texts s = pattern_texts t \<and> process_texts s = process_texts t"
  by (simp add: cur_texts_def pattern_texts_def process_texts_def)

lemma texts_subset: "set (pattern_texts s) \<subseteq> set (cur_texts s)" "set (process_texts s) \<subseteq> set (cur_texts s)"
proof -
  have n: "set (nonempty ts) \<subseteq> set ts" for ts by (auto simp: nonempty_def)
  show "set (pattern_texts s) \<subseteq> set (cur_texts s)"
    unfolding pattern_texts_def by (rule subset_trans [OF n]) (simp add: cur_texts_def)
  show "set (process_texts s) \<subseteq> set (cur_texts s)"
    unfolding process_texts_def by (rule subset_trans [OF n]) (simp add: cur_texts_def)
qed

lemma cur_texts_long:
  assumes "\<forall>t \<in> set (cur_texts s). long t"
  shows "clear_line \<notin> set (pattern_texts s)" "build_line \<notin> set (pattern_texts s)"
    "clear_line \<notin> set (process_texts s)"
  using assms texts_subset [of s] long_commands(1,2) by blast+

definition in_sync :: "'w pattern_state \<Rightarrow> bool" where
  "in_sync s \<longleftrightarrow> pre_texts s = cur_texts s \<and> (\<forall>t \<in> set (cur_texts s). long t)
     \<and> filter (\<lambda>t. t \<noteq> build_line) (loaded file_patterns_path (write_log s)) = pattern_texts s
     \<and> loaded true_process_path (write_log s) = process_texts s"

lemma plan_no_clear:
  assumes "\<forall>t \<in> set (cur_texts s). long t" and "path \<in> {file_patterns_path, true_process_path}"
  shows "(path, clear_line) \<notin> set (load_plan s)"
proof
  assume "(path, clear_line) \<in> set (load_plan s)"
  then have "clear_line \<in> set (map snd (filter (\<lambda>w. fst w = path) (load_plan s)))" by force
  moreover have "map snd (filter (\<lambda>w. fst w = path) (load_plan s)) \<in> {pattern_texts s, process_texts s}"
    using assms(2) plan_patterns [of s] plan_processes [of s] by blast
  ultimately show False using cur_texts_long [OF assms(1)] by (metis empty_iff insert_iff)
qed

lemma reload_loaded:
  assumes "files_ok F" and "\<forall>t \<in> set (cur_texts s). long t"
  shows "loaded file_patterns_path (write_log (snd (run_state (reload_rules F) s))) = pattern_texts s @ [build_line]"
    and "loaded true_process_path (write_log (snd (run_state (reload_rules F) s))) = process_texts s"
proof -
  let ?l = "write_log s @ [(file_patterns_path, clear_line), (rules_path, clear_line), (true_process_path, clear_line)]"
  have e: "loaded file_patterns_path ?l = []" "loaded true_process_path ?l = []"
    using loaded_append [of file_patterns_path "[(rules_path, clear_line), (true_process_path, clear_line)]"
        "write_log s @ [(file_patterns_path, clear_line)]"]
      loaded_snoc [of true_process_path "write_log s @ [(file_patterns_path, clear_line), (rules_path, clear_line)]"]
    by simp_all
  have l: "write_log (snd (run_state (reload_rules F) s)) = ?l @ load_plan s @ [(file_patterns_path, build_line)]"
    using reload_log [OF assms(1)] by simp
  have n: "(file_patterns_path, clear_line) \<notin> set (load_plan s @ [(file_patterns_path, build_line)])"
    "(true_process_path, clear_line) \<notin> set (load_plan s @ [(file_patterns_path, build_line)])"
    using plan_no_clear [OF assms(2)] by auto
  show "loaded file_patterns_path (write_log (snd (run_state (reload_rules F) s))) = pattern_texts s @ [build_line]"
    unfolding l loaded_append [OF n(1)] e by (simp add: plan_patterns)
  show "loaded true_process_path (write_log (snd (run_state (reload_rules F) s))) = process_texts s"
    unfolding l loaded_append [OF n(2)] e by (simp add: plan_processes)
qed

section \<open>The files written to\<close>

abbreviation pattern_paths :: "string set" where
  "pattern_paths \<equiv> {file_patterns_path, rules_path, true_process_path}"

lemma load_plan_paths: "(path, c) \<in> set (load_plan s) \<Longrightarrow> path \<in> pattern_paths"
  by (auto simp: load_plan_def split: if_splits)

lemma wrote_write_to_proc [path_intros]: "path \<in> Q \<Longrightarrow> keeps (wrote l Q) (write_to_proc_file F path c)"
  unfolding write_to_proc_file_def by (intro path_intros monad_intros)

lemma wrote_load [path_intros]: "keeps (wrote l pattern_paths) (load_pattern_rules F)"
  unfolding load_pattern_rules_def build_file_pattern_def
  by (intro keeps_bind_gets keeps_for_each_set path_intros monad_intros) (auto dest: load_plan_paths)

lemma wrote_set_rules [path_intros]: "keeps (wrote l pattern_paths) (set_pattern_rules F)"
  unfolding set_pattern_rules_def reload_rules_def clear_file_pattern_def clear_dpi_rules_def clear_true_process_def
  by (intro path_intros monad_intros) (simp_all add: patterns_backup_def)

text \<open>An operation of the manager is an edit of the texts followed by \<open>set_pattern_rules\<close>.\<close>

lemma in_sync_set_rules:
  assumes "files_ok F" and "in_sync s" and "pre_texts (edit s) = pre_texts s"
    and "write_log (edit s) = write_log s" and "\<forall>t \<in> set (cur_texts (edit s)). long t"
  shows "in_sync (snd (run_state (set_pattern_rules F) (edit s)))"
proof (cases "patterns_has_changed (edit s)")
  case True
  let ?r = "snd (run_state (reload_rules F) (edit s))"
  have run: "snd (run_state (set_pattern_rules F) (edit s)) = patterns_backup ?r"
    using True by (simp add: prm.set_rules_run)
  have b: "write_log (patterns_backup ?r) = write_log ?r" by (simp add: patterns_backup_def)
  have c: "cur_texts ?r = cur_texts (edit s)" by (rule prm.reload_cur)
  have tx: "pattern_texts (patterns_backup ?r) = pattern_texts (edit s)"
    "process_texts (patterns_backup ?r) = process_texts (edit s)"
    using texts_cong [of "patterns_backup ?r" "edit s"] c prm.backup_cur [of ?r] by simp_all
  have f: "filter (\<lambda>t. t \<noteq> build_line) (pattern_texts (edit s) @ [build_line]) = pattern_texts (edit s)"
    using cur_texts_long [OF assms(5)] by (auto simp: filter_id_conv)
  show ?thesis
    unfolding run in_sync_def b tx prm.backup_cur prm.backup_pre c reload_loaded [OF assms(1,5)] f
    using assms(5) by simp
next
  case False
  then have eq: "pre_texts (edit s) = cur_texts (edit s)" by (simp add: prm.changed_iff)
  with assms(2,3) have "cur_texts (edit s) = cur_texts s" by (simp add: in_sync_def)
  from texts_cong [OF this] False eq assms(2,4,5) show ?thesis
    by (simp add: prm.set_rules_run in_sync_def)
qed

end
