(* ===== verification/Pattern_History.thy ===== *)
theory Pattern_History
  imports Pattern_Rules
begin

text \<open>
  Histories of the pattern manager of \<open>Pattern_Rules\<close>: the steps that policies from the server
  and configuration switches take, what the kernel module holds after any of them, and two edits
  that the change tracking does not see.
\<close>

inductive pattern_step :: "'w file_ext \<Rightarrow> 'w pattern_state \<Rightarrow> 'w pattern_state \<Rightarrow> bool" for F where
  init: "run_state pattern_init s = (u, s') \<Longrightarrow> pattern_step F s s'"
| file_pattern: "run_state (add_file_pattern F b) s = (u, s') \<Longrightarrow> pattern_step F s s'"
| trust: "run_state (set_global_trust_dir F dirs) s = (u, s') \<Longrightarrow> pattern_step F s s'"
| exiport: "run_state (set_exiport_dir F h es) s = (u, s') \<Longrightarrow> pattern_step F s s'"
| clear_exiport: "run_state (clear_exiport_dir F) s = (u, s') \<Longrightarrow> pattern_step F s s'"
| protect: "run_state (set_protect_dir F ds) s = (u, s') \<Longrightarrow> pattern_step F s s'"
| clear_protect: "run_state (clear_protect_dir F) s = (u, s') \<Longrightarrow> pattern_step F s s'"

inductive pattern_reach :: "'w file_ext \<Rightarrow> 'w pattern_state \<Rightarrow> bool" for F where
  start: "pattern_reach F (pattern_mgr_new w)"
| step: "pattern_reach F s \<Longrightarrow> pattern_step F s s' \<Longrightarrow> pattern_reach F s'"

section \<open>Edits\<close>

text \<open>What an edit may touch: neither the remembered texts nor the log.\<close>

definition harmless :: "'w pattern_state \<Rightarrow> 'w pattern_state \<Rightarrow> bool" where
  "harmless s t \<longleftrightarrow> pre_texts t = pre_texts s \<and> write_log t = write_log s"

lemma harmless_refl [simp]: "harmless s s"
  by (simp add: harmless_def)

lemma harmless_trans: "harmless s t \<Longrightarrow> harmless t u \<Longrightarrow> harmless s u"
  by (simp add: harmless_def)

lemma export_loop_harmless: "harmless s (export_loop h n es s)"
proof (induction h n es s rule: export_loop.induct)
  case (2 h n i export exports s)
  show ?case unfolding export_loop.simps Let_def
    by (rule harmless_trans [OF _ 2 [OF refl]]) (simp add: harmless_def pre_texts_def)
qed simp

lemma protect_step_harmless: "harmless s (protect_step i n d s)"
  by (simp add: harmless_def protect_step_def Let_def pre_texts_def)

lemma protect_loop_harmless: "harmless s (protect_loop n ds s)"
proof (induction n ds s rule: protect_loop.induct)
  case (2 n i dir dirs s)
  show ?case unfolding protect_loop.simps Let_def
    by (rule harmless_trans [OF protect_step_harmless 2 [OF refl]])
qed simp

text \<open>The texts that a loop produces are long.\<close>

abbreviation texts_long :: "'w pattern_state \<Rightarrow> bool" where
  "texts_long s \<equiv> (\<forall>t \<in> set (cur_texts s). long t)"

lemma long_render: "(\<And>x. x \<in> set xs \<Longrightarrow> 2 < length (f x)) \<Longrightarrow> long (render f xs)"
  unfolding render_def by (rule long_concat) auto

lemma long_lines [simp]:
  "long (export_pattern i e)" "long (dir_pattern i d)" "long (render (white_pattern i) ps)"
  "long (render (include_pattern i) ps)" "long (render (exclude_pattern i) ps)"
  "long (export_processes h n e)" "long (protect_processes n d)"
  "long (concat (map trust_pattern ds))" "long self_patterns"
proof -
  show "long (export_pattern i e)" "long (dir_pattern i d)" "long self_patterns"
    by (simp_all add: long_def export_pattern_def dir_pattern_def self_patterns_def)
  show "long (render (white_pattern i) ps)" "long (render (include_pattern i) ps)"
      "long (render (exclude_pattern i) ps)"
    by (rule long_render, simp add: white_pattern_def include_pattern_def exclude_pattern_def split: prod.split)+
  show "long (export_processes h n e)" "long (protect_processes n d)" "long (concat (map trust_pattern ds))"
    by (auto simp: export_processes_def protect_processes_def trust_pattern_def intro!: long_concat)
qed

lemma texts_long_iff:
  "texts_long s \<longleftrightarrow> long (global_trust_dir_patterns s) \<and> long (exiport_dir_patterns s) \<and> long (const_file_patterns s)
     \<and> long (protect_dir_patterns s) \<and> long (protect_dir_white_patterns s)
     \<and> long (protect_dir_include_exe_patterns s) \<and> long (protect_dir_exclude_exe_patterns s)
     \<and> long (exiport_true_process s) \<and> long (protect_true_process s)"
  by (simp add: cur_texts_def)

lemma export_loop_long: "texts_long s \<Longrightarrow> texts_long (export_loop h n es s)"
proof (induction h n es s rule: export_loop.induct)
  case (2 h n i export exports s)
  show ?case unfolding export_loop.simps Let_def
    by (rule 2(1) [OF refl]) (use 2(2) in \<open>auto simp: texts_long_iff\<close>)
qed simp

lemma protect_step_long: "texts_long s \<Longrightarrow> texts_long (protect_step i n d s)"
  unfolding texts_long_iff protect_step_def Let_def by (simp add: long_append)

lemma protect_loop_long: "texts_long s \<Longrightarrow> texts_long (protect_loop n ds s)"
proof (induction n ds s rule: protect_loop.induct)
  case (2 n i dir dirs s)
  show ?case unfolding protect_loop.simps Let_def
    by (rule 2(1) [OF refl]) (rule protect_step_long [OF 2(2)])
qed simp

section \<open>Every step keeps the kernel module in step\<close>

lemma in_sync_edit:
  assumes "files_ok F" and "in_sync s" and "harmless s t" and "texts_long t"
    and "run_state (set_pattern_rules F) t = (u, s')"
  shows "in_sync s'"
  using in_sync_set_rules [OF assms(1,2), of "\<lambda>_. t"] assms(3-5) by (simp add: harmless_def)

lemma in_sync_long: "in_sync s \<Longrightarrow> texts_long s"
  by (simp add: in_sync_def)

lemma in_sync_new: "in_sync (pattern_mgr_new w)"
  by (simp add: in_sync_def pattern_mgr_new_def pre_texts_def cur_texts_def loaded_def pattern_texts_def
      process_texts_def nonempty_def)

lemma in_sync_step:
  assumes "pattern_step F s s'" and "files_ok F" and "in_sync s"
  shows "in_sync s'"
  using assms(1)
proof (cases rule: pattern_step.cases)
  case (init u)
  then show ?thesis using assms(3)
    by (auto simp: pattern_init_def in_sync_def pre_texts_def cur_texts_def pattern_texts_def process_texts_def
        split: if_splits)
next
  case (file_pattern b u)
  let ?t = "s\<lparr>const_file_patterns := self_patterns, const_file_rules := self_rules\<rparr>"
  show ?thesis
  proof (cases b)
    case True
    with file_pattern have r: "run_state (set_pattern_rules F) ?t = (u, s')" by (simp add: add_file_pattern_def)
    show ?thesis using in_sync_long [OF assms(3)]
      by (intro in_sync_edit [OF assms(2,3) _ _ r]) (simp_all add: harmless_def pre_texts_def texts_long_iff)
  next
    case False
    with file_pattern assms(3) show ?thesis by (simp add: add_file_pattern_def)
  qed
next
  case (trust dirs u)
  then have r: "run_state (set_pattern_rules F) (s\<lparr>global_trust_dir_patterns := concat (map trust_pattern (numbered dirs)),
      global_trust_dir_rules := concat (map trust_rule (numbered dirs))\<rparr>) = (u, s')"
    by (simp add: set_global_trust_dir_def)
  show ?thesis using in_sync_long [OF assms(3)]
    by (intro in_sync_edit [OF assms(2,3) _ _ r]) (simp_all add: harmless_def pre_texts_def texts_long_iff)
next
  case (exiport h es u)
  let ?t = "s\<lparr>exiport_dir_patterns := [], exiport_dir_rules := [], exiport_true_process := []\<rparr>"
  from exiport have r: "run_state (set_pattern_rules F) (export_loop h 0 (numbered es) ?t) = (u, s')"
    by (simp add: set_exiport_dir_def)
  have "harmless s ?t" by (simp add: harmless_def pre_texts_def)
  moreover have "texts_long ?t" using in_sync_long [OF assms(3)] by (simp add: texts_long_iff)
  ultimately show ?thesis
    by (intro in_sync_edit [OF assms(2,3) _ _ r] harmless_trans [OF _ export_loop_harmless] export_loop_long)
next
  case (clear_exiport u)
  then have r: "run_state (set_pattern_rules F) (s\<lparr>exiport_dir_patterns := [], exiport_dir_rules := []\<rparr>) = (u, s')"
    by (simp add: clear_exiport_dir_def)
  show ?thesis using in_sync_long [OF assms(3)]
    by (intro in_sync_edit [OF assms(2,3) _ _ r]) (simp_all add: harmless_def pre_texts_def texts_long_iff)
next
  case (protect ds u)
  then have r: "run_state (set_pattern_rules F) (protect_loop 0 (numbered ds) (clear_protect_fields s)) = (u, s')"
    by (simp add: set_protect_dir_def)
  have "harmless s (clear_protect_fields s)" by (simp add: harmless_def pre_texts_def clear_protect_fields_def)
  moreover have "texts_long (clear_protect_fields s)"
    using in_sync_long [OF assms(3)] by (simp add: texts_long_iff clear_protect_fields_def)
  ultimately show ?thesis
    by (intro in_sync_edit [OF assms(2,3) _ _ r] harmless_trans [OF _ protect_loop_harmless] protect_loop_long)
next
  case (clear_protect u)
  then have r: "run_state (set_pattern_rules F) (clear_protect_fields s) = (u, s')"
    by (simp add: clear_protect_dir_def)
  show ?thesis using in_sync_long [OF assms(3)]
    by (intro in_sync_edit [OF assms(2,3) _ _ r])
      (simp_all add: harmless_def pre_texts_def texts_long_iff clear_protect_fields_def)
qed

lemma in_sync_reach: "pattern_reach F s \<Longrightarrow> files_ok F \<Longrightarrow> in_sync s"
  by (induction rule: pattern_reach.induct) (auto intro: in_sync_new in_sync_step)

section \<open>The files written to\<close>

lemma wrote_pattern_step:
  assumes "pattern_step F s s'"
  shows "wrote (write_log s) pattern_paths s'"
proof -
  have r: "wrote (write_log s) pattern_paths s'"
    if "run_state (set_pattern_rules F) t = (u, s')" "harmless s t" for t u
    using keepsD_run [OF wrote_set_rules _ that(1), of "write_log s"] that(2) by (simp add: harmless_def wrote_def)
  from assms show ?thesis
  proof (cases rule: pattern_step.cases)
    case (init u)
    then show ?thesis by (auto simp: pattern_init_def wrote_def split: if_splits)
  next
    case (file_pattern b u)
    then show ?thesis
      by (cases b) (auto simp: add_file_pattern_def harmless_def pre_texts_def wrote_start intro: r)
  next
    case (trust dirs u)
    then show ?thesis by (auto simp: set_global_trust_dir_def harmless_def pre_texts_def intro: r)
  next
    case (exiport h es u)
    then show ?thesis
      by (auto simp: set_exiport_dir_def intro!: r harmless_trans [OF _ export_loop_harmless]) (simp add: harmless_def pre_texts_def)
  next
    case (clear_exiport u)
    then show ?thesis by (auto simp: clear_exiport_dir_def harmless_def pre_texts_def intro: r)
  next
    case (protect ds u)
    then show ?thesis
      by (auto simp: set_protect_dir_def intro!: r harmless_trans [OF _ protect_loop_harmless])
        (simp add: harmless_def pre_texts_def clear_protect_fields_def)
  next
    case (clear_protect u)
    then show ?thesis by (auto simp: clear_protect_dir_def harmless_def pre_texts_def clear_protect_fields_def intro: r)
  qed
qed

section \<open>Edits that are not seen\<close>

text \<open>The compared texts do not mention the access mode of a directory.\<close>

lemma cur_texts_eq_iff:
  "cur_texts s = cur_texts t \<longleftrightarrow>
     global_trust_dir_patterns s = global_trust_dir_patterns t \<and> exiport_dir_patterns s = exiport_dir_patterns t
     \<and> const_file_patterns s = const_file_patterns t \<and> protect_dir_patterns s = protect_dir_patterns t
     \<and> protect_dir_white_patterns s = protect_dir_white_patterns t
     \<and> protect_dir_include_exe_patterns s = protect_dir_include_exe_patterns t
     \<and> protect_dir_exclude_exe_patterns s = protect_dir_exclude_exe_patterns t
     \<and> exiport_true_process s = exiport_true_process t \<and> protect_true_process s = protect_true_process t"
  by (simp add: cur_texts_def)

lemma protect_step_texts:
  "cur_texts s = cur_texts t \<Longrightarrow>
     cur_texts (protect_step i n (d\<lparr>pd_protect_rw := r\<rparr>) s) = cur_texts (protect_step i n d t)"
  unfolding cur_texts_eq_iff protect_step_def Let_def
  by (simp add: dir_pattern_def protect_processes_def)

lemma protect_loop_texts:
  "cur_texts s = cur_texts t \<Longrightarrow>
     cur_texts (protect_loop n (map (\<lambda>(i, d). (i, d\<lparr>pd_protect_rw := rw d\<rparr>)) ds) s) = cur_texts (protect_loop n ds t)"
proof (induction ds arbitrary: n s t)
  case (Cons x ds)
  obtain i d where x: "x = (i, d)" by (rule prod.exhaust)
  show ?case unfolding x list.map prod.case protect_loop.simps Let_def
    using Cons.IH [OF protect_step_texts [OF Cons.prems]] by simp
qed simp

lemma numbered_map: "numbered (map f xs) = map (\<lambda>(i, x). (i, f x)) (numbered xs)"
  by (simp add: numbered_def take_map enumerate_eq_zip zip_map2 min_def)

lemma clear_protect_texts:
  "cur_texts (clear_protect_fields s) = [global_trust_dir_patterns s, exiport_dir_patterns s,
     const_file_patterns s, [], [], [], [], exiport_true_process s, []]"
  by (simp add: cur_texts_def clear_protect_fields_def)

text \<open>The fields that rendering the protected directories leaves alone.\<close>

definition untouched :: "'w pattern_state \<Rightarrow> 'w \<times> string \<times> string \<times> string \<times> string" where
  "untouched s = (fos s, global_trust_dir_patterns s, exiport_dir_patterns s, const_file_patterns s,
     exiport_true_process s)"

lemma protect_step_untouched: "untouched (protect_step i n d s) = untouched s"
  by (simp add: untouched_def protect_step_def Let_def)

lemma protect_loop_untouched: "untouched (protect_loop n ds s) = untouched s"
proof (induction n ds s rule: protect_loop.induct)
  case (2 n i dir dirs s)
  show ?case unfolding protect_loop.simps Let_def
    by (rule trans [OF 2 [OF refl] protect_step_untouched])
qed simp

section \<open>Properties\<close>

text \<open>C5: while the control files accept writes, after any sequence of policies and switches
  the pattern file of the kernel module holds exactly the manager's current non-empty pattern
  texts, in the order const, trust, ransomware, protect, white, include, exclude (and the build
  command), and the trusted process file holds exactly its current process lists.\<close>

theorem kernel_patterns_follow:
  assumes "pattern_reach F s" and "files_ok F"
  shows "filter (\<lambda>t. t \<noteq> build_line) (loaded file_patterns_path (write_log s))
      = filter (\<lambda>t. t \<noteq> []) [const_file_patterns s, global_trust_dir_patterns s, exiport_dir_patterns s,
          protect_dir_patterns s, protect_dir_white_patterns s, protect_dir_include_exe_patterns s,
          protect_dir_exclude_exe_patterns s]
    \<and> loaded true_process_path (write_log s)
      = filter (\<lambda>t. t \<noteq> []) [protect_true_process s, exiport_true_process s]"
  using in_sync_reach [OF assms] by (simp add: in_sync_def pattern_texts_def process_texts_def nonempty_def)

text \<open>The manager loads nothing twice: after any operation the remembered texts are the
  current ones, and a further \<open>set_pattern_rules\<close> changes neither the manager nor the files.\<close>

theorem set_pattern_rules_idempotent:
  "run_state (set_pattern_rules F) (snd (run_state (set_pattern_rules F) s))
     = ((), snd (run_state (set_pattern_rules F) s))
   \<and> \<not> patterns_has_changed (snd (run_state (set_pattern_rules F) s))"
  using prm.set_rules_twice [OF prod.collapse [symmetric]] prm.set_rules_settles [OF prod.collapse [symmetric]]
  by blast

text \<open>A change of the access mode alone is never loaded. When the server sends the
  protected directories again with other values of \<^verbatim>\<open>protect_rw\<close>, the rule texts of the manager
  change but no file is written: the change is looked for in the pattern texts, and only the rule
  texts mention the access mode.\<close>

theorem protect_rw_change_not_loaded:
  "let s1 = snd (run_state (set_protect_dir F dirs) s);
       s2 = snd (run_state (set_protect_dir F (map (\<lambda>d. d\<lparr>pd_protect_rw := rw d\<rparr>) dirs)) s1)
   in write_log s2 = write_log s1 \<and> fos s2 = fos s1"
proof -
  let ?edit = "\<lambda>ds s. protect_loop 0 (numbered ds) (clear_protect_fields s)"
  let ?dirs' = "map (\<lambda>d. d\<lparr>pd_protect_rw := rw d\<rparr>) dirs"
  let ?s1 = "snd (run_state (set_protect_dir F dirs) s)"
  have s1: "?s1 = snd (run_state (set_pattern_rules F) (?edit dirs s))" by (simp add: set_protect_dir_def)
  from prm.set_rules_settles [OF prod.collapse [symmetric], of F "?edit dirs s"]
  have c1: "pre_texts ?s1 = cur_texts ?s1" "cur_texts ?s1 = cur_texts (?edit dirs s)"
    by (simp_all add: s1 prm.changed_iff)
  have "cur_texts (clear_protect_fields ?s1) = cur_texts (clear_protect_fields s)"
    using c1(2) protect_loop_untouched [of 0 "numbered dirs" "clear_protect_fields s"]
    by (simp add: clear_protect_texts cur_texts_eq_iff untouched_def clear_protect_fields_def)
  from protect_loop_texts [OF this] have c2: "cur_texts (?edit ?dirs' ?s1) = cur_texts ?s1"
    by (simp add: numbered_map c1(2) case_prod_beta)
  have h: "harmless ?s1 (?edit ?dirs' ?s1)"
    by (rule harmless_trans [OF _ protect_loop_harmless])
      (simp add: harmless_def pre_texts_def clear_protect_fields_def)
  have "run_state (set_pattern_rules F) (?edit ?dirs' ?s1) = ((), ?edit ?dirs' ?s1)"
    using h c1(1) c2 by (intro prm.set_rules_unchanged) (simp add: prm.changed_iff harmless_def)
  then have "snd (run_state (set_protect_dir F ?dirs') ?s1) = ?edit ?dirs' ?s1" by (simp add: set_protect_dir_def)
  moreover have "fos (?edit ?dirs' ?s1) = fos ?s1"
    using protect_loop_untouched [of 0 "numbered ?dirs'" "clear_protect_fields ?s1"]
    by (simp add: untouched_def clear_protect_fields_def)
  ultimately show ?thesis using h by (simp add: Let_def harmless_def)
qed

text \<open>Switching the ransomware protection off keeps its trusted processes. After
  \<^verbatim>\<open>clear_exiport_dir\<close> the ransomware patterns are gone, but the list of trusted processes that
  belonged to them is still loaded in the kernel module.\<close>

theorem clear_exiport_keeps_processes:
  assumes "pattern_reach F s" and "files_ok F" and "exiport_true_process s \<noteq> []"
    and "run_state (clear_exiport_dir F) s = (u, s')"
  shows "exiport_dir_patterns s' = [] \<and> exiport_true_process s \<in> set (loaded true_process_path (write_log s'))"
proof -
  let ?t = "s\<lparr>exiport_dir_patterns := [], exiport_dir_rules := []\<rparr>"
  from assms(4) have r: "run_state (set_pattern_rules F) ?t = (u, s')" by (simp add: clear_exiport_dir_def)
  from prm.set_rules_settles [OF r] have c: "cur_texts s' = cur_texts ?t" by blast
  have "in_sync s'" using in_sync_step [OF pattern_step.clear_exiport [OF assms(4)] assms(2)]
      in_sync_reach [OF assms(1,2)] by blast
  with c assms(3) show ?thesis by (simp add: in_sync_def process_texts_def nonempty_def cur_texts_eq_iff)
qed

section \<open>Numbering of the trusted process lists\<close>

abbreviation trusted :: "policy_protect_dir \<Rightarrow> bool" where
  "trusted d \<equiv> pd_white_hash d \<noteq> []"

text \<open>The number of a directory: how many directories up to it have trusted processes.\<close>

definition trust_id :: "policy_protect_dir list \<Rightarrow> nat \<Rightarrow> nat" where
  "trust_id ds i = length (filter trusted (take (Suc i) ds))"

lemma protect_step_outputs:
  "protect_true_process (protect_step i n d s) = protect_true_process s @ (if trusted d then protect_processes n d else [])"
  "protect_dir_rules (protect_step i n d s) = protect_dir_rules s
     @ (if pd_include_file d = [] then dir_rule i (trusted d) n (pd_protect_rw d) else [])"
  "protect_dir_include_exe_rules (protect_step i n d s) = protect_dir_include_exe_rules s
     @ render (include_rule i (trusted d) n (pd_protect_rw d)) (pieces (pd_include_file d))"
  by (simp_all add: protect_step_def Let_def pieces_def render_def)

lemma protect_loop_output:
  assumes "\<And>i n d s. out (protect_step i n d s) = out s @ c i n d"
  shows "out (protect_loop n (List.enumerate k ds) s) = out s
     @ concat (map (\<lambda>(i, d). c i (n + trust_id ds (i - k)) d) (List.enumerate k ds))"
proof (induction ds arbitrary: n k s)
  case (Cons d ds)
  define m where "m = (if trusted d then n + 1 else n)"
  have shift: "n + trust_id (d # ds) (i - k) = m + trust_id ds (i - Suc k)" if "Suc k \<le> i" for i
    using that by (auto simp: m_def trust_id_def dest!: le_Suc_ex)
  have "map (\<lambda>(i, e). c i (n + trust_id (d # ds) (i - k)) e) (List.enumerate (Suc k) ds)
      = map (\<lambda>(i, e). c i (m + trust_id ds (i - Suc k)) e) (List.enumerate (Suc k) ds)"
    using shift by (intro map_cong refl) (auto simp: in_set_enumerate_eq)
  moreover have "n + trust_id (d # ds) 0 = m" by (simp add: m_def trust_id_def)
  moreover have "protect_loop n (List.enumerate k (d # ds)) s
      = protect_loop m (List.enumerate (Suc k) ds) (protect_step k m d s)" by (simp add: m_def Let_def)
  ultimately show ?case
    using Cons.IH [of m "Suc k" "protect_step k m d s"] assms
    by (simp del: map_eq_conv protect_loop.simps)
qed simp

lemma trust_id_strict:
  assumes "i < j" and "j < length ds" and "trusted (ds ! j)"
  shows "trust_id ds i < trust_id ds j"
proof -
  have "take (Suc j) ds = take (Suc i) ds @ take (j - Suc i) (drop (Suc i) ds) @ [ds ! j]"
    using assms(1,2) by (metis Suc_leI le_add_diff_inverse take_Suc_conv_app_nth take_add append_assoc)
  then show ?thesis using assms(3) by (simp add: trust_id_def)
qed

text \<open>The trusted processes of a directory are bound to its own rules. The directories
  with trusted processes are numbered 1, 2, \<dots> in order; a directory's process lines and the
  \<^verbatim>\<open>TPNC\<close> field of its rules carry its number, and no two directories share one. At most fifty
  directories are rendered.\<close>

theorem protect_rules_numbering:
  assumes "s' = snd (run_state (set_protect_dir F dirs) s)" and "ds = take 50 dirs"
  shows "protect_true_process s' =
      concat (map (\<lambda>(i, d). if trusted d then protect_processes (trust_id ds i) d else []) (List.enumerate 0 ds))
    \<and> protect_dir_rules s' =
      concat (map (\<lambda>(i, d). if pd_include_file d = []
        then dir_rule i (trusted d) (trust_id ds i) (pd_protect_rw d) else []) (List.enumerate 0 ds))
    \<and> protect_dir_include_exe_rules s' =
      concat (map (\<lambda>(i, d). render (include_rule i (trusted d) (trust_id ds i) (pd_protect_rw d))
        (pieces (pd_include_file d))) (List.enumerate 0 ds))
    \<and> (\<forall>i j. i < j \<and> j < length ds \<and> trusted (ds ! j) \<longrightarrow> trust_id ds i < trust_id ds j)"
proof -
  let ?t = "protect_loop 0 (List.enumerate 0 ds) (clear_protect_fields s)"
  have "file_blind (\<lambda>u :: 'a pattern_state. (protect_true_process u, protect_dir_rules u, protect_dir_include_exe_rules u) = v)" for v
    by (simp add: file_blind_def)
  from keepsD [OF keeps_reload [OF this], OF refl]
  have "(protect_true_process s', protect_dir_rules s', protect_dir_include_exe_rules s')
      = (protect_true_process ?t, protect_dir_rules ?t, protect_dir_include_exe_rules ?t)"
    by (auto simp: assms set_protect_dir_def numbered_def prm.set_rules_run patterns_backup_def)
  moreover have "protect_true_process (clear_protect_fields s) = []" "protect_dir_rules (clear_protect_fields s) = []"
      "protect_dir_include_exe_rules (clear_protect_fields s) = []" by (simp_all add: clear_protect_fields_def)
  ultimately show ?thesis
    using trust_id_strict
      protect_loop_output [of protect_true_process, OF protect_step_outputs(1),
        of 0 0 ds "clear_protect_fields s", unfolded add_0 diff_zero]
      protect_loop_output [of protect_dir_rules, OF protect_step_outputs(2),
        of 0 0 ds "clear_protect_fields s", unfolded add_0 diff_zero]
      protect_loop_output [of protect_dir_include_exe_rules, OF protect_step_outputs(3),
        of 0 0 ds "clear_protect_fields s", unfolded add_0 diff_zero]
    by simp
qed

text \<open>Reading a protection policy: anything but an array is refused; every item of the
  array gives one directory, in order; and the joined hash text that is stored splits back into
  the hashes of the item, if there are any and none contains a comma.\<close>

theorem parse_policy_hashes:
  "(case as_array data of
      None \<Rightarrow> parse_policy_from_json data = Inl ''data is not an array''
    | Some items \<Rightarrow> (\<exists>ps. parse_policy_from_json data = Inr ps \<and> length ps = length items
        \<and> (\<forall>i < length items. white_hashes (items ! i) \<noteq> [] \<and> (\<forall>h \<in> set (white_hashes (items ! i)). CHR '','' \<notin> set h)
             \<longrightarrow> split_char (CHR '','') (pd_white_hash (ps ! i)) = white_hashes (items ! i))))"
  by (auto simp: parse_policy_from_json_def parse_protect_item_def split_char_join split: option.splits)

section \<open>The theorems on a small history\<close>

definition lab_dirs :: "policy_protect_dir list" where
  "lab_dirs =
     [\<lparr>pd_id = 1, pd_dir = ''/srv'', pd_protect_rw = 0, pd_typ = 1, pd_is_extend = 0, pd_include_file = [],
       pd_file_ext = [], pd_is_white = [], pd_white_hash = ''aa,bb''\<rparr>,
      \<lparr>pd_id = 2, pd_dir = ''/etc'', pd_protect_rw = 1, pd_typ = 0, pd_is_extend = 1, pd_include_file = ''so|py'',
       pd_file_ext = [], pd_is_white = ''/etc/ssl'', pd_white_hash = ''cc''\<rparr>]"

definition lab_exports :: "policy_exipor_protect list" where
  "lab_exports = [\<lparr>ex_file_type = ''doc'', ex_typ = 1, ex_map_comm = [(''dd'', ''word'')]\<rparr>]"

definition lab_mgr :: "unit pattern_state" where
  "lab_mgr = snd (run_state (set_exiport_dir free_files rev lab_exports) (pattern_mgr_new ()))"

lemma lab_mgr_reach: "pattern_reach free_files lab_mgr"
  unfolding lab_mgr_def
  by (rule pattern_reach.step [OF pattern_reach.start pattern_step.exiport [OF prod.collapse [symmetric]]])

lemma lab_mgr_processes:
  "protect_true_process lab_mgr = []"
  "exiport_true_process lab_mgr = ''dd,1,99'' @ [nl]"
  by code_simp+

text \<open>After the access mode of the first directory changes from 0 to 1, the rule that the
  manager keeps says 1 and the rule loaded in the kernel module still says 0.\<close>

lemma protect_rw_outdated:
  "let s2 = snd (run_state (set_protect_dir free_files (map (\<lambda>d. d\<lparr>pd_protect_rw := 1\<rparr>) (take 1 lab_dirs)))
       (snd (run_state (set_protect_dir free_files (take 1 lab_dirs)) (pattern_mgr_new ()))))
   in protect_dir_rules s2 = ''target=ProtectDir_0,pattern=ProtectDir_0,rule_idx=0,protect_rw=1,TPNC=1,type=2'' @ [nl]
      \<and> loaded rules_path (write_log s2)
          = [''target=ProtectDir_0,pattern=ProtectDir_0,rule_idx=0,protect_rw=0,TPNC=1,type=2'' @ [nl]]"
  by code_simp

theorem kernel_patterns_follow_witness:
  "loaded true_process_path (write_log lab_mgr) = [''dd,1,99'' @ [nl]]"
  using kernel_patterns_follow [OF lab_mgr_reach free_files_ok] by (simp add: lab_mgr_processes)

theorem clear_exiport_keeps_processes_witness:
  "''dd,1,99'' @ [nl] \<in> set (loaded true_process_path
     (write_log (snd (run_state (clear_exiport_dir free_files) lab_mgr))))"
proof -
  have "exiport_true_process lab_mgr \<noteq> []" by (simp add: lab_mgr_processes)
  from clear_exiport_keeps_processes [OF lab_mgr_reach free_files_ok this prod.collapse [symmetric]]
  show ?thesis by (simp only: lab_mgr_processes)
qed

theorem protect_rules_numbering_witness:
  "protect_true_process (snd (run_state (set_protect_dir free_files lab_dirs) (pattern_mgr_new ())))
     = concat (map (\<lambda>(i, d). if trusted d then protect_processes (trust_id lab_dirs i) d else [])
         (List.enumerate 0 lab_dirs))
   \<and> trust_id lab_dirs 0 < trust_id lab_dirs 1"
proof -
  have t: "lab_dirs = take 50 lab_dirs" "1 < length lab_dirs" "trusted (lab_dirs ! 1)" by (simp_all add: lab_dirs_def)
  show ?thesis using protect_rules_numbering [OF refl t(1), of free_files "pattern_mgr_new ()"] t(2,3) by auto
qed

theorem parse_policy_hashes_witness:
  "\<exists>ps. parse_policy_from_json (JArr [JObj [(''process'', JArr [JObj [(''hash'', JStr ''aa'')], JObj [(''hash'', JStr ''bb'')]])]])
      = Inr ps \<and> split_char (CHR '','') (pd_white_hash (ps ! 0)) = [''aa'', ''bb'']"
proof -
  let ?item = "JObj [(''process'', JArr [JObj [(''hash'', JStr ''aa'')], JObj [(''hash'', JStr ''bb'')]])]"
  have w: "white_hashes ?item = [''aa'', ''bb'']" by code_simp
  show ?thesis using parse_policy_hashes [of "JArr [?item]"] by (auto simp: w)
qed

end
