(* ===== verification/Process_Pattern_Rules.thy ===== *)
theory Process_Pattern_Rules
  imports Pattern_Sync
begin

text \<open>
  \<^verbatim>\<open>crates/pattern/src/process_pattern_rules_mgr.rs\<close>: the patterns of the process protection. The
  built-in table of processes and the trusted directories of the server are rendered into texts
  and loaded through two control files, with the change tracking of \<open>Pattern_Sync\<close>. The state
  extends \<open>proc_state\<close> with the fields of \<^verbatim>\<open>ProcessPatternRulesMgr\<close>.
\<close>

section \<open>Data\<close>

record process_pattern =
  pt_key :: string
  pt_typ :: u8
  pt_param :: string

definition full :: "string \<Rightarrow> process_pattern" where
  "full k = \<lparr>pt_key = k, pt_typ = 1, pt_param = '',match_full_path=1''\<rparr>"

definition tail :: "string \<Rightarrow> process_pattern" where
  "tail k = \<lparr>pt_key = k, pt_typ = 1, pt_param = '',pkt_len=-1''\<rparr>"

definition PROCESS_PATTERNS :: "process_pattern list" where
  "PROCESS_PATTERNS =
     [\<lparr>pt_key = ''bin/sudo'', pt_typ = 0, pt_param = []\<rparr>,
      \<lparr>pt_key = ''/lib/command-not-found'', pt_typ = 0, pt_param = '',pkt_len=-1''\<rparr>,
      \<lparr>pt_key = ''systemd-cgroups-agent'', pt_typ = 0, pt_param = '',pkt_len=-1''\<rparr>,
      \<lparr>pt_key = ''/opt/osec/MagicArmor_cli'', pt_typ = 0, pt_param = '',match_full_path=1''\<rparr>,
      \<lparr>pt_key = ''/opt/osec/MagicArmor_0'', pt_typ = 0, pt_param = '',match_full_path=1''\<rparr>,
      full ''/bin/dbus-daemon'', full ''/sbin/init'', full ''/sbin/NetworkManager'', full ''/sbin/lightdm'',
      full ''/sbin/alsactl'', full ''/lib/systemd/systemd-journald'', full ''/lib/systemd/systemd-udevd'',
      full ''/lib/systemd/systemd-timesyncd'', full ''/lib/systemd/systemd-logind'',
      full ''/usr/lib/accountsservice/accounts-daemon'', full ''/usr/lib/xorg/Xorg'',
      full ''/usr/lib/policykit-1/polkitd'', full ''/lib/systemd/systemd'', full ''/usr/sbin/rsyslogd'',
      full ''/bin/login'', tail ''bin/du'', tail ''bin/dash'', full ''/bin/run-parts'',
      full ''/sbin/dhclient-script'', tail ''bin/sort'', tail ''bin/sudo'', tail ''bin/apt-get'',
      tail ''bin/dpkg-preconfigure'', tail ''bin/dpkg-split'', tail ''bin/apt-extracttemplates'',
      tail ''bin/stty'', tail ''bin/lsmod'', tail ''bin/rmmod'', tail ''bin/unzip'', tail ''bin/reboot'',
      full ''/usr/bin/systemctl'', full ''/usr/sbin/service'', tail ''/shutdown'', tail ''/halt'',
      tail ''/poweroff'', tail ''/systemd'', tail ''lsof'', tail ''awk'',
      \<lparr>pt_key = ''/opt/osec/MagicArmorAgent'', pt_typ = 0, pt_param = '',match_full_path=1''\<rparr>]"

record 'w process_mgr = "'w proc_state" +
  const_patterns :: string
  const_rules :: string
  trust_dir_patterns :: string
  trust_dir_rules :: string
  pre_trust_dir_patterns :: string
  pre_const_patterns :: string
  pm_inited :: bool

definition process_mgr_new :: "'w \<Rightarrow> 'w process_mgr" where
  "process_mgr_new w = \<lparr>fos = w, write_log = [], const_patterns = [], const_rules = [],
     trust_dir_patterns = [], trust_dir_rules = [], pre_trust_dir_patterns = [],
     pre_const_patterns = [], pm_inited = False\<rparr>"

section \<open>The control files\<close>

definition FILE_PATTERNS_PROC_FILE :: string where
  "FILE_PATTERNS_PROC_FILE = ''/proc/osec/process_dpi/file_patterns''"

definition DPI_RULE_PROC_FILE :: string where
  "DPI_RULE_PROC_FILE = ''/proc/osec/process_dpi/rules''"

definition pm_write_to_proc_file ::
  "'w file_ext \<Rightarrow> string \<Rightarrow> string \<Rightarrow> ('w process_mgr, unit res) state" where
  "pm_write_to_proc_file F path content = do {
     ex \<leftarrow> path_exists F path;
     if \<not> ex then State_Monad.return (Inl (utf8 [230, 150, 135, 228, 187, 182, 32] @ path @ utf8 [32, 228, 184, 141, 229, 173, 152, 229, 156, 168]))
     else tryE (open_write F path) (\<lambda>_. write_all F path content)
   }"

definition pm_clear_file_pattern :: "'w file_ext \<Rightarrow> ('w process_mgr, unit res) state" where
  "pm_clear_file_pattern F = create_and_write F FILE_PATTERNS_PROC_FILE clear_line"

definition pm_clear_dpi_rules :: "'w file_ext \<Rightarrow> ('w process_mgr, unit res) state" where
  "pm_clear_dpi_rules F = create_and_write F DPI_RULE_PROC_FILE clear_line"

definition pm_build_file_pattern :: "'w file_ext \<Rightarrow> ('w process_mgr, unit) state" where
  "pm_build_file_pattern F = do {
     _ \<leftarrow> create_and_write F FILE_PATTERNS_PROC_FILE build_line;
     State_Monad.return ()
   }"

section \<open>Loading\<close>

definition pm_plan :: "'w process_mgr \<Rightarrow> (string \<times> string) list" where
  "pm_plan s =
     (if const_patterns s \<noteq> []
      then [(FILE_PATTERNS_PROC_FILE, const_patterns s), (DPI_RULE_PROC_FILE, const_rules s)] else [])
   @ (if trust_dir_patterns s \<noteq> []
      then [(FILE_PATTERNS_PROC_FILE, trust_dir_patterns s), (DPI_RULE_PROC_FILE, trust_dir_rules s)] else [])"

definition pm_load_pattern_rules :: "'w file_ext \<Rightarrow> ('w process_mgr, unit) state" where
  "pm_load_pattern_rules F = do {
     plan \<leftarrow> gets pm_plan;
     for_each plan (\<lambda>(path, content). do { _ \<leftarrow> pm_write_to_proc_file F path content; State_Monad.return () });
     pm_build_file_pattern F
   }"

definition pm_has_changed :: "'w process_mgr \<Rightarrow> bool" where
  "pm_has_changed s \<longleftrightarrow>
     pre_trust_dir_patterns s \<noteq> trust_dir_patterns s \<or> pre_const_patterns s \<noteq> const_patterns s"

definition pm_backup :: "'w process_mgr \<Rightarrow> 'w process_mgr" where
  "pm_backup s = s\<lparr>pre_trust_dir_patterns := trust_dir_patterns s, pre_const_patterns := const_patterns s\<rparr>"

definition pm_reload :: "'w file_ext \<Rightarrow> ('w process_mgr, unit) state" where
  "pm_reload F = do {
     _ \<leftarrow> pm_clear_file_pattern F;
     _ \<leftarrow> pm_clear_dpi_rules F;
     pm_load_pattern_rules F
   }"

definition pm_set_pattern_rules :: "'w file_ext \<Rightarrow> ('w process_mgr, unit) state" where
  "pm_set_pattern_rules F = do {
     c \<leftarrow> gets pm_has_changed;
     if c then do { pm_reload F; modify pm_backup } else State_Monad.return ()
   }"

section \<open>Built-in processes and trusted directories\<close>

definition process_name :: "nat \<times> process_pattern \<Rightarrow> string" where
  "process_name = (\<lambda>(i, p). (if pt_typ p = 0 then ''true_process_'' else ''sys_true_process_'') @ show_nat (i + 1))"

definition process_pattern_line :: "nat \<times> process_pattern \<Rightarrow> string" where
  "process_pattern_line x =
     ''name='' @ process_name x @ '',key='' @ pt_key (snd x) @ pt_param (snd x) @ [nl]"

definition process_rule_line :: "nat \<times> process_pattern \<Rightarrow> string" where
  "process_rule_line x =
     ''target='' @ (if pt_typ (snd x) = 0 then ''true_process'' else ''sys_true_process'')
     @ '',pattern='' @ process_name x @ '',type='' @ show_word (pt_typ (snd x)) @ [nl]"

definition add_const_process_pattern :: "'w file_ext \<Rightarrow> ('w process_mgr, unit) state" where
  "add_const_process_pattern F = do {
     modify (\<lambda>s. s\<lparr>const_patterns := concat (map process_pattern_line (List.enumerate 0 PROCESS_PATTERNS)),
                   const_rules := concat (map process_rule_line (List.enumerate 0 PROCESS_PATTERNS))\<rparr>);
     pm_set_pattern_rules F
   }"

definition pm_init :: "'w file_ext \<Rightarrow> ('w process_mgr, unit) state" where
  "pm_init F = do {
     done \<leftarrow> gets pm_inited;
     if done then State_Monad.return ()
     else do {
       modify (\<lambda>s. s\<lparr>pm_inited := True\<rparr>);
       add_const_process_pattern F
     }
   }"

definition trust_dir_line :: "nat \<times> global_trust_dir \<Rightarrow> string" where
  "trust_dir_line = (\<lambda>(i, dir).
     ''name=trueDir_'' @ show_nat i @ '',key='' @ td_dir dir
   @ (if td_typ dir = 1
      then (if td_is_extend dir = 0 then '',isnot_extend=1'' else [])
           @ '',depth='' @ show_nat (length (td_dir dir))
      else '',pkt_len=-1'')
   @ '',case_offset=1'' @ [nl])"

definition trust_rule_line :: "nat \<Rightarrow> string" where
  "trust_rule_line i = ''target=TDir_rule,type=0,pattern=trueDir_'' @ show_nat i @ [nl]"

definition pm_set_global_trust_dir :: "'w file_ext \<Rightarrow> global_trust_dir list \<Rightarrow> ('w process_mgr, unit) state" where
  "pm_set_global_trust_dir F dirs = do {
     modify (\<lambda>s. s\<lparr>trust_dir_patterns := concat (map trust_dir_line (List.enumerate 0 (take 50 dirs))),
                   trust_dir_rules := concat (map (trust_rule_line \<circ> fst) (List.enumerate 0 (take 50 dirs)))\<rparr>);
     pm_set_pattern_rules F
   }"

inductive pm_step :: "'w file_ext \<Rightarrow> 'w process_mgr \<Rightarrow> 'w process_mgr \<Rightarrow> bool" for F where
  init: "run_state (pm_init F) s = (u, s') \<Longrightarrow> pm_step F s s'"
| builtin: "run_state (add_const_process_pattern F) s = (u, s') \<Longrightarrow> pm_step F s s'"
| trust: "\<forall>d \<in> set dirs. nl \<notin> set (td_dir d) \<Longrightarrow> run_state (pm_set_global_trust_dir F dirs) s = (u, s') \<Longrightarrow>
    pm_step F s s'"

inductive pm_reach :: "'w file_ext \<Rightarrow> 'w process_mgr \<Rightarrow> bool" for F where
  start: "pm_reach F (process_mgr_new w)"
| step: "pm_reach F s \<Longrightarrow> pm_step F s s' \<Longrightarrow> pm_reach F s'"

section \<open>Change tracking\<close>

definition pm_cur :: "'w process_mgr \<Rightarrow> string \<times> string" where
  "pm_cur s = (trust_dir_patterns s, const_patterns s)"

definition pm_pre :: "'w process_mgr \<Rightarrow> string \<times> string" where
  "pm_pre s = (pre_trust_dir_patterns s, pre_const_patterns s)"

lemma file_blind_pm [simp]:
  "file_blind (\<lambda>s :: 'w process_mgr. pm_cur s = v)" "file_blind (\<lambda>s :: 'w process_mgr. pm_plan s = p)"
  "file_blind (\<lambda>s :: 'w process_mgr. (const_rules s, trust_dir_rules s, pm_inited s) = q)"
  by (simp_all add: file_blind_def pm_cur_def pm_plan_def)

lemma keeps_pm_write [keep_intros]: "file_blind P \<Longrightarrow> keeps P (pm_write_to_proc_file F path c)"
  unfolding pm_write_to_proc_file_def by (intro keep_intros)

lemma keeps_pm_reload [keep_intros]: "file_blind P \<Longrightarrow> keeps P (pm_reload F)"
  unfolding pm_reload_def pm_clear_file_pattern_def pm_clear_dpi_rules_def pm_load_pattern_rules_def
    pm_build_file_pattern_def
  by (intro keep_intros)

interpretation ppm: change_tracker pm_has_changed pm_cur pm_pre "pm_reload F" pm_backup
    "pm_set_pattern_rules F" for F :: "'w file_ext"
proof
  fix s :: "'w process_mgr"
  show "pm_has_changed s \<longleftrightarrow> pm_pre s \<noteq> pm_cur s"
    by (auto simp: pm_has_changed_def pm_pre_def pm_cur_def)
  show "pm_cur (snd (run_state (pm_reload F) s)) = pm_cur s"
    using keepsD [OF keeps_pm_reload [OF file_blind_pm(1)]] by blast
  show "pm_cur (pm_backup s) = pm_cur s" "pm_pre (pm_backup s) = pm_cur s"
    by (simp_all add: pm_backup_def pm_cur_def pm_pre_def)
  show "run_state (pm_set_pattern_rules F) s =
      (if pm_has_changed s then ((), pm_backup (snd (run_state (pm_reload F) s))) else ((), s))"
    by (simp add: pm_set_pattern_rules_def split: prod.splits)
qed

section \<open>What the kernel module holds\<close>

lemma pm_paths [simp]:
  "FILE_PATTERNS_PROC_FILE \<noteq> DPI_RULE_PROC_FILE" "DPI_RULE_PROC_FILE \<noteq> FILE_PATTERNS_PROC_FILE"
  by (simp_all add: FILE_PATTERNS_PROC_FILE_def DPI_RULE_PROC_FILE_def)

lemma pm_write_log:
  assumes "files_ok F" and "run_state (pm_write_to_proc_file F path c) s = (r, t)"
  shows "write_log t = write_log s @ [(path, c)]"
proof -
  obtain r1 s1 where o: "run_state (open_write F path) s = (r1, s1)" by (rule prod.exhaust)
  obtain r2 s2 where w: "run_state (write_all F path c) s1 = (r2, s2)" by (rule prod.exhaust)
  from succeedsD [OF files_ok_open [OF assms(1)] o] succeedsD [OF files_ok_write [OF assms(1)] w]
  have "r1 = Inr ()" "r2 = Inr ()" by auto
  moreover have "fx_exists F path (fos s)" using assms(1) by (simp add: files_ok_def)
  ultimately show ?thesis
    using assms(2) o w run_open_write_log [OF o] run_write_all_log [OF w]
    by (simp add: pm_write_to_proc_file_def path_exists_def)
qed

lemma pm_plan_log:
  assumes "files_ok F"
  shows "write_log (snd (run_state (for_each plan (\<lambda>(path, content).
      do { _ \<leftarrow> pm_write_to_proc_file F path content; State_Monad.return () })) s)) = write_log s @ plan"
proof (induction plan arbitrary: s)
  case (Cons w plan)
  obtain path c where w: "w = (path, c)" by (rule prod.exhaust)
  obtain r t where r: "run_state (pm_write_to_proc_file F path c) s = (r, t)" by (rule prod.exhaust)
  show ?case using Cons [of t] pm_write_log [OF assms r] by (simp add: w r)
qed simp

lemma pm_reload_log:
  assumes "files_ok F"
  shows "write_log (snd (run_state (pm_reload F) s)) = write_log s
     @ [(FILE_PATTERNS_PROC_FILE, clear_line), (DPI_RULE_PROC_FILE, clear_line)]
     @ pm_plan s @ [(FILE_PATTERNS_PROC_FILE, build_line)]"
proof -
  obtain r1 s1 where c1: "run_state (create_and_write F FILE_PATTERNS_PROC_FILE clear_line) s = (r1, s1)" by (rule prod.exhaust)
  obtain r2 s2 where c2: "run_state (create_and_write F DPI_RULE_PROC_FILE clear_line) s1 = (r2, s2)" by (rule prod.exhaust)
  obtain u4 s4 where p: "run_state (for_each (pm_plan s2) (\<lambda>(path, content).
      do { _ \<leftarrow> pm_write_to_proc_file F path content; State_Monad.return () })) s2 = (u4, s4)" by (rule prod.exhaust)
  obtain r5 s5 where b: "run_state (create_and_write F FILE_PATTERNS_PROC_FILE build_line) s4 = (r5, s5)" by (rule prod.exhaust)
  have pl: "pm_plan s2 = pm_plan s"
    using keepsD_run [OF keeps_create_and_write [OF file_blind_pm(2)] _ c1]
      keepsD_run [OF keeps_create_and_write [OF file_blind_pm(2)] _ c2] by blast
  note logs = create_and_write_log [OF assms c1] create_and_write_log [OF assms c2]
    pm_plan_log [OF assms, of "pm_plan s2" s2, unfolded p snd_conv] create_and_write_log [OF assms b]
  have "snd (run_state (pm_reload F) s) = s5"
    by (simp add: pm_reload_def pm_clear_file_pattern_def pm_clear_dpi_rules_def
        pm_load_pattern_rules_def pm_build_file_pattern_def c1 c2 p b)
  then show ?thesis using logs pl by simp
qed

text \<open>The patterns of the manager, and the rules that go with the non-empty groups.\<close>

definition pm_patterns :: "'w process_mgr \<Rightarrow> string list" where
  "pm_patterns s = nonempty [const_patterns s, trust_dir_patterns s]"

definition pm_rules :: "'w process_mgr \<Rightarrow> string list" where
  "pm_rules s = (if const_patterns s \<noteq> [] then [const_rules s] else [])
     @ (if trust_dir_patterns s \<noteq> [] then [trust_dir_rules s] else [])"

lemma pm_plan_parts:
  "map snd (filter (\<lambda>w. fst w = FILE_PATTERNS_PROC_FILE) (pm_plan s)) = pm_patterns s"
  "map snd (filter (\<lambda>w. fst w = DPI_RULE_PROC_FILE) (pm_plan s)) = pm_rules s"
  by (simp_all add: pm_plan_def pm_patterns_def pm_rules_def nonempty_def)

text \<open>The shape of the texts: what is rendered is long, and the rules are determined by the
  patterns. The trusted directories contain no newline, so the number of their lines can be read
  off the pattern text.\<close>

definition builtin_patterns :: string where
  "builtin_patterns = concat (map process_pattern_line (List.enumerate 0 PROCESS_PATTERNS))"

definition builtin_rules :: string where
  "builtin_rules = concat (map process_rule_line (List.enumerate 0 PROCESS_PATTERNS))"

definition trust_rules_of :: "string \<Rightarrow> string" where
  "trust_rules_of patterns = concat (map trust_rule_line [0..<length (filter (\<lambda>c. c = nl) patterns)])"

definition pm_shape :: "'w process_mgr \<Rightarrow> bool" where
  "pm_shape s \<longleftrightarrow> (const_patterns s, const_rules s) \<in> {([], []), (builtin_patterns, builtin_rules)}
     \<and> long (trust_dir_patterns s)
     \<and> trust_dir_rules s = trust_rules_of (trust_dir_patterns s)"

lemma nl_notin_show [simp]: "nl \<notin> set (show_nat n)"
  by (rule not_in_show_nat) (simp add: is_digit_def nl_def)

lemma trust_dir_line_nl:
  assumes "nl \<notin> set (td_dir (snd x))"
  shows "filter (\<lambda>c. c = nl) (trust_dir_line x) = [nl]"
proof -
  obtain i d where x: "x = (i, d)" by (rule prod.exhaust)
  have f: "filter (\<lambda>c. c = nl) t = []" if "nl \<notin> set t" for t using that by (auto simp: filter_empty_conv)
  show ?thesis
    using assms f [OF nl_notin_show, of i] f [OF nl_notin_show, of "length (td_dir d)"] f [of "td_dir d"]
    by (simp add: x trust_dir_line_def nl_def)
qed

lemma trust_lines_nl:
  "\<forall>d \<in> set dirs. nl \<notin> set (td_dir d) \<Longrightarrow>
     length (filter (\<lambda>c. c = nl) (concat (map trust_dir_line (List.enumerate k dirs)))) = length dirs"
  by (induction dirs arbitrary: k) (simp_all add: trust_dir_line_nl)

lemma trust_rules_render:
  assumes "\<forall>d \<in> set dirs. nl \<notin> set (td_dir d)"
  shows "concat (map (trust_rule_line \<circ> fst) (List.enumerate 0 dirs))
    = trust_rules_of (concat (map trust_dir_line (List.enumerate 0 dirs)))"
proof -
  have "map (trust_rule_line \<circ> fst) (List.enumerate 0 dirs) = map trust_rule_line [0..<length dirs]"
    by (simp add: enumerate_eq_zip) (metis length_upt map_fst_zip map_map minus_nat.diff_0)
  then show ?thesis by (simp add: trust_rules_of_def trust_lines_nl [OF assms])
qed

lemma long_trust: "long (concat (map trust_dir_line ds))" "long (trust_rules_of p)"
  unfolding trust_rules_of_def by (auto simp: trust_dir_line_def trust_rule_line_def intro!: long_concat)

lemma long_builtin: "long builtin_patterns" "long builtin_rules"
  unfolding builtin_patterns_def builtin_rules_def
  by (auto simp: process_pattern_line_def process_rule_line_def intro!: long_concat)

definition pm_synced :: "'w process_mgr \<Rightarrow> bool" where
  "pm_synced s \<longleftrightarrow> pm_pre s = pm_cur s \<and> pm_shape s
     \<and> filter (\<lambda>t. t \<noteq> build_line) (loaded FILE_PATTERNS_PROC_FILE (write_log s)) = pm_patterns s
     \<and> loaded DPI_RULE_PROC_FILE (write_log s) = pm_rules s"

lemma pm_shape_long:
  assumes "pm_shape s"
  shows "\<forall>t \<in> set (pm_patterns s @ pm_rules s). long t"
  using assms long_builtin long_trust(2) by (auto simp: pm_shape_def pm_patterns_def pm_rules_def nonempty_def)

lemma pm_reload_loaded:
  assumes "files_ok F" and "pm_shape s"
  shows "loaded FILE_PATTERNS_PROC_FILE (write_log (snd (run_state (pm_reload F) s))) = pm_patterns s @ [build_line]"
    and "loaded DPI_RULE_PROC_FILE (write_log (snd (run_state (pm_reload F) s))) = pm_rules s"
proof -
  let ?l = "write_log s @ [(FILE_PATTERNS_PROC_FILE, clear_line), (DPI_RULE_PROC_FILE, clear_line)]"
  have e: "loaded FILE_PATTERNS_PROC_FILE ?l = []" "loaded DPI_RULE_PROC_FILE ?l = []"
    using loaded_snoc [of _ "write_log s @ [(FILE_PATTERNS_PROC_FILE, clear_line)]" DPI_RULE_PROC_FILE clear_line]
    by simp_all
  have l: "write_log (snd (run_state (pm_reload F) s)) = ?l @ pm_plan s @ [(FILE_PATTERNS_PROC_FILE, build_line)]"
    using pm_reload_log [OF assms(1)] by simp
  have "set (map snd (pm_plan s)) \<subseteq> set (pm_patterns s @ pm_rules s)"
    by (auto simp: pm_plan_def pm_patterns_def pm_rules_def nonempty_def)
  then have "clear_line \<notin> set (map snd (pm_plan s))"
    using pm_shape_long [OF assms(2)] long_commands(1) by blast
  then have n: "(path, clear_line) \<notin> set (pm_plan s @ [(FILE_PATTERNS_PROC_FILE, build_line)])" for path
    by force
  show "loaded FILE_PATTERNS_PROC_FILE (write_log (snd (run_state (pm_reload F) s))) = pm_patterns s @ [build_line]"
    unfolding l loaded_append [OF n] e by (simp add: pm_plan_parts)
  show "loaded DPI_RULE_PROC_FILE (write_log (snd (run_state (pm_reload F) s))) = pm_rules s"
    unfolding l loaded_append [OF n] e by (simp add: pm_plan_parts)
qed

lemma pm_texts_cong: "pm_cur s = pm_cur t \<Longrightarrow> pm_patterns s = pm_patterns t"
  by (simp add: pm_cur_def pm_patterns_def)

lemma builtin_nonempty [simp]: "builtin_patterns \<noteq> []"
  by (simp add: builtin_patterns_def PROCESS_PATTERNS_def process_pattern_line_def)

text \<open>The files written to.\<close>

abbreviation process_paths :: "string set" where
  "process_paths \<equiv> {FILE_PATTERNS_PROC_FILE, DPI_RULE_PROC_FILE}"

lemma wrote_pm_load [path_intros]: "keeps (wrote l process_paths) (pm_load_pattern_rules F)"
  unfolding pm_load_pattern_rules_def pm_write_to_proc_file_def pm_build_file_pattern_def
  by (intro keeps_bind_gets keeps_for_each_set path_intros monad_intros) (auto simp: pm_plan_def split: if_splits)

lemma wrote_pm_set_rules [path_intros]: "keeps (wrote l process_paths) (pm_set_pattern_rules F)"
  unfolding pm_set_pattern_rules_def pm_reload_def pm_clear_file_pattern_def pm_clear_dpi_rules_def
  by (intro path_intros monad_intros) (simp_all add: pm_backup_def)

lemma wrote_pm_ops:
  "keeps (wrote l process_paths) (pm_init F)" "keeps (wrote l process_paths) (pm_set_global_trust_dir F dirs)"
  unfolding pm_init_def add_const_process_pattern_def pm_set_global_trust_dir_def
  by (intro path_intros monad_intros; simp)+

text \<open>With the shape, equal patterns have equal rules.\<close>

lemma pm_rules_cong: "pm_shape s \<Longrightarrow> pm_shape t \<Longrightarrow> pm_cur s = pm_cur t \<Longrightarrow> pm_rules s = pm_rules t"
  using builtin_nonempty by (auto simp: pm_shape_def pm_cur_def pm_rules_def)

lemma pm_synced_edit:
  assumes "files_ok F" and "pm_synced s" and "pm_pre t = pm_pre s" and "write_log t = write_log s"
    and "pm_shape t" and "run_state (pm_set_pattern_rules F) t = (u, s')"
  shows "pm_synced s'"
proof (cases "pm_has_changed t")
  case True
  let ?r = "snd (run_state (pm_reload F) t)"
  have run: "s' = pm_backup ?r" using True assms(6) by (simp add: ppm.set_rules_run)
  have c: "pm_cur ?r = pm_cur t" by (rule ppm.reload_cur)
  have rl: "const_rules ?r = const_rules t" "trust_dir_rules ?r = trust_dir_rules t"
    using keepsD [OF keeps_pm_reload [OF file_blind_pm(3)], OF refl, of F t] by simp_all
  have same: "pm_shape (pm_backup ?r)" "pm_patterns (pm_backup ?r) = pm_patterns t" "pm_rules (pm_backup ?r) = pm_rules t"
    using c rl assms(5) by (simp_all add: pm_shape_def pm_backup_def pm_cur_def pm_patterns_def pm_rules_def)
  have b: "write_log (pm_backup ?r) = write_log ?r" by (simp add: pm_backup_def)
  have "build_line \<notin> set (pm_patterns t)" using pm_shape_long [OF assms(5)] long_commands(2) by (metis UnI1 set_append)
  then have f: "filter (\<lambda>t. t \<noteq> build_line) (pm_patterns t @ [build_line]) = pm_patterns t"
    by (auto simp: filter_id_conv)
  show ?thesis
    unfolding run pm_synced_def same b ppm.backup_cur ppm.backup_pre pm_reload_loaded [OF assms(1,5)] f
    using same(1) by simp
next
  case False
  then have eq: "pm_pre t = pm_cur t" by (simp add: ppm.changed_iff)
  with assms(2,3) have c: "pm_cur t = pm_cur s" by (simp add: pm_synced_def)
  have "s' = t" using False assms(6) by (simp add: ppm.set_rules_run)
  with eq assms(2,4,5) pm_texts_cong [OF c] pm_rules_cong [OF assms(5) _ c] show ?thesis
    by (simp add: pm_synced_def)
qed

lemma pm_synced_builtin:
  assumes "files_ok F" and "pm_synced s" and "run_state (add_const_process_pattern F) s = (u, s')"
  shows "pm_synced s'"
proof -
  have r: "run_state (pm_set_pattern_rules F) (s\<lparr>const_patterns := builtin_patterns, const_rules := builtin_rules\<rparr>) = (u, s')"
    using assms(3) by (simp add: add_const_process_pattern_def builtin_patterns_def builtin_rules_def)
  show ?thesis using assms(2)
    by (intro pm_synced_edit [OF assms(1,2) _ _ _ r]) (simp_all add: pm_pre_def pm_synced_def pm_shape_def)
qed

lemma pm_synced_step:
  assumes "pm_step F s s'" and "files_ok F" and "pm_synced s"
  shows "pm_synced s'"
  using assms(1)
proof (cases rule: pm_step.cases)
  case (init u)
  have "pm_synced (s\<lparr>pm_inited := True\<rparr>)"
    using assms(3) by (simp add: pm_synced_def pm_pre_def pm_cur_def pm_shape_def pm_patterns_def pm_rules_def)
  with init assms show ?thesis by (auto simp: pm_init_def intro: pm_synced_builtin split: if_splits)
next
  case (builtin u)
  then show ?thesis using assms pm_synced_builtin by blast
next
  case (trust dirs u)
  let ?ds = "take 50 dirs"
  let ?t = "s\<lparr>trust_dir_patterns := concat (map trust_dir_line (List.enumerate 0 ?ds)),
      trust_dir_rules := concat (map (trust_rule_line \<circ> fst) (List.enumerate 0 ?ds))\<rparr>"
  from trust have r: "run_state (pm_set_pattern_rules F) ?t = (u, s')" by (simp add: pm_set_global_trust_dir_def)
  have "\<forall>d \<in> set ?ds. nl \<notin> set (td_dir d)" using trust by (auto dest: in_set_takeD)
  note rr = trust_rules_render [OF this]
  have "pm_shape ?t" using assms(3) long_trust by (simp add: pm_synced_def pm_shape_def rr)
  then show ?thesis by (intro pm_synced_edit [OF assms(2,3) _ _ _ r]) (simp_all add: pm_pre_def)
qed

lemma pm_synced_reach: "pm_reach F s \<Longrightarrow> files_ok F \<Longrightarrow> pm_synced s"
proof (induction rule: pm_reach.induct)
  case (start w)
  then show ?case by (simp add: pm_synced_def process_mgr_new_def pm_pre_def pm_cur_def pm_shape_def
        pm_patterns_def pm_rules_def nonempty_def loaded_def trust_rules_of_def)
qed (auto intro: pm_synced_step)

section \<open>Properties\<close>

text \<open>While the control files accept writes, the process patterns and the process rules of
  the kernel module are both those of the manager, after any sequence of initialisation and
  trusted-directory policies whose directories contain no newline: although only the patterns are
  compared, here equal patterns have equal rules.\<close>

theorem process_rules_follow:
  assumes "pm_reach F s" and "files_ok F"
  shows "filter (\<lambda>t. t \<noteq> build_line) (loaded FILE_PATTERNS_PROC_FILE (write_log s))
      = filter (\<lambda>t. t \<noteq> []) [const_patterns s, trust_dir_patterns s]
    \<and> loaded DPI_RULE_PROC_FILE (write_log s) =
       (if const_patterns s \<noteq> [] then [const_rules s] else [])
       @ (if trust_dir_patterns s \<noteq> [] then [trust_dir_rules s] else [])"
  using pm_synced_reach [OF assms] by (simp add: pm_synced_def pm_patterns_def pm_rules_def nonempty_def)

text \<open>Initialisation happens once. A second call changes nothing, and the first leaves
  the built-in patterns and rules in place, with nothing left to load.\<close>

theorem pm_init_once:
  "run_state (pm_init F) (snd (run_state (pm_init F) s)) = ((), snd (run_state (pm_init F) s))
   \<and> (\<not> pm_inited s \<longrightarrow>
        const_patterns (snd (run_state (pm_init F) s)) = builtin_patterns
        \<and> const_rules (snd (run_state (pm_init F) s)) = builtin_rules
        \<and> \<not> pm_has_changed (snd (run_state (pm_init F) s)))"
proof (cases "pm_inited s")
  case True
  then show ?thesis by (simp add: pm_init_def)
next
  case False
  let ?t = "s\<lparr>pm_inited := True, const_patterns := builtin_patterns, const_rules := builtin_rules\<rparr>"
  let ?s' = "snd (run_state (pm_init F) s)"
  have s': "?s' = snd (run_state (pm_set_pattern_rules F) ?t)"
    using False by (simp add: pm_init_def add_const_process_pattern_def builtin_patterns_def builtin_rules_def)
  have "pm_inited (snd (run_state (pm_reload F) ?t))" "const_rules (snd (run_state (pm_reload F) ?t)) = builtin_rules"
    using keepsD [OF keeps_pm_reload [OF file_blind_pm(3)], OF refl, of F ?t] by simp_all
  then have i: "pm_inited ?s'" "const_rules ?s' = builtin_rules"
    by (simp_all add: s' ppm.set_rules_run pm_backup_def)
  from ppm.set_rules_settles [OF prod.collapse [symmetric], of F ?t]
  have "\<not> pm_has_changed ?s' \<and> const_patterns ?s' = builtin_patterns" by (simp add: s' pm_cur_def)
  moreover have "run_state (pm_init F) t = ((), t)" if "pm_inited t" for t :: "'a process_mgr"
    using that by (simp add: pm_init_def)
  ultimately show ?thesis using i by blast
qed

definition lab_trust :: "global_trust_dir list" where
  "lab_trust = [\<lparr>td_dir = ''/opt'', td_typ = 1, td_is_extend = 0\<rparr>]"

lemma lab_pm_reach:
  "pm_reach free_files (snd (run_state (pm_set_global_trust_dir free_files lab_trust) (process_mgr_new ())))"
  by (rule pm_reach.step [OF pm_reach.start pm_step.trust [OF _ prod.collapse [symmetric]]])
    (simp add: lab_trust_def nl_def)

theorem process_rules_follow_witness:
  "loaded DPI_RULE_PROC_FILE (write_log (snd (run_state (pm_set_global_trust_dir free_files lab_trust) (process_mgr_new ()))))
     = [''target=TDir_rule,type=0,pattern=trueDir_0'' @ [nl]]"
proof -
  let ?s = "snd (run_state (pm_set_global_trust_dir free_files lab_trust) (process_mgr_new ()))"
  have "const_patterns ?s = []" "trust_dir_patterns ?s \<noteq> []"
      "trust_dir_rules ?s = ''target=TDir_rule,type=0,pattern=trueDir_0'' @ [nl]" by code_simp+
  then show ?thesis using process_rules_follow [OF lab_pm_reach free_files_ok] by simp
qed

theorem pm_init_once_witness:
  "const_patterns (snd (run_state (pm_init free_files) (process_mgr_new ()))) = builtin_patterns"
proof -
  have "\<not> pm_inited (process_mgr_new ())" by (simp add: process_mgr_new_def)
  then show ?thesis using pm_init_once by blast
qed

end
