(* ===== verification/Usb_List.thy ===== *)
theory Usb_List
  imports Black_White
begin

text \<open>
  \<^verbatim>\<open>crates/udisk/src/list.rs\<close> and \<^verbatim>\<open>device.rs\<close>: the black and the white list of USB devices with
  the sets of their identifiers, the list updates, and the decision whether a device is allowed.
  A \<^verbatim>\<open>HashSet\<close> of identifiers is a \<open>string set\<close>. Disabling the devices that are new on the black
  list runs on a thread of its own (\<^verbatim>\<open>monitor::handle_blacklist_update\<close>): the update returns the
  identifiers handed to it.
\<close>

record usb_info =
  perpheral_eid :: string
  perpheral_name :: string
  intro_text :: string
  type_name :: string
  allow :: bool

datatype device_list_status = InWhitelist | InBlacklist | NotInAnyList

record black_white_list =
  blacklist :: "usb_info list"
  whitelist :: "usb_info list"
  black_eids :: "string set"
  white_eids :: "string set"

definition bwl_new :: black_white_list where
  "bwl_new = \<lparr>blacklist = [], whitelist = [], black_eids = {}, white_eids = {}\<rparr>"

definition from_vecs :: "usb_info list \<Rightarrow> usb_info list \<Rightarrow> black_white_list" where
  "from_vecs bs ws = \<lparr>blacklist = bs, whitelist = ws,
     black_eids = perpheral_eid ` set bs, white_eids = perpheral_eid ` set ws\<rparr>"

definition get_device_list_status :: "black_white_list \<Rightarrow> string \<Rightarrow> device_list_status" where
  "get_device_list_status l eid =
     (if eid \<in> black_eids l then InBlacklist
      else if eid \<in> white_eids l then InWhitelist
      else NotInAnyList)"

definition is_allowed :: "black_white_list \<Rightarrow> string \<Rightarrow> bool" where
  "is_allowed l eid =
     (if eid \<in> black_eids l then False
      else if white_eids l = {} then True
      else eid \<in> white_eids l)"

definition update_whitelist :: "usb_info list \<Rightarrow> black_white_list \<Rightarrow> black_white_list" where
  "update_whitelist new_whitelist l =
     (let new_white_eids = perpheral_eid ` set new_whitelist;
          l = l\<lparr>blacklist := filter (\<lambda>u. perpheral_eid u \<notin> new_white_eids) (blacklist l)\<rparr>;
          l = l\<lparr>black_eids := perpheral_eid ` set (blacklist l)\<rparr>
      in l\<lparr>whitelist := new_whitelist, white_eids := new_white_eids\<rparr>)"

text \<open>The second component: the devices to disable; empty when nothing is spawned.\<close>

definition update_blacklist :: "usb_info list \<Rightarrow> black_white_list \<Rightarrow> black_white_list \<times> string set" where
  "update_blacklist new_blacklist l =
     (let new_black_eids = perpheral_eid ` set new_blacklist;
          added_to_blacklist = new_black_eids - black_eids l;
          l = l\<lparr>whitelist := filter (\<lambda>u. perpheral_eid u \<notin> new_black_eids) (whitelist l)\<rparr>;
          l = l\<lparr>white_eids := perpheral_eid ` set (whitelist l)\<rparr>
      in (l\<lparr>blacklist := new_blacklist, black_eids := new_black_eids\<rparr>, added_to_blacklist))"

section \<open>The contract of the two lists\<close>

definition eids_match :: "black_white_list \<Rightarrow> bool" where
  "eids_match l \<longleftrightarrow> black_eids l = perpheral_eid ` set (blacklist l)
     \<and> white_eids l = perpheral_eid ` set (whitelist l)"

definition put_usb_list :: "bool \<Rightarrow> usb_info list \<Rightarrow> black_white_list \<Rightarrow> black_white_list" where
  "put_usb_list c xs l = (if c then update_whitelist xs l else fst (update_blacklist xs l))"

interpretation usb: black_white eids_match white_eids black_eids put_usb_list perpheral_eid
proof
  fix l c xs assume "eids_match l"
  then show "eids_match (put_usb_list c xs l)"
    "white_eids (put_usb_list c xs l) = (if c then perpheral_eid ` set xs else white_eids l - perpheral_eid ` set xs)"
    "black_eids (put_usb_list c xs l) = (if c then black_eids l - perpheral_eid ` set xs else perpheral_eid ` set xs)"
    by (auto simp: eids_match_def put_usb_list_def update_whitelist_def update_blacklist_def Let_def)
qed

lemma bwl_new_facts [simp]: "eids_match bwl_new" "white_eids bwl_new = {}" "black_eids bwl_new = {}"
  by (simp_all add: bwl_new_def eids_match_def)

section \<open>Properties\<close>

definition usb_history :: "(bool \<times> usb_info list) list \<Rightarrow> black_white_list" where
  "usb_history ops = fold (\<lambda>(c, xs). put_usb_list c xs) ops bwl_new"

lemma usb_history_usb: "usb_history ops = usb.history ops bwl_new"
  by (simp add: usb_history_def usb.history_def)

text \<open>C36: whatever lists the server sends, in whatever order, the identifier sets stay those
  of the two lists and no device is on both; a device on the black list is refused, one on the
  white list is allowed, and a device on neither is allowed exactly while the white list is
  empty.\<close>

theorem usb_decision:
  "let l = usb_history ops in white_eids l \<inter> black_eids l = {}
    \<and> black_eids l = perpheral_eid ` set (blacklist l) \<and> white_eids l = perpheral_eid ` set (whitelist l)
    \<and> is_allowed l eid =
       (case get_device_list_status l eid of
          InBlacklist \<Rightarrow> False | InWhitelist \<Rightarrow> True | NotInAnyList \<Rightarrow> whitelist l = [])"
proof -
  have "white_eids (usb_history ops) \<inter> black_eids (usb_history ops) = {}"
    unfolding usb_history_usb by (rule usb.disjoint_history) simp_all
  moreover have "eids_match (usb_history ops)" unfolding usb_history_usb by (rule usb.valid_history) simp
  ultimately show ?thesis
    by (auto simp: Let_def eids_match_def is_allowed_def get_device_list_status_def split: if_splits)
qed

fun last_listed :: "bool \<Rightarrow> (bool \<times> usb_info list) list \<Rightarrow> string \<Rightarrow> bool" where
  "last_listed d [] eid = False"
| "last_listed d ((c, xs) # older) eid =
     (if c = d then eid \<in> perpheral_eid ` set xs
      else eid \<notin> perpheral_eid ` set xs \<and> last_listed d older eid)"

lemma last_listed_usb: "last_listed d ops eid = usb.listed d ops eid"
  by (induction d ops eid rule: last_listed.induct) auto

text \<open>The device is on the black list exactly when some black list of the history contains
  it, no later white list does, and no later black list leaves it out; the same with the colours
  exchanged.\<close>

theorem usb_lists_last_update_wins:
  "(eid \<in> black_eids (usb_history ops) \<longleftrightarrow> last_listed False (rev ops) eid)
   \<and> (eid \<in> white_eids (usb_history ops) \<longleftrightarrow> last_listed True (rev ops) eid)"
  using usb.history_listed [of bwl_new eid ops] by (simp add: usb_history_usb last_listed_usb)

text \<open>Exactly the devices that were not on the black list before are handed over to be
  disabled, and sending the same black list again hands over none.\<close>

theorem newly_black_disabled_once:
  "snd (update_blacklist xs l) = perpheral_eid ` set xs - black_eids l
   \<and> snd (update_blacklist xs (fst (update_blacklist xs l))) = {}"
  by (simp add: update_blacklist_def Let_def)

end
