(* ===== verification/Ip_Manager.thy ===== *)
theory Ip_Manager
  imports Jump_Utils
begin

text \<open>
  The address-jump manager, \<^verbatim>\<open>crates/rules_jump_mgr/src/ip_manager.rs\<close>. The struct
  \<^verbatim>\<open>IpJumpManager\<close> is the record \<open>jump_state\<close> (its locks are gone: every operation here runs
  between two awaits of the daemon that owns the manager), extended with the world and the
  instruction channel. Operations are state computations in the order of the source; \<open>tryE\<close> is
  the \<^verbatim>\<open>?\<close> operator.

  Parameters (record \<open>jump_ext\<close>): the process, regex and ipnet packages of \<open>sys_ext\<close>, the HTTP
  packages of \<open>http_ext\<close>, printing and parsing JSON, the directory and file operations of
  \<^verbatim>\<open>tokio::fs\<close>. The \<^verbatim>\<open>tokio::sync::watch\<close> channel is its documented state: the newest value,
  and whether the receiver has seen it.
\<close>

section \<open>Data\<close>

record secondary_ip_info =
  si_interface :: string
  si_ip :: string
  si_netmask :: string
  si_prefix_len :: u8
  si_added_tick :: u64

record put_ip_jump_info =
  pi_source_ip :: string
  pi_target_ip :: string
  pi_gateway :: string
  pi_agent_ip :: string
  pi_status :: u8
  pi_reason :: string

record ip_jump_config =
  cf_source_ip :: string
  cf_target_ip :: string
  cf_gateway :: string

record ip_jump_instruction =
  in_source_ip :: string
  in_target_ip :: string
  in_gateway :: string
  in_active_time :: u32

record network_backup =
  nb_ip :: string
  nb_netmask :: string
  nb_gateway :: "string option"
  nb_interface :: string

definition aging_ticks :: u64 where "aging_ticks = 2"

record 'w jump_state = "'w sys_state" +
  secondary_ips :: "secondary_ip_info list"
  tick_counter :: u64
  main_interface :: string
  last_upload_failed :: bool
  instr_tx :: bool
  instr_receiver :: bool
  instr_value :: "ip_jump_instruction option"
  instr_unseen :: bool

record ('c, 'p, 'w) jump_ext =
  je_sys :: "'w sys_ext"
  je_http :: "('c, 'p, 'w) http_ext"
  je_json_print :: "json \<Rightarrow> string"
  je_json_parse :: "string \<Rightarrow> json res"
  je_is_dir :: "string \<Rightarrow> 'w \<Rightarrow> bool"
  je_read_dir :: "string \<Rightarrow> 'w \<Rightarrow> string res list res"
  je_write :: "string \<Rightarrow> string \<Rightarrow> 'w \<Rightarrow> unit res \<times> 'w"
  je_replace :: "string \<Rightarrow> string \<Rightarrow> string \<Rightarrow> string"
  je_is_match :: "string \<Rightarrow> string \<Rightarrow> bool"

definition jump_manager_new :: "'w \<Rightarrow> string \<Rightarrow> 'w jump_state" where
  "jump_manager_new w iface =
     \<lparr>os = w, cmd_log = [], post_log = [], secondary_ips = [], tick_counter = 0,
      main_interface = iface, last_upload_failed = False,
      instr_tx = False, instr_receiver = False, instr_value = None, instr_unseen = False\<rparr>"

definition send_instruction ::
  "string \<Rightarrow> string \<Rightarrow> string \<Rightarrow> u32 \<Rightarrow> ('w jump_state, unit res) state" where
  "send_instruction source_ip target_ip gateway active_time = do {
     tx \<leftarrow> gets instr_tx;
     rx \<leftarrow> gets instr_receiver;
     (if \<not> tx then State_Monad.return (Inl ''IP Jump daemon not initialized'')
      else if \<not> rx then State_Monad.return (Inl ''Failed to send instruction'')
      else do {
        modify (\<lambda>s. s\<lparr>instr_value :=
          Some \<lparr>in_source_ip = source_ip, in_target_ip = target_ip, in_gateway = gateway,
                in_active_time = active_time\<rparr>, instr_unseen := True\<rparr>);
        State_Monad.return (Inr ()) })
   }"

section \<open>Requests to the server\<close>

definition on_os :: "('w, 'a) state \<Rightarrow> (('w, 'z) sys_state_scheme, 'a) state" where
  "on_os m = State (\<lambda>s. case run_state m (os s) of (r, w) \<Rightarrow> (r, s\<lparr>os := w\<rparr>))"

definition new_client ::
  "('c, 'p, 'w) jump_ext \<Rightarrow> string \<Rightarrow> (('w, 'z) sys_state_scheme, 'c net_client res) state" where
  "new_client E burl = gets (\<lambda>s. net_client_new (je_http E) (Some burl) True (os s))"

definition post_logged ::
  "('c, 'p, 'w) jump_ext \<Rightarrow> 'c net_client \<Rightarrow> string \<Rightarrow> string \<Rightarrow> string option
     \<Rightarrow> (('w, 'z) sys_state_scheme, string res) state" where
  "post_logged E c url body token = do {
     modify (\<lambda>s. s\<lparr>post_log := post_log s @ [(url, body)]\<rparr>);
     on_os (post_data_async (je_http E) c url body 10 token)
   }"

definition get_str :: "(string \<times> json) list \<Rightarrow> string \<Rightarrow> string" where
  "get_str kvs k = opt_or [] (Option.bind (map_of kvs k) as_str)"

definition fetch_latest_instruction ::
  "('c, 'p, 'w) jump_ext \<Rightarrow> string \<Rightarrow> string option \<Rightarrow> string
     \<Rightarrow> ('w jump_state, ip_jump_instruction option res) state" where
  "fetch_latest_instruction E url token burl =
     tryE (new_client E burl) (\<lambda>c.
     tryE (post_logged E c url [] token) (\<lambda>resp.
     State_Monad.return
       (case je_json_parse E resp of
          Inl e \<Rightarrow> Inl e
        | Inr parsed \<Rightarrow>
            if json_index parsed ''code'' \<noteq> JStr ''000000'' then Inl ''API error''
            else
              (case as_object (json_index parsed ''data'') of
                 None \<Rightarrow> Inr None
               | Some dat \<Rightarrow>
                   let gateway = get_str dat ''gateway'';
                       source_ip = get_str dat ''source_ip'';
                       target_ip = get_str dat ''target_ip'';
                       active_time = ucast (opt_or 0 (Option.bind (map_of dat ''active_time'') as_u64))
                   in if source_ip = [] \<and> target_ip = [] then Inr None
                      else Inr (Some \<lparr>in_source_ip = source_ip, in_target_ip = target_ip,
                                      in_gateway = gateway, in_active_time = active_time\<rparr>)))))"

definition build_upload_ip_jump_json ::
  "('c, 'p, 'w) jump_ext \<Rightarrow> put_ip_jump_info \<Rightarrow> string" where
  "build_upload_ip_jump_json E info = je_json_print E (JObj
     [(''source_ip'', JStr (pi_source_ip info)), (''target_ip'', JStr (pi_target_ip info)),
      (''gateway'', JStr (pi_gateway info)), (''agent_ip'', JStr (pi_agent_ip info)),
      (''status'', JInt (uint (pi_status info))), (''reason'', JStr (pi_reason info))])"

definition upload_result_direct ::
  "('c, 'p, 'w) jump_ext \<Rightarrow> string \<Rightarrow> put_ip_jump_info \<Rightarrow> string option \<Rightarrow> string
     \<Rightarrow> ('w jump_state, unit res) state" where
  "upload_result_direct E url info token burl =
     tryE (new_client E burl) (\<lambda>c. do {
       _ \<leftarrow> post_logged E c url (build_upload_ip_jump_json E info) token;
       State_Monad.return (Inr ())
     })"

definition build_upload_agent_ip_json :: "('c, 'p, 'w) jump_ext \<Rightarrow> string \<Rightarrow> string" where
  "build_upload_agent_ip_json E agent_ip = je_json_print E (JObj [(''ip'', JStr agent_ip)])"

definition upload_ip_jump_periodic_result ::
  "('c, 'p, 'w) jump_ext \<Rightarrow> string \<Rightarrow> string option \<Rightarrow> string \<Rightarrow> ('w jump_state, unit res) state" where
  "upload_ip_jump_periodic_result E burl token agent_ip =
     tryE (map_err (\<lambda>e. utf8 [229, 136, 155, 229, 187, 186, 32, 78, 101, 116, 67, 108, 105, 101, 110, 116, 32, 229, 164, 177, 232, 180, 165, 58, 32] @ e) (new_client E burl)) (\<lambda>c.
     tryE (map_err (\<lambda>e. utf8 [229, 143, 145, 233, 128, 129, 230, 140, 135, 230, 160, 135, 229, 164, 177, 232, 180, 165, 58, 32] @ e)
             (post_logged E c (burl @ ''/v1/uploadIp'') (build_upload_agent_ip_json E agent_ip) token))
       (\<lambda>_. State_Monad.return (Inr ())))"

section \<open>Secondary addresses\<close>

definition increment_tick :: "('w jump_state, u64) state" where
  "increment_tick = do {
     modify (\<lambda>s. s\<lparr>tick_counter := tick_counter s + 1\<rparr>);
     gets tick_counter
   }"

definition run_ip_cmd :: "('c, 'p, 'w) jump_ext \<Rightarrow> string list \<Rightarrow> ('w jump_state, unit res) state" where
  "run_ip_cmd E args = run_cmd_status (je_sys E) ''ip'' args"

definition try_remove_ip_from_system ::
  "('c, 'p, 'w) jump_ext \<Rightarrow> string \<Rightarrow> string \<Rightarrow> u8 \<Rightarrow> ('w jump_state, unit res) state" where
  "try_remove_ip_from_system E iface ip plen = do {
     let with_prefix = ip @ ''/'' @ show_word plen;
     ex \<leftarrow> ip_exists_on_iface (je_sys E) iface ip;
     if \<not> ex then State_Monad.return (Inr ())
     else do {
       r \<leftarrow> run_cmd_capture (je_sys E) ''ip'' [''addr'', ''del'', with_prefix, ''dev'', iface];
       gone \<leftarrow> (case r of
                 Inr _ \<Rightarrow> do { ex \<leftarrow> ip_exists_on_iface (je_sys E) iface ip;
                              State_Monad.return (\<not> ex) }
               | Inl _ \<Rightarrow> State_Monad.return False);
       if gone then State_Monad.return (Inr ())
       else do {
         r \<leftarrow> run_cmd_capture (je_sys E) ''ip'' [''addr'', ''del'', ip, ''dev'', iface];
         case r of
           Inr _ \<Rightarrow> do {
             ex \<leftarrow> ip_exists_on_iface (je_sys E) iface ip;
             State_Monad.return
               (if \<not> ex then Inr ()
                else Inl (''fallback delete executed but IP still present: '' @ ip @ '' on '' @ iface))
           }
         | Inl e \<Rightarrow> State_Monad.return
               (Inl (''both delete attempts failed or ineffective: '' @ e))
       }
     }
   }"

definition same_entry :: "string \<Rightarrow> string \<Rightarrow> secondary_ip_info \<Rightarrow> bool" where
  "same_entry iface ip x \<longleftrightarrow> si_interface x = iface \<and> si_ip x = ip"

definition drop_entry :: "string \<Rightarrow> string \<Rightarrow> secondary_ip_info list \<Rightarrow> secondary_ip_info list" where
  "drop_entry iface ip xs = filter (\<lambda>x. \<not> same_entry iface ip x) xs"

definition cleanup_old_secondary ::
  "('c, 'p, 'w) jump_ext \<Rightarrow> string \<Rightarrow> ('w jump_state, unit) state" where
  "cleanup_old_secondary E keep_ip = do {
     snapshot \<leftarrow> gets secondary_ips;
     for_each snapshot (\<lambda>entry.
       if si_ip entry \<noteq> keep_ip then do {
         _ \<leftarrow> try_remove_ip_from_system E (si_interface entry) (si_ip entry) (si_prefix_len entry);
         modify (\<lambda>s. s\<lparr>secondary_ips := drop_entry (si_interface entry) (si_ip entry) (secondary_ips s)\<rparr>)
       } else State_Monad.return ())
   }"

fun refresh_first :: "(secondary_ip_info \<Rightarrow> bool) \<Rightarrow> u64 \<Rightarrow> secondary_ip_info list \<Rightarrow> secondary_ip_info list" where
  "refresh_first p t [] = []"
| "refresh_first p t (x # xs) =
     (if p x then x\<lparr>si_added_tick := t\<rparr> # xs else x # refresh_first p t xs)"

definition add_secondary_ip ::
  "('c, 'p, 'w) jump_ext \<Rightarrow> string \<Rightarrow> string \<Rightarrow> string \<Rightarrow> u8 \<Rightarrow> u64 \<Rightarrow> ('w jump_state, unit res) state" where
  "add_secondary_ip E iface ip netmask plen tick = do {
     lst \<leftarrow> gets secondary_ips;
     if list_ex (same_entry iface ip) lst then do {
       modify (\<lambda>s. s\<lparr>secondary_ips := refresh_first (same_entry iface ip) tick (secondary_ips s)\<rparr>);
       State_Monad.return (Inr ())
     } else do {
       modify (\<lambda>s. s\<lparr>secondary_ips := secondary_ips s @
          [\<lparr>si_interface = iface, si_ip = ip, si_netmask = netmask, si_prefix_len = plen,
            si_added_tick = tick\<rparr>]\<rparr>);
       ex \<leftarrow> ip_exists_on_iface (je_sys E) iface ip;
       if \<not> ex then
         map_err (\<lambda>e. ''failed to add secondary ip to system: '' @ e)
           (run_ip_cmd E [''addr'', ''add'', ip @ ''/'' @ show_word plen, ''dev'', iface])
       else State_Monad.return (Inr ())
     }
   }"

definition remove_secondary_ip ::
  "('c, 'p, 'w) jump_ext \<Rightarrow> string \<Rightarrow> string \<Rightarrow> ('w jump_state, unit res) state" where
  "remove_secondary_ip E iface ip = do {
     lst \<leftarrow> gets secondary_ips;
     tryE (try_remove_ip_from_system E iface ip
             (case find (same_entry iface ip) lst of Some x \<Rightarrow> si_prefix_len x | None \<Rightarrow> 0)) (\<lambda>_. do {
       modify (\<lambda>s. s\<lparr>secondary_ips := drop_entry iface ip (secondary_ips s)\<rparr>);
       State_Monad.return (Inr ())
     })
   }"

definition saturating_sub :: "u64 \<Rightarrow> u64 \<Rightarrow> u64" where
  "saturating_sub a b = (if a < b then 0 else a - b)"

definition is_aged :: "u64 \<Rightarrow> secondary_ip_info \<Rightarrow> bool" where
  "is_aged tick x \<longleftrightarrow> aging_ticks \<le> saturating_sub tick (si_added_tick x)"

fun remove_expired ::
  "('c, 'p, 'w) jump_ext \<Rightarrow> (string \<times> string \<times> u8) list \<Rightarrow> bool \<Rightarrow> ('w jump_state, bool) state" where
  "remove_expired E [] any_removed = State_Monad.return any_removed"
| "remove_expired E ((iface, ip, plen) # rest) any_removed = do {
     r \<leftarrow> try_remove_ip_from_system E iface ip plen;
     case r of
       Inr _ \<Rightarrow> do {
         modify (\<lambda>s. s\<lparr>secondary_ips := drop_entry iface ip (secondary_ips s)\<rparr>);
         remove_expired E rest True }
     | Inl _ \<Rightarrow> remove_expired E rest any_removed
   }"

definition do_periodic_cleanup ::
  "('c, 'p, 'w) jump_ext \<Rightarrow> string \<Rightarrow> string option \<Rightarrow> ('w jump_state, unit) state" where
  "do_periodic_cleanup E burl token = do {
     tick \<leftarrow> increment_tick;
     lst \<leftarrow> gets secondary_ips;
     let expired = map (\<lambda>i. (si_interface i, si_ip i, si_prefix_len i)) (filter (is_aged tick) lst);
     any_removed \<leftarrow> remove_expired E expired False;
     failed \<leftarrow> gets last_upload_failed;
     if any_removed \<or> failed then do {
       ips \<leftarrow> get_local_ips_all (je_sys E);
       case ips of
         Some agent_ip \<Rightarrow> do {
           r \<leftarrow> upload_ip_jump_periodic_result E burl token agent_ip;
           modify (\<lambda>s. s\<lparr>last_upload_failed := (case r of Inr _ \<Rightarrow> False | Inl _ \<Rightarrow> True)\<rparr>)
         }
       | None \<Rightarrow> State_Monad.return ()
     } else State_Monad.return ()
   }"

section \<open>The list of secondary addresses\<close>

text \<open>Every entry is the only one for its interface and address.\<close>

definition entry_key :: "secondary_ip_info \<Rightarrow> string \<times> string" where
  "entry_key x = (si_interface x, si_ip x)"

definition unique_entries :: "'w jump_state \<Rightarrow> bool" where
  "unique_entries s \<longleftrightarrow> distinct (map entry_key (secondary_ips s))"

lemma same_entry_iff: "same_entry iface ip x \<longleftrightarrow> entry_key x = (iface, ip)"
  by (auto simp: same_entry_def entry_key_def)

lemma sys_blind_unique [simp]: "sys_blind unique_entries"
  by (simp add: sys_blind_def cmd_blind_def unique_entries_def)

lemma distinct_drop_entry:
  "distinct (map entry_key xs) \<Longrightarrow> distinct (map entry_key (drop_entry iface ip xs))"
  by (simp add: drop_entry_def distinct_map_filter)

lemma map_key_refresh [simp]: "map entry_key (refresh_first p t xs) = map entry_key xs"
  by (induction xs) (auto simp: entry_key_def)

lemma keeps_on_os [keep_intros]: "cmd_blind P \<Longrightarrow> keeps P (on_os m)"
  by (auto simp: keeps_def on_os_def cmd_blind_os split: prod.splits)

lemma keeps_new_client [keep_intros]: "keeps P (new_client E burl)"
  unfolding new_client_def by (rule keeps_gets)

lemma keeps_post_logged [keep_intros]: "sys_blind P \<Longrightarrow> keeps P (post_logged E c url body token)"
  unfolding post_logged_def by (intro keep_intros) (auto simp: sys_blind_post)

lemma keeps_fetch [keep_intros]: "sys_blind P \<Longrightarrow> keeps P (fetch_latest_instruction E url token burl)"
  unfolding fetch_latest_instruction_def by (intro keep_intros) simp_all

lemma keeps_upload_direct [keep_intros]:
  "sys_blind P \<Longrightarrow> keeps P (upload_result_direct E url info token burl)"
  unfolding upload_result_direct_def by (intro keep_intros) simp_all

lemma keeps_upload_periodic [keep_intros]:
  "sys_blind P \<Longrightarrow> keeps P (upload_ip_jump_periodic_result E burl token ip)"
  unfolding upload_ip_jump_periodic_result_def by (intro keep_intros) simp_all

lemma keeps_run_ip_cmd [keep_intros]: "cmd_blind P \<Longrightarrow> keeps P (run_ip_cmd E args)"
  unfolding run_ip_cmd_def by (intro keep_intros)

lemma keeps_try_remove [keep_intros]:
  "cmd_blind P \<Longrightarrow> keeps P (try_remove_ip_from_system E iface ip plen)"
  unfolding try_remove_ip_from_system_def Let_def by (intro keep_intros)

lemma keeps_drop_entry:
  "keeps unique_entries (modify (\<lambda>s. s\<lparr>secondary_ips := drop_entry iface ip (secondary_ips s)\<rparr>))"
  by (intro keep_intros) (simp add: unique_entries_def distinct_drop_entry)

lemma unique_cleanup_old [keep_intros]: "keeps unique_entries (cleanup_old_secondary E keep_ip)"
  unfolding cleanup_old_secondary_def by (intro keep_intros keeps_drop_entry) simp_all

lemma unique_add [keep_intros]: "keeps unique_entries (add_secondary_ip E iface ip nm plen tick)"
proof (rule keepsI)
  fix s :: "'a jump_state" and r s'
  assume u: "unique_entries s"
    and run: "run_state (add_secondary_ip E iface ip nm plen tick) s = (r, s')"
  have k: "keeps unique_entries (map_err g (run_ip_cmd E args))" for g args
    by (intro keep_intros) simp
  have e: "keeps unique_entries (ip_exists_on_iface (je_sys E) iface ip)" for iface ip
    by (intro keep_intros) simp
  show "unique_entries s'"
  proof (cases "list_ex (same_entry iface ip) (secondary_ips s)")
    case True
    with run u show ?thesis by (auto simp: add_secondary_ip_def unique_entries_def)
  next
    case False
    then have new: "unique_entries (s\<lparr>secondary_ips := secondary_ips s @
          [\<lparr>si_interface = iface, si_ip = ip, si_netmask = nm, si_prefix_len = plen,
            si_added_tick = tick\<rparr>]\<rparr>)"
      using u by (auto simp: unique_entries_def list_ex_iff same_entry_iff entry_key_def)
    show ?thesis
      using run False
      by (auto simp: add_secondary_ip_def split: prod.splits if_splits
          intro: keepsD_run [OF e new] keepsD_run [OF k] simp del: run_map_err)
  qed
qed

lemma unique_remove [keep_intros]: "keeps unique_entries (remove_secondary_ip E iface ip)"
  unfolding remove_secondary_ip_def by (intro keep_intros keeps_drop_entry) simp_all

lemma unique_increment [keep_intros]: "keeps unique_entries increment_tick"
  unfolding increment_tick_def by (intro keep_intros) (simp add: unique_entries_def)

lemma unique_remove_expired [keep_intros]: "keeps unique_entries (remove_expired E xs b)"
proof (induction E xs b rule: remove_expired.induct)
  case (2 E iface ip plen rest b)
  then show ?case
    unfolding remove_expired.simps by (intro keep_intros keeps_drop_entry) simp_all
qed (auto intro: keep_intros)

lemma unique_periodic_cleanup [keep_intros]: "keeps unique_entries (do_periodic_cleanup E burl token)"
  unfolding do_periodic_cleanup_def Let_def
  by (intro keep_intros) (simp_all add: unique_entries_def sys_blind_def cmd_blind_def)

section \<open>Removing aged addresses\<close>

lemma cmd_blind_secondary [simp]: "sys_blind (\<lambda>s. secondary_ips s = l)"
  by (simp add: sys_blind_def cmd_blind_def)

lemma try_remove_secondary:
  "run_state (try_remove_ip_from_system E iface ip plen) s = (r, s') \<Longrightarrow>
     secondary_ips s' = secondary_ips s \<and> tick_counter s' = tick_counter s
     \<and> post_log s' = post_log s \<and> last_upload_failed s' = last_upload_failed s"
  by (rule keepsD_run [where P = "\<lambda>s'. secondary_ips s' = secondary_ips s \<and> tick_counter s' = tick_counter s
     \<and> post_log s' = post_log s \<and> last_upload_failed s' = last_upload_failed s", OF keeps_try_remove])
    (auto simp: cmd_blind_def)

lemma drop_entry_filter: "drop_entry iface ip xs = filter (\<lambda>x. entry_key x \<noteq> (iface, ip)) xs"
  by (simp add: drop_entry_def same_entry_iff)

lemma try_remove_grows:
  "run_state (try_remove_ip_from_system E iface ip plen) s = (r, s') \<Longrightarrow> prefix (cmd_log s) (cmd_log s')"
  by (rule keepsD_run [where P = "\<lambda>s'. prefix (cmd_log s) (cmd_log s')", OF keeps_try_remove]) simp_all

text \<open>Between \<open>s\<close> and \<open>s'\<close> the removal of an address was tried and failed.\<close>

definition failed_between ::
  "('c, 'p, 'w) jump_ext \<Rightarrow> string \<Rightarrow> string \<Rightarrow> u8 \<Rightarrow> 'w jump_state \<Rightarrow> 'w jump_state \<Rightarrow> bool" where
  "failed_between E iface ip plen s s' \<longleftrightarrow>
     (\<exists>s0 s1 e. run_state (try_remove_ip_from_system E iface ip plen) s0 = (Inl e, s1)
        \<and> prefix (cmd_log s) (cmd_log s0) \<and> prefix (cmd_log s1) (cmd_log s'))"

lemma failed_between_widen:
  "failed_between E iface ip plen s s' \<Longrightarrow> prefix (cmd_log r) (cmd_log s) \<Longrightarrow> prefix (cmd_log s') (cmd_log r')
     \<Longrightarrow> failed_between E iface ip plen r r'"
  unfolding failed_between_def by (meson prefix_order.trans)

text \<open>What a pass over the expired entries leaves: the entries whose key is not in the set of
  removed keys. A key that stays has a failed removal.\<close>

lemma remove_expired_run:
  assumes "run_state (remove_expired E xs b) s = (b', s')"
  shows "\<exists>R. R \<subseteq> (\<lambda>(i, a, p). (i, a)) ` set xs
     \<and> secondary_ips s' = filter (\<lambda>x. entry_key x \<notin> R) (secondary_ips s)
     \<and> (b' \<longleftrightarrow> b \<or> R \<noteq> {})
     \<and> (\<forall>(i, a, p) \<in> set xs. (i, a) \<notin> R \<longrightarrow> failed_between E i a p s s')
     \<and> tick_counter s' = tick_counter s \<and> post_log s' = post_log s
     \<and> last_upload_failed s' = last_upload_failed s \<and> prefix (cmd_log s) (cmd_log s')"
  using assms
proof (induction E xs b arbitrary: s rule: remove_expired.induct)
  case (1 E b)
  then show ?case by (intro exI [of _ "{}"]) auto
next
  case (2 E iface ip plen rest b)
  obtain r s1 where r: "run_state (try_remove_ip_from_system E iface ip plen) s = (r, s1)"
    by (meson surj_pair)
  note keep = try_remove_secondary [OF r] and grow = try_remove_grows [OF r]
  have widen: "failed_between E i a p s s'" if "failed_between E i a p s1 s'" for i a p
    using failed_between_widen [OF that grow] by simp
  show ?case
  proof (cases r)
    case (Inl e)
    with 2 r have "run_state (remove_expired E rest b) s1 = (b', s')" by simp
    from "2.IH"(1) [OF this] keep obtain R where
      "R \<subseteq> (\<lambda>(i, a, p). (i, a)) ` set rest"
      "secondary_ips s' = filter (\<lambda>x. entry_key x \<notin> R) (secondary_ips s)" "b' \<longleftrightarrow> b \<or> R \<noteq> {}"
      "\<forall>(i, a, p) \<in> set rest. (i, a) \<notin> R \<longrightarrow> failed_between E i a p s1 s'"
      "tick_counter s' = tick_counter s" "post_log s' = post_log s"
      "last_upload_failed s' = last_upload_failed s" "prefix (cmd_log s1) (cmd_log s')"
      by auto
    moreover from r Inl this(8) have "failed_between E iface ip plen s s'"
      unfolding failed_between_def by blast
    ultimately show ?thesis using prefix_order.trans [OF grow]
      by (intro exI [of _ R]) (auto intro: widen)
  next
    case (Inr u)
    with 2 r have "run_state (remove_expired E rest True)
        (s1\<lparr>secondary_ips := drop_entry iface ip (secondary_ips s1)\<rparr>) = (b', s')" by simp
    from "2.IH"(2) [OF this] keep obtain R where
      R: "R \<subseteq> (\<lambda>(i, a, p). (i, a)) ` set rest"
      "secondary_ips s' = filter (\<lambda>x. entry_key x \<notin> R) (drop_entry iface ip (secondary_ips s))"
      "b' \<longleftrightarrow> True" "\<forall>(i, a, p) \<in> set rest. (i, a) \<notin> R \<longrightarrow> failed_between E i a p s1 s'"
      "tick_counter s' = tick_counter s" "post_log s' = post_log s"
      "last_upload_failed s' = last_upload_failed s" "prefix (cmd_log s1) (cmd_log s')"
      by (auto simp: failed_between_def)
    then show ?thesis using prefix_order.trans [OF grow]
      by (intro exI [of _ "insert (iface, ip) R"])
        (auto simp: drop_entry_filter conj_commute intro!: filter_cong intro: widen)
  qed
qed

lemma upload_periodic_log:
  assumes "run_state (upload_ip_jump_periodic_result E burl token ip) s = (r, s')"
  shows "secondary_ips s' = secondary_ips s \<and> tick_counter s' = tick_counter s
    \<and> last_upload_failed s' = last_upload_failed s
    \<and> (post_log s' = post_log s \<and> (\<exists>e. r = Inl e)
       \<or> post_log s' = post_log s @ [(burl @ ''/v1/uploadIp'', build_upload_agent_ip_json E ip)])"
  using assms
  by (auto simp: upload_ip_jump_periodic_result_def new_client_def post_logged_def on_os_def
      split: prod.splits sum.splits)

lemma get_local_ips_all_frame:
  assumes "run_state (get_local_ips_all X) (s :: 'w jump_state) = (r, s')"
  shows "secondary_ips s' = secondary_ips s \<and> tick_counter s' = tick_counter s
    \<and> post_log s' = post_log s \<and> last_upload_failed s' = last_upload_failed s"
  by (rule keepsD_run [OF keeps_get_local_ips_all _ assms, where P = "\<lambda>s'. secondary_ips s' = secondary_ips s
     \<and> tick_counter s' = tick_counter s \<and> post_log s' = post_log s \<and> last_upload_failed s' = last_upload_failed s"])
    (auto simp: cmd_blind_def)

text \<open>The whole pass, opened up once: the removal of the entries aged at the new tick, then the
  report to the server.\<close>

lemma periodic_cleanup_run:
  assumes run: "run_state (do_periodic_cleanup E burl token) s = (u, s')"
  shows "\<exists>R. R \<subseteq> entry_key ` {x \<in> set (secondary_ips s). is_aged (tick_counter s + 1) x}
     \<and> secondary_ips s' = filter (\<lambda>x. entry_key x \<notin> R) (secondary_ips s)
     \<and> (\<forall>x \<in> set (secondary_ips s). is_aged (tick_counter s + 1) x \<longrightarrow> entry_key x \<notin> R \<longrightarrow>
          failed_between E (si_interface x) (si_ip x) (si_prefix_len x) s s')
     \<and> tick_counter s' = tick_counter s + 1
     \<and> (R = {} \<and> \<not> last_upload_failed s \<longrightarrow> post_log s' = post_log s \<and> \<not> last_upload_failed s')
     \<and> (last_upload_failed s' = last_upload_failed s \<and> post_log s' = post_log s
        \<or> last_upload_failed s' \<and> post_log s' = post_log s
        \<or> (\<exists>body. post_log s' = post_log s @ [(burl @ ''/v1/uploadIp'', body)]))"
proof -
  let ?t = "tick_counter s + 1"
  let ?s0 = "s\<lparr>tick_counter := ?t\<rparr>"
  let ?xs = "map (\<lambda>i. (si_interface i, si_ip i, si_prefix_len i)) (filter (is_aged ?t) (secondary_ips s))"
  obtain b s1 where e: "run_state (remove_expired E ?xs False) ?s0 = (b, s1)" by (meson surj_pair)
  from remove_expired_run [OF e] obtain R where R:
    "R \<subseteq> (\<lambda>(i, a, p). (i, a)) ` set ?xs"
    "secondary_ips s1 = filter (\<lambda>x. entry_key x \<notin> R) (secondary_ips s)" "b \<longleftrightarrow> R \<noteq> {}"
    "\<forall>(i, a, p) \<in> set ?xs. (i, a) \<notin> R \<longrightarrow> failed_between E i a p ?s0 s1"
    "tick_counter s1 = ?t" "post_log s1 = post_log s" "last_upload_failed s1 = last_upload_failed s"
    by auto
  have Rsub: "R \<subseteq> entry_key ` {x \<in> set (secondary_ips s). is_aged ?t x}"
    using R(1) by (auto simp: entry_key_def image_iff)
  have fails: "\<forall>x \<in> set (secondary_ips s). is_aged ?t x \<longrightarrow> entry_key x \<notin> R \<longrightarrow>
          failed_between E (si_interface x) (si_ip x) (si_prefix_len x) s s1"
    using R(4) by (auto simp: entry_key_def failed_between_def)
  have late: "\<forall>x \<in> set (secondary_ips s). is_aged ?t x \<longrightarrow> entry_key x \<notin> R \<longrightarrow>
          failed_between E (si_interface x) (si_ip x) (si_prefix_len x) s s'"
    if "prefix (cmd_log s1) (cmd_log s')"
    using fails failed_between_widen [OF _ _ that, of E _ _ _ s s] by blast
  show ?thesis
  proof (cases "b \<or> last_upload_failed s")
    case False
    with run e R(7) have "s' = s1" by (simp add: do_periodic_cleanup_def increment_tick_def Let_def)
    with R False Rsub late show ?thesis by (intro exI [of _ R]) auto
  next
    case True
    obtain ips s2 where g: "run_state (get_local_ips_all (je_sys E)) s1 = (ips, s2)" by (meson surj_pair)
    note fr = get_local_ips_all_frame [OF g]
    have grow: "prefix (cmd_log s1) (cmd_log s2)"
      using keepsD_run [where P = "\<lambda>t. prefix (cmd_log s1) (cmd_log t)", OF keeps_get_local_ips_all _ g] by simp
    have up: "run_state (case ips of
         Some agent_ip \<Rightarrow> do {
           r \<leftarrow> upload_ip_jump_periodic_result E burl token agent_ip;
           modify (\<lambda>s. s\<lparr>last_upload_failed := (case r of Inr _ \<Rightarrow> False | Inl _ \<Rightarrow> True)\<rparr>)
         }
       | None \<Rightarrow> State_Monad.return ()) s2 = (u, s')"
      using run e R(7) True g by (simp add: do_periodic_cleanup_def increment_tick_def Let_def)
    show ?thesis
    proof (cases ips)
      case None
      with up have "s' = s2" by simp
      with R True Rsub late fr grow show ?thesis by (intro exI [of _ R]) auto
    next
      case (Some ip)
      obtain r s3 where r: "run_state (upload_ip_jump_periodic_result E burl token ip) s2 = (r, s3)"
        by (meson surj_pair)
      with up Some have s': "s' = s3\<lparr>last_upload_failed := (case r of Inr _ \<Rightarrow> False | Inl _ \<Rightarrow> True)\<rparr>"
        by simp
      have "prefix (cmd_log s2) (cmd_log s')" unfolding s'
        using keepsD_run [where P = "\<lambda>t. prefix (cmd_log s2) (cmd_log t)", OF keeps_upload_periodic _ r] by simp
      then show ?thesis using upload_periodic_log [OF r] fr R True Rsub late [OF prefix_order.trans [OF grow]]
        unfolding s' by (intro exI [of _ R]) (auto split: sum.splits)
    qed
  qed
qed

text \<open>A cleanup pass advances the tick and removes aged secondary addresses only. An entry
  that is younger than two ticks stays; an aged entry stays only when an attempt to remove its
  address from the system was made during the pass and failed.\<close>

theorem periodic_cleanup_removes_aged:
  assumes "unique_entries s" and "run_state (do_periodic_cleanup E burl token) s = (u, s')"
  shows "tick_counter s' = tick_counter s + 1
    \<and> set (secondary_ips s') \<subseteq> set (secondary_ips s)
    \<and> (\<forall>x \<in> set (secondary_ips s). \<not> is_aged (tick_counter s + 1) x \<longrightarrow> x \<in> set (secondary_ips s'))
    \<and> (\<forall>x \<in> set (secondary_ips s'). is_aged (tick_counter s + 1) x \<longrightarrow>
         failed_between E (si_interface x) (si_ip x) (si_prefix_len x) s s')"
proof -
  from periodic_cleanup_run [OF assms(2)] obtain R where R:
    "R \<subseteq> entry_key ` {x \<in> set (secondary_ips s). is_aged (tick_counter s + 1) x}"
    "secondary_ips s' = filter (\<lambda>x. entry_key x \<notin> R) (secondary_ips s)"
    "\<forall>x \<in> set (secondary_ips s). is_aged (tick_counter s + 1) x \<longrightarrow> entry_key x \<notin> R \<longrightarrow>
       failed_between E (si_interface x) (si_ip x) (si_prefix_len x) s s'"
    "tick_counter s' = tick_counter s + 1" by blast
  have inj: "inj_on entry_key (set (secondary_ips s))"
    using assms(1) by (simp add: unique_entries_def distinct_map)
  have "entry_key x \<notin> R" if "x \<in> set (secondary_ips s)" "\<not> is_aged (tick_counter s + 1) x" for x
    using that R(1) inj by (auto dest: inj_onD)
  with R show ?thesis by auto
qed

text \<open>The report of a cleanup pass. When nothing was removed and no earlier report failed,
  nothing is posted. The failure flag is cleared only by a pass that posts the addresses.\<close>

theorem periodic_cleanup_reports:
  assumes "run_state (do_periodic_cleanup E burl token) s = (u, s')"
  shows "(secondary_ips s' = secondary_ips s \<and> \<not> last_upload_failed s \<longrightarrow>
            post_log s' = post_log s \<and> \<not> last_upload_failed s')
    \<and> (last_upload_failed s \<and> \<not> last_upload_failed s' \<longrightarrow>
         (\<exists>body. post_log s' = post_log s @ [(burl @ ''/v1/uploadIp'', body)]))"
proof -
  from periodic_cleanup_run [OF assms] obtain R where R:
    "R \<subseteq> entry_key ` {x \<in> set (secondary_ips s). is_aged (tick_counter s + 1) x}"
    "secondary_ips s' = filter (\<lambda>x. entry_key x \<notin> R) (secondary_ips s)"
    "R = {} \<and> \<not> last_upload_failed s \<longrightarrow> post_log s' = post_log s \<and> \<not> last_upload_failed s'"
    "last_upload_failed s' = last_upload_failed s \<and> post_log s' = post_log s
        \<or> last_upload_failed s' \<and> post_log s' = post_log s
        \<or> (\<exists>body. post_log s' = post_log s @ [(burl @ ''/v1/uploadIp'', body)])" by blast
  have "R = {}" if eq: "secondary_ips s' = secondary_ips s"
  proof (rule ccontr)
    assume "R \<noteq> {}"
    then obtain k where "k \<in> R" by blast
    with R(1) obtain x where "x \<in> set (secondary_ips s)" "entry_key x \<in> R" by auto
    moreover from eq R(2) have "\<forall>x \<in> set (secondary_ips s). entry_key x \<notin> R"
      by (metis filter_id_conv)
    ultimately show False by blast
  qed
  with R(3,4) show ?thesis by blast
qed

lemma try_remove_evidence:
  assumes "run_state (try_remove_ip_from_system E iface ip plen) s = (Inr (), s')"
  shows "\<exists>s0. run_state (ip_exists_on_iface (je_sys E) iface ip) s0 = (False, s')"
  using assms unfolding try_remove_ip_from_system_def Let_def
  by (auto split: prod.splits if_splits sum.splits)

text \<open>A removal succeeds only on evidence: the last thing it did was to list the interface,
  and the listing did not contain the address (or the listing command failed).\<close>

theorem try_remove_success:
  assumes "run_state (try_remove_ip_from_system E iface ip plen) s = (Inr (), s')"
  shows "\<exists>s0. run_state (ip_exists_on_iface (je_sys E) iface ip) s0 = (False, s')"
  using assms by (rule try_remove_evidence)

text \<open>The presence test is a substring test. While the interface carries a longer address
  that begins with the one to remove (removing \<^verbatim>\<open>10.0.0.5\<close> while \<^verbatim>\<open>10.0.0.50\<close> is there), every
  removal is reported as failed, even when the deletion succeeded.\<close>

theorem longer_address_blocks_removal:
  assumes "\<forall>w. \<exists>out w'. x_output (je_sys E) ''ip'' [''-4'', ''addr'', ''show'', ''dev'', iface] w = (Inr out, w')
      \<and> po_success out \<and> str_contains (ip @ d) (po_stdout out)"
  shows "\<exists>e. fst (run_state (try_remove_ip_from_system E iface ip plen) s) = Inl e"
proof -
  have "\<exists>s'. run_state (ip_exists_on_iface (je_sys E) iface ip) s0 = (True, s')" for s0 :: "'a jump_state"
  proof -
    from assms obtain out w' where o: "x_output (je_sys E) ''ip'' [''-4'', ''addr'', ''show'', ''dev'', iface] (os s0) = (Inr out, w')"
        "po_success out" "str_contains (ip @ d) (po_stdout out)" by blast
    have "str_contains ip (po_stdout out)"
      using o(3) unfolding str_contains_iff_sublist by (meson sublist_append_rightI sublist_order.order_trans)
    with o show ?thesis by (simp add: ip_exists_on_iface_def run_cmd_capture_def exec_output_def)
  qed
  then have n: "run_state (ip_exists_on_iface (je_sys E) iface ip) s0 \<noteq> (False, s')"
    for s0 s' :: "'a jump_state" by (metis prod.inject)
  obtain r s' where r: "run_state (try_remove_ip_from_system E iface ip plen) s = (r, s')" by (rule prod.exhaust)
  have "r \<noteq> Inr ()" using try_remove_evidence [of E iface ip plen s s'] r n by blast
  with r show ?thesis by (cases r) auto
qed

section \<open>A concrete system\<close>

text \<open>A small instance of the parameters, on which the theorems are exercised: the world is the
  list of addresses of \<^verbatim>\<open>eth0\<close> in CIDR form; \<^verbatim>\<open>ip\<close> lists, adds and deletes them; the server
  accepts every request.\<close>

definition lab_listing :: "string list \<Rightarrow> string" where
  "lab_listing w = concat (map (\<lambda>a. ''2: eth0 inet '' @ a @ [nl]) w)"

definition lab_ip :: "string list \<Rightarrow> string list \<Rightarrow> bool \<times> string \<times> string list" where
  "lab_ip args w =
     (case args of
        a # d # x # _ \<Rightarrow>
          if a = ''addr'' \<and> d = ''del'' then (x \<in> set w, [], filter (\<lambda>y. y \<noteq> x) w)
          else if a = ''addr'' \<and> d = ''add'' then (True, [], w @ [x])
          else (True, lab_listing w, w)
      | _ \<Rightarrow> (True, lab_listing w, w))"

definition lab_captures :: "string \<Rightarrow> string \<Rightarrow> string list option" where
  "lab_captures re line =
     (case split_whitespace line of
        [n, iface, k, cidr] \<Rightarrow>
          (case split_once (CHR ''/'') cidr of
             Some (ip, plen) \<Rightarrow> Some [line, iface, ip, plen]
           | None \<Rightarrow> None)
      | _ \<Rightarrow> None)"

definition lab_ipv4net :: "string \<Rightarrow> (ipv4 \<times> u8) res" where
  "lab_ipv4net s =
     (case split_once (CHR ''/'') s of
        Some (ip, plen) \<Rightarrow>
          (case (parse_ipv4 ip, parse_u8 plen) of
             (Some a, Some p) \<Rightarrow> Inr (a, p)
           | _ \<Rightarrow> Inl ''invalid IP address syntax'')
      | None \<Rightarrow> Inl ''invalid IP address syntax'')"

definition lab_sys :: "string list sys_ext" where
  "lab_sys =
     \<lparr>x_output = (\<lambda>cmd args w. case lab_ip args w of
         (ok, out, w') \<Rightarrow> (Inr \<lparr>po_success = ok, po_stdout = out, po_stderr = ''no such address''\<rparr>, w')),
      x_status = (\<lambda>cmd args w. case lab_ip args w of
         (ok, out, w') \<Rightarrow> (Inr \<lparr>ps_success = ok, ps_display = ''exit status: 2''\<rparr>, w')),
      x_captures = lab_captures,
      x_ipv4net = lab_ipv4net,
      x_net_contains = (\<lambda>(a, p) b. a = b),
      x_read_file = (\<lambda>path w. Inl ''not found'')\<rparr>"

definition lab_http :: "(unit, unit, string list) http_ext" where
  "lab_http =
     \<lparr>x_env_var = (\<lambda>v w. Inl ''environment variable not found''),
      x_proxy_http = (\<lambda>u. Inr ()),
      x_build = (\<lambda>b. Inr ()),
      x_send = (\<lambda>c rq w. (Inr \<lparr>st_success = True, st_client_error = False, st_display = ''200 OK'',
          rs_text = Inr ''{}'', rs_bytes = Inr ''{}''\<rparr>, w)),
      x_url_parse = (\<lambda>u. Inl ''relative URL without a base''),
      x_lookup_host = (\<lambda>h w. (Inr [], w))\<rparr>"

definition lab_ext :: "(unit, unit, string list) jump_ext" where
  "lab_ext =
     \<lparr>je_sys = lab_sys, je_http = lab_http, je_json_print = (\<lambda>j. ''{}''),
      je_json_parse = (\<lambda>s. Inl ''EOF while parsing''), je_is_dir = (\<lambda>p w. False),
      je_read_dir = (\<lambda>p w. Inl ''not found''), je_write = (\<lambda>p c w. (Inr (), w)),
      je_replace = (\<lambda>re hay r. hay), je_is_match = (\<lambda>re hay. False)\<rparr>"

definition lab_entry :: secondary_ip_info where
  "lab_entry = \<lparr>si_interface = ''eth0'', si_ip = ''10.0.0.5'', si_netmask = ''255.255.255.0'',
     si_prefix_len = 24, si_added_tick = 0\<rparr>"

definition lab_state :: "string list jump_state" where
  "lab_state = (jump_manager_new [''10.0.0.5/24'', ''10.0.0.9/24''] ''eth0'')
     \<lparr>secondary_ips := [lab_entry], tick_counter := 1\<rparr>"

lemma net_client_lab: "net_client_new lab_http b d w = Inr \<lparr>client = (), base_url = b\<rparr>"
  by (simp add: net_client_new_def lab_http_def)

text \<open>On the concrete system: the address recorded at tick 0 is aged at tick 2 and removed, and
  the removal is reported.\<close>

lemma lab_cleanup_run:
  "let s' = snd (run_state (do_periodic_cleanup lab_ext ''u'' None) lab_state)
   in secondary_ips s' = [] \<and> os s' = [''10.0.0.9/24''] \<and> post_log s' = [(''u/v1/uploadIp'', ''{}'')]
      \<and> \<not> last_upload_failed s' \<and> tick_counter s' = 2"
  by code_simp

theorem periodic_cleanup_removes_aged_witness:
  "unique_entries lab_state
   \<and> tick_counter (snd (run_state (do_periodic_cleanup lab_ext ''u'' None) lab_state)) = tick_counter lab_state + 1
   \<and> is_aged (tick_counter lab_state + 1) lab_entry
   \<and> secondary_ips (snd (run_state (do_periodic_cleanup lab_ext ''u'' None) lab_state)) = []"
proof -
  have u: "unique_entries lab_state" by (simp add: unique_entries_def lab_state_def)
  have a: "is_aged (tick_counter lab_state + 1) lab_entry" by code_simp
  show ?thesis
    using u a lab_cleanup_run
      periodic_cleanup_removes_aged [OF u prod.collapse [symmetric], of lab_ext "''u''" None]
    by (simp add: Let_def)
qed

theorem periodic_cleanup_reports_witness:
  "\<exists>body. post_log (snd (run_state (do_periodic_cleanup lab_ext ''u'' None)
       (lab_state\<lparr>secondary_ips := [], last_upload_failed := True\<rparr>))) = [(''u/v1/uploadIp'', body)]"
proof -
  let ?s = "lab_state\<lparr>secondary_ips := [], last_upload_failed := True\<rparr>"
  have f: "\<not> last_upload_failed (snd (run_state (do_periodic_cleanup lab_ext ''u'' None) ?s))"
    by code_simp
  show ?thesis
    using periodic_cleanup_reports [OF prod.collapse [symmetric], of lab_ext "''u''" None ?s] f
    by (auto simp: lab_state_def jump_manager_new_def)
qed

theorem try_remove_success_witness:
  "\<exists>s0 :: string list jump_state. fst (run_state (ip_exists_on_iface (je_sys lab_ext) ''eth0'' ''10.0.0.5'') s0) = False
     \<and> os (snd (run_state (ip_exists_on_iface (je_sys lab_ext) ''eth0'' ''10.0.0.5'') s0)) = [''10.0.0.9/24'']"
proof -
  let ?r = "run_state (try_remove_ip_from_system lab_ext ''eth0'' ''10.0.0.5'' 24) lab_state"
  have f: "fst ?r = Inr ()" and w: "os (snd ?r) = [''10.0.0.9/24'']" by code_simp+
  have "?r = (Inr (), snd ?r)" by (rule prod_eqI) (simp_all only: f fst_conv snd_conv)
  from try_remove_success [OF this] obtain s0 where
    s0: "run_state (ip_exists_on_iface (je_sys lab_ext) ''eth0'' ''10.0.0.5'') s0 = (False, snd ?r)" by blast
  show ?thesis by (rule exI [of _ s0]) (simp only: s0 w fst_conv snd_conv simp_thms)
qed

theorem longer_address_blocks_removal_witness:
  "\<exists>e. fst (run_state (try_remove_ip_from_system
       (lab_ext\<lparr>je_sys := lab_sys\<lparr>x_output := (\<lambda>cmd args w.
          (Inr \<lparr>po_success = True, po_stdout = ''inet 10.0.0.50/24'', po_stderr = []\<rparr>, w))\<rparr>\<rparr>)
       ''eth0'' ''10.0.0.5'' 24) lab_state) = Inl e"
proof -
  have "str_contains (''10.0.0.5'' @ ''0'') ''inet 10.0.0.50/24''" by code_simp
  then show ?thesis by (intro longer_address_blocks_removal [where d = "''0''"]) simp
qed

end
