(* ===== verification/Ip_Jump.thy ===== *)
theory Ip_Jump
  imports Ip_Manager
begin

text \<open>
  The jump itself and the daemon that drives it, the rest of
  \<^verbatim>\<open>crates/rules_jump_mgr/src/ip_manager.rs\<close>: reading the primary address, backing an interface
  up and restoring it, replacing the address, making it persistent through netplan or
  NetworkManager, executing an instruction, the periodic loop and the daemon's main loop.
\<close>

section \<open>Reading addresses\<close>

definition re_addr :: string where
  "re_addr = ''^'' @ [CHR 0x5C] @ ''d+:'' @ [CHR 0x5C] @ ''s+([^:'' @ [CHR 0x5C] @ ''s]+)'' @ [CHR 0x5C] @ ''s+inet''
     @ [CHR 0x5C] @ ''s+('' @ [CHR 0x5C] @ ''d+'' @ [CHR 0x5C] @ ''.'' @ [CHR 0x5C] @ ''d+'' @ [CHR 0x5C] @ ''.''
     @ [CHR 0x5C] @ ''d+'' @ [CHR 0x5C] @ ''.'' @ [CHR 0x5C] @ ''d+)/('' @ [CHR 0x5C] @ ''d+)''"

definition re_addr_secondary :: string where
  "re_addr_secondary = re_addr @ ''(?:'' @ [CHR 0x5C] @ ''s+secondary)?''"

definition re_addr_noif :: string where
  "re_addr_noif = ''^'' @ [CHR 0x5C] @ ''d+:'' @ [CHR 0x5C] @ ''s+[^:'' @ [CHR 0x5C] @ ''s]+'' @ [CHR 0x5C] @ ''s+inet''
     @ [CHR 0x5C] @ ''s+('' @ [CHR 0x5C] @ ''d+'' @ [CHR 0x5C] @ ''.'' @ [CHR 0x5C] @ ''d+'' @ [CHR 0x5C] @ ''.''
     @ [CHR 0x5C] @ ''d+'' @ [CHR 0x5C] @ ''.'' @ [CHR 0x5C] @ ''d+)/('' @ [CHR 0x5C] @ ''d+)''"

definition show_dev :: "string \<Rightarrow> string list" where
  "show_dev iface = [''-o'', ''-4'', ''addr'', ''show'', ''dev'', iface]"

text \<open>The scan of \<^verbatim>\<open>get_primary_ip\<close>: the primary address so far, whether the source address was
  seen, whether it is a secondary one.\<close>

fun scan_primary ::
  "(string \<Rightarrow> string list option) \<Rightarrow> string \<Rightarrow> string list
     \<Rightarrow> string option \<times> bool \<times> bool \<Rightarrow> string option \<times> bool \<times> bool" where
  "scan_primary cap source_ip [] acc = acc"
| "scan_primary cap source_ip (line # ls) (primary, found, sec) =
     (case cap line of
        None \<Rightarrow> scan_primary cap source_ip ls (primary, found, sec)
      | Some g \<Rightarrow>
          let addr = g ! 2;
              is_secondary = str_contains ''secondary'' line;
              hit = (addr = source_ip);
              found' = (found \<or> hit);
              sec' = (sec \<or> hit \<and> is_secondary);
              p1 = (if hit \<and> \<not> is_secondary then Some addr else primary);
              p2 = (if \<not> is_secondary \<and> p1 = None then Some addr else p1)
          in scan_primary cap source_ip ls (p2, found', sec'))"

definition choose_primary ::
  "string \<Rightarrow> string \<Rightarrow> string option \<times> bool \<times> bool \<Rightarrow> (string \<times> string) res" where
  "choose_primary iface source_ip acc =
     (case acc of (primary, found, sec) \<Rightarrow>
        if found \<and> \<not> sec then Inr (source_ip, iface)
        else (case primary of
                Some p \<Rightarrow> Inr (p, iface)
              | None \<Rightarrow> Inl (''No primary IP found on interface '' @ iface)))"

definition get_primary_ip ::
  "('c, 'p, 'w) jump_ext \<Rightarrow> string \<Rightarrow> ('w jump_state, (string \<times> string) res) state" where
  "get_primary_ip E source_ip = do {
     iface \<leftarrow> gets main_interface;
     tryE (map_err (\<lambda>e. ''ip addr show dev '' @ iface @ '' failed: '' @ e)
             (run_cmd_capture (je_sys E) ''ip'' (show_dev iface))) (\<lambda>out.
     State_Monad.return
       (choose_primary iface source_ip
          (scan_primary (x_captures (je_sys E) re_addr_secondary) source_ip (str_lines out)
             (None, False, False))))
   }"

fun first_primary :: "(string \<Rightarrow> string list option) \<Rightarrow> string list \<Rightarrow> string option" where
  "first_primary cap [] = None"
| "first_primary cap (line # ls) =
     (case cap line of
        Some g \<Rightarrow> if \<not> str_contains ''secondary'' line then Some (g ! 1) else first_primary cap ls
      | None \<Rightarrow> first_primary cap ls)"

definition get_primary_ip_of_main_interface ::
  "('c, 'p, 'w) jump_ext \<Rightarrow> ('w jump_state, string res) state" where
  "get_primary_ip_of_main_interface E = do {
     iface \<leftarrow> gets main_interface;
     tryE (map_err (\<lambda>e. ''ip addr show failed: '' @ e)
             (run_cmd_capture (je_sys E) ''ip'' (show_dev iface))) (\<lambda>out.
     State_Monad.return
       (case first_primary (x_captures (je_sys E) re_addr_noif) (str_lines out) of
          Some a \<Rightarrow> Inr a
        | None \<Rightarrow> Inl (''No primary IP found on interface '' @ iface)))
   }"

fun first_default :: "string list \<Rightarrow> string option" where
  "first_default [] = None"
| "first_default (line # ls) =
     (let cols = split_whitespace line in
      if 3 \<le> length cols \<and> cols ! 0 = ''default'' \<and> cols ! 1 = ''via'' then Some (cols ! 2)
      else first_default ls)"

definition get_default_gateway :: "('c, 'p, 'w) jump_ext \<Rightarrow> ('w jump_state, string res) state" where
  "get_default_gateway E =
     tryE (run_cmd_capture (je_sys E) ''ip'' [''route'', ''show'', ''default'']) (\<lambda>out.
     State_Monad.return
       (case first_default (str_lines out) of
          Some g \<Rightarrow> Inr g
        | None \<Rightarrow> Inl ''no default gateway''))"

text \<open>The first line of the listing whose address is \<^verbatim>\<open>ip\<close>: its interface and prefix, with 24
  where the prefix does not fit a byte.\<close>

fun find_addr ::
  "(string \<Rightarrow> string list option) \<Rightarrow> string \<Rightarrow> string list \<Rightarrow> (string \<times> string \<times> u8) option" where
  "find_addr cap ip [] = None"
| "find_addr cap ip (line # ls) =
     (case cap line of
        Some g \<Rightarrow>
          if g ! 2 = ip then Some (g ! 1, g ! 2, opt_or 24 (parse_u8 (g ! 3)))
          else find_addr cap ip ls
      | None \<Rightarrow> find_addr cap ip ls)"

definition backup_interface ::
  "('c, 'p, 'w) jump_ext \<Rightarrow> string \<Rightarrow> ('w jump_state, network_backup res) state" where
  "backup_interface E ip =
     tryE (map_err (\<lambda>e. ''ip addr show failed: '' @ e)
             (run_cmd_capture (je_sys E) ''ip'' [''-o'', ''-4'', ''addr'', ''show''])) (\<lambda>out.
     case find_addr (x_captures (je_sys E) re_addr) ip (str_lines out) of
       None \<Rightarrow> State_Monad.return (Inl (''interface for ip '' @ ip @ '' not found''))
     | Some (iface, addr, plen) \<Rightarrow>
         (case prefix_to_netmask plen of
            Inl e \<Rightarrow> State_Monad.return (Inl e)
          | Inr netmask \<Rightarrow> do {
              gw \<leftarrow> get_default_gateway E;
              State_Monad.return (Inr
                \<lparr>nb_ip = addr, nb_netmask = netmask,
                 nb_gateway = (case gw of Inr g \<Rightarrow> Some g | Inl _ \<Rightarrow> None), nb_interface = iface\<rparr>)
            }))"

section \<open>Changing addresses\<close>

definition set_gateway ::
  "('c, 'p, 'w) jump_ext \<Rightarrow> string \<Rightarrow> string \<Rightarrow> ('w jump_state, unit res) state" where
  "set_gateway E gateway iface = do {
     _ \<leftarrow> run_cmd_status (je_sys E) ''ip'' [''route'', ''del'', ''default'', ''dev'', iface];
     map_err (\<lambda>e. ''set_gateway failed: '' @ e)
       (run_cmd_status (je_sys E) ''ip''
          [''route'', ''add'', ''default'', ''via'', gateway, ''dev'', iface])
   }"

definition restore_backup ::
  "('c, 'p, 'w) jump_ext \<Rightarrow> network_backup \<Rightarrow> ('w jump_state, unit res) state" where
  "restore_backup E backup =
     (case netmask_to_prefix (nb_netmask backup) of
        Inl e \<Rightarrow> State_Monad.return (Inl e)
      | Inr plen \<Rightarrow> do {
          _ \<leftarrow> run_ip_cmd E [''addr'', ''add'', nb_ip backup @ ''/'' @ show_word plen, ''dev'', nb_interface backup];
          (case nb_gateway backup of
             None \<Rightarrow> State_Monad.return ()
           | Some gw \<Rightarrow> do { _ \<leftarrow> set_gateway E gw (nb_interface backup); State_Monad.return () });
          State_Monad.return (Inr ())
        })"

definition find_iface_for_gateway ::
  "('c, 'p, 'w) jump_ext \<Rightarrow> string \<Rightarrow> ('w jump_state, string option) state" where
  "find_iface_for_gateway E gateway = do {
     r \<leftarrow> run_cmd_capture (je_sys E) ''ip'' [''-o'', ''-4'', ''addr'', ''show''];
     State_Monad.return
       (case r of
          Inl _ \<Rightarrow> None
        | Inr out \<Rightarrow>
            (case find (\<lambda>line. let ps = split_whitespace line in
                   1 < length ps \<and> 3 < length ps \<and>
                   (case (x_ipv4net (je_sys E) (ps ! 3), parse_ipv4 gateway) of
                      (Inr net, Some gw) \<Rightarrow> x_net_contains (je_sys E) net gw
                    | _ \<Rightarrow> False)) (str_lines out) of
               None \<Rightarrow> None
             | Some line \<Rightarrow> Some (split_whitespace line ! 1)))
   }"

text \<open>The commands of one jump once the backup is taken: delete the source address, add the
  target, remember the source as a secondary address, set the gateway. Every failure restores
  the backup. The report is filled only when every step has succeeded.\<close>

definition switch_address ::
  "('c, 'p, 'w) jump_ext \<Rightarrow> ip_jump_config \<Rightarrow> network_backup \<Rightarrow> u8 \<Rightarrow> string \<Rightarrow> u8 \<Rightarrow> put_ip_jump_info
     \<Rightarrow> ('w jump_state, put_ip_jump_info res) state" where
  "switch_address E config backup src_prefix target_ip target_prefix info = do {
     r \<leftarrow> run_ip_cmd E [''addr'', ''del'', cf_source_ip config @ ''/'' @ show_word src_prefix, ''dev'', nb_interface backup];
     case r of
       Inl e \<Rightarrow> do {
         _ \<leftarrow> restore_backup E backup;
         State_Monad.return (Inl (''addr del failed: '' @ e)) }
     | Inr _ \<Rightarrow> do {
         r \<leftarrow> run_ip_cmd E [''addr'', ''add'', target_ip @ ''/'' @ show_word target_prefix, ''dev'', nb_interface backup];
         case r of
           Inl e \<Rightarrow> do {
             _ \<leftarrow> restore_backup E backup;
             State_Monad.return (Inl (''addr add failed: '' @ e)) }
         | Inr _ \<Rightarrow> do {
             tick \<leftarrow> increment_tick;
             _ \<leftarrow> add_secondary_ip E (nb_interface backup) (cf_source_ip config) (nb_netmask backup) src_prefix tick;
             gwr \<leftarrow> (if trim (cf_gateway config) \<noteq> []
                    then set_gateway E (cf_gateway config) (nb_interface backup)
                    else State_Monad.return (Inr ()));
             case gwr of
               Inl e \<Rightarrow> do {
                 _ \<leftarrow> restore_backup E backup;
                 State_Monad.return (Inl (''set gateway failed: '' @ e)) }
             | Inr _ \<Rightarrow> do {
                 agent_ips \<leftarrow> get_local_ips_exclude (je_sys E) (cf_source_ip config);
                 State_Monad.return (Inr (info
                   \<lparr>pi_source_ip := cf_source_ip config, pi_target_ip := cf_target_ip config,
                    pi_gateway := cf_gateway config, pi_agent_ip := join '','' agent_ips,
                    pi_status := 1, pi_reason := ''IP jump completed''\<rparr>))
               }
           }
       }
   }"

definition do_ip_jump_async ::
  "('c, 'p, 'w) jump_ext \<Rightarrow> ip_jump_config \<Rightarrow> put_ip_jump_info
     \<Rightarrow> ('w jump_state, put_ip_jump_info res) state" where
  "do_ip_jump_async E config0 info =
     tryE (get_primary_ip E (cf_source_ip config0)) (\<lambda>(source_ip, _). do {
     let config = config0\<lparr>cf_source_ip := source_ip\<rparr>;
     cleanup_old_secondary E (cf_source_ip config);
     tryE (backup_interface E (cf_source_ip config)) (\<lambda>backup.
     tryE (State_Monad.return (netmask_to_prefix (nb_netmask backup))) (\<lambda>src_prefix.
     tryE (State_Monad.return (parse_cidr (je_sys E) (cf_target_ip config))) (\<lambda>(target_ip, target_prefix).
       switch_address E config backup src_prefix target_ip target_prefix info)))
   })"

section \<open>Making the address persistent\<close>

text \<open>\<^verbatim>\<open>Path::extension\<close>: what follows the last dot of the file name, unless the name only
  begins with that dot.\<close>

definition path_extension :: "string \<Rightarrow> string option" where
  "path_extension path =
     (let name = last (split_char (CHR ''/'') path);
          ps = split_char (CHR ''.'') name
      in if name = ''..'' \<or> length ps < 2 \<or> (length ps = 2 \<and> hd ps = []) then None
         else Some (last ps))"

definition is_yaml :: "string \<Rightarrow> bool" where
  "is_yaml path \<longleftrightarrow> path_extension path \<in> {Some ''yaml'', Some ''yml''}"

definition is_netplan_system :: "('c, 'p, 'w) jump_ext \<Rightarrow> ('w jump_state, bool) state" where
  "is_netplan_system E = gets (\<lambda>s.
     if \<not> je_is_dir E ''/etc/netplan'' (os s) then False
     else (case je_read_dir E ''/etc/netplan'' (os s) of
             Inl _ \<Rightarrow> False
           | Inr entries \<Rightarrow>
               list_ex (\<lambda>e. case e of Inr p \<Rightarrow> is_yaml p | Inl _ \<Rightarrow> False)
                 (takeWhile (\<lambda>e. case e of Inr _ \<Rightarrow> True | Inl _ \<Rightarrow> False) entries)))"

definition has_nmcli :: "('c, 'p, 'w) jump_ext \<Rightarrow> ('w jump_state, bool) state" where
  "has_nmcli E = do {
     r \<leftarrow> run_cmd_status (je_sys E) ''which'' [''nmcli''];
     State_Monad.return (case r of Inr _ \<Rightarrow> True | Inl _ \<Rightarrow> False)
   }"

text \<open>The shift amount is a byte that wraps below zero, and the profiles compile without overflow
  checks, so a shift uses its low five bits.\<close>

definition same_subnet :: "ipv4 \<Rightarrow> ipv4 \<Rightarrow> u8 \<Rightarrow> bool" where
  "same_subnet a b p =
     (if p = 0 then False
      else let msk = push_bit (unat (32 - p) mod 32) (- 1) :: u32
           in ipv4_to_u32 a AND msk = ipv4_to_u32 b AND msk)"

datatype addr_entry = V4 ipv4 u8 | Other string

text \<open>One item of the \<^verbatim>\<open>addresses: [...]\<close> list.\<close>

definition parse_entry :: "string \<Rightarrow> addr_entry" where
  "parse_entry item0 =
     (let item = trim item0 in
      case split_once (CHR ''/'') item of
        Some (ip_str, pre_str) \<Rightarrow>
          (case parse_ipv4 ip_str of
             Some v4 \<Rightarrow> V4 v4 (opt_or 24 (parse_u8 pre_str))
           | None \<Rightarrow> Other item)
      | None \<Rightarrow> Other item)"

text \<open>The choice of the entry to replace: the last one with the source address, else the first
  one in its subnet. \<open>i\<close> is the position of the next entry.\<close>

fun choose_entry :: "ipv4 \<Rightarrow> nat \<Rightarrow> nat option \<Rightarrow> addr_entry list \<Rightarrow> nat option" where
  "choose_entry src i chosen [] = chosen"
| "choose_entry src i chosen (V4 ip p # es) =
     choose_entry src (Suc i)
       (if ip = src then Some i
        else if chosen = None \<and> same_subnet ip src p then Some i
        else chosen) es"
| "choose_entry src i chosen (Other s # es) = choose_entry src (Suc i) chosen es"

definition update_entries :: "ipv4 \<Rightarrow> ipv4 \<Rightarrow> addr_entry list \<Rightarrow> addr_entry list" where
  "update_entries src primary entries =
     (case choose_entry src 0 None entries of
        Some i \<Rightarrow> (case entries ! i of V4 _ p \<Rightarrow> entries[i := V4 primary p] | Other _ \<Rightarrow> entries)
      | None \<Rightarrow> entries @ [V4 primary 24])"

fun show_entry :: "addr_entry \<Rightarrow> string" where
  "show_entry (V4 ip p) = show_ipv4 ip @ ''/'' @ show_word p"
| "show_entry (Other s) = s"

definition re_addresses :: string where
  "re_addresses = ''addresses:'' @ [CHR 0x5C] @ ''s*'' @ [CHR 0x5C] @ ''[([^'' @ [CHR 0x5C] @ '']]*)'' @ [CHR 0x5C] @ '']''"

definition re_gateway4 :: string where
  "re_gateway4 = ''(?m)^'' @ [CHR 0x5C] @ ''s*gateway4:'' @ [CHR 0x5C] @ ''s*.+$''"

text \<open>The new text of the netplan file.\<close>

definition netplan_rewrite ::
  "('c, 'p, 'w) jump_ext \<Rightarrow> ipv4 \<Rightarrow> ipv4 \<Rightarrow> string option \<Rightarrow> string \<Rightarrow> string res" where
  "netplan_rewrite E source_v4 primary_v4 gw content0 =
     (case x_captures (je_sys E) re_addresses content0 of
        None \<Rightarrow> Inl ''addresses field not found''
      | Some g \<Rightarrow>
          let entries = map parse_entry (split_char (CHR 0x2C) (g ! 1));
              new_addr_list = join '', '' (map show_entry (update_entries source_v4 primary_v4 entries));
              content1 = je_replace E re_addresses content0 (''addresses: ['' @ new_addr_list @ '']'')
          in Inr (case gw of
                    None \<Rightarrow> content1
                  | Some gw \<Rightarrow>
                      if je_is_match E re_gateway4 content1
                      then je_replace E re_gateway4 content1 (''      gateway4: '' @ gw)
                      else content1))"

fun find_netplan_file ::
  "(string \<Rightarrow> string res) \<Rightarrow> string \<Rightarrow> string res list \<Rightarrow> string option res" where
  "find_netplan_file rd iface [] = Inr None"
| "find_netplan_file rd iface (Inl e # es) = Inl e"
| "find_netplan_file rd iface (Inr path # es) =
     (if \<not> is_yaml path then find_netplan_file rd iface es
      else (case rd path of
              Inl e \<Rightarrow> Inl (''read '' @ debug_str path @ '' failed: '' @ e)
            | Inr content \<Rightarrow>
                if str_contains (iface @ '':'') content then Inr (Some path)
                else find_netplan_file rd iface es))"

definition write_file ::
  "('c, 'p, 'w) jump_ext \<Rightarrow> string \<Rightarrow> string \<Rightarrow> ('w jump_state, unit res) state" where
  "write_file E path content = on_os (State (je_write E path content))"

definition netplan_update_primary_ip ::
  "('c, 'p, 'w) jump_ext \<Rightarrow> string \<Rightarrow> string \<Rightarrow> string \<Rightarrow> string option \<Rightarrow> ('w jump_state, unit res) state" where
  "netplan_update_primary_ip E iface source_ip primary_ip gw =
     (case parse_ipv4 source_ip of
        None \<Rightarrow> State_Monad.return (Inl (''invalid source_ip '' @ source_ip))
      | Some source_v4 \<Rightarrow>
     (case parse_ipv4 primary_ip of
        None \<Rightarrow> State_Monad.return (Inl (''invalid primary_ip '' @ primary_ip))
      | Some primary_v4 \<Rightarrow> do {
     w \<leftarrow> gets os;
     if \<not> je_is_dir E ''/etc/netplan'' w then State_Monad.return (Inl ''not a netplan system'')
     else
     (case je_read_dir E ''/etc/netplan'' w of
        Inl e \<Rightarrow> State_Monad.return (Inl (''read /etc/netplan failed: '' @ e))
      | Inr entries \<Rightarrow>
     (case find_netplan_file (\<lambda>p. x_read_file (je_sys E) p w) iface entries of
        Inl e \<Rightarrow> State_Monad.return (Inl e)
      | Inr None \<Rightarrow> State_Monad.return (Inl (''no netplan yaml contains interface '' @ iface))
      | Inr (Some path) \<Rightarrow>
     (case x_read_file (je_sys E) path w of
        Inl e \<Rightarrow> State_Monad.return (Inl (''read '' @ debug_str path @ '' failed: '' @ e))
      | Inr content \<Rightarrow>
     (case netplan_rewrite E source_v4 primary_v4 gw content of
        Inl e \<Rightarrow> State_Monad.return (Inl e)
      | Inr content' \<Rightarrow>
          tryE (map_err (\<lambda>e. ''write '' @ debug_str path @ '' failed: '' @ e) (write_file E path content')) (\<lambda>_.
          tryE (map_err (\<lambda>e. ''netplan apply failed: '' @ e)
                  (run_cmd_status (je_sys E) ''netplan'' [''apply''])) (\<lambda>_.
          State_Monad.return (Inr ()))))))) }))"

fun find_prefix :: "(string \<Rightarrow> string list option) \<Rightarrow> string \<Rightarrow> string list \<Rightarrow> u8 option" where
  "find_prefix cap ip [] = None"
| "find_prefix cap ip (line # ls) =
     (case cap line of
        Some g \<Rightarrow>
          if g ! 1 = ip \<and> \<not> str_contains ''secondary'' line then Some (opt_or 24 (parse_u8 (g ! 2)))
          else find_prefix cap ip ls
      | None \<Rightarrow> find_prefix cap ip ls)"

fun find_connection :: "string \<Rightarrow> string list \<Rightarrow> string option" where
  "find_connection iface [] = None"
| "find_connection iface (line # ls) =
     (case split_char (CHR '':'') line of
        [name, device] \<Rightarrow> if device = iface then Some name else find_connection iface ls
      | _ \<Rightarrow> find_connection iface ls)"

definition nmcli_update_primary_ip ::
  "('c, 'p, 'w) jump_ext \<Rightarrow> string \<Rightarrow> string \<Rightarrow> string option \<Rightarrow> ('w jump_state, unit res) state" where
  "nmcli_update_primary_ip E iface ip gateway =
     tryE (map_err (\<lambda>e. ''ip addr show failed: '' @ e)
             (run_cmd_capture (je_sys E) ''ip'' (show_dev iface))) (\<lambda>out.
     (case find_prefix (x_captures (je_sys E) re_addr_noif) ip (str_lines out) of
        None \<Rightarrow> State_Monad.return (Inl (''Cannot find primary IP '' @ ip @ '' on interface '' @ iface))
      | Some plen \<Rightarrow>
     tryE (map_err (\<lambda>e. ''nmcli connection show failed: '' @ e)
             (run_cmd_capture (je_sys E) ''nmcli'' [''-t'', ''-f'', ''NAME,DEVICE'', ''connection'', ''show''])) (\<lambda>conn_out.
     (case find_connection iface (str_lines conn_out) of
        None \<Rightarrow> State_Monad.return (Inl (''No nmcli connection found for interface '' @ iface))
      | Some conn \<Rightarrow>
          let addr = ip @ ''/'' @ show_word plen in
          tryE (map_err (\<lambda>e. ''nmcli modify ipv4.addresses failed: '' @ e)
             (run_cmd_status (je_sys E) ''nmcli'' [''connection'', ''modify'', conn, ''ipv4.addresses'', addr])) (\<lambda>_.
          tryE (map_err (\<lambda>e. ''nmcli modify ipv4.method failed: '' @ e)
             (run_cmd_status (je_sys E) ''nmcli'' [''connection'', ''modify'', conn, ''ipv4.method'', ''manual''])) (\<lambda>_.
          tryE (case gateway of
                  None \<Rightarrow> State_Monad.return (Inr ())
                | Some gw \<Rightarrow> map_err (\<lambda>e. ''nmcli modify ipv4.gateway failed: '' @ e)
                    (run_cmd_status (je_sys E) ''nmcli'' [''connection'', ''modify'', conn, ''ipv4.gateway'', gw])) (\<lambda>_.
          State_Monad.return (Inr ()))))))))"

section \<open>Executing an instruction\<close>

definition ip_list_contains :: "string \<Rightarrow> string \<Rightarrow> bool" where
  "ip_list_contains ip_list ip \<longleftrightarrow> list_ex (\<lambda>item. item = ip) (map trim (split_char (CHR 0x2C) ip_list))"

definition strip_ip_prefix :: "string \<Rightarrow> string" where
  "strip_ip_prefix ip = takeWhile (\<lambda>c. c \<noteq> CHR ''/'') ip"

definition blank_info :: put_ip_jump_info where
  "blank_info = \<lparr>pi_source_ip = [], pi_target_ip = [], pi_gateway = [], pi_agent_ip = [],
     pi_status = 0, pi_reason = []\<rparr>"

definition persist_primary ::
  "('c, 'p, 'w) jump_ext \<Rightarrow> ip_jump_instruction \<Rightarrow> ('w jump_state, unit) state" where
  "persist_primary E instr = do {
     let gw = (if in_gateway instr = [] then None else Some (in_gateway instr));
     iface \<leftarrow> gets main_interface;
     np \<leftarrow> is_netplan_system E;
     if np then do {
       p \<leftarrow> get_primary_ip_of_main_interface E;
       case p of
         Inr primary_ip \<Rightarrow> do {
           _ \<leftarrow> netplan_update_primary_ip E iface (in_source_ip instr) primary_ip gw;
           State_Monad.return () }
       | Inl _ \<Rightarrow> State_Monad.return ()
     } else do {
       nm \<leftarrow> has_nmcli E;
       if nm then do {
         p \<leftarrow> get_primary_ip_of_main_interface E;
         case p of
           Inr primary_ip \<Rightarrow> do {
             _ \<leftarrow> nmcli_update_primary_ip E iface primary_ip gw;
             State_Monad.return () }
         | Inl _ \<Rightarrow> State_Monad.return ()
       } else State_Monad.return ()
     }
   }"

definition agent_ip_with_target :: "string \<Rightarrow> string \<Rightarrow> string" where
  "agent_ip_with_target agent_ip target_ip =
     (if target_ip = [] then agent_ip
      else let t = strip_ip_prefix target_ip in
           if ip_list_contains agent_ip t then agent_ip
           else if agent_ip = [] then t else agent_ip @ '','' @ t)"

definition execute_instruction ::
  "('c, 'p, 'w) jump_ext \<Rightarrow> ip_jump_instruction \<Rightarrow> string \<Rightarrow> string option \<Rightarrow> string
     \<Rightarrow> ('w jump_state, unit) state" where
  "execute_instruction E instr upload_url token burl = do {
     outcome \<leftarrow> (if in_source_ip instr \<noteq> [] \<or> in_target_ip instr \<noteq> [] then do {
                  r \<leftarrow> do_ip_jump_async E \<lparr>cf_source_ip = in_source_ip instr,
                         cf_target_ip = in_target_ip instr, cf_gateway = in_gateway instr\<rparr> blank_info;
                  State_Monad.return
                    (case r of
                       Inr info \<Rightarrow> (info\<lparr>pi_status := 1\<rparr>, True)
                     | Inl e \<Rightarrow> (blank_info\<lparr>pi_status := 2, pi_reason := e\<rparr>, False))
                } else State_Monad.return (blank_info, False));
     _ \<leftarrow> upload_result_direct E upload_url (fst outcome) token burl;
     if snd outcome then do {
       persist_primary E instr;
       ips \<leftarrow> get_local_ips_all (je_sys E);
       case ips of
         Some agent_ip \<Rightarrow> do {
           _ \<leftarrow> upload_ip_jump_periodic_result E burl token (agent_ip_with_target agent_ip (in_target_ip instr));
           State_Monad.return () }
       | None \<Rightarrow> State_Monad.return ()
     } else State_Monad.return ()
   }"

section \<open>The periodic loop and the daemon\<close>

text \<open>What wakes \<^verbatim>\<open>tokio::select!\<close> in the periodic loop, and the daemon while it waits: the
  interval, or a change of the instruction channel. \<open>rx.changed()\<close> marks the value as seen.\<close>

datatype wake = Tick | Changed

definition mark_seen :: "('w jump_state, unit) state" where
  "mark_seen = modify (\<lambda>s. s\<lparr>instr_unseen := False\<rparr>)"

text \<open>One turn of \<^verbatim>\<open>run_periodic_loop\<close>: the active time to go on with, or None to leave.\<close>

definition periodic_turn ::
  "('c, 'p, 'w) jump_ext \<Rightarrow> string \<Rightarrow> string \<Rightarrow> string option \<Rightarrow> string \<Rightarrow> u32 \<Rightarrow> wake
     \<Rightarrow> ('w jump_state, u32 option) state" where
  "periodic_turn E get_url upload_url token burl cur ev =
     (case ev of
        Tick \<Rightarrow> do {
          r \<leftarrow> fetch_latest_instruction E get_url token burl;
          case r of
            Inr (Some latest) \<Rightarrow> do {
              execute_instruction E latest upload_url token burl;
              State_Monad.return
                (if in_active_time latest = 0 then None
                 else if in_active_time latest \<noteq> cur then Some (in_active_time latest)
                 else Some cur)
            }
          | Inr None \<Rightarrow> State_Monad.return (Some cur)
          | Inl _ \<Rightarrow> State_Monad.return None
        }
      | Changed \<Rightarrow> do { mark_seen; State_Monad.return None })"

fun run_periodic_loop ::
  "('c, 'p, 'w) jump_ext \<Rightarrow> string \<Rightarrow> string \<Rightarrow> string option \<Rightarrow> string \<Rightarrow> u32 \<Rightarrow> wake list
     \<Rightarrow> ('w jump_state, u32 option) state" where
  "run_periodic_loop E g u token burl cur [] = State_Monad.return (Some cur)"
| "run_periodic_loop E g u token burl cur (ev # evs) = do {
     r \<leftarrow> periodic_turn E g u token burl cur ev;
     case r of
       None \<Rightarrow> State_Monad.return None
     | Some cur' \<Rightarrow> run_periodic_loop E g u token burl cur' evs
   }"

text \<open>Where the daemon is: waiting for a change (at the top of the loop with \<^verbatim>\<open>need_wait\<close>, after
  an empty value, or after a one-shot instruction), about to take the current value, or inside
  the periodic loop with its active time.\<close>

datatype daemon_pc = Waiting | Dispatch | Periodic u32

text \<open>Starting: the compare-and-exchange lets one caller through, which creates the channel
  with no value and waits.\<close>

definition daemon_start :: "('w jump_state, daemon_pc option) state" where
  "daemon_start = do {
     started \<leftarrow> gets instr_tx;
     if started then State_Monad.return None
     else do {
       modify (\<lambda>s. s\<lparr>instr_tx := True, instr_receiver := True, instr_value := None,
                     instr_unseen := False\<rparr>);
       State_Monad.return (Some Waiting)
     }
   }"

definition daemon_dispatch ::
  "('c, 'p, 'w) jump_ext \<Rightarrow> string option \<Rightarrow> string \<Rightarrow> ('w jump_state, daemon_pc) state" where
  "daemon_dispatch E token burl = do {
     v \<leftarrow> gets instr_value;
     case v of
       None \<Rightarrow> State_Monad.return Waiting
     | Some instr \<Rightarrow> do {
         execute_instruction E instr (burl @ ''/v1/putIpJump'') token burl;
         State_Monad.return (if 0 < in_active_time instr then Periodic (in_active_time instr) else Waiting)
       }
   }"

text \<open>One step of the daemon: \<open>ev\<close> wakes it when it waits or runs periodically. A change can
  only be delivered while the newest value is unseen.\<close>

definition daemon_step ::
  "('c, 'p, 'w) jump_ext \<Rightarrow> string option \<Rightarrow> string \<Rightarrow> daemon_pc \<Rightarrow> wake
     \<Rightarrow> ('w jump_state, daemon_pc) state" where
  "daemon_step E token burl pc ev =
     (case pc of
        Waiting \<Rightarrow>
          (case ev of Changed \<Rightarrow> do { mark_seen; State_Monad.return Dispatch }
           | Tick \<Rightarrow> State_Monad.return Waiting)
      | Dispatch \<Rightarrow> daemon_dispatch E token burl
      | Periodic cur \<Rightarrow> do {
          r \<leftarrow> periodic_turn E (burl @ ''/v1/getIpJump'') (burl @ ''/v1/putIpJump'') token burl cur ev;
          State_Monad.return (case r of None \<Rightarrow> Waiting | Some cur' \<Rightarrow> Periodic cur')
        })"

section \<open>The invariant of the whole manager\<close>

lemma keeps_get_primary_ip [keep_intros]: "cmd_blind P \<Longrightarrow> keeps P (get_primary_ip E ip)"
  unfolding get_primary_ip_def by (intro keep_intros)

lemma keeps_get_primary_main [keep_intros]: "cmd_blind P \<Longrightarrow> keeps P (get_primary_ip_of_main_interface E)"
  unfolding get_primary_ip_of_main_interface_def by (intro keep_intros)

lemma keeps_get_default_gateway [keep_intros]: "cmd_blind P \<Longrightarrow> keeps P (get_default_gateway E)"
  unfolding get_default_gateway_def by (intro keep_intros)

lemma keeps_backup_interface [keep_intros]: "cmd_blind P \<Longrightarrow> keeps P (backup_interface E ip)"
  unfolding backup_interface_def by (intro keep_intros)

lemma keeps_set_gateway [keep_intros]: "cmd_blind P \<Longrightarrow> keeps P (set_gateway E gw iface)"
  unfolding set_gateway_def by (intro keep_intros)

lemma keeps_restore_backup [keep_intros]: "cmd_blind P \<Longrightarrow> keeps P (restore_backup E b)"
  unfolding restore_backup_def by (intro keep_intros)

lemma keeps_write_file [keep_intros]: "cmd_blind P \<Longrightarrow> keeps P (write_file E path c)"
  unfolding write_file_def by (intro keep_intros)

lemma keeps_is_netplan [keep_intros]: "keeps P (is_netplan_system E)"
  unfolding is_netplan_system_def by (intro keep_intros)

lemma keeps_has_nmcli [keep_intros]: "cmd_blind P \<Longrightarrow> keeps P (has_nmcli E)"
  unfolding has_nmcli_def by (intro keep_intros)

lemma keeps_netplan_update [keep_intros]:
  "cmd_blind P \<Longrightarrow> keeps P (netplan_update_primary_ip E iface src pri gw)"
  unfolding netplan_update_primary_ip_def by (intro keep_intros)

lemma keeps_nmcli_update [keep_intros]:
  "cmd_blind P \<Longrightarrow> keeps P (nmcli_update_primary_ip E iface ip gw)"
  unfolding nmcli_update_primary_ip_def Let_def by (intro keep_intros)

lemma keeps_persist [keep_intros]: "cmd_blind P \<Longrightarrow> keeps P (persist_primary E instr)"
  unfolding persist_primary_def Let_def by (intro keep_intros)

lemma unique_switch_address [keep_intros]:
  "keeps unique_entries (switch_address E config backup sp tip tp info)"
  unfolding switch_address_def by (intro keep_intros) simp_all

lemma unique_do_ip_jump [keep_intros]: "keeps unique_entries (do_ip_jump_async E config info)"
  unfolding do_ip_jump_async_def Let_def by (intro keep_intros) simp_all

lemma unique_execute [keep_intros]: "keeps unique_entries (execute_instruction E instr url token burl)"
  unfolding execute_instruction_def by (intro keep_intros) simp_all

lemma unique_mark_seen [keep_intros]: "keeps unique_entries mark_seen"
  unfolding mark_seen_def by (intro keep_intros) (simp add: unique_entries_def)

lemma unique_periodic_turn [keep_intros]: "keeps unique_entries (periodic_turn E g u token burl cur ev)"
  unfolding periodic_turn_def by (cases ev; simp; intro keep_intros) simp_all

lemma unique_daemon_step [keep_intros]: "keeps unique_entries (daemon_step E token burl pc ev)"
  unfolding daemon_step_def daemon_dispatch_def
  by (cases pc; cases ev; simp) (intro keep_intros)+

lemma unique_send [keep_intros]: "keeps unique_entries (send_instruction a b c t)"
  unfolding send_instruction_def by (intro keep_intros) (simp_all add: unique_entries_def)

text \<open>Runs of the manager: the daemon is started, the server's instructions are sent, the daemon
  wakes up, the cleanup pass and explicit removals run, and the world changes in between.\<close>

inductive jump_reach :: "('c, 'p, 'w) jump_ext \<Rightarrow> string option \<Rightarrow> string \<Rightarrow> daemon_pc \<Rightarrow> 'w jump_state \<Rightarrow> bool"
  for E token burl where
  start: "run_state daemon_start (jump_manager_new w iface) = (Some pc, s) \<Longrightarrow> jump_reach E token burl pc s"
| send: "jump_reach E token burl pc s \<Longrightarrow>
     jump_reach E token burl pc (snd (run_state (send_instruction a b c t) s))"
| step: "jump_reach E token burl pc s \<Longrightarrow> (ev = Changed \<longrightarrow> instr_unseen s) \<Longrightarrow>
     run_state (daemon_step E token burl pc ev) s = (pc', s') \<Longrightarrow> jump_reach E token burl pc' s'"
| cleanup: "jump_reach E token burl pc s \<Longrightarrow>
     jump_reach E token burl pc (snd (run_state (do_periodic_cleanup E burl token) s))"
| remove: "jump_reach E token burl pc s \<Longrightarrow>
     jump_reach E token burl pc (snd (run_state (remove_secondary_ip E iface ip) s))"
| world: "jump_reach E token burl pc s \<Longrightarrow> jump_reach E token burl pc (s\<lparr>os := w\<rparr>)"

text \<open>C6: in every reachable state of the manager each secondary address is recorded once per
  interface, whatever the system commands and the server answer.\<close>

theorem reachable_unique_entries:
  assumes "jump_reach E token burl pc s"
  shows "unique_entries s"
  using assms
proof (induction rule: jump_reach.induct)
  case (start w iface pc s)
  then show ?case by (auto simp: daemon_start_def jump_manager_new_def unique_entries_def)
next
  case (step pc s ev pc' s')
  then show ?case using keepsD_run [OF unique_daemon_step] by blast
next
  case (world pc s w)
  then show ?case by (simp add: unique_entries_def)
qed (auto intro: keepsD keep_intros)

section \<open>A failed jump restores the address\<close>

lemma run_ip_cmd_log:
  "run_state (run_ip_cmd E args) s = (r, s') \<Longrightarrow> cmd_log s' = cmd_log s @ [(''ip'', args)]"
  unfolding run_ip_cmd_def by (rule run_cmd_status_log)

lemma set_gateway_log:
  "run_state (set_gateway E gw iface) s = (r, s') \<Longrightarrow> cmd_log s' = cmd_log s @
     [(''ip'', [''route'', ''del'', ''default'', ''dev'', iface]),
      (''ip'', [''route'', ''add'', ''default'', ''via'', gw, ''dev'', iface])]"
  by (auto simp: set_gateway_def split: prod.splits sum.splits dest!: run_cmd_status_log)

definition restore_cmds :: "network_backup \<Rightarrow> u8 \<Rightarrow> (string \<times> string list) list" where
  "restore_cmds b plen =
     (''ip'', [''addr'', ''add'', nb_ip b @ ''/'' @ show_word plen, ''dev'', nb_interface b]) #
     (case nb_gateway b of
        None \<Rightarrow> []
      | Some gw \<Rightarrow> [(''ip'', [''route'', ''del'', ''default'', ''dev'', nb_interface b]),
                   (''ip'', [''route'', ''add'', ''default'', ''via'', gw, ''dev'', nb_interface b])])"

lemma restore_backup_log:
  assumes "netmask_to_prefix (nb_netmask b) = Inr plen" and "run_state (restore_backup E b) s = (r, s')"
  shows "cmd_log s' = cmd_log s @ restore_cmds b plen"
  using assms
  by (auto simp: restore_backup_def restore_cmds_def split: prod.splits option.splits
      dest!: run_ip_cmd_log set_gateway_log)

text \<open>C2: once the backup is taken, a jump that fails, at whichever step, ends with the commands
  that put the backed-up address and gateway back; a jump that succeeds reports status 1 with
  the source address it used and the requested target.\<close>

theorem switch_address_restores:
  assumes "netmask_to_prefix (nb_netmask backup) = Inr sp"
    and "run_state (switch_address E config backup sp tip tp info) s = (r, s')"
  shows "(\<forall>e. r = Inl e \<longrightarrow> (\<exists>l. cmd_log s' = l @ restore_cmds backup sp))
    \<and> (\<forall>info'. r = Inr info' \<longrightarrow> pi_status info' = 1 \<and> pi_source_ip info' = cf_source_ip config
         \<and> pi_target_ip info' = cf_target_ip config)"
proof -
  have rest: "\<exists>l. cmd_log s2 = l @ restore_cmds backup sp"
    if "run_state (restore_backup E backup) s1 = (q, s2)" for s1 q s2
    using restore_backup_log [OF assms(1) that] by blast
  show ?thesis using assms(2) unfolding switch_address_def
    by (auto split: prod.splits sum.splits if_splits dest: rest)
qed

section \<open>Executing an instruction reports it\<close>

lemma upload_direct_log:
  assumes "run_state (upload_result_direct E url info token burl) s = (r, s')"
  shows "post_log s' = post_log s @ (case net_client_new (je_http E) (Some burl) True (os s) of
      Inl _ \<Rightarrow> [] | Inr _ \<Rightarrow> [(url, build_upload_ip_jump_json E info)])"
  using assms
  by (auto simp: upload_result_direct_def new_client_def post_logged_def on_os_def
      split: prod.splits sum.splits)

lemma post_log_add_secondary [keep_intros]: "keeps (\<lambda>s. post_log s = l) (add_secondary_ip E iface ip nm plen t)"
  unfolding add_secondary_ip_def by (intro keep_intros) simp_all

lemma post_log_cleanup_old [keep_intros]: "keeps (\<lambda>s. post_log s = l) (cleanup_old_secondary E ip)"
  unfolding cleanup_old_secondary_def by (intro keep_intros) simp_all

lemma post_log_increment [keep_intros]: "keeps (\<lambda>s. post_log s = l) increment_tick"
  unfolding increment_tick_def by (intro keep_intros) simp_all

lemma post_log_switch [keep_intros]:
  "keeps (\<lambda>s. post_log s = l) (switch_address E config backup sp tip tp info)"
  unfolding switch_address_def by (intro keep_intros) simp_all

lemma post_log_do_ip_jump [keep_intros]: "keeps (\<lambda>s. post_log s = l) (do_ip_jump_async E config info)"
  unfolding do_ip_jump_async_def Let_def by (intro keep_intros) simp_all

lemma post_log_persist [keep_intros]: "keeps (\<lambda>s. post_log s = l) (persist_primary E instr)"
  by (intro keep_intros) simp

lemma do_ip_jump_status:
  assumes "run_state (do_ip_jump_async E config info) s = (Inr info', s')"
  shows "pi_status info' = 1"
proof -
  have sw: "run_state (switch_address E c b sp tip tp info) s1 = (Inr info', s2) \<Longrightarrow> pi_status info' = 1"
    for c b sp tip tp s1 s2
    by (auto simp: switch_address_def split: prod.splits sum.splits if_splits)
  show ?thesis using assms unfolding do_ip_jump_async_def Let_def
    by (auto split: prod.splits sum.splits dest: sw)
qed

text \<open>The outcome of an instruction: the report, and whether the jump was made.\<close>

definition instruction_outcome ::
  "('c, 'p, 'w) jump_ext \<Rightarrow> ip_jump_instruction \<Rightarrow> ('w jump_state, put_ip_jump_info \<times> bool) state" where
  "instruction_outcome E instr =
     (if in_source_ip instr \<noteq> [] \<or> in_target_ip instr \<noteq> [] then do {
        r \<leftarrow> do_ip_jump_async E \<lparr>cf_source_ip = in_source_ip instr,
               cf_target_ip = in_target_ip instr, cf_gateway = in_gateway instr\<rparr> blank_info;
        State_Monad.return
          (case r of
             Inr info \<Rightarrow> (info\<lparr>pi_status := 1\<rparr>, True)
           | Inl e \<Rightarrow> (blank_info\<lparr>pi_status := 2, pi_reason := e\<rparr>, False))
      } else State_Monad.return (blank_info, False))"

lemma instruction_outcome_run:
  assumes "run_state (instruction_outcome E instr) s = ((info, ok), s')"
  shows "post_log s' = post_log s
    \<and> (pi_status info = 0 \<longleftrightarrow> in_source_ip instr = [] \<and> in_target_ip instr = [])
    \<and> (pi_status info = 1 \<longleftrightarrow> ok) \<and> pi_status info \<in> {0, 1, 2}
    \<and> (ok \<longleftrightarrow> (in_source_ip instr \<noteq> [] \<or> in_target_ip instr \<noteq> []) \<and> (\<exists>i. fst (run_state (do_ip_jump_async E \<lparr>cf_source_ip = in_source_ip instr, cf_target_ip = in_target_ip instr,
             cf_gateway = in_gateway instr\<rparr> blank_info) s) = Inr i))"
proof (cases "in_source_ip instr \<noteq> [] \<or> in_target_ip instr \<noteq> []")
  case True
  obtain r s1 where r: "run_state (do_ip_jump_async E \<lparr>cf_source_ip = in_source_ip instr,
       cf_target_ip = in_target_ip instr, cf_gateway = in_gateway instr\<rparr> blank_info) s = (r, s1)"
    by (meson surj_pair)
  have "post_log s1 = post_log s" using keepsD_run [OF post_log_do_ip_jump _ r] by simp
  with True r assms show ?thesis
    by (cases r) (auto simp: instruction_outcome_def blank_info_def)
next
  case False
  with assms show ?thesis by (auto simp: instruction_outcome_def blank_info_def)
qed

text \<open>C37: an instruction that is executed is answered. When \<open>execute_instruction\<close> is called and the
  HTTP client can be built, the first thing posted is the result, with status 1 exactly when the
  jump was made, 2 when it failed and 0 when the instruction names no address; nothing else is
  posted unless the jump was made. An instruction that interrupts the periodic loop is not
  executed, see \<open>interrupting_instruction_lost\<close>.\<close>

theorem execute_instruction_reports:
  assumes run: "run_state (execute_instruction E instr url token burl) s = (u, s')"
    and cl: "\<forall>w. \<exists>c. net_client_new (je_http E) (Some burl) True w = Inr c"
  shows "\<exists>info rest. post_log s' = post_log s @ (url, build_upload_ip_jump_json E info) # rest
     \<and> pi_status info \<in> {0, 1, 2}
     \<and> (pi_status info = 0 \<longleftrightarrow> in_source_ip instr = [] \<and> in_target_ip instr = [])
     \<and> (pi_status info = 1 \<longleftrightarrow> (in_source_ip instr \<noteq> [] \<or> in_target_ip instr \<noteq> []) \<and> (\<exists>i. fst (run_state (do_ip_jump_async E \<lparr>cf_source_ip = in_source_ip instr, cf_target_ip = in_target_ip instr,
             cf_gateway = in_gateway instr\<rparr> blank_info) s) = Inr i))
     \<and> (pi_status info \<noteq> 1 \<longrightarrow> rest = [])"
proof -
  obtain info ok s1 where o: "run_state (instruction_outcome E instr) s = ((info, ok), s1)"
    by (metis surj_pair)
  note oc = instruction_outcome_run [OF o]
  obtain r2 s2 where u2: "run_state (upload_result_direct E url info token burl) s1 = (r2, s2)"
    by (meson surj_pair)
  obtain c where "net_client_new (je_http E) (Some burl) True (os s1) = Inr c" using cl by blast
  with upload_direct_log [OF u2] oc
  have p2: "post_log s2 = post_log s @ [(url, build_upload_ip_jump_json E info)]" by simp
  have ex: "execute_instruction E instr url token burl = do {
     outcome \<leftarrow> instruction_outcome E instr;
     _ \<leftarrow> upload_result_direct E url (fst outcome) token burl;
     if snd outcome then do {
       persist_primary E instr;
       ips \<leftarrow> get_local_ips_all (je_sys E);
       case ips of
         Some agent_ip \<Rightarrow> do {
           _ \<leftarrow> upload_ip_jump_periodic_result E burl token (agent_ip_with_target agent_ip (in_target_ip instr));
           State_Monad.return () }
       | None \<Rightarrow> State_Monad.return ()
     } else State_Monad.return () }"
    by (simp add: execute_instruction_def instruction_outcome_def)
  show ?thesis
  proof (cases ok)
    case False
    with run o u2 have "s' = s2" by (simp add: ex)
    with False oc p2 show ?thesis by (intro exI [of _ info] exI [of _ "[]"]) blast
  next
    case True
    obtain q s3 where q: "run_state (persist_primary E instr) s2 = (q, s3)" by (meson surj_pair)
    obtain ips s4 where g: "run_state (get_local_ips_all (je_sys E)) s3 = (ips, s4)" by (meson surj_pair)
    have "post_log s3 = post_log s2" using keepsD_run [OF post_log_persist _ q] by simp
    with get_local_ips_all_frame [OF g] p2
    have p4: "post_log s4 = post_log s @ [(url, build_upload_ip_jump_json E info)]" by simp
    have "\<exists>rest. post_log s' = post_log s4 @ rest"
      using run o u2 True q g
      by (cases ips) (auto simp: ex split: prod.splits dest!: upload_periodic_log)
    with p4 oc True show ?thesis by auto
  qed
qed

section \<open>The netplan address list\<close>

lemma choose_entry_spec:
  "choose_entry src i chosen es = Some j \<Longrightarrow>
     chosen = Some j
     \<or> (\<exists>k < length es. \<exists>ip p. j = i + k \<and> es ! k = V4 ip p \<and> (ip = src \<or> same_subnet ip src p))"
proof (induction src i chosen es rule: choose_entry.induct)
  case (2 src i chosen ip p es)
  let ?c = "if ip = src then Some i else if chosen = None \<and> same_subnet ip src p then Some i else chosen"
  from 2 consider "?c = Some j"
    | k ip' p' where "k < length es" "j = Suc i + k" "es ! k = V4 ip' p'" "ip' = src \<or> same_subnet ip' src p'"
    by auto
  then show ?case
  proof cases
    case 1
    then show ?thesis
      by (auto simp del: split_paired_Ex split: if_splits intro: exI [of _ 0])
  next
    case (2 k)
    then show ?thesis by (intro disjI2 exI [of _ "Suc k"]) auto
  qed
next
  case (3 src i chosen s es)
  then show ?case by (fastforce intro: exI [of _ "Suc _"])
qed simp

lemma choose_entry_None:
  "choose_entry src i chosen es = None \<Longrightarrow>
     chosen = None \<and> (\<forall>ip p. V4 ip p \<in> set es \<longrightarrow> ip \<noteq> src \<and> \<not> same_subnet ip src p)"
  by (induction src i chosen es rule: choose_entry.induct) (auto split: if_splits)

text \<open>Rewriting the address list of a netplan file replaces the address of one IPv4 entry,
  one that is the source address or shares its subnet, and keeps that entry's prefix; if there
  is no such entry the new address is appended. No other entry changes.\<close>

theorem update_entries_spec:
  "(\<exists>i < length es. \<exists>ip p. es ! i = V4 ip p \<and> (ip = src \<or> same_subnet ip src p)
       \<and> update_entries src pri es = es[i := V4 pri p])
   \<or> ((\<forall>ip p. V4 ip p \<in> set es \<longrightarrow> ip \<noteq> src \<and> \<not> same_subnet ip src p)
       \<and> update_entries src pri es = es @ [V4 pri 24])"
proof (cases "choose_entry src 0 None es")
  case None
  then show ?thesis using choose_entry_None [OF None] by (simp add: update_entries_def)
next
  case (Some j)
  from choose_entry_spec [OF Some] obtain ip p where
    "j < length es" "es ! j = V4 ip p" "ip = src \<or> same_subnet ip src p" by auto
  with Some show ?thesis
    by (intro disjI1 exI [of _ j] conjI) (auto simp: update_entries_def simp del: split_paired_Ex)
qed

section \<open>The instruction that interrupts the periodic mode\<close>

text \<open>An instruction that arrives while the daemon runs periodically is not carried out. The
  change is consumed to leave the periodic loop, and the daemon then waits for a further
  change: no command is run and nothing is posted, the value is marked as seen, and from there
  the daemon does not move until another instruction is sent.\<close>

theorem interrupting_instruction_lost:
  assumes "instr_unseen s" and "instr_value s = Some instr"
    and "run_state (daemon_step E token burl (Periodic cur) Changed) s = (pc', s')"
  shows "pc' = Waiting \<and> \<not> instr_unseen s' \<and> instr_value s' = Some instr
    \<and> cmd_log s' = cmd_log s \<and> post_log s' = post_log s \<and> os s' = os s
    \<and> run_state (daemon_step E token burl Waiting Tick) s' = (Waiting, s')"
  using assms by (auto simp: daemon_step_def periodic_turn_def mark_seen_def)

section \<open>The theorems on the concrete system\<close>

definition lab_backup :: network_backup where
  "lab_backup = \<lparr>nb_ip = ''10.0.0.7'', nb_netmask = ''255.255.255.0'', nb_gateway = Some ''10.0.0.1'',
     nb_interface = ''eth0''\<rparr>"

definition lab_config :: ip_jump_config where
  "lab_config = \<lparr>cf_source_ip = ''10.0.0.7'', cf_target_ip = ''10.0.0.8/24'', cf_gateway = []\<rparr>"

definition lab_instr :: ip_jump_instruction where
  "lab_instr = \<lparr>in_source_ip = ''10.0.0.5'', in_target_ip = ''10.0.0.8/24'', in_gateway = [],
     in_active_time = 30\<rparr>"

lemma lab_started:
  "jump_reach lab_ext None ''u'' Waiting (snd (run_state daemon_start (jump_manager_new [''10.0.0.5/24''] ''eth0'')))"
  by (rule jump_reach.start [where w = "[''10.0.0.5/24'']" and iface = "''eth0''"])
    (simp add: daemon_start_def jump_manager_new_def)

theorem reachable_unique_entries_witness:
  "unique_entries (snd (run_state (do_periodic_cleanup lab_ext ''u'' None)
     (snd (run_state daemon_start (jump_manager_new [''10.0.0.5/24''] ''eth0'')))))"
  by (rule reachable_unique_entries [OF jump_reach.cleanup [OF lab_started]])

theorem switch_address_restores_witness:
  "\<exists>e l. fst (run_state (switch_address lab_ext lab_config lab_backup 24 ''10.0.0.8'' 24 blank_info) lab_state) = Inl e
     \<and> cmd_log (snd (run_state (switch_address lab_ext lab_config lab_backup 24 ''10.0.0.8'' 24 blank_info) lab_state))
         = l @ [(''ip'', [''addr'', ''add'', ''10.0.0.7/24'', ''dev'', ''eth0'']),
                (''ip'', [''route'', ''del'', ''default'', ''dev'', ''eth0'']),
                (''ip'', [''route'', ''add'', ''default'', ''via'', ''10.0.0.1'', ''dev'', ''eth0''])]"
proof -
  let ?r = "run_state (switch_address lab_ext lab_config lab_backup 24 ''10.0.0.8'' 24 blank_info) lab_state"
  have p: "netmask_to_prefix (nb_netmask lab_backup) = Inr 24" by code_simp
  have c: "restore_cmds lab_backup 24 = [(''ip'', [''addr'', ''add'', ''10.0.0.7/24'', ''dev'', ''eth0'']),
                (''ip'', [''route'', ''del'', ''default'', ''dev'', ''eth0'']),
                (''ip'', [''route'', ''add'', ''default'', ''via'', ''10.0.0.1'', ''dev'', ''eth0''])]" by code_simp
  have "isl (fst ?r)" by code_simp
  then obtain e where e: "fst ?r = Inl e" by (cases "fst ?r") auto
  have "\<exists>l. cmd_log (snd ?r) = l @ restore_cmds lab_backup 24"
    using switch_address_restores [OF p prod.collapse [symmetric]] e by blast
  with e c show ?thesis by auto
qed

theorem execute_instruction_reports_witness:
  "\<exists>info rest. post_log (snd (run_state (execute_instruction lab_ext lab_instr ''u/v1/putIpJump'' None ''u'') lab_state))
       = (''u/v1/putIpJump'', build_upload_ip_jump_json lab_ext info) # rest
     \<and> pi_status info \<in> {1, 2}"
proof -
  have cl: "\<forall>w. \<exists>c. net_client_new (je_http lab_ext) (Some ''u'') True w = Inr c"
    by (simp add: lab_ext_def net_client_lab)
  have p: "post_log lab_state = []" by (simp add: lab_state_def jump_manager_new_def)
  have i: "in_source_ip lab_instr \<noteq> []" by (simp add: lab_instr_def)
  from execute_instruction_reports [OF prod.collapse [symmetric] cl,
      of lab_instr "''u/v1/putIpJump''" None lab_state] p i
  show ?thesis by auto
qed

theorem interrupting_instruction_lost_witness:
  "let s = lab_state\<lparr>instr_tx := True, instr_receiver := True, instr_value := Some lab_instr, instr_unseen := True\<rparr>;
       (pc, s') = run_state (daemon_step lab_ext None ''u'' (Periodic 30) Changed) s
   in pc = Waiting \<and> \<not> instr_unseen s' \<and> instr_value s' = Some lab_instr \<and> cmd_log s' = []"
proof -
  let ?s = "lab_state\<lparr>instr_tx := True, instr_receiver := True, instr_value := Some lab_instr, instr_unseen := True\<rparr>"
  have "instr_unseen ?s" "instr_value ?s = Some lab_instr" "cmd_log ?s = []"
    by (simp_all add: lab_state_def jump_manager_new_def)
  with interrupting_instruction_lost [OF this(1,2) prod.collapse [symmetric], of lab_ext None "''u''" 30]
  show ?thesis by (simp add: Let_def case_prod_beta)
qed

theorem update_entries_spec_witness:
  "update_entries (10, 0, 0, 5) (10, 0, 0, 8) [V4 (10, 0, 0, 5) 16] = [V4 (10, 0, 0, 8) 16]"
  using update_entries_spec [of "[V4 (10, 0, 0, 5) 16]" "(10, 0, 0, 5)" "(10, 0, 0, 8)"] by auto

end
