(* ===== verification/Pw_Manager.thy ===== *)
theory Pw_Manager
  imports Jump_Utils
begin

text \<open>
  \<^verbatim>\<open>crates/rules_jump_mgr/src/pw_manager.rs\<close>: changing the password of the current user on the
  server's order. The old hash is read from the shadow database first and put back when the
  change fails. The environment variable \<^verbatim>\<open>USER\<close> and the commands are parameters.
\<close>

record put_pw_jump_info =
  pw_user :: string
  pw_pw :: string
  pw_status :: u8
  pw_reason :: string

section \<open>Operations\<close>

text \<open>The second field of the line \<^verbatim>\<open>user:HASH:\<dots>\<close>, if the line has a colon at all.\<close>

definition backup_shadow ::
  "'w sys_ext \<Rightarrow> string \<Rightarrow> (('w, 'z) sys_state_scheme, string option res) state" where
  "backup_shadow X user = do {
     r \<leftarrow> run_cmd_capture X ''getent'' [''shadow'', user];
     State_Monad.return
       (case r of
          Inl e \<Rightarrow> Inl (''getent shadow failed: '' @ e)
        | Inr s \<Rightarrow>
            let rest = split_char (CHR '':'') s
            in if 2 \<le> length rest then Inr (Some (rest ! 1)) else Inr None)
   }"

definition set_password_plain ::
  "'w sys_ext \<Rightarrow> string \<Rightarrow> string \<Rightarrow> (('w, 'z) sys_state_scheme, unit res) state" where
  "set_password_plain X user newpw =
     (let cmd = ''echo '' @ [CHR 0x22] @ user @ '':'' @ newpw @ [CHR 0x22] @ '' | chpasswd''
      in map_err (\<lambda>e. ''chpasswd failed: '' @ e) (run_cmd_status X ''bash'' [''-c'', cmd]))"

definition restore_shadow_hash ::
  "'w sys_ext \<Rightarrow> string \<Rightarrow> string \<Rightarrow> (('w, 'z) sys_state_scheme, unit res) state" where
  "restore_shadow_hash X user hash =
     map_err (\<lambda>e. ''usermod -p failed: '' @ e) (run_cmd_status X ''usermod'' [''-p'', hash, user])"

definition resolve_user ::
  "'w sys_ext \<Rightarrow> ('w \<Rightarrow> string res) \<Rightarrow> string \<Rightarrow> (('w, 'z) sys_state_scheme, string res) state" where
  "resolve_user X env_user user =
     (if trim user \<noteq> [] then State_Monad.return (Inr user)
      else do {
        w \<leftarrow> gets os;
        case env_user w of
          Inr u \<Rightarrow> State_Monad.return (Inr u)
        | Inl _ \<Rightarrow> do {
            r \<leftarrow> exec_output X ''whoami'' [];
            State_Monad.return
              (case r of
                 Inl e \<Rightarrow> Inl (''failed to run whoami: '' @ e)
               | Inr output \<Rightarrow>
                   let u = trim (po_stdout output)
                   in if u = [] then Inl ''cannot determine current user'' else Inr u)
          }
      })"

text \<open>The caller's \<^verbatim>\<open>info\<close> is passed in and returned: it is changed on failures too.\<close>

definition do_pw_jump_async ::
  "'w sys_ext \<Rightarrow> ('w \<Rightarrow> string res) \<Rightarrow> string \<Rightarrow> string \<Rightarrow> put_pw_jump_info
     \<Rightarrow> (('w, 'z) sys_state_scheme, unit res \<times> put_pw_jump_info) state" where
  "do_pw_jump_async X env_user user newpw info = do {
     r0 \<leftarrow> resolve_user X env_user user;
     case r0 of
       Inl e \<Rightarrow> State_Monad.return (Inl e, info)
     | Inr real_user \<Rightarrow> do {
         let info = info\<lparr>pw_user := real_user\<rparr>;
         r1 \<leftarrow> backup_shadow X real_user;
         case r1 of
           Inl e \<Rightarrow> State_Monad.return (Inl e, info)
         | Inr orig_hash_opt \<Rightarrow> do {
             r2 \<leftarrow> set_password_plain X real_user newpw;
             case r2 of
               Inl e \<Rightarrow> do {
                 _ \<leftarrow> (case orig_hash_opt of
                        Some h \<Rightarrow> do { _ \<leftarrow> restore_shadow_hash X real_user h; State_Monad.return () }
                      | None \<Rightarrow> State_Monad.return ());
                 let reason = ''set_password failed: '' @ e;
                 State_Monad.return (Inl reason, info\<lparr>pw_status := 2, pw_reason := reason\<rparr>)
               }
             | Inr _ \<Rightarrow>
                 State_Monad.return (Inr (), info\<lparr>pw_user := real_user, pw_pw := newpw, pw_status := 1,
                     pw_reason := ''password changed''\<rparr>)
           }
       }
   }"

section \<open>Properties\<close>

lemma map_err_run:
  "run_state (map_err g m) s = (r, s') \<Longrightarrow> \<exists>r0. run_state m s = (r0, s')"
  by (auto split: prod.splits sum.splits)

lemma set_password_plain_log:
  "run_state (set_password_plain X u p) s = (r, s') \<Longrightarrow>
     cmd_log s' = cmd_log s @ [(''bash'', [''-c'', ''echo '' @ [CHR 0x22] @ u @ '':'' @ p @ [CHR 0x22] @ '' | chpasswd''])]"
  unfolding set_password_plain_def Let_def by (drule map_err_run) (elim exE, rule run_cmd_status_log)

lemma restore_shadow_hash_log:
  "run_state (restore_shadow_hash X u h) s = (r, s') \<Longrightarrow>
     cmd_log s' = cmd_log s @ [(''usermod'', [''-p'', h, u])]"
  unfolding restore_shadow_hash_def by (drule map_err_run) (elim exE, rule run_cmd_status_log)

lemma backup_shadow_log:
  "run_state (backup_shadow X u) s = (r, s') \<Longrightarrow> cmd_log s' = cmd_log s @ [(''getent'', [''shadow'', u])]"
  unfolding backup_shadow_def using run_cmd_capture_log by (auto split: prod.splits)

lemma backup_shadow_hash:
  "run_state (run_cmd_capture X ''getent'' [''shadow'', u]) s = (Inr (u @ '':'' @ h @ '':'' @ t), s1) \<Longrightarrow>
   CHR '':'' \<notin> set u \<Longrightarrow> CHR '':'' \<notin> set h \<Longrightarrow>
     run_state (backup_shadow X u) s = (Inr (Some h), s1)"
  by (simp add: backup_shadow_def split_char_append)


text \<open>A host on which \<^verbatim>\<open>chpasswd\<close> is refused.\<close>

definition pw_host :: "unit sys_ext" where
  "pw_host =
     \<lparr>x_output = (\<lambda>cmd args w. (Inr \<lparr>po_success = True, po_stdout = ''root:HASH:19000:0'', po_stderr = []\<rparr>, w)),
      x_status = (\<lambda>cmd args w. (Inr \<lparr>ps_success = (cmd \<noteq> ''bash''), ps_display = ''exit status: 1''\<rparr>, w)),
      x_captures = (\<lambda>re l. None), x_ipv4net = (\<lambda>s. Inl []), x_net_contains = (\<lambda>n a. False),
      x_read_file = (\<lambda>p w. Inl [])\<rparr>"

definition pw_blank :: put_pw_jump_info where
  "pw_blank = \<lparr>pw_user = [], pw_pw = [], pw_status = 0, pw_reason = []\<rparr>"


end
