(* ===== verification/Agent_State.thy ===== *)
theory Agent_State
  imports Netlink Net_Info Snapman Ip_Policy Process_Policy Pattern_History Process_Pattern_Rules Usb_List Ip_Jump Pw_Manager
begin

text \<open>
  The managers side by side in one agent: the record \<open>agent\<close> holds the world, the logs of what was
  done to it, the managers, the configuration and the fields of \<^verbatim>\<open>TaskFetcher\<close>
  (\<^verbatim>\<open>crates/task/src/task_fetcher.rs\<close>). A manager runs on its own part of the record together with
  the shared world and logs (\<open>on_ip\<close>, \<open>on_proc\<close>, \<open>on_pattern\<close>, \<open>on_process_pattern\<close>, \<open>on_files\<close>,
  \<open>on_sys\<close>, \<open>on_jump\<close>).

  The locale \<open>tenant\<close> is the contract of a manager that shares the control files with others: its
  invariant survives writes to files of other managers.
\<close>

section \<open>The agent\<close>

text \<open>Whether the task loop runs: a task may end the process, or the task that runs the loop, by a
  panic.\<close>

datatype halt = Running | Exited | Panicked

text \<open>\<^verbatim>\<open>OutreachDetectRule\<close> (\<^verbatim>\<open>net_reach_rule.rs\<close>).\<close>

record outreach_rule =
  or_addr :: string
  or_method :: string
  or_type :: u32

record ('c, 'w) agent =
  ag_world :: 'w
  ag_writes :: "(string \<times> string) list"
  ag_cmds :: "(string \<times> string list) list"
  ag_posts :: "(string \<times> string) list"
  ag_sent :: "(u16 \<times> u8 list) list"
  ag_ip :: "'w ip_state"
  ag_proc :: "'w policy_state"
  ag_pattern :: "'w pattern_state"
  ag_process :: "'w process_mgr"
  ag_usb :: black_white_list
  ag_disabled :: "string set list"
  ag_jump :: "'w jump_state"
  ag_cfg :: net_info_config
  ag_outreach :: "outreach_rule list"
  ag_halt :: halt
  tf_base_url :: string
  tf_token :: "string option"
  tf_api :: "(string \<times> string) list"
  tf_client :: "'c net_client"
  tf_nl_sock :: "nl_sock_info option"
  prev_defense_switch :: "u32 option"
  prev_open_port_switch :: bool
  prev_file_switch :: bool
  prev_extortion_switch :: bool
  prev_proc_switch :: bool
  prev_syslog_process_switch :: bool
  prev_dynamic_switch :: bool
  prev_self_protect_switch :: bool

text \<open>What the host tells of a directory entry and of a file.\<close>

record meta_info =
  md_mode :: u32
  md_uid :: u32
  md_gid :: u32
  md_len :: u64
  md_ctime :: int
  md_mtime :: int
  md_is_dir :: bool

record dir_item =
  di_path :: string
  di_utf8 :: "string option"
  di_name :: "string option"
  di_ext :: "string option"
  di_dir_or_link :: bool
  di_meta :: "meta_info option"

text \<open>A virtual port rule and a directory rule as \<^verbatim>\<open>serde\<close> reads them from a document, before the
  decoders of their own fields.\<close>

record raw_port_rule =
  rp_alarm_level :: u32
  rp_dest_ip :: string
  rp_dest_port :: string
  rp_dest_port_type :: u32
  rp_id :: u32
  rp_protocol :: string
  rp_source_ip :: string
  rp_source_port :: string
  rp_type :: string

record scan_rule =
  sr_dir :: string
  sr_pid :: u32
  sr_typ :: u32

text \<open>What an update needs of the host: the date, the file system, the archive reader and the
  architecture the program was built for. A directory entry is its name with unreadable characters
  replaced, and as it is when it is UTF-8.\<close>

record 'w upgrade_ext =
  ux_date :: "'w \<Rightarrow> u64 \<times> u64 \<times> u64"
  ux_exists :: "string \<Rightarrow> 'w \<Rightarrow> bool"
  ux_read_text :: "string \<Rightarrow> 'w \<Rightarrow> string res"
  ux_remove_dir_all :: "string \<Rightarrow> 'w \<Rightarrow> unit res \<times> 'w"
  ux_create_dir_all :: "string \<Rightarrow> 'w \<Rightarrow> unit res \<times> 'w"
  ux_rename :: "string \<Rightarrow> string \<Rightarrow> 'w \<Rightarrow> unit res \<times> 'w"
  ux_copy :: "string \<Rightarrow> string \<Rightarrow> 'w \<Rightarrow> unit res \<times> 'w"
  ux_set_permissions :: "string \<Rightarrow> nat \<Rightarrow> 'w \<Rightarrow> unit res \<times> 'w"
  ux_unzip :: "string \<Rightarrow> string \<Rightarrow> 'w \<Rightarrow> unit res \<times> 'w"
  ux_list :: "string \<Rightarrow> 'w \<Rightarrow> ((string \<times> string option) res list) res"
  ux_arch :: string
  ux_polls :: "'w \<Rightarrow> nat"

text \<open>The parameters: the packages and the host. \<open>ax_processes\<close>, \<open>ax_ports\<close> and
  \<open>ax_usb_devices\<close> stand for the reports that the crates \<^verbatim>\<open>procinfo\<close>, \<^verbatim>\<open>hostinfo\<close> and \<^verbatim>\<open>udisk\<close> put
  together.\<close>

record ('c, 'p, 'w) agent_ext =
  ax_http :: "('c, 'p, 'w) http_ext"
  ax_files :: "'w file_ext"
  ax_sys :: "'w sys_ext"
  ax_env_user :: "'w \<Rightarrow> string res"
  ax_json_print :: "json \<Rightarrow> string"
  ax_json_parse :: "string \<Rightarrow> json res"
  ax_usb_from_value :: "json \<Rightarrow> usb_info list res"
  ax_trust_from_value :: "json \<Rightarrow> global_trust_dir list res"
  ax_open_create :: "string \<Rightarrow> 'w \<Rightarrow> unit res \<times> 'w"
  ax_flush :: "string \<Rightarrow> 'w \<Rightarrow> unit res \<times> 'w"
  ax_nl :: "'w nl_ext"
  ax_ip_order :: "ip_policy list \<Rightarrow> ip_policy list"
  ax_order :: "string list \<Rightarrow> string list"
  ax_port_from_value :: "json \<Rightarrow> raw_port_rule res"
  ax_scan_from_value :: "json \<Rightarrow> scan_rule res"
  ax_outreach_from_value :: "json \<Rightarrow> outreach_rule res"
  ax_processes :: "'w \<Rightarrow> (string res) res \<times> 'w"
  ax_ports :: "'w \<Rightarrow> string res \<times> 'w"
  ax_usb_devices :: "'w \<Rightarrow> string res \<times> 'w"
  ax_is_dir :: "string \<Rightarrow> 'w \<Rightarrow> bool"
  ax_read_dir :: "string \<Rightarrow> 'w \<Rightarrow> (dir_item res list) res"
  ax_md5 :: "string \<Rightarrow> 'w \<Rightarrow> string res \<times> 'w"
  ax_user_name :: "u32 \<Rightarrow> 'w \<Rightarrow> string option"
  ax_group_name :: "u32 \<Rightarrow> 'w \<Rightarrow> string option"
  ax_connect :: "string \<Rightarrow> 'w \<Rightarrow> unit res \<times> 'w"
  ax_socket_write :: "string \<Rightarrow> string \<Rightarrow> 'w \<Rightarrow> unit res \<times> 'w"
  ax_spawn :: "string \<Rightarrow> string list \<Rightarrow> 'w \<Rightarrow> unit res \<times> 'w"
  ax_remove_file :: "string \<Rightarrow> 'w \<Rightarrow> bool \<times> 'w"
  ax_f64 :: f64_ext
  ax_up :: "'w upgrade_ext"

section \<open>Its parts\<close>

definition ip_view :: "('c, 'w) agent \<Rightarrow> 'w ip_state" where
  "ip_view a = (ag_ip a)\<lparr>fos := ag_world a, write_log := ag_writes a\<rparr>"

definition put_ip :: "'w ip_state \<Rightarrow> ('c, 'w) agent \<Rightarrow> ('c, 'w) agent" where
  "put_ip s a = a\<lparr>ag_world := fos s, ag_writes := write_log s, ag_ip := s\<rparr>"

definition proc_view :: "('c, 'w) agent \<Rightarrow> 'w policy_state" where
  "proc_view a = (ag_proc a)\<lparr>fos := ag_world a, write_log := ag_writes a\<rparr>"

definition put_proc :: "'w policy_state \<Rightarrow> ('c, 'w) agent \<Rightarrow> ('c, 'w) agent" where
  "put_proc s a = a\<lparr>ag_world := fos s, ag_writes := write_log s, ag_proc := s\<rparr>"

definition pattern_view :: "('c, 'w) agent \<Rightarrow> 'w pattern_state" where
  "pattern_view a = (ag_pattern a)\<lparr>fos := ag_world a, write_log := ag_writes a\<rparr>"

definition put_pattern :: "'w pattern_state \<Rightarrow> ('c, 'w) agent \<Rightarrow> ('c, 'w) agent" where
  "put_pattern s a = a\<lparr>ag_world := fos s, ag_writes := write_log s, ag_pattern := s\<rparr>"

definition process_view :: "('c, 'w) agent \<Rightarrow> 'w process_mgr" where
  "process_view a = (ag_process a)\<lparr>fos := ag_world a, write_log := ag_writes a\<rparr>"

definition put_process :: "'w process_mgr \<Rightarrow> ('c, 'w) agent \<Rightarrow> ('c, 'w) agent" where
  "put_process s a = a\<lparr>ag_world := fos s, ag_writes := write_log s, ag_process := s\<rparr>"

definition file_view :: "('c, 'w) agent \<Rightarrow> 'w proc_state" where
  "file_view a = \<lparr>fos = ag_world a, write_log = ag_writes a\<rparr>"

definition put_file :: "'w proc_state \<Rightarrow> ('c, 'w) agent \<Rightarrow> ('c, 'w) agent" where
  "put_file s a = a\<lparr>ag_world := fos s, ag_writes := write_log s\<rparr>"

definition sys_view :: "('c, 'w) agent \<Rightarrow> 'w sys_state" where
  "sys_view a = \<lparr>os = ag_world a, cmd_log = ag_cmds a, post_log = ag_posts a\<rparr>"

definition put_sys :: "'w sys_state \<Rightarrow> ('c, 'w) agent \<Rightarrow> ('c, 'w) agent" where
  "put_sys s a = a\<lparr>ag_world := os s, ag_cmds := cmd_log s, ag_posts := post_log s\<rparr>"

definition jump_view :: "('c, 'w) agent \<Rightarrow> 'w jump_state" where
  "jump_view a = (ag_jump a)\<lparr>os := ag_world a, cmd_log := ag_cmds a, post_log := ag_posts a\<rparr>"

definition put_jump :: "'w jump_state \<Rightarrow> ('c, 'w) agent \<Rightarrow> ('c, 'w) agent" where
  "put_jump s a = a\<lparr>ag_world := os s, ag_cmds := cmd_log s, ag_posts := post_log s, ag_jump := s\<rparr>"

abbreviation on_ip :: "('w ip_state, 'r) state \<Rightarrow> (('c, 'w) agent, 'r) state" where "on_ip \<equiv> zoom ip_view put_ip"
abbreviation on_proc :: "('w policy_state, 'r) state \<Rightarrow> (('c, 'w) agent, 'r) state" where "on_proc \<equiv> zoom proc_view put_proc"
abbreviation on_pattern :: "('w pattern_state, 'r) state \<Rightarrow> (('c, 'w) agent, 'r) state" where
  "on_pattern \<equiv> zoom pattern_view put_pattern"
abbreviation on_process_pattern :: "('w process_mgr, 'r) state \<Rightarrow> (('c, 'w) agent, 'r) state" where
  "on_process_pattern \<equiv> zoom process_view put_process"
abbreviation on_files :: "('w proc_state, 'r) state \<Rightarrow> (('c, 'w) agent, 'r) state" where "on_files \<equiv> zoom file_view put_file"
abbreviation on_sys :: "('w sys_state, 'r) state \<Rightarrow> (('c, 'w) agent, 'r) state" where "on_sys \<equiv> zoom sys_view put_sys"
abbreviation on_jump :: "('w jump_state, 'r) state \<Rightarrow> (('c, 'w) agent, 'r) state" where "on_jump \<equiv> zoom jump_view put_jump"

text \<open>A call that changes nothing of the agent but the world.\<close>

definition on_world :: "('w, 'r) state \<Rightarrow> (('c, 'w) agent, 'r) state" where
  "on_world m = State (\<lambda>a. case run_state m (ag_world a) of (r, w) \<Rightarrow> (r, a\<lparr>ag_world := w\<rparr>))"

lemmas part_defs = ip_view_def put_ip_def proc_view_def put_proc_def pattern_view_def put_pattern_def
  process_view_def put_process_def file_view_def put_file_def sys_view_def put_sys_def jump_view_def put_jump_def

section \<open>Managers that share the control files\<close>

locale tenant =
  fixes view :: "'a \<Rightarrow> ('w, 'z) proc_state_scheme"
    and put :: "('w, 'z) proc_state_scheme \<Rightarrow> 'a \<Rightarrow> 'a"
    and inv :: "('w, 'z) proc_state_scheme \<Rightarrow> bool"
    and paths :: "string set"
  assumes view_put: "view (put s a) = s"
    and inv_elsewhere: "inv s \<Longrightarrow> fst ` set k \<inter> paths = {} \<Longrightarrow> inv (s\<lparr>fos := w, write_log := write_log s @ k\<rparr>)"
begin

lemma own: "keeps inv m \<Longrightarrow> keeps (\<lambda>a. inv (view a)) (zoom view put m)"
  by (auto simp: keeps_def view_put)

text \<open>Another manager, which writes to files \<open>Q\<close> only, leaves the invariant alone.\<close>

lemma bystander:
  fixes view' :: "'a \<Rightarrow> ('w, 'y) proc_state_scheme"
  assumes "\<And>s a. view (put' s a) = (view a)\<lparr>fos := fos s, write_log := write_log s\<rparr>"
    and "\<And>a. write_log (view' a) = write_log (view a)"
    and "\<And>l. keeps (wrote l Q) m" and "Q \<inter> paths = {}"
  shows "keeps (\<lambda>a. inv (view a)) (zoom view' put' m)"
proof (rule keepsI)
  fix a r a'
  assume i: "inv (view a)" and run: "run_state (zoom view' put' m) a = (r, a')"
  let ?s = "snd (run_state m (view' a))"
  from keepsD [OF assms(3) wrote_start, of "view' a"]
  obtain k where k: "write_log ?s = write_log (view a) @ k" "fst ` set k \<subseteq> Q"
    by (auto simp: wrote_def assms(2))
  from run have "a' = put' ?s a" by simp
  then have "view a' = (view a)\<lparr>fos := fos ?s, write_log := write_log (view a) @ k\<rparr>" by (simp add: assms(1) k(1))
  with inv_elsewhere [OF i, of k "fos ?s"] k(2) assms(4) show "inv (view a')" by fastforce
qed

lemma world_only:
  assumes "\<And>a. \<exists>w. view (snd (run_state m a)) = (view a)\<lparr>fos := w\<rparr>"
  shows "keeps (\<lambda>a. inv (view a)) m"
proof (rule keepsI)
  fix a r a'
  assume "inv (view a)" and "run_state m a = (r, a')"
  with assms [of a] inv_elsewhere [of "view a" "[]"] show "inv (view a')" by auto
qed

end

section \<open>A concrete agent\<close>

text \<open>An agent on a system without processes, whose server answers every request with the address
  it was sent to and whose documents are the function \<open>server\<close> of that address.\<close>

definition echo_http :: "(unit, unit, 'w) http_ext" where
  "echo_http =
     \<lparr>x_env_var = (\<lambda>v w. Inl ''environment variable not found''), x_proxy_http = (\<lambda>u. Inr ()),
      x_build = (\<lambda>b. Inr ()),
      x_send = (\<lambda>c rq w. (Inr \<lparr>st_success = True, st_client_error = False, st_display = ''200 OK'',
          rs_text = Inr (rq_url rq), rs_bytes = Inr (rq_url rq)\<rparr>, w)),
      x_url_parse = (\<lambda>u. Inl ''relative URL without a base''), x_lookup_host = (\<lambda>h w. (Inr [], w))\<rparr>"

definition no_sys :: "'w sys_ext" where
  "no_sys = \<lparr>x_output = (\<lambda>cmd args w. (Inl ''not found'', w)), x_status = (\<lambda>cmd args w. (Inl ''not found'', w)),
     x_captures = (\<lambda>re t. None), x_ipv4net = (\<lambda>s. Inl ''invalid IP address syntax''),
     x_net_contains = (\<lambda>n ip. False), x_read_file = (\<lambda>path w. Inl ''not found'')\<rparr>"

definition refusing_files :: "'w file_ext" where
  "refusing_files = \<lparr>fx_exists = (\<lambda>p w. False), fx_open = (\<lambda>p w. (Inl ''not found'', w)),
     fx_create = (\<lambda>p w. (Inl ''permission denied'', w)), fx_write = (\<lambda>p c w. (Inl ''broken pipe'', w))\<rparr>"

text \<open>A socket that takes every message, and never receives one.\<close>

definition lab_nl :: "'w nl_ext" where
  "lab_nl = \<lparr>nx_exists = (\<lambda>p w. False), nx_read = (\<lambda>p w. Inl ''not found''), nx_sleep = (\<lambda>n w. w), nx_socket = (\<lambda>n w. (3, w)),
     nx_bind = (\<lambda>fd a w. (0, w)), nx_sendmsg = (\<lambda>fd a m w. (int (length m), w)), nx_recvmsg = (\<lambda>fd n w. ((0, []), w)),
     nx_last_error = (\<lambda>w. ''broken pipe''), nx_getpid = (\<lambda>w. 7)\<rparr>"

definition lab_sock :: nl_sock_info where
  "lab_sock = \<lparr>nls_sock = 3, nl_dest_addr = \<lparr>nl_family = AF_NETLINK, nl_pid = 0\<rparr>, nl_src_addr = \<lparr>nl_family = AF_NETLINK, nl_pid = 7\<rparr>\<rparr>"

definition no_upgrade :: "'w upgrade_ext" where
  "no_upgrade = \<lparr>ux_date = (\<lambda>w. (2025, 1, 11)), ux_exists = (\<lambda>p w. False), ux_read_text = (\<lambda>p w. Inl ''not found''),
     ux_remove_dir_all = (\<lambda>p w. (Inr (), w)), ux_create_dir_all = (\<lambda>p w. (Inr (), w)), ux_rename = (\<lambda>p q w. (Inl ''not found'', w)),
     ux_copy = (\<lambda>p q w. (Inl ''not found'', w)), ux_set_permissions = (\<lambda>p m w. (Inr (), w)),
     ux_unzip = (\<lambda>b d w. (Inl ''invalid Zip archive'', w)), ux_list = (\<lambda>p w. Inr []), ux_arch = ''x86_64'', ux_polls = (\<lambda>w. 50)\<rparr>"

definition lab_agent_ext :: "'w file_ext \<Rightarrow> (string \<Rightarrow> json) \<Rightarrow> (unit, unit, 'w) agent_ext" where
  "lab_agent_ext F server =
     \<lparr>ax_http = echo_http, ax_files = F, ax_sys = no_sys, ax_env_user = (\<lambda>w. Inl ''not set''),
      ax_json_print = (\<lambda>j. ''{}''), ax_json_parse = (\<lambda>t. Inr (server t)),
      ax_usb_from_value = (\<lambda>j. Inr []), ax_trust_from_value = (\<lambda>j. Inr []),
      ax_open_create = (\<lambda>p w. (Inr (), w)), ax_flush = (\<lambda>p w. (Inr (), w)),
      ax_nl = lab_nl, ax_ip_order = (\<lambda>xs. xs), ax_order = (\<lambda>xs. xs),
      ax_port_from_value = (\<lambda>j. Inl ''invalid type''), ax_scan_from_value = (\<lambda>j. Inl ''invalid type''),
      ax_outreach_from_value = (\<lambda>j. Inl ''invalid type''), ax_processes = (\<lambda>w. (Inr (Inr ''{}''), w)),
      ax_ports = (\<lambda>w. (Inr ''{}'', w)), ax_usb_devices = (\<lambda>w. (Inr ''{}'', w)),
      ax_is_dir = (\<lambda>p w. False), ax_read_dir = (\<lambda>p w. Inl ''not found''), ax_md5 = (\<lambda>p w. (Inl ''not found'', w)),
      ax_user_name = (\<lambda>u w. None), ax_group_name = (\<lambda>u w. None), ax_connect = (\<lambda>p w. (Inl ''not found'', w)),
      ax_socket_write = (\<lambda>p d w. (Inl ''broken pipe'', w)), ax_spawn = (\<lambda>c as w. (Inl ''not found'', w)),
      ax_remove_file = (\<lambda>p w. (False, w)), ax_f64 = lab_f64, ax_up = no_upgrade\<rparr>"

definition lab_agent_in :: "'w \<Rightarrow> (unit, 'w) agent" where
  "lab_agent_in w = \<lparr>ag_world = w, ag_writes = [], ag_cmds = [], ag_posts = [], ag_sent = [],
     ag_ip = ip_init w, ag_proc = policy_new w True, ag_pattern = pattern_mgr_new w,
     ag_process = process_mgr_new w, ag_usb = bwl_new, ag_disabled = [], ag_jump = jump_manager_new w ''eth0'',
     ag_cfg = net_info_default\<lparr>nc_mod_ver := ''1.0''\<rparr>, ag_outreach = [], ag_halt = Running, tf_base_url = ''u'', tf_token = None, tf_api = [],
     tf_client = \<lparr>client = (), base_url = Some ''u''\<rparr>, tf_nl_sock = Some lab_sock, prev_defense_switch = None,
     prev_open_port_switch = False, prev_file_switch = False, prev_extortion_switch = False,
     prev_proc_switch = False, prev_syslog_process_switch = False, prev_dynamic_switch = False,
     prev_self_protect_switch = False\<rparr>"

abbreviation lab_agent :: "(unit, unit) agent" where "lab_agent \<equiv> lab_agent_in ()"

lemmas lab_agent_def = lab_agent_in_def

end
