(* ===== verification/Task_Common.thy ===== *)
theory Task_Common
  imports Agent_State
begin

text \<open>
  What the tasks of \<^verbatim>\<open>crates/task/src/task_fetcher.rs\<close> share: the addresses of the server, requests
  with the token of the fetcher, the report that a task was done, the request for a policy
  document, and commands to the supervisor over its socket.
\<close>

section \<open>Addresses\<close>

definition api_entries :: "(string \<times> string) list" where
  "api_entries =
     [(''closetask'', ''v1/closetask''), (''update'', ''v1/download''), (''getdirinfo'', ''v1/getdirinfo''),
      (''putdir'', ''v1/putdir''), (''uninstall'', ''v1/uninstall''), (''upload_process'', ''v1/upload_process''),
      (''download_white'', ''v1/getprocwl''), (''download_black'', ''v1/getprocbl''), (''getconf'', ''v1/getconf''),
      (''getprotect'', ''v1/getprotect''), (''getdirpolicy'', ''v1/getdirpolicy''),
      (''upload_process'', ''v1/uploadproc''), (''gettrustdir'', ''v1/gettrustdir''),
      (''getvirtualport'', ''v1/getvirtualport''), (''upload_gloabal_process'', ''v1/upload/suffix/exe''),
      (''getPlugging'', ''v1/getPlugging''), (''getipblacklist'', ''v1/getipblacklist''),
      (''upserviceport'', ''v1/upserviceport''), (''addperipherals'', ''v1/addperipherals''),
      (''getwhiteperipherals'', ''v1/getwhiteperipherals''), (''getblackperipherals'', ''v1/getblackperipherals''),
      (''getPwJump'', ''v1/getPwJump''), (''putPwJump'', ''v1/putPwJump''), (''getIpJump'', ''v1/getIpJump''),
      (''putIpJump'', ''v1/putIpJump''), (''getBackups'', ''v1/getBackups''), (''getRollbacks'', ''v1/getRollbacks''),
      (''uploadRollback'', ''v1/uploadRollback''), (''uploadBackup'', ''v1/uploadBackup''),
      (''getOutreachDetect'', ''v1/getOutreachDetect'')]"

text \<open>The map after inserting them in this order.\<close>

definition api_interface :: "(string \<times> string) list" where
  "api_interface = fold (\<lambda>(k, v). AList.update k v) api_entries []"

definition full_url :: "string \<Rightarrow> (('c, 'w) agent, string res) state" where
  "full_url key = gets (\<lambda>a. case map_of (tf_api a) key of
       None \<Rightarrow> Inl (''URL key '' @ [CHR 0x27] @ key @ [CHR 0x27] @ '' not found'')
     | Some sfx \<Rightarrow> Inr (tf_base_url a @ ''/'' @ sfx))"

text \<open>The lookup that the tasks write out, with an error text of their own.\<close>

definition task_url :: "string \<Rightarrow> string \<Rightarrow> (('c, 'w) agent, string res) state" where
  "task_url key missing = gets (\<lambda>a. case map_of (tf_api a) key of
       None \<Rightarrow> Inl missing
     | Some sfx \<Rightarrow> Inr (tf_base_url a @ ''/'' @ sfx))"

section \<open>Requests\<close>

definition post_with ::
  "('c, 'p, 'w) agent_ext \<Rightarrow> 'c net_client \<Rightarrow> string \<Rightarrow> string \<Rightarrow> nat \<Rightarrow> (('c, 'w) agent, string res) state" where
  "post_with A nc url body secs = do {
     modify (\<lambda>a. a\<lparr>ag_posts := ag_posts a @ [(url, body)]\<rparr>);
     token \<leftarrow> gets tf_token;
     on_world (post_data_async (ax_http A) nc url body secs token)
   }"

definition agent_post ::
  "('c, 'p, 'w) agent_ext \<Rightarrow> string \<Rightarrow> string \<Rightarrow> nat \<Rightarrow> (('c, 'w) agent, string res) state" where
  "agent_post A url body secs = do {
     nc \<leftarrow> gets tf_client;
     post_with A nc url body secs
   }"

text \<open>A request whose outcome is only logged.\<close>

definition post_ignored ::
  "('c, 'p, 'w) agent_ext \<Rightarrow> string \<Rightarrow> string \<Rightarrow> (('c, 'w) agent, unit res) state" where
  "post_ignored A url body = do {
     _ \<leftarrow> agent_post A url body 10;
     State_Monad.return (Inr ())
   }"

definition build_closetask_json :: "('c, 'p, 'w) agent_ext \<Rightarrow> u64 \<Rightarrow> string" where
  "build_closetask_json A tasklist = ax_json_print A (JObj [(''tasklist'', JInt (uint tasklist))])"

definition report_task_completion :: "('c, 'p, 'w) agent_ext \<Rightarrow> u64 \<Rightarrow> (('c, 'w) agent, unit res) state" where
  "report_task_completion A task_type =
     tryE (full_url ''closetask'') (\<lambda>url. post_ignored A url (build_closetask_json A task_type))"

text \<open>The start of every task that reads a document: report the task, look up the address, send an
  empty request and parse the answer.\<close>

definition fetch_doc ::
  "('c, 'p, 'w) agent_ext \<Rightarrow> u64 \<Rightarrow> string \<Rightarrow> string \<Rightarrow> (string \<Rightarrow> string) \<Rightarrow> (string \<Rightarrow> string)
     \<Rightarrow> (('c, 'w) agent, json res) state" where
  "fetch_doc A task_type key missing send_err parse_err =
     tryE (report_task_completion A task_type) (\<lambda>_.
     tryE (task_url key missing) (\<lambda>url.
     tryE (map_err send_err (agent_post A url [] 10)) (\<lambda>response.
       State_Monad.return (case ax_json_parse A response of Inl e \<Rightarrow> Inl (parse_err e) | Inr v \<Rightarrow> Inr v))))"

definition code_ok :: "json \<Rightarrow> bool" where
  "code_ok parsed \<longleftrightarrow> json_index parsed ''code'' = JStr ''000000''"

section \<open>The socket of the supervisor\<close>

definition agent_socket :: string where "agent_socket = ''/tmp/osec_agent.sock''"

text \<open>The attempts from \<open>attempt\<close> on; \<open>left\<close> is the number of those that follow.\<close>

fun try_command :: "('c, 'p, 'w) agent_ext \<Rightarrow> string \<Rightarrow> nat \<Rightarrow> (('c, 'w) agent, unit res) state" where
  "try_command A cmd left = do {
     r \<leftarrow> on_world (State (ax_connect A agent_socket));
     case r of
       Inr _ \<Rightarrow> map_err (\<lambda>e. utf8 [229, 143, 145, 233, 128, 129, 229, 145, 189, 228, 187, 164, 229, 164, 177, 232, 180, 165, 58, 32] @ e)
                 (on_world (State (ax_socket_write A agent_socket (cmd @ [nl]))))
     | Inl e \<Rightarrow> (case left of
           0 \<Rightarrow> State_Monad.return (Inl (utf8 [232, 191, 158, 230, 142, 165, 32, 97, 103, 101, 110, 116, 95, 109, 97, 110, 97, 103, 101, 114, 32, 229, 164, 177, 232, 180, 165, 58, 32] @ e))
         | Suc n \<Rightarrow> try_command A cmd n)
   }"

definition send_command_to_agent :: "('c, 'p, 'w) agent_ext \<Rightarrow> string \<Rightarrow> (('c, 'w) agent, unit res) state" where
  "send_command_to_agent A cmd = try_command A cmd (30 - 1)"

section \<open>What requests leave alone\<close>

text \<open>A predicate that looks neither at the world nor at the log of requests.\<close>

definition net_blind :: "(('c, 'w) agent \<Rightarrow> bool) \<Rightarrow> bool" where
  "net_blind P \<longleftrightarrow> (\<forall>a w l. P a \<longrightarrow> P (a\<lparr>ag_world := w, ag_posts := l\<rparr>))"

lemma net_blind_world: "net_blind P \<Longrightarrow> P a \<Longrightarrow> P (a\<lparr>ag_world := w\<rparr>)"
  unfolding net_blind_def by (drule spec [of _ a], drule spec [of _ w], drule spec [of _ "ag_posts a"]) simp

lemma net_blind_posts: "net_blind P \<Longrightarrow> P a \<Longrightarrow> P (a\<lparr>ag_posts := l\<rparr>)"
  unfolding net_blind_def by (drule spec [of _ a], drule spec [of _ "ag_world a"], drule spec [of _ l]) simp

lemma keeps_on_world [keep_intros]: "net_blind P \<Longrightarrow> keeps P (on_world m)"
  by (auto simp: keeps_def on_world_def net_blind_world split: prod.splits)

lemma keeps_full_url [keep_intros]: "keeps P (full_url key)" "keeps P (task_url key missing)"
  by (simp_all add: full_url_def task_url_def keeps_gets)

lemma keeps_post_with [keep_intros]: "net_blind P \<Longrightarrow> keeps P (post_with A nc url body secs)"
  unfolding post_with_def by (intro keep_intros) (simp_all add: net_blind_posts)

lemma keeps_agent_post [keep_intros]: "net_blind P \<Longrightarrow> keeps P (agent_post A url body secs)"
  unfolding agent_post_def by (intro keep_intros)

lemma keeps_post_ignored [keep_intros]: "net_blind P \<Longrightarrow> keeps P (post_ignored A url body)"
  unfolding post_ignored_def by (intro keep_intros)

lemma keeps_report [keep_intros]: "net_blind P \<Longrightarrow> keeps P (report_task_completion A n)"
  unfolding report_task_completion_def by (intro keep_intros)

lemma keeps_fetch_doc [keep_intros]: "net_blind P \<Longrightarrow> keeps P (fetch_doc A n key missing se pe)"
  unfolding fetch_doc_def by (intro keep_intros)

lemma keeps_try_command [keep_intros]: "net_blind P \<Longrightarrow> keeps P (try_command A cmd left)"
proof (induction left)
  case 0
  then show ?case by (subst try_command.simps, intro keep_intros) (auto intro: keeps_return)
next
  case (Suc n)
  show ?case by (subst try_command.simps, intro keep_intros Suc.prems) (simp add: Suc del: try_command.simps)
qed

lemma keeps_send_command [keep_intros]: "net_blind P \<Longrightarrow> keeps P (send_command_to_agent A cmd)"
  unfolding send_command_to_agent_def by (rule keeps_try_command)

end
