(* ===== verification/Upload_Tasks.thy ===== *)
theory Upload_Tasks
  imports Task_Common
begin

text \<open>
  The tasks of \<^verbatim>\<open>task_fetcher.rs\<close> that upload what the host looks like: processes, ports, USB
  devices, directories (\<^verbatim>\<open>scan_directory_task.rs\<close>) and the executables of the system directories
  (\<^verbatim>\<open>get_process_task.rs\<close>).
\<close>

section \<open>Processes, ports and devices\<close>

definition task_upload_process :: "('c, 'p, 'w) agent_ext \<Rightarrow> u64 \<Rightarrow> (('c, 'w) agent, unit res) state" where
  "task_upload_process A task_type =
     tryE (report_task_completion A task_type) (\<lambda>_.
     tryE (task_url ''upload_process'' ''URL for upload_gloabal_process not found'') (\<lambda>url.
     tryE (map_err (\<lambda>e. ''Collection error: '' @ e) (on_world (State (ax_processes A)))) (\<lambda>built.
       case built of
         Inr json_str \<Rightarrow> post_ignored A url json_str
       | Inl _ \<Rightarrow> State_Monad.return (Inr ()))))"

definition task_upload_port :: "('c, 'p, 'w) agent_ext \<Rightarrow> u64 \<Rightarrow> (('c, 'w) agent, unit res) state" where
  "task_upload_port A task_type =
     tryE (report_task_completion A task_type) (\<lambda>_.
     tryE (task_url ''upserviceport'' ''URL for upload_gloabal_process not found'') (\<lambda>url.
     tryE (map_err (\<lambda>e. ''Failed to serialize port data to JSON: '' @ e) (on_world (State (ax_ports A)))) (\<lambda>json_data.
       post_ignored A url json_data)))"

definition task_usb_upload :: "('c, 'p, 'w) agent_ext \<Rightarrow> u64 \<Rightarrow> (('c, 'w) agent, unit res) state" where
  "task_usb_upload A task_type =
     tryE (report_task_completion A task_type) (\<lambda>_.
     tryE (task_url ''addperipherals'' ''URL for upload_gloabal_process not found'') (\<lambda>url. do {
       built \<leftarrow> on_world (State (ax_usb_devices A));
       case built of
         Inr json_str \<Rightarrow> post_ignored A url json_str
       | Inl _ \<Rightarrow> State_Monad.return (Inr ())
     }))"

section \<open>Directories\<close>

record file_info_upload =
  fi_dir :: string
  fi_rw :: string
  fi_group :: string
  fi_user :: string
  fi_size :: string
  fi_starttime :: string
  fi_updatetime :: string
  fi_level :: string
  fi_dirtype :: string
  fi_hash :: string
  fi_file_type :: u8
  fi_pid :: u32

text \<open>\<^verbatim>\<open>(lo..=hi).step_by(n)\<close>.\<close>

definition inclusive_step :: "nat \<Rightarrow> nat \<Rightarrow> nat \<Rightarrow> nat list" where
  "inclusive_step n lo hi = filter (\<lambda>i. (i - lo) mod n = 0) [lo..<Suc hi]"

definition mode_triple :: "u32 \<Rightarrow> string" where
  "mode_triple b = [if b AND 4 \<noteq> 0 then CHR ''r'' else CHR ''-'', if b AND 2 \<noteq> 0 then CHR ''w'' else CHR ''-'',
     if b AND 1 \<noteq> 0 then CHR ''x'' else CHR ''-'']"

definition mode_to_string :: "u32 \<Rightarrow> string" where
  "mode_to_string mode =
     (if mode AND 0x4000 \<noteq> 0 then ''d'' else ''-'')
     @ concat (map (\<lambda>i. mode_triple (drop_bit i mode AND 7)) (inclusive_step 3 6 0))"

definition file_record :: "('c, 'p, 'w) agent_ext \<Rightarrow> 'w \<Rightarrow> u32 \<Rightarrow> dir_item \<Rightarrow> meta_info \<Rightarrow> file_info_upload" where
  "file_record A w pid it md =
     \<lparr>fi_dir = di_path it, fi_rw = mode_to_string (md_mode md),
      fi_group = opt_or (show_word (md_gid md)) (ax_group_name A (md_gid md) w),
      fi_user = opt_or (show_word (md_uid md)) (ax_user_name A (md_uid md) w),
      fi_size = show_word (md_len md), fi_starttime = show_int (md_ctime md), fi_updatetime = show_int (md_mtime md),
      fi_level = ''RW'', fi_dirtype = to_lowercase (opt_or ''unknown'' (di_ext it)), fi_hash = [],
      fi_file_type = (if md_is_dir md then 1 else 2), fi_pid = pid\<rparr>"

text \<open>The entries up to the first that cannot be read; those without metadata are left out.\<close>

fun dir_records :: "('c, 'p, 'w) agent_ext \<Rightarrow> 'w \<Rightarrow> u32 \<Rightarrow> dir_item res list \<Rightarrow> file_info_upload list" where
  "dir_records A w pid [] = []"
| "dir_records A w pid (Inl e # its) = []"
| "dir_records A w pid (Inr it # its) =
     (if di_name it \<in> {Some ''.'', Some ''..''} then dir_records A w pid its
      else case di_meta it of
             None \<Rightarrow> dir_records A w pid its
           | Some md \<Rightarrow> file_record A w pid it md # dir_records A w pid its)"

definition scan_single_dir ::
  "('c, 'p, 'w) agent_ext \<Rightarrow> string \<Rightarrow> u32 \<Rightarrow> (('c, 'w) agent, file_info_upload list res) state" where
  "scan_single_dir A dir pid = gets (\<lambda>a. let w = ag_world a in
     if \<not> ax_is_dir A dir w then Inr []
     else case ax_read_dir A dir w of
            Inl e \<Rightarrow> Inl (utf8 [230, 137, 147, 229, 188, 128, 231, 155, 174, 229, 189, 149, 229, 164, 177, 232, 180, 165, 32] @ dir @ '': '' @ e)
          | Inr its \<Rightarrow> Inr (dir_records A w pid its))"

definition MAX_FILES :: nat where "MAX_FILES = 1000"

fun scan_rules ::
  "('c, 'p, 'w) agent_ext \<Rightarrow> scan_rule list \<Rightarrow> file_info_upload list \<Rightarrow> (('c, 'w) agent, file_info_upload list) state" where
  "scan_rules A [] all_files = State_Monad.return all_files"
| "scan_rules A (rule # rules) all_files =
     (if MAX_FILES \<le> length all_files then State_Monad.return all_files
      else do {
        r \<leftarrow> scan_single_dir A (sr_dir rule) (sr_pid rule);
        case r of
          Inr files \<Rightarrow> scan_rules A rules (all_files @ take (MAX_FILES - length all_files) files)
        | Inl _ \<Rightarrow> scan_rules A rules all_files
      })"

text \<open>The field \<^verbatim>\<open>hash\<close> is left out when it is empty, which it always is.\<close>

definition file_json :: "file_info_upload \<Rightarrow> json" where
  "file_json f = JObj ([(''dir'', JStr (fi_dir f)), (''rw'', JStr (fi_rw f)), (''group'', JStr (fi_group f)),
     (''user'', JStr (fi_user f)), (''size'', JStr (fi_size f)), (''starttime'', JStr (fi_starttime f)),
     (''updatetime'', JStr (fi_updatetime f)), (''level'', JStr (fi_level f)), (''dirtype'', JStr (fi_dirtype f))]
     @ (if fi_hash f = [] then [] else [(''hash'', JStr (fi_hash f))])
     @ [(''type'', JInt (uint (fi_file_type f))), (''pid'', JInt (uint (fi_pid f)))])"

definition put_dir_body :: "('c, 'p, 'w) agent_ext \<Rightarrow> file_info_upload list \<Rightarrow> string" where
  "put_dir_body A files = ax_json_print A (JObj [(''dir'', JStr (ax_json_print A (JArr (map file_json files))))])"

definition scan_rules_of :: "('c, 'p, 'w) agent_ext \<Rightarrow> json \<Rightarrow> scan_rule list" where
  "scan_rules_of A parsed =
     (case as_array (json_index parsed ''data'') of
        None \<Rightarrow> []
      | Some arr \<Rightarrow> List.map_filter (\<lambda>v. case ax_scan_from_value A v of Inr r \<Rightarrow> Some r | Inl _ \<Rightarrow> None) arr)"

definition task_upload_dir :: "('c, 'p, 'w) agent_ext \<Rightarrow> u64 \<Rightarrow> (('c, 'w) agent, unit res) state" where
  "task_upload_dir A task_type =
     tryE (fetch_doc A task_type ''getdirinfo'' (utf8 [230, 156, 170, 230, 137, 190, 229, 136, 176, 32, 103, 101, 116, 100, 105, 114, 105, 110, 102, 111, 32, 231, 173, 150, 231, 149, 165, 231, 154, 132, 32, 85, 82, 76]) (\<lambda>e. e)
             (\<lambda>e. utf8 [232, 167, 163, 230, 158, 144, 32, 103, 101, 116, 100, 105, 114, 105, 110, 102, 111, 32, 229, 147, 141, 229, 186, 148, 229, 164, 177, 232, 180, 165])) (\<lambda>parsed. do {
       all_files \<leftarrow> scan_rules A (scan_rules_of A parsed) [];
       tryE (full_url ''putdir'') (\<lambda>upload_url.
       tryE (map_err (\<lambda>e. utf8 [228, 184, 138, 228, 188, 160, 231, 155, 174, 229, 189, 149, 228, 191, 161, 230, 129, 175, 229, 164, 177, 232, 180, 165, 58, 32] @ e) (agent_post A upload_url (put_dir_body A all_files) 120)) (\<lambda>_.
         State_Monad.return (Inr ())))
     })"

section \<open>Executables of the system directories\<close>

record linux_dir_proc =
  ld_dir :: string
  ld_hash :: string
  ld_introduce :: string
  ld_copyright :: string

definition DIRS :: "string list" where
  "DIRS = [''/bin/'', ''/usr/bin/'', ''/usr/sbin/'', ''/usr/local/bin/'', ''/usr/lib/systemd/'']"

definition linux_dir_json :: "linux_dir_proc \<Rightarrow> json" where
  "linux_dir_json d = JObj [(''dir'', JStr (ld_dir d)), (''hash'', JStr (ld_hash d)),
     (''introduce'', JStr (ld_introduce d)), (''copyright'', JStr (ld_copyright d))]"

definition build_linux_dir_json :: "('c, 'p, 'w) agent_ext \<Rightarrow> linux_dir_proc list \<Rightarrow> string" where
  "build_linux_dir_json A vec_info =
     ax_json_print A (JObj [(''list'', JStr (ax_json_print A (JArr (map linux_dir_json vec_info))))])"

definition dir_proc :: "string \<Rightarrow> string \<Rightarrow> linux_dir_proc" where
  "dir_proc path md5 = \<lparr>ld_dir = path, ld_hash = md5, ld_introduce = ''linux'', ld_copyright = ''linux_gnu''\<rparr>"

definition post_batch ::
  "('c, 'p, 'w) agent_ext \<Rightarrow> 'c net_client \<Rightarrow> string \<Rightarrow> linux_dir_proc list \<Rightarrow> (('c, 'w) agent, unit) state" where
  "post_batch A nc url vec_info = do {
     _ \<leftarrow> post_with A nc url (build_linux_dir_json A vec_info) 10;
     State_Monad.return ()
   }"

text \<open>The inner loop over the entries of one directory; \<open>vec_info\<close> is the batch so far.\<close>

fun process_entries ::
  "('c, 'p, 'w) agent_ext \<Rightarrow> 'c net_client \<Rightarrow> string \<Rightarrow> dir_item res list \<Rightarrow> linux_dir_proc list
     \<Rightarrow> (('c, 'w) agent, linux_dir_proc list res) state" where
  "process_entries A nc url [] vec_info = State_Monad.return (Inr vec_info)"
| "process_entries A nc url (Inl e # its) vec_info = State_Monad.return (Inl (utf8 [232, 175, 187, 229, 143, 150, 231, 155, 174, 229, 189, 149, 233, 161, 185, 229, 164, 177, 232, 180, 165, 58, 32] @ e))"
| "process_entries A nc url (Inr it # its) vec_info =
     (if di_dir_or_link it then process_entries A nc url its vec_info
      else case di_utf8 it of
        None \<Rightarrow> process_entries A nc url its vec_info
      | Some path_str \<Rightarrow>
          tryE (map_err (\<lambda>e. utf8 [232, 174, 161, 231, 174, 151, 32, 77, 68, 53, 32, 229, 164, 177, 232, 180, 165, 58, 32] @ e) (on_world (State (ax_md5 A path_str)))) (\<lambda>md5.
            let vec_info = vec_info @ [dir_proc path_str md5]
            in if 200 \<le> length vec_info
               then do { post_batch A nc url vec_info; process_entries A nc url its [] }
               else process_entries A nc url its vec_info))"

fun process_dirs ::
  "('c, 'p, 'w) agent_ext \<Rightarrow> 'c net_client \<Rightarrow> string \<Rightarrow> string list \<Rightarrow> linux_dir_proc list
     \<Rightarrow> (('c, 'w) agent, linux_dir_proc list res) state" where
  "process_dirs A nc url [] vec_info = State_Monad.return (Inr vec_info)"
| "process_dirs A nc url (path # paths) vec_info = do {
     w \<leftarrow> gets ag_world;
     case ax_read_dir A path w of
       Inl e \<Rightarrow> State_Monad.return (Inl (utf8 [230, 137, 147, 229, 188, 128, 231, 155, 174, 229, 189, 149, 229, 164, 177, 232, 180, 165, 32] @ path @ '': '' @ e))
     | Inr its \<Rightarrow> tryE (process_entries A nc url its vec_info) (\<lambda>vec_info. process_dirs A nc url paths vec_info)
   }"

definition process_all_dirs ::
  "('c, 'p, 'w) agent_ext \<Rightarrow> 'c net_client \<Rightarrow> string \<Rightarrow> (('c, 'w) agent, unit res) state" where
  "process_all_dirs A nc url =
     tryE (process_dirs A nc url DIRS []) (\<lambda>vec_info. do {
       (if vec_info \<noteq> [] then post_batch A nc url vec_info else State_Monad.return ());
       State_Monad.return (Inr ())
     })"

definition task_global_proc :: "('c, 'p, 'w) agent_ext \<Rightarrow> u64 \<Rightarrow> (('c, 'w) agent, unit res) state" where
  "task_global_proc A task_type =
     tryE (report_task_completion A task_type) (\<lambda>_. do {
       api \<leftarrow> gets tf_api;
       case map_of api ''upload_gloabal_process'' of
         None \<Rightarrow> State_Monad.return (Inl ''URL for upload_gloabal_process not found'')
       | Some upload_url \<Rightarrow>
           tryE (map_err (\<lambda>e. ''Failed to create NetClient: '' @ e)
                   (gets (\<lambda>a. net_client_new (ax_http A) (Some (tf_base_url a)) True (ag_world a)))) (\<lambda>net_client. do {
             burl \<leftarrow> gets tf_base_url;
             process_all_dirs A net_client (burl @ ''/'' @ upload_url)
           })
     })"

section \<open>What the uploads leave alone\<close>

lemma keeps_scan_single_dir [keep_intros]: "keeps P (scan_single_dir A dir pid)"
  by (simp add: scan_single_dir_def keeps_gets)

lemma keeps_scan_rules [keep_intros]: "keeps P (scan_rules A rules acc)"
  by (induction rules arbitrary: acc) (auto intro!: keeps_return keeps_bind keeps_scan_single_dir split: sum.split)

lemma keeps_post_batch [keep_intros]: "net_blind P \<Longrightarrow> keeps P (post_batch A nc url v)"
  unfolding post_batch_def by (intro keep_intros)

lemma keeps_process_entries [keep_intros]: "net_blind P \<Longrightarrow> keeps P (process_entries A nc url its v)"
proof (induction A nc url its v rule: process_entries.induct)
  case (3 A nc url it its v)
  then show ?case by (subst process_entries.simps) (intro keep_intros, auto simp: Let_def intro!: keep_intros)
qed (auto intro: keeps_return)

lemma keeps_process_dirs [keep_intros]: "net_blind P \<Longrightarrow> keeps P (process_dirs A nc url ps v)"
  by (induction ps arbitrary: v) (auto intro!: keeps_return keeps_bind keeps_gets keeps_case_sum keeps_tryE keeps_process_entries)

lemma keeps_uploads [keep_intros]:
  assumes "net_blind P"
  shows "keeps P (task_upload_process A n)" "keeps P (task_upload_port A n)" "keeps P (task_usb_upload A n)"
    "keeps P (task_upload_dir A n)" "keeps P (task_global_proc A n)"
  unfolding task_upload_process_def task_upload_port_def task_usb_upload_def task_upload_dir_def task_global_proc_def
    process_all_dirs_def
  by (intro keep_intros assms)+

section \<open>Reference definitions\<close>

text \<open>The files of one rule, as they are in a given world.\<close>

definition dir_files :: "('c, 'p, 'w) agent_ext \<Rightarrow> 'w \<Rightarrow> scan_rule \<Rightarrow> file_info_upload list" where
  "dir_files A w rule =
     (if \<not> ax_is_dir A (sr_dir rule) w then []
      else case ax_read_dir A (sr_dir rule) w of Inl _ \<Rightarrow> [] | Inr its \<Rightarrow> dir_records A w (sr_pid rule) its)"

lemma scan_rules_run:
  "length acc \<le> MAX_FILES \<Longrightarrow> run_state (scan_rules A rules acc) a
     = (take MAX_FILES (acc @ concat (map (dir_files A (ag_world a)) rules)), a)"
proof (induction rules arbitrary: acc)
  case (Cons rule rules)
  let ?n = "MAX_FILES - length acc"
  show ?case
  proof (cases "MAX_FILES \<le> length acc")
    case True
    with Cons.prems show ?thesis by simp
  next
    case False
    have "run_state (scan_rules A rules (acc @ take ?n fs)) a
        = (take MAX_FILES (acc @ fs @ concat (map (dir_files A (ag_world a)) rules)), a)" for fs
    proof (cases "length fs \<le> ?n")
      case True
      with Cons.prems show ?thesis by (subst Cons.IH) simp_all
    next
      case f: False
      with Cons.prems show ?thesis by (subst Cons.IH) simp_all
    qed
    note step = this this [of "[]"]
    show ?thesis
      using False step by (simp add: scan_single_dir_def dir_files_def [of A "ag_world a" rule] Let_def split: sum.split)
  qed
qed simp

text \<open>Pieces of \<open>n\<close> elements.\<close>

function chunks :: "nat \<Rightarrow> 'a list \<Rightarrow> 'a list list" where
  "chunks n xs = (if n = 0 \<or> xs = [] then [] else take n xs # chunks n (drop n xs))"
  by pat_completeness auto
termination
  by (relation "measure (\<lambda>(n, xs). length xs)") auto

declare chunks.simps [simp del]

lemma chunks_concat: "0 < n \<Longrightarrow> concat (chunks n xs) = xs"
  by (induction n xs rule: chunks.induct) (subst chunks.simps, auto)

lemma chunks_bound: "c \<in> set (chunks n xs) \<Longrightarrow> c \<noteq> [] \<and> length c \<le> n"
proof (induction n xs rule: chunks.induct)
  case (1 n xs)
  show ?case
  proof (cases "n = 0 \<or> xs = []")
    case True
    with 1(2) show ?thesis by (simp add: chunks.simps)
  next
    case False
    with 1(2) have "c = take n xs \<or> c \<in> set (chunks n (drop n xs))" by (subst (asm) chunks.simps) simp
    with False 1(1) show ?thesis by auto
  qed
qed

lemma chunks_full: "length xs = n \<Longrightarrow> xs \<noteq> [] \<Longrightarrow> chunks n (xs @ ys) = xs # chunks n ys"
  by (subst chunks.simps) auto

lemma chunks_rest: "length xs < n \<Longrightarrow> chunks n xs = (if xs = [] then [] else [xs])"
  by (subst chunks.simps, subst chunks.simps) auto

text \<open>A host that does not change during the upload: a directory and a digest give the same answer
  whenever they are asked for, an error included.\<close>

definition still_host :: "('c, 'p, 'w) agent_ext \<Rightarrow> (string \<Rightarrow> dir_item res list res) \<Rightarrow> (string \<Rightarrow> string res) \<Rightarrow> bool" where
  "still_host A D H \<longleftrightarrow> (\<forall>p \<in> set DIRS. \<forall>w. ax_read_dir A p w = D p) \<and> (\<forall>p w. fst (ax_md5 A p w) = H p)"

text \<open>The executables up to the first directory, entry or digest that cannot be read, and whether there
  is none.\<close>

fun entry_items :: "(string \<Rightarrow> string res) \<Rightarrow> dir_item res list \<Rightarrow> linux_dir_proc list \<times> bool" where
  "entry_items H [] = ([], True)"
| "entry_items H (Inl e # its) = ([], False)"
| "entry_items H (Inr it # its) =
     (case (if di_dir_or_link it then None else di_utf8 it) of
        None \<Rightarrow> entry_items H its
      | Some p \<Rightarrow>
          (case H p of
             Inl e \<Rightarrow> ([], False)
           | Inr md5 \<Rightarrow> (dir_proc p md5 # fst (entry_items H its), snd (entry_items H its))))"

fun dir_items :: "(string \<Rightarrow> dir_item res list res) \<Rightarrow> (string \<Rightarrow> string res) \<Rightarrow> string list \<Rightarrow> linux_dir_proc list \<times> bool" where
  "dir_items D H [] = ([], True)"
| "dir_items D H (p # ps) =
     (case D p of
        Inl e \<Rightarrow> ([], False)
      | Inr its \<Rightarrow>
          if snd (entry_items H its) then (fst (entry_items H its) @ fst (dir_items D H ps), snd (dir_items D H ps))
          else entry_items H its)"

abbreviation batches :: "('c, 'p, 'w) agent_ext \<Rightarrow> string \<Rightarrow> linux_dir_proc list list \<Rightarrow> (string \<times> string) list" where
  "batches A url cs \<equiv> map (\<lambda>c. (url, build_linux_dir_json A c)) cs"

lemma post_batch_log: "ag_posts (snd (run_state (post_batch A nc url v) a)) = ag_posts a @ batches A url [v]"
  by (simp add: post_batch_def post_with_def on_world_def split: prod.splits)

lemma md5_step:
  assumes "still_host A D H"
  shows "\<exists>w. run_state (on_world (State (ax_md5 A p))) a = (H p, a\<lparr>ag_world := w\<rparr>)"
proof -
  from assms have "fst (ax_md5 A p (ag_world a)) = H p" by (simp add: still_host_def)
  then show ?thesis by (cases "ax_md5 A p (ag_world a)") (auto simp: on_world_def)
qed

text \<open>What a part of the loops does that sees the items \<open>xs\<close>: it posts full pieces and carries the
  rest, or ends with an error when it is not \<open>ok\<close>.\<close>

definition posts_pieces ::
  "('c, 'p, 'w) agent_ext \<Rightarrow> string \<Rightarrow> linux_dir_proc list \<Rightarrow> linux_dir_proc list \<times> bool \<Rightarrow> ('c, 'w) agent
     \<Rightarrow> linux_dir_proc list res \<times> ('c, 'w) agent \<Rightarrow> bool" where
  "posts_pieces A url v xs a ra \<longleftrightarrow>
     (\<exists>cs v'. length v' < 200 \<and> (\<forall>c \<in> set cs. length c = 200) \<and> ag_posts (snd ra) = ag_posts a @ batches A url cs
        \<and> (\<forall>ys. chunks 200 (v @ fst xs @ ys) = cs @ chunks 200 (v' @ ys))
        \<and> (if snd xs then fst ra = Inr v' else \<exists>e. fst ra = Inl e))"

lemma posts_pieces_none:
  "length v < 200 \<Longrightarrow> ag_posts b = ag_posts a \<Longrightarrow> posts_pieces A url v ([], True) a (Inr v, b)"
  "length v < 200 \<Longrightarrow> ag_posts b = ag_posts a \<Longrightarrow> posts_pieces A url v ([], False) a (Inl e, b)"
  unfolding posts_pieces_def by (intro exI [of _ "[]"] exI [of _ v], simp)+

lemma posts_pieces_cons:
  assumes "posts_pieces A url (v @ [x]) (xs, ok) b ra" and "ag_posts b = ag_posts a"
  shows "posts_pieces A url v (x # xs, ok) a ra"
  using assms by (simp add: posts_pieces_def)

lemma posts_pieces_full:
  assumes "posts_pieces A url [] (xs, ok) b ra" and "ag_posts b = ag_posts a @ batches A url [v @ [x]]" and "length (v @ [x]) = 200"
  shows "posts_pieces A url v (x # xs, ok) a ra"
proof -
  from assms(1) obtain cs v' where c: "length v' < 200" "\<forall>c \<in> set cs. length c = 200" "ag_posts (snd ra) = ag_posts b @ batches A url cs"
    "\<forall>ys. chunks 200 (xs @ ys) = cs @ chunks 200 (v' @ ys)" "if ok then fst ra = Inr v' else \<exists>e. fst ra = Inl e"
    by (auto simp: posts_pieces_def)
  have "chunks 200 (v @ (x # xs) @ ys) = ((v @ [x]) # cs) @ chunks 200 (v' @ ys)" for ys
    using chunks_full [OF assms(3), of "xs @ ys"] c(4) by simp
  with c assms(2,3) show ?thesis unfolding posts_pieces_def by (intro exI [of _ "(v @ [x]) # cs"] exI [of _ v']) simp
qed

lemma posts_pieces_append:
  assumes "posts_pieces A url v (xs, True) a (Inr v1, a1)" and "posts_pieces A url v1 (ys, ok) a1 ra"
  shows "posts_pieces A url v (xs @ ys, ok) a ra"
proof -
  from assms(1) obtain cs where c: "\<forall>c \<in> set cs. length c = 200" "ag_posts a1 = ag_posts a @ batches A url cs"
    "\<forall>ys. chunks 200 (v @ xs @ ys) = cs @ chunks 200 (v1 @ ys)" by (auto simp: posts_pieces_def)
  from assms(2) obtain ds v' where "length v' < 200" "\<forall>c \<in> set ds. length c = 200" "ag_posts (snd ra) = ag_posts a1 @ batches A url ds"
    "\<forall>zs. chunks 200 (v1 @ ys @ zs) = ds @ chunks 200 (v' @ zs)" "if ok then fst ra = Inr v' else \<exists>e. fst ra = Inl e"
    by (auto simp: posts_pieces_def)
  with c show ?thesis unfolding posts_pieces_def by (intro exI [of _ "cs @ ds"] exI [of _ v']) auto
qed

lemma process_entries_run:
  assumes "still_host A D H" and "length v < 200"
  shows "posts_pieces A url v (entry_items H its) a (run_state (process_entries A nc url its v) a)"
  using assms(2)
proof (induction its arbitrary: v a)
  case Nil
  then show ?case by (simp add: posts_pieces_none)
next
  case (Cons x its)
  show ?case
  proof (cases "\<exists>it p. x = Inr it \<and> \<not> di_dir_or_link it \<and> di_utf8 it = Some p")
    case False
    with Cons.IH [OF Cons.prems, of a] Cons.prems show ?thesis by (cases x) (auto simp: posts_pieces_none)
  next
    case True
    then obtain it p where p: "x = Inr it" "\<not> di_dir_or_link it" "di_utf8 it = Some p" by blast
    from md5_step [OF assms(1), of p a] obtain w where m: "run_state (on_world (State (ax_md5 A p))) a = (H p, a\<lparr>ag_world := w\<rparr>)" by blast
    show ?thesis
    proof (cases "H p")
      case (Inl e)
      with p m Cons.prems show ?thesis by (simp add: posts_pieces_none)
    next
      case (Inr md5)
      let ?v = "v @ [dir_proc p md5]"
      let ?b = "snd (run_state (post_batch A nc url ?v) (a\<lparr>ag_world := w\<rparr>))"
      have "posts_pieces A url v (dir_proc p md5 # fst (entry_items H its), snd (entry_items H its)) a
          (run_state (process_entries A nc url (x # its) v) a)"
      proof (cases "200 \<le> length ?v")
        case True
        with Cons.prems have full: "length ?v = 200" by simp
        have "run_state (process_entries A nc url (x # its) v) a = run_state (process_entries A nc url its []) ?b"
          using p m True Inr by (simp add: case_prod_beta)
        moreover have "posts_pieces A url [] (fst (entry_items H its), snd (entry_items H its)) ?b (run_state (process_entries A nc url its []) ?b)"
          using Cons.IH [of "[]" ?b] by simp
        moreover have "ag_posts ?b = ag_posts a @ batches A url [?v]" by (simp add: post_batch_log)
        ultimately show ?thesis using posts_pieces_full [OF _ _ full] by metis
      next
        case False
        have "run_state (process_entries A nc url (x # its) v) a = run_state (process_entries A nc url its ?v) (a\<lparr>ag_world := w\<rparr>)"
          using p m False Inr by (simp add: case_prod_beta)
        moreover have "posts_pieces A url ?v (fst (entry_items H its), snd (entry_items H its)) (a\<lparr>ag_world := w\<rparr>)
            (run_state (process_entries A nc url its ?v) (a\<lparr>ag_world := w\<rparr>))" using Cons.IH [of ?v "a\<lparr>ag_world := w\<rparr>"] False by simp
        ultimately show ?thesis using posts_pieces_cons [of A url v _ _ _ "a\<lparr>ag_world := w\<rparr>" _ a] by simp
      qed
      with p Inr show ?thesis by simp
    qed
  qed
qed

lemma process_dirs_run:
  assumes "still_host A D H" and "length v < 200" and "set ps \<subseteq> set DIRS"
  shows "posts_pieces A url v (dir_items D H ps) a (run_state (process_dirs A nc url ps v) a)"
  using assms(2,3)
proof (induction ps arbitrary: v a)
  case Nil
  then show ?case by (simp add: posts_pieces_none)
next
  case (Cons p ps)
  have rd: "ax_read_dir A p (ag_world a) = D p" using assms(1) Cons.prems(2) by (simp add: still_host_def)
  show ?case
  proof (cases "D p")
    case (Inl e)
    with rd Cons.prems show ?thesis by (simp add: posts_pieces_none)
  next
    case (Inr its)
    obtain r a1 where e: "run_state (process_entries A nc url its v) a = (r, a1)" by (rule prod.exhaust)
    have pe: "posts_pieces A url v (entry_items H its) a (r, a1)"
      using process_entries_run [OF assms(1) Cons.prems(1), of url its a nc] e by simp
    show ?thesis
    proof (cases "snd (entry_items H its)")
      case True
      with pe obtain v1 where v1: "r = Inr v1" "length v1 < 200" by (auto simp: posts_pieces_def)
      have "posts_pieces A url v (fst (entry_items H its), True) a (Inr v1, a1)" using pe v1(1) True by (metis prod.collapse)
      moreover have "posts_pieces A url v1 (fst (dir_items D H ps), snd (dir_items D H ps)) a1 (run_state (process_dirs A nc url ps v1) a1)"
        using Cons.IH [OF v1(2), of a1] Cons.prems(2) by simp
      ultimately have "posts_pieces A url v (fst (entry_items H its) @ fst (dir_items D H ps), snd (dir_items D H ps)) a
          (run_state (process_dirs A nc url ps v1) a1)" by (rule posts_pieces_append)
      with rd Inr e v1(1) True show ?thesis by simp
    next
      case False
      with pe obtain e' where "r = Inl e'" by (auto simp: posts_pieces_def)
      with pe rd Inr e False show ?thesis by simp
    qed
  qed
qed

section \<open>Properties\<close>

text \<open>C34: the executables are uploaded in pieces. On a host that does not change meanwhile, the list
  of every regular file of the system directories with its digest, in the order of the directories,
  is posted in its consecutive pieces of two hundred, the last one shorter. When a directory, an
  entry or a digest cannot be read, the upload ends with an error: of the files before it the full
  pieces of two hundred are posted, and those that do not fill a piece are not.\<close>

theorem global_upload_batches:
  assumes "still_host A D H" and "run_state (process_all_dirs A nc url) a = (r, a')" and "dir_items D H DIRS = (items, complete)"
  shows "(if complete then r = Inr () else \<exists>e. r = Inl e)
     \<and> ag_posts a' = ag_posts a @ map (\<lambda>c. (url, build_linux_dir_json A c))
         (if complete then chunks 200 items else filter (\<lambda>c. length c = 200) (chunks 200 items))
     \<and> concat (chunks 200 items) = items \<and> (\<forall>c \<in> set (chunks 200 items). 0 < length c \<and> length c \<le> 200)"
proof -
  obtain q a1 where d: "run_state (process_dirs A nc url DIRS []) a = (q, a1)" by (rule prod.exhaust)
  from process_dirs_run [OF assms(1), of "[]" DIRS url a nc] d assms(3)
  have "posts_pieces A url [] (items, complete) a (q, a1)" by simp
  then obtain cs v' where p: "length v' < 200" "\<forall>c \<in> set cs. length c = 200" "ag_posts a1 = ag_posts a @ batches A url cs"
    "\<forall>ys. chunks 200 (items @ ys) = cs @ chunks 200 (v' @ ys)" "if complete then q = Inr v' else \<exists>e. q = Inl e"
    unfolding posts_pieces_def by (metis append_Nil fst_conv snd_conv)
  have c: "chunks 200 items = cs @ chunks 200 v'" using p(4) [rule_format, of "[]"] by simp
  have "filter (\<lambda>c. length c = 200) (chunks 200 items) = cs" using p(1,2) by (simp add: c chunks_rest)
  moreover have "(if complete then r = Inr () else \<exists>e. r = Inl e)
     \<and> ag_posts a' = ag_posts a @ batches A url (if complete then cs @ chunks 200 v' else cs)"
  proof (cases complete)
    case False
    with assms(2) d p(3,5) show ?thesis by (auto simp: process_all_dirs_def)
  next
    case True
    show ?thesis
    proof (cases "v' = []")
      case v: True
      with assms(2) d p(3,5) True show ?thesis by (simp add: process_all_dirs_def chunks_rest)
    next
      case False
      with assms(2) d p(3,5) True post_batch_log [of A nc url v' a1] show ?thesis
        by (auto simp: process_all_dirs_def chunks_rest p(1) case_prod_beta)
    qed
  qed
  moreover have "concat (chunks 200 xs) = xs \<and> (\<forall>c \<in> set (chunks 200 xs). 0 < length c \<and> length c \<le> 200)" for xs :: "linux_dir_proc list"
    using chunks_bound chunks_concat by (metis length_greater_0_conv zero_less_numeral)
  ultimately show ?thesis unfolding c [symmetric] by simp
qed

text \<open>A directory report has at most a thousand entries: scanning the rules gives the first
  thousand records of all directories in the order of the rules (directories that are missing or
  cannot be opened count as empty), and changes nothing.\<close>

theorem upload_dir_bounded:
  "run_state (scan_rules A rules []) a = (take 1000 (concat (map (dir_files A (ag_world a)) rules)), a)"
  using scan_rules_run [of "[]" A rules a] by (simp add: MAX_FILES_def)

text \<open>The access mode is never rendered: the range \<^verbatim>\<open>6..=0\<close> is empty, so the text has one
  character whatever the permissions are. That character marks directories, but also sockets and
  block devices, whose type code shares the bit that is tested.\<close>

theorem mode_to_string_no_permissions:
  "mode_to_string mode = (if mode AND 0x4000 \<noteq> 0 then ''d'' else ''-'')
   \<and> mode_to_string 0xC1ED = ''d'' \<and> mode_to_string 0x61B0 = ''d''"
  by (simp add: mode_to_string_def inclusive_step_def)

text \<open>A host with one executable, in the first directory, beside a subdirectory.\<close>

definition lab_listing :: "string \<Rightarrow> dir_item list" where
  "lab_listing p = (if p = ''/bin/'' then
     [\<lparr>di_path = ''/bin/sub'', di_utf8 = Some ''/bin/sub'', di_name = Some ''sub'', di_ext = None, di_dir_or_link = True, di_meta = None\<rparr>,
      \<lparr>di_path = ''/bin/ls'', di_utf8 = Some ''/bin/ls'', di_name = Some ''ls'', di_ext = None, di_dir_or_link = False, di_meta = None\<rparr>]
     else [])"

definition lab_scan_ext :: "(unit, unit, unit) agent_ext" where
  "lab_scan_ext = (lab_agent_ext free_files (\<lambda>_. JNull))\<lparr>ax_read_dir := \<lambda>p w. if p = ''/usr/lib/systemd/'' then Inl ''not found'' else Inr (map Inr (lab_listing p)),
     ax_md5 := \<lambda>p w. (Inr ''00ff'', w)\<rparr>"

text \<open>On that host a directory is missing: the executable that was found is not uploaded.\<close>

theorem global_upload_batches_witness:
  "ag_posts (snd (run_state (process_all_dirs lab_scan_ext \<lparr>client = (), base_url = Some ''u''\<rparr> ''u/exe'') lab_agent)) = []
   \<and> ag_posts (snd (run_state (process_all_dirs (lab_scan_ext\<lparr>ax_read_dir := \<lambda>p w. Inr (map Inr (lab_listing p))\<rparr>)
       \<lparr>client = (), base_url = Some ''u''\<rparr> ''u/exe'') lab_agent))
     = [(''u/exe'', build_linux_dir_json lab_scan_ext [dir_proc ''/bin/ls'' ''00ff''])]"
proof
  let ?E = "lab_scan_ext\<lparr>ax_read_dir := \<lambda>p w. Inr (map Inr (lab_listing p))\<rparr>"
  let ?D = "\<lambda>p. if p = ''/usr/lib/systemd/'' then Inl ''not found'' else Inr (map Inr (lab_listing p))"
  let ?item = "dir_proc ''/bin/ls'' ''00ff''"
  have s: "still_host lab_scan_ext ?D (\<lambda>_. Inr ''00ff'')" "still_host ?E (\<lambda>p. Inr (map Inr (lab_listing p))) (\<lambda>_. Inr ''00ff'')"
    by (simp_all add: still_host_def lab_scan_ext_def)
  have i: "dir_items ?D (\<lambda>_. Inr ''00ff'') DIRS = ([?item], False)"
    "dir_items (\<lambda>p. Inr (map Inr (lab_listing p))) (\<lambda>_. Inr ''00ff'') DIRS = ([?item], True)"
    by (simp_all add: DIRS_def lab_listing_def)
  show "ag_posts (snd (run_state (process_all_dirs lab_scan_ext \<lparr>client = (), base_url = Some ''u''\<rparr> ''u/exe'') lab_agent)) = []"
    using global_upload_batches [OF s(1) prod.collapse [symmetric] i(1), of "\<lparr>client = (), base_url = Some ''u''\<rparr>" "''u/exe''" lab_agent]
    by (simp add: chunks_rest lab_agent_def)
  have "build_linux_dir_json ?E = build_linux_dir_json lab_scan_ext" by (simp add: build_linux_dir_json_def fun_eq_iff)
  then show "ag_posts (snd (run_state (process_all_dirs ?E \<lparr>client = (), base_url = Some ''u''\<rparr> ''u/exe'') lab_agent))
     = [(''u/exe'', build_linux_dir_json lab_scan_ext [?item])]"
    using global_upload_batches [OF s(2) prod.collapse [symmetric] i(2), of "\<lparr>client = (), base_url = Some ''u''\<rparr>" "''u/exe''" lab_agent]
    by (simp add: chunks_rest lab_agent_def)
qed

end
