(* ===== verification/Agent_Kernel.thy ===== *)
theory Agent_Kernel
  imports Upload_Tasks
begin

text \<open>
  The managers of an agent share one log of writes to the control files. Each is a \<open>tenant\<close> of it:
  its own operations keep the kernel module in step with it, and those of the others write to
  other files. \<open>agent_ok\<close> collects what holds of the four managers at once.
\<close>

section \<open>The tenants\<close>

text \<open>The tables of blocked addresses, with every address distinguishable from the clear command.\<close>

definition ip_ok :: "'w ip_state \<Rightarrow> bool" where
  "ip_ok s \<longleftrightarrow> ip_inv s \<and> tables_agree s \<and> (\<forall>p \<in> snd ` set (ip_policies s). ipp_ip p \<noteq> ''c'')"

lemma kernel_lists_elsewhere:
  "fst ` set k \<inter> {PROCESS_RULE_FILE, MD5_RULE_FILE} = {} \<Longrightarrow> kernel_lists (l @ k) = kernel_lists l"
proof (induction k rule: rev_induct)
  case (snoc x k)
  then have "kernel_lists (l @ k) = kernel_lists l" "fst x \<noteq> MD5_RULE_FILE" by auto
  then show ?case by (cases x) (simp add: kernel_lists_def)
qed simp

lemma loaded_elsewhere: "fst ` set k \<inter> Q = {} \<Longrightarrow> path \<in> Q \<Longrightarrow> loaded path (l @ k) = loaded path l"
  by (rule loaded_other) auto

interpretation ip_tenant: tenant ip_view put_ip ip_ok "{v4_path, v6_path}"
proof
  fix s :: "'w ip_state" and a :: "('c, 'w) agent"
  show "ip_view (put_ip s a) = s" by (simp add: part_defs)
next
  fix s :: "'w ip_state" and k :: "(string \<times> string) list" and w
  assume "ip_ok s" and "fst ` set k \<inter> {v4_path, v6_path} = {}"
  then show "ip_ok (s\<lparr>fos := w, write_log := write_log s @ k\<rparr>)"
    using loaded_elsewhere [of k "{v4_path, v6_path}"] by (simp add: ip_ok_def ip_inv_def tables_agree_def)
qed

interpretation proc_tenant: tenant proc_view put_proc kernel_told "{PROCESS_RULE_FILE, MD5_RULE_FILE}"
proof
  fix s :: "'w policy_state" and a :: "('c, 'w) agent"
  show "proc_view (put_proc s a) = s" by (simp add: part_defs)
next
  fix s :: "'w policy_state" and k :: "(string \<times> string) list" and w
  assume "kernel_told s" and "fst ` set k \<inter> {PROCESS_RULE_FILE, MD5_RULE_FILE} = {}"
  then show "kernel_told (s\<lparr>fos := w, write_log := write_log s @ k\<rparr>)"
    by (simp add: kernel_told_def kernel_lists_elsewhere)
qed

interpretation pattern_tenant: tenant pattern_view put_pattern in_sync pattern_paths
proof
  fix s :: "'w pattern_state" and a :: "('c, 'w) agent"
  show "pattern_view (put_pattern s a) = s" by (simp add: part_defs)
next
  fix s :: "'w pattern_state" and k :: "(string \<times> string) list" and w
  assume "in_sync s" and "fst ` set k \<inter> pattern_paths = {}"
  then show "in_sync (s\<lparr>fos := w, write_log := write_log s @ k\<rparr>)"
    using loaded_elsewhere [of k pattern_paths]
    by (simp add: in_sync_def pre_texts_def cur_texts_def pattern_texts_def process_texts_def)
qed

interpretation process_tenant: tenant process_view put_process pm_synced process_paths
proof
  fix s :: "'w process_mgr" and a :: "('c, 'w) agent"
  show "process_view (put_process s a) = s" by (simp add: part_defs)
next
  fix s :: "'w process_mgr" and k :: "(string \<times> string) list" and w
  assume "pm_synced s" and "fst ` set k \<inter> process_paths = {}"
  then show "pm_synced (s\<lparr>fos := w, write_log := write_log s @ k\<rparr>)"
    using loaded_elsewhere [of k process_paths]
    by (simp add: pm_synced_def pm_pre_def pm_cur_def pm_shape_def pm_patterns_def pm_rules_def)
qed

section \<open>All of them\<close>

definition agent_ok :: "('c, 'w) agent \<Rightarrow> bool" where
  "agent_ok a \<longleftrightarrow> ip_ok (ip_view a) \<and> kernel_told (proc_view a) \<and> in_sync (pattern_view a) \<and> pm_synced (process_view a)"

definition control_paths :: "string set" where
  "control_paths = {v4_path, v6_path} \<union> {PROCESS_RULE_FILE, MD5_RULE_FILE} \<union> pattern_paths \<union> process_paths"

lemmas path_defs = v4_path_def v6_path_def PROCESS_RULE_FILE_def MD5_RULE_FILE_def file_patterns_path_def
  rules_path_def true_process_path_def FILE_PATTERNS_PROC_FILE_def DPI_RULE_PROC_FILE_def

lemma keeps_conj4:
  "keeps P m \<Longrightarrow> keeps Q m \<Longrightarrow> keeps R m \<Longrightarrow> keeps S m \<Longrightarrow> keeps (\<lambda>s. P s \<and> Q s \<and> R s \<and> S s) m"
  by (simp add: keeps_def)

lemma agent_ok_keeps:
  "keeps (\<lambda>a. ip_ok (ip_view a)) m \<Longrightarrow> keeps (\<lambda>a. kernel_told (proc_view a)) m \<Longrightarrow>
   keeps (\<lambda>a. in_sync (pattern_view a)) m \<Longrightarrow> keeps (\<lambda>a. pm_synced (process_view a)) m \<Longrightarrow> keeps agent_ok m"
  unfolding agent_ok_def by (rule keeps_conj4)

text \<open>An operation of one manager.\<close>

lemma agent_ok_ip:
  assumes "keeps ip_ok m" and "\<And>l. keeps (wrote l {v4_path, v6_path}) m"
  shows "keeps agent_ok (on_ip m)"
  by (intro agent_ok_keeps ip_tenant.own proc_tenant.bystander [OF _ _ assms(2)] pattern_tenant.bystander [OF _ _ assms(2)] process_tenant.bystander [OF _ _ assms(2)] assms(1))
    (simp_all add: part_defs path_defs)

lemma agent_ok_proc:
  assumes "keeps kernel_told m" and "\<And>l. keeps (wrote l {PROCESS_RULE_FILE, MD5_RULE_FILE}) m"
  shows "keeps agent_ok (on_proc m)"
  by (intro agent_ok_keeps proc_tenant.own ip_tenant.bystander [OF _ _ assms(2)] pattern_tenant.bystander [OF _ _ assms(2)] process_tenant.bystander [OF _ _ assms(2)] assms(1))
    (simp_all add: part_defs path_defs)

lemma agent_ok_pattern:
  assumes "keeps in_sync m" and "\<And>l. keeps (wrote l pattern_paths) m"
  shows "keeps agent_ok (on_pattern m)"
  by (intro agent_ok_keeps pattern_tenant.own ip_tenant.bystander [OF _ _ assms(2)] proc_tenant.bystander [OF _ _ assms(2)] process_tenant.bystander [OF _ _ assms(2)] assms(1))
    (simp_all add: part_defs path_defs)

lemma agent_ok_process:
  assumes "keeps pm_synced m" and "\<And>l. keeps (wrote l process_paths) m"
  shows "keeps agent_ok (on_process_pattern m)"
  by (intro agent_ok_keeps process_tenant.own ip_tenant.bystander [OF _ _ assms(2)] proc_tenant.bystander [OF _ _ assms(2)] pattern_tenant.bystander [OF _ _ assms(2)] assms(1))
    (simp_all add: part_defs path_defs)

text \<open>Writes to other files.\<close>

lemma agent_ok_files:
  assumes "\<And>l. keeps (wrote l Q) m" and "Q \<inter> control_paths = {}"
  shows "keeps agent_ok (on_files m)"
  by (intro agent_ok_keeps ip_tenant.bystander [OF _ _ assms(1)] proc_tenant.bystander [OF _ _ assms(1)]
      pattern_tenant.bystander [OF _ _ assms(1)] process_tenant.bystander [OF _ _ assms(1)])
    (use assms(2) in \<open>auto simp: part_defs control_paths_def\<close>)

text \<open>Whatever leaves the managers and the log of writes alone.\<close>

definition same_managers :: "('c, 'w) agent \<Rightarrow> ('c, 'w) agent \<Rightarrow> bool" where
  "same_managers a b \<longleftrightarrow> ag_writes a = ag_writes b \<and> ag_ip a = ag_ip b \<and> ag_proc a = ag_proc b
     \<and> ag_pattern a = ag_pattern b \<and> ag_process a = ag_process b"

lemma fos_write_log_swap: "s\<lparr>write_log := l, fos := w\<rparr> = s\<lparr>fos := w, write_log := l\<rparr>"
  by (cases s) simp

lemma agent_ok_same:
  assumes "agent_ok a" and "same_managers a b"
  shows "agent_ok b"
proof -
  have v: "\<exists>w. ip_view b = (ip_view a)\<lparr>fos := w\<rparr>" "\<exists>w. proc_view b = (proc_view a)\<lparr>fos := w\<rparr>"
    "\<exists>w. pattern_view b = (pattern_view a)\<lparr>fos := w\<rparr>" "\<exists>w. process_view b = (process_view a)\<lparr>fos := w\<rparr>"
    using assms(2) by (auto simp: same_managers_def part_defs fos_write_log_swap)
  from v(1) ip_tenant.inv_elsewhere [of "ip_view a" "[]"] assms(1) have "ip_ok (ip_view b)" by (auto simp: agent_ok_def)
  moreover from v(2) proc_tenant.inv_elsewhere [of "proc_view a" "[]"] assms(1) have "kernel_told (proc_view b)"
    by (auto simp: agent_ok_def)
  moreover from v(3) pattern_tenant.inv_elsewhere [of "pattern_view a" "[]"] assms(1) have "in_sync (pattern_view b)"
    by (auto simp: agent_ok_def)
  moreover from v(4) process_tenant.inv_elsewhere [of "process_view a" "[]"] assms(1) have "pm_synced (process_view b)"
    by (auto simp: agent_ok_def)
  ultimately show ?thesis by (simp add: agent_ok_def)
qed

lemma agent_ok_net_blind [simp]: "net_blind agent_ok"
  unfolding net_blind_def by (auto intro: agent_ok_same simp: same_managers_def)

lemma agent_ok_sys: "keeps agent_ok (on_sys m)" "keeps agent_ok (on_jump j)"
  by (auto simp: keeps_def part_defs same_managers_def intro: agent_ok_same)

lemma agent_ok_modify: "(\<And>a. same_managers a (f a)) \<Longrightarrow> keeps agent_ok (modify f)"
  by (auto simp: keeps_def intro: agent_ok_same)

section \<open>The operations of the managers\<close>

lemma update_in_set: "snd ` set (AList.update k v al) \<subseteq> insert v (snd ` set al)"
  by (induction al) auto

lemma set_merge_policies:
  "snd ` set (ip_policies (fold merge_policy ps s)) \<subseteq> snd ` set (ip_policies s) \<union> set ps"
proof (induction ps arbitrary: s)
  case (Cons p ps)
  have "snd ` set (ip_policies (merge_policy p s)) \<subseteq> insert p (snd ` set (ip_policies s))"
    using update_in_set [of "ipp_ip p" p] by (auto simp: merge_policy_def set_timer_def Let_def)
  with Cons.IH [of "merge_policy p s"] show ?case by auto
qed simp

lemma ip_ok_written:
  assumes "files_ok F" and "run_state (write_policies_to_proc F h) s = (r, s')" and "ip_inv s"
    and "\<forall>p \<in> snd ` set (ip_policies s). ipp_ip p \<noteq> ''c''"
  shows "ip_ok s'"
proof -
  have "r = Inr ()" using succeedsD [OF write_policies_ok [OF assms(1)] assms(2)] by simp
  with assms(2) have w: "run_state (write_policies_to_proc F h) s = (Inr (), s')" by simp
  from write_policies_agree [OF w] write_policies_maps [OF w] assms(3,4) show ?thesis
    by (auto simp: ip_ok_def ip_inv_def)
qed

lemma ip_ok_update:
  assumes "files_ok F" and "\<forall>p \<in> set ps. ipp_ip p \<noteq> ''c''"
  shows "keeps ip_ok (update_and_write_policies F h ps)"
proof (rule keepsI)
  fix s r s'
  assume i: "ip_ok s" and run: "run_state (update_and_write_policies F h ps) s = (r, s')"
  from update_run [OF run] have w: "run_state (write_policies_to_proc F h) (fold merge_policy ps s) = (r, s')" by blast
  have "\<forall>p \<in> snd ` set (ip_policies (fold merge_policy ps s)). ipp_ip p \<noteq> ''c''"
    using set_merge_policies [of ps s] i assms(2) unfolding ip_ok_def by blast
  with i show "ip_ok s'" by (intro ip_ok_written [OF assms(1) w]) (simp_all add: ip_ok_def ip_inv_fold_merge)
qed

lemma ip_ok_expiry: "files_ok F \<Longrightarrow> keeps ip_ok (expiry_task F h ip)"
proof (rule keepsI)
  fix s u s'
  assume F: "files_ok F" and i: "ip_ok s" and run: "run_state (expiry_task F h ip) s = (u, s')"
  from expiry_run [OF run] obtain r where
    w: "run_state (write_policies_to_proc F h) (s\<lparr>ip_policies := AList.delete ip (ip_policies s),
      expiry_tasks := AList.delete ip (expiry_tasks s)\<rparr>) = (r, s')" by blast
  have "\<forall>p \<in> snd ` set (AList.delete ip (ip_policies s)). ipp_ip p \<noteq> ''c''" using i by (auto simp: ip_ok_def AList.delete_eq)
  with i show "ip_ok s'" by (intro ip_ok_written [OF F w]) (simp_all add: ip_ok_def ip_inv_delete)
qed

lemma kernel_told_set:
  "files_ok F \<Longrightarrow> \<forall>p \<in> set xs. plain_path p \<Longrightarrow> keeps kernel_told (set_policy_process F h xs c)"
  unfolding keeps_def using kernel_told_put [of F _ xs h c] by (simp add: put_process_list_def)

lemma wrote_trans: "wrote l Q s \<Longrightarrow> wrote (write_log s) Q s' \<Longrightarrow> wrote l Q s'"
  unfolding wrote_def by (elim exE conjE) (simp add: image_Un)

text \<open>A state computation all of whose runs are steps of the pattern manager.\<close>

lemma pattern_op:
  assumes "\<And>s u s'. run_state m s = (u, s') \<Longrightarrow> pattern_step F s s'" and "files_ok F"
  shows "keeps agent_ok (on_pattern m)"
proof (rule agent_ok_pattern)
  show "keeps in_sync m" by (rule keepsI) (rule in_sync_step [OF assms(1) assms(2)])
  show "keeps (wrote l pattern_paths) m" for l
    by (rule keepsI) (rule wrote_trans, assumption, rule wrote_pattern_step [OF assms(1)])
qed

lemma process_op:
  assumes "\<And>s u s'. run_state m s = (u, s') \<Longrightarrow> pm_step F s s'" and "files_ok F"
    and "\<And>l. keeps (wrote l process_paths) m"
  shows "keeps agent_ok (on_process_pattern m)"
  by (rule agent_ok_process, rule keepsI, rule pm_synced_step [OF assms(1) assms(2)]) (use assms(3) in simp_all)

lemma agent_ok_managers:
  assumes "files_ok F"
  shows "keeps agent_ok (on_pattern (add_file_pattern F b))" "keeps agent_ok (on_pattern (set_global_trust_dir F ds))"
    "keeps agent_ok (on_pattern (set_exiport_dir F h es))" "keeps agent_ok (on_pattern (clear_exiport_dir F))"
    "keeps agent_ok (on_pattern (set_protect_dir F rs))" "keeps agent_ok (on_pattern (clear_protect_dir F))"
    "keeps agent_ok (on_process_pattern (pm_init F))"
    "\<forall>d \<in> set ds. nl \<notin> set (td_dir d) \<Longrightarrow> keeps agent_ok (on_process_pattern (pm_set_global_trust_dir F ds))"
    "\<forall>p \<in> set xs. plain_path p \<Longrightarrow> keeps agent_ok (on_proc (set_policy_process F g xs c))"
    "\<forall>p \<in> set ps. ipp_ip p \<noteq> ''c'' \<Longrightarrow> keeps agent_ok (on_ip (update_and_write_policies F k ps))"
    "keeps agent_ok (on_ip (expiry_task F k ip))"
proof -
  note P = pattern_op [OF _ assms] and M = process_op [OF _ assms]
  show "keeps agent_ok (on_pattern (add_file_pattern F b))" "keeps agent_ok (on_pattern (set_global_trust_dir F ds))"
    "keeps agent_ok (on_pattern (set_exiport_dir F h es))" "keeps agent_ok (on_pattern (clear_exiport_dir F))"
    "keeps agent_ok (on_pattern (set_protect_dir F rs))" "keeps agent_ok (on_pattern (clear_protect_dir F))"
    by (rule P, erule pattern_step.intros)+
  show "keeps agent_ok (on_process_pattern (pm_init F))"
    by (rule M [OF _ wrote_pm_ops(1)]) (erule pm_step.intros)
  show "keeps agent_ok (on_process_pattern (pm_set_global_trust_dir F ds))" if "\<forall>d \<in> set ds. nl \<notin> set (td_dir d)"
    by (rule M [OF _ wrote_pm_ops(2)]) (rule pm_step.trust [OF that])
  show "keeps agent_ok (on_proc (set_policy_process F g xs c))" if "\<forall>p \<in> set xs. plain_path p"
    by (rule agent_ok_proc [OF kernel_told_set [OF assms that] wrote_set_policy])
  show "keeps agent_ok (on_ip (update_and_write_policies F k ps))" if "\<forall>p \<in> set ps. ipp_ip p \<noteq> ''c''"
    by (rule agent_ok_ip [OF ip_ok_update [OF assms that] wrote_update_policies])
  show "keeps agent_ok (on_ip (expiry_task F k ip))"
    by (rule agent_ok_ip [OF ip_ok_expiry [OF assms] wrote_expiry_task])
qed

end
