(* ===== verification/Task_Config.thy ===== *)
theory Task_Config
  imports Agent_State
begin

text \<open>
  The configuration part of \<^verbatim>\<open>crates/task/src/task_fetcher.rs\<close>: reading the switches of the server's
  document into the configuration, and passing the changes on to the kernel module
  (\<^verbatim>\<open>write_net_rule\<close>, \<^verbatim>\<open>update_config_from_json\<close>, \<^verbatim>\<open>apply_config_diff\<close>). A lock that is poisoned by a
  panic elsewhere is not modelled. The messages that were sent over the netlink socket are kept in
  \<open>ag_sent\<close>.
\<close>

section \<open>Rules of the kernel module\<close>

datatype net_rule =
    ServerIpV4 string
  | ServerPort u32
  | LogIpPort string
  | VirtualOpenPort bool
  | DefenseSwitch u32
  | SelfProtect u32
  | NetLogPolicy bool bool
  | NetBlockSwitch u32

definition ip_str_to_u32 :: "string \<Rightarrow> u32 res" where
  "ip_str_to_u32 ip =
     (case parse_ipv4 ip of None \<Rightarrow> Inl ''invalid IPv4 address syntax'' | Some v4 \<Rightarrow> Inr (ipv4_to_u32 v4))"

definition net_rules_path :: string where "net_rules_path = ''/proc/osec/net_rules''"
definition defense_path :: string where "defense_path = ''/proc/osec/defense_switch''"
definition block_switch_path :: string where "block_switch_path = ''/proc/osec/osec_conn/block_switch''"

definition fs_write :: "('c, 'p, 'w) agent_ext \<Rightarrow> string \<Rightarrow> string \<Rightarrow> (('c, 'w) agent, unit res) state" where
  "fs_write A path content =
     map_err (\<lambda>e. ''Failed to write to '' @ path @ '': '' @ e)
       (on_files (create_and_write (ax_files A) path content))"

definition write_raw :: "('c, 'p, 'w) agent_ext \<Rightarrow> string \<Rightarrow> string \<Rightarrow> (('c, 'w) agent, unit res) state" where
  "write_raw A rule_type value = fs_write A net_rules_path (rule_type @ '' '' @ value @ [nl])"

definition write_defense_switch :: "('c, 'p, 'w) agent_ext \<Rightarrow> string \<Rightarrow> string \<Rightarrow> (('c, 'w) agent, unit res) state" where
  "write_defense_switch A rule_type value = fs_write A defense_path (rule_type @ '' '' @ value @ [nl])"

definition write_netblock_switch :: "('c, 'p, 'w) agent_ext \<Rightarrow> string \<Rightarrow> (('c, 'w) agent, unit res) state" where
  "write_netblock_switch A value = fs_write A block_switch_path (value @ [nl])"

definition agent_send :: "('c, 'p, 'w) agent_ext \<Rightarrow> u16 \<Rightarrow> u8 list \<Rightarrow> (('c, 'w) agent, unit res) state" where
  "agent_send A msg_type data = do {
     nl_sock \<leftarrow> gets tf_nl_sock;
     case nl_sock of
       None \<Rightarrow> State_Monad.return (Inl ''Netlink socket not initialized'')
     | Some sock \<Rightarrow>
         tryE (on_world (send_message (ax_nl A) sock msg_type data)) (\<lambda>_. do {
           modify (\<lambda>a. a\<lparr>ag_sent := ag_sent a @ [(msg_type, data)]\<rparr>);
           State_Monad.return (Inr ())
         })
   }"

fun write_net_rule :: "('c, 'p, 'w) agent_ext \<Rightarrow> net_rule \<Rightarrow> (('c, 'w) agent, unit res) state" where
  "write_net_rule A (ServerIpV4 ip) =
     (case ip_str_to_u32 ip of
        Inl e \<Rightarrow> State_Monad.return (Inl e)
      | Inr ip_u32 \<Rightarrow> write_raw A ''server_ipv4 '' (show_word ip_u32))"
| "write_net_rule A (ServerPort port) = write_raw A ''server_port '' (show_word port)"
| "write_net_rule A (LogIpPort log_ip_port) = write_raw A ''log_ip_port '' log_ip_port"
| "write_net_rule A (VirtualOpenPort st) = write_raw A ''vir_open_port_switch '' (if st then ''1'' else ''0'')"
| "write_net_rule A (DefenseSwitch st) = write_defense_switch A ''defense_switch '' (show_word st)"
| "write_net_rule A (SelfProtect st) = agent_send A 0x103 (le_bytes 4 st)"
| "write_net_rule A (NetLogPolicy syslog_process proc) =
     agent_send A 0x702 [of_bool syslog_process, of_bool proc, 0, 0]"
| "write_net_rule A (NetBlockSwitch st) = write_netblock_switch A (show_word st)"

section \<open>Reading the document\<close>

definition missing_field :: "string \<Rightarrow> string" where
  "missing_field key = ''Missing or invalid field: '' @ key"

definition get_u32 :: "(string \<times> json) list \<Rightarrow> string \<Rightarrow> u32 res" where
  "get_u32 conf key =
     (case Option.bind (map_of conf key) as_u64 of
        None \<Rightarrow> Inl (missing_field key)
      | Some n \<Rightarrow> if unat n < 2 ^ 32 then Inr (ucast n) else Inl (missing_field key))"

definition get_bool :: "(string \<times> json) list \<Rightarrow> string \<Rightarrow> bool res" where
  "get_bool conf key =
     (case Option.bind (map_of conf key) as_u64 of
        None \<Rightarrow> Inl (missing_field key)
      | Some n \<Rightarrow> Inr (n \<noteq> 0))"

text \<open>\<^verbatim>\<open>try_update!\<close>: an absent or unusable member leaves the field as it was.\<close>

definition upd_u32 :: "(string \<times> json) list \<Rightarrow> string \<Rightarrow> u32 \<Rightarrow> u32" where
  "upd_u32 conf key old = (case get_u32 conf key of Inr v \<Rightarrow> v | Inl _ \<Rightarrow> old)"

definition upd_bool :: "(string \<times> json) list \<Rightarrow> string \<Rightarrow> bool \<Rightarrow> bool" where
  "upd_bool conf key old = (case get_bool conf key of Inr v \<Rightarrow> v | Inl _ \<Rightarrow> old)"

definition merge_config :: "(string \<times> json) list \<Rightarrow> net_info_config \<Rightarrow> net_info_config" where
  "merge_config conf c = c\<lparr>
     nc_cron_time := upd_u32 conf ''crontime'' (nc_cron_time c),
     nc_log_proto := upd_u32 conf ''logproto'' (nc_log_proto c),
     nc_log_sent := upd_u32 conf ''logsent'' (nc_log_sent c),
     nc_cli_port := upd_u32 conf ''debug_switch'' (nc_cli_port c),
     nc_module_switch := upd_u32 conf ''module_switch'' (nc_module_switch c),
     nc_extortion_protect := upd_bool conf ''extortion_protect'' (nc_extortion_protect c),
     nc_extortion_switch := upd_bool conf ''extortion_switch'' (nc_extortion_switch c),
     nc_file_protect := upd_bool conf ''file_protect'' (nc_file_protect c),
     nc_file_switch := upd_bool conf ''file_switch'' (nc_file_switch c),
     nc_self_protect_switch := upd_bool conf ''self_protect_switch'' (nc_self_protect_switch c),
     nc_open_port_switch := upd_bool conf ''open_port_switch'' (nc_open_port_switch c),
     nc_dynamic_switch := upd_bool conf ''dynamic_switch'' (nc_dynamic_switch c),
     nc_proc_protect := upd_bool conf ''proc_protect'' (nc_proc_protect c),
     nc_proc_switch := upd_bool conf ''proc_switch'' (nc_proc_switch c),
     nc_usb_protect := upd_bool conf ''usb_protect'' (nc_usb_protect c),
     nc_usb_switch := upd_bool conf ''usb_switch'' (nc_usb_switch c),
     nc_syslog_inner_switch := upd_bool conf ''syslog_inner_switch'' (nc_syslog_inner_switch c),
     nc_syslog_outer_switch := upd_bool conf ''syslog_outer_switch'' (nc_syslog_outer_switch c),
     nc_syslog_dns_switch := upd_bool conf ''syslog_dns_switch'' (nc_syslog_dns_switch c),
     nc_internet_switch := upd_bool conf ''internet_switch'' (nc_internet_switch c),
     nc_syslog_process_switch := upd_bool conf ''syslog_process_switch'' (nc_syslog_process_switch c),
     nc_syslog_login_switch := upd_bool conf ''syslog_login_switch'' (nc_syslog_login_switch c),
     nc_outreach_time := upd_u32 conf ''outreach_time'' (nc_outreach_time c),
     nc_outreach_switch := upd_bool conf ''outreach_switch'' (nc_outreach_switch c),
     nc_baseline_switch := upd_bool conf ''baseline_switch'' (nc_baseline_switch c),
     nc_baseline_time := upd_u32 conf ''baseline_time'' (nc_baseline_time c),
     nc_hardware_switch := upd_bool conf ''hardware_switch'' (nc_hardware_switch c),
     nc_hardware_time := upd_u32 conf ''hardware_time'' (nc_hardware_time c),
     nc_log_ip_port := (case map_of conf ''logipport'' of
        None \<Rightarrow> nc_log_ip_port c
      | Some v \<Rightarrow> (case as_str v of Some t \<Rightarrow> if t = [] then None else Some t | None \<Rightarrow> None))\<rparr>"

section \<open>Passing changes on\<close>

text \<open>The stages of \<^verbatim>\<open>apply_config_diff\<close>, in order; the first error ends it. The switches of the
  previous call are kept in the fetcher.\<close>

definition diff_self_protect :: "('c, 'p, 'w) agent_ext \<Rightarrow> net_info_config \<Rightarrow> (('c, 'w) agent, unit res) state" where
  "diff_self_protect A new = do {
     prev \<leftarrow> gets prev_self_protect_switch;
     if nc_self_protect_switch new \<noteq> prev then do {
       modify (\<lambda>a. a\<lparr>prev_self_protect_switch := nc_self_protect_switch new\<rparr>);
       if nc_mod_ver new \<noteq> [] then do {
         on_pattern (add_file_pattern (ax_files A) (nc_self_protect_switch new));
         write_net_rule A (SelfProtect (of_bool (nc_self_protect_switch new)))
       } else State_Monad.return (Inr ())
     } else State_Monad.return (Inr ())
   }"

definition diff_open_port :: "('c, 'p, 'w) agent_ext \<Rightarrow> net_info_config \<Rightarrow> (('c, 'w) agent, unit res) state" where
  "diff_open_port A new = do {
     prev \<leftarrow> gets prev_open_port_switch;
     if nc_open_port_switch new \<noteq> prev then do {
       modify (\<lambda>a. a\<lparr>prev_open_port_switch := nc_open_port_switch new\<rparr>);
       if nc_mod_ver new \<noteq> [] then write_net_rule A (VirtualOpenPort (nc_open_port_switch new))
       else State_Monad.return (Inr ())
     } else State_Monad.return (Inr ())
   }"

definition diff_dynamic :: "('c, 'p, 'w) agent_ext \<Rightarrow> net_info_config \<Rightarrow> (('c, 'w) agent, unit res) state" where
  "diff_dynamic A new = do {
     prev \<leftarrow> gets prev_dynamic_switch;
     if nc_dynamic_switch new \<noteq> prev then do {
       modify (\<lambda>a. a\<lparr>prev_dynamic_switch := nc_dynamic_switch new\<rparr>);
       write_net_rule A (NetBlockSwitch (of_bool (nc_dynamic_switch new)))
     } else State_Monad.return (Inr ())
   }"

definition diff_file :: "('c, 'p, 'w) agent_ext \<Rightarrow> net_info_config \<Rightarrow> (('c, 'w) agent, unit res) state" where
  "diff_file A new = do {
     prev \<leftarrow> gets prev_file_switch;
     (if nc_file_switch new \<noteq> prev then do {
        (if nc_mod_ver new \<noteq> [] \<and> \<not> nc_file_switch new then on_pattern (clear_protect_dir (ax_files A))
         else State_Monad.return ());
        modify (\<lambda>a. a\<lparr>prev_file_switch := nc_file_switch new\<rparr>)
      } else State_Monad.return ());
     State_Monad.return (Inr ())
   }"

definition diff_extortion :: "('c, 'p, 'w) agent_ext \<Rightarrow> net_info_config \<Rightarrow> (('c, 'w) agent, unit res) state" where
  "diff_extortion A new = do {
     prev \<leftarrow> gets prev_extortion_switch;
     (if nc_extortion_protect new \<noteq> prev then do {
        (if nc_mod_ver new \<noteq> [] \<and> \<not> nc_extortion_protect new then on_pattern (clear_exiport_dir (ax_files A))
         else State_Monad.return ());
        modify (\<lambda>a. a\<lparr>prev_extortion_switch := nc_extortion_protect new\<rparr>)
      } else State_Monad.return ());
     State_Monad.return (Inr ())
   }"

definition diff_proc_log :: "('c, 'p, 'w) agent_ext \<Rightarrow> net_info_config \<Rightarrow> (('c, 'w) agent, unit res) state" where
  "diff_proc_log A new = do {
     prev \<leftarrow> gets (\<lambda>a. (prev_proc_switch a, prev_syslog_process_switch a));
     if nc_proc_switch new \<noteq> fst prev \<or> nc_syslog_process_switch new \<noteq> snd prev
     then tryE (write_net_rule A (NetLogPolicy (nc_syslog_process_switch new) (nc_proc_switch new))) (\<lambda>_. do {
       modify (\<lambda>a. a\<lparr>prev_proc_switch := nc_proc_switch new,
                     prev_syslog_process_switch := nc_syslog_process_switch new\<rparr>);
       State_Monad.return (Inr ())
     })
     else State_Monad.return (Inr ())
   }"

definition defense_word :: "net_info_config \<Rightarrow> u32" where
  "defense_word new =
     (let file_flag_temp = (nc_file_switch new \<or> nc_extortion_switch new);
          enable_flag = of_bool file_flag_temp * 2 + of_bool (nc_proc_switch new);
          w = fold (\<lambda>(flag, shift) acc. acc OR push_bit shift (of_bool flag))
                [(nc_open_port_switch new, 14), (nc_internet_switch new, 13), (nc_syslog_dns_switch new, 12),
                 (nc_syslog_outer_switch new, 11), (nc_syslog_inner_switch new, 10), (nc_proc_switch new, 9),
                 (nc_file_switch new, 8), (nc_extortion_switch new, 7), (nc_proc_protect new, 6),
                 (nc_file_protect new, 5), (nc_extortion_protect new, 4)] 0
      in w OR enable_flag)"

definition diff_defense :: "('c, 'p, 'w) agent_ext \<Rightarrow> net_info_config \<Rightarrow> (('c, 'w) agent, unit res) state" where
  "diff_defense A new = do {
     prev \<leftarrow> gets prev_defense_switch;
     if prev \<noteq> Some (defense_word new) then do {
       modify (\<lambda>a. a\<lparr>prev_defense_switch := Some (defense_word new)\<rparr>);
       if nc_mod_ver new \<noteq> [] then write_net_rule A (DefenseSwitch (defense_word new))
       else State_Monad.return (Inr ())
     } else State_Monad.return (Inr ())
   }"

definition apply_config_diff :: "('c, 'p, 'w) agent_ext \<Rightarrow> net_info_config \<Rightarrow> (('c, 'w) agent, unit res) state" where
  "apply_config_diff A new =
     tryE (diff_self_protect A new) (\<lambda>_. tryE (diff_open_port A new) (\<lambda>_. tryE (diff_dynamic A new) (\<lambda>_.
     tryE (diff_file A new) (\<lambda>_. tryE (diff_extortion A new) (\<lambda>_. tryE (diff_proc_log A new) (\<lambda>_.
       diff_defense A new))))))"

definition update_config_from_json ::
  "('c, 'p, 'w) agent_ext \<Rightarrow> (string \<times> json) list \<Rightarrow> (('c, 'w) agent, unit res) state" where
  "update_config_from_json A conf = do {
     old_cfg \<leftarrow> gets ag_cfg;
     let new_cfg = merge_config conf old_cfg;
     modify (\<lambda>a. a\<lparr>ag_cfg := new_cfg\<rparr>);
     _ \<leftarrow> on_files (to_ini (ax_files A) new_cfg (nc_app_path new_cfg @ ''/net_info.ini''));
     apply_config_diff A new_cfg
   }"

section \<open>What the switches do\<close>

text \<open>The switches as they were last recorded; nothing but the stages changes them.\<close>

definition switches :: "('c, 'w) agent \<Rightarrow> u32 option \<times> bool \<times> bool \<times> bool \<times> bool" where
  "switches a = (prev_defense_switch a, prev_self_protect_switch a, prev_open_port_switch a,
     prev_dynamic_switch a, prev_proc_switch a)"

lemma switches_zoom [keep_intros]:
  "keeps (\<lambda>a. switches a = v) (on_pattern m)" "keeps (\<lambda>a. switches a = v) (on_files f)"
  "keeps (\<lambda>a. switches a = v) (on_world w)"
  by (simp_all add: keeps_def switches_def part_defs on_world_def case_prod_beta)

lemma switches_fs_write [keep_intros]: "keeps (\<lambda>a. switches a = v) (fs_write A path c)"
  unfolding fs_write_def by (intro keep_intros)

lemma switches_send [keep_intros]: "keeps (\<lambda>a. switches a = v) (agent_send A t d)"
  unfolding agent_send_def by (intro keep_intros) (simp add: switches_def)

lemma switches_write_net_rule [keep_intros]: "keeps (\<lambda>a. switches a = v) (write_net_rule A r)"
proof (cases r)
  case (ServerIpV4 ip)
  then show ?thesis by (simp only: write_net_rule.simps write_raw_def) (intro keep_intros)
qed (simp_all add: write_raw_def write_defense_switch_def write_netblock_switch_def switches_fs_write switches_send)

lemma switches_kept: "run_state m a = (r, a') \<Longrightarrow> (\<And>v. keeps (\<lambda>a. switches a = v) m) \<Longrightarrow> switches a' = switches a"
  using keepsD_run [of "\<lambda>b. switches b = switches a" m a r a'] by simp

section \<open>Properties\<close>

text \<open>C31: the layout of the word that switches the protections of the kernel module. Bit 0 is the
  process switch, bit 1 is set if the file or the ransomware switch is, bits 4 to 14 are the
  eleven switches in the order of the table, and no other bit is ever set.\<close>

theorem defense_word_bits:
  "bit (defense_word c) n \<longleftrightarrow> n < 15 \<and>
     [nc_proc_switch c, nc_file_switch c \<or> nc_extortion_switch c, False, False, nc_extortion_protect c,
      nc_file_protect c, nc_proc_protect c, nc_extortion_switch c, nc_file_switch c, nc_proc_switch c,
      nc_syslog_inner_switch c, nc_syslog_outer_switch c, nc_syslog_dns_switch c, nc_internet_switch c,
      nc_open_port_switch c] ! n"
proof -
  have e: "of_bool f * 2 + of_bool p = (push_bit 1 (of_bool f) OR of_bool p :: u32)" for f p
    by (cases f; cases p) simp_all
  consider "n = 0" | "n = 1" | "n = 2" | "n = 3" | "n = 4" | "n = 5" | "n = 6" | "n = 7" | "n = 8" | "n = 9"
    | "n = 10" | "n = 11" | "n = 12" | "n = 13" | "n = 14" | "15 \<le> n" by atomize_elim presburger
  then show ?thesis unfolding defense_word_def Let_def e
    by cases (simp_all add: bit_simps)
qed

text \<open>A switch that the kernel module refused is recorded as sent. When passing on the self
  protection, the virtual ports, the dynamic blocking or the defense word fails, the same
  configuration passed on again sends nothing, with whatever system underneath. Only the process
  log switches are recorded after they have been sent, so that a refused one is sent again.\<close>

theorem refused_switch_not_resent:
  "(run_state (diff_self_protect A c) a = (Inl e, a') \<longrightarrow> run_state (diff_self_protect B c) a' = (Inr (), a'))
   \<and> (run_state (diff_open_port A c) a = (Inl e, a') \<longrightarrow> run_state (diff_open_port B c) a' = (Inr (), a'))
   \<and> (run_state (diff_dynamic A c) a = (Inl e, a') \<longrightarrow> run_state (diff_dynamic B c) a' = (Inr (), a'))
   \<and> (run_state (diff_defense A c) a = (Inl e, a') \<longrightarrow> run_state (diff_defense B c) a' = (Inr (), a'))
   \<and> (run_state (diff_proc_log A c) a = (Inl e, a') \<longrightarrow> switches a' = switches a)"
proof (intro conjI impI)
  assume "run_state (diff_self_protect A c) a = (Inl e, a')"
  then have "prev_self_protect_switch a' = nc_self_protect_switch c"
    using switches_kept [OF _ switches_write_net_rule] switches_kept [OF _ switches_zoom(1)]
    by (fastforce simp: diff_self_protect_def switches_def simp del: write_net_rule.simps run_zoom
        split: prod.splits if_splits)
  then show "run_state (diff_self_protect B c) a' = (Inr (), a')" by (simp add: diff_self_protect_def)
next
  assume "run_state (diff_open_port A c) a = (Inl e, a')"
  then have "prev_open_port_switch a' = nc_open_port_switch c"
    using switches_kept [OF _ switches_write_net_rule]
    by (fastforce simp: diff_open_port_def switches_def simp del: write_net_rule.simps split: if_splits)
  then show "run_state (diff_open_port B c) a' = (Inr (), a')" by (simp add: diff_open_port_def)
next
  assume "run_state (diff_dynamic A c) a = (Inl e, a')"
  then have "prev_dynamic_switch a' = nc_dynamic_switch c"
    using switches_kept [OF _ switches_write_net_rule]
    by (fastforce simp: diff_dynamic_def switches_def simp del: write_net_rule.simps split: if_splits)
  then show "run_state (diff_dynamic B c) a' = (Inr (), a')" by (simp add: diff_dynamic_def)
next
  assume "run_state (diff_defense A c) a = (Inl e, a')"
  then have "prev_defense_switch a' = Some (defense_word c)"
    using switches_kept [OF _ switches_write_net_rule]
    by (fastforce simp: diff_defense_def switches_def simp del: write_net_rule.simps split: if_splits)
  then show "run_state (diff_defense B c) a' = (Inr (), a')" by (simp add: diff_defense_def)
next
  assume "run_state (diff_proc_log A c) a = (Inl e, a')"
  then show "switches a' = switches a"
    using switches_kept [OF _ switches_write_net_rule]
    by (fastforce simp: diff_proc_log_def simp del: write_net_rule.simps split: prod.splits sum.splits if_splits)
qed

text \<open>On a system that refuses every file, the first defense word is recorded and never sent.\<close>

theorem refused_switch_not_resent_witness:
  "\<exists>e a'. run_state (diff_defense (lab_agent_ext refusing_files (\<lambda>_. JNull)) (ag_cfg lab_agent)) lab_agent = (Inl e, a')
     \<and> run_state (diff_defense (lab_agent_ext free_files (\<lambda>_. JNull)) (ag_cfg lab_agent)) a' = (Inr (), a')"
proof -
  let ?r = "run_state (diff_defense (lab_agent_ext refusing_files (\<lambda>_. JNull)) (ag_cfg lab_agent)) lab_agent"
  have "isl (fst ?r)"
    by (simp add: diff_defense_def lab_agent_def lab_agent_ext_def write_defense_switch_def fs_write_def
        refusing_files_def create_and_write_def create_file_def part_defs)
  then obtain e where "?r = (Inl e, snd ?r)" by (metis prod.collapse isl_def)
  with refused_switch_not_resent show ?thesis by metis
qed

end
