(* ===== verification/Upgrade.thy ===== *)
theory Upgrade
  imports Task_Config Task_Common
begin

text \<open>
  \<^verbatim>\<open>task_fetcher.rs\<close>: the update task. It downloads an archive, unpacks it, and when the archive
  holds a program for this architecture it stops the supervisor, exchanges its binary, keeps the
  old one as a backup, and starts the new one.
\<close>

section \<open>Commands\<close>

text \<open>Commands of which only the success counts, and commands whose outcome is ignored.\<close>

definition status_ok :: "('c, 'p, 'w) agent_ext \<Rightarrow> string \<Rightarrow> string list \<Rightarrow> (('c, 'w) agent, bool) state" where
  "status_ok A cmd args = do {
     r \<leftarrow> on_sys (exec_status (ax_sys A) cmd args);
     State_Monad.return (case r of Inr status \<Rightarrow> ps_success status | Inl _ \<Rightarrow> False)
   }"

definition run_quiet :: "('c, 'p, 'w) agent_ext \<Rightarrow> string \<Rightarrow> string list \<Rightarrow> (('c, 'w) agent, unit) state" where
  "run_quiet A cmd args = do { _ \<leftarrow> on_sys (exec_status (ax_sys A) cmd args); State_Monad.return () }"

definition is_process_running :: "('c, 'p, 'w) agent_ext \<Rightarrow> string \<Rightarrow> (('c, 'w) agent, bool) state" where
  "is_process_running A name = status_ok A ''pgrep'' [''-x'', name]"

definition remove_file :: "('c, 'p, 'w) agent_ext \<Rightarrow> string \<Rightarrow> (('c, 'w) agent, unit) state" where
  "remove_file A path = do { _ \<leftarrow> on_world (State (ax_remove_file A path)); State_Monad.return () }"

section \<open>Announcing the stop to the kernel module\<close>

text \<open>\<^verbatim>\<open>format!("{}{}{}", year, month, day)\<close> as a number, plus one.\<close>

definition self_value :: "u64 \<Rightarrow> u64 \<Rightarrow> u64 \<Rightarrow> u64 option" where
  "self_value year month day =
     map_option (\<lambda>n. of_nat n + 1)
       (parse_uint (2 ^ 64 - 1) (show_word year @ show_word month @ show_word day))"

definition self_path :: string where "self_path = ''/proc/osec/self''"

definition write_proc_self :: "('c, 'p, 'w) agent_ext \<Rightarrow> (('c, 'w) agent, unit res) state" where
  "write_proc_self A = do {
     w \<leftarrow> gets ag_world;
     let (year, month, day) = ux_date (ax_up A) w;
     case self_value year month day of
       None \<Rightarrow> State_Monad.return (Inl (utf8 [230, 151, 165, 230, 156, 159, 230, 139, 188, 230, 142, 165, 232, 167, 163, 230, 158, 144, 229, 164, 177, 232, 180, 165, 58, 32] @ ''number too large to fit in target type''))
     | Some final_value \<Rightarrow>
         if \<not> ux_exists (ax_up A) self_path w then State_Monad.return (Inr ())
         else
           tryE (map_err (\<lambda>e. utf8 [229, 134, 153, 229, 133, 165, 229, 164, 177, 232, 180, 165, 58, 32] @ e)
                   (on_files (create_and_write (ax_files A) self_path
                      (''veda '' @ show_word final_value @ '' 0'' @ [nl])))) (\<lambda>_. do {
             w2 \<leftarrow> gets ag_world;
             State_Monad.return (case ux_read_text (ax_up A) self_path w2 of
                 Inl e \<Rightarrow> Inl (utf8 [232, 175, 187, 229, 143, 150, 229, 164, 177, 232, 180, 165, 58, 32] @ e)
               | Inr _ \<Rightarrow> Inr ())
           })
   }"

section \<open>Stopping and starting the services\<close>

definition stop_service :: "('c, 'p, 'w) agent_ext \<Rightarrow> bool \<Rightarrow> string \<Rightarrow> (('c, 'w) agent, unit) state" where
  "stop_service A has_systemctl name = do {
     service_exists \<leftarrow> (if has_systemctl then status_ok A ''systemctl'' [''status'', name] else State_Monad.return False);
     if service_exists then run_quiet A ''systemctl'' [''stop'', name]
     else do {
       running \<leftarrow> is_process_running A name;
       if running then run_quiet A ''pkill'' [''-9'', name] else State_Monad.return ()
     }
   }"

definition any_running :: "('c, 'p, 'w) agent_ext \<Rightarrow> (('c, 'w) agent, bool) state" where
  "any_running A = do {
     r1 \<leftarrow> is_process_running A ''MagicArmorAgent'';
     if r1 then State_Monad.return True
     else do {
       r2 \<leftarrow> is_process_running A ''agent_manager'';
       if r2 then State_Monad.return True else is_process_running A ''osec_cli''
     }
   }"

text \<open>The wait for the processes to end: true when they did within the given number of polls.\<close>

fun wait_exit :: "('c, 'p, 'w) agent_ext \<Rightarrow> nat \<Rightarrow> (('c, 'w) agent, bool) state" where
  "wait_exit A 0 = State_Monad.return False"
| "wait_exit A (Suc n) = do {
     running \<leftarrow> any_running A;
     if running then wait_exit A n else State_Monad.return True
   }"

definition stop_agent :: "('c, 'p, 'w) agent_ext \<Rightarrow> (('c, 'w) agent, unit res) state" where
  "stop_agent A = do {
     has_systemctl \<leftarrow> status_ok A ''which'' [''systemctl''];
     stop_service A has_systemctl ''agent_manager'';
     stop_service A has_systemctl ''osec_cli'';
     for_each [0 :: nat, 1, 2] (\<lambda>_. do {
       run_quiet A ''pkill'' [''-9'', ''MagicArmorAgent''];
       run_quiet A ''killall'' [''-9'', ''MagicArmorAgent'']
     });
     polls \<leftarrow> gets (\<lambda>a. ux_polls (ax_up A) (ag_world a));
     wait_ok \<leftarrow> wait_exit A polls;
     (if wait_ok then State_Monad.return ()
      else for_each [''MagicArmorAgent'', ''agent_manager'', ''osec_cli''] (\<lambda>name. run_quiet A ''pkill'' [''-9'', name]));
     stale \<leftarrow> gets (\<lambda>a. ux_exists (ax_up A) agent_socket (ag_world a));
     (if stale then remove_file A agent_socket else State_Monad.return ());
     State_Monad.return (Inr ())
   }"

definition unit_dir :: "('c, 'p, 'w) agent_ext \<Rightarrow> 'w \<Rightarrow> string" where
  "unit_dir A w =
     (if ux_exists (ax_up A) ''/usr/lib/systemd/system'' w then ''/usr/lib/systemd/system''
      else if ux_exists (ax_up A) ''/lib/systemd/system'' w then ''/lib/systemd/system''
      else ''/etc/systemd/system'')"

definition install_service :: "('c, 'p, 'w) agent_ext \<Rightarrow> (('c, 'w) agent, unit res) state" where
  "install_service A = do {
     w \<leftarrow> gets ag_world;
     if ux_exists (ax_up A) ''/opt/osec/agent_manager.service'' w
     then tryE (map_err (\<lambda>e. utf8 [229, 164, 141, 229, 136, 182, 32, 115, 101, 114, 118, 105, 99, 101, 32, 230, 150, 135, 228, 187, 182, 229, 164, 177, 232, 180, 165, 58, 32] @ e)
                  (on_world (State (ux_copy (ax_up A) ''/opt/osec/agent_manager.service''
                     (unit_dir A w @ ''/agent_manager.service''))))) (\<lambda>_. do {
            run_quiet A ''systemctl'' [''daemon-reload''];
            run_quiet A ''systemctl'' [''enable'', ''agent_manager''];
            State_Monad.return (Inr ())
          })
     else State_Monad.return (Inr ())
   }"

fun await_process :: "('c, 'p, 'w) agent_ext \<Rightarrow> nat \<Rightarrow> (('c, 'w) agent, unit) state" where
  "await_process A 0 = State_Monad.return ()"
| "await_process A (Suc n) = do {
     running \<leftarrow> is_process_running A ''MagicArmorAgent'';
     if running then State_Monad.return () else await_process A n
   }"

definition start_agent :: "('c, 'p, 'w) agent_ext \<Rightarrow> (('c, 'w) agent, unit res) state" where
  "start_agent A = do {
     has_systemctl \<leftarrow> status_ok A ''which'' [''systemctl''];
     tryE (if has_systemctl then do {
             service_installed \<leftarrow> status_ok A ''systemctl'' [''status'', ''agent_manager.service''];
             tryE (if service_installed then State_Monad.return (Inr ()) else install_service A) (\<lambda>_.
             tryE (map_err (\<lambda>e. utf8 [230, 137, 167, 232, 161, 140, 32, 115, 121, 115, 116, 101, 109, 99, 116, 108, 32, 115, 116, 97, 114, 116, 32, 229, 164, 177, 232, 180, 165, 58, 32] @ e)
                     (on_sys (exec_status (ax_sys A) ''systemctl'' [''start'', ''agent_manager'']))) (\<lambda>_.
               State_Monad.return (Inr ())))
           }
           else do {
             has_service \<leftarrow> status_ok A ''which'' [''service''];
             (if has_service then do { run_quiet A ''service'' [''agent_manager'', ''start'']; await_process A 20 }
              else do {
                modify (\<lambda>a. a\<lparr>ag_cmds := ag_cmds a @ [(''/opt/osec/MagicArmorAgent'', [''--daemon''])]\<rparr>);
                _ \<leftarrow> on_world (State (ax_spawn A ''/opt/osec/MagicArmorAgent'' [''--daemon'']));
                State_Monad.return ()
              });
             State_Monad.return (Inr ())
           }) (\<lambda>_. do {
       _ \<leftarrow> is_process_running A ''MagicArmorAgent'';
       State_Monad.return (Inr ())
     })
   }"

fun wait_ready :: "('c, 'p, 'w) agent_ext \<Rightarrow> string \<Rightarrow> nat \<Rightarrow> (('c, 'w) agent, unit res) state" where
  "wait_ready A socket_path left = do {
     r \<leftarrow> on_world (State (ax_connect A socket_path));
     case r of
       Inr _ \<Rightarrow> State_Monad.return (Inr ())
     | Inl e \<Rightarrow> (case left of
           0 \<Rightarrow> State_Monad.return (Inl (utf8 [231, 173, 137, 229, 190, 133, 32, 115, 111, 99, 107, 101, 116, 32, 229, 176, 177, 231, 187, 170, 232, 182, 133, 230, 151, 182, 58, 32] @ e))
         | Suc n \<Rightarrow> wait_ready A socket_path n)
   }"

definition wait_socket_ready :: "('c, 'p, 'w) agent_ext \<Rightarrow> string \<Rightarrow> nat \<Rightarrow> (('c, 'w) agent, unit res) state" where
  "wait_socket_ready A socket_path max_retries =
     (case max_retries of 0 \<Rightarrow> State_Monad.return (Inr ()) | Suc left \<Rightarrow> wait_ready A socket_path left)"

section \<open>Exchanging the binary\<close>

definition temp_dir :: string where "temp_dir = ''/tmp/osec_update''"
definition binary_name :: string where "binary_name = ''MagicArmorAgent''"
definition target_dir :: string where "target_dir = ''/opt/osec''"
definition target_path :: string where "target_path = target_dir @ ''/'' @ binary_name"
definition backup_path :: string where "backup_path = target_dir @ ''/'' @ binary_name @ ''.bak''"

definition supported_arch :: "string \<Rightarrow> bool" where
  "supported_arch arch \<longleftrightarrow> arch = ''x86_64'' \<or> arch = ''aarch64''"

text \<open>The names that the error message lists.\<close>

definition entry_name :: "(string \<times> string option) res \<Rightarrow> string option" where
  "entry_name entry =
     (case entry of
        Inl _ \<Rightarrow> None
      | Inr (lossy, utf8_name) \<Rightarrow> if starts_with ''MagicArmorAgent.'' lossy then Some lossy else utf8_name)"

definition actual_files :: "('c, 'p, 'w) agent_ext \<Rightarrow> 'w \<Rightarrow> string list" where
  "actual_files A w =
     (case ux_list (ax_up A) temp_dir w of
        Inl _ \<Rightarrow> []
      | Inr entries \<Rightarrow> List.map_filter entry_name entries)"

definition src_path :: "string \<Rightarrow> string" where
  "src_path arch = temp_dir @ ''/'' @ binary_name @ ''.'' @ arch"

definition missing_binary :: "('c, 'p, 'w) agent_ext \<Rightarrow> 'w \<Rightarrow> string \<Rightarrow> string" where
  "missing_binary A w arch =
     utf8 [230, 155, 180, 230, 150, 176, 229, 140, 133, 231, 188, 186, 229, 176, 145, 229, 189, 147, 229, 137, 141, 230, 158, 182, 230, 158, 132, 40] @ arch @ utf8 [41, 231, 154, 132, 228, 186, 140, 232, 191, 155, 229, 136, 182, 239, 188, 129] @ [nl] @ utf8 [230, 156, 159, 230, 156, 155, 58, 32] @ binary_name @ ''.'' @ arch @ [nl]
     @ utf8 [229, 174, 158, 233, 153, 133, 229, 140, 133, 229, 144, 171, 58, 32] @ debug_list (actual_files A w)"

text \<open>The backup: an older backup goes first, then the binary takes its name.\<close>

definition backup_binary :: "('c, 'p, 'w) agent_ext \<Rightarrow> (('c, 'w) agent, unit res) state" where
  "backup_binary A = do {
     w \<leftarrow> gets ag_world;
     if ux_exists (ax_up A) target_path w
     then do {
       remove_file A backup_path;
       map_err (\<lambda>e. utf8 [229, 164, 135, 228, 187, 189, 230, 151, 167, 228, 186, 140, 232, 191, 155, 229, 136, 182, 229, 164, 177, 232, 180, 165, 58, 32] @ e) (on_world (State (ux_rename (ax_up A) target_path backup_path)))
     }
     else State_Monad.return (Inr ())
   }"

definition replace_binary_with_arch_check :: "('c, 'p, 'w) agent_ext \<Rightarrow> (('c, 'w) agent, unit res) state" where
  "replace_binary_with_arch_check A = (let arch = ux_arch (ax_up A); X = ax_up A in
     if \<not> supported_arch arch then State_Monad.return (Inl (utf8 [228, 184, 141, 230, 148, 175, 230, 140, 129, 231, 154, 132, 230, 158, 182, 230, 158, 132, 58, 32] @ arch))
     else do {
       w \<leftarrow> gets ag_world;
       if \<not> ux_exists X (src_path arch) w then State_Monad.return (Inl (missing_binary A w arch))
       else
         tryE (map_err (\<lambda>e. utf8 [229, 136, 155, 229, 187, 186, 231, 155, 174, 230, 160, 135, 231, 155, 174, 229, 189, 149, 32] @ target_dir @ utf8 [32, 229, 164, 177, 232, 180, 165, 58, 32] @ e)
                 (on_world (State (ux_create_dir_all X target_dir)))) (\<lambda>_.
         tryE (backup_binary A) (\<lambda>_.
         tryE (map_err (\<lambda>e. utf8 [229, 164, 141, 229, 136, 182, 228, 186, 140, 232, 191, 155, 229, 136, 182, 229, 164, 177, 232, 180, 165, 58, 32] @ e) (on_world (State (ux_copy X (src_path arch) target_path)))) (\<lambda>_.
         tryE (map_err (\<lambda>e. utf8 [232, 174, 190, 231, 189, 174, 230, 137, 167, 232, 161, 140, 230, 157, 131, 233, 153, 144, 229, 164, 177, 232, 180, 165, 58, 32] @ e)
                 (on_world (State (ux_set_permissions X target_path 0x1ED)))) (\<lambda>_. do {
           remove_file A (src_path arch);
           State_Monad.return (Inr ())
         }))))
     })"

definition hot_upgrade :: "('c, 'p, 'w) agent_ext \<Rightarrow> (('c, 'w) agent, unit res) state" where
  "hot_upgrade A =
     tryE (map_err (\<lambda>e. utf8 [119, 114, 105, 116, 101, 95, 112, 114, 111, 99, 95, 115, 101, 108, 102, 32, 229, 164, 177, 232, 180, 165, 58, 32] @ e) (write_proc_self A)) (\<lambda>_.
     tryE (stop_agent A) (\<lambda>_.
     tryE (replace_binary_with_arch_check A) (\<lambda>_.
     tryE (start_agent A) (\<lambda>_.
       wait_socket_ready A agent_socket 20))))"

section \<open>The task\<close>

text \<open>The first entry that is an installer script; an unreadable entry before it is an error.\<close>

fun find_script :: "(string \<times> string option) res list \<Rightarrow> string option res" where
  "find_script [] = Inr None"
| "find_script (Inl e # entries) = Inl e"
| "find_script (Inr (lossy, utf8_name) # entries) =
     (case utf8_name of
        None \<Rightarrow> find_script entries
      | Some name \<Rightarrow>
          if starts_with ''osec-installer'' name \<and> ends_with ''.sh'' name
          then Inr (Some name) else find_script entries)"

definition listed_name :: "(string \<times> string option) res \<Rightarrow> string option" where
  "listed_name entry = (case entry of Inl _ \<Rightarrow> None | Inr (_, Some name) \<Rightarrow> Some name
     | Inr (_, None) \<Rightarrow> Some (utf8 [60, 233, 157, 158, 85, 84, 70, 56, 230, 150, 135, 228, 187, 182, 229, 144, 141, 62]))"

definition no_script :: "('c, 'p, 'w) agent_ext \<Rightarrow> 'w \<Rightarrow> string" where
  "no_script A w =
     utf8 [230, 156, 170, 230, 137, 190, 229, 136, 176, 228, 187, 165, 32, 39, 111, 115, 101, 99, 45, 105, 110, 115, 116, 97, 108, 108, 101, 114, 39, 32, 229, 188, 128, 229, 164, 180, 231, 154, 132, 232, 132, 154, 230, 156, 172, 230, 150, 135, 228, 187, 182, 239, 188, 140, 228, 184, 180, 230, 151, 182, 231, 155, 174, 229, 189, 149, 230, 150, 135, 228, 187, 182, 229, 136, 151, 232, 161, 168, 58, 32]
     @ debug_list (case ux_list (ax_up A) temp_dir w of Inl _ \<Rightarrow> [] | Inr entries \<Rightarrow> List.map_filter listed_name entries)"

definition unpack_update :: "('c, 'p, 'w) agent_ext \<Rightarrow> string \<Rightarrow> string \<Rightarrow> (('c, 'w) agent, unit res) state" where
  "unpack_update A alias zip_bytes = do {
     _ \<leftarrow> on_world (State (ux_remove_dir_all (ax_up A) temp_dir));
     tryE (on_world (State (ux_create_dir_all (ax_up A) temp_dir))) (\<lambda>_.
     tryE (on_files (create_and_write (ax_files A) (temp_dir @ ''/'' @ alias) zip_bytes)) (\<lambda>_.
     tryE (on_world (State (ux_unzip (ax_up A) zip_bytes temp_dir))) (\<lambda>_. do {
       w \<leftarrow> gets ag_world;
       State_Monad.return (case ux_list (ax_up A) temp_dir w of
           Inl e \<Rightarrow> Inl e
         | Inr entries \<Rightarrow>
             (case find_script entries of
                Inl e \<Rightarrow> Inl e
              | Inr None \<Rightarrow> Inl (no_script A w)
              | Inr (Some _) \<Rightarrow> Inr ()))
     })))
   }"

definition need_hot_upgrade :: "('c, 'p, 'w) agent_ext \<Rightarrow> 'w \<Rightarrow> bool" where
  "need_hot_upgrade A w \<longleftrightarrow> supported_arch (ux_arch (ax_up A)) \<and> ux_exists (ax_up A) (src_path (ux_arch (ax_up A))) w"

definition update_alias :: "json \<Rightarrow> string" where
  "update_alias parsed = opt_or ''update.zip'' (Option.bind (json_get (json_index parsed ''data'') ''alias'') as_str)"

definition run_update :: "('c, 'p, 'w) agent_ext \<Rightarrow> string \<Rightarrow> string \<Rightarrow> (('c, 'w) agent, unit res) state" where
  "run_update A alias download_link = do {
     nc \<leftarrow> gets tf_client;
     token \<leftarrow> gets tf_token;
     tryE (map_err (\<lambda>e. utf8 [228, 184, 139, 232, 189, 189, 230, 155, 180, 230, 150, 176, 229, 140, 133, 229, 164, 177, 232, 180, 165, 58, 32] @ e)
             (on_world (download_file_async (ax_http A) nc download_link 120 token))) (\<lambda>zip_bytes.
     tryE (unpack_update A alias zip_bytes) (\<lambda>_. do {
       hot \<leftarrow> gets (\<lambda>a. need_hot_upgrade A (ag_world a));
       tryE (if hot then hot_upgrade A else State_Monad.return (Inr ())) (\<lambda>_. do {
         _ \<leftarrow> send_command_to_agent A ''update'';
         State_Monad.return (Inr ())
       })
     }))
   }"

definition task_update :: "('c, 'p, 'w) agent_ext \<Rightarrow> u64 \<Rightarrow> (('c, 'w) agent, unit res) state" where
  "task_update A task_type =
     tryE (report_task_completion A task_type) (\<lambda>_.
     tryE (task_url ''update'' ''URL for download update not found'') (\<lambda>url.
     tryE (map_err (\<lambda>e. ''Error fetching update info: '' @ e) (agent_post A url [] 30)) (\<lambda>response.
       case ax_json_parse A response of
         Inl e \<Rightarrow> State_Monad.return (Inl (''Failed to parse response: '' @ e))
       | Inr parsed \<Rightarrow>
           if \<not> code_ok parsed
           then State_Monad.return (Inl (''Invalid response code: '' @ opt_or ''unknown'' (as_str (json_index parsed ''code''))))
           else (case as_object (json_index parsed ''data'') of
               None \<Rightarrow> State_Monad.return (Inl (''Missing '' @ [CHR 0x27] @ ''data'' @ [CHR 0x27] @ '' object in response''))
             | Some dat \<Rightarrow>
                 (case Option.bind (map_of dat ''download'') as_str of
                    None \<Rightarrow> State_Monad.return (Inl ''Missing download url'')
                  | Some download_link \<Rightarrow> run_update A (update_alias parsed) download_link)))))"

section \<open>What the exchange keeps\<close>

text \<open>What the code relies on of the file system: \<open>content\<close> tells which files exist and what they
  hold. A file that can be read exists; making a directory and changing permissions change no
  content; a removal concerns one file; a rename either moves the content or does nothing; a copy
  that fails may leave a part of its target.\<close>

definition file_laws :: "('c, 'p, 'w) agent_ext \<Rightarrow> ('w \<Rightarrow> string \<Rightarrow> string option) \<Rightarrow> bool" where
  "file_laws A content \<longleftrightarrow> (let X = ax_up A in
     (\<forall>p w. content w p \<noteq> None \<longrightarrow> ux_exists X p w)
     \<and> (\<forall>p w. content (snd (ux_create_dir_all X p w)) = content w)
     \<and> (\<forall>p m w. content (snd (ux_set_permissions X p m w)) = content w)
     \<and> (\<forall>p w. content (snd (ax_remove_file A p w)) \<in> {content w, (content w)(p := None)})
     \<and> (\<forall>p q w w'. ux_rename X p q w = (Inr (), w') \<longrightarrow> content w' = (content w)(p := None, q := content w p))
     \<and> (\<forall>p q w w' e. ux_rename X p q w = (Inl e, w') \<longrightarrow> content w' = content w)
     \<and> (\<forall>p q w w'. ux_copy X p q w = (Inr (), w') \<longrightarrow> content w p \<noteq> None \<and> content w' = (content w)(q := content w p))
     \<and> (\<forall>p q w w' e. ux_copy X p q w = (Inl e, w') \<longrightarrow> (\<forall>x. x \<noteq> q \<longrightarrow> content w' x = content w x)))"

lemma run_on_world:
  "run_state (on_world (State f)) a = (fst (f (ag_world a)), a\<lparr>ag_world := snd (f (ag_world a))\<rparr>)"
  by (simp add: on_world_def case_prod_unfold)

lemma file_lawsD:
  assumes "file_laws A content"
  shows "content w p = Some c \<Longrightarrow> ux_exists (ax_up A) p w"
    "content (snd (ux_create_dir_all (ax_up A) p w)) = content w"
    "content (snd (ux_set_permissions (ax_up A) p m w)) = content w"
    "q \<noteq> p \<Longrightarrow> content (snd (ax_remove_file A p w)) q = content w q"
    "ux_rename (ax_up A) p q w = (Inr (), w') \<Longrightarrow> content w' = (content w)(p := None, q := content w p)"
    "ux_rename (ax_up A) p q w = (Inl e, w') \<Longrightarrow> content w' = content w"
    "ux_copy (ax_up A) p q w = (Inr (), w') \<Longrightarrow> content w p \<noteq> None"
    "ux_copy (ax_up A) p q w = (Inr (), w') \<Longrightarrow> content w' = (content w)(q := content w p)"
    "ux_copy (ax_up A) p q w = (Inl e, w') \<Longrightarrow> x \<noteq> q \<Longrightarrow> content w' x = content w x"
proof -
  note L = assms [unfolded file_laws_def Let_def]
  show "content w p = Some c \<Longrightarrow> ux_exists (ax_up A) p w" using L by auto
  show "q \<noteq> p \<Longrightarrow> content (snd (ax_remove_file A p w)) q = content w q"
    using L by (elim conjE) (smt (verit) fun_upd_other insert_iff singletonD)
  show "ux_rename (ax_up A) p q w = (Inl e, w') \<Longrightarrow> content w' = content w"
    "ux_copy (ax_up A) p q w = (Inl e, w') \<Longrightarrow> x \<noteq> q \<Longrightarrow> content w' x = content w x" using L by blast+
qed (use assms in \<open>simp_all add: file_laws_def Let_def\<close>)

lemmas update_paths = target_path_def backup_path_def src_path_def target_dir_def temp_dir_def binary_name_def

lemma update_paths_differ: "target_path \<noteq> backup_path" "src_path arch \<noteq> target_path" "src_path arch \<noteq> backup_path"
  by (simp_all add: update_paths)

lemma backup_binary_moves:
  assumes "file_laws A content" and "content (ag_world a) target_path = Some old"
    and "run_state (backup_binary A) a = (r, a')"
  shows "content (ag_world a') (src_path arch) = content (ag_world a) (src_path arch)
    \<and> (if r = Inr () then content (ag_world a') backup_path = Some old else content (ag_world a') target_path = Some old)"
proof -
  let ?w = "snd (ax_remove_file A backup_path (ag_world a))"
  have keep: "content ?w x = content (ag_world a) x" if "x \<noteq> backup_path" for x
    using file_lawsD(4) [OF assms(1) that] .
  obtain r1 w1 where n: "ux_rename (ax_up A) target_path backup_path ?w = (r1, w1)" by (rule prod.exhaust)
  have "a' = a\<lparr>ag_world := w1\<rparr>" "r = Inr () \<longleftrightarrow> (\<exists>u. r1 = Inr u)"
    using assms(3) n file_lawsD(1) [OF assms(1,2)]
    by (auto simp: backup_binary_def remove_file_def run_on_world split: sum.splits)
  moreover have "content w1 (src_path arch) = content (ag_world a) (src_path arch)
      \<and> (if \<exists>u. r1 = Inr u then content w1 backup_path = Some old else content w1 target_path = Some old)"
    using n file_lawsD(5,6) [OF assms(1)] keep update_paths_differ assms(2) by (cases r1) auto
  ultimately show ?thesis by auto
qed

text \<open>C32: the exchange never loses the program. Whichever step fails, the old binary is still there,
  under its own name or as the backup; and when the exchange succeeds, the binary is the one from
  the archive and the backup is the old one.\<close>

theorem old_binary_survives:
  assumes "file_laws A content" and "content (ag_world a) target_path = Some old"
    and "run_state (replace_binary_with_arch_check A) a = (r, a')"
  shows "(content (ag_world a') target_path = Some old \<or> content (ag_world a') backup_path = Some old)
    \<and> (r = Inr () \<longrightarrow> content (ag_world a') backup_path = Some old \<and> content (ag_world a') target_path \<noteq> None
         \<and> content (ag_world a') target_path = content (ag_world a) (src_path (ux_arch (ax_up A))))"
proof (cases "supported_arch (ux_arch (ax_up A)) \<and> ux_exists (ax_up A) (src_path (ux_arch (ax_up A))) (ag_world a)
    \<and> (\<exists>u. fst (ux_create_dir_all (ax_up A) target_dir (ag_world a)) = Inr u)")
  case False
  with assms(2,3) file_lawsD(2) [OF assms(1)] show ?thesis
    by (auto simp: replace_binary_with_arch_check_def Let_def run_on_world split: if_splits sum.splits)
next
  case True
  let ?src = "src_path (ux_arch (ax_up A))"
  let ?a1 = "a\<lparr>ag_world := snd (ux_create_dir_all (ax_up A) target_dir (ag_world a))\<rparr>"
  have c1: "content (ag_world ?a1) = content (ag_world a)" using file_lawsD(2) [OF assms(1)] by simp
  obtain r2 a2 where b: "run_state (backup_binary A) ?a1 = (r2, a2)" by (rule prod.exhaust)
  from backup_binary_moves [OF assms(1) _ b, of old "ux_arch (ax_up A)"] c1 assms(2)
  have c2: "content (ag_world a2) ?src = content (ag_world a) ?src"
    "r2 = Inr () \<Longrightarrow> content (ag_world a2) backup_path = Some old"
    "r2 \<noteq> Inr () \<Longrightarrow> content (ag_world a2) target_path = Some old" by (auto split: if_splits)
  obtain r3 w3 where cp: "ux_copy (ax_up A) ?src target_path (ag_world a2) = (r3, w3)" by (rule prod.exhaust)
  let ?r4 = "fst (ux_set_permissions (ax_up A) target_path 0x1ED w3)"
  let ?w4 = "snd (ux_set_permissions (ax_up A) target_path 0x1ED w3)"
  let ?w5 = "snd (ax_remove_file A ?src ?w4)"
  have c4: "content ?w4 = content w3" "content ?w5 target_path = content w3 target_path"
    "content ?w5 backup_path = content w3 backup_path"
    using file_lawsD(3,4) [OF assms(1)] update_paths_differ by metis+
  have c3: "r2 = Inr () \<Longrightarrow> content w3 backup_path = Some old"
    using file_lawsD(8,9) [OF assms(1)] cp c2(2) update_paths_differ(1) by (cases r3) auto
  have new: "r3 = Inr u \<Longrightarrow> \<exists>c. content w3 target_path = Some c \<and> content (ag_world a) ?src = Some c" for u
    using file_lawsD(7,8) [OF assms(1), of ?src target_path "ag_world a2" w3] cp c2(1) by auto
  have run: "(r2 \<noteq> Inr () \<and> r \<noteq> Inr () \<and> ag_world a' = ag_world a2)
      \<or> (r2 = Inr () \<and> r \<noteq> Inr () \<and> (ag_world a' = w3 \<or> ag_world a' = ?w4))
      \<or> (r2 = Inr () \<and> r = Inr () \<and> (\<exists>u. r3 = Inr u) \<and> ag_world a' = ?w5)"
    using assms(3) True b cp
    by (cases r2; cases r3; cases ?r4)
      (auto simp: replace_binary_with_arch_check_def Let_def run_on_world remove_file_def)
  from run c2 c3 c4 new show ?thesis by auto
qed

text \<open>The commands grow: everything that stops the services only adds to them.\<close>

definition grew :: "(string \<times> string list) list \<Rightarrow> ('c, 'w) agent \<Rightarrow> bool" where
  "grew l a \<longleftrightarrow> (\<exists>k. ag_cmds a = l @ k)"

lemma grew_status: "grew l a \<Longrightarrow> run_state (on_sys (exec_status X cmd args)) a = (r, a') \<Longrightarrow> grew l a' \<and> (cmd, args) \<in> set (ag_cmds a')"
  by (auto simp: grew_def part_defs exec_status_def split: prod.splits)

lemma grew_cmds [keep_intros]:
  "keeps (grew l) (status_ok A cmd args)" "keeps (grew l) (run_quiet A cmd args)" "keeps (grew l) (is_process_running A name)"
  unfolding status_ok_def run_quiet_def is_process_running_def
  by (intro keeps_bind keeps_return keepsI; use grew_status in blast)+

lemma grew_world [keep_intros]: "keeps (grew l) (on_world m)"
  by (auto simp: keeps_def grew_def on_world_def split: prod.splits)

lemma grew_wait [keep_intros]: "keeps (grew l) (wait_exit A n)"
  by (induction n) (auto simp: any_running_def intro!: keep_intros)

lemma grew_stop [keep_intros]: "keeps (grew l) (stop_service A b name)" "keeps (grew l) (remove_file A path)"
  unfolding stop_service_def remove_file_def by (intro keep_intros)+

lemma stop_agent_kills:
  assumes "run_state (stop_agent A) a = (r, a')"
  shows "r = Inr () \<and> (''pkill'', [''-9'', ''MagicArmorAgent'']) \<in> set (drop (length (ag_cmds a)) (ag_cmds a'))"
proof -
  let ?kill = "(''pkill'', [''-9'', ''MagicArmorAgent''])"
  define first where "first = do {
      has_systemctl \<leftarrow> status_ok A ''which'' [''systemctl''];
      stop_service A has_systemctl ''agent_manager'';
      stop_service A has_systemctl ''osec_cli'' }"
  define last where "last = do {
      run_quiet A ''killall'' [''-9'', ''MagicArmorAgent''];
      for_each [1 :: nat, 2] (\<lambda>_. do {
        run_quiet A ''pkill'' [''-9'', ''MagicArmorAgent''];
        run_quiet A ''killall'' [''-9'', ''MagicArmorAgent''] });
      polls \<leftarrow> gets (\<lambda>a. ux_polls (ax_up A) (ag_world a));
      wait_ok \<leftarrow> wait_exit A polls;
      (if wait_ok then State_Monad.return ()
       else for_each [''MagicArmorAgent'', ''agent_manager'', ''osec_cli''] (\<lambda>name. run_quiet A ''pkill'' [''-9'', name]));
      stale \<leftarrow> gets (\<lambda>a. ux_exists (ax_up A) agent_socket (ag_world a));
      (if stale then remove_file A agent_socket else State_Monad.return ());
      State_Monad.return (Inr () :: unit res) }"
  have split: "stop_agent A = do { _ \<leftarrow> first; run_quiet A ''pkill'' [''-9'', ''MagicArmorAgent'']; last }"
    by (simp add: stop_agent_def first_def last_def)
  have keep: "keeps (grew l) first" "keeps (grew l) last" for l
    unfolding first_def last_def by (intro keep_intros keeps_for_each)+
  obtain u a1 where f: "run_state first a = (u, a1)" by (rule prod.exhaust)
  obtain v a2 where k: "run_state (run_quiet A ''pkill'' [''-9'', ''MagicArmorAgent'']) a1 = (v, a2)" by (rule prod.exhaust)
  have l: "run_state last a2 = (r, a')" using assms f k by (simp add: split)
  from keepsD_run [OF keep(1) _ f, of "ag_cmds a"] obtain k1 where k1: "ag_cmds a1 = ag_cmds a @ k1" by (auto simp: grew_def)
  from k have "ag_cmds a2 = ag_cmds a1 @ [?kill]"
    by (auto simp: run_quiet_def part_defs exec_status_def split: prod.splits)
  with keepsD_run [OF keep(2) _ l, of "ag_cmds a2"] k1 have "?kill \<in> set (drop (length (ag_cmds a)) (ag_cmds a'))"
    by (auto simp: grew_def)
  moreover from l have "r = Inr ()" by (simp add: last_def split: prod.splits if_splits)
  ultimately show ?thesis by blast
qed

lemma replace_runs_nothing:
  assumes "run_state (replace_binary_with_arch_check A) a = (r, a')"
  shows "ag_cmds a' = ag_cmds a"
proof -
  have w: "keeps (\<lambda>b. ag_cmds b = ag_cmds a) (on_world m)" for m :: "('w, 'r) state"
    by (auto simp: keeps_def on_world_def split: prod.splits)
  have "keeps (\<lambda>b. ag_cmds b = ag_cmds a) (replace_binary_with_arch_check A)"
    unfolding replace_binary_with_arch_check_def backup_binary_def remove_file_def Let_def by (intro monad_intros w)
  from keepsD_run [OF this _ assms] show ?thesis by simp
qed

text \<open>An exchange that fails leaves the supervisor stopped. The services have been killed by then,
  the error ends the update, and no command that would start them again follows.\<close>

theorem failed_exchange_not_restarted:
  assumes "run_state (write_proc_self A) a = (Inr (), a1)" and "run_state (stop_agent A) a1 = (r2, a2)"
    and "run_state (replace_binary_with_arch_check A) a2 = (Inl e, a3)"
  shows "run_state (hot_upgrade A) a = (Inl e, a3)
    \<and> (''pkill'', [''-9'', ''MagicArmorAgent'']) \<in> set (drop (length (ag_cmds a1)) (ag_cmds a2)) \<and> ag_cmds a3 = ag_cmds a2"
  using assms stop_agent_kills [OF assms(2)] replace_runs_nothing [OF assms(3)] by (simp add: hot_upgrade_def)

text \<open>A host whose world is a map of files.\<close>

definition disk_ext :: "(unit, unit, string \<Rightarrow> string option) agent_ext" where
  "disk_ext = (lab_agent_ext refusing_files (\<lambda>_. JNull))\<lparr>ax_remove_file := \<lambda>p w. (w p \<noteq> None, w(p := None)),
     ax_up := no_upgrade\<lparr>ux_exists := \<lambda>p w. w p \<noteq> None,
       ux_rename := \<lambda>p q w. if w p = None then (Inl ''not found'', w) else (Inr (), w(p := None, q := w p)),
       ux_copy := \<lambda>p q w. if w p = None then (Inl ''not found'', w) else (Inr (), w(q := w p))\<rparr>\<rparr>"

lemma disk_laws: "file_laws disk_ext (\<lambda>w. w)"
  by (auto simp: file_laws_def disk_ext_def no_upgrade_def Let_def split: if_splits)

lemma disk_simps:
  "ux_arch (ax_up disk_ext) = ''x86_64''" "ux_exists (ax_up disk_ext) p w \<longleftrightarrow> w p \<noteq> None"
  "ux_create_dir_all (ax_up disk_ext) p w = (Inr (), w)" "ux_set_permissions (ax_up disk_ext) p m w = (Inr (), w)"
  "ux_rename (ax_up disk_ext) p q w = (if w p = None then (Inl ''not found'', w) else (Inr (), w(p := None, q := w p)))"
  "ux_copy (ax_up disk_ext) p q w = (if w p = None then (Inl ''not found'', w) else (Inr (), w(q := w p)))"
  "ax_remove_file disk_ext p w = (w p \<noteq> None, w(p := None))" "ag_world (lab_agent_in w) = w"
  by (simp_all add: disk_ext_def no_upgrade_def lab_agent_def)

definition lab_disk :: "string \<Rightarrow> string option" where
  "lab_disk = [target_path \<mapsto> ''old'', src_path ''x86_64'' \<mapsto> ''new'']"

theorem old_binary_survives_witness:
  "let w = ag_world (snd (run_state (replace_binary_with_arch_check disk_ext) (lab_agent_in lab_disk)))
   in w backup_path = Some ''old'' \<and> w target_path = Some ''new''"
proof -
  have d: "lab_disk target_path = Some ''old''" "lab_disk (src_path ''x86_64'') = Some ''new''"
    by (simp_all add: lab_disk_def update_paths_differ update_paths_differ(2) [symmetric])
  have "fst (run_state (replace_binary_with_arch_check disk_ext) (lab_agent_in lab_disk)) = Inr ()"
    by (simp add: replace_binary_with_arch_check_def backup_binary_def remove_file_def run_on_world Let_def supported_arch_def
        disk_simps d update_paths_differ update_paths_differ [symmetric])
  then show ?thesis
    using old_binary_survives [OF disk_laws _ prod.collapse [symmetric], of "lab_agent_in lab_disk" "''old''"]
    by (simp add: Let_def d disk_simps)
qed

text \<open>Commands that cannot be started change no file.\<close>

lemma disk_stop:
  assumes "w agent_socket = None"
  shows "keeps (\<lambda>b. ag_world b = w) (stop_agent disk_ext)"
proof -
  let ?P = "\<lambda>b :: (unit, string \<Rightarrow> string option) agent. ag_world b = w"
  have s: "keeps ?P (on_sys (exec_status (ax_sys disk_ext) c as))" for c as
    by (auto simp: keeps_def part_defs exec_status_def disk_ext_def lab_agent_ext_def no_sys_def)
  have x: "keeps ?P (wait_exit disk_ext m)" for m
    by (induction m) (auto simp: any_running_def is_process_running_def status_ok_def intro!: monad_intros s)
  have r: "keeps ?P (do {
      stale \<leftarrow> gets (\<lambda>b. ux_exists (ax_up disk_ext) agent_socket (ag_world b));
      (if stale then remove_file disk_ext agent_socket else State_Monad.return ());
      State_Monad.return (Inr () :: unit res) })"
    using assms by (auto simp: keeps_def disk_simps)
  show ?thesis
    unfolding stop_agent_def stop_service_def is_process_running_def status_ok_def run_quiet_def
    by (intro monad_intros keeps_for_each s x r)
qed

theorem failed_exchange_not_restarted_witness:
  "fst (run_state (hot_upgrade disk_ext) (lab_agent_in [target_path \<mapsto> ''old'']))
     = Inl (missing_binary disk_ext [target_path \<mapsto> ''old''] ''x86_64'')"
proof -
  let ?a = "lab_agent_in [target_path \<mapsto> ''old'']"
  have n: "self_path \<noteq> target_path" "agent_socket \<noteq> target_path" "src_path ''x86_64'' \<noteq> target_path"
    by (simp_all add: update_paths self_path_def agent_socket_def)
  have p: "run_state (write_proc_self disk_ext) ?a = (Inr (), ?a)"
  proof -
    have "ux_date (ax_up disk_ext) (ag_world ?a) = (2025, 1, 11)" by (simp add: disk_ext_def no_upgrade_def)
    moreover have "show_nat 2025 = ''2025''" "show_nat 1 = ''1''" "show_nat 11 = ''11''" by code_simp+
    then have "\<exists>v. self_value 2025 1 11 = Some v"
      by (simp add: self_value_def parse_uint_def digits_val_def digit_val_def is_digit_def)
    ultimately show ?thesis using n(1) by (auto simp: write_proc_self_def disk_simps)
  qed
  let ?a2 = "snd (run_state (stop_agent disk_ext) ?a)"
  have w: "ag_world ?a2 = [target_path \<mapsto> ''old'']"
    by (rule keepsD [OF disk_stop]) (use n(2) in \<open>simp_all add: disk_simps\<close>)
  have "run_state (replace_binary_with_arch_check disk_ext) ?a2
      = (Inl (missing_binary disk_ext [target_path \<mapsto> ''old''] ''x86_64''), ?a2)"
    using n(3) w by (simp add: replace_binary_with_arch_check_def Let_def disk_simps supported_arch_def)
  from failed_exchange_not_restarted [OF p prod.collapse [symmetric] this] show ?thesis by simp
qed

end
