(* ===== verification/Task_Fetcher.thy ===== *)
theory Task_Fetcher
  imports Agent_Kernel Upgrade
begin

text \<open>
  \<^verbatim>\<open>crates/task/src/task_fetcher.rs\<close>: the tasks that the server hands out, their dispatch and the
  loop that polls for them. Most tasks fetch a policy document and pass it to a manager. The rules
  of virtual ports are those of \<^verbatim>\<open>virtual_port_rule.rs\<close>, the rules of the outreach detection those
  of \<^verbatim>\<open>net_reach_rule.rs\<close>.
\<close>

section \<open>Policies for the managers\<close>

definition parse_failed :: "string \<Rightarrow> string" where
  "parse_failed e = ''Failed to parse response.''"

definition bad_code :: "(('c, 'w) agent, unit res) state" where
  "bad_code = State_Monad.return (Inl ''Invalid response code.'')"

definition not_found_white :: string where "not_found_white = ''URL for download_white not found''"

definition task_down_dir_policy :: "('c, 'p, 'w) agent_ext \<Rightarrow> u64 \<Rightarrow> (('c, 'w) agent, unit res) state" where
  "task_down_dir_policy A task_type =
     tryE (fetch_doc A task_type ''getdirpolicy'' not_found_white (\<lambda>e. e) parse_failed) (\<lambda>parsed.
       if code_ok parsed
       then (case parse_policy_from_json (json_index parsed ''data'') of
               Inl e \<Rightarrow> State_Monad.return (Inl e)
             | Inr rules \<Rightarrow> do {
                 on_pattern (set_protect_dir (ax_files A) rules);
                 State_Monad.return (Inr ())
               })
       else bad_code)"

definition task_down_conf :: "('c, 'p, 'w) agent_ext \<Rightarrow> u64 \<Rightarrow> (('c, 'w) agent, unit res) state" where
  "task_down_conf A task_type =
     tryE (fetch_doc A task_type ''getconf'' not_found_white (\<lambda>e. e) parse_failed) (\<lambda>parsed.
       if code_ok parsed
       then (case as_object (json_index (json_index parsed ''data'') ''conf'') of
               None \<Rightarrow> State_Monad.return (Inl (''Missing '' @ [CHR 0x27] @ ''conf'' @ [CHR 0x27] @ '' object in response''))
             | Some conf \<Rightarrow> update_config_from_json A conf)
       else bad_code)"

text \<open>The digests of a list of executables.\<close>

definition proc_hashes :: "json \<Rightarrow> string list res" where
  "proc_hashes parsed =
     (case as_array (json_index (json_index parsed ''data'') ''proclist'') of
        None \<Rightarrow> Inl ''Missing or invalid proclist in response''
      | Some items \<Rightarrow>
          let hash_list = List.map_filter (\<lambda>item. as_str (json_index item ''hash'')) items
          in if hash_list = [] then Inl ''No hashes found in the response'' else Inr hash_list)"

definition put_processes ::
  "('c, 'p, 'w) agent_ext \<Rightarrow> bool \<Rightarrow> json \<Rightarrow> (('c, 'w) agent, unit res) state" where
  "put_processes A is_white parsed =
     (case proc_hashes parsed of
        Inl e \<Rightarrow> State_Monad.return (Inl e)
      | Inr hash_list \<Rightarrow> do {
          on_proc (set_policy_process (ax_files A) (ax_order A) hash_list is_white);
          State_Monad.return (Inr ())
        })"

definition task_down_black :: "('c, 'p, 'w) agent_ext \<Rightarrow> u64 \<Rightarrow> (('c, 'w) agent, unit res) state" where
  "task_down_black A task_type =
     tryE (fetch_doc A task_type ''download_black'' not_found_white (\<lambda>e. e) parse_failed) (\<lambda>parsed.
       if code_ok parsed then put_processes A False parsed else bad_code)"

definition task_down_white :: "('c, 'p, 'w) agent_ext \<Rightarrow> u64 \<Rightarrow> (('c, 'w) agent, unit res) state" where
  "task_down_white A task_type =
     tryE (fetch_doc A task_type ''download_white'' not_found_white (\<lambda>e. e) parse_failed) (\<lambda>parsed.
       if code_ok parsed then put_processes A True parsed else State_Monad.return (Inr ()))"

text \<open>The address policies of a document; the black list has no durations.\<close>

definition block_entry :: "bool \<Rightarrow> json \<Rightarrow> ip_policy option" where
  "block_entry timed entry =
     (case (as_str (json_index entry ''ip''), as_u64 (json_index entry ''direction''),
            if timed then as_u64 (json_index entry ''duration'') else Some 0) of
        (Some ip, Some direction, Some duration) \<Rightarrow>
          Some \<lparr>ipp_direction = ucast direction, ipp_ip = ip, ipp_duration = duration, ipp_is_ipv6 = is_ipv6 ip\<rparr>
      | _ \<Rightarrow> None)"

definition block_policies :: "bool \<Rightarrow> json \<Rightarrow> ip_policy list" where
  "block_policies timed parsed =
     (case as_array (json_index parsed ''data'') of
        None \<Rightarrow> []
      | Some data \<Rightarrow> List.map_filter (block_entry timed) data)"

definition task_down_netblock_policy :: "('c, 'p, 'w) agent_ext \<Rightarrow> u64 \<Rightarrow> (('c, 'w) agent, unit res) state" where
  "task_down_netblock_policy A task_type =
     tryE (fetch_doc A task_type ''getPlugging'' (utf8 [230, 156, 170, 230, 137, 190, 229, 136, 176, 32, 110, 101, 116, 98, 108, 111, 99, 107, 32, 231, 173, 150, 231, 149, 165, 231, 154, 132, 32, 85, 82, 76]) (\<lambda>e. e)
             (\<lambda>e. utf8 [232, 167, 163, 230, 158, 144, 32, 110, 101, 116, 98, 108, 111, 99, 107, 32, 229, 147, 141, 229, 186, 148, 229, 164, 177, 232, 180, 165])) (\<lambda>parsed.
       if \<not> code_ok parsed then State_Monad.return (Inl (utf8 [110, 101, 116, 98, 108, 111, 99, 107, 32, 229, 147, 141, 229, 186, 148, 228, 187, 163, 231, 160, 129, 230, 151, 160, 230, 149, 136]))
       else on_ip (update_and_write_policies (ax_files A) (ax_ip_order A) (block_policies True parsed)))"

definition task_down_black_ip_policy :: "('c, 'p, 'w) agent_ext \<Rightarrow> u64 \<Rightarrow> (('c, 'w) agent, unit res) state" where
  "task_down_black_ip_policy A task_type =
     tryE (fetch_doc A task_type ''getipblacklist'' (utf8 [230, 156, 170, 230, 137, 190, 229, 136, 176, 32, 98, 108, 97, 99, 107, 32, 73, 80, 32, 231, 173, 150, 231, 149, 165, 231, 154, 132, 32, 85, 82, 76]) (\<lambda>e. e)
             (\<lambda>e. utf8 [232, 167, 163, 230, 158, 144, 32, 98, 108, 97, 99, 107, 32, 73, 80, 32, 229, 147, 141, 229, 186, 148, 229, 164, 177, 232, 180, 165])) (\<lambda>parsed.
       if \<not> code_ok parsed then State_Monad.return (Inl (utf8 [98, 108, 97, 99, 107, 32, 73, 80, 32, 229, 147, 141, 229, 186, 148, 228, 187, 163, 231, 160, 129, 230, 151, 160, 230, 149, 136]))
       else on_ip (update_and_write_policies (ax_files A) (ax_ip_order A) (block_policies False parsed)))"

definition task_down_extort :: "('c, 'p, 'w) agent_ext \<Rightarrow> u64 \<Rightarrow> (('c, 'w) agent, unit res) state" where
  "task_down_extort A task_type =
     tryE (fetch_doc A task_type ''getprotect'' not_found_white (\<lambda>e. e) parse_failed) (\<lambda>parsed.
       if code_ok parsed
       then (case parse_exipor_policy_from_json (json_index parsed ''data'') of
               Inl e \<Rightarrow> State_Monad.return (Inl e)
             | Inr rules \<Rightarrow> do {
                 on_pattern (set_exiport_dir (ax_files A) (ax_order A) rules);
                 State_Monad.return (Inr ())
               })
       else bad_code)"

text \<open>\<^verbatim>\<open>serde_json::from_value::<Vec<UsbInfo>>\<close> is the parameter \<open>ax_usb_from_value\<close>.\<close>

definition task_get_white_peripherals :: "('c, 'p, 'w) agent_ext \<Rightarrow> u64 \<Rightarrow> (('c, 'w) agent, unit res) state" where
  "task_get_white_peripherals A task_type =
     tryE (fetch_doc A task_type ''getwhiteperipherals'' not_found_white (\<lambda>e. e) parse_failed) (\<lambda>parsed.
       if code_ok parsed
       then (case ax_usb_from_value A (json_index parsed ''data'') of
               Inl _ \<Rightarrow> State_Monad.return (Inl (utf8 [229, 143, 141, 229, 186, 143, 229, 136, 151, 229, 140, 150, 229, 164, 177, 232, 180, 165]))
             | Inr items \<Rightarrow> do {
                 modify (\<lambda>a. a\<lparr>ag_usb := update_whitelist (map (\<lambda>u. u\<lparr>allow := True\<rparr>) items) (ag_usb a)\<rparr>);
                 State_Monad.return (Inr ())
               })
       else State_Monad.return (Inr ()))"

definition task_get_black_peripherals :: "('c, 'p, 'w) agent_ext \<Rightarrow> u64 \<Rightarrow> (('c, 'w) agent, unit res) state" where
  "task_get_black_peripherals A task_type =
     tryE (fetch_doc A task_type ''getblackperipherals'' not_found_white (\<lambda>e. e) parse_failed) (\<lambda>parsed.
       if code_ok parsed
       then (case ax_usb_from_value A (json_index parsed ''data'') of
               Inl _ \<Rightarrow> State_Monad.return (Inl (utf8 [229, 143, 141, 229, 186, 143, 229, 136, 151, 229, 140, 150, 229, 164, 177, 232, 180, 165]))
             | Inr items \<Rightarrow> do {
                 modify (\<lambda>a. let (l, added) = update_blacklist (map (\<lambda>u. u\<lparr>allow := False\<rparr>) items) (ag_usb a)
                   in a\<lparr>ag_usb := l, ag_disabled := (if added = {} then ag_disabled a else ag_disabled a @ [added])\<rparr>);
                 State_Monad.return (Inr ())
               })
       else State_Monad.return (Inr ()))"

definition task_global_dir :: "('c, 'p, 'w) agent_ext \<Rightarrow> u64 \<Rightarrow> (('c, 'w) agent, unit res) state" where
  "task_global_dir A task_type =
     tryE (fetch_doc A task_type ''gettrustdir'' not_found_white (\<lambda>e. e) parse_failed) (\<lambda>parsed.
       if code_ok parsed
       then (case ax_trust_from_value A (json_index parsed ''data'') of
               Inl _ \<Rightarrow> State_Monad.return (Inl ''Failed to deserialize data.'')
             | Inr trust_dirs \<Rightarrow> do {
                 on_process_pattern (pm_set_global_trust_dir (ax_files A) trust_dirs);
                 on_pattern (set_global_trust_dir (ax_files A) trust_dirs);
                 State_Monad.return (Inr ())
               })
       else bad_code)"

section \<open>Virtual ports\<close>

record virtual_port_rule =
  vp_alarm_level :: u32
  vp_dest_ip :: string
  vp_dest_port :: string
  vp_dest_port_type :: u32
  vp_id :: u32
  vp_protocol :: string
  vp_source_ip :: string
  vp_source_port_range :: "u16 \<times> u16"
  vp_type :: string

definition parse_u16 :: "string \<Rightarrow> u16 option" where
  "parse_u16 s = map_option of_nat (parse_uint 65535 s)"

definition deserialize_port_range :: "string \<Rightarrow> (u16 \<times> u16) res" where
  "deserialize_port_range s =
     (let parts = split_char (CHR ''-'') s in
      if length parts \<noteq> 2
      then Inl (''Invalid source_port format, expected '' @ [CHR 0x27] @ ''start-end'' @ [CHR 0x27])
      else case parse_u16 (parts ! 0) of
             None \<Rightarrow> Inl ''Invalid start_port''
           | Some start \<Rightarrow>
               (case parse_u16 (parts ! 1) of
                  None \<Rightarrow> Inl ''Invalid end_port''
                | Some last_port \<Rightarrow>
                    if last_port < start then Inl ''start_port must be less than or equal to end_port''
                    else Inr (start, last_port)))"

definition deserialize_dest_port :: "string \<Rightarrow> string" where
  "deserialize_dest_port s = (if s = [] then ''0'' else s)"

definition port_rule_of :: "raw_port_rule \<Rightarrow> virtual_port_rule res" where
  "port_rule_of r =
     (case deserialize_port_range (rp_source_port r) of
        Inl e \<Rightarrow> Inl e
      | Inr rng \<Rightarrow> Inr \<lparr>vp_alarm_level = rp_alarm_level r, vp_dest_ip = rp_dest_ip r,
          vp_dest_port = deserialize_dest_port (rp_dest_port r), vp_dest_port_type = rp_dest_port_type r,
          vp_id = rp_id r, vp_protocol = rp_protocol r, vp_source_ip = rp_source_ip r,
          vp_source_port_range = rng, vp_type = rp_type r\<rparr>)"

text \<open>All rules of the document, or the error of the first that is not one.\<close>

fun collect_rules :: "('a \<Rightarrow> 'b res) \<Rightarrow> 'a list \<Rightarrow> 'b list res" where
  "collect_rules f [] = Inr []"
| "collect_rules f (x # xs) =
     (case f x of
        Inl e \<Rightarrow> Inl e
      | Inr y \<Rightarrow> (case collect_rules f xs of Inl e \<Rightarrow> Inl e | Inr ys \<Rightarrow> Inr (y # ys)))"

definition port_rule_from_value :: "('c, 'p, 'w) agent_ext \<Rightarrow> json \<Rightarrow> virtual_port_rule res" where
  "port_rule_from_value A v =
     (case (case ax_port_from_value A v of Inl e \<Rightarrow> Inl e | Inr raw \<Rightarrow> port_rule_of raw) of
        Inl e \<Rightarrow> Inl (''Failed to parse VirtualPortRule: '' @ e)
      | Inr r \<Rightarrow> Inr r)"

definition protocol_num :: "string \<Rightarrow> string" where
  "protocol_num p = (let l = to_lowercase p in if l = ''tcp'' then ''1'' else if l = ''udp'' then ''2'' else ''0'')"

definition port_rule_str :: "nat \<Rightarrow> nat \<Rightarrow> virtual_port_rule \<Rightarrow> string" where
  "port_rule_str index n_rules rule =
     ''VIR_OPEN_PORT index='' @ show_nat index @ '' total='' @ show_nat n_rules @ '' id='' @ show_word (vp_id rule)
     @ '' protocol='' @ protocol_num (vp_protocol rule) @ '' type='' @ vp_type rule
     @ '' is_ipv4='' @ (if contains_char (CHR '':'') (vp_dest_ip rule) then ''0'' else ''1'')
     @ '' source_ip='' @ vp_source_ip rule
     @ '' start_port='' @ show_word (fst (vp_source_port_range rule))
     @ '' end_port='' @ show_word (snd (vp_source_port_range rule))
     @ ''  dest_ip='' @ (if trim (vp_dest_ip rule) = [] then [CHR 0x22, CHR 0x22] else vp_dest_ip rule)
     @ '' dest_port_type='' @ show_word (vp_dest_port_type rule)
     @ '' redirectPort='' @ (if vp_dest_port_type rule = 0 then show_word (opt_or 0 (parse_u16 (vp_dest_port rule))) else ''0'')
     @ '' addr_type='' @ show_word (ucast (vp_alarm_level rule AND 0x1f) :: u8) @ [nl]"

fun write_port_rules ::
  "('c, 'p, 'w) agent_ext \<Rightarrow> nat \<Rightarrow> (nat \<times> virtual_port_rule) list \<Rightarrow> (('c, 'w) agent, unit res) state" where
  "write_port_rules A n_rules [] = State_Monad.return (Inr ())"
| "write_port_rules A n_rules ((index, rule) # rules) =
     tryE (map_err (\<lambda>e. ''Failed to write rule: '' @ e)
             (on_files (write_all (ax_files A) net_rules_path (port_rule_str index n_rules rule))))
       (\<lambda>_. write_port_rules A n_rules rules)"

definition task_down_virtual_port :: "('c, 'p, 'w) agent_ext \<Rightarrow> u64 \<Rightarrow> (('c, 'w) agent, unit res) state" where
  "task_down_virtual_port A task_type =
     tryE (fetch_doc A task_type ''getvirtualport'' ''URL for getvirtualport not found'' (\<lambda>e. e)
             (\<lambda>e. ''Failed to parse response JSON: '' @ e)) (\<lambda>parsed.
       if \<not> code_ok parsed
       then State_Monad.return (Inl (''Invalid response code: '' @ ax_json_print A (json_index parsed ''code'')))
       else case as_array (json_index parsed ''data'') of
         None \<Rightarrow> State_Monad.return (Inl (''Missing '' @ [CHR 0x27] @ ''data'' @ [CHR 0x27] @ '' array in response''))
       | Some items \<Rightarrow>
           (case collect_rules (port_rule_from_value A) items of
              Inl e \<Rightarrow> State_Monad.return (Inl e)
            | Inr conf \<Rightarrow>
                let valid_rules = filter (\<lambda>r. vp_source_ip r \<noteq> []) conf;
                    n_rules = length valid_rules
                in if n_rules = 0 then State_Monad.return (Inr ())
                   else
                     tryE (map_err (\<lambda>e. ''Failed to open /proc/osec/net_rules: '' @ e)
                             (on_world (State (ax_open_create A net_rules_path)))) (\<lambda>_.
                     tryE (write_port_rules A n_rules (List.enumerate 0 valid_rules)) (\<lambda>_.
                       map_err (\<lambda>e. ''Failed to flush /proc/osec/net_rules: '' @ e)
                         (on_world (State (ax_flush A net_rules_path)))))))"

section \<open>Passwords, addresses and probes\<close>

definition build_upload_passwd_json :: "('c, 'p, 'w) agent_ext \<Rightarrow> put_pw_jump_info \<Rightarrow> string" where
  "build_upload_passwd_json A info = ax_json_print A (JObj
     [(''status'', JInt (uint (pw_status info))), (''user'', JStr (pw_user info)), (''pw'', JStr (pw_pw info)),
      (''reason'', JStr (pw_reason info))])"

definition upload_passwd_result ::
  "('c, 'p, 'w) agent_ext \<Rightarrow> put_pw_jump_info \<Rightarrow> (('c, 'w) agent, unit res) state" where
  "upload_passwd_result A info =
     tryE (full_url ''putPwJump'') (\<lambda>url. post_ignored A url (build_upload_passwd_json A info))"

definition api_error :: "json \<Rightarrow> string" where
  "api_error parsed = ''API error: '' @ opt_or ''Unknown error'' (as_str (json_index parsed ''msg''))"

definition task_down_pwjump :: "('c, 'p, 'w) agent_ext \<Rightarrow> u64 \<Rightarrow> (('c, 'w) agent, unit res) state" where
  "task_down_pwjump A task_type =
     tryE (fetch_doc A task_type ''getPwJump'' ''URL for getPwJump not found'' (\<lambda>e. e) parse_failed) (\<lambda>parsed.
       if \<not> code_ok parsed then State_Monad.return (Inl (api_error parsed))
       else case as_str (json_index (json_index parsed ''data'') ''pw'') of
         None \<Rightarrow> State_Monad.return (Inl (''Missing or invalid '' @ [CHR 0x27] @ ''pw'' @ [CHR 0x27] @ '' field in response''))
       | Some new_password \<Rightarrow> do {
           jump \<leftarrow> on_sys (do_pw_jump_async (ax_sys A) (ax_env_user A) [] new_password
                    \<lparr>pw_user = [], pw_pw = [], pw_status = 0, pw_reason = []\<rparr>);
           case jump of
             (Inr _, info) \<Rightarrow> upload_passwd_result A (info\<lparr>pw_pw := new_password, pw_status := 1\<rparr>)
           | (Inl e, info) \<Rightarrow> upload_passwd_result A (info\<lparr>pw_pw := new_password, pw_status := 2, pw_reason := e\<rparr>)
         })"

definition missing_data :: string where
  "missing_data = ''Missing '' @ [CHR 0x27] @ ''data'' @ [CHR 0x27] @ '' object in response''"

definition task_down_ipjump :: "('c, 'p, 'w) agent_ext \<Rightarrow> u64 \<Rightarrow> (('c, 'w) agent, unit res) state" where
  "task_down_ipjump A task_type =
     tryE (report_task_completion A task_type) (\<lambda>_. do {
       url \<leftarrow> gets (\<lambda>a. tf_base_url a @ ''/'' @ opt_or ''v1/getIpJump'' (map_of (tf_api a) ''getIpJump''));
       tryE (agent_post A url [] 10) (\<lambda>response.
         case ax_json_parse A response of
           Inl e \<Rightarrow> State_Monad.return (Inl ''Failed to parse response.'')
         | Inr parsed \<Rightarrow>
             if \<not> code_ok parsed then State_Monad.return (Inl (api_error parsed))
             else case as_object (json_index parsed ''data'') of
               None \<Rightarrow> State_Monad.return (Inl missing_data)
             | Some dat \<Rightarrow>
                 let gateway = get_str dat ''gateway'';
                     source_ip = get_str dat ''source_ip'';
                     target_ip = get_str dat ''target_ip'';
                     active_time = ucast (opt_or 0 (Option.bind (map_of dat ''active_time'') as_u64))
                 in if source_ip = [] \<and> target_ip = [] then report_task_completion A task_type
                    else on_jump (send_instruction source_ip target_ip gateway active_time))
     })"

text \<open>\<^verbatim>\<open>data["list"]\<close> panics where the document has no such member.\<close>

definition task_outreach_detect :: "('c, 'p, 'w) agent_ext \<Rightarrow> u64 \<Rightarrow> (('c, 'w) agent, unit res) state" where
  "task_outreach_detect A task_type =
     tryE (fetch_doc A task_type ''getOutreachDetect'' ''URL for getOutreachDetect not found'' (\<lambda>e. e)
             (\<lambda>e. ''Failed to parse response JSON: '' @ e)) (\<lambda>parsed.
       if \<not> code_ok parsed
       then State_Monad.return (Inl (''Invalid response code: '' @ ax_json_print A (json_index parsed ''code'')))
       else case as_object (json_index parsed ''data'') of
         None \<Rightarrow> State_Monad.return (Inl missing_data)
       | Some dat \<Rightarrow>
           (case map_of dat ''list'' of
              None \<Rightarrow> do {
                modify (\<lambda>a. a\<lparr>ag_halt := Panicked\<rparr>);
                State_Monad.return (Inl ''panic'')
              }
            | Some list \<Rightarrow>
                (case as_array list of
                   None \<Rightarrow> State_Monad.return (Inl (''Missing '' @ [CHR 0x27] @ ''data'' @ [CHR 0x27] @ '' array in response''))
                 | Some items \<Rightarrow>
                     (case collect_rules (\<lambda>item. case ax_outreach_from_value A item of
                               Inl e \<Rightarrow> Inl (''Failed to parse VirtualPortRule: '' @ e) | Inr r \<Rightarrow> Inr r) items of
                        Inl e \<Rightarrow> State_Monad.return (Inl e)
                      | Inr rules \<Rightarrow> do {
                          modify (\<lambda>a. a\<lparr>ag_outreach := rules\<rparr>);
                          State_Monad.return (Inr ())
                        }))))"

section \<open>Snapshots, removal and identity\<close>

definition build_upload_backup_json :: "('c, 'p, 'w) agent_ext \<Rightarrow> string \<Rightarrow> int \<Rightarrow> string \<Rightarrow> string \<Rightarrow> string" where
  "build_upload_backup_json A sid st sz fail_reason = ax_json_print A (JObj
     [(''id'', JStr sid), (''state'', JInt st), (''storage_dir'', JStr []), (''file_name'', JStr []),
      (''file_size'', JStr sz), (''fail_reason'', JStr fail_reason), (''param'', JStr [])])"

definition build_upload_rollback_json :: "('c, 'p, 'w) agent_ext \<Rightarrow> string \<Rightarrow> int \<Rightarrow> string \<Rightarrow> string" where
  "build_upload_rollback_json A sid st fail_reason = ax_json_print A (JObj
     [(''id'', JStr sid), (''state'', JInt st), (''fail_reason'', JStr fail_reason)])"

definition upload_backup ::
  "('c, 'p, 'w) agent_ext \<Rightarrow> string \<Rightarrow> int \<Rightarrow> string \<Rightarrow> string \<Rightarrow> (('c, 'w) agent, unit res) state" where
  "upload_backup A sid st sz fail_reason =
     tryE (full_url ''uploadBackup'') (\<lambda>url. post_ignored A url (build_upload_backup_json A sid st sz fail_reason))"

definition upload_rollback ::
  "('c, 'p, 'w) agent_ext \<Rightarrow> string \<Rightarrow> int \<Rightarrow> string \<Rightarrow> (('c, 'w) agent, unit res) state" where
  "upload_rollback A sid st fail_reason =
     tryE (full_url ''uploadRollback'') (\<lambda>url. post_ignored A url (build_upload_rollback_json A sid st fail_reason))"

definition doc_ids :: "json \<Rightarrow> string list" where
  "doc_ids parsed =
     (case as_array (json_index parsed ''data'') of
        None \<Rightarrow> []
      | Some arr \<Rightarrow> List.map_filter (\<lambda>obj. as_str (json_index obj ''id'')) arr)"

definition backup_one :: "('c, 'p, 'w) agent_ext \<Rightarrow> string \<Rightarrow> (('c, 'w) agent, unit) state" where
  "backup_one A sid = do {
     r \<leftarrow> on_sys (create_snapshot (ax_sys A) (ax_f64 A) sid []);
     _ \<leftarrow> (case r of Inr sz \<Rightarrow> upload_backup A sid 1 sz [] | Inl e \<Rightarrow> upload_backup A sid 0 [] e);
     State_Monad.return ()
   }"

definition task_get_system_backups :: "('c, 'p, 'w) agent_ext \<Rightarrow> u64 \<Rightarrow> (('c, 'w) agent, unit res) state" where
  "task_get_system_backups A task_type =
     tryE (fetch_doc A task_type ''getBackups'' not_found_white (\<lambda>e. e) parse_failed) (\<lambda>parsed. do {
       (if code_ok parsed then for_each (doc_ids parsed) (backup_one A) else State_Monad.return ());
       report_task_completion A task_type
     })"

fun rollback_each :: "('c, 'p, 'w) agent_ext \<Rightarrow> string list \<Rightarrow> bool \<Rightarrow> (('c, 'w) agent, bool) state" where
  "rollback_each A [] has_success = State_Monad.return has_success"
| "rollback_each A (sid # ids) has_success = do {
     r \<leftarrow> on_sys (restore_snapshot (ax_sys A) sid);
     case r of
       Inr _ \<Rightarrow> do { _ \<leftarrow> upload_rollback A sid 1 []; rollback_each A ids True }
     | Inl e \<Rightarrow> do { _ \<leftarrow> upload_rollback A sid 0 e; rollback_each A ids has_success }
   }"

definition spawn_logged ::
  "('c, 'p, 'w) agent_ext \<Rightarrow> string \<Rightarrow> string list \<Rightarrow> (('c, 'w) agent, unit res) state" where
  "spawn_logged A cmd args = do {
     modify (\<lambda>a. a\<lparr>ag_cmds := ag_cmds a @ [(cmd, args)]\<rparr>);
     on_world (State (ax_spawn A cmd args))
   }"

definition reboot_system :: "('c, 'p, 'w) agent_ext \<Rightarrow> (('c, 'w) agent, unit res) state" where
  "reboot_system A = do {
     r \<leftarrow> spawn_logged A ''systemctl'' [''reboot''];
     case r of
       Inr _ \<Rightarrow> State_Monad.return (Inr ())
     | Inl _ \<Rightarrow> map_err (\<lambda>e. utf8 [114, 101, 98, 111, 111, 116, 32, 229, 145, 189, 228, 187, 164, 229, 144, 175, 229, 138, 168, 229, 164, 177, 232, 180, 165, 58, 32] @ e) (spawn_logged A ''reboot'' [])
   }"

definition task_system_rollback :: "('c, 'p, 'w) agent_ext \<Rightarrow> u64 \<Rightarrow> (('c, 'w) agent, unit res) state" where
  "task_system_rollback A task_type =
     tryE (fetch_doc A task_type ''getRollbacks'' ''URL for getRollbacks not found'' (\<lambda>e. ''Error fetching task: '' @ e)
             parse_failed) (\<lambda>parsed.
       if \<not> code_ok parsed then State_Monad.return (Inl ''API returned non-success code.'')
       else do {
         has_success \<leftarrow> rollback_each A (doc_ids parsed) False;
         if has_success then reboot_system A else State_Monad.return (Inr ())
       })"

definition task_uninstall :: "('c, 'p, 'w) agent_ext \<Rightarrow> u64 \<Rightarrow> (('c, 'w) agent, unit res) state" where
  "task_uninstall A task_type =
     tryE (fetch_doc A task_type ''uninstall'' ''URL for download uninstall not found''
             (\<lambda>e. ''Error fetching update info: '' @ e) (\<lambda>e. ''Failed to parse response: '' @ e)) (\<lambda>parsed.
       if \<not> code_ok parsed
       then State_Monad.return (Inl (''Invalid response code: '' @ opt_or ''unknown'' (as_str (json_index parsed ''code''))))
       else do {
         _ \<leftarrow> send_command_to_agent A ''uninstall'';
         State_Monad.return (Inr ())
       })"

definition task_update_uuid :: "('c, 'p, 'w) agent_ext \<Rightarrow> u64 \<Rightarrow> (('c, 'w) agent, unit res) state" where
  "task_update_uuid A task_type =
     tryE (report_task_completion A task_type) (\<lambda>_. do {
       _ \<leftarrow> on_world (State (ax_remove_file A ''/etc/.vedasystem''));
       modify (\<lambda>a. a\<lparr>ag_halt := Exited\<rparr>);
       State_Monad.return (Inr ())
     })"

section \<open>Dispatch\<close>

datatype task_type =
    TaskUploadProcess | TaskUpdate | TaskUploadDir | TaskDownWhite | TaskDownDirPolicy | TaskUploadConf
  | TaskDownConf | TaskDownBlack | TaskDownFileTtap | TaskUploadPort | TaskDownVirtualPort
  | TaskAutoDownNetBlockPolicy | TaskAutoUploadNetBockPolicyy | TaskDownNetBlockPolicy | TaskDownWhiteIpPolicy
  | TaskDownBlackIpPolicy | TaskDownUsbUpload | TaskDownUsbDown | TaskDownExtort | TaskUploadProcessModule
  | TaskUploadAllProcessModule | TaskUploadProcessWhiteModule | TaskUploadProcessBlackModule | TaskUninstall
  | TaskGetWhitePeripherals | TaskGetBlackPeripherals | TaskUploadSample | TaskSyslogEnable | TaskSyslogDisable
  | TaskGlobalProc | TaskGlobalDir | TaskUpdateUUI | TaskOutReachDetect | TaskPwJump | TaskIpJump
  | TaskSystemBackup | TaskSystemRollback

definition task_codes :: "(u32 \<times> task_type) list" where
  "task_codes =
     [(0, TaskUploadProcess), (1, TaskUpdate), (2, TaskUploadDir), (3, TaskDownWhite), (4, TaskDownDirPolicy),
      (5, TaskUploadConf), (6, TaskDownConf), (7, TaskDownBlack), (8, TaskDownFileTtap), (9, TaskUploadPort),
      (10, TaskDownVirtualPort), (11, TaskAutoDownNetBlockPolicy), (12, TaskAutoUploadNetBockPolicyy),
      (13, TaskDownNetBlockPolicy), (14, TaskDownWhiteIpPolicy), (15, TaskDownBlackIpPolicy), (16, TaskDownUsbUpload),
      (17, TaskDownUsbDown), (19, TaskDownExtort), (21, TaskUploadProcessModule), (22, TaskUploadAllProcessModule),
      (23, TaskUploadProcessWhiteModule), (24, TaskUploadProcessBlackModule), (25, TaskUninstall),
      (26, TaskGetWhitePeripherals), (27, TaskGetBlackPeripherals), (28, TaskUploadSample), (29, TaskSyslogEnable),
      (30, TaskSyslogDisable), (31, TaskGlobalProc), (33, TaskGlobalDir), (34, TaskUpdateUUI), (35, TaskOutReachDetect),
      (36, TaskPwJump), (37, TaskIpJump), (38, TaskSystemBackup), (39, TaskSystemRollback)]"

definition task_from_u32 :: "u32 \<Rightarrow> task_type option" where
  "task_from_u32 n = map_of task_codes n"

text \<open>The tasks that only print a line.\<close>

definition task_nothing :: "(('c, 'w) agent, unit res) state" where
  "task_nothing = State_Monad.return (Inr ())"

fun handle_task :: "('c, 'p, 'w) agent_ext \<Rightarrow> task_type \<Rightarrow> (('c, 'w) agent, unit res) state" where
  "handle_task A TaskUploadProcess = task_upload_process A 0"
| "handle_task A TaskUpdate = task_update A 1"
| "handle_task A TaskUploadDir = task_upload_dir A 2"
| "handle_task A TaskDownWhite = task_down_white A 3"
| "handle_task A TaskDownDirPolicy = task_down_dir_policy A 4"
| "handle_task A TaskDownConf = task_down_conf A 6"
| "handle_task A TaskDownBlack = task_down_black A 7"
| "handle_task A TaskDownFileTtap = task_nothing"
| "handle_task A TaskUploadPort = task_upload_port A 9"
| "handle_task A TaskDownVirtualPort = task_down_virtual_port A 10"
| "handle_task A TaskDownNetBlockPolicy = task_down_netblock_policy A 13"
| "handle_task A TaskDownExtort = task_down_extort A 19"
| "handle_task A TaskDownBlackIpPolicy = task_down_black_ip_policy A 15"
| "handle_task A TaskUploadProcessModule = task_nothing"
| "handle_task A TaskUploadAllProcessModule = task_nothing"
| "handle_task A TaskUploadProcessWhiteModule = task_nothing"
| "handle_task A TaskUploadProcessBlackModule = task_nothing"
| "handle_task A TaskUninstall = task_uninstall A 25"
| "handle_task A TaskGetWhitePeripherals = task_get_white_peripherals A 26"
| "handle_task A TaskGetBlackPeripherals = task_get_black_peripherals A 27"
| "handle_task A TaskDownUsbUpload = task_usb_upload A 16"
| "handle_task A TaskUploadSample = task_nothing"
| "handle_task A TaskGlobalProc = task_global_proc A 31"
| "handle_task A TaskGlobalDir = task_global_dir A 33"
| "handle_task A TaskUpdateUUI = task_update_uuid A 34"
| "handle_task A TaskOutReachDetect = task_outreach_detect A 35"
| "handle_task A TaskPwJump = task_down_pwjump A 36"
| "handle_task A TaskIpJump = task_down_ipjump A 37"
| "handle_task A TaskSystemBackup = task_get_system_backups A 38"
| "handle_task A TaskSystemRollback = task_system_rollback A 39"
| "handle_task A TaskUploadConf = State_Monad.return (Inl ''Unknown task type'')"
| "handle_task A TaskAutoDownNetBlockPolicy = State_Monad.return (Inl ''Unknown task type'')"
| "handle_task A TaskAutoUploadNetBockPolicyy = State_Monad.return (Inl ''Unknown task type'')"
| "handle_task A TaskDownWhiteIpPolicy = State_Monad.return (Inl ''Unknown task type'')"
| "handle_task A TaskDownUsbDown = State_Monad.return (Inl ''Unknown task type'')"
| "handle_task A TaskSyslogEnable = State_Monad.return (Inl ''Unknown task type'')"
| "handle_task A TaskSyslogDisable = State_Monad.return (Inl ''Unknown task type'')"

section \<open>The polling loop\<close>

definition poll_interval :: "u32 \<Rightarrow> u32 \<Rightarrow> u32" where
  "poll_interval current_cron_time new_cron_time =
     (if new_cron_time \<noteq> current_cron_time \<and> 0 < new_cron_time then new_cron_time else current_cron_time)"

definition task_list :: "json \<Rightarrow> u32 list" where
  "task_list parsed =
     map ucast (List.map_filter as_u64
       (opt_or [] (as_array (json_index (json_index parsed ''data'') ''tasklist''))))"

fun handle_tasks :: "('c, 'p, 'w) agent_ext \<Rightarrow> u32 list \<Rightarrow> (('c, 'w) agent, unit) state" where
  "handle_tasks A [] = State_Monad.return ()"
| "handle_tasks A (task_id # ids) = do {
     h \<leftarrow> gets ag_halt;
     if h \<noteq> Running then State_Monad.return ()
     else do {
       _ \<leftarrow> (case task_from_u32 task_id of
              Some t \<Rightarrow> handle_task A t
            | None \<Rightarrow> State_Monad.return (Inr ()));
       handle_tasks A ids
     }
   }"

text \<open>One turn of the loop: nothing when it goes on, or the error that ends it.\<close>

definition run_turn :: "('c, 'p, 'w) agent_ext \<Rightarrow> 'c net_client \<Rightarrow> (('c, 'w) agent, string option) state" where
  "run_turn A net_client = do {
     url \<leftarrow> gets (\<lambda>a. tf_base_url a @ ''/v1/gettask'');
     r \<leftarrow> post_with A net_client url [] 10;
     case r of
       Inl _ \<Rightarrow> State_Monad.return None
     | Inr response \<Rightarrow>
         (case ax_json_parse A response of
            Inl _ \<Rightarrow> State_Monad.return None
          | Inr parsed \<Rightarrow>
              if code_ok parsed then do { handle_tasks A (task_list parsed); State_Monad.return None }
              else if json_index parsed ''code'' = JStr ''401'' then State_Monad.return (Some (utf8 [116, 111, 107, 101, 110, 32, 230, 151, 160, 230, 149, 136]))
              else State_Monad.return (Some (utf8 [230, 151, 160, 230, 149, 136, 229, 147, 141, 229, 186, 148, 231, 160, 129])))
   }"

text \<open>The loop for a number of ticks of its timer: the intervals at which it polled, and how it
  ended, if it did. A timer of no length panics.\<close>

datatype loop_end = Polling | Failed string | Stopped

fun run_ticks :: "('c, 'p, 'w) agent_ext \<Rightarrow> 'c net_client \<Rightarrow> nat \<Rightarrow> u32 \<Rightarrow> (('c, 'w) agent, u32 list \<times> loop_end) state" where
  "run_ticks A nc 0 current_cron_time = State_Monad.return ([], Polling)"
| "run_ticks A nc (Suc n) current_cron_time = do {
     new_cron_time \<leftarrow> gets (\<lambda>a. nc_cron_time (ag_cfg a));
     let cron_time = poll_interval current_cron_time new_cron_time;
     r \<leftarrow> run_turn A nc;
     h \<leftarrow> gets ag_halt;
     case r of
       Some e \<Rightarrow> State_Monad.return ([cron_time], Failed e)
     | None \<Rightarrow>
         if h \<noteq> Running then State_Monad.return ([cron_time], Stopped)
         else do {
           (ts, e) \<leftarrow> run_ticks A nc n cron_time;
           State_Monad.return (cron_time # ts, e)
         }
   }"

definition run_fetcher :: "('c, 'p, 'w) agent_ext \<Rightarrow> 'c net_client \<Rightarrow> nat \<Rightarrow> (('c, 'w) agent, u32 list \<times> loop_end) state" where
  "run_fetcher A nc n =
     (case get_base_url nc of
        None \<Rightarrow> State_Monad.return ([], Failed ''task_provider_base_url not set'')
      | Some _ \<Rightarrow> do {
          initial_cron_time \<leftarrow> gets (\<lambda>a. nc_cron_time (ag_cfg a));
          if initial_cron_time = 0
          then do { modify (\<lambda>a. a\<lparr>ag_halt := Panicked\<rparr>); State_Monad.return ([], Stopped) }
          else run_ticks A nc n initial_cron_time
        })"

text \<open>\<^verbatim>\<open>TaskFetcher::new\<close> on fresh managers.\<close>

definition task_fetcher_new ::
  "('c, 'p, 'w) agent_ext \<Rightarrow> 'w \<Rightarrow> net_info_config \<Rightarrow> string \<Rightarrow> string option \<Rightarrow> 'c net_client \<Rightarrow> nl_sock_info option \<Rightarrow> bool
     \<Rightarrow> ('c, 'w) agent" where
  "task_fetcher_new A w cfg burl token nc nl_sock mode = snd (run_state (on_process_pattern (pm_init (ax_files A)))
     \<lparr>ag_world = w, ag_writes = [], ag_cmds = [], ag_posts = [], ag_sent = [], ag_ip = ip_init w,
      ag_proc = policy_new w mode, ag_pattern = pattern_mgr_new w, ag_process = process_mgr_new w, ag_usb = bwl_new,
      ag_disabled = [], ag_jump = jump_manager_new w (nc_ifcfg cfg), ag_cfg = cfg, ag_outreach = [], ag_halt = Running,
      tf_base_url = burl, tf_token = token, tf_api = api_interface, tf_client = nc, tf_nl_sock = nl_sock,
      prev_defense_switch = None, prev_open_port_switch = False, prev_file_switch = False,
      prev_extortion_switch = False, prev_proc_switch = False, prev_syslog_process_switch = False,
      prev_dynamic_switch = False, prev_self_protect_switch = False\<rparr>)"

end
