(* ===== verification/Agent_Run.thy ===== *)
theory Agent_Run
  imports Task_Fetcher
begin

text \<open>
  The agent as a whole: the tasks of the server, the expiry timers, the jump daemon and the host
  underneath take turns (\<open>agent_step\<close>), and what holds in every state that is reached.
\<close>

section \<open>Runs\<close>

text \<open>The operations of the jump manager take the parameters of \<open>jump_ext\<close>, of which the agent's
  are a part. A turn of the poller happens only while its loop runs.\<close>

inductive agent_step :: "('c, 'p, 'w) agent_ext \<Rightarrow> ('c, 'p, 'w) jump_ext \<Rightarrow> ('c, 'w) agent \<Rightarrow> ('c, 'w) agent \<Rightarrow> bool" for A E where
  poll: "ag_halt a = Running \<Longrightarrow> run_state (run_turn A nc) a = (r, a') \<Longrightarrow> agent_step A E a a'"
| expire: "map_of (expiry_tasks (ag_ip a)) ip = Some t \<Longrightarrow> t \<le> now (ag_ip a) \<Longrightarrow>
     run_state (on_ip (expiry_task (ax_files A) (ax_ip_order A) ip)) a = (u, a') \<Longrightarrow> agent_step A E a a'"
| wait: "agent_step A E a (a\<lparr>ag_ip := (ag_ip a)\<lparr>now := now (ag_ip a) + d\<rparr>\<rparr>)"
| cleanup: "run_state (on_jump (do_periodic_cleanup E burl token)) a = (v, a') \<Longrightarrow> agent_step A E a a'"
| jump: "run_state (on_jump (daemon_step E token burl pc ev)) a = (pc', a') \<Longrightarrow> agent_step A E a a'"
| world: "agent_step A E a (a\<lparr>ag_world := w\<rparr>)"

inductive agent_reach :: "('c, 'p, 'w) agent_ext \<Rightarrow> ('c, 'p, 'w) jump_ext \<Rightarrow> ('c, 'w) agent \<Rightarrow> bool" for A E where
  start: "agent_reach A E (task_fetcher_new A w cfg burl token nc nl_sock mode)"
| step: "agent_reach A E a \<Longrightarrow> agent_step A E a a' \<Longrightarrow> agent_reach A E a'"

text \<open>What the server is relied on for: the documents it answers with have no texts that can be mistaken
  for commands of the control files. No digest begins like a deletion, no address is the clear
  command, no trusted directory contains a newline, and the archive of an update is a plain name, so
  that it lies in the directory it is put into. Nothing is asked of the parser.\<close>

definition sane_document :: "('c, 'p, 'w) agent_ext \<Rightarrow> json \<Rightarrow> bool" where
  "sane_document A v \<longleftrightarrow>
     (\<forall>hs. proc_hashes v = Inr hs \<longrightarrow> (\<forall>p \<in> set hs. plain_path p))
     \<and> (\<forall>timed. \<forall>p \<in> set (block_policies timed v). ipp_ip p \<noteq> ''c'')
     \<and> (\<forall>ds. ax_trust_from_value A (json_index v ''data'') = Inr ds \<longrightarrow> (\<forall>d \<in> set ds. nl \<notin> set (td_dir d)))
     \<and> CHR ''/'' \<notin> set (update_alias v)"

definition answers :: "('c, 'p, 'w) agent_ext \<Rightarrow> json \<Rightarrow> bool" where
  "answers A v \<longleftrightarrow> (\<exists>c rq w resp w' t. x_send (ax_http A) c rq w = (Inr resp, w') \<and> rs_text resp = Inr t \<and> ax_json_parse A t = Inr v)"

definition server_sane :: "('c, 'p, 'w) agent_ext \<Rightarrow> bool" where
  "server_sane A \<longleftrightarrow> (\<forall>v. answers A v \<longrightarrow> sane_document A v)"

lemma server_saneD: "server_sane A \<Longrightarrow> answers A v \<Longrightarrow> sane_document A v"
  by (simp add: server_sane_def)

lemma post_answered:
  assumes "run_state (agent_post A url body secs) a = (Inr t, a')"
  shows "\<exists>c rq w resp w'. x_send (ax_http A) c rq w = (Inr resp, w') \<and> rs_text resp = Inr t"
proof -
  have "run_state (post_with A nc url body secs) b = (Inr t, b') \<Longrightarrow> \<exists>c rq w resp w'. x_send (ax_http A) c rq w = (Inr resp, w') \<and> rs_text resp = Inr t"
    for nc b b'
    by (auto simp: post_with_def on_world_def post_data_async_def split: prod.splits sum.splits if_splits) blast+
  with assms show ?thesis by (auto simp: agent_post_def split: prod.splits)
qed

text \<open>A document that was fetched is one that the server answered with.\<close>

lemma fetch_doc_answered:
  assumes "run_state (fetch_doc A n key missing se pe) a = (Inr v, a')"
  shows "answers A v"
  using assms unfolding answers_def fetch_doc_def
  by (auto split: prod.splits sum.splits dest!: post_answered) blast

section \<open>Every task keeps the managers in step\<close>

lemma keeps_tryE_ret:
  assumes "keeps P m" and "\<And>s v s'. run_state m s = (Inr v, s') \<Longrightarrow> R v" and "\<And>v. R v \<Longrightarrow> keeps P (f v)"
  shows "keeps P (tryE m f)"
proof (rule keepsI)
  fix s r s'
  assume "P s" and run: "run_state (tryE m f) s = (r, s')"
  obtain r1 s1 where m: "run_state m s = (r1, s1)" by (rule prod.exhaust)
  have p: "P s1" using keepsD_run [OF assms(1) \<open>P s\<close> m] .
  show "P s'"
  proof (cases r1)
    case (Inl e)
    with run m p show ?thesis by simp
  next
    case (Inr v)
    with run m have "run_state (f v) s1 = (r, s')" by simp
    with Inr m assms(2,3) p show ?thesis using keepsD_run by metis
  qed
qed

lemma fetched:
  assumes "\<And>v. answers A v \<Longrightarrow> keeps agent_ok (f v)"
  shows "keeps agent_ok (tryE (fetch_doc A n key missing se pe) f)"
  by (rule keeps_tryE_ret [where R = "answers A"])
    (auto intro: keeps_fetch_doc fetch_doc_answered assms)

named_theorems agent_intros \<open>operations that keep the managers in step\<close>

lemmas agent_net = keeps_on_world [OF agent_ok_net_blind] keeps_post_with [OF agent_ok_net_blind]
  keeps_agent_post [OF agent_ok_net_blind] keeps_post_ignored [OF agent_ok_net_blind]
  keeps_report [OF agent_ok_net_blind] keeps_send_command [OF agent_ok_net_blind]
  keeps_uploads [OF agent_ok_net_blind] keeps_full_url

declare agent_net [agent_intros] agent_ok_sys [agent_intros] monad_intros [agent_intros] keeps_for_each [agent_intros]

lemma control_paths_names: "p \<in> control_paths \<Longrightarrow> \<not> ends_with ''/net_info.ini'' p \<and> p \<noteq> net_rules_path
    \<and> p \<noteq> defense_path \<and> p \<noteq> block_switch_path"
  by (auto simp: control_paths_def path_defs net_rules_path_def defense_path_def block_switch_path_def ends_with_def)

lemma agent_ok_written [agent_intros]:
  "path \<notin> control_paths \<Longrightarrow> keeps agent_ok (fs_write A path c)"
  "path \<notin> control_paths \<Longrightarrow> keeps agent_ok (on_files (write_all F path c))"
  "path \<notin> control_paths \<Longrightarrow> keeps agent_ok (on_files (to_ini F cfg path))"
  unfolding fs_write_def
  by (intro keeps_map_err agent_ok_files [of "{path}"] path_intros; simp)+

lemma agent_ok_send [agent_intros]: "keeps agent_ok (agent_send A t d)"
  unfolding agent_send_def by (intro agent_intros agent_ok_modify) (simp add: same_managers_def)

lemma rule_paths: "net_rules_path \<notin> control_paths" "defense_path \<notin> control_paths" "block_switch_path \<notin> control_paths"
  "app @ ''/net_info.ini'' \<notin> control_paths"
  using control_paths_names ends_with_append by blast+

lemma agent_ok_net_rule [agent_intros]: "keeps agent_ok (write_net_rule A r)"
proof (cases r)
  case (ServerIpV4 ip)
  then show ?thesis
    by (simp only: write_net_rule.simps write_raw_def) (intro agent_intros rule_paths)
qed (simp_all add: write_raw_def write_defense_switch_def write_netblock_switch_def agent_ok_written agent_ok_send rule_paths)

lemma agent_ok_diffs [agent_intros]:
  assumes "files_ok (ax_files A)"
  shows "keeps agent_ok (diff_self_protect A c)" "keeps agent_ok (diff_open_port A c)" "keeps agent_ok (diff_dynamic A c)"
    "keeps agent_ok (diff_file A c)" "keeps agent_ok (diff_extortion A c)" "keeps agent_ok (diff_proc_log A c)"
    "keeps agent_ok (diff_defense A c)"
  unfolding diff_self_protect_def diff_open_port_def diff_dynamic_def diff_file_def diff_extortion_def diff_proc_log_def
    diff_defense_def
  by (intro agent_intros agent_ok_modify agent_ok_managers [OF assms]; simp add: same_managers_def)+

lemma agent_ok_config [agent_intros]: "files_ok (ax_files A) \<Longrightarrow> keeps agent_ok (update_config_from_json A conf)"
  unfolding update_config_from_json_def apply_config_diff_def Let_def
  by (intro agent_intros agent_ok_modify rule_paths; simp add: same_managers_def)

lemma agent_ok_port_rules [agent_intros]: "keeps agent_ok (write_port_rules A n rules)"
proof (induction rules)
  case (Cons r rules)
  then show ?case by (cases r) (auto intro!: agent_intros rule_paths)
qed (auto intro: keeps_return)

lemma agent_ok_rollbacks [agent_intros]: "keeps agent_ok (rollback_each A ids b)"
  unfolding upload_rollback_def
  by (induction ids arbitrary: b) (auto intro!: agent_intros simp: upload_rollback_def)

lemma agent_ok_spawn [agent_intros]: "keeps agent_ok (spawn_logged A cmd args)"
  unfolding spawn_logged_def by (intro agent_intros agent_ok_modify) (simp add: same_managers_def)

lemma other_paths: "self_path \<notin> control_paths" "temp_dir @ ''/'' @ alias \<notin> control_paths"
  by (auto simp: control_paths_def path_defs self_path_def temp_dir_def)

lemma agent_ok_created [agent_intros]: "path \<notin> control_paths \<Longrightarrow> keeps agent_ok (on_files (create_and_write F path c))"
  by (intro agent_ok_files [of "{path}"] path_intros; simp)

lemma agent_ok_loops [agent_intros]:
  "keeps agent_ok (wait_exit A n)" "keeps agent_ok (await_process A n)" "keeps agent_ok (wait_ready A path n)"
proof -
  show "keeps agent_ok (wait_exit A n)" "keeps agent_ok (await_process A n)"
    by (induction n) (auto simp: any_running_def is_process_running_def status_ok_def intro!: agent_intros)
  show "keeps agent_ok (wait_ready A path n)"
  proof (induction n)
    case 0
    then show ?case by (subst wait_ready.simps) (intro agent_intros; simp add: keeps_return)
  next
    case (Suc n)
    then show ?case by (subst wait_ready.simps) (intro agent_intros; simp del: wait_ready.simps)
  qed
qed

lemma agent_ok_ready [agent_intros]: "keeps agent_ok (wait_socket_ready A path n)"
  unfolding wait_socket_ready_def by (cases n) (simp_all add: agent_intros del: wait_ready.simps)

lemma agent_ok_upgrade [agent_intros]: "keeps agent_ok (hot_upgrade A)"
  unfolding hot_upgrade_def write_proc_self_def stop_agent_def stop_service_def start_agent_def install_service_def
    replace_binary_with_arch_check_def backup_binary_def remove_file_def is_process_running_def
    status_ok_def run_quiet_def Let_def case_prod_unfold
  by (intro agent_intros agent_ok_modify other_paths; simp add: same_managers_def)

lemma agent_ok_task_update [agent_intros]: "keeps agent_ok (task_update A n)"
  unfolding task_update_def run_update_def unpack_update_def by (intro agent_intros other_paths)

lemma agent_ok_policy_tasks [agent_intros]:
  assumes F: "files_ok (ax_files A)" and D: "server_sane A"
  shows "keeps agent_ok (task_down_white A n)" "keeps agent_ok (task_down_black A n)"
    "keeps agent_ok (task_down_netblock_policy A n)" "keeps agent_ok (task_down_black_ip_policy A n)"
    "keeps agent_ok (task_global_dir A n)" "keeps agent_ok (task_down_dir_policy A n)" "keeps agent_ok (task_down_extort A n)"
    "keeps agent_ok (task_down_conf A n)"
proof -
  have p: "keeps agent_ok (put_processes A c v)" if "answers A v" for c v
    using server_saneD [OF D that] unfolding put_processes_def sane_document_def
    by (cases "proc_hashes v") (auto intro!: agent_intros agent_ok_managers [OF F])
  show "keeps agent_ok (task_down_white A n)" "keeps agent_ok (task_down_black A n)"
    unfolding task_down_white_def task_down_black_def bad_code_def by (intro fetched agent_intros p; assumption)+
  have b: "\<forall>q \<in> set (block_policies timed v). ipp_ip q \<noteq> ''c''" if "answers A v" for timed v
    using server_saneD [OF D that] unfolding sane_document_def by blast
  show "keeps agent_ok (task_down_netblock_policy A n)" "keeps agent_ok (task_down_black_ip_policy A n)"
    unfolding task_down_netblock_policy_def task_down_black_ip_policy_def
    by (intro fetched keeps_if keeps_return agent_ok_managers [OF F] b; assumption)+
  have "\<forall>d \<in> set ds. nl \<notin> set (td_dir d)" if "answers A v" "ax_trust_from_value A (json_index v ''data'') = Inr ds" for v ds
    using server_saneD [OF D that(1)] that(2) unfolding sane_document_def by blast
  then show "keeps agent_ok (task_global_dir A n)"
    unfolding task_global_dir_def bad_code_def by (intro fetched agent_intros agent_ok_managers [OF F])
  show "keeps agent_ok (task_down_dir_policy A n)" "keeps agent_ok (task_down_extort A n)" "keeps agent_ok (task_down_conf A n)"
    unfolding task_down_dir_policy_def task_down_extort_def task_down_conf_def bad_code_def
    by (intro fetched agent_intros agent_ok_managers [OF F] F)+
qed

lemma agent_ok_other_tasks [agent_intros]:
  "keeps agent_ok (task_get_white_peripherals A n)" "keeps agent_ok (task_get_black_peripherals A n)"
  "keeps agent_ok (task_down_virtual_port A n)" "keeps agent_ok (task_down_pwjump A n)"
  "keeps agent_ok (task_down_ipjump A n)" "keeps agent_ok (task_outreach_detect A n)"
  "keeps agent_ok (task_get_system_backups A n)" "keeps agent_ok (task_system_rollback A n)"
  "keeps agent_ok (task_uninstall A n)" "keeps agent_ok (task_update_uuid A n)"
  unfolding task_get_white_peripherals_def task_get_black_peripherals_def task_down_virtual_port_def
    task_down_pwjump_def upload_passwd_result_def task_down_ipjump_def task_outreach_detect_def
    task_get_system_backups_def backup_one_def upload_backup_def task_system_rollback_def reboot_system_def
    task_uninstall_def task_update_uuid_def Let_def
  by (intro fetched agent_intros agent_ok_modify rule_paths; simp add: same_managers_def split: prod.splits)+

lemma agent_ok_handle_task:
  "files_ok (ax_files A) \<Longrightarrow> server_sane A \<Longrightarrow> keeps agent_ok (handle_task A t)"
  by (cases t) (auto intro!: agent_intros simp: task_nothing_def)

lemma agent_ok_handle_tasks:
  "files_ok (ax_files A) \<Longrightarrow> server_sane A \<Longrightarrow> keeps agent_ok (handle_tasks A ids)"
  by (induction ids) (auto intro!: agent_intros agent_ok_handle_task split: option.splits)

lemma agent_ok_run_turn: "files_ok (ax_files A) \<Longrightarrow> server_sane A \<Longrightarrow> keeps agent_ok (run_turn A nc)"
  unfolding run_turn_def by (intro agent_intros agent_ok_handle_tasks)

section \<open>Every state that is reached\<close>

lemma fresh_managers:
  "ip_ok ((ip_init w)\<lparr>fos := w, write_log := []\<rparr>)" "kernel_told ((policy_new w mode)\<lparr>fos := w, write_log := []\<rparr>)"
  "in_sync ((pattern_mgr_new w)\<lparr>fos := w, write_log := []\<rparr>)" "pm_synced ((process_mgr_new w)\<lparr>fos := w, write_log := []\<rparr>)"
  by (simp_all add: ip_ok_def ip_init_def ip_inv_def timers_match_def tables_agree_def v4_lines_def v6_lines_def loaded_def
      kernel_told_def policy_new_def kernel_lists_def in_sync_def pattern_mgr_new_def pre_texts_def cur_texts_def
      pattern_texts_def process_texts_def pm_synced_def process_mgr_new_def pm_pre_def pm_cur_def pm_shape_def
      pm_patterns_def pm_rules_def nonempty_def trust_rules_of_def)

lemma agent_ok_new:
  assumes "files_ok (ax_files A)"
  shows "agent_ok (task_fetcher_new A w cfg burl token nc nl_sock mode)"
  unfolding task_fetcher_new_def
  by (rule keepsD [OF agent_ok_managers(7) [OF assms]])
    (simp add: agent_ok_def part_defs fresh_managers)

lemma ip_ok_wait: "ip_ok s \<Longrightarrow> ip_ok (s\<lparr>now := t\<rparr>)"
  by (simp add: ip_ok_def ip_inv_def tables_agree_def)

lemma agent_ok_step:
  assumes "files_ok (ax_files A)" and "server_sane A" and "agent_step A E a a'" and "agent_ok a"
  shows "agent_ok a'"
  using assms(3,4)
proof cases
  case (poll nc r)
  then show ?thesis using keepsD_run [OF agent_ok_run_turn [OF assms(1,2)] assms(4)] by blast
next
  case (expire ip t u)
  then show ?thesis using keepsD_run [OF agent_ok_managers(11) [OF assms(1)] assms(4)] by blast
next
  case (wait d)
  have "ip_view a' = (ip_view a)\<lparr>now := now (ag_ip a) + d\<rparr>" unfolding wait by (cases "ag_ip a") (simp add: part_defs)
  with wait assms(4) show ?thesis by (simp add: agent_ok_def ip_ok_wait) (simp add: part_defs)
next
  case (cleanup burl token v)
  from keepsD_run [OF agent_ok_sys(2) assms(4) this] show ?thesis .
next
  case (jump token burl pc ev pc')
  from keepsD_run [OF agent_ok_sys(2) assms(4) this] show ?thesis .
next
  case (world w)
  then show ?thesis using net_blind_world [OF agent_ok_net_blind assms(4)] by blast
qed

lemma agent_reach_ok:
  "agent_reach A E a \<Longrightarrow> files_ok (ax_files A) \<Longrightarrow> server_sane A \<Longrightarrow> agent_ok a"
  by (induction rule: agent_reach.induct) (auto intro: agent_ok_new agent_ok_step)

section \<open>Properties\<close>

text \<open>C1: the whole agent keeps the kernel module in step. Whatever tasks the server hands out, in
  whatever order, interleaved with expiring blocks, the jump daemon, its periodic cleanup and
  changes of the host, and whichever requests fail: as long as the control files accept writes and
  the documents of the server are sane, the one log of writes that all managers share has loaded
  exactly the blocked addresses of the address manager, the white and black executables of the
  process manager, the patterns and trusted processes of the file pattern manager, and the patterns
  and rules of the process pattern manager. Nothing is said of the rules of the file pattern manager,
  which are not always loaded. No manager disturbs the files of another.\<close>

theorem agent_kernel_follows:
  assumes "agent_reach A E a" and "files_ok (ax_files A)" and "server_sane A"
  shows "mset (loaded v4_path (ag_writes a))
         = mset (map (\<lambda>p. ipp_ip p @ [nl]) (filter (\<lambda>p. \<not> ipp_is_ipv6 p) (map snd (ip_policies (ag_ip a)))))
    \<and> mset (loaded v6_path (ag_writes a))
         = mset (map (\<lambda>p. ipp_ip p @ [nl]) (filter ipp_is_ipv6 (map snd (ip_policies (ag_ip a)))))
    \<and> kernel_lists (ag_writes a) = (sent_white (ag_proc a), sent_black (ag_proc a))
    \<and> filter (\<lambda>t. t \<noteq> build_line) (loaded file_patterns_path (ag_writes a)) = pattern_texts (ag_pattern a)
    \<and> loaded true_process_path (ag_writes a) = process_texts (ag_pattern a)
    \<and> filter (\<lambda>t. t \<noteq> build_line) (loaded FILE_PATTERNS_PROC_FILE (ag_writes a)) = pm_patterns (ag_process a)
    \<and> loaded DPI_RULE_PROC_FILE (ag_writes a) = pm_rules (ag_process a)"
  using agent_reach_ok [OF assms]
  by (simp add: agent_ok_def part_defs ip_ok_def tables_agree_def v4_lines_def v6_lines_def comp_def kernel_told_def
      in_sync_def pattern_texts_def process_texts_def pm_synced_def pm_patterns_def pm_rules_def)

text \<open>A server that hands out a block and a list of forbidden executables.\<close>

definition lab_doc :: "json \<Rightarrow> json" where
  "lab_doc v = JObj [(''code'', JStr ''000000''), (''data'', v)]"

definition lab_server :: "string \<Rightarrow> json" where
  "lab_server url =
     (if url = ''u/v1/gettask'' then lab_doc (JObj [(''tasklist'', JArr [JInt 13, JInt 7])])
      else if url = ''u/v1/getPlugging''
      then lab_doc (JArr [JObj [(''ip'', JStr ''10.0.0.1''), (''direction'', JInt 0), (''duration'', JInt 60)]])
      else if url = ''u/v1/getprocbl'' then lab_doc (JObj [(''proclist'', JArr [JObj [(''hash'', JStr ''00ff'')]])])
      else JNull)"

definition lab_run :: "(unit, unit) agent" where
  "lab_run =
     (let A = lab_agent_ext free_files lab_server;
          nc = \<lparr>client = (), base_url = Some ''u''\<rparr>
      in snd (run_state (run_turn A nc) (task_fetcher_new A () net_info_default ''u'' None nc (Some lab_sock) True)))"

definition lab_jump_ext :: "(unit, unit, unit) jump_ext" where
  "lab_jump_ext = \<lparr>je_sys = no_sys, je_http = echo_http, je_json_print = (\<lambda>j. ''{}''), je_json_parse = (\<lambda>t. Inl []),
     je_is_dir = (\<lambda>p w. False), je_read_dir = (\<lambda>p w. Inl ''not found''), je_write = (\<lambda>p c w. (Inl ''denied'', w)),
     je_replace = (\<lambda>re t r. t), je_is_match = (\<lambda>re t. False)\<rparr>"

lemma lab_documents:
  "block_policies timed (lab_server url) = (if url = ''u/v1/getPlugging'' then
     [\<lparr>ipp_direction = 0, ipp_ip = ''10.0.0.1'', ipp_duration = (if timed then 60 else 0), ipp_is_ipv6 = False\<rparr>] else [])"
  "proc_hashes (lab_server url) = (if url = ''u/v1/getprocbl'' then Inr [''00ff'']
     else Inl ''Missing or invalid proclist in response'')"
proof -
  have "\<not> is_ipv6 ''10.0.0.1''" by code_simp
  then show "block_policies timed (lab_server url) = (if url = ''u/v1/getPlugging'' then
      [\<lparr>ipp_direction = 0, ipp_ip = ''10.0.0.1'', ipp_duration = (if timed then 60 else 0), ipp_is_ipv6 = False\<rparr>] else [])"
    "proc_hashes (lab_server url) = (if url = ''u/v1/getprocbl'' then Inr [''00ff'']
      else Inl ''Missing or invalid proclist in response'')"
    by (simp_all add: lab_server_def lab_doc_def block_policies_def block_entry_def proc_hashes_def json_index_def
        List.map_filter_simps)
qed

lemma lab_server_sane: "server_sane (lab_agent_ext free_files lab_server)"
proof -
  have "update_alias (lab_server t) = ''update.zip''" for t
    by (simp add: update_alias_def lab_server_def lab_doc_def json_index_def)
  then show ?thesis
    by (auto simp: server_sane_def answers_def sane_document_def lab_agent_ext_def lab_documents plain_path_def starts_with_def split: if_splits)
qed

lemma lab_run_reach: "agent_reach (lab_agent_ext free_files lab_server) lab_jump_ext lab_run"
  unfolding lab_run_def Let_def
  by (rule agent_reach.step [OF agent_reach.start agent_step.poll [OF _ prod.collapse [symmetric]]])
    (simp add: task_fetcher_new_def part_defs)

text \<open>How such an agent answers: every request succeeds, every document is the server's.\<close>

lemma lab_post:
  "run_state (post_with (lab_agent_ext F server) nc url body n) a = (Inr url, a\<lparr>ag_posts := ag_posts a @ [(url, body)]\<rparr>)"
  by (simp add: post_with_def post_data_async_def lab_agent_ext_def echo_http_def post_request_def on_world_def)

lemma lab_fetch:
  assumes "tf_api a = api_interface" and "map_of api_interface key = Some sfx"
  shows "run_state (fetch_doc (lab_agent_ext F server) n key missing se pe) a
    = (Inr (server (tf_base_url a @ ''/'' @ sfx)), a\<lparr>ag_posts := ag_posts a @
         [(tf_base_url a @ ''/v1/closetask'', ''{}''), (tf_base_url a @ ''/'' @ sfx, [])]\<rparr>)"
proof -
  have "map_of api_interface ''closetask'' = Some ''v1/closetask''" by (simp add: api_interface_def api_entries_def)
  with assms show ?thesis
    by (simp add: fetch_doc_def report_task_completion_def full_url_def task_url_def post_ignored_def
        agent_post_def lab_post) (simp add: lab_agent_ext_def build_closetask_json_def)
qed

lemma lab_handle:
  assumes "tf_api a = api_interface" and "tf_base_url a = ''u''"
  shows "\<exists>posts. snd (run_state (handle_task (lab_agent_ext free_files lab_server) TaskDownNetBlockPolicy) a)
      = snd (run_state (on_ip (update_and_write_policies free_files (\<lambda>xs. xs)
          [\<lparr>ipp_direction = 0, ipp_ip = ''10.0.0.1'', ipp_duration = 60, ipp_is_ipv6 = False\<rparr>])) (a\<lparr>ag_posts := posts\<rparr>))"
    "\<exists>posts. snd (run_state (handle_task (lab_agent_ext free_files lab_server) TaskDownBlack) a)
      = snd (run_state (on_proc (set_policy_process free_files (\<lambda>xs. xs) [''00ff''] False)) (a\<lparr>ag_posts := posts\<rparr>))"
proof -
  have k: "map_of api_interface ''getPlugging'' = Some ''v1/getPlugging''"
    "map_of api_interface ''download_black'' = Some ''v1/getprocbl''" by (simp_all add: api_interface_def api_entries_def)
  have c: "code_ok (lab_server ''u/v1/getPlugging'')" "code_ok (lab_server ''u/v1/getprocbl'')"
    by (simp_all add: code_ok_def lab_server_def lab_doc_def json_index_def)
  have A: "ax_files (lab_agent_ext free_files lab_server) = free_files" "ax_ip_order (lab_agent_ext free_files lab_server) = (\<lambda>xs. xs)"
    "ax_order (lab_agent_ext free_files lab_server) = (\<lambda>xs. xs)" by (simp_all add: lab_agent_ext_def)
  show "\<exists>posts. snd (run_state (handle_task (lab_agent_ext free_files lab_server) TaskDownNetBlockPolicy) a)
      = snd (run_state (on_ip (update_and_write_policies free_files (\<lambda>xs. xs)
          [\<lparr>ipp_direction = 0, ipp_ip = ''10.0.0.1'', ipp_duration = 60, ipp_is_ipv6 = False\<rparr>])) (a\<lparr>ag_posts := posts\<rparr>))"
    by (rule exI) (simp add: task_down_netblock_policy_def lab_fetch [OF assms(1) k(1)] assms(2) c lab_documents A del: run_zoom)
  show "\<exists>posts. snd (run_state (handle_task (lab_agent_ext free_files lab_server) TaskDownBlack) a)
      = snd (run_state (on_proc (set_policy_process free_files (\<lambda>xs. xs) [''00ff''] False)) (a\<lparr>ag_posts := posts\<rparr>))"
    by (rule exI) (simp add: task_down_black_def put_processes_def lab_fetch [OF assms(1) k(2)] assms(2) c lab_documents A
        case_prod_unfold del: run_zoom)
qed

lemma lab_run_tasks:
  "\<exists>a1. ag_ip a1 = ip_init () \<and> ag_proc a1 = policy_new () True \<and> ag_halt a1 = Running \<and> tf_api a1 = api_interface
     \<and> tf_base_url a1 = ''u'' \<and> lab_run = snd (run_state (handle_tasks (lab_agent_ext free_files lab_server) [13, 7]) a1)"
proof -
  have "task_list (lab_server ''u/v1/gettask'') = [13, 7]" "code_ok (lab_server ''u/v1/gettask'')"
    by (simp_all add: lab_server_def lab_doc_def task_list_def json_index_def List.map_filter_simps code_ok_def)
  moreover have "ax_json_parse (lab_agent_ext free_files lab_server) = (\<lambda>t. Inr (lab_server t))" by (simp add: lab_agent_ext_def)
  ultimately show ?thesis
    unfolding lab_run_def Let_def
    by (intro exI conjI) (simp_all add: run_turn_def lab_post task_fetcher_new_def part_defs case_prod_unfold
        del: handle_tasks.simps)
qed

lemma lab_run_parts:
  "ip_policies (ag_ip lab_run) = [(''10.0.0.1'',
     \<lparr>ipp_direction = 0, ipp_ip = ''10.0.0.1'', ipp_duration = 60, ipp_is_ipv6 = False\<rparr>)]"
  "sent_white (ag_proc lab_run) = {}" "sent_black (ag_proc lab_run) = {''00ff''}"
proof -
  let ?A = "lab_agent_ext free_files lab_server"
  let ?p = "\<lparr>ipp_direction = 0, ipp_ip = ''10.0.0.1'', ipp_duration = 60, ipp_is_ipv6 = False\<rparr>"
  from lab_run_tasks obtain a1 where a1: "ag_ip a1 = ip_init ()" "ag_proc a1 = policy_new () True" "ag_halt a1 = Running"
    "tf_api a1 = api_interface" "tf_base_url a1 = ''u''" and run: "lab_run = snd (run_state (handle_tasks ?A [13, 7]) a1)" by blast
  let ?a2 = "snd (run_state (handle_task ?A TaskDownNetBlockPolicy) a1)"
  from lab_handle(1) [OF a1(4,5)] obtain p1 where p1: "?a2 = snd (run_state (on_ip (update_and_write_policies free_files
      (\<lambda>xs. xs) [?p])) (a1\<lparr>ag_posts := p1\<rparr>))" by blast
  have a2: "ag_proc ?a2 = policy_new () True" "ag_halt ?a2 = Running" "tf_api ?a2 = api_interface" "tf_base_url ?a2 = ''u''"
    unfolding p1 using a1 by (simp_all add: part_defs)
  from update_run [OF prod.collapse [symmetric], where F = free_files and h = "\<lambda>xs. xs" and ps = "[?p]"
      and s = "ip_view (a1\<lparr>ag_posts := p1\<rparr>)"] write_policies_maps
  have i: "ip_policies (ag_ip ?a2) = [(''10.0.0.1'', ?p)]" unfolding p1 using a1(1)
    by (fastforce simp: part_defs merge_policy_def ip_init_def set_timer_def Let_def)
  let ?a3 = "snd (run_state (handle_task ?A TaskDownBlack) ?a2)"
  from lab_handle(2) [OF a2(3,4)] obtain p2 where p2: "?a3 = snd (run_state (on_proc (set_policy_process free_files
      (\<lambda>xs. xs) [''00ff''] False)) (?a2\<lparr>ag_posts := p2\<rparr>))" by blast
  have "task_from_u32 13 = Some TaskDownNetBlockPolicy" "task_from_u32 7 = Some TaskDownBlack" by code_simp+
  then have "lab_run = ?a3" using a1(3) a2(2) by (simp add: run case_prod_unfold del: handle_task.simps)
  moreover have "ip_policies (ag_ip ?a3) = ip_policies (ag_ip ?a2)" unfolding p2 by (simp add: part_defs)
  moreover have "ag_proc ?a3 = put_process_list free_files (\<lambda>xs. xs) False [''00ff''] (proc_view (?a2\<lparr>ag_posts := p2\<rparr>))"
    unfolding p2 by (simp add: put_process_list_def) (simp add: part_defs)
  ultimately show "ip_policies (ag_ip lab_run) = [(''10.0.0.1'', ?p)]" "sent_white (ag_proc lab_run) = {}"
    "sent_black (ag_proc lab_run) = {''00ff''}"
    using i a2(1) by (simp_all add: put_process_sets) (simp add: part_defs policy_new_def)
qed

theorem agent_kernel_follows_witness:
  "loaded v4_path (ag_writes lab_run) = [''10.0.0.1'' @ [nl]] \<and> kernel_lists (ag_writes lab_run) = ({}, {''00ff''})"
proof -
  have F: "files_ok (ax_files (lab_agent_ext free_files lab_server))" by (simp add: lab_agent_ext_def free_files_ok)
  from agent_kernel_follows [OF lab_run_reach F lab_server_sane] show ?thesis by (simp add: lab_run_parts)
qed

end
