(* ===== verification/Net_Config.thy ===== *)
theory Net_Config
  imports Task_Config
begin

text \<open>
  \<^verbatim>\<open>crates/config/src/net_info.rs\<close>: reading the configuration. The INI parser is the package
  \<^verbatim>\<open>configparser\<close>; what it found is the parameter \<open>get\<close> (section and key to value). Reading also
  switches the virtual ports and looks up the interface that leads to the server.
\<close>

section \<open>Rules and commands of this crate\<close>

datatype config_rule = CfgServerIpV4 string | CfgServerPort u32 | CfgLogIpPort string | CfgVirtualOpenPort bool

definition cfg_write_raw :: "('c, 'p, 'w) agent_ext \<Rightarrow> string \<Rightarrow> string \<Rightarrow> (('c, 'w) agent, unit res) state" where
  "cfg_write_raw A rule_type value =
     map_err (\<lambda>e. ''Failed to write to /proc/osec/net_rules: '' @ e)
       (on_files (create_and_write (ax_files A) net_rules_path (rule_type @ '' '' @ value @ [nl])))"

fun cfg_write_net_rule :: "('c, 'p, 'w) agent_ext \<Rightarrow> config_rule \<Rightarrow> (('c, 'w) agent, unit res) state" where
  "cfg_write_net_rule A (CfgServerIpV4 ip) =
     (case ip_str_to_u32 ip of
        Inl e \<Rightarrow> State_Monad.return (Inl e)
      | Inr ip_u32 \<Rightarrow> cfg_write_raw A ''server_ipv4 '' (show_word ip_u32))"
| "cfg_write_net_rule A (CfgServerPort port) = cfg_write_raw A ''server_port '' (show_word port)"
| "cfg_write_net_rule A (CfgLogIpPort log_ip_port) = cfg_write_raw A ''log_ip_port '' log_ip_port"
| "cfg_write_net_rule A (CfgVirtualOpenPort st) = cfg_write_raw A ''vir_open_port_switch '' (if st then ''1'' else ''0'')"

text \<open>The error texts of this command end in the log only; the exit status, which the code prints in
  one of them, is left out.\<close>

definition cfg_run_cmd :: "('c, 'p, 'w) agent_ext \<Rightarrow> string \<Rightarrow> string list \<Rightarrow> (('c, 'w) agent, string res) state" where
  "cfg_run_cmd A cmd args = do {
     r \<leftarrow> on_sys (exec_output (ax_sys A) cmd args);
     State_Monad.return
       (case r of
          Inl e \<Rightarrow> Inl (''Failed to execute '' @ cmd @ '': '' @ e)
        | Inr output \<Rightarrow>
            if \<not> po_success output then Inl (''Command '' @ cmd @ '' failed: '' @ po_stderr output)
            else Inr (trim (po_stdout output)))
   }"

definition re_dev :: string where "re_dev = ''dev'' @ [CHR 0x5C] @ ''s+('' @ [CHR 0x5C] @ ''S+)''"

fun first_dev :: "'w sys_ext \<Rightarrow> string list \<Rightarrow> string option" where
  "first_dev X [] = None"
| "first_dev X (line # ls) =
     (case x_captures X re_dev line of
        Some g \<Rightarrow> if g ! 1 \<noteq> ''lo'' then Some (g ! 1) else first_dev X ls
      | None \<Rightarrow> first_dev X ls)"

definition get_main_interface :: "('c, 'p, 'w) agent_ext \<Rightarrow> string \<Rightarrow> (('c, 'w) agent, string res) state" where
  "get_main_interface A server_ip =
     tryE (map_err (\<lambda>e. ''ip route get '' @ server_ip @ '' failed: '' @ e)
             (cfg_run_cmd A ''ip'' [''route'', ''get'', server_ip])) (\<lambda>out.
       State_Monad.return (case first_dev (ax_sys A) (str_lines out) of
           None \<Rightarrow> Inl (''No valid interface found for server_ip '' @ server_ip)
         | Some iface \<Rightarrow> Inr iface))"

section \<open>The address of the server\<close>

definition strip_prefix :: "string \<Rightarrow> string \<Rightarrow> string option" where
  "strip_prefix p s = (if starts_with p s then Some (drop (length p) s) else None)"

definition is_ip_addr :: "string \<Rightarrow> bool" where
  "is_ip_addr s \<longleftrightarrow> read_ipv4_addr s = Some [] \<or> read_ipv6_addr s = Some []"

definition extract_ip :: "string \<Rightarrow> string option" where
  "extract_ip input =
     (let without_scheme =
        (case strip_prefix ''http://'' input of
           Some s \<Rightarrow> s
         | None \<Rightarrow> opt_or input (strip_prefix ''https://'' input));
          host_part =
        (if starts_with ''['' without_scheme
         then if CHR '']'' \<in> set without_scheme then takeWhile (\<lambda>c. c \<noteq> CHR '']'') (tl without_scheme)
              else without_scheme
         else takeWhile (\<lambda>c. c \<noteq> CHR '':'') without_scheme)
      in if is_ip_addr host_part then Some host_part else None)"

section \<open>Reading the fields\<close>

definition parse_u32 :: "string \<Rightarrow> u32 option" where
  "parse_u32 s = map_option of_nat (parse_uint 4294967295 s)"

type_synonym ini = "string \<Rightarrow> string \<Rightarrow> string option"

definition ini_num :: "ini \<Rightarrow> string \<Rightarrow> u32 \<Rightarrow> u32" where
  "ini_num get key old = (case get ''SERVERINFO'' key of None \<Rightarrow> old | Some value \<Rightarrow> opt_or 0 (parse_u32 value))"

definition ini_flag :: "ini \<Rightarrow> string \<Rightarrow> bool \<Rightarrow> bool" where
  "ini_flag get key old = (case get ''SERVERINFO'' key of None \<Rightarrow> old | Some value \<Rightarrow> trim value = ''1'')"

definition ini_text :: "ini \<Rightarrow> string \<Rightarrow> string \<Rightarrow> string \<Rightarrow> string" where
  "ini_text get sec key old = opt_or old (get sec key)"

definition ini_before :: "ini \<Rightarrow> net_info_config \<Rightarrow> net_info_config" where
  "ini_before get c = c\<lparr>
     nc_mid := ini_text get ''CLIENTINFO'' ''MID'' (nc_mid c),
     nc_ver := ini_text get ''SERVERINFO'' ''VERSION'' ''3.0.1_R4_B1'',
     nc_user_id := ini_text get ''SERVERINFO'' ''USER_ID'' (nc_user_id c),
     nc_com_time := ini_num get ''COMTIME'' (nc_com_time c),
     nc_cron_time := ini_num get ''CRONTIME'' (nc_cron_time c),
     nc_extortion_protect := ini_flag get ''EXTORTION_PROTECT'' (nc_extortion_protect c),
     nc_extortion_switch := ini_flag get ''EXTORTION_SWITCH'' (nc_extortion_switch c),
     nc_self_protect_switch := ini_flag get ''SELF_PROTECT_SWITCH'' (nc_self_protect_switch c),
     nc_fast_time := ini_num get ''FASTTIME'' (nc_fast_time c),
     nc_file_protect := ini_flag get ''FILE_PROTECT'' (nc_file_protect c),
     nc_file_switch := ini_flag get ''FILE_SWITCH'' (nc_file_switch c),
     nc_dynamic_switch := ini_flag get ''DYNAMIC_SWITCH'' (nc_dynamic_switch c),
     nc_log_ip_port := (case get ''SERVERINFO'' ''LOGIPPORT'' of None \<Rightarrow> nc_log_ip_port c | Some value \<Rightarrow> Some value),
     nc_log_proto := ini_num get ''LOGPROTO'' (nc_log_proto c),
     nc_log_sent := ini_num get ''LOGSENT'' (nc_log_sent c),
     nc_cli_port := ini_num get ''CLI_SERVER_PORT'' (nc_cli_port c),
     nc_module_switch := ini_num get ''MODULE_SWITCH'' (nc_module_switch c),
     nc_open_port_switch := ini_flag get ''OPEN_PORT_SWITCH'' (nc_open_port_switch c)\<rparr>"

definition ini_middle :: "ini \<Rightarrow> net_info_config \<Rightarrow> net_info_config" where
  "ini_middle get c = c\<lparr>
     nc_proc_protect := ini_flag get ''PROC_PROTECT'' (nc_proc_protect c),
     nc_proc_switch := ini_flag get ''PROC_SWITCH'' (nc_proc_switch c),
     nc_scan_file_time := ini_num get ''SCANFILETIME'' (nc_scan_file_time c),
     nc_scan_proc_time := ini_num get ''SCANPROCTIME'' (nc_scan_proc_time c),
     nc_server_ip_port := ini_text get ''SERVERINFO'' ''SERVERIPPORT'' (nc_server_ip_port c)\<rparr>"

definition ini_server_ip :: "('c, 'p, 'w) agent_ext \<Rightarrow> ini \<Rightarrow> net_info_config \<Rightarrow> (('c, 'w) agent, net_info_config) state" where
  "ini_server_ip A get c =
     (case get ''SERVERINFO'' ''SERVER_IP'' of
        None \<Rightarrow> State_Monad.return c
      | Some value \<Rightarrow>
          let c = c\<lparr>nc_server_ip := value\<rparr>
          in if value = [] then State_Monad.return c
             else do {
               r \<leftarrow> get_main_interface A (opt_or value (extract_ip value));
               State_Monad.return (c\<lparr>nc_ifcfg := (case r of Inl _ \<Rightarrow> ''eth0'' | Inr iface \<Rightarrow> iface)\<rparr>)
             })"

definition ini_logs :: "ini \<Rightarrow> net_info_config \<Rightarrow> net_info_config" where
  "ini_logs get c = c\<lparr>
     nc_server_port := ini_num get ''SERVER_PORT'' (nc_server_port c),
     nc_usb_protect := ini_flag get ''USB_PROTECT'' (nc_usb_protect c),
     nc_usb_switch := ini_flag get ''USB_SWITCH'' (nc_usb_switch c),
     nc_syslog_dns_switch := ini_flag get ''DNS_SWITCH'' (nc_syslog_dns_switch c),
     nc_syslog_inner_switch := ini_flag get ''INTERNAL_COMMUNICATION_SWITCH'' (nc_syslog_inner_switch c),
     nc_syslog_outer_switch := ini_flag get ''EXTERNAL_COMMUNICATION_SWITCH'' (nc_syslog_outer_switch c),
     nc_internet_switch := ini_flag get ''INTERNET_SWITCH'' (nc_internet_switch c),
     nc_is_offline_mode := ini_flag get ''OFFLINE_MODE'' (nc_is_offline_mode c),
     nc_syslog_process_switch := ini_flag get ''SYSLOG_PROCESS_SWITCH'' (nc_syslog_process_switch c),
     nc_syslog_login_switch := ini_flag get ''SYSLOG_LOGIN_SWITCH'' (nc_syslog_login_switch c)\<rparr>"

definition ini_timers :: "ini \<Rightarrow> net_info_config \<Rightarrow> net_info_config" where
  "ini_timers get c = c\<lparr>
     nc_hardware_switch := ini_flag get ''HARDWARE_SWITCH'' (nc_hardware_switch c),
     nc_hardware_time := ini_num get ''HARDWARE_TIME'' (nc_hardware_time c),
     nc_baseline_switch := ini_flag get ''BASELINE_SWITCH'' (nc_baseline_switch c),
     nc_baseline_time := ini_num get ''BASELINE_TIME'' (nc_baseline_time c),
     nc_outreach_switch := ini_flag get ''OUTREACH_SWITCH'' (nc_outreach_switch c),
     nc_outreach_time := ini_num get ''OUTREACH_TIME'' (nc_outreach_time c)\<rparr>"

definition ini_host :: "ini \<Rightarrow> net_info_config \<Rightarrow> net_info_config" where
  "ini_host get c = c\<lparr>
     nc_dev_uid := ini_text get ''HOSTINFO'' ''DEV_UID'' (nc_dev_uid c),
     nc_macid := ini_text get ''HOSTINFO'' ''MACID'' (nc_macid c),
     nc_ips := ini_text get ''HOSTINFO'' ''IPS'' (nc_ips c),
     nc_os := ini_text get ''HOSTINFO'' ''OS'' (nc_os c),
     nc_memsize := ini_text get ''HOSTINFO'' ''MEMSIZE'' (nc_memsize c),
     nc_cpu := ini_text get ''HOSTINFO'' ''CPU'' (nc_cpu c),
     nc_hdsize := ini_text get ''HOSTINFO'' ''HDSIZE'' (nc_hdsize c),
     nc_auth := ini_text get ''HOSTINFO'' ''AUTH'' (nc_auth c),
     nc_host_name := ini_text get ''HOSTINFO'' ''HOSTNAME'' (nc_host_name c)\<rparr>"

definition from_ini :: "('c, 'p, 'w) agent_ext \<Rightarrow> ini \<Rightarrow> (('c, 'w) agent, net_info_config) state" where
  "from_ini A get = do {
     let config = ini_before get net_info_default;
     (case get ''SERVERINFO'' ''OPEN_PORT_SWITCH'' of
        None \<Rightarrow> State_Monad.return (Inr ())
      | Some _ \<Rightarrow> cfg_write_net_rule A (CfgVirtualOpenPort (nc_open_port_switch config)));
     config \<leftarrow> ini_server_ip A get (ini_middle get config);
     State_Monad.return (ini_host get (ini_timers get (ini_logs get config)))
   }"

section \<open>The host\<close>

text \<open>What the crate \<^verbatim>\<open>hostinfo\<close> reads of the host; \<open>hi_guid\<close> may write the identifier it makes up.\<close>

record 'w host_ext =
  hi_guid :: "string \<Rightarrow> 'w \<Rightarrow> string option \<times> 'w"
  hi_mac :: "'w \<Rightarrow> string option"
  hi_name :: "'w \<Rightarrow> string option"
  hi_version :: "'w \<Rightarrow> string option"
  hi_cores :: "'w \<Rightarrow> string option"
  hi_memory :: "'w \<Rightarrow> string option"
  hi_disk :: "'w \<Rightarrow> string option"
  hi_ip :: "'w \<Rightarrow> string option"

definition if_empty :: "string \<Rightarrow> string \<Rightarrow> string" where
  "if_empty old new = (if old = [] then new else old)"

definition acquire_host_info :: "'w host_ext \<Rightarrow> net_info_config \<Rightarrow> ('w, net_info_config) state" where
  "acquire_host_info H c = do {
     guid \<leftarrow> State (hi_guid H ''/etc/.vedasystem'');
     w \<leftarrow> State_Monad.get;
     State_Monad.return (c\<lparr>nc_dev_uid := opt_or ''unknown'' guid,
       nc_macid := if_empty (nc_macid c) (opt_or ''unknown'' (hi_mac H w)),
       nc_host_name := if_empty (nc_host_name c) (opt_or ''Unknown'' (hi_name H w)),
       nc_auth := if_empty (nc_auth c) ''123123'',
       nc_os := if_empty (nc_os c) (opt_or ''Unknown'' (hi_version H w)),
       nc_cpu := if_empty (nc_cpu c) (opt_or ''Unknown'' (hi_cores H w)),
       nc_memsize := if_empty (nc_memsize c) (opt_or ''Unknown'' (hi_memory H w)),
       nc_hdsize := if_empty (nc_hdsize c) (opt_or ''Unknown'' (hi_disk H w)),
       nc_ips := if_empty (nc_ips c) (opt_or ''unknown'' (hi_ip H w))\<rparr>)
   }"

section \<open>What a saved file is read as\<close>

text \<open>The entries of a file of section headers and lines \<^verbatim>\<open>KEY=VALUE\<close>, and values that the parser
  takes as they are: without comments and line ends, and with a visible ASCII character at both
  ends, so that nothing is trimmed. \<^verbatim>\<open>Ini::new\<close> of the parser compares sections and keys without
  regard to case; what it does with names that are not ASCII is left open.\<close>

fun read_ini :: "string \<Rightarrow> string list \<Rightarrow> ((string \<times> string) \<times> string) list" where
  "read_ini sec [] = []"
| "read_ini sec (line # ls) =
     (if starts_with ''['' line then read_ini (takeWhile (\<lambda>c. c \<noteq> CHR '']'') (tl line)) ls
      else ((sec, takeWhile (\<lambda>c. c \<noteq> CHR ''='') line), tl (dropWhile (\<lambda>c. c \<noteq> CHR ''='') line)) # read_ini sec ls)"

definition visible :: "char \<Rightarrow> bool" where
  "visible c \<longleftrightarrow> 0x21 \<le> (of_char c :: nat) \<and> (of_char c :: nat) \<le> 0x7E"

definition plain_value :: "string \<Rightarrow> bool" where
  "plain_value v \<longleftrightarrow> set v \<inter> {CHR '';'', CHR ''#'', nl, CHR 0x0D} = {} \<and> (v = [] \<or> visible (hd v) \<and> visible (last v))"

definition ascii_name :: "string \<Rightarrow> bool" where
  "ascii_name s \<longleftrightarrow> list_all (\<lambda>c. (of_char c :: nat) < 128) s"

definition lowered :: "((string \<times> string) \<times> string) list \<Rightarrow> ((string \<times> string) \<times> string) list" where
  "lowered es = map (\<lambda>((sec, key), v). ((to_lowercase sec, to_lowercase key), v)) es"

definition ini_reads :: "ini \<Rightarrow> string list \<Rightarrow> bool" where
  "ini_reads get lines \<longleftrightarrow>
     (\<forall>sec key. ascii_name sec \<longrightarrow> ascii_name key \<longrightarrow>
        (case map_of (lowered (read_ini [] lines)) (to_lowercase sec, to_lowercase key) of
           None \<Rightarrow> get sec key = None
         | Some v \<Rightarrow> plain_value v \<longrightarrow> get sec key = Some v))"

definition saved_texts :: "net_info_config \<Rightarrow> string set" where
  "saved_texts c = {nc_mid c, nc_user_id c, opt_or [] (nc_log_ip_port c), nc_server_ip_port c, nc_server_ip c, nc_ver c,
     nc_dev_uid c, nc_macid c, nc_cpu c, nc_auth c, nc_host_name c}"

text \<open>The keys of a saved file, each once.\<close>

definition ini_keys :: "(string \<times> string) list" where
  "ini_keys = [(''CLIENTINFO'', ''MID'')] @ map (Pair ''SERVERINFO'')
     [''USER_ID'', ''COMTIME'', ''CRONTIME'', ''EXTORTION_PROTECT'', ''EXTORTION_SWITCH'', ''SELF_PROTECT_SWITCH'', ''FASTTIME'',
      ''FILE_PROTECT'', ''FILE_SWITCH'', ''LOGIPPORT'', ''LOGPROTO'', ''LOGSENT'', ''CLI_SERVER_PORT'', ''MODULE_SWITCH'',
      ''OPEN_PORT_SWITCH'', ''PROC_PROTECT'', ''PROC_SWITCH'', ''DYNAMIC_SWITCH'', ''SCANFILETIME'', ''SCANPROCTIME'',
      ''SERVERIPPORT'', ''SERVER_IP'', ''SERVER_PORT'', ''USB_PROTECT'', ''USB_SWITCH'', ''DNS_SWITCH'',
      ''INTERNAL_COMMUNICATION_SWITCH'', ''EXTERNAL_COMMUNICATION_SWITCH'', ''SYSLOG_PROCESS_SWITCH'', ''SYSLOG_LOGIN_SWITCH'',
      ''INTERNET_SWITCH'', ''OFFLINE_MODE'', ''BASELINE_SWITCH'', ''BASELINE_TIME'', ''HARDWARE_SWITCH'', ''HARDWARE_TIME'',
      ''OUTREACH_SWITCH'', ''OUTREACH_TIME'', ''VERSION''] @ map (Pair ''HOSTINFO'')
     [''DEV_UID'', ''MACID'', ''CPU'', ''AUTH'', ''HOSTNAME'']"

definition lower_keys :: "(string \<times> string) list" where
  "lower_keys = map (\<lambda>k. (to_lowercase (fst k), to_lowercase (snd k))) ini_keys"

definition not_lower :: "char \<Rightarrow> bool" where
  "not_lower c \<longleftrightarrow> (of_char c :: nat) < 97"

lemma lower_char_inj: "inj_on lower_char {c. not_lower c}"
proof (rule inj_onI)
  fix a b :: char
  assume "a \<in> {c. not_lower c}" "b \<in> {c. not_lower c}" "lower_char a = lower_char b"
  then have "(of_char (lower_char a) :: nat) = of_char (lower_char b)" "(of_char a :: nat) < 97" "(of_char b :: nat) < 97"
    by (simp_all add: not_lower_def)
  then have "(of_char a :: nat) = of_char b" by (auto simp: lower_char_def Let_def split: if_splits)
  then show "a = b" by simp
qed

lemma to_lowercase_inj: "list_all not_lower s \<Longrightarrow> list_all not_lower t \<Longrightarrow> to_lowercase s = to_lowercase t \<longleftrightarrow> s = t"
  unfolding to_lowercase_def
  by (rule inj_on_map_eq_map, rule inj_on_subset [OF lower_char_inj]) (auto simp: list_all_iff)

lemma upper_keys: "list_all (\<lambda>k. list_all not_lower (fst k) \<and> list_all not_lower (snd k)) ini_keys"
  by code_simp

lemma lower_pair_inj:
  assumes "k \<in> set ini_keys" and "list_all not_lower sec" and "list_all not_lower key"
    and "(to_lowercase (fst k), to_lowercase (snd k)) = (to_lowercase sec, to_lowercase key)"
  shows "k = (sec, key)"
  using assms upper_keys by (auto simp: list_all_iff [of _ ini_keys] to_lowercase_inj prod_eq_iff)

lemma distinct_lower_keys: "distinct lower_keys"
proof -
  have "distinct ini_keys" by code_simp
  moreover have "inj_on (\<lambda>k. (to_lowercase (fst k), to_lowercase (snd k))) (set ini_keys)"
    by (rule inj_onI, rule lower_pair_inj [of _ "fst k" "snd k" for k, unfolded prod.collapse])
      (use upper_keys in \<open>auto simp: list_all_iff [of _ ini_keys]\<close>)
  ultimately show ?thesis by (simp add: lower_keys_def distinct_map)
qed

lemma upper_ascii: "list_all not_lower s \<Longrightarrow> ascii_name s"
  by (auto simp: ascii_name_def not_lower_def list_all_iff)

lemma entries_keys: "map fst (read_ini [] (ini_lines c)) = ini_keys"
  by (simp add: ini_lines_def ini_keys_def starts_with_def)

lemma lowered_keys: "map fst (lowered (read_ini [] (ini_lines c))) = lower_keys"
proof -
  have "map fst (lowered es) = map (\<lambda>k. (to_lowercase (fst k), to_lowercase (snd k))) (map fst es)" for es
    by (simp add: lowered_def case_prod_beta comp_def)
  then show ?thesis by (simp only: entries_keys lower_keys_def)
qed

lemma plain_digits: "list_all is_digit v \<Longrightarrow> plain_value v"
proof -
  assume d: "list_all is_digit v"
  then have "visible c" "c \<notin> {CHR '';'', CHR ''#'', nl, CHR 0x0D}" if "c \<in> set v" for c
    using that by (auto simp: list_all_iff is_digit_def nl_def visible_def)
  then show ?thesis by (auto simp: plain_value_def)
qed

lemma plain_shown: "plain_value (show_word w)" "plain_value (show_flag b)"
  by (auto intro!: plain_digits show_nat_digits simp: show_flag_def is_digit_def)

lemma read_back:
  assumes "ini_reads get (ini_lines c)" and "((sec, key), v) \<in> set (read_ini [] (ini_lines c))" and "plain_value v"
  shows "get sec key = Some v"
proof -
  from assms(2) have "((to_lowercase sec, to_lowercase key), v) \<in> set (lowered (read_ini [] (ini_lines c)))"
    by (force simp: lowered_def)
  then have "map_of (lowered (read_ini [] (ini_lines c))) (to_lowercase sec, to_lowercase key) = Some v"
    using distinct_lower_keys by (intro map_of_is_SomeI) (simp_all add: lowered_keys)
  moreover from assms(2) have "(sec, key) \<in> set ini_keys" using entries_keys [of c] by (metis fst_conv image_eqI set_map)
  then have "ascii_name sec" "ascii_name key" using upper_keys by (auto simp: list_all_iff [of _ ini_keys] upper_ascii)
  ultimately show ?thesis using assms(1,3) by (fastforce simp: ini_reads_def)
qed

lemma read_none:
  assumes "ini_reads get (ini_lines c)" and "(sec, key) \<notin> set ini_keys" and "list_all not_lower sec" and "list_all not_lower key"
  shows "get sec key = None"
proof -
  have "(to_lowercase sec, to_lowercase key) \<notin> set lower_keys"
    using assms(2) lower_pair_inj [OF _ assms(3,4)] by (auto simp: lower_keys_def)
  then have "map_of (lowered (read_ini [] (ini_lines c))) (to_lowercase sec, to_lowercase key) = None"
    using lowered_keys [of c] by (metis map_of_eq_None_iff set_map)
  with assms(1) upper_ascii [OF assms(3)] upper_ascii [OF assms(4)] show ?thesis by (fastforce simp: ini_reads_def)
qed

lemma num_back:
  assumes "ini_reads get (ini_lines c)" and "((''SERVERINFO'', key), show_word w) \<in> set (read_ini [] (ini_lines c))"
  shows "ini_num get key old = w"
proof -
  have "unat w < 2 ^ LENGTH(32)" by (rule unsigned_less)
  then have "unat w \<le> 4294967295" by simp
  with read_back [OF assms plain_shown(1)] show ?thesis by (simp add: ini_num_def parse_u32_def parse_uint_show_nat)
qed

lemma flag_back:
  assumes "ini_reads get (ini_lines c)" and "((''SERVERINFO'', key), show_flag b) \<in> set (read_ini [] (ini_lines c))"
  shows "ini_flag get key old = b"
proof -
  have "trim ''1'' = ''1''" "trim ''0'' = ''0''" by code_simp+
  with read_back [OF assms plain_shown(2)] show ?thesis by (simp add: ini_flag_def show_flag_def)
qed

lemma text_back:
  assumes "ini_reads get (ini_lines c)" and "((sec, key), v) \<in> set (read_ini [] (ini_lines c))" and "plain_value v"
  shows "ini_text get sec key old = v"
  using read_back [OF assms] by (simp add: ini_text_def)

lemma log_back: "ini_reads get (ini_lines c) \<Longrightarrow> plain_value (opt_or [] (nc_log_ip_port c)) \<Longrightarrow>
    get ''SERVERINFO'' ''LOGIPPORT'' = Some (opt_or [] (nc_log_ip_port c))"
  by (erule read_back) (simp_all add: ini_lines_def starts_with_def opt_or_def split: option.splits)

lemma saved_before:
  assumes "ini_reads get (ini_lines c)" and "\<forall>v \<in> saved_texts c. plain_value v"
  shows "ini_before get net_info_default = net_info_default\<lparr>nc_mid := nc_mid c, nc_ver := nc_ver c, nc_user_id := nc_user_id c,
     nc_com_time := nc_com_time c, nc_cron_time := nc_cron_time c, nc_extortion_protect := nc_extortion_protect c,
     nc_extortion_switch := nc_extortion_switch c, nc_self_protect_switch := nc_self_protect_switch c,
     nc_fast_time := nc_fast_time c, nc_file_protect := nc_file_protect c, nc_file_switch := nc_file_switch c,
     nc_dynamic_switch := nc_dynamic_switch c, nc_log_ip_port := Some (opt_or [] (nc_log_ip_port c)),
     nc_log_proto := nc_log_proto c, nc_log_sent := nc_log_sent c, nc_cli_port := nc_cli_port c,
     nc_module_switch := nc_module_switch c, nc_open_port_switch := nc_open_port_switch c\<rparr>"
proof -
  note p = assms(2) [unfolded saved_texts_def]
  show ?thesis
    unfolding ini_before_def
    by (simp add: num_back [OF assms(1)] flag_back [OF assms(1)] text_back [OF assms(1)] log_back [OF assms(1)] p
        ini_lines_def [of c] starts_with_def)
qed

lemma saved_middle:
  assumes "ini_reads get (ini_lines c)" and "\<forall>v \<in> saved_texts c. plain_value v"
  shows "ini_middle get d = d\<lparr>nc_proc_protect := nc_proc_protect c, nc_proc_switch := nc_proc_switch c,
     nc_scan_file_time := nc_scan_file_time c, nc_scan_proc_time := nc_scan_proc_time c,
     nc_server_ip_port := nc_server_ip_port c\<rparr>"
    and "get ''SERVERINFO'' ''SERVER_IP'' = Some (nc_server_ip c)"
proof -
  note p = assms(2) [unfolded saved_texts_def]
  show "ini_middle get d = d\<lparr>nc_proc_protect := nc_proc_protect c, nc_proc_switch := nc_proc_switch c,
     nc_scan_file_time := nc_scan_file_time c, nc_scan_proc_time := nc_scan_proc_time c,
     nc_server_ip_port := nc_server_ip_port c\<rparr>"
    unfolding ini_middle_def
    by (simp add: num_back [OF assms(1)] flag_back [OF assms(1)] text_back [OF assms(1)] p ini_lines_def [of c] starts_with_def)
  show "get ''SERVERINFO'' ''SERVER_IP'' = Some (nc_server_ip c)"
    by (rule read_back [OF assms(1)]) (simp_all add: p ini_lines_def starts_with_def)
qed

lemma saved_logs:
  assumes "ini_reads get (ini_lines c)"
  shows "ini_logs get d = d\<lparr>nc_server_port := nc_server_port c, nc_usb_protect := nc_usb_protect c,
     nc_usb_switch := nc_usb_switch c, nc_syslog_dns_switch := nc_syslog_dns_switch c,
     nc_syslog_inner_switch := nc_syslog_inner_switch c, nc_syslog_outer_switch := nc_syslog_outer_switch c,
     nc_internet_switch := nc_internet_switch c, nc_is_offline_mode := nc_is_offline_mode c,
     nc_syslog_process_switch := nc_syslog_process_switch c, nc_syslog_login_switch := nc_syslog_login_switch c\<rparr>"
  unfolding ini_logs_def
  by (simp add: num_back [OF assms] flag_back [OF assms] ini_lines_def [of c] starts_with_def)

lemma saved_timers:
  assumes "ini_reads get (ini_lines c)"
  shows "ini_timers get d = d\<lparr>nc_hardware_switch := nc_hardware_switch c, nc_hardware_time := nc_hardware_time c,
     nc_baseline_switch := nc_baseline_switch c, nc_baseline_time := nc_baseline_time c,
     nc_outreach_switch := nc_outreach_switch c, nc_outreach_time := nc_outreach_time c\<rparr>"
  unfolding ini_timers_def
  by (simp add: num_back [OF assms] flag_back [OF assms] ini_lines_def [of c] starts_with_def)

lemma saved_host:
  assumes "ini_reads get (ini_lines c)" and "\<forall>v \<in> saved_texts c. plain_value v"
    and "nc_ips d = []" "nc_os d = []" "nc_memsize d = []" "nc_hdsize d = []"
  shows "ini_host get d = d\<lparr>nc_dev_uid := nc_dev_uid c, nc_macid := nc_macid c, nc_cpu := nc_cpu c,
     nc_auth := nc_auth c, nc_host_name := nc_host_name c\<rparr>"
proof -
  have t: "ini_text get ''HOSTINFO'' k old = v" if "(k, v) \<in> set [(''DEV_UID'', nc_dev_uid c), (''MACID'', nc_macid c),
      (''CPU'', nc_cpu c), (''AUTH'', nc_auth c), (''HOSTNAME'', nc_host_name c)]" for k v old
    by (rule text_back [OF assms(1)]) (use that assms(2) in \<open>auto simp: saved_texts_def ini_lines_def starts_with_def\<close>)
  have "list_all not_lower ''HOSTINFO'' \<and> list_all (list_all not_lower) [''IPS'', ''OS'', ''MEMSIZE'', ''HDSIZE'']" by code_simp
  then have "ini_text get ''HOSTINFO'' k [] = []" if "k \<in> {''IPS'', ''OS'', ''MEMSIZE'', ''HDSIZE''}" for k
    using that read_none [OF assms(1), of "''HOSTINFO''" k] by (auto simp: ini_text_def ini_keys_def)
  then show ?thesis by (simp add: ini_host_def t assms(3-6))
qed

section \<open>Properties\<close>

text \<open>C33: the configuration survives a restart. A configuration whose texts are plain (no comment
  sign or line end, visible ASCII at both ends or empty) is read back, by a parser that finds the
  lines of the file without regard to case, from the file it was saved to as it was, except for what the file does not hold: the path, the
  module version, the architecture and the host data that are read anew, and the interface, which
  is looked up again. A log server that was not set is read back as one with an empty name.\<close>

theorem config_roundtrip:
  assumes "ini_reads get (ini_lines c)" and "\<forall>v \<in> saved_texts c. plain_value v"
    and "run_state (from_ini A get) a = (c', a')"
  shows "\<exists>iface. c' = c\<lparr>nc_app_path := [], nc_log_ip_port := Some (opt_or [] (nc_log_ip_port c)), nc_ips := [],
     nc_ifcfg := iface, nc_os := [], nc_memsize := [], nc_hdsize := [], nc_mod_ver := [], nc_arch_type := 0\<rparr>"
proof -
  let ?d = "ini_middle get (ini_before get net_info_default)"
  from assms(3) obtain a1 where s: "\<exists>b. run_state (ini_server_ip A get ?d) a1 = (b, a') \<and> c' = ini_host get (ini_timers get (ini_logs get b))"
    by (auto simp: from_ini_def Let_def split: prod.splits)
  then obtain b where b: "run_state (ini_server_ip A get ?d) a1 = (b, a')" "c' = ini_host get (ini_timers get (ini_logs get b))" by blast
  have "\<exists>iface. b = ?d\<lparr>nc_server_ip := nc_server_ip c, nc_ifcfg := iface\<rparr>"
  proof (cases "nc_server_ip c = []")
    case True
    with b(1) have "b = ?d\<lparr>nc_server_ip := nc_server_ip c\<rparr>" by (simp add: ini_server_ip_def saved_middle(2) [OF assms(1,2)])
    then have "b = ?d\<lparr>nc_server_ip := nc_server_ip c, nc_ifcfg := nc_ifcfg ?d\<rparr>" by simp
    then show ?thesis by blast
  next
    case False
    with b(1) show ?thesis
      by (auto simp: ini_server_ip_def saved_middle(2) [OF assms(1,2)] Let_def split: prod.splits)
  qed
  then obtain iface where "b = ?d\<lparr>nc_server_ip := nc_server_ip c, nc_ifcfg := iface\<rparr>" ..
  then have "c' = c\<lparr>nc_app_path := [], nc_log_ip_port := Some (opt_or [] (nc_log_ip_port c)), nc_ips := [],
     nc_ifcfg := iface, nc_os := [], nc_memsize := [], nc_hdsize := [], nc_mod_ver := [], nc_arch_type := 0\<rparr>"
    unfolding b(2) saved_middle(1) [OF assms(1,2)] saved_before [OF assms(1,2)] saved_logs [OF assms(1)] saved_timers [OF assms(1)]
    by (subst saved_host [OF assms(1,2)]) (simp_all add: net_info_default_def)
  then show ?thesis ..
qed

text \<open>A configuration, and a parser that finds the lines of the file, upper and lower case alike.\<close>

definition lab_cfg :: net_info_config where
  "lab_cfg = net_info_default\<lparr>nc_mid := ''m-1'', nc_cron_time := 60, nc_usb_switch := True, nc_server_ip_port := ''http://10.0.0.9:80''\<rparr>"

definition lab_parser :: "string list \<Rightarrow> ini" where
  "lab_parser lines sec key = map_of (lowered (read_ini [] lines)) (to_lowercase sec, to_lowercase key)"

lemma lab_parser_reads: "ini_reads (lab_parser lines) lines"
  by (simp add: ini_reads_def lab_parser_def split: option.splits)

theorem config_roundtrip_witness:
  "\<exists>iface. fst (run_state (from_ini (lab_agent_ext free_files (\<lambda>_. JNull)) (lab_parser (ini_lines lab_cfg))) lab_agent)
     = lab_cfg\<lparr>nc_log_ip_port := Some [], nc_ifcfg := iface\<rparr>"
proof -
  have p: "\<forall>v \<in> saved_texts lab_cfg. plain_value v" by code_simp
  from config_roundtrip [OF lab_parser_reads p prod.collapse [symmetric], of "lab_agent_ext free_files (\<lambda>_. JNull)" lab_agent]
  show ?thesis by (simp add: lab_cfg_def net_info_default_def)
qed

end
