(* ===== verification/Panic.thy ===== *)
theory Panic
  imports Prelude
begin

text \<open>
  Computations that may panic: their value is an option, and \<open>None\<close> is the panic, which ends the
  computation. \<open>bindP\<close> goes on with a value, \<open>tryP\<close> also leaves with an error (the \<^verbatim>\<open>?\<close> operator).
\<close>

definition retP :: "'a \<Rightarrow> ('s, 'a option) state" where
  "retP x = State_Monad.return (Some x)"

definition panicP :: "('s, 'a option) state" where
  "panicP = State_Monad.return None"

definition okP :: "('s, 'a) state \<Rightarrow> ('s, 'a option) state" where
  "okP m = State_Monad.bind m retP"

definition bindP :: "('s, 'a option) state \<Rightarrow> ('a \<Rightarrow> ('s, 'b option) state) \<Rightarrow> ('s, 'b option) state" where
  "bindP m f = State_Monad.bind m (\<lambda>r. case r of None \<Rightarrow> panicP | Some x \<Rightarrow> f x)"

definition tryP :: "('s, 'a res option) state \<Rightarrow> ('a \<Rightarrow> ('s, 'b res option) state) \<Rightarrow> ('s, 'b res option) state" where
  "tryP m f = bindP m (\<lambda>r. case r of Inl e \<Rightarrow> retP (Inl e) | Inr v \<Rightarrow> f v)"

fun for_eachP :: "'a list \<Rightarrow> ('a \<Rightarrow> ('s, unit option) state) \<Rightarrow> ('s, unit option) state" where
  "for_eachP [] f = retP ()"
| "for_eachP (x # xs) f = bindP (f x) (\<lambda>_. for_eachP xs f)"

lemma run_retP [simp]: "run_state (retP x) s = (Some x, s)"
  by (simp add: retP_def)

lemma run_panicP [simp]: "run_state panicP s = (None, s)"
  by (simp add: panicP_def)

lemma run_okP [simp]: "run_state (okP m) s = (Some (fst (run_state m s)), snd (run_state m s))"
  by (simp add: okP_def case_prod_beta)

lemma run_bindP [simp]:
  "run_state (bindP m f) s =
     (case run_state m s of (None, t) \<Rightarrow> (None, t) | (Some x, t) \<Rightarrow> run_state (f x) t)"
  by (auto simp: bindP_def split: prod.splits option.splits)

lemma run_tryP [simp]:
  "run_state (tryP m f) s =
     (case run_state m s of
        (None, t) \<Rightarrow> (None, t) | (Some (Inl e), t) \<Rightarrow> (Some (Inl e), t) | (Some (Inr v), t) \<Rightarrow> run_state (f v) t)"
  by (auto simp: tryP_def split: prod.splits option.splits sum.splits)

lemma keeps_retP [keep_intros]: "keeps P (retP x)"
  by (simp add: retP_def keeps_return)

lemma keeps_panicP [keep_intros]: "keeps P panicP"
  by (simp add: panicP_def keeps_return)

lemma keeps_okP [keep_intros]: "keeps P m \<Longrightarrow> keeps P (okP m)"
  unfolding okP_def by (intro keep_intros)

lemma keeps_bindP [keep_intros]: "keeps P m \<Longrightarrow> (\<And>x. keeps P (f x)) \<Longrightarrow> keeps P (bindP m f)"
  unfolding bindP_def by (intro keep_intros)

lemma keeps_tryP [keep_intros]: "keeps P m \<Longrightarrow> (\<And>v. keeps P (f v)) \<Longrightarrow> keeps P (tryP m f)"
  unfolding tryP_def by (intro keep_intros)

lemma keeps_for_eachP [keep_intros]: "(\<And>x. x \<in> set xs \<Longrightarrow> keeps P (f x)) \<Longrightarrow> keeps P (for_eachP xs f)"
  by (induction xs) (auto intro!: keep_intros)

text \<open>\<open>unhurt P m\<close>: from a state with \<open>P\<close>, \<open>m\<close> ends without a panic in a state with \<open>P\<close>.\<close>

named_theorems unhurt_intros \<open>introduction rules for computations that do not panic\<close>

definition unhurt :: "('s \<Rightarrow> bool) \<Rightarrow> ('s, 'a option) state \<Rightarrow> bool" where
  "unhurt P m \<longleftrightarrow> (\<forall>s. P s \<longrightarrow> (\<exists>x t. run_state m s = (Some x, t) \<and> P t))"

lemma unhurtD: "unhurt P m \<Longrightarrow> P s \<Longrightarrow> \<exists>x t. run_state m s = (Some x, t) \<and> P t"
  by (simp add: unhurt_def)

lemma unhurt_retP [unhurt_intros]: "unhurt P (retP x)"
  by (simp add: unhurt_def)

lemma unhurt_okP [unhurt_intros]: "keeps P m \<Longrightarrow> unhurt P (okP m)"
  by (simp add: unhurt_def keeps_def)

lemma unhurt_bindP [unhurt_intros]: "unhurt P m \<Longrightarrow> (\<And>x. unhurt P (f x)) \<Longrightarrow> unhurt P (bindP m f)"
  by (fastforce simp: unhurt_def)

lemma unhurt_tryP [unhurt_intros]: "unhurt P m \<Longrightarrow> (\<And>x. unhurt P (f x)) \<Longrightarrow> unhurt P (tryP m f)"
  unfolding tryP_def by (intro unhurt_bindP) (auto split: sum.splits intro: unhurt_retP)

lemma unhurt_bind_gets [unhurt_intros]: "(\<And>s. unhurt P (f (g s))) \<Longrightarrow> unhurt P (State_Monad.bind (gets g) f)"
  by (simp add: unhurt_def)

lemma unhurt_if [unhurt_intros]: "(b \<Longrightarrow> unhurt P m) \<Longrightarrow> (\<not> b \<Longrightarrow> unhurt P n) \<Longrightarrow> unhurt P (if b then m else n)"
  by simp

lemma unhurt_case_sum [unhurt_intros]:
  "(\<And>e. x = Inl e \<Longrightarrow> unhurt P (f e)) \<Longrightarrow> (\<And>v. x = Inr v \<Longrightarrow> unhurt P (g v)) \<Longrightarrow> unhurt P (case x of Inl e \<Rightarrow> f e | Inr v \<Rightarrow> g v)"
  by (cases x) auto

lemma unhurt_case_option [unhurt_intros]:
  "(x = None \<Longrightarrow> unhurt P m) \<Longrightarrow> (\<And>v. x = Some v \<Longrightarrow> unhurt P (f v)) \<Longrightarrow> unhurt P (case x of None \<Rightarrow> m | Some v \<Rightarrow> f v)"
  by (cases x) auto

lemma unhurt_case_prod [unhurt_intros]:
  "(\<And>a b. x = (a, b) \<Longrightarrow> unhurt P (f a b)) \<Longrightarrow> unhurt P (case x of (a, b) \<Rightarrow> f a b)"
  by (cases x) auto

lemma unhurt_case_list [unhurt_intros]:
  "(x = [] \<Longrightarrow> unhurt P m) \<Longrightarrow> (\<And>a b. x = a # b \<Longrightarrow> unhurt P (f a b)) \<Longrightarrow> unhurt P (case x of [] \<Rightarrow> m | a # b \<Rightarrow> f a b)"
  by (cases x) auto

end
