(* ===== verification/Host_Call.thy ===== *)
theory Host_Call
  imports Proc_File Jump_Utils
begin

text \<open>
  Calls from components that keep their state beside the world and the log of writes
  (\<open>proc_state\<close>) to the host: any call that changes the world only, and a shell command.
\<close>

definition on_fos :: "('w \<Rightarrow> 'a \<times> 'w) \<Rightarrow> (('w, 'z) proc_state_scheme, 'a) state" where
  "on_fos f = State (\<lambda>s. case f (fos s) of (r, w) \<Rightarrow> (r, s\<lparr>fos := w\<rparr>))"

text \<open>\<^verbatim>\<open>Command::new("sh").arg("-c").arg(command).output()\<close>; the error of a shell that does not start
  is not looked at.\<close>

definition shell :: "'w sys_ext \<Rightarrow> string \<Rightarrow> (('w, 'z) proc_state_scheme, proc_output option) state" where
  "shell X command = State (\<lambda>s. case x_output X ''sh'' [''-c'', command] (fos s) of
     (r, w) \<Rightarrow> (case r of Inl _ \<Rightarrow> None | Inr out \<Rightarrow> Some out, s\<lparr>fos := w\<rparr>))"

lemma keeps_on_fos [keep_intros]: "file_blind P \<Longrightarrow> keeps P (on_fos f)"
  by (auto simp: keeps_def on_fos_def file_blind_fos split: prod.splits)

lemma run_on_fos: "run_state (on_fos f) s = (fst (f (fos s)), s\<lparr>fos := snd (f (fos s))\<rparr>)"
  by (simp add: on_fos_def case_prod_beta)

lemma keeps_shell_blind: "file_blind P \<Longrightarrow> keeps P (shell X c)"
  by (auto simp: keeps_def shell_def file_blind_fos split: prod.splits)

lemma run_shell:
  "\<exists>r w. run_state (shell X c) s = (r, s\<lparr>fos := w\<rparr>)"
  by (auto simp: shell_def split: prod.splits)

end
