(* ===== verification/Md5_Cache.thy ===== *)
theory Md5_Cache
  imports Panic Host_Call "HOL-Library.AList"
begin

text \<open>
  \<^verbatim>\<open>crates/process_mgr/src/md5_cache.rs\<close>: digests of files, remembered with the time of the last
  modification. The file system, the generator of identifiers and the digest (a copy of the package
  \<^verbatim>\<open>md5\<close>) are parameters (record \<open>md5_ext\<close>).
\<close>

section \<open>State\<close>

text \<open>A modification time is in nanoseconds since 1970, as the file system keeps it; it is negative
  before. \<open>mx_modified\<close> fails when the metadata cannot be read; its result fails when they hold no
  time.\<close>

record 'w md5_ext =
  mx_modified :: "string \<Rightarrow> 'w \<Rightarrow> int res res"
  mx_exists :: "string \<Rightarrow> 'w \<Rightarrow> bool"
  mx_uuid :: "'w \<Rightarrow> string \<times> 'w"
  mx_create :: "string \<Rightarrow> 'w \<Rightarrow> unit res \<times> 'w"
  mx_read :: "string \<Rightarrow> 'w \<Rightarrow> string res"
  mx_digest :: "string \<Rightarrow> string"

text \<open>A \<^verbatim>\<open>PathBuf\<close> is compared by its components: repeated separators and components \<^verbatim>\<open>.\<close> do not
  count, except for a leading one.\<close>

type_synonym path_key = "bool \<times> string list"

definition path_key :: "string \<Rightarrow> path_key" where
  "path_key s =
     (let parts = split_char (CHR ''/'') s;
          body = filter (\<lambda>c. c \<noteq> [] \<and> c \<noteq> ''.'') parts
      in (starts_with ''/'' s, if hd parts = ''.'' then ''.'' # body else body))"

record 'w md5_state = "'w proc_state" +
  md5_cache :: "(path_key \<times> nat \<times> string) list"

definition md5_init :: "'w \<Rightarrow> 'w md5_state" where
  "md5_init w = \<lparr>fos = w, write_log = [], md5_cache = []\<rparr>"

section \<open>Operations\<close>

text \<open>\<^verbatim>\<open>duration_since(UNIX_EPOCH).unwrap().as_secs()\<close>: a time before 1970 panics, and the part below
  a second is dropped.\<close>

definition as_secs :: "int \<Rightarrow> nat" where
  "as_secs t = nat (t div 1000000000)"

definition secs_since_epoch :: "int res \<Rightarrow> nat res option" where
  "secs_since_epoch r = (case r of Inl e \<Rightarrow> Some (Inl e) | Inr t \<Rightarrow> if t < 0 then None else Some (Inr (as_secs t)))"

definition write_uuid_if_needed :: "'w md5_ext \<Rightarrow> 'w file_ext \<Rightarrow> string \<Rightarrow> (('w, 'z) md5_state_scheme, unit res) state" where
  "write_uuid_if_needed M F path = do {
     found \<leftarrow> gets (\<lambda>s. mx_exists M path (fos s));
     if found then State_Monad.return (Inr ())
     else do {
       uuid \<leftarrow> on_fos (mx_uuid M);
       tryE (on_fos (mx_create M path)) (\<lambda>_.
       tryE (write_all F path uuid) (\<lambda>_.
         write_all F path [nl]))
     }
   }"

definition current_mtime :: "'w md5_ext \<Rightarrow> 'w file_ext \<Rightarrow> string \<Rightarrow> (('w, 'z) md5_state_scheme, nat res option) state" where
  "current_mtime M F path = do {
     meta \<leftarrow> gets (\<lambda>s. mx_modified M path (fos s));
     case meta of
       Inr m \<Rightarrow> State_Monad.return (secs_since_epoch m)
     | Inl _ \<Rightarrow> do {
         r \<leftarrow> write_uuid_if_needed M F path;
         case r of
           Inl e \<Rightarrow> retP (Inl e)
         | Inr _ \<Rightarrow> gets (\<lambda>s. case mx_modified M path (fos s) of Inl e \<Rightarrow> Some (Inl e) | Inr m \<Rightarrow> secs_since_epoch m)
       }
   }"

definition compute_md5 :: "'w md5_ext \<Rightarrow> string \<Rightarrow> (('w, 'z) md5_state_scheme, string res) state" where
  "compute_md5 M path = gets (\<lambda>s. case mx_read M path (fos s) of Inl e \<Rightarrow> Inl e | Inr buffer \<Rightarrow> Inr (mx_digest M buffer))"

definition refresh_md5 :: "'w md5_ext \<Rightarrow> string \<Rightarrow> nat \<Rightarrow> (('w, 'z) md5_state_scheme, string res) state" where
  "refresh_md5 M path mtime =
     tryE (compute_md5 M path) (\<lambda>md5. do {
       modify (\<lambda>s. s\<lparr>md5_cache := AList.update (path_key path) (mtime, md5) (md5_cache s)\<rparr>);
       State_Monad.return (Inr md5)
     })"

definition get_md5 :: "'w md5_ext \<Rightarrow> 'w file_ext \<Rightarrow> string \<Rightarrow> (('w, 'z) md5_state_scheme, string res option) state" where
  "get_md5 M F path =
     tryP (current_mtime M F path) (\<lambda>mtime. do {
       entry \<leftarrow> gets (\<lambda>s. map_of (md5_cache s) (path_key path));
       case entry of
         Some (m, md5) \<Rightarrow> if m = mtime then retP (Inr md5) else okP (refresh_md5 M path mtime)
       | None \<Rightarrow> okP (refresh_md5 M path mtime)
     })"

section \<open>What a call changes\<close>

lemma keeps_write_uuid [keep_intros]: "file_blind P \<Longrightarrow> keeps P (write_uuid_if_needed M F path)"
  unfolding write_uuid_if_needed_def by (intro keep_intros)

lemma keeps_current_mtime [keep_intros]: "file_blind P \<Longrightarrow> keeps P (current_mtime M F path)"
  unfolding current_mtime_def by (intro keep_intros)

lemma mtime_read:
  "run_state (current_mtime M F path) s = (Some (Inr m), t) \<Longrightarrow> \<exists>i. mx_modified M path (fos t) = Inr (Inr i) \<and> 0 \<le> i \<and> m = as_secs i"
  by (auto simp: current_mtime_def secs_since_epoch_def split: sum.splits prod.splits if_splits)

text \<open>A predicate that does not look at the world, the log of writes and the cache is kept by a call. A
  call does not panic when no file is older than 1970.\<close>

definition md5_blind :: "(('w, 'z) md5_state_scheme \<Rightarrow> bool) \<Rightarrow> bool" where
  "md5_blind P \<longleftrightarrow> (\<forall>s w l c. P s \<longrightarrow> P (s\<lparr>fos := w, write_log := l, md5_cache := c\<rparr>))"

lemma md5_blind_file: "md5_blind P \<Longrightarrow> file_blind P"
  unfolding md5_blind_def file_blind_def
proof (intro allI impI)
  fix s w l
  assume a: "\<forall>s w l c. P s \<longrightarrow> P (s\<lparr>fos := w, write_log := l, md5_cache := c\<rparr>)" and p: "P s"
  from a p have "P (s\<lparr>fos := w, write_log := l, md5_cache := md5_cache s\<rparr>)" by blast
  then show "P (s\<lparr>fos := w, write_log := l\<rparr>)" by simp
qed

lemma md5_blind_cache: "md5_blind P \<Longrightarrow> P s \<Longrightarrow> P (s\<lparr>md5_cache := c\<rparr>)"
  unfolding md5_blind_def by (drule spec [of _ s], drule spec [of _ "fos s"], drule spec [of _ "write_log s"], drule spec [of _ c]) simp

lemma keeps_get_md5: "md5_blind P \<Longrightarrow> keeps P (get_md5 M F path)"
  unfolding get_md5_def refresh_md5_def compute_md5_def by (intro keep_intros md5_blind_file) (simp_all add: md5_blind_cache)

definition no_old_files :: "'w md5_ext \<Rightarrow> bool" where
  "no_old_files M \<longleftrightarrow> (\<forall>p w i. mx_modified M p w = Inr (Inr i) \<longrightarrow> 0 \<le> i)"

lemma current_mtime_some: "no_old_files M \<Longrightarrow> fst (run_state (current_mtime M F path) s) \<noteq> None"
proof -
  assume "no_old_files M"
  then have n: "mx_modified M p w = Inr (Inr i) \<Longrightarrow> \<not> i < 0" for p w i unfolding no_old_files_def by fastforce
  then show ?thesis by (auto simp: current_mtime_def secs_since_epoch_def split: sum.splits prod.splits dest: n)
qed

lemma unhurt_get_md5:
  assumes "no_old_files M" and "md5_blind P"
  shows "unhurt P (get_md5 M F path)"
proof -
  have "unhurt P (current_mtime M F path)"
    unfolding unhurt_def
    using current_mtime_some [OF assms(1)] keepsD [OF keeps_current_mtime [OF md5_blind_file [OF assms(2)]]]
    by (metis (no_types) option.exhaust prod.collapse)
  then show ?thesis
    unfolding get_md5_def refresh_md5_def compute_md5_def
    by (intro unhurt_intros keep_intros) (simp_all add: md5_blind_cache [OF assms(2)])
qed

section \<open>Properties\<close>

text \<open>What the cache relies on: a file that can be read has the same content whenever its time of
  modification lies in the same second. A file that is changed twice within a second, or whose time
  is set back, breaks this; see \<open>stale_digest\<close>.\<close>

definition seconds_tell :: "'w md5_ext \<Rightarrow> bool" where
  "seconds_tell M \<longleftrightarrow>
     (\<forall>p q w v i j b c. path_key p = path_key q \<longrightarrow> mx_modified M p w = Inr (Inr i) \<longrightarrow> mx_modified M q v = Inr (Inr j) \<longrightarrow>
        0 \<le> i \<longrightarrow> 0 \<le> j \<longrightarrow> as_secs i = as_secs j \<longrightarrow> mx_read M p w = Inr b \<longrightarrow> mx_read M q v = Inr c \<longrightarrow> b = c)"

inductive md5_reach :: "'w md5_ext \<Rightarrow> 'w file_ext \<Rightarrow> 'w md5_state \<Rightarrow> bool" for M F where
  start: "md5_reach M F (md5_init w)"
| host: "md5_reach M F s \<Longrightarrow> md5_reach M F (s\<lparr>fos := w\<rparr>)"
| call: "md5_reach M F s \<Longrightarrow> md5_reach M F (snd (run_state (get_md5 M F path) s))"

text \<open>An entry was read from its file at a moment when the file had the time of the entry.\<close>

definition cache_true :: "'w md5_ext \<Rightarrow> ('w, 'z) md5_state_scheme \<Rightarrow> bool" where
  "cache_true M s \<longleftrightarrow> (\<forall>k m d. map_of (md5_cache s) k = Some (m, d) \<longrightarrow>
     (\<exists>p w i b. path_key p = k \<and> mx_modified M p w = Inr (Inr i) \<and> 0 \<le> i \<and> m = as_secs i \<and> mx_read M p w = Inr b \<and> d = mx_digest M b))"

lemma file_blind_cache_true: "file_blind (cache_true M)"
  by (simp add: file_blind_def cache_true_def)

lemma cache_true_update:
  assumes "cache_true M s" and "mx_modified M p w = Inr (Inr i)" and "0 \<le> i" and "mx_read M p w = Inr b"
  shows "cache_true M (s\<lparr>md5_cache := AList.update (path_key p) (as_secs i, mx_digest M b) (md5_cache s)\<rparr>)"
  using assms unfolding cache_true_def by (simp add: update_conv' del: split_paired_All) blast

lemma get_md5_run:
  assumes "cache_true M s" and "run_state (get_md5 M F path) s = (r, t)"
  shows "cache_true M t"
    and "r = Some (Inr d) \<Longrightarrow> seconds_tell M \<Longrightarrow> mx_read M path (fos t) = Inr b \<Longrightarrow> d = mx_digest M b"
proof -
  obtain q u where m: "run_state (current_mtime M F path) s = (q, u)" by (rule prod.exhaust)
  have u: "cache_true M u" using keepsD_run [OF keeps_current_mtime [OF file_blind_cache_true] assms(1) m] .
  have "cache_true M t \<and> (r = Some (Inr d) \<longrightarrow> seconds_tell M \<longrightarrow> mx_read M path (fos t) = Inr b \<longrightarrow> d = mx_digest M b)"
  proof (cases "\<exists>n. q = Some (Inr n)")
    case False
    with assms(2) m u show ?thesis by (auto simp: get_md5_def split: option.splits sum.splits)
  next
    case True
    then obtain n where n: "q = Some (Inr n)" by blast
    from mtime_read [of M F path s n u] m n obtain i where
      i: "mx_modified M path (fos u) = Inr (Inr i)" "0 \<le> i" "n = as_secs i" by auto
    show ?thesis
    proof (cases "\<exists>md5. map_of (md5_cache u) (path_key path) = Some (n, md5)")
      case True
      then obtain md5 where e: "map_of (md5_cache u) (path_key path) = Some (n, md5)" by blast
      then have t: "t = u" "r = Some (Inr md5)" using assms(2) m n by (auto simp: get_md5_def)
      from u e obtain p w j c where "path_key p = path_key path" "mx_modified M p w = Inr (Inr j)" "0 \<le> j" "n = as_secs j"
        "mx_read M p w = Inr c" "md5 = mx_digest M c" unfolding cache_true_def by blast
      with i t u show ?thesis unfolding seconds_tell_def by (metis old.sum.inject(2) option.inject)
    next
      case False
      then have "run_state (get_md5 M F path) s = run_state (okP (refresh_md5 M path n)) u"
        using m n by (auto simp: get_md5_def split: option.splits)
      with assms(2) u i cache_true_update [OF u i(1,2)] show ?thesis
        by (auto simp: refresh_md5_def compute_md5_def split: sum.splits)
    qed
  qed
  then show "cache_true M t" "r = Some (Inr d) \<Longrightarrow> seconds_tell M \<Longrightarrow> mx_read M path (fos t) = Inr b \<Longrightarrow> d = mx_digest M b"
    by blast+
qed

text \<open>C14: the digest is the one of the file as it is now. If a file never changes within the second
  of its time of modification, whatever was asked for and changed between the calls before, a digest
  that is returned for a file that can be read is that of the content the file has. A file that
  changes within the second, or during a call, is not covered.\<close>

theorem md5_of_current_content:
  assumes "seconds_tell M" and "md5_reach M F s" and "run_state (get_md5 M F path) s = (Some (Inr d), t)"
    and "mx_read M path (fos t) = Inr b"
  shows "d = mx_digest M b"
proof -
  from assms(2) have "cache_true M s"
  proof induction
    case (call s path)
    from get_md5_run(1) [OF call.IH prod.collapse [symmetric]] show ?case .
  qed (simp_all add: cache_true_def md5_init_def)
  from get_md5_run(2) [OF this assms(3) refl assms(1,4)] show ?thesis .
qed

text \<open>A host whose world is the length of the one file \<^verbatim>\<open>/f\<close>; the file was modified half a second
  after the second of that number. There is a directory \<^verbatim>\<open>/d\<close>, too, which cannot be read.\<close>

definition lab_md5 :: "string md5_ext" where
  "lab_md5 = \<lparr>mx_modified = (\<lambda>p w. if path_key p = (True, [''f'']) then Inr (Inr (int (length w) * 1000000000 + 500000000))
       else if path_key p = (True, [''d'']) then Inr (Inr 0) else Inl ''not found''),
     mx_exists = (\<lambda>p w. path_key p \<in> {(True, [''f'']), (True, [''d''])}), mx_uuid = (\<lambda>w. (''u'', w)), mx_create = (\<lambda>p w. (Inl ''denied'', w)),
     mx_read = (\<lambda>p w. if path_key p = (True, [''f'']) then Inr (replicate (length w) (CHR ''x'')) else Inl ''is a directory''), mx_digest = (\<lambda>b. show_nat (length b))\<rparr>"

definition deaf_files :: "'w file_ext" where
  "deaf_files = \<lparr>fx_exists = (\<lambda>p w. True), fx_open = (\<lambda>p w. (Inr (), w)), fx_create = (\<lambda>p w. (Inr (), w)), fx_write = (\<lambda>p c w. (Inr (), w))\<rparr>"

theorem md5_of_current_content_witness:
  "fst (run_state (get_md5 lab_md5 deaf_files ''/f'') (snd (run_state (get_md5 lab_md5 deaf_files ''/f'') (md5_init ''xxx''))\<lparr>fos := ''xxxxx''\<rparr>))
     = Some (Inr (show_nat 5))"
proof -
  let ?s = "snd (run_state (get_md5 lab_md5 deaf_files ''/f'') (md5_init ''xxx''))\<lparr>fos := ''xxxxx''\<rparr>"
  have k: "path_key ''/f'' = (True, [''f''])" by code_simp
  have secs: "as_secs (int n * 1000000000 + 500000000) = n" for n by (simp add: as_secs_def)
  have "seconds_tell lab_md5" by (auto simp: seconds_tell_def lab_md5_def secs split: if_splits)
  moreover have "md5_reach lab_md5 deaf_files ?s" by (intro md5_reach.host md5_reach.call md5_reach.start)
  moreover obtain d t where t: "run_state (get_md5 lab_md5 deaf_files ''/f'') ?s = (Some (Inr d), t)" "fos t = ''xxxxx''"
    by (simp add: get_md5_def current_mtime_def secs_since_epoch_def refresh_md5_def compute_md5_def md5_init_def lab_md5_def k
        as_secs_def [of 3500000000] as_secs_def [of 5500000000])
  moreover have r: "mx_read lab_md5 ''/f'' (fos t) = Inr ''xxxxx''" by (simp add: lab_md5_def k t(2))
  ultimately have "d = mx_digest lab_md5 ''xxxxx''" using md5_of_current_content by blast
  then show ?thesis by (simp add: t(1)) (simp add: lab_md5_def)
qed

text \<open>A digest is stale when the file changed within the second of its modification: the entry is
  returned whatever the content is now.\<close>

lemma stale_digest:
  assumes "mx_modified M path (fos s) = Inr (Inr i)" and "0 \<le> i" and "map_of (md5_cache s) (path_key path) = Some (as_secs i, old)"
  shows "run_state (get_md5 M F path) s = (Some (Inr old), s)"
  using assms by (simp add: get_md5_def current_mtime_def secs_since_epoch_def)

text \<open>A file that was last modified before 1970 makes the call panic.\<close>

lemma old_file_panics:
  "mx_modified M path (fos s) = Inr (Inr i) \<Longrightarrow> i < 0 \<Longrightarrow> run_state (get_md5 M F path) s = (None, s)"
  by (simp add: get_md5_def current_mtime_def secs_since_epoch_def)

text \<open>Asking for the digest of a file that does not exist makes the file.\<close>

lemma missing_file_created:
  assumes "files_ok F" and "mx_modified M path (fos s) = Inl e" and "\<not> mx_exists M path (fos s)"
    and "\<forall>w. fst (mx_create M path w) = Inr ()" and "mx_uuid M (fos s) = (uuid, w)"
  shows "write_log (snd (run_state (get_md5 M F path) s)) = write_log s @ [(path, uuid), (path, [nl])]"
proof -
  have o: "fst (fx_write F p c w) = Inr ()" for p c w using assms(1) by (auto simp: files_ok_def)
  obtain w1 where w1: "mx_create M path w = (Inr (), w1)" using assms(4) by (metis prod.collapse)
  obtain w2 where w2: "fx_write F path uuid w1 = (Inr (), w2)" using o by (metis prod.collapse)
  obtain w3 where w3: "fx_write F path [nl] w2 = (Inr (), w3)" using o by (metis prod.collapse)
  show ?thesis
    using assms(2,3,5) w1 w2 w3
    by (auto simp: get_md5_def current_mtime_def write_uuid_if_needed_def on_fos_def write_all_def refresh_md5_def
        compute_md5_def secs_since_epoch_def split: option.splits sum.splits)
qed

end
