(* ===== verification/Zcopy.thy ===== *)
theory Zcopy
  imports Prelude "HOL-Library.Multiset" "HOL-Library.Code_Target_Nat"
begin

text \<open>
  \<^verbatim>\<open>crates/zcopy_mgr/src/lib.rs\<close>: the buffers that the agent shares with its kernel module through
  a UIO device: their layout, how they are mapped and unmapped, and the access to one record.

  Opening and reading files, \<^verbatim>\<open>mmap\<close>, \<^verbatim>\<open>munmap\<close> and the page size are parameters (record
  \<open>uio_ext\<close>). A pointer is a \<open>nat\<close>, 0 the null pointer; sizes are the \<^verbatim>\<open>usize\<close> of a 64-bit
  machine as \<open>nat\<close> below \<open>2 ^ 64\<close>. The state keeps the mappings that are alive.
\<close>

section \<open>Layout of the records\<close>

text \<open>\<^verbatim>\<open>repr(C)\<close>: every field starts at the next multiple of its alignment, and the size is the
  next multiple of the largest alignment. A field is a pair of size and alignment.\<close>

definition align_up :: "nat \<Rightarrow> nat \<Rightarrow> nat" where
  "align_up a n = (n + a - 1) div a * a"

fun field_offsets :: "nat \<Rightarrow> (nat \<times> nat) list \<Rightarrow> nat list" where
  "field_offsets off [] = []"
| "field_offsets off ((sz, a) # fs) = (let o' = align_up a off in o' # field_offsets (o' + sz) fs)"

fun fields_end :: "nat \<Rightarrow> (nat \<times> nat) list \<Rightarrow> nat" where
  "fields_end off [] = off"
| "fields_end off ((sz, a) # fs) = fields_end (align_up a off + sz) fs"

definition repr_c_size :: "(nat \<times> nat) list \<Rightarrow> nat" where
  "repr_c_size fs = align_up (fold max (map snd fs) 1) (fields_end 0 fs)"

text \<open>\<^verbatim>\<open>IpAddrUnion\<close> has 16 bytes and, with its 64-bit view, the alignment 8.\<close>

definition f_ip :: "nat \<times> nat" where "f_ip = (16, 8)"
definition f_u16 :: "nat \<times> nat" where "f_u16 = (2, 2)"
definition f_u32 :: "nat \<times> nat" where "f_u32 = (4, 4)"
definition f_bytes :: "nat \<Rightarrow> nat \<times> nat" where "f_bytes n = (n, 1)"

definition OsecNetworkReport :: "(nat \<times> nat) list" where
  "OsecNetworkReport = [f_ip, f_u16, f_ip, f_u16, f_u32, f_bytes 128]"

definition OsecOpenportReport :: "(nat \<times> nat) list" where
  "OsecOpenportReport = [f_u32, f_ip, f_u16, f_ip, f_ip, f_u16, f_u32, f_bytes 128]"

definition OsecDnsReport :: "(nat \<times> nat) list" where
  "OsecDnsReport = [f_u32, f_u32, f_u16, f_u32, f_u16, f_u32, f_bytes 128, f_bytes 1, f_bytes 1, (48, 4), f_bytes 255]"

definition AvProcessInfo :: "(nat \<times> nat) list" where
  "AvProcessInfo = [f_bytes 16, f_u32, f_u32, f_bytes 512]"

definition AvFileInfo :: "(nat \<times> nat) list" where
  "AvFileInfo = [f_u32, f_u32, f_u32, f_bytes 128, f_bytes 16, f_bytes 512, f_bytes 512, f_u16, f_u16]"

section \<open>The packed flags of a process record\<close>

record av_process_flags =
  fl_is_dir :: u8
  fl_deny :: u8
  fl_param_pos :: u16
  fl_level :: u8
  fl_is_monitor_mode :: u8
  fl_is_docker_process :: bool

definition flags_parsed :: "u32 \<Rightarrow> av_process_flags" where
  "flags_parsed flags =
     \<lparr>fl_is_dir = ucast (drop_bit 0 flags AND 7),
      fl_deny = ucast (drop_bit 3 flags AND 7),
      fl_param_pos = ucast (drop_bit 6 flags AND 0x3FF),
      fl_level = ucast (drop_bit 16 flags AND 7),
      fl_is_monitor_mode = ucast (drop_bit 19 flags AND 3),
      fl_is_docker_process = (drop_bit 21 flags AND 1 \<noteq> 0)\<rparr>"

text \<open>The kernel's side of the packing, as the offsets and widths of the parser describe it.\<close>

definition flags_packed :: "av_process_flags \<Rightarrow> u32" where
  "flags_packed f = ucast (fl_is_dir f) OR push_bit 3 (ucast (fl_deny f)) OR push_bit 6 (ucast (fl_param_pos f))
     OR push_bit 16 (ucast (fl_level f)) OR push_bit 19 (ucast (fl_is_monitor_mode f))
     OR push_bit 21 (of_bool (fl_is_docker_process f))"

text \<open>The first sixteen bytes of a process record: three little-endian 32-bit numbers, or an MD5
  value.\<close>

definition le_i32 :: "u8 list \<Rightarrow> 32 word" where
  "le_i32 bs = fold (\<lambda>b w. push_bit 8 w OR ucast b) (rev (take 4 bs)) 0"

definition av_pid :: "u8 list \<Rightarrow> 32 word" where "av_pid data = le_i32 data"
definition av_ppid :: "u8 list \<Rightarrow> 32 word" where "av_ppid data = le_i32 (drop 4 data)"
definition av_uid :: "u8 list \<Rightarrow> 32 word" where "av_uid data = le_i32 (drop 8 data)"

section \<open>Addresses in a port report\<close>

text \<open>An \<^verbatim>\<open>IpAddrUnion\<close> as its sixteen bytes.\<close>

definition is_ipv4_mapped :: "u8 list \<Rightarrow> bool" where
  "is_ipv4_mapped bytes \<longleftrightarrow>
     (take 12 bytes = replicate 12 0 \<and> bytes ! 12 = 0 \<and> bytes ! 13 = 0 \<and> bytes ! 14 = 0 \<and> bytes ! 15 = 0)
     \<or> (take 10 bytes = replicate 10 0 \<and> bytes ! 10 = 0xFF \<and> bytes ! 11 = 0xFF)"

definition extract_ipv4 :: "u8 list \<Rightarrow> ipv4" where
  "extract_ipv4 bytes =
     (if is_ipv4_mapped bytes then (bytes ! 12, bytes ! 13, bytes ! 14, bytes ! 15) else (0, 0, 0, 0))"

text \<open>The eight groups in network byte order.\<close>

definition extract_ipv6 :: "u8 list \<Rightarrow> u16 list" where
  "extract_ipv6 bytes = map (\<lambda>i. push_bit 8 (ucast (bytes ! (2 * i))) OR ucast (bytes ! (2 * i + 1))) [0..<8]"

text \<open>The bytes of a command name up to the first zero.\<close>

definition comm_bytes :: "u8 list \<Rightarrow> u8 list" where
  "comm_bytes comm = takeWhile (\<lambda>c. c \<noteq> 0) comm"

section \<open>The manager\<close>

record zcopy_mgr =
  uio_fd :: "nat option"
  in_netlog_audit_size :: nat
  in_netlog_audit_addr :: nat
  in_netlog_cir_buffer :: nat
  in_netlog_audit_total_count :: nat
  out_netlog_audit_size :: nat
  out_netlog_cir_buffer :: nat
  out_netlog_audit_total_count :: nat
  openport_netlog_audit_size :: nat
  openport_netlog_cir_buffer :: nat
  openport_netlog_audit_total_count :: nat
  dns_netlog_audit_size :: nat
  dns_netlog_cir_buffer :: nat
  dns_netlog_audit_total_count :: nat
  process_audit_size :: nat
  process_cir_buffer :: nat
  process_audit_total_count :: nat
  file_audit_size :: nat
  file_cir_buffer :: nat
  file_audit_total_count :: nat
  in_netlog_audit_succeed :: bool
  out_netlog_audit_succeed :: bool
  openport_netlog_audit_succeed :: bool
  dns_netlog_audit_succeed :: bool
  process_audit_succeed :: bool
  file_audit_succeed :: bool

definition zcopy_blank :: zcopy_mgr where
  "zcopy_blank =
     \<lparr>uio_fd = None, in_netlog_audit_size = 0, in_netlog_audit_addr = 0, in_netlog_cir_buffer = 0,
      in_netlog_audit_total_count = 0, out_netlog_audit_size = 0, out_netlog_cir_buffer = 0,
      out_netlog_audit_total_count = 0, openport_netlog_audit_size = 0, openport_netlog_cir_buffer = 0,
      openport_netlog_audit_total_count = 0, dns_netlog_audit_size = 0, dns_netlog_cir_buffer = 0,
      dns_netlog_audit_total_count = 0, process_audit_size = 0, process_cir_buffer = 0,
      process_audit_total_count = 0, file_audit_size = 0, file_cir_buffer = 0, file_audit_total_count = 0,
      in_netlog_audit_succeed = False, out_netlog_audit_succeed = False,
      openport_netlog_audit_succeed = False, dns_netlog_audit_succeed = False,
      process_audit_succeed = False, file_audit_succeed = False\<rparr>"

record 'w uio_ext =
  ux_open :: "string \<Rightarrow> 'w \<Rightarrow> nat res \<times> 'w"
  ux_close :: "nat \<Rightarrow> 'w \<Rightarrow> unit res \<times> 'w"
  ux_read :: "nat \<Rightarrow> 'w \<Rightarrow> string res \<times> 'w"
  ux_mmap :: "nat \<Rightarrow> nat \<Rightarrow> nat \<Rightarrow> 'w \<Rightarrow> nat option \<times> 'w"
  ux_munmap :: "nat \<Rightarrow> nat \<Rightarrow> 'w \<Rightarrow> 'w"
  ux_page_size :: "'w \<Rightarrow> nat option res"
  ux_read_dir :: "string \<Rightarrow> 'w \<Rightarrow> string res list res"
  ux_read_file :: "string \<Rightarrow> 'w \<Rightarrow> string res"

record 'w uio_state =
  uw :: 'w
  live_maps :: "(nat \<times> nat) list"
  mgr :: zcopy_mgr

definition ext_call :: "('w \<Rightarrow> 'a \<times> 'w) \<Rightarrow> ('w uio_state, 'a) state" where
  "ext_call f = State (\<lambda>s. case f (uw s) of (r, w) \<Rightarrow> (r, s\<lparr>uw := w\<rparr>))"

definition with_mgr :: "(zcopy_mgr \<Rightarrow> zcopy_mgr) \<Rightarrow> ('w uio_state, unit) state" where
  "with_mgr f = modify (\<lambda>s. s\<lparr>mgr := f (mgr s)\<rparr>)"

section \<open>Reading addresses and sizes\<close>

definition hex_val :: "char \<Rightarrow> nat option" where
  "hex_val c =
     (let n = of_char c in
      if 48 \<le> n \<and> n \<le> 57 then Some (n - 48)
      else if 97 \<le> n \<and> n \<le> 102 then Some (n - 87)
      else if 65 \<le> n \<and> n \<le> 70 then Some (n - 55)
      else None)"

fun hex_digits :: "nat \<Rightarrow> string \<Rightarrow> nat option" where
  "hex_digits acc [] = Some acc"
| "hex_digits acc (c # cs) =
     (case hex_val c of None \<Rightarrow> None | Some v \<Rightarrow> hex_digits (16 * acc + v) cs)"

definition from_hex_u64 :: "string \<Rightarrow> nat option" where
  "from_hex_u64 s =
     (let t = (case s of c # r \<Rightarrow> if c = CHR ''+'' then r else s | [] \<Rightarrow> [])
      in if t = [] then None
         else case hex_digits 0 t of
                Some v \<Rightarrow> if v < 2 ^ 64 then Some v else None
              | None \<Rightarrow> None)"

fun trim_0x :: "string \<Rightarrow> string" where
  "trim_0x (a # b # s) = (if a = CHR ''0'' \<and> b = CHR ''x'' then trim_0x s else a # b # s)"
| "trim_0x s = s"

text \<open>UTF-8 validity of a byte string (\<^verbatim>\<open>std::str::from_utf8\<close>).\<close>

definition cont :: "nat \<Rightarrow> nat \<Rightarrow> char \<Rightarrow> bool" where
  "cont lo hi c \<longleftrightarrow> lo \<le> (of_char c :: nat) \<and> (of_char c :: nat) \<le> hi"

fun utf8_valid :: "string \<Rightarrow> bool" where
  "utf8_valid [] = True"
| "utf8_valid (a # s) =
     (if cont 0 0x7F a then utf8_valid s
      else case s of
        [] \<Rightarrow> False
      | b # s2 \<Rightarrow>
          if cont 0xC2 0xDF a then cont 0x80 0xBF b \<and> utf8_valid s2
          else case s2 of
            [] \<Rightarrow> False
          | c # s3 \<Rightarrow>
              if cont 0xE0 0xEF a
              then (if a = CHR 0xE0 then cont 0xA0 0xBF b else if a = CHR 0xED then cont 0x80 0x9F b
                    else cont 0x80 0xBF b) \<and> cont 0x80 0xBF c \<and> utf8_valid s3
              else case s3 of
                [] \<Rightarrow> False
              | d # s4 \<Rightarrow>
                  cont 0xF0 0xF4 a
                  \<and> (if a = CHR 0xF0 then cont 0x90 0xBF b else if a = CHR 0xF4 then cont 0x80 0x8F b
                     else cont 0x80 0xBF b) \<and> cont 0x80 0xBF c \<and> cont 0x80 0xBF d \<and> utf8_valid s4)"

definition read_hex :: "string \<Rightarrow> string \<Rightarrow> 'w uio_ext \<Rightarrow> nat \<Rightarrow> ('w uio_state, nat res) state" where
  "read_hex empty_msg bad_msg U fd =
     tryE (ext_call (ux_read U fd)) (\<lambda>bytes.
       State_Monad.return
         (if bytes = [] then Inl empty_msg
          else if \<not> utf8_valid bytes then Inl bad_msg
          else case from_hex_u64 (trim_0x (trim bytes)) of
                 None \<Rightarrow> Inl bad_msg
               | Some v \<Rightarrow> Inr v))"

definition read_addr :: "'w uio_ext \<Rightarrow> nat \<Rightarrow> ('w uio_state, nat res) state" where
  "read_addr = read_hex ''Failed to read address'' ''Invalid address string''"

definition read_size :: "'w uio_ext \<Rightarrow> nat \<Rightarrow> ('w uio_state, nat res) state" where
  "read_size = read_hex ''Failed to read size'' ''Invalid size string''"

text \<open>The path of a process record: its bytes up to the first zero, if they are UTF-8.\<close>

definition get_path_str :: "string \<Rightarrow> string option" where
  "get_path_str path =
     (let s = takeWhile (\<lambda>c. c \<noteq> CHR 0x00) path in if utf8_valid s then Some s else None)"

section \<open>Mapping\<close>

text \<open>What \<^verbatim>\<open>map_buffer\<close> stores for each of the five maps.\<close>

definition store_map :: "string \<Rightarrow> nat \<Rightarrow> nat \<Rightarrow> nat \<Rightarrow> nat \<Rightarrow> zcopy_mgr \<Rightarrow> zcopy_mgr" where
  "store_map map_name addr sz buffer cnt m =
     (if map_name = ''map0'' then
        m\<lparr>in_netlog_audit_size := sz, in_netlog_audit_addr := addr, in_netlog_cir_buffer := buffer,
          in_netlog_audit_total_count := cnt, in_netlog_audit_succeed := True\<rparr>
      else if map_name = ''map1'' then
        m\<lparr>openport_netlog_audit_size := sz, openport_netlog_cir_buffer := buffer,
          openport_netlog_audit_total_count := cnt, openport_netlog_audit_succeed := True\<rparr>
      else if map_name = ''map2'' then
        m\<lparr>dns_netlog_audit_size := sz, dns_netlog_cir_buffer := buffer,
          dns_netlog_audit_total_count := cnt, dns_netlog_audit_succeed := True\<rparr>
      else if map_name = ''map3'' then
        m\<lparr>process_audit_size := sz, process_cir_buffer := buffer,
          process_audit_total_count := cnt, process_audit_succeed := True\<rparr>
      else if map_name = ''map4'' then
        m\<lparr>file_audit_size := sz, file_cir_buffer := buffer,
          file_audit_total_count := cnt, file_audit_succeed := True\<rparr>
      else m)"

definition do_mmap :: "'w uio_ext \<Rightarrow> nat \<Rightarrow> nat \<Rightarrow> nat \<Rightarrow> ('w uio_state, nat option) state" where
  "do_mmap U sz fd offset = do {
     r \<leftarrow> ext_call (ux_mmap U sz fd offset);
     (case r of
        None \<Rightarrow> State_Monad.return ()
      | Some p \<Rightarrow> modify (\<lambda>s. s\<lparr>live_maps := (p, sz) # live_maps s\<rparr>));
     State_Monad.return r
   }"

text \<open>A panic is an error of its own.\<close>

definition unwrap_none :: string where "unwrap_none = ''called Option::unwrap() on a None value''"

definition map_buffer ::
  "'w uio_ext \<Rightarrow> string \<Rightarrow> string \<Rightarrow> nat \<Rightarrow> (nat \<Rightarrow> nat) \<Rightarrow> ('w uio_state, unit res) state" where
  "map_buffer U uio_sys_path map_name offset count_calculator =
     tryE (ext_call (ux_open U (uio_sys_path @ ''/'' @ map_name @ ''/addr''))) (\<lambda>addr_fd.
     tryE (ext_call (ux_open U (uio_sys_path @ ''/'' @ map_name @ ''/size''))) (\<lambda>size_fd.
     tryE (read_addr U addr_fd) (\<lambda>addr.
     tryE (read_size U size_fd) (\<lambda>size. do {
       fd \<leftarrow> gets (\<lambda>s. uio_fd (mgr s));
       case fd of
         None \<Rightarrow> State_Monad.return (Inl unwrap_none)
       | Some fd \<Rightarrow> do {
           buffer \<leftarrow> do_mmap U size fd offset;
           case buffer of
             None \<Rightarrow>
               tryE (ext_call (ux_close U addr_fd)) (\<lambda>_.
               tryE (ext_call (ux_close U size_fd)) (\<lambda>_.
                 State_Monad.return (Inl ''mmap failed'')))
           | Some p \<Rightarrow> do {
               with_mgr (store_map map_name addr size p (count_calculator size));
               tryE (ext_call (ux_close U addr_fd)) (\<lambda>_. ext_call (ux_close U size_fd))
             }
         }
     }))))"

section \<open>Finding the device, construction and destruction\<close>

definition UIO_BASE_PATH :: string where "UIO_BASE_PATH = ''/sys/class/uio/''"
definition UIO_DEV_PREFIX :: string where "UIO_DEV_PREFIX = ''/dev/uio''"

text \<open>\<^verbatim>\<open>trim_start_matches\<close> with a non-empty pattern.\<close>

function trim_matches :: "string \<Rightarrow> string \<Rightarrow> string" where
  "trim_matches p s = (if p \<noteq> [] \<and> starts_with p s then trim_matches p (drop (length p) s) else s)"
  by auto
termination
  by (relation "measure (length \<circ> snd)") (auto simp: starts_with_iff_prefix prefix_def)

declare trim_matches.simps [simp del]

fun scan_uio :: "'w uio_ext \<Rightarrow> string \<Rightarrow> 'w \<Rightarrow> string res list \<Rightarrow> string res" where
  "scan_uio U driver_name w [] = Inl (''UIO device for driver '' @ driver_name @ '' not found'')"
| "scan_uio U driver_name w (Inl e # entries) = Inl e"
| "scan_uio U driver_name w (Inr name # entries) =
     (if \<not> starts_with ''uio'' name then scan_uio U driver_name w entries
      else case ux_read_file U (UIO_BASE_PATH @ ''/'' @ name @ ''/name'') w of
             Inl e \<Rightarrow> Inl e
           | Inr name_buf \<Rightarrow>
               if trim name_buf = driver_name
               then Inr (UIO_DEV_PREFIX @ trim_matches ''uio'' name)
               else scan_uio U driver_name w entries)"

definition find_uio_device :: "'w uio_ext \<Rightarrow> string \<Rightarrow> ('w uio_state, string res) state" where
  "find_uio_device U driver_name = gets (\<lambda>s.
     case ux_read_dir U UIO_BASE_PATH (uw s) of
       Inl e \<Rightarrow> Inl e
     | Inr dir \<Rightarrow> scan_uio U driver_name (uw s) dir)"

definition share_out :: "zcopy_mgr \<Rightarrow> zcopy_mgr" where
  "share_out m =
     (if in_netlog_audit_succeed m
      then m\<lparr>out_netlog_audit_total_count := in_netlog_audit_total_count m,
             out_netlog_cir_buffer := in_netlog_cir_buffer m
               + in_netlog_audit_total_count m * repr_c_size OsecNetworkReport,
             out_netlog_audit_succeed := True\<rparr>
      else m)"

definition zcopy_build :: "'w uio_ext \<Rightarrow> ('w uio_state, unit res) state" where
  "zcopy_build U =
     tryE (find_uio_device U ''uio_zcopy'') (\<lambda>uio_dev.
     tryE (ext_call (ux_open U uio_dev)) (\<lambda>fd.
     tryE (do { with_mgr (\<lambda>m. m\<lparr>uio_fd := Some fd\<rparr>);
                gets (\<lambda>s. case ux_page_size U (uw s) of
                            Inl e \<Rightarrow> Inl e
                          | Inr None \<Rightarrow> Inl ''Failed to get page size''
                          | Inr (Some n) \<Rightarrow> Inr n) }) (\<lambda>page_size.
     let path = ''/sys/class/uio/uio'' @ trim_matches UIO_DEV_PREFIX uio_dev @ ''/maps/'' in
     tryE (map_buffer U path ''map0'' 0 (\<lambda>size. size div repr_c_size OsecNetworkReport div 2)) (\<lambda>_.
     tryE (do { with_mgr share_out; State_Monad.return (Inr ()) }) (\<lambda>_.
     tryE (map_buffer U path ''map1'' page_size (\<lambda>size. size div repr_c_size OsecOpenportReport)) (\<lambda>_.
     tryE (map_buffer U path ''map2'' (2 * page_size) (\<lambda>size. size div repr_c_size OsecDnsReport)) (\<lambda>_.
     tryE (map_buffer U path ''map3'' (3 * page_size) (\<lambda>size. size div repr_c_size AvProcessInfo)) (\<lambda>_.
     map_buffer U path ''map4'' (4 * page_size) (\<lambda>size. size div repr_c_size AvFileInfo)))))))))"

definition MAP_FAILED :: nat where "MAP_FAILED = 2 ^ 64 - 1"

definition unmap :: "'w uio_ext \<Rightarrow> nat \<Rightarrow> nat \<Rightarrow> ('w uio_state, unit) state" where
  "unmap U p sz =
     (if p \<noteq> MAP_FAILED \<and> p \<noteq> 0
      then modify (\<lambda>s. s\<lparr>uw := ux_munmap U p sz (uw s), live_maps := remove1 (p, sz) (live_maps s)\<rparr>)
      else State_Monad.return ())"

definition zcopy_drop :: "'w uio_ext \<Rightarrow> ('w uio_state, unit) state" where
  "zcopy_drop U = do {
     m \<leftarrow> gets mgr;
     unmap U (in_netlog_cir_buffer m) (in_netlog_audit_size m);
     unmap U (openport_netlog_cir_buffer m) (openport_netlog_audit_size m);
     unmap U (dns_netlog_cir_buffer m) (dns_netlog_audit_size m);
     unmap U (process_cir_buffer m) (process_audit_size m);
     unmap U (file_cir_buffer m) (file_audit_size m);
     case uio_fd m of
       None \<Rightarrow> State_Monad.return ()
     | Some fd \<Rightarrow> do { _ \<leftarrow> ext_call (ux_close U fd); State_Monad.return () }
   }"

text \<open>A constructor that fails drops the manager it was building.\<close>

definition zcopy_new :: "'w uio_ext \<Rightarrow> ('w uio_state, unit res) state" where
  "zcopy_new U = do {
     with_mgr (\<lambda>_. zcopy_blank);
     r \<leftarrow> zcopy_build U;
     case r of
       Inl e \<Rightarrow> do { zcopy_drop U; State_Monad.return (Inl e) }
     | Inr _ \<Rightarrow> State_Monad.return (Inr ())
   }"

section \<open>Access to one record\<close>

text \<open>Nothing, the address of the record, or the panic of a remainder by zero.\<close>

datatype access = NoData | At nat | Panic

definition record_at :: "bool \<Rightarrow> nat \<Rightarrow> nat \<Rightarrow> nat \<Rightarrow> nat \<Rightarrow> access" where
  "record_at succeed buffer cnt rec_size idx =
     (if \<not> succeed \<or> buffer = 0 then NoData
      else if cnt = 0 then Panic
      else At (buffer + (idx mod cnt) * rec_size))"

definition get_in_netlog_audit_data :: "zcopy_mgr \<Rightarrow> nat \<Rightarrow> access" where
  "get_in_netlog_audit_data m = record_at (in_netlog_audit_succeed m) (in_netlog_cir_buffer m)
     (in_netlog_audit_total_count m) (repr_c_size OsecNetworkReport)"

definition get_out_netlog_audit_data :: "zcopy_mgr \<Rightarrow> nat \<Rightarrow> access" where
  "get_out_netlog_audit_data m = record_at (out_netlog_audit_succeed m) (out_netlog_cir_buffer m)
     (out_netlog_audit_total_count m) (repr_c_size OsecNetworkReport)"

definition get_openport_log_audit_data :: "zcopy_mgr \<Rightarrow> nat \<Rightarrow> access" where
  "get_openport_log_audit_data m = record_at (openport_netlog_audit_succeed m) (openport_netlog_cir_buffer m)
     (openport_netlog_audit_total_count m) (repr_c_size OsecOpenportReport)"

definition get_dns_log_audit_data :: "zcopy_mgr \<Rightarrow> nat \<Rightarrow> access" where
  "get_dns_log_audit_data m = record_at (dns_netlog_audit_succeed m) (dns_netlog_cir_buffer m)
     (dns_netlog_audit_total_count m) (repr_c_size OsecDnsReport)"

definition get_process_audit_data :: "zcopy_mgr \<Rightarrow> nat \<Rightarrow> access" where
  "get_process_audit_data m = record_at (process_audit_succeed m) (process_cir_buffer m)
     (process_audit_total_count m) (repr_c_size AvProcessInfo)"

definition get_file_audit_data :: "zcopy_mgr \<Rightarrow> nat \<Rightarrow> access" where
  "get_file_audit_data m = record_at (file_audit_succeed m) (file_cir_buffer m)
     (file_audit_total_count m) (repr_c_size AvFileInfo)"

section \<open>Rings of records\<close>

text \<open>A run of records inside a mapping: \<open>cnt\<close> records of \<open>rec_size\<close> bytes from the offset
  \<open>start\<close>. An index is taken modulo their number.\<close>

locale ring =
  fixes start cnt rec_size map_len :: nat
  assumes fits: "start + cnt * rec_size \<le> map_len"
    and rec_size_pos: "0 < rec_size"
begin

definition slot :: "nat \<Rightarrow> nat" where
  "slot idx = start + (idx mod cnt) * rec_size"

lemma slot_in_map: "0 < cnt \<Longrightarrow> start \<le> slot idx \<and> slot idx + rec_size \<le> map_len"
proof -
  assume "0 < cnt"
  then have "Suc (idx mod cnt) * rec_size \<le> cnt * rec_size"
    by (intro mult_le_mono1) (simp add: Suc_leI)
  then show ?thesis using fits by (simp add: slot_def)
qed

lemma slot_below_end: "0 < cnt \<Longrightarrow> slot idx + rec_size \<le> start + cnt * rec_size"
proof -
  assume "0 < cnt"
  then have "Suc (idx mod cnt) * rec_size \<le> cnt * rec_size"
    by (intro mult_le_mono1) (simp add: Suc_leI)
  then show ?thesis by (simp add: slot_def)
qed

lemma slot_period: "slot (idx + cnt) = slot idx"
  by (simp add: slot_def)

lemma slot_disjoint:
  assumes "i mod cnt < j mod cnt"
  shows "slot i + rec_size \<le> slot j"
proof -
  have "Suc (i mod cnt) * rec_size \<le> (j mod cnt) * rec_size"
    using assms by (intro mult_le_mono1) simp
  then show ?thesis by (simp add: slot_def)
qed

end

lemma record_layouts [simp]:
  "repr_c_size OsecNetworkReport = 176" "repr_c_size OsecOpenportReport = 200"
  "repr_c_size OsecDnsReport = 460" "repr_c_size AvProcessInfo = 536" "repr_c_size AvFileInfo = 1184"
  by code_simp+

lemma half_fits: "2 * (n div r div 2 * r) \<le> (n :: nat)"
proof -
  have "2 * (n div r div 2) \<le> n div r" by simp
  then have "2 * (n div r div 2) * r \<le> n div r * r" by (rule mult_le_mono1)
  also have "\<dots> \<le> n" by simp
  finally show ?thesis by (simp only: mult.assoc)
qed

interpretation in_ring: ring 0 "sz div 176 div 2" 176 sz for sz
  by unfold_locales (use half_fits [of sz 176] in simp_all)

interpretation out_ring: ring "sz div 176 div 2 * 176" "sz div 176 div 2" 176 sz for sz
  by unfold_locales (use half_fits [of sz 176] in simp_all)

interpretation openport_ring: ring 0 "sz div 200" 200 sz for sz
  by unfold_locales simp_all

interpretation dns_ring: ring 0 "sz div 460" 460 sz for sz
  by unfold_locales simp_all

interpretation process_ring: ring 0 "sz div 536" 536 sz for sz
  by unfold_locales simp_all

interpretation file_ring: ring 0 "sz div 1184" 1184 sz for sz
  by unfold_locales simp_all

section \<open>The mappings of a manager\<close>

definition held :: "nat \<Rightarrow> nat \<Rightarrow> (nat \<times> nat) list" where
  "held p sz = (if p = 0 then [] else [(p, sz)])"

definition maps_of :: "zcopy_mgr \<Rightarrow> (nat \<times> nat) list" where
  "maps_of m = held (in_netlog_cir_buffer m) (in_netlog_audit_size m)
     @ held (openport_netlog_cir_buffer m) (openport_netlog_audit_size m)
     @ held (dns_netlog_cir_buffer m) (dns_netlog_audit_size m)
     @ held (process_cir_buffer m) (process_audit_size m)
     @ held (file_cir_buffer m) (file_audit_size m)"

text \<open>The counts go with the sizes, and the outgoing half follows the incoming one.\<close>

definition counts_ok :: "zcopy_mgr \<Rightarrow> bool" where
  "counts_ok m \<longleftrightarrow>
     (in_netlog_audit_succeed m \<longrightarrow> in_netlog_cir_buffer m \<noteq> 0
        \<and> in_netlog_audit_total_count m = in_netlog_audit_size m div 176 div 2)
   \<and> (out_netlog_audit_succeed m \<longrightarrow> in_netlog_audit_succeed m
        \<and> out_netlog_audit_total_count m = in_netlog_audit_total_count m
        \<and> out_netlog_cir_buffer m = in_netlog_cir_buffer m + in_netlog_audit_total_count m * 176)
   \<and> (openport_netlog_audit_succeed m \<longrightarrow> openport_netlog_cir_buffer m \<noteq> 0
        \<and> openport_netlog_audit_total_count m = openport_netlog_audit_size m div 200)
   \<and> (dns_netlog_audit_succeed m \<longrightarrow> dns_netlog_cir_buffer m \<noteq> 0
        \<and> dns_netlog_audit_total_count m = dns_netlog_audit_size m div 460)
   \<and> (process_audit_succeed m \<longrightarrow> process_cir_buffer m \<noteq> 0
        \<and> process_audit_total_count m = process_audit_size m div 536)
   \<and> (file_audit_succeed m \<longrightarrow> file_cir_buffer m \<noteq> 0
        \<and> file_audit_total_count m = file_audit_size m div 1184)"

text \<open>The system never hands out the null pointer or the error value as a mapping.\<close>

definition mmap_sane :: "'w uio_ext \<Rightarrow> bool" where
  "mmap_sane U \<longleftrightarrow> (\<forall>sz fd off w p. fst (ux_mmap U sz fd off w) = Some p \<longrightarrow> p \<noteq> 0 \<and> p \<noteq> MAP_FAILED)"

definition no_failed :: "zcopy_mgr \<Rightarrow> bool" where
  "no_failed m \<longleftrightarrow> MAP_FAILED \<notin> fst ` set (maps_of m)"

definition tracked :: "(nat \<times> nat) list \<Rightarrow> 'w uio_state \<Rightarrow> bool" where
  "tracked L s \<longleftrightarrow> mset (live_maps s) = mset (maps_of (mgr s)) + mset L \<and> counts_ok (mgr s) \<and> no_failed (mgr s)"

text \<open>\<open>free k\<close>: the maps from number \<open>k\<close> on are not there yet.\<close>

definition free_from :: "nat \<Rightarrow> zcopy_mgr \<Rightarrow> bool" where
  "free_from k m \<longleftrightarrow>
     (k \<le> 0 \<longrightarrow> in_netlog_cir_buffer m = 0 \<and> \<not> in_netlog_audit_succeed m \<and> \<not> out_netlog_audit_succeed m)
   \<and> (k \<le> 1 \<longrightarrow> openport_netlog_cir_buffer m = 0) \<and> (k \<le> 2 \<longrightarrow> dns_netlog_cir_buffer m = 0)
   \<and> (k \<le> 3 \<longrightarrow> process_cir_buffer m = 0) \<and> (k \<le> 4 \<longrightarrow> file_cir_buffer m = 0)"

definition map_specs :: "(nat \<times> string \<times> (nat \<Rightarrow> nat)) set" where
  "map_specs = {(0, ''map0'', \<lambda>sz. sz div 176 div 2), (1, ''map1'', \<lambda>sz. sz div 200),
     (2, ''map2'', \<lambda>sz. sz div 460), (3, ''map3'', \<lambda>sz. sz div 536), (4, ''map4'', \<lambda>sz. sz div 1184)}"

lemma store_map_maps:
  assumes "(k, name, cc) \<in> map_specs" and "free_from k m" and "p \<noteq> 0"
  shows "mset (maps_of (store_map name addr sz p c m)) = add_mset (p, sz) (mset (maps_of m))"
    and "free_from (Suc k) (store_map name addr sz p c m)"
    and "counts_ok m \<Longrightarrow> counts_ok (store_map name addr sz p (cc sz) m)"
proof -
  from assms(1) consider "k = 0" "name = ''map0''" "cc = (\<lambda>sz. sz div 176 div 2)"
    | "k = 1" "name = ''map1''" "cc = (\<lambda>sz. sz div 200)" | "k = 2" "name = ''map2''" "cc = (\<lambda>sz. sz div 460)"
    | "k = 3" "name = ''map3''" "cc = (\<lambda>sz. sz div 536)" | "k = 4" "name = ''map4''" "cc = (\<lambda>sz. sz div 1184)"
    unfolding map_specs_def by blast
  then have "mset (maps_of (store_map name addr sz p c m)) = add_mset (p, sz) (mset (maps_of m))
    \<and> free_from (Suc k) (store_map name addr sz p c m)
    \<and> (counts_ok m \<longrightarrow> counts_ok (store_map name addr sz p (cc sz) m))"
    using assms(2,3) by cases (simp_all add: store_map_def maps_of_def held_def free_from_def counts_ok_def)
  then show "mset (maps_of (store_map name addr sz p c m)) = add_mset (p, sz) (mset (maps_of m))"
    "free_from (Suc k) (store_map name addr sz p c m)"
    "counts_ok m \<Longrightarrow> counts_ok (store_map name addr sz p (cc sz) m)" by blast+
qed

lemma no_failed_store:
  assumes "mset (maps_of m') = add_mset (p, sz) (mset (maps_of m))" and "no_failed m" and "p \<noteq> MAP_FAILED"
  shows "no_failed m'"
proof -
  have "set (maps_of m') = insert (p, sz) (set (maps_of m))"
    using assms(1) by (metis set_mset_add_mset_insert set_mset_mset)
  with assms(2,3) show ?thesis by (auto simp: no_failed_def)
qed

lemma keeps_ext_call [keep_intros]:
  "(\<And>s w. P s \<Longrightarrow> P (s\<lparr>uw := w\<rparr>)) \<Longrightarrow> keeps P (ext_call f)"
  by (auto simp: keeps_def ext_call_def split: prod.splits)

lemma tracked_uw [simp]: "tracked L (s\<lparr>uw := w\<rparr>) = tracked L s"
  by (simp add: tracked_def)

lemma keeps_read_hex [keep_intros]: "(\<And>s w. P s \<Longrightarrow> P (s\<lparr>uw := w\<rparr>)) \<Longrightarrow> keeps P (read_hex a b U fd)"
  unfolding read_hex_def by (intro keep_intros)

lemma do_mmap_run:
  assumes "mmap_sane U" and "run_state (do_mmap U sz fd off) s = (r, t)"
  shows "mgr t = mgr s \<and> (case r of None \<Rightarrow> live_maps t = live_maps s
     | Some p \<Rightarrow> live_maps t = (p, sz) # live_maps s \<and> p \<noteq> 0 \<and> p \<noteq> MAP_FAILED)"
proof -
  obtain q w where m: "ux_mmap U sz fd off (uw s) = (q, w)" by (rule prod.exhaust)
  have q: "q = Some p \<Longrightarrow> p \<noteq> 0 \<and> p \<noteq> MAP_FAILED" for p
    using assms(1) m unfolding mmap_sane_def by (metis fst_conv)
  show ?thesis using assms(2) m q
    by (auto simp: do_mmap_def ext_call_def split: option.splits)
qed

text \<open>After \<^verbatim>\<open>mmap\<close>: the new mapping is alive and not yet in the manager.\<close>

definition pending :: "(nat \<times> nat) list \<Rightarrow> nat \<Rightarrow> nat \<Rightarrow> nat option \<Rightarrow> 'w uio_state \<Rightarrow> bool" where
  "pending L k sz r s \<longleftrightarrow>
     (case r of
        None \<Rightarrow> tracked L s
      | Some p \<Rightarrow> mset (live_maps s) = add_mset (p, sz) (mset (maps_of (mgr s)) + mset L)
          \<and> counts_ok (mgr s) \<and> no_failed (mgr s) \<and> free_from k (mgr s) \<and> p \<noteq> 0 \<and> p \<noteq> MAP_FAILED)"

lemma do_mmap_pending:
  "mmap_sane U \<Longrightarrow> tracked L s \<and> free_from k (mgr s) \<Longrightarrow> run_state (do_mmap U sz fd off) s = (r, t) \<Longrightarrow> pending L k sz r t"
  using do_mmap_run [of U sz fd off s r t] by (auto simp: pending_def tracked_def split: option.splits)

lemma pending_store:
  assumes "(k, name, cc) \<in> map_specs" and "pending L k sz (Some p) s"
  shows "tracked L (s\<lparr>mgr := store_map name addr sz p (cc sz) (mgr s)\<rparr>)
    \<and> free_from (Suc k) (store_map name addr sz p (cc sz) (mgr s))"
proof -
  from assms(2) have f: "free_from k (mgr s)" "p \<noteq> 0" by (simp_all add: pending_def)
  note st = store_map_maps [OF assms(1) f]
  show ?thesis using assms(2) st no_failed_store [OF st(1)] by (simp add: pending_def tracked_def)
qed

lemma map_buffer_triple:
  assumes "mmap_sane U" and "(k, name, cc) \<in> map_specs"
  shows "triple (\<lambda>s. tracked L s \<and> free_from k (mgr s)) (map_buffer U path name off cc)
     (\<lambda>_ s. tracked L s \<and> free_from (Suc k) (mgr s)) (tracked L)"
proof -
  let ?P = "\<lambda>s :: 'a uio_state. tracked L s \<and> free_from k (mgr s)"
  let ?Q = "\<lambda>s :: 'a uio_state. tracked L s \<and> free_from (Suc k) (mgr s)"
  have opn: "triple ?P (ext_call f) (\<lambda>_. ?P) (tracked L)" for f :: "'a \<Rightarrow> nat res \<times> 'a"
    by (rule triple_inv) (auto intro!: keep_intros)
  have rd: "triple ?P (read_hex a b U fd) (\<lambda>_. ?P) (tracked L)" for a b fd
    by (rule triple_inv) (auto intro!: keep_intros)
  have cls: "triple ?Q (tryE (ext_call f) (\<lambda>_. ext_call g)) (\<lambda>_. ?Q) (tracked L)" for f g :: "'a \<Rightarrow> unit res \<times> 'a"
    by (rule triple_inv) (auto intro!: keep_intros)
  have bad: "triple (tracked L) (tryE (ext_call f) (\<lambda>_. tryE (ext_call g) (\<lambda>_. State_Monad.return (Inl e)))) (\<lambda>_. ?Q) (tracked L)"
    for f g :: "'a \<Rightarrow> unit res \<times> 'a" and e
    by (rule triple_tryE [where Q = "\<lambda>_. tracked L"], rule triple_inv, (auto intro!: keep_intros)[2],
        rule triple_tryE [where Q = "\<lambda>_. tracked L"], rule triple_inv, (auto intro!: keep_intros)[2])
      (simp add: triple_def)
  have fin: "triple (pending L k sz r)
      (case r of
         None \<Rightarrow> tryE (ext_call f) (\<lambda>_. tryE (ext_call g) (\<lambda>_. State_Monad.return (Inl ''mmap failed'')))
       | Some p \<Rightarrow> do { with_mgr (store_map name addr sz p (cc sz)); tryE (ext_call f) (\<lambda>_. ext_call g) })
      (\<lambda>_. ?Q) (tracked L)" for r sz addr and f g :: "'a \<Rightarrow> unit res \<times> 'a"
  proof (cases r)
    case None
    have "pending L k sz None = (tracked L :: 'a uio_state \<Rightarrow> bool)" by (rule ext) (simp add: pending_def)
    then show ?thesis using bad by (simp add: None)
  next
    case (Some p)
    show ?thesis unfolding Some option.case
      by (rule triple_bind [where Q = "\<lambda>_. ?Q", OF _ cls])
        (auto simp: with_mgr_def dest!: pending_store [OF assms(2)])
  qed
  show ?thesis
    unfolding map_buffer_def read_addr_def read_size_def
    apply (rule triple_tryE [OF opn] triple_tryE [OF rd])+
    apply (rule triple_bind [where Q = "\<lambda>_. ?P"])
     apply simp
    subgoal for afd sfd addr sz fd
      by (cases fd) (auto simp: triple_def [of _ "State_Monad.return _"]
          intro!: triple_bind [where Q = "pending L k sz", OF do_mmap_pending [OF assms(1)] fin])
    done
qed

lemma share_out_facts:
  "counts_ok m \<Longrightarrow> counts_ok (share_out m)" "maps_of (share_out m) = maps_of m"
  "free_from k m \<Longrightarrow> 0 < k \<Longrightarrow> free_from k (share_out m)"
  by (cases "in_netlog_audit_succeed m"; simp add: share_out_def counts_ok_def maps_of_def free_from_def)+

lemma share_out_triple:
  "triple (\<lambda>s. tracked L s \<and> free_from 1 (mgr s)) (do { with_mgr share_out; State_Monad.return (Inr ()) })
     (\<lambda>_ s. tracked L s \<and> free_from 1 (mgr s)) (tracked L)"
  by (simp add: triple_def with_mgr_def tracked_def no_failed_def share_out_facts)

lemma zcopy_build_triple:
  assumes "mmap_sane U"
  shows "triple (\<lambda>s. tracked L s \<and> free_from 0 (mgr s)) (zcopy_build U) (\<lambda>_. tracked L) (tracked L)"
proof -
  let ?P = "\<lambda>k (s :: 'a uio_state). tracked L s \<and> free_from k (mgr s)"
  have specs: "(0, ''map0'', \<lambda>sz. sz div 176 div 2) \<in> map_specs" "(1, ''map1'', \<lambda>sz. sz div 200) \<in> map_specs"
    "(2, ''map2'', \<lambda>sz. sz div 460) \<in> map_specs" "(3, ''map3'', \<lambda>sz. sz div 536) \<in> map_specs"
    "(4, ''map4'', \<lambda>sz. sz div 1184) \<in> map_specs" by (simp_all add: map_specs_def)
  have k: "(1 :: nat) = Suc 0" "(2 :: nat) = Suc 1" "(3 :: nat) = Suc 2" "(4 :: nat) = Suc 3" "(5 :: nat) = Suc 4"
    by simp_all
  have st: "triple (?P k) (map_buffer U path name off cc) (\<lambda>_. ?P k') (tracked L)"
    if "(k, name, cc) \<in> map_specs" "k' = Suc k" for k k' name cc path off
    using map_buffer_triple [OF assms that(1)] that(2) by blast
  note mb = st [OF specs(1) k(1)] st [OF specs(2) k(2)] st [OF specs(3) k(3)] st [OF specs(4) k(4)] st [OF specs(5) k(5)]
  have fd: "tracked L (s\<lparr>mgr := (mgr s)\<lparr>uio_fd := x\<rparr>\<rparr>) = tracked L s"
    "free_from 0 ((mgr s)\<lparr>uio_fd := x\<rparr>) = free_from 0 (mgr s)" for s :: "'a uio_state" and x
    by (simp_all add: tracked_def counts_ok_def no_failed_def maps_of_def free_from_def)
  show ?thesis
    unfolding zcopy_build_def Let_def record_layouts
    apply (rule triple_tryE [where Q = "\<lambda>_. ?P 0"])
     apply (rule triple_inv; auto simp: find_uio_device_def intro!: keep_intros)
    apply (rule triple_tryE [where Q = "\<lambda>_. ?P 0"])
     apply (rule triple_inv; auto intro!: keep_intros)
    apply (rule triple_tryE [where Q = "\<lambda>_. ?P 0"])
     apply (rule triple_inv; auto simp: with_mgr_def fd intro!: keep_intros)
    apply (rule triple_tryE [OF mb(1)])
    apply (rule triple_tryE [OF share_out_triple])
    apply (rule triple_tryE [OF mb(2)])
    apply (rule triple_tryE [OF mb(3)])
    apply (rule triple_tryE [OF mb(4)])
    apply (rule triple_weaken [OF mb(5)]; simp)
    done
qed

lemma tracked_blank:
  "tracked (live_maps s) (s\<lparr>mgr := zcopy_blank\<rparr>) \<and> free_from 0 zcopy_blank"
  by (simp add: tracked_def zcopy_blank_def maps_of_def held_def counts_ok_def no_failed_def free_from_def)

lemma run_unmap:
  "p \<noteq> MAP_FAILED \<Longrightarrow> mset (live_maps (snd (run_state (unmap U p sz) s)))
     = mset (live_maps s) - mset (held p sz)"
  "mgr (snd (run_state (unmap U p sz) s)) = mgr s"
  by (simp_all add: unmap_def held_def)

lemma unmap_step:
  "mset (live_maps s) = mset (held p sz) + M \<Longrightarrow> p \<noteq> MAP_FAILED \<Longrightarrow>
     mset (live_maps (snd (run_state (unmap U p sz) s))) = M"
  by (simp add: run_unmap)

lemma zcopy_drop_run:
  assumes "tracked L s" and "run_state (zcopy_drop U) s = (u, s')"
  shows "mset (live_maps s') = mset L"
proof -
  let ?m = "mgr s"
  let ?b = "[(in_netlog_cir_buffer ?m, in_netlog_audit_size ?m), (openport_netlog_cir_buffer ?m, openport_netlog_audit_size ?m),
      (dns_netlog_cir_buffer ?m, dns_netlog_audit_size ?m), (process_cir_buffer ?m, process_audit_size ?m),
      (file_cir_buffer ?m, file_audit_size ?m)]"
  have "0 \<noteq> MAP_FAILED" by (simp add: MAP_FAILED_def)
  with assms(1) have nf: "\<forall>x \<in> set ?b. fst x \<noteq> MAP_FAILED"
    by (auto simp: tracked_def no_failed_def maps_of_def held_def split: if_splits)
  have chain: "mset (live_maps (fold (\<lambda>(p, sz) t. snd (run_state (unmap U p sz) t)) bs t)) = M"
    if "mset (live_maps t) = mset (concat (map (\<lambda>(p, sz). held p sz) bs)) + M" "\<forall>x \<in> set bs. fst x \<noteq> MAP_FAILED" for bs t M
    using that
  proof (induction bs arbitrary: t)
    case (Cons x bs)
    obtain p sz where x: "x = (p, sz)" by (rule prod.exhaust)
    have "mset (live_maps (snd (run_state (unmap U p sz) t))) = mset (concat (map (\<lambda>(p, sz). held p sz) bs)) + M"
      using Cons.prems by (intro unmap_step) (simp_all add: x add.assoc)
    with Cons show ?case by (simp add: x)
  qed simp
  have "mset (live_maps s) = mset (concat (map (\<lambda>(p, sz). held p sz) ?b)) + mset L"
    using assms(1) by (simp add: tracked_def maps_of_def)
  from chain [OF this nf] have f: "mset (live_maps (fold (\<lambda>(p, sz) t. snd (run_state (unmap U p sz) t)) ?b s)) = mset L" .
  have cl: "live_maps (snd (run_state (ext_call g) t)) = live_maps t" for g :: "'a \<Rightarrow> unit res \<times> 'a" and t
    by (simp add: ext_call_def split: prod.splits)
  have "live_maps s' = live_maps (fold (\<lambda>(p, sz) t. snd (run_state (unmap U p sz) t)) ?b s)"
    using assms(2) cl by (auto simp: zcopy_drop_def split: option.splits prod.splits) (metis snd_conv)+
  with f show ?thesis by simp
qed

lemma zcopy_new_run:
  assumes "mmap_sane U" and "run_state (zcopy_new U) s = (r, s')"
  shows "case r of Inl e \<Rightarrow> mset (live_maps s') = mset (live_maps s) | Inr _ \<Rightarrow> tracked (live_maps s) s'"
proof -
  let ?s0 = "s\<lparr>mgr := zcopy_blank\<rparr>"
  obtain q t where b: "run_state (zcopy_build U) ?s0 = (q, t)" by (rule prod.exhaust)
  have post: "case q of Inl e \<Rightarrow> tracked (live_maps s) t | Inr _ \<Rightarrow> tracked (live_maps s) t"
    by (rule tripleD [OF zcopy_build_triple [OF assms(1), of "live_maps s"] _ b]) (use tracked_blank in simp)
  show ?thesis
  proof (cases q)
    case (Inl e)
    obtain u t' where d: "run_state (zcopy_drop U) t = (u, t')" by (rule prod.exhaust)
    with Inl b assms(2) have "r = Inl e" "s' = t'" by (simp_all add: zcopy_new_def with_mgr_def)
    with zcopy_drop_run [OF _ d] post Inl show ?thesis by simp
  next
    case (Inr x)
    with b assms(2) have "r = Inr ()" "s' = t" by (simp_all add: zcopy_new_def with_mgr_def)
    with post Inr show ?thesis by simp
  qed
qed

lemma tracked_held:
  "tracked L s \<Longrightarrow> (p, sz) \<in> set (maps_of (mgr s)) \<Longrightarrow> (p, sz) \<in> set (live_maps s)"
  unfolding tracked_def by (metis set_mset_mset set_mset_union UnI1)

lemma record_at_At:
  "record_at ok b c r idx = At p \<longleftrightarrow> ok \<and> b \<noteq> 0 \<and> c \<noteq> 0 \<and> p = b + idx mod c * r"
  by (auto simp: record_at_def)

text \<open>Each accessor stays inside the mapping of its buffer: \<open>inside m p rs\<close> holds for some mapping
  of the manager.\<close>

definition inside :: "zcopy_mgr \<Rightarrow> nat \<Rightarrow> nat \<Rightarrow> bool" where
  "inside m p rs \<longleftrightarrow> (\<exists>b sz. (b, sz) \<in> set (maps_of m) \<and> b \<le> p \<and> p + rs \<le> b + sz)"

lemma insideI: "(b, sz) \<in> set (maps_of m) \<Longrightarrow> p = b + k \<Longrightarrow> k + rs \<le> sz \<Longrightarrow> inside m p rs"
  unfolding inside_def by (intro exI [of _ b] exI [of _ sz]) simp

lemmas accessor_simps = record_at_At counts_ok_def maps_of_def held_def

lemma in_slot:
  assumes "counts_ok m" and "get_in_netlog_audit_data m idx = At p"
  shows "inside m p 176"
  using assms in_ring.slot_in_map [of "in_netlog_audit_size m" idx]
  by (intro insideI [of "in_netlog_cir_buffer m" "in_netlog_audit_size m" _ _ "in_ring.slot (in_netlog_audit_size m) idx"])
    (auto simp: get_in_netlog_audit_data_def accessor_simps in_ring.slot_def)

lemma out_slot:
  assumes "counts_ok m" and "get_out_netlog_audit_data m idx = At p"
  shows "inside m p 176"
  using assms out_ring.slot_in_map [of "in_netlog_audit_size m" idx]
  by (intro insideI [of "in_netlog_cir_buffer m" "in_netlog_audit_size m" _ _ "out_ring.slot (in_netlog_audit_size m) idx"])
    (auto simp: get_out_netlog_audit_data_def accessor_simps out_ring.slot_def)

lemma openport_slot:
  assumes "counts_ok m" and "get_openport_log_audit_data m idx = At p"
  shows "inside m p 200"
  using assms openport_ring.slot_in_map [of "openport_netlog_audit_size m" idx]
  by (intro insideI [of "openport_netlog_cir_buffer m" "openport_netlog_audit_size m" _ _
        "openport_ring.slot (openport_netlog_audit_size m) idx"])
    (auto simp: get_openport_log_audit_data_def accessor_simps openport_ring.slot_def)

lemma dns_slot:
  assumes "counts_ok m" and "get_dns_log_audit_data m idx = At p"
  shows "inside m p 460"
  using assms dns_ring.slot_in_map [of "dns_netlog_audit_size m" idx]
  by (intro insideI [of "dns_netlog_cir_buffer m" "dns_netlog_audit_size m" _ _ "dns_ring.slot (dns_netlog_audit_size m) idx"])
    (auto simp: get_dns_log_audit_data_def accessor_simps dns_ring.slot_def)

lemma process_slot:
  assumes "counts_ok m" and "get_process_audit_data m idx = At p"
  shows "inside m p 536"
  using assms process_ring.slot_in_map [of "process_audit_size m" idx]
  by (intro insideI [of "process_cir_buffer m" "process_audit_size m" _ _ "process_ring.slot (process_audit_size m) idx"])
    (auto simp: get_process_audit_data_def accessor_simps process_ring.slot_def)

lemma file_slot:
  assumes "counts_ok m" and "get_file_audit_data m idx = At p"
  shows "inside m p 1184"
  using assms file_ring.slot_in_map [of "file_audit_size m" idx]
  by (intro insideI [of "file_cir_buffer m" "file_audit_size m" _ _ "file_ring.slot (file_audit_size m) idx"])
    (auto simp: get_file_audit_data_def accessor_simps file_ring.slot_def)

lemma in_out_apart:
  "counts_ok m \<Longrightarrow> get_in_netlog_audit_data m i = At p \<Longrightarrow> get_out_netlog_audit_data m j = At q \<Longrightarrow> p + 176 \<le> q"
  using in_ring.slot_below_end [of "in_netlog_audit_size m" i]
  by (auto simp: get_in_netlog_audit_data_def get_out_netlog_audit_data_def accessor_simps in_ring.slot_def)

lemma inside_live: "tracked L s \<Longrightarrow> inside (mgr s) p rs \<Longrightarrow>
    \<exists>b sz. (b, sz) \<in> set (live_maps s) \<and> b \<le> p \<and> p + rs \<le> b + sz"
  unfolding inside_def using tracked_held by blast

lemma flag_masks: "(7 :: u32) = mask 3" "(0x3FF :: u32) = mask 10" "(3 :: u32) = mask 2"
  by (simp_all add: mask_eq_exp_minus_1)

lemma and_one_bit: "(drop_bit k w AND 1 \<noteq> 0) = bit (w :: u32) k"
  by (simp add: and_one_eq bit_iff_odd_drop_bit odd_iff_mod_2_eq_one)

lemma flags_packed_parsed: "flags_packed (flags_parsed w) = take_bit 22 w"
proof (rule bit_word_eqI)
  fix n assume n: "n < LENGTH(32)"
  consider "n < 3" | "3 \<le> n" "n < 6" | "6 \<le> n" "n < 16" | "16 \<le> n" "n < 19" | "19 \<le> n" "n < 21" | "n = 21" | "22 \<le> n" by linarith
  then show "bit (flags_packed (flags_parsed w)) n = bit (take_bit 22 w) n"
    unfolding flags_packed_def flags_parsed_def av_process_flags.simps and_one_bit flag_masks
    by cases (use n in \<open>auto simp: bit_or_iff bit_push_bit_iff bit_unsigned_iff bit_and_iff bit_drop_bit_eq bit_mask_iff bit_take_bit_iff bit_1_iff\<close>)
qed

lemma bit_width: "take_bit k w = w \<Longrightarrow> bit (w :: 'a::len word) n \<Longrightarrow> n < k"
  by (metis bit_take_bit_iff)

lemma bit_flags_packed:
  assumes "take_bit 3 (fl_is_dir f) = fl_is_dir f" "take_bit 3 (fl_deny f) = fl_deny f"
    "take_bit 10 (fl_param_pos f) = fl_param_pos f" "take_bit 3 (fl_level f) = fl_level f"
    "take_bit 2 (fl_is_monitor_mode f) = fl_is_monitor_mode f" and "n < 32"
  shows "bit (flags_packed f) n =
    (if n < 3 then bit (fl_is_dir f) n else if n < 6 then bit (fl_deny f) (n - 3)
     else if n < 16 then bit (fl_param_pos f) (n - 6) else if n < 19 then bit (fl_level f) (n - 16)
     else if n < 21 then bit (fl_is_monitor_mode f) (n - 19) else n = 21 \<and> fl_is_docker_process f)"
proof -
  note w = assms(1-5) [THEN bit_width]
  have z: "n \<ge> 3 \<Longrightarrow> \<not> bit (fl_is_dir f) n" "n \<ge> 6 \<Longrightarrow> \<not> bit (fl_deny f) (n - 3)" "n \<ge> 16 \<Longrightarrow> \<not> bit (fl_param_pos f) (n - 6)"
    "n \<ge> 19 \<Longrightarrow> \<not> bit (fl_level f) (n - 16)" "n \<ge> 21 \<Longrightarrow> \<not> bit (fl_is_monitor_mode f) (n - 19)"
    using w by fastforce+
  have lt: "n - k < 32" for k using assms(6) by simp
  consider "n < 3" | "3 \<le> n" "n < 6" | "6 \<le> n" "n < 16" | "16 \<le> n" "n < 19" | "19 \<le> n" "n < 21" | "n = 21" | "22 \<le> n" by linarith
  then show ?thesis unfolding flags_packed_def
    by cases (use z assms(6) in \<open>simp_all add: bit_or_iff bit_push_bit_iff bit_unsigned_iff bit_1_iff bit_of_bool_iff lt\<close>)
qed

lemma flags_parsed_packed:
  assumes "take_bit 3 (fl_is_dir f) = fl_is_dir f" "take_bit 3 (fl_deny f) = fl_deny f"
    "take_bit 10 (fl_param_pos f) = fl_param_pos f" "take_bit 3 (fl_level f) = fl_level f"
    "take_bit 2 (fl_is_monitor_mode f) = fl_is_monitor_mode f"
  shows "flags_parsed (flags_packed f) = f"
proof -
  note bp = bit_flags_packed [OF assms]
  note w = assms [THEN bit_width]
  note b = bit_unsigned_iff bit_and_iff bit_drop_bit_eq bit_mask_iff
  have "fl_is_dir (flags_parsed (flags_packed f)) = fl_is_dir f"
    "fl_deny (flags_parsed (flags_packed f)) = fl_deny f"
    "fl_param_pos (flags_parsed (flags_packed f)) = fl_param_pos f"
    "fl_level (flags_parsed (flags_packed f)) = fl_level f"
    "fl_is_monitor_mode (flags_parsed (flags_packed f)) = fl_is_monitor_mode f"
    unfolding flags_parsed_def av_process_flags.simps flag_masks
    by (rule bit_word_eqI; use w in \<open>auto simp: b bp\<close>)+
  moreover have "fl_is_docker_process (flags_parsed (flags_packed f)) = fl_is_docker_process f"
    unfolding flags_parsed_def av_process_flags.simps and_one_bit by (simp add: bp)
  ultimately show ?thesis by simp
qed
section \<open>Properties\<close>

text \<open>C7: every record is read from inside a live mapping. After a successful construction,
  whatever the index, the address that each of the six accessors returns lies, with the whole
  record, within one of the mappings that are alive; and an incoming record never overlaps an
  outgoing one, although both live in one mapping.\<close>

theorem records_inside_mappings:
  assumes "mmap_sane U" and "run_state (zcopy_new U) s = (Inr (), s')"
  shows "(\<forall>(get, rs) \<in> {(get_in_netlog_audit_data, 176), (get_out_netlog_audit_data, 176),
      (get_openport_log_audit_data, 200), (get_dns_log_audit_data, 460), (get_process_audit_data, 536),
      (get_file_audit_data, 1184)}. \<forall>idx p. get (mgr s') idx = At p \<longrightarrow>
        (\<exists>b sz. (b, sz) \<in> set (live_maps s') \<and> b \<le> p \<and> p + rs \<le> b + sz))
    \<and> (\<forall>i j p q. get_in_netlog_audit_data (mgr s') i = At p \<and> get_out_netlog_audit_data (mgr s') j = At q
         \<longrightarrow> p + 176 \<le> q)"
proof -
  from zcopy_new_run [OF assms] have t: "tracked (live_maps s) s'" by simp
  then have c: "counts_ok (mgr s')" by (simp add: tracked_def)
  have "\<forall>i j p q. get_in_netlog_audit_data (mgr s') i = At p \<and> get_out_netlog_audit_data (mgr s') j = At q
      \<longrightarrow> p + 176 \<le> q" using in_out_apart [OF c] by blast
  then show ?thesis
    using inside_live [OF t] in_slot [OF c] out_slot [OF c] openport_slot [OF c] dns_slot [OF c]
      process_slot [OF c] file_slot [OF c] by simp
qed

text \<open>C8: no mapping is leaked. If the construction fails, at whatever point, the mappings made
  so far are gone again; if it succeeds, dropping the manager removes exactly the mappings it made.\<close>

theorem zcopy_no_leak:
  assumes "mmap_sane U" and "run_state (zcopy_new U) s = (r, s')"
  shows "(case r of Inl e \<Rightarrow> mset (live_maps s') = mset (live_maps s)
    | Inr _ \<Rightarrow> mset (live_maps (snd (run_state (zcopy_drop U) s'))) = mset (live_maps s))"
  using zcopy_new_run [OF assms] zcopy_drop_run [OF _ prod.collapse [symmetric]]
  by (auto split: sum.splits)

text \<open>A map shorter than one record makes its accessor panic: the map counts as mapped,
  and the index is taken modulo zero. For a process map of at least one record the accessor gives
  an address for every index.\<close>

theorem small_map_panics:
  assumes "mmap_sane U" and "run_state (zcopy_new U) s = (Inr (), s')" and "process_audit_succeed (mgr s')"
  shows "(get_process_audit_data (mgr s') idx = Panic \<longleftrightarrow> process_audit_size (mgr s') < 536)
    \<and> (536 \<le> process_audit_size (mgr s') \<longrightarrow> (\<exists>p. get_process_audit_data (mgr s') idx = At p))"
proof -
  from zcopy_new_run [OF assms(1,2)] have "counts_ok (mgr s')" by (simp add: tracked_def)
  then show ?thesis using assms(3) by (auto simp: get_process_audit_data_def record_at_def counts_ok_def div_eq_0_iff)
qed

text \<open>The packed flags of a process record. Unpacking a word gives exactly its lower 22 bits
  back when packed again, and every set of fields within their widths (3, 3, 10, 3, 2 and 1 bits)
  survives packing and unpacking.\<close>

theorem flags_roundtrip:
  "flags_packed (flags_parsed w) = take_bit 22 w
   \<and> (take_bit 3 (fl_is_dir f) = fl_is_dir f \<and> take_bit 3 (fl_deny f) = fl_deny f
        \<and> take_bit 10 (fl_param_pos f) = fl_param_pos f \<and> take_bit 3 (fl_level f) = fl_level f
        \<and> take_bit 2 (fl_is_monitor_mode f) = fl_is_monitor_mode f
      \<longrightarrow> flags_parsed (flags_packed f) = f)"
  using flags_packed_parsed flags_parsed_packed by blast

section \<open>The theorems on a small device\<close>

definition lab_uio :: "unit uio_ext" where
  "lab_uio =
     \<lparr>ux_open = (\<lambda>p w. (Inr 3, w)), ux_close = (\<lambda>fd w. (Inr (), w)),
      ux_read = (\<lambda>fd w. (Inr (''0x1000'' @ [nl]), w)),
      ux_mmap = (\<lambda>sz fd off w. (Some (4096 + 16 * off), w)), ux_munmap = (\<lambda>p sz w. w),
      ux_page_size = (\<lambda>w. Inr (Some 4096)), ux_read_dir = (\<lambda>p w. Inr [Inr ''uio0'']),
      ux_read_file = (\<lambda>p w. Inr (''uio_zcopy'' @ [nl]))\<rparr>"

definition lab_uio_start :: "unit uio_state" where
  "lab_uio_start = \<lparr>uw = (), live_maps = [], mgr = zcopy_blank\<rparr>"

lemma lab_uio_sane: "mmap_sane lab_uio"
proof -
  have "even (4096 + 16 * off)" "odd MAP_FAILED" for off :: nat by (simp_all add: MAP_FAILED_def)
  then have "4096 + 16 * off \<noteq> MAP_FAILED" for off by metis
  then show ?thesis by (simp add: mmap_sane_def lab_uio_def)
qed

lemma lab_uio_ok: "run_state (zcopy_new lab_uio) lab_uio_start
    = (Inr (), snd (run_state (zcopy_new lab_uio) lab_uio_start))"
  by code_simp

lemma lab_uio_process:
  "get_process_audit_data (mgr (snd (run_state (zcopy_new lab_uio) lab_uio_start))) 8 = At 201240"
  by code_simp

theorem records_inside_mappings_witness:
  "\<exists>b sz. (b, sz) \<in> set (live_maps (snd (run_state (zcopy_new lab_uio) lab_uio_start)))
     \<and> b \<le> 201240 \<and> 201240 + 536 \<le> b + sz"
proof -
  have "\<forall>idx p. get_process_audit_data (mgr (snd (run_state (zcopy_new lab_uio) lab_uio_start))) idx = At p \<longrightarrow>
      (\<exists>b sz. (b, sz) \<in> set (live_maps (snd (run_state (zcopy_new lab_uio) lab_uio_start))) \<and> b \<le> p \<and> p + 536 \<le> b + sz)"
    using records_inside_mappings [OF lab_uio_sane lab_uio_ok, THEN conjunct1] by simp
  then show ?thesis using lab_uio_process by blast
qed

theorem zcopy_no_leak_witness:
  "live_maps (snd (run_state (zcopy_drop lab_uio) (snd (run_state (zcopy_new lab_uio) lab_uio_start)))) = []"
  using zcopy_no_leak [OF lab_uio_sane lab_uio_ok] by (simp add: lab_uio_start_def)

theorem small_map_panics_witness:
  "\<exists>p. get_process_audit_data (mgr (snd (run_state (zcopy_new lab_uio) lab_uio_start))) 0 = At p"
proof -
  have "process_audit_succeed (mgr (snd (run_state (zcopy_new lab_uio) lab_uio_start)))"
    "536 \<le> process_audit_size (mgr (snd (run_state (zcopy_new lab_uio) lab_uio_start)))" by code_simp+
  then show ?thesis using small_map_panics [OF lab_uio_sane lab_uio_ok] by blast
qed

theorem flags_roundtrip_witness:
  "flags_parsed (flags_packed \<lparr>fl_is_dir = 1, fl_deny = 2, fl_param_pos = 700, fl_level = 5,
      fl_is_monitor_mode = 3, fl_is_docker_process = True\<rparr>)
   = \<lparr>fl_is_dir = 1, fl_deny = 2, fl_param_pos = 700, fl_level = 5, fl_is_monitor_mode = 3,
      fl_is_docker_process = True\<rparr>"
  by (rule flags_roundtrip [THEN conjunct2, THEN mp]) (simp add: take_bit_eq_mod)

end
