(* ===== verification/Ip_Text.thy ===== *)
theory Ip_Text
  imports Zcopy
begin

text \<open>
  Addresses as texts: the parts of \<^verbatim>\<open>std::net\<close> and of number parsing that the reports use. An
  \<^verbatim>\<open>Ipv6Addr\<close> is its eight groups.
\<close>

text \<open>\<^verbatim>\<open>from_str_radix(s, 16)\<close> at an unsigned type with maximum \<open>mx\<close>.\<close>

definition from_hex :: "nat \<Rightarrow> string \<Rightarrow> nat option" where
  "from_hex mx s =
     (let t = (case s of c # r \<Rightarrow> if c = CHR ''+'' then r else s | [] \<Rightarrow> [])
      in if t = [] then None
         else case hex_digits 0 t of
                Some v \<Rightarrow> if v \<le> mx then Some v else None
              | None \<Rightarrow> None)"

fun show_hex :: "nat \<Rightarrow> string" where
  "show_hex n = (if n < 16 then [hex_digit n] else show_hex (n div 16) @ [hex_digit (n mod 16)])"

declare show_hex.simps [simp del]

definition swap_bytes :: "u32 \<Rightarrow> u32" where
  "swap_bytes w = push_bit 24 (w AND 0xFF) OR push_bit 8 (w AND 0xFF00) OR (drop_bit 8 w AND 0xFF00) OR drop_bit 24 w"

text \<open>\<^verbatim>\<open>Ipv4Addr::from(u32)\<close>: the most significant byte first.\<close>

definition ipv4_from :: "u32 \<Rightarrow> ipv4" where
  "ipv4_from w = (ucast (drop_bit 24 w), ucast (drop_bit 16 w), ucast (drop_bit 8 w), ucast w)"

lemma ipv4_from_swapped: "ipv4_from (swap_bytes w) = (ucast w, ucast (drop_bit 8 w), ucast (drop_bit 16 w), ucast (drop_bit 24 w))"
proof -
  have m: "(0xFF :: u32) = mask 8" "(0xFF00 :: u32) = push_bit 8 (mask 8)"
    by (simp_all add: mask_eq_exp_minus_1 push_bit_eq_mult)
  show ?thesis
    unfolding ipv4_from_def swap_bytes_def m by (auto simp: bit_simps intro!: bit_word_eqI)
qed

text \<open>The printed form of an \<^verbatim>\<open>Ipv6Addr\<close>: a mapped IPv4 address in dotted form, and otherwise the
  groups in hexadecimal with the first longest run of at least two zero groups left out.
  \<open>zero_span i cur longest\<close> scans from group \<open>i\<close>; a span is its start and length.\<close>

fun zero_span :: "nat \<Rightarrow> nat \<times> nat \<Rightarrow> nat \<times> nat \<Rightarrow> u16 list \<Rightarrow> nat \<times> nat" where
  "zero_span i cur longest [] = longest"
| "zero_span i cur longest (g # gs) =
     (if g = 0
      then (let cur = (if snd cur = 0 then (i, 1) else (fst cur, Suc (snd cur)))
            in zero_span (Suc i) cur (if snd longest < snd cur then cur else longest) gs)
      else zero_span (Suc i) (0, 0) longest gs)"

definition show_groups :: "u16 list \<Rightarrow> string" where
  "show_groups gs = join '':'' (map (\<lambda>g. show_hex (unat g)) gs)"

definition to_ipv4_mapped :: "u16 list \<Rightarrow> ipv4 option" where
  "to_ipv4_mapped gs =
     (if take 5 gs = replicate 5 0 \<and> gs ! 5 = 0xFFFF
      then Some (ucast (drop_bit 8 (gs ! 6)), ucast (gs ! 6), ucast (drop_bit 8 (gs ! 7)), ucast (gs ! 7))
      else None)"

definition show_ipv6 :: "u16 list \<Rightarrow> string" where
  "show_ipv6 gs =
     (case to_ipv4_mapped gs of
        Some v4 \<Rightarrow> ''::ffff:'' @ show_ipv4 v4
      | None \<Rightarrow>
          (case zero_span 0 (0, 0) (0, 0) gs of
             (start, len) \<Rightarrow>
               if 1 < len then show_groups (take start gs) @ ''::'' @ show_groups (drop (start + len) gs)
               else show_groups gs))"

lemma show_ipv6_samples:
  "show_ipv6 [0, 0, 0, 0, 0, 0, 0, 0] = ''::''" "show_ipv6 [0, 0, 0, 0, 0, 0, 0, 1] = ''::1''"
  "show_ipv6 [0xFE80, 0, 0, 0, 0xABC, 0, 0, 1] = ''fe80::abc:0:0:1''"
  "show_ipv6 [0x2001, 0xDB8, 0, 1, 1, 1, 1, 1] = ''2001:db8:0:1:1:1:1:1''"
  "show_ipv6 [0, 0, 0, 0, 0, 0xFFFF, 0xA00, 1] = ''::ffff:10.0.0.1''"
  by code_simp+

end
