(* ===== verification/Net_App.thy ===== *)
theory Net_App
  imports Ip_Text Host_Call Netlink "HOL-Library.AList"
begin

text \<open>
  \<^verbatim>\<open>crates/hostinfo/src/net_app\<close>: the services that listen on the host, read from \<^verbatim>\<open>/proc\<close>, from the
  address translation rules and from the container runtime; the list of their ports that the
  kernel module gets, and the report of them for the server.

  The statics \<^verbatim>\<open>NETAPP_STATE\<close> and \<^verbatim>\<open>LAST_PORTS\<close> are the fields of \<open>ports_state\<close>. Directories, links and
  files of the host and the clock are parameters (record \<open>net_app_ext\<close>); texts are those of
  \<^verbatim>\<open>to_string_lossy\<close>. No operation panics while it holds \<^verbatim>\<open>NETAPP_STATE\<close>, so the lock is never
  poisoned.
\<close>

section \<open>State (model.rs)\<close>

record port_info =
  pi_time :: int
  pi_protocol :: string
  pi_local_ip :: string
  pi_local_port :: u16
  pi_remote_ip :: string
  pi_remote_port :: string
  pi_status :: string
  pi_pid :: int
  pi_process_path :: string

record 'w ports_state = "'w proc_state" +
  port_map :: "(u16 \<times> port_info) list"
  port_str_map :: "(string \<times> port_info) list"
  last_ports :: "u16 list"

definition ports_init :: "'w \<Rightarrow> 'w ports_state" where
  "ports_init w = \<lparr>fos = w, write_log = [], port_map = [], port_str_map = [], last_ports = []\<rparr>"

record 'w net_app_ext =
  na_now :: "'w \<Rightarrow> int"
  na_read_dir :: "string \<Rightarrow> 'w \<Rightarrow> string list option"
  na_read_link :: "string \<Rightarrow> 'w \<Rightarrow> string option"
  na_read_text :: "string \<Rightarrow> 'w \<Rightarrow> string option"

definition get_port_info :: "('w, 'z) ports_state_scheme \<Rightarrow> u16 \<Rightarrow> port_info option" where
  "get_port_info s port = map_of (port_map s) port"

text \<open>\<^verbatim>\<open>get_port_from_state\<close>: the lock can always be taken.\<close>

definition get_port_from_state :: "u16 \<Rightarrow> (('w, 'z) ports_state_scheme, port_info option) state" where
  "get_port_from_state port = gets (\<lambda>s. get_port_info s port)"

definition port_key :: "port_info \<Rightarrow> string" where
  "port_key info = pi_local_ip info @ '':'' @ show_word (pi_local_port info)"

definition add_port_info :: "u16 \<Rightarrow> port_info \<Rightarrow> (('w, 'z) ports_state_scheme, unit) state" where
  "add_port_info port info = modify (\<lambda>s. s\<lparr>port_map := AList.update port info (port_map s),
     port_str_map := AList.update (pi_local_ip info @ '':'' @ show_word port) info (port_str_map s)\<rparr>)"

definition clear_ports :: "(('w, 'z) ports_state_scheme, unit) state" where
  "clear_ports = modify (\<lambda>s. s\<lparr>port_map := [], port_str_map := []\<rparr>)"

section \<open>Addresses in /proc/net (utils.rs, parser_netstat.rs)\<close>

definition port_of_hex :: "string \<Rightarrow> string" where
  "port_of_hex port_hex = show_nat (opt_or 0 (from_hex 65535 port_hex))"

definition hex_to_ip_port :: "string \<Rightarrow> string \<times> string" where
  "hex_to_ip_port hex =
     (case split_char (CHR '':'') hex of
        [ip_raw, port_hex] \<Rightarrow>
          (show_ipv4 (ipv4_from (swap_bytes (of_nat (opt_or 0 (from_hex 4294967295 ip_raw))))), port_of_hex port_hex)
      | _ \<Rightarrow> (''0.0.0.0'', ''0''))"

definition proc_net_status_to_str :: "string \<Rightarrow> string" where
  "proc_net_status_to_str status_hex =
     (if status_hex = ''0A'' then ''LISTEN'' else if status_hex = ''01'' then ''ESTABLISHED'' else ''--'')"

text \<open>The characters of a text: a byte with the continuation bytes behind it.\<close>

definition continuation :: "char \<Rightarrow> bool" where
  "continuation c \<longleftrightarrow> 128 \<le> (of_char c :: nat) \<and> (of_char c :: nat) < 192"

fun utf8_chars :: "string \<Rightarrow> string list" where
  "utf8_chars [] = []"
| "utf8_chars (c # s) =
     (case utf8_chars s of
        [] \<Rightarrow> [[c]]
      | d # ds \<Rightarrow> if continuation (hd d) then (c # d) # ds else [c] # d # ds)"

function char_chunks :: "nat \<Rightarrow> 'a list \<Rightarrow> 'a list list" where
  "char_chunks n xs = (if n = 0 \<or> xs = [] then [] else take n xs # char_chunks n (drop n xs))"
  by pat_completeness auto
termination
  by (relation "measure (length \<circ> snd)") auto

declare char_chunks.simps [simp del]

text \<open>The two groups that eight hexadecimal digits give; none where they are no number.\<close>

definition chunk_groups :: "string \<Rightarrow> u16 list" where
  "chunk_groups chunk =
     (case from_hex 4294967295 chunk of
        None \<Rightarrow> [0, 0]
      | Some val \<Rightarrow> (let host_val = swap_bytes (of_nat val) in [ucast (drop_bit 16 host_val AND 0xFFFF), ucast (host_val AND 0xFFFF)]))"

definition hex_to_ipv6_port_compressed :: "string \<Rightarrow> string \<times> string" where
  "hex_to_ipv6_port_compressed hex =
     (case split_char (CHR '':'') hex of
        [ip_raw, port_hex] \<Rightarrow>
          if length ip_raw \<noteq> 32 then (''::'', ''0'')
          else (let segments = concat (map (chunk_groups \<circ> concat) (char_chunks 8 (utf8_chars ip_raw)))
                in (show_ipv6 (take 8 (segments @ replicate 8 0)), port_of_hex port_hex))
      | _ \<Rightarrow> (''::'', ''0''))"

section \<open>Processes behind sockets (parser_netstat.rs)\<close>

definition extract_socket_inode :: "string \<Rightarrow> nat option" where
  "extract_socket_inode target =
     (if starts_with ''socket:['' target \<and> ends_with '']'' target
      then parse_uint 4294967295 (takeWhile (\<lambda>c. c \<noteq> CHR '']'') (drop 8 target))
      else None)"

definition get_process_info :: "'w net_app_ext \<Rightarrow> int \<Rightarrow> 'w \<Rightarrow> string" where
  "get_process_info N pid w =
     (let dir = ''/proc/'' @ show_int pid in
      case na_read_link N (dir @ ''/exe'') w of
        Some path \<Rightarrow> path
      | None \<Rightarrow>
          (case filter (\<lambda>a. a \<noteq> []) (split_char (CHR 0x00) (opt_or [] (na_read_text N (dir @ ''/cmdline'') w))) of
             a # args \<Rightarrow> a
           | [] \<Rightarrow>
               (case na_read_text N (dir @ ''/comm'') w of
                  Some comm \<Rightarrow> ''[comm:'' @ trim comm @ '']''
                | None \<Rightarrow> ''[process:'' @ show_int pid @ '']'')))"

text \<open>The sockets of one process, and of all: a later insertion for an inode replaces an earlier
  one.\<close>

definition process_sockets :: "'w net_app_ext \<Rightarrow> 'w \<Rightarrow> string \<Rightarrow> (nat \<times> int \<times> string) list" where
  "process_sockets N w name =
     (case parse_i32 name of
        None \<Rightarrow> []
      | Some pid \<Rightarrow>
          (let fd_path = ''/proc/'' @ show_int pid @ ''/fd'' in
           List.map_filter (\<lambda>fd.
             Option.bind (na_read_link N (fd_path @ ''/'' @ fd) w) (\<lambda>target.
               map_option (\<lambda>inode. (inode, pid, get_process_info N pid w)) (extract_socket_inode target)))
             (opt_or [] (na_read_dir N fd_path w))))"

definition build_inode_to_pid_map :: "'w net_app_ext \<Rightarrow> 'w \<Rightarrow> (nat \<times> int \<times> string) list" where
  "build_inode_to_pid_map N w =
     fold (\<lambda>(k, v). AList.update k v)
       (concat (map (process_sockets N w) (opt_or [] (na_read_dir N ''/proc'' w)))) []"

section \<open>Listening sockets (parser_netstat.rs)\<close>

text \<open>What one line of \<^verbatim>\<open>/proc/net/tcp\<close> or \<^verbatim>\<open>/proc/net/tcp6\<close> gives; the two parsers differ in the
  reader of an address, the loopback address and the name of the protocol.\<close>

definition parse_line ::
  "(string \<Rightarrow> string \<times> string) \<Rightarrow> string \<Rightarrow> string \<Rightarrow> (nat \<times> int \<times> string) list \<Rightarrow> int \<Rightarrow> string \<Rightarrow> port_info option" where
  "parse_line addr loopback protocol inode_to_pid now line =
     (let cols = split_whitespace line in
      if length cols < 10 then None
      else let (local_ip, local_port) = addr (cols ! 1);
               (remote_ip, remote_port) = addr (cols ! 2);
               port = opt_or 0 (parse_uint 65535 local_port)
           in if local_ip = loopback \<and> 6000 \<le> port then None
              else if cols ! 3 \<noteq> ''0A'' then None
              else let inode = opt_or 0 (parse_uint 4294967295 (cols ! 9));
                       (pid, process_path) = opt_or (0, ''--'') (map_of inode_to_pid inode)
                   in Some \<lparr>pi_time = now, pi_protocol = protocol, pi_local_ip = local_ip, pi_local_port = of_nat port,
                            pi_remote_ip = remote_ip, pi_remote_port = remote_port,
                            pi_status = proc_net_status_to_str (cols ! 3), pi_pid = pid, pi_process_path = process_path\<rparr>)"

text \<open>An entry is kept in either map only when its key is new.\<close>

definition insert_new :: "'k \<Rightarrow> 'v \<Rightarrow> ('k \<times> 'v) list \<Rightarrow> ('k \<times> 'v) list" where
  "insert_new k v m = (if k \<in> fst ` set m then m else AList.update k v m)"

definition note_listener :: "port_info \<Rightarrow> ('w, 'z) ports_state_scheme \<Rightarrow> ('w, 'z) ports_state_scheme" where
  "note_listener info s =
     s\<lparr>port_map := insert_new (pi_local_port info) info (port_map s),
       port_str_map := insert_new (port_key info) info (port_str_map s)\<rparr>"

definition parse_proc_net_tcp ::
  "'w net_app_ext \<Rightarrow> string \<Rightarrow> (nat \<times> int \<times> string) list \<Rightarrow> int \<Rightarrow> (('w, 'z) ports_state_scheme, unit) state" where
  "parse_proc_net_tcp N file inode_to_pid now =
     modify (\<lambda>s. case na_read_text N file (fos s) of
         None \<Rightarrow> s
       | Some content \<Rightarrow>
           fold note_listener
             (List.map_filter (parse_line hex_to_ip_port ''127.0.0.1'' ''tcp'' inode_to_pid now) (drop 1 (str_lines content))) s)"

definition parse_proc_net_tcp6 ::
  "'w net_app_ext \<Rightarrow> string \<Rightarrow> (nat \<times> int \<times> string) list \<Rightarrow> int \<Rightarrow> (('w, 'z) ports_state_scheme, unit) state" where
  "parse_proc_net_tcp6 N file inode_to_pid now =
     modify (\<lambda>s. case na_read_text N file (fos s) of
         None \<Rightarrow> s
       | Some content \<Rightarrow>
           fold note_listener
             (List.map_filter (parse_line hex_to_ipv6_port_compressed ''::1'' ''tcp6'' inode_to_pid now) (drop 1 (str_lines content))) s)"

definition update_netstat_info :: "'w net_app_ext \<Rightarrow> (('w, 'z) ports_state_scheme, unit) state" where
  "update_netstat_info N = do {
     w \<leftarrow> gets fos;
     let now = na_now N w;
     clear_ports;
     let inode_to_pid = build_inode_to_pid_map N w;
     parse_proc_net_tcp N ''/proc/net/tcp'' inode_to_pid now;
     parse_proc_net_tcp6 N ''/proc/net/tcp6'' inode_to_pid now
   }"

section \<open>Translated and container ports (parser_dnat.rs, parser_docker.rs)\<close>

definition foreign_port :: "int \<Rightarrow> string \<Rightarrow> u16 \<Rightarrow> string \<Rightarrow> string \<Rightarrow> port_info" where
  "foreign_port now protocol port status path =
     \<lparr>pi_time = now, pi_protocol = protocol, pi_local_ip = ''0.0.0.0'', pi_local_port = port, pi_remote_ip = [],
      pi_remote_port = [], pi_status = status, pi_pid = 0, pi_process_path = path\<rparr>"

definition set_port :: "string \<times> port_info \<Rightarrow> ('w, 'z) ports_state_scheme \<Rightarrow> ('w, 'z) ports_state_scheme" where
  "set_port e s = s\<lparr>port_map := AList.update (pi_local_port (snd e)) (snd e) (port_map s),
     port_str_map := AList.update (fst e) (snd e) (port_str_map s)\<rparr>"

text \<open>The text behind the last colon.\<close>

definition after_last :: "char \<Rightarrow> string \<Rightarrow> string option" where
  "after_last c s = (if c \<in> set s then Some (rev (takeWhile (\<lambda>x. x \<noteq> c) (rev s))) else None)"

definition dnat_port :: "int \<Rightarrow> string \<Rightarrow> (string \<times> port_info) option" where
  "dnat_port now line =
     (let tokens = split_whitespace line in
      if length tokens < 11 then None
      else Option.bind (after_last (CHR '':'') (tokens ! 10)) (\<lambda>port_str.
             map_option (\<lambda>port. (port_str, foreign_port now (tokens ! 9) (of_nat port) ''--'' ''iptableDNAT''))
               (parse_uint 65535 port_str)))"

definition dnat_command :: string where
  "dnat_command = ''iptables -t nat -L -n -v | grep DNAT | grep tcp''"

definition update_dnat_info :: "'w net_app_ext \<Rightarrow> 'w sys_ext \<Rightarrow> (('w, 'z) ports_state_scheme, unit) state" where
  "update_dnat_info N X = do {
     out \<leftarrow> shell X dnat_command;
     case out of
       None \<Rightarrow> State_Monad.return ()
     | Some o' \<Rightarrow>
         if \<not> po_success o' then State_Monad.return ()
         else modify (\<lambda>s. fold set_port (List.map_filter (dnat_port (na_now N (fos s))) (str_lines (po_stdout o'))) s)
   }"

definition docker_port :: "int \<Rightarrow> string \<Rightarrow> (string \<times> port_info) option" where
  "docker_port now line =
     map_option (\<lambda>port. (show_nat port, foreign_port now ''tcp'' (of_nat port) ''LISTEN'' ''dockerBusinessPort''))
       (parse_uint 65535 (trim line))"

definition docker_ports_command :: string where
  "docker_ports_command =
     (let q = [CHR 0x27] in
      ''docker ps --format '' @ q @ ''{{.Ports}}'' @ q @ '' | awk -F '' @ q @ ''[ ,]+'' @ q @ '' '' @ q
        @ ''{for(i=1; i<=NF; i++) if($i ~ /^[0-9]+'' @ [CHR 0x5C] @ ''/tcp$/) print $i}'' @ q
        @ '' | awk -F '' @ q @ ''/'' @ q @ '' '' @ q @ ''{print $1}'' @ q)"

definition update_docker_info :: "'w net_app_ext \<Rightarrow> 'w sys_ext \<Rightarrow> (('w, 'z) ports_state_scheme, unit) state" where
  "update_docker_info N X = do {
     found \<leftarrow> shell X ''command -v docker'';
     if \<not> (case found of None \<Rightarrow> False | Some o' \<Rightarrow> po_success o') then State_Monad.return ()
     else do {
       out \<leftarrow> shell X docker_ports_command;
       case out of
         None \<Rightarrow> State_Monad.return ()
       | Some o' \<Rightarrow> modify (\<lambda>s. fold set_port (List.map_filter (docker_port (na_now N (fos s))) (str_lines (po_stdout o'))) s)
     }
   }"

text \<open>The three updates that \<^verbatim>\<open>NetAppHandler\<close> (handler.rs) runs when it is made and at each message.\<close>

definition net_app_refresh :: "'w net_app_ext \<Rightarrow> 'w sys_ext \<Rightarrow> (('w, 'z) ports_state_scheme, unit) state" where
  "net_app_refresh N X = do { update_netstat_info N; update_dnat_info N X; update_docker_info N X }"

definition get_net_app_handler ::
  "'w net_app_ext \<Rightarrow> 'w sys_ext \<Rightarrow> u8 list \<Rightarrow> u32 \<Rightarrow> (('w, 'z) ports_state_scheme, unit res) state" where
  "get_net_app_handler N X data data_len = do { net_app_refresh N X; State_Monad.return (Inr ()) }"

section \<open>Telling the kernel and the server (model.rs)\<close>

definition business_ports_path :: string where "business_ports_path = ''/proc/osec/business_ports''"

definition ports_text :: "u16 list \<Rightarrow> string" where
  "ports_text ports = join '','' (map (\<lambda>p. show_word p) ports)"

text \<open>The sorted ports. \<^verbatim>\<open>write!\<close> of an empty text makes no system call, so that nothing is written
  then.\<close>

definition current_ports :: "('w, 'z) ports_state_scheme \<Rightarrow> u16 list" where
  "current_ports s = sorted_list_of_set (fst ` set (port_map s))"

definition write_text :: "'w file_ext \<Rightarrow> string \<Rightarrow> string \<Rightarrow> (('w, 'z) proc_state_scheme, unit res) state" where
  "write_text F path text = (if text = [] then State_Monad.return (Inr ()) else write_all F path text)"

definition write_business_ports_to_proc :: "'w file_ext \<Rightarrow> (('w, 'z) ports_state_scheme, unit) state" where
  "write_business_ports_to_proc F = do {
     ports \<leftarrow> gets current_ports;
     last \<leftarrow> gets last_ports;
     if last = ports then State_Monad.return ()
     else do {
       r \<leftarrow> open_write F business_ports_path;
       case r of
         Inl _ \<Rightarrow> State_Monad.return ()
       | Inr _ \<Rightarrow> do {
           r \<leftarrow> write_text F business_ports_path (ports_text ports);
           case r of
             Inl _ \<Rightarrow> State_Monad.return ()
           | Inr _ \<Rightarrow> modify (\<lambda>s. s\<lparr>last_ports := ports\<rparr>)
         }
     }
   }"

definition port_json :: "port_info \<Rightarrow> json" where
  "port_json info = JObj [(''type'', JStr (pi_protocol info)), (''ip'', JStr (pi_local_ip info)),
     (''port'', JStr (show_word (pi_local_port info))), (''process'', JStr (pi_process_path info))]"

definition ports_to_json ::
  "(json \<Rightarrow> string) \<Rightarrow> ((string \<times> port_info) list \<Rightarrow> (string \<times> port_info) list) \<Rightarrow> ('w, 'z) ports_state_scheme \<Rightarrow> string res" where
  "ports_to_json print h s =
     (let service_data = map (port_json \<circ> snd) (visit h (port_str_map s)) in
      if service_data = [] then Inl ''No valid port entries''
      else Inr (print (JObj [(''service'', JStr (print (JArr service_data)))])))"

section \<open>The map of ports\<close>

lemma hex_samples:
  "hex_to_ip_port ''0100007F:1F90'' = (''127.0.0.1'', ''8080'')"
  "hex_to_ipv6_port_compressed ''00000000000000000000000001000000:0050'' = (''::1'', ''80'')"
  "extract_socket_inode ''socket:[1234]'' = Some 1234"
  by code_simp+

text \<open>Reference: the listening sockets in the order of the two files.\<close>

definition file_listeners :: "'w net_app_ext \<Rightarrow> 'w \<Rightarrow> (string \<Rightarrow> string \<times> string) \<Rightarrow> string \<Rightarrow> string \<Rightarrow> string \<Rightarrow> port_info list" where
  "file_listeners N w addr loopback protocol file =
     (case na_read_text N file w of
        None \<Rightarrow> []
      | Some content \<Rightarrow> List.map_filter (parse_line addr loopback protocol (build_inode_to_pid_map N w) (na_now N w))
                          (drop 1 (str_lines content)))"

definition listeners :: "'w net_app_ext \<Rightarrow> 'w \<Rightarrow> port_info list" where
  "listeners N w = file_listeners N w hex_to_ip_port ''127.0.0.1'' ''tcp'' ''/proc/net/tcp''
     @ file_listeners N w hex_to_ipv6_port_compressed ''::1'' ''tcp6'' ''/proc/net/tcp6''"

definition by_port :: "port_info list \<Rightarrow> (u16 \<times> port_info) list" where
  "by_port is = map (\<lambda>i. (pi_local_port i, i)) is"

lemma map_of_insert_new: "map_of (insert_new k v m) = map_of (m @ [(k, v)])"
proof (cases "k \<in> fst ` set m")
  case True
  then have "map_of m k \<noteq> None" by (simp add: map_of_eq_None_iff)
  with True show ?thesis by (auto simp: insert_new_def map_add_def fun_eq_iff split: option.splits)
next
  case False
  then have "map_of m k = None" by (simp add: map_of_eq_None_iff)
  with False show ?thesis by (auto simp: insert_new_def update_conv map_add_def fun_eq_iff split: option.splits)
qed

lemma map_of_add_cong: "map_of m = map_of m' \<Longrightarrow> map_of (m @ xs) = map_of (m' @ xs)"
  by (simp add: map_of_append)

lemma note_listener_fields [simp]:
  "port_map (note_listener i s) = insert_new (pi_local_port i) i (port_map s)"
  "port_str_map (note_listener i s) = insert_new (port_key i) i (port_str_map s)"
  "fos (note_listener i s) = fos s" "write_log (note_listener i s) = write_log s" "last_ports (note_listener i s) = last_ports s"
  by (simp_all add: note_listener_def)

lemma set_port_fields [simp]:
  "port_map (set_port e s) = AList.update (pi_local_port (snd e)) (snd e) (port_map s)"
  "fos (set_port e s) = fos s" "write_log (set_port e s) = write_log s" "last_ports (set_port e s) = last_ports s"
  by (simp_all add: set_port_def)

lemma fold_note_listener:
  "map_of (port_map (fold note_listener is s)) = map_of (port_map s @ by_port is)"
  "map_of (port_str_map (fold note_listener is s)) = map_of (port_str_map s @ map (\<lambda>i. (port_key i, i)) is)"
  by (induction "is" arbitrary: s) (simp_all add: by_port_def map_of_insert_new)

lemma fold_note_listener_rest [simp]:
  "fos (fold note_listener is s) = fos s" "write_log (fold note_listener is s) = write_log s"
  "last_ports (fold note_listener is s) = last_ports s"
  by (induction "is" arbitrary: s) simp_all

lemma fold_set_port:
  "map_of (port_map (fold set_port es s)) = map_of (port_map s) ++ map_of (rev (by_port (map snd es)))"
  by (induction es arbitrary: s) (simp_all add: by_port_def update_conv')

lemma fold_set_port_rest [simp]:
  "fos (fold set_port es s) = fos s" "write_log (fold set_port es s) = write_log s"
  "last_ports (fold set_port es s) = last_ports s"
  by (induction es arbitrary: s) simp_all

lemma netstat_run:
  "\<exists>t. run_state (update_netstat_info N) s = ((), t) \<and> map_of (port_map t) = map_of (by_port (listeners N (fos s)))
     \<and> map_of (port_str_map t) = map_of (map (\<lambda>i. (port_key i, i)) (listeners N (fos s)))
     \<and> fos t = fos s \<and> write_log t = write_log s \<and> last_ports t = last_ports s"
  by (auto simp: update_netstat_info_def clear_ports_def Let_def parse_proc_net_tcp_def parse_proc_net_tcp6_def
      fold_note_listener listeners_def file_listeners_def by_port_def split: option.splits)

text \<open>Reference for the other two sources, in terms of the lines that name a port: a line of the
  translation rules has at least eleven words, and the part behind the last colon of the eleventh is
  the number; a line of the container runtime is the number.\<close>

definition dnat_names :: "u16 \<Rightarrow> string \<Rightarrow> bool" where
  "dnat_names p line \<longleftrightarrow>
     (let ts = split_whitespace line; parts = split_char (CHR '':'') (ts ! 10) in
      11 \<le> length ts \<and> 2 \<le> length parts \<and> parse_uint 65535 (last parts) = Some (unat p))"

definition docker_names :: "u16 \<Rightarrow> string \<Rightarrow> bool" where
  "docker_names p line \<longleftrightarrow> parse_uint 65535 (trim line) = Some (unat p)"

definition port_reference :: "port_info list \<Rightarrow> int \<Rightarrow> string list \<Rightarrow> int \<Rightarrow> string list \<Rightarrow> u16 \<Rightarrow> port_info option" where
  "port_reference sockets now1 rules now2 containers p =
     (case find (docker_names p) (rev containers) of
        Some line \<Rightarrow> Some (foreign_port now2 ''tcp'' p ''LISTEN'' ''dockerBusinessPort'')
      | None \<Rightarrow>
          (case find (dnat_names p) (rev rules) of
             Some line \<Rightarrow> Some (foreign_port now1 (split_whitespace line ! 9) p ''--'' ''iptableDNAT'')
           | None \<Rightarrow> find (\<lambda>i. pi_local_port i = p) sockets))"

text \<open>The lines of a command: none when it cannot be run, or when its failure is looked at.\<close>

definition told_lines :: "(proc_output \<Rightarrow> bool) \<Rightarrow> proc_output res \<Rightarrow> string list" where
  "told_lines ok r = (case r of Inl _ \<Rightarrow> [] | Inr out \<Rightarrow> if ok out then str_lines (po_stdout out) else [])"

lemma after_last_split: "after_last c s = (if 2 \<le> length (split_char c s) then Some (last (split_char c s)) else None)"
proof (cases "c \<in> set s")
  case False
  then show ?thesis by (simp add: after_last_def)
next
  case True
  then obtain a b where s: "s = a @ c # b" "c \<notin> set b" by (metis split_list_last)
  have "\<exists>xs. split_char c (a @ c # b) = xs @ [b] \<and> xs \<noteq> []" for a
  proof (induction a)
    case Nil
    from s(2) show ?case by simp
  next
    case (Cons x a)
    then obtain xs where "split_char c (a @ c # b) = xs @ [b]" "xs \<noteq> []" by blast
    then show ?case by (cases xs) (auto intro: exI [of _ "[] # xs"])
  qed
  then obtain xs where "split_char c s = xs @ [b]" "xs \<noteq> []" using s(1) by blast
  moreover have "takeWhile (\<lambda>x. x \<noteq> c) (rev b @ c # rev a) = rev b" using s(2) by (subst takeWhile_append2) auto
  then have "after_last c s = Some b" using s by (simp add: after_last_def)
  moreover have "2 \<le> length (xs @ [b])" using \<open>xs \<noteq> []\<close> by (cases xs) simp_all
  ultimately show ?thesis by simp
qed

lemma word_port: "n \<le> 65535 \<Longrightarrow> (of_nat n :: u16) = p \<longleftrightarrow> n = unat p"
  by (auto simp: unat_of_nat take_bit_nat_eq_self)

lemma map_of_by_port: "map_of (by_port xs) p = find (\<lambda>i. pi_local_port i = p) xs"
  by (induction xs) (auto simp: by_port_def)

lemma find_docker:
  "find (\<lambda>i. pi_local_port i = p) (map snd (List.map_filter (docker_port now) ls))
     = map_option (\<lambda>line. foreign_port now ''tcp'' p ''LISTEN'' ''dockerBusinessPort'') (find (docker_names p) ls)"
proof (induction ls)
  case (Cons l ls)
  then show ?case
    using word_port parse_uint_bound [of 65535 "trim l"]
    by (cases "parse_uint 65535 (trim l)") (auto simp: map_filter_simps docker_port_def docker_names_def foreign_port_def)
qed (simp add: map_filter_simps)

lemma find_dnat:
  "find (\<lambda>i. pi_local_port i = p) (map snd (List.map_filter (dnat_port now) ls))
     = map_option (\<lambda>line. foreign_port now (split_whitespace line ! 9) p ''--'' ''iptableDNAT'') (find (dnat_names p) ls)"
proof (induction ls)
  case (Cons l ls)
  let ?parts = "split_char (CHR '':'') (split_whitespace l ! 10)"
  show ?case
    using word_port parse_uint_bound [of 65535 "last ?parts"] Cons
    by (cases "parse_uint 65535 (last ?parts)")
      (auto simp: map_filter_simps dnat_port_def dnat_names_def foreign_port_def after_last_split Let_def)
qed (simp add: map_filter_simps)

lemma rev_map_filter: "rev (List.map_filter f xs) = List.map_filter f (rev xs)"
  by (simp add: List.map_filter_def rev_map rev_filter)

lemma rev_by_port: "rev (by_port (map snd (List.map_filter f ls))) = by_port (map snd (List.map_filter f (rev ls)))"
  by (simp add: by_port_def rev_map rev_map_filter)

text \<open>C15: what a port is reported as. After a refresh the map holds for a port the entry of the last
  line of the container runtime that names it, else that of the last rule that translates it, else
  the first listening socket in the order of \<^verbatim>\<open>/proc/net/tcp\<close> and \<^verbatim>\<open>/proc/net/tcp6\<close>; ports that no
  source names are gone. The rules are none when the command for them fails, which \<^verbatim>\<open>grep\<close> does when
  there are none; the containers are none when \<^verbatim>\<open>docker\<close> is not found or its command cannot be run.
  A line of the two files of sockets is read by \<^verbatim>\<open>parse_line\<close> on both sides.\<close>

theorem ports_after_refresh:
  assumes "x_output X ''sh'' [''-c'', dnat_command] (fos s) = (dnat, w1)"
    and "x_output X ''sh'' [''-c'', ''command -v docker''] w1 = (found, w2)"
    and "x_output X ''sh'' [''-c'', docker_ports_command] w2 = (docker, w3)"
  shows "map_of (port_map (snd (run_state (net_app_refresh N X) s))) p =
      port_reference (listeners N (fos s)) (na_now N w1) (told_lines po_success dnat) (na_now N w3)
        (if (case found of Inl _ \<Rightarrow> False | Inr out \<Rightarrow> po_success out) then told_lines (\<lambda>_. True) docker else []) p"
proof -
  obtain t where t: "run_state (update_netstat_info N) s = ((), t)"
    "map_of (port_map t) = map_of (by_port (listeners N (fos s)))" "fos t = fos s"
    using netstat_run [of N s] by blast
  define rules where "rules = told_lines po_success dnat"
  define containers where "containers = (if (case found of Inl _ \<Rightarrow> False | Inr out \<Rightarrow> po_success out) then told_lines (\<lambda>_. True) docker else [])"
  have "map_of (port_map (snd (run_state (net_app_refresh N X) s))) =
      map_of (by_port (listeners N (fos s)))
      ++ map_of (rev (by_port (map snd (List.map_filter (dnat_port (na_now N w1)) rules))))
      ++ map_of (rev (by_port (map snd (List.map_filter (docker_port (na_now N w3)) containers))))"
    using assms t
    by (auto simp: net_app_refresh_def update_dnat_info_def update_docker_info_def shell_def fold_set_port told_lines_def
        rules_def containers_def by_port_def map_filter_simps split: sum.splits)
  then show ?thesis
    by (simp add: rev_by_port map_of_by_port find_docker find_dnat port_reference_def map_add_def
        rules_def [symmetric] containers_def [symmetric] split: option.splits)
qed

definition lab_net_app :: "unit net_app_ext" where
  "lab_net_app = \<lparr>na_now = (\<lambda>w. 7), na_read_dir = (\<lambda>p w. if p = ''/proc'' then Some [''12'', ''self''] else if p = ''/proc/12/fd'' then Some [''3''] else None),
     na_read_link = (\<lambda>p w. if p = ''/proc/12/fd/3'' then Some ''socket:[99]'' else if p = ''/proc/12/exe'' then Some ''/usr/sbin/sshd'' else None),
     na_read_text = (\<lambda>p w. if p = ''/proc/net/tcp'' then Some (''head'' @ [nl] @ ''0: 00000000:0016 00000000:0000 0A 0 0 0 0 0 99'' @ [nl]) else None)\<rparr>"

definition lab_shell :: "unit sys_ext" where
  "lab_shell = \<lparr>x_output = (\<lambda>c a w. (Inr \<lparr>po_success = True, po_stdout = if a = [''-c'', docker_ports_command] then ''8080'' @ [nl] else [], po_stderr = []\<rparr>, w)),
     x_status = (\<lambda>c a w. (Inl [], w)), x_captures = (\<lambda>r s. None), x_ipv4net = (\<lambda>s. Inl []), x_net_contains = (\<lambda>n i. False),
     x_read_file = (\<lambda>p w. Inl [])\<rparr>"

theorem ports_after_refresh_witness:
  "map_option pi_process_path (map_of (port_map (snd (run_state (net_app_refresh lab_net_app lab_shell) (ports_init ())))) 22) = Some ''/usr/sbin/sshd''
   \<and> map_option pi_process_path (map_of (port_map (snd (run_state (net_app_refresh lab_net_app lab_shell) (ports_init ())))) 8080) = Some ''dockerBusinessPort''"
proof -
  let ?out = "\<lambda>t. \<lparr>po_success = True, po_stdout = t, po_stderr = []\<rparr>"
  have n: "dnat_command \<noteq> docker_ports_command" "''command -v docker'' \<noteq> docker_ports_command" by code_simp+
  have r: "map_of (port_map (snd (run_state (net_app_refresh lab_net_app lab_shell) (ports_init ())))) p =
      port_reference (listeners lab_net_app (fos (ports_init ()))) (na_now lab_net_app ()) (told_lines po_success (Inr (?out []))) (na_now lab_net_app ())
        (if (case (Inr (?out []) :: proc_output res) of Inl _ \<Rightarrow> False | Inr out \<Rightarrow> po_success out) then told_lines (\<lambda>_. True) (Inr (?out (''8080'' @ [nl]))) else []) p" for p
    by (rule ports_after_refresh) (simp_all add: lab_shell_def n)
  show ?thesis unfolding r by code_simp
qed

section \<open>The ports of the kernel\<close>

definition last_text :: "string \<Rightarrow> (string \<times> string) list \<Rightarrow> string option" where
  "last_text path log = (let es = filter (\<lambda>e. fst e = path) log in if es = [] then None else Some (snd (last es)))"

lemma last_text_snoc: "last_text path (log @ [(p, c)]) = (if p = path then Some c else last_text path log)"
  by (simp add: last_text_def)

text \<open>The reader of the text on the other side: the numbers between the commas.\<close>

lemma ports_text_read: "ports \<noteq> [] \<Longrightarrow> map (parse_uint 65535) (split_char (CHR '','') (ports_text ports)) = map (\<lambda>p. Some (unat p)) ports"
proof -
  assume p: "ports \<noteq> []"
  have b: "unat p \<le> 65535" for p :: u16 using unsigned_less [of p, where 'a = nat] by simp
  have "split_char (CHR '','') (ports_text ports) = map (\<lambda>p. show_word p) ports"
    unfolding ports_text_def using p by (intro split_char_join) auto
  then show ?thesis by (simp add: parse_uint_show_nat b)
qed

inductive ports_reach :: "'w net_app_ext \<Rightarrow> 'w sys_ext \<Rightarrow> 'w file_ext \<Rightarrow> 'w ports_state \<Rightarrow> bool" for N X F where
  start: "ports_reach N X F (ports_init w)"
| host: "ports_reach N X F s \<Longrightarrow> ports_reach N X F (s\<lparr>fos := w\<rparr>)"
| other: "ports_reach N X F s \<Longrightarrow> p \<noteq> business_ports_path \<Longrightarrow> ports_reach N X F (s\<lparr>write_log := write_log s @ [(p, c)]\<rparr>)"
| refresh: "ports_reach N X F s \<Longrightarrow> ports_reach N X F (snd (run_state (net_app_refresh N X) s))"
| tell: "ports_reach N X F s \<Longrightarrow> ports_reach N X F (snd (run_state (write_business_ports_to_proc F) s))"

definition ports_told :: "('w, 'z) ports_state_scheme \<Rightarrow> bool" where
  "ports_told s \<longleftrightarrow> (last_ports s \<noteq> [] \<longrightarrow> last_text business_ports_path (write_log s) = Some (ports_text (last_ports s)))"

lemma refresh_keeps_told: "write_log (snd (run_state (net_app_refresh N X) s)) = write_log s \<and> last_ports (snd (run_state (net_app_refresh N X) s)) = last_ports s"
proof -
  obtain t where t: "run_state (update_netstat_info N) s = ((), t)" "write_log t = write_log s" "last_ports t = last_ports s"
    using netstat_run [of N s] by blast
  show ?thesis
    using t by (auto simp: net_app_refresh_def update_dnat_info_def update_docker_info_def shell_def split: prod.splits sum.splits option.splits)
qed

lemma ports_text_empty [simp]: "ports_text ports = [] \<longleftrightarrow> ports = []"
  by (cases ports rule: list.exhaust, simp add: ports_text_def) (cases "tl ports", auto simp: ports_text_def)

lemma write_ports_run:
  assumes "files_ok F" and "ports_told s" and "run_state (write_business_ports_to_proc F) s = (r, t)"
  shows "ports_told t" and "last_ports t = current_ports t" and "port_map t = port_map s"
proof -
  have o: "fst (fx_open F p w) = Inr ()" "fst (fx_write F p c w) = Inr ()" for p c w
    using assms(1) by (auto simp: files_ok_def)
  have "ports_told t \<and> last_ports t = current_ports t \<and> port_map t = port_map s"
  proof (cases "last_ports s = current_ports s")
    case True
    with assms(2,3) show ?thesis by (simp add: write_business_ports_to_proc_def)
  next
    case False
    obtain w1 where w1: "fx_open F business_ports_path (fos s) = (Inr (), w1)" using o(1) by (metis prod.collapse)
    obtain w2 where w2: "fx_write F business_ports_path (ports_text (current_ports s)) w1 = (Inr (), w2)"
      using o(2) by (metis prod.collapse)
    have c: "current_ports (s\<lparr>fos := a, write_log := b, last_ports := d\<rparr>) = current_ports s"
      "current_ports (s\<lparr>fos := a, last_ports := d\<rparr>) = current_ports s" for a b d
      by (simp_all add: current_ports_def)
    show ?thesis
      using False w1 w2 assms(3)
      by (auto simp: write_business_ports_to_proc_def open_write_def write_text_def write_all_def ports_told_def last_text_snoc c split: if_splits)
  qed
  then show "ports_told t" "last_ports t = current_ports t" "port_map t = port_map s" by blast+
qed

lemma reach_ports_told:
  assumes "files_ok F"
  shows "ports_reach N X F s \<Longrightarrow> ports_told s"
proof (induction rule: ports_reach.induct)
  case (tell s)
  from write_ports_run(1) [OF assms tell.IH] show ?case by (metis prod.collapse)
qed (simp_all add: ports_told_def ports_init_def last_text_snoc refresh_keeps_told)

text \<open>C16: the kernel module knows the ports. While its file accepts writes, after any refreshes and
  writes, telling it the ports leaves the file with a text that reads as the sorted list of exactly
  the ports of the map, provided there is one.\<close>

theorem business_ports_follow:
  assumes "files_ok F" and "ports_reach N X F s" and "run_state (write_business_ports_to_proc F) s = (r, t)"
    and "port_map s \<noteq> []"
  shows "\<exists>text. last_text business_ports_path (write_log t) = Some text
      \<and> map (parse_uint 65535) (split_char (CHR '','') text) = map (\<lambda>p. Some (unat p)) (sorted_list_of_set (dom (map_of (port_map t))))"
proof -
  note run = write_ports_run [OF assms(1) reach_ports_told [OF assms(1,2)] assms(3)]
  have "current_ports t \<noteq> []" using run(3) assms(4) by (simp add: current_ports_def)
  moreover have "dom (map_of (port_map t)) = fst ` set (port_map t)" by (simp add: dom_map_of_conv_image_fst)
  ultimately show ?thesis
    using run(1,2) ports_text_read [of "current_ports t"] by (simp add: ports_told_def) (simp add: current_ports_def)
qed

theorem business_ports_follow_witness:
  "\<exists>text. last_text business_ports_path (write_log (snd (run_state (write_business_ports_to_proc free_files)
       (snd (run_state (net_app_refresh lab_net_app lab_shell) (ports_init ())))))) = Some text
     \<and> map (parse_uint 65535) (split_char (CHR '','') text) = [Some 22, Some 8080]"
proof -
  let ?s = "snd (run_state (net_app_refresh lab_net_app lab_shell) (ports_init ()))"
  have "ports_reach lab_net_app lab_shell free_files ?s" by (intro ports_reach.refresh ports_reach.start)
  moreover have "map fst (port_map ?s) = [22, 8080]" by code_simp
  moreover have m: "port_map (snd (run_state (write_business_ports_to_proc free_files) ?s)) = port_map ?s"
    using write_ports_run(3) [OF free_files_ok reach_ports_told [OF free_files_ok calculation(1)]] by (metis prod.collapse)
  moreover have "dom (map_of (port_map ?s)) = {22, 8080}"
    using calculation(2) by (metis dom_map_of_conv_image_fst empty_set list.set_map list.simps(15))
  moreover have "sorted_list_of_set {22, 8080 :: u16} = [22, 8080]" by simp
  ultimately show ?thesis
    using business_ports_follow [OF free_files_ok, of lab_net_app lab_shell ?s, OF _ prod.collapse [symmetric]] by fastforce
qed

text \<open>When the last port is gone nothing is written, and the kernel module keeps the old ones.\<close>

lemma vanished_ports_stay:
  assumes "files_ok F" and "port_map s = []" and "last_ports s \<noteq> []"
  shows "write_log (snd (run_state (write_business_ports_to_proc F) s)) = write_log s
     \<and> last_ports (snd (run_state (write_business_ports_to_proc F) s)) = []"
proof -
  obtain w where "fx_open F business_ports_path (fos s) = (Inr (), w)"
    using assms(1) unfolding files_ok_def by (metis prod.collapse)
  with assms(2,3) show ?thesis
    by (simp add: write_business_ports_to_proc_def current_ports_def open_write_def write_text_def)
qed

end
