(* ===== verification/Docker.thy ===== *)
theory Docker
  imports Netlink Host_Call
begin

text \<open>
  \<^verbatim>\<open>crates/docker/src/monitor.rs\<close>: the monitor of container processes. It finds the shim processes
  of the container runtime with \<^verbatim>\<open>ps\<close>, compares them with those it saw last, and writes the
  differences to \<^verbatim>\<open>/proc/osec/docker_rt\<close>, so that the kernel module knows which processes belong to
  containers.

  The statics of the crate are the fields of \<open>docker_state\<close>; the errors of this crate end in the log
  and are \<open>None\<close>. The tick of the monitor and the messages of the kernel are handled by different
  tasks: an update releases the lock of the processes before it looks for leftovers, and the scan
  before it runs without the lock, so \<open>docker_reach\<close> cuts the operations into their scan, the
  single writes under the lock, the reading of the kernel's list and the single writes without the
  lock.
\<close>

section \<open>State\<close>

record docker_shim =
  ds_pid :: int
  ds_kind :: nat

datatype docker_action = ActAdd | ActRemove

fun as_flag :: "docker_action \<Rightarrow> nat" where
  "as_flag ActAdd = 1"
| "as_flag ActRemove = 0"

record 'w docker_state = "'w proc_state" +
  last_processes :: "docker_shim list"
  detected_command :: "(string \<times> nat) option"
  last_root_pid :: int
  is_version_2 :: bool
  docker_version :: nat

definition docker_init :: "'w \<Rightarrow> 'w docker_state" where
  "docker_init w = \<lparr>fos = w, write_log = [], last_processes = [], detected_command = None, last_root_pid = 0,
     is_version_2 = False, docker_version = 0\<rparr>"

definition PROC_OSEC_DOCKER_RT :: string where "PROC_OSEC_DOCKER_RT = ''/proc/osec/docker_rt''"

definition quoted :: "string \<Rightarrow> string" where "quoted s = [CHR 0x27] @ s @ [CHR 0x27]"

definition print_cols :: string where "print_cols = '' | grep -v grep | awk '' @ quoted ''{print $1,$2}''"

definition DETECTION_COMMANDS :: "string list" where
  "DETECTION_COMMANDS =
     [''ps -e -o pid,ppid,cmd | grep '' @ quoted ''docker-containerd-shim-current'' @ print_cols,
      ''ps -e -o pid,ppid,cmd | grep '' @ quoted ''containerd-shim'' @ '' | grep '' @ quoted ''namespace'' @ print_cols,
      ''ps -e -o pid,ppid,cmd | grep -E '' @ quoted ''[c]onmon'' @ '' | grep -- '' @ quoted ''--api-version'' @ print_cols]"

section \<open>Finding the processes\<close>

definition pid_pair :: "string \<Rightarrow> (int \<times> int) option" where
  "pid_pair line =
     (case split_whitespace (trim line) of
        p # q # _ \<Rightarrow> (case (parse_i32 p, parse_i32 q) of (Some pid, Some ppid) \<Rightarrow> Some (pid, ppid) | _ \<Rightarrow> None)
      | _ \<Rightarrow> None)"

definition exec_shell :: "'w sys_ext \<Rightarrow> string \<Rightarrow> (('w, 'z) docker_state_scheme, (int \<times> int) list option) state" where
  "exec_shell X command = do {
     out \<leftarrow> shell X command;
     State_Monad.return
       (case out of
          None \<Rightarrow> None
        | Some o' \<Rightarrow> if \<not> po_success o' then None else Some (List.map_filter pid_pair (str_lines (po_stdout o'))))
   }"

fun detect_from :: "'w sys_ext \<Rightarrow> nat \<Rightarrow> string list \<Rightarrow> (('w, 'z) docker_state_scheme, (string \<times> nat) option) state" where
  "detect_from X i [] = State_Monad.return None"
| "detect_from X i (cmd # cmds) = do {
     r \<leftarrow> exec_shell X cmd;
     case r of
       Some (e # es) \<Rightarrow> State_Monad.return (Some (cmd, i))
     | _ \<Rightarrow> detect_from X (Suc i) cmds
   }"

definition detect_valid_command :: "'w sys_ext \<Rightarrow> (('w, 'z) docker_state_scheme, (string \<times> nat) option) state" where
  "detect_valid_command X = detect_from X 0 DETECTION_COMMANDS"

definition current_command :: "'w sys_ext \<Rightarrow> (('w, 'z) docker_state_scheme, (string \<times> nat) option) state" where
  "current_command X = do {
     detected \<leftarrow> gets detected_command;
     case detected of
       Some cmd \<Rightarrow> State_Monad.return (Some cmd)
     | None \<Rightarrow> do {
         cmd \<leftarrow> detect_valid_command X;
         (case cmd of None \<Rightarrow> State_Monad.return () | Some _ \<Rightarrow> modify (\<lambda>s. s\<lparr>detected_command := cmd\<rparr>));
         State_Monad.return cmd
       }
   }"

text \<open>What the output of the command means: with the first command the common parent stands for all
  containers, with the others each process is a container; processes with different parents are
  left out.\<close>

definition shims_of :: "nat \<Rightarrow> (int \<times> int) list \<Rightarrow> docker_shim list" where
  "shims_of index entries =
     (let ppids = map snd entries in
      if ppids = [] \<or> \<not> list_all (\<lambda>p. p = hd ppids) ppids then []
      else if index = 0 then (if 10 < hd ppids then [\<lparr>ds_pid = hd ppids, ds_kind = 1\<rparr>] else [])
      else if index = 1 \<or> index = 2 then map (\<lambda>e. \<lparr>ds_pid = fst e, ds_kind = 2\<rparr>) entries
      else [])"

text \<open>\<open>held\<close> tells that the caller holds the lock of \<^verbatim>\<open>DOCKER_VERSION\<close>, in which case \<^verbatim>\<open>try_lock\<close>
  fails and the version stays.\<close>

definition note_version :: "bool \<Rightarrow> docker_shim list \<Rightarrow> ('w, 'z) docker_state_scheme \<Rightarrow> ('w, 'z) docker_state_scheme" where
  "note_version held ps s =
     (let s = (if held \<or> ps = [] then s else s\<lparr>docker_version := ds_kind (hd ps)\<rparr>)
      in if list_ex (\<lambda>p. ds_kind p = 2) ps then s\<lparr>is_version_2 := True\<rparr> else s)"

definition scan_docker_processes :: "'w sys_ext \<Rightarrow> bool \<Rightarrow> (('w, 'z) docker_state_scheme, docker_shim list option) state" where
  "scan_docker_processes X held = do {
     cmd \<leftarrow> current_command X;
     case cmd of
       None \<Rightarrow> State_Monad.return None
     | Some (command, index) \<Rightarrow> do {
         r \<leftarrow> exec_shell X command;
         case r of
           None \<Rightarrow> State_Monad.return None
         | Some entries \<Rightarrow>
             if entries = [] then State_Monad.return (Some [])
             else do {
               let processes = shims_of index entries;
               modify (note_version held processes);
               State_Monad.return (Some processes)
             }
       }
   }"

section \<open>Telling the kernel\<close>

definition rt_line :: "nat \<Rightarrow> docker_action \<Rightarrow> int \<Rightarrow> string" where
  "rt_line kind action pid =
     (if kind = 4 \<and> action = ActRemove \<and> pid = 0 then ''4,0,0'' @ [nl]
      else show_nat kind @ '','' @ show_nat (as_flag action) @ '','' @ show_int pid @ [nl])"

definition write_rt :: "'w file_ext \<Rightarrow> string \<Rightarrow> (('w, 'z) docker_state_scheme, unit) state" where
  "write_rt F line = do {
     _ \<leftarrow> tryE (open_write F PROC_OSEC_DOCKER_RT) (\<lambda>_. write_all F PROC_OSEC_DOCKER_RT line);
     State_Monad.return ()
   }"

definition emit_event :: "'w file_ext \<Rightarrow> nat \<Rightarrow> docker_action \<Rightarrow> int \<Rightarrow> (('w, 'z) docker_state_scheme, unit) state" where
  "emit_event F kind action pid = write_rt F (rt_line kind action pid)"

definition clear_docker_rt :: "'w file_ext \<Rightarrow> (('w, 'z) docker_state_scheme, unit) state" where
  "clear_docker_rt F = write_rt F (''c'' @ [nl])"

text \<open>The process numbers that the kernel module lists behind its headline.\<close>

fun listed_pids :: "bool \<Rightarrow> string list \<Rightarrow> int list" where
  "listed_pids in_data [] = []"
| "listed_pids in_data (line # ls) =
     (if \<not> in_data then listed_pids (str_contains ''Docker Container PID:'' line) ls
      else (case line of
              c # _ \<Rightarrow> if is_digit c
                      then (case parse_i32 (trim line) of Some pid \<Rightarrow> pid # listed_pids True ls | None \<Rightarrow> listed_pids True ls)
                      else listed_pids True ls
            | [] \<Rightarrow> listed_pids True ls))"

definition residual_lines :: "int list \<Rightarrow> string res \<Rightarrow> string list" where
  "residual_lines current_pids listing =
     (case listing of
        Inl _ \<Rightarrow> []
      | Inr content \<Rightarrow>
          (let proc_pids = listed_pids False (str_lines content) in
           if length (remdups current_pids) + 2 < length proc_pids
           then map (rt_line 2 ActRemove) (filter (\<lambda>pid. pid \<notin> set current_pids) proc_pids) else []))"

definition check_residual_pids :: "'w sys_ext \<Rightarrow> 'w file_ext \<Rightarrow> int list \<Rightarrow> (('w, 'z) docker_state_scheme, unit) state" where
  "check_residual_pids X F current_pids = do {
     r \<leftarrow> gets (\<lambda>s. x_read_file X PROC_OSEC_DOCKER_RT (fos s));
     for_each (residual_lines current_pids r) (write_rt F)
   }"

text \<open>The differences, in the order in which they are written: what is new, then what is gone.\<close>

definition change_lines :: "docker_shim list \<Rightarrow> docker_shim list \<Rightarrow> string list" where
  "change_lines seen current =
     map (\<lambda>p. rt_line (ds_kind p) ActAdd (ds_pid p)) (filter (\<lambda>p. p \<notin> set seen) current)
     @ map (\<lambda>p. rt_line (ds_kind p) ActRemove (ds_pid p)) (filter (\<lambda>p. p \<notin> set current) seen)"

definition has_change :: "docker_shim list \<Rightarrow> docker_shim list \<Rightarrow> bool" where
  "has_change seen current \<longleftrightarrow> list_ex (\<lambda>p. p \<notin> set seen) current \<or> list_ex (\<lambda>p. p \<notin> set current) seen"

text \<open>What an update writes while it holds the lock of the processes, and what it remembers.\<close>

definition update_lines :: "docker_shim list \<Rightarrow> docker_shim list \<Rightarrow> string list" where
  "update_lines seen current =
     (if current = [] then (if seen = [] then [] else [rt_line 4 ActRemove 0, ''c'' @ [nl]])
      else if seen = [] then map (\<lambda>p. rt_line (ds_kind p) ActAdd (ds_pid p)) current
      else change_lines seen current)"

definition seen_after :: "docker_shim list \<Rightarrow> docker_shim list \<Rightarrow> docker_shim list" where
  "seen_after seen current =
     (if current = [] \<or> seen = [] then current
      else if has_change seen current \<or> length current \<noteq> length seen then current else seen)"

text \<open>Leftovers are looked for after a comparison only, in version 2.\<close>

definition looks_for_residuals :: "docker_shim list \<Rightarrow> ('w, 'z) docker_state_scheme \<Rightarrow> bool" where
  "looks_for_residuals current s \<longleftrightarrow> current \<noteq> [] \<and> last_processes s \<noteq> [] \<and> is_version_2 s"

definition locked_update :: "'w file_ext \<Rightarrow> docker_shim list \<Rightarrow> (('w, 'z) docker_state_scheme, bool) state" where
  "locked_update F current = do {
     seen \<leftarrow> gets last_processes;
     for_each (update_lines seen current) (write_rt F);
     residuals \<leftarrow> gets (looks_for_residuals current);
     modify (\<lambda>s. s\<lparr>last_processes := seen_after seen current\<rparr>);
     State_Monad.return residuals
   }"

definition update_docker_state :: "'w sys_ext \<Rightarrow> 'w file_ext \<Rightarrow> bool \<Rightarrow> (('w, 'z) docker_state_scheme, unit) state" where
  "update_docker_state X F held = do {
     r \<leftarrow> scan_docker_processes X held;
     case r of
       None \<Rightarrow> State_Monad.return ()
     | Some current \<Rightarrow> do {
         residuals \<leftarrow> locked_update F current;
         if residuals then check_residual_pids X F (map ds_pid current) else State_Monad.return ()
       }
   }"

section \<open>The root process of the runtime\<close>

definition clear_container_pid :: "'w file_ext \<Rightarrow> (('w, 'z) docker_state_scheme, unit) state" where
  "clear_container_pid F = do { emit_event F 4 ActRemove 0; clear_docker_rt F }"

definition root_command :: string where
  "root_command = ''ps -e -o pid,cmd | grep '' @ quoted ''/containerd$'' @ '' | grep -v grep | awk '' @ quoted ''{print $1}''"

definition root_pid_of :: "proc_output option \<Rightarrow> int option" where
  "root_pid_of out =
     (case out of
        None \<Rightarrow> None
      | Some o' \<Rightarrow>
          if \<not> po_success o' then None
          else (case str_lines (po_stdout o') of
                  [] \<Rightarrow> None
                | l # _ \<Rightarrow> (case parse_i32 (trim l) of Some pid \<Rightarrow> if 0 < pid then Some pid else None | None \<Rightarrow> None)))"

definition set_container_root_pid :: "'w sys_ext \<Rightarrow> 'w file_ext \<Rightarrow> (('w, 'z) docker_state_scheme, unit) state" where
  "set_container_root_pid X F = do {
     out \<leftarrow> shell X root_command;
     seen \<leftarrow> gets last_root_pid;
     case root_pid_of out of
       None \<Rightarrow>
         if seen \<noteq> 0 then do { emit_event F 3 ActRemove 0; modify (\<lambda>s. s\<lparr>last_root_pid := 0\<rparr>) }
         else State_Monad.return ()
     | Some pid \<Rightarrow>
         if pid \<noteq> seen then do { emit_event F 3 ActAdd pid; modify (\<lambda>s. s\<lparr>last_root_pid := pid\<rparr>) }
         else State_Monad.return ()
   }"

definition reset_container_root_pid :: "'w sys_ext \<Rightarrow> 'w file_ext \<Rightarrow> int \<Rightarrow> (('w, 'z) docker_state_scheme, unit res) state" where
  "reset_container_root_pid X F pid =
     (if pid \<le> 0 then State_Monad.return (Inl ''Invalid PID'')
      else do {
        emit_event F 3 ActAdd pid;
        modify (\<lambda>s. s\<lparr>last_root_pid := pid\<rparr>);
        version \<leftarrow> gets docker_version;
        (if version = 1 then do { emit_event F 4 ActRemove 0; clear_docker_rt F }
         else update_docker_state X F True);
        State_Monad.return (Inr ())
      })"

text \<open>One tick of \<^verbatim>\<open>run_monitor_loop\<close> is an update; the loop starts with \<open>set_container_root_pid\<close>.\<close>

fun run_monitor_loop :: "'w sys_ext \<Rightarrow> 'w file_ext \<Rightarrow> nat \<Rightarrow> (('w, 'z) docker_state_scheme, unit) state" where
  "run_monitor_loop X F 0 = State_Monad.return ()"
| "run_monitor_loop X F (Suc ticks) = do { update_docker_state X F False; run_monitor_loop X F ticks }"

definition start_docker_monitor :: "'w sys_ext \<Rightarrow> 'w file_ext \<Rightarrow> nat \<Rightarrow> (('w, 'z) docker_state_scheme, unit) state" where
  "start_docker_monitor X F ticks = do { set_container_root_pid X F; run_monitor_loop X F ticks }"

section \<open>Messages of the kernel\<close>

record com_info =
  ci_pid :: u32
  ci_ppid :: u32
  ci_flags :: u32

definition com_info_of :: "u8 list \<Rightarrow> com_info" where
  "com_info_of data = \<lparr>ci_pid = from_le (take 4 data), ci_ppid = from_le (take 4 (drop 4 data)),
     ci_flags = from_le (take 4 (drop 8 data))\<rparr>"

definition com_type :: "com_info \<Rightarrow> u8" where "com_type c = ucast (ci_flags c AND 7)"

definition handle_kernel_docker_oper ::
  "'w sys_ext \<Rightarrow> 'w file_ext \<Rightarrow> u8 list \<Rightarrow> u32 \<Rightarrow> (('w, 'z) docker_state_scheme, unit res) state" where
  "handle_kernel_docker_oper X F data data_len =
     (if length data < 12 \<or> unat data_len < 12 then State_Monad.return (Inl ''Invalid length'')
      else do {
        let c = com_info_of data;
        (if com_type c = 3 then do { _ \<leftarrow> reset_container_root_pid X F (sint (ci_pid c)); State_Monad.return () }
         else if com_type c = 1 then update_docker_state X F False
         else State_Monad.return ());
        State_Monad.return (Inr ())
      })"

section \<open>The table of the kernel\<close>

text \<open>What the lines written to \<^verbatim>\<open>docker_rt\<close> leave in the kernel module: the kind and the number of
  every container process, as texts. The line \<^verbatim>\<open>c\<close> and the event \<^verbatim>\<open>4,0,0\<close> empty the table, as the
  comments of the source say; kind 3 is the root process, which is kept elsewhere.\<close>

definition rt_step :: "string \<Rightarrow> (string \<times> string) set \<Rightarrow> (string \<times> string) set" where
  "rt_step line T =
     (if line = ''c'' @ [nl] \<or> line = ''4,0,0'' @ [nl] then {}
      else (case split_char (CHR 0x2C) (butlast line) of
              [k, f, p] \<Rightarrow> if k = ''3'' then T else if f = ''1'' then insert (k, p) T else T - {(k, p)}
            | _ \<Rightarrow> T))"

definition rt_table :: "(string \<times> string) list \<Rightarrow> (string \<times> string) set" where
  "rt_table log = fold (\<lambda>w T. if fst w = PROC_OSEC_DOCKER_RT then rt_step (snd w) T else T) log {}"

definition rt_entry :: "docker_shim \<Rightarrow> string \<times> string" where
  "rt_entry p = (show_nat (ds_kind p), show_int (ds_pid p))"

lemma rt_entry_inject: "inj rt_entry"
  by (rule injI) (auto simp: rt_entry_def intro: docker_shim.equality)

lemma rt_table_snoc:
  "rt_table (log @ [(PROC_OSEC_DOCKER_RT, line)]) = rt_step line (rt_table log)"
  by (simp add: rt_table_def)

lemma rt_table_lines:
  "rt_table (log @ map (Pair PROC_OSEC_DOCKER_RT) ls) = fold rt_step ls (rt_table log)"
proof (induction ls arbitrary: log)
  case (Cons l ls)
  from Cons.IH [of "log @ [(PROC_OSEC_DOCKER_RT, l)]"] show ?case by (simp add: rt_table_snoc)
qed simp

text \<open>A smaller table stays smaller under the same writes.\<close>

lemma rt_step_mono: "A \<subseteq> B \<Longrightarrow> rt_step l A \<subseteq> rt_step l B"
  by (auto simp: rt_step_def split: list.splits)

lemma rt_steps_mono: "A \<subseteq> B \<Longrightarrow> fold rt_step ls A \<subseteq> fold rt_step ls B"
  by (induction ls arbitrary: A B) (simp_all add: rt_step_mono)

lemma show_nat_digits_small: "show_nat 0 = ''0''" "show_nat 1 = ''1''" "show_nat (Suc 0) = ''1''" "show_nat 2 = ''2''" "show_nat 3 = ''3''" "show_nat 4 = ''4''"
  by code_simp+

lemma rt_step_clear [simp]: "rt_step [CHR ''c'', nl] T = {}" "rt_step (rt_line 4 ActRemove 0) T = {}"
  by (simp_all add: rt_step_def rt_line_def)

lemma rt_step_line:
  assumes "kind \<in> {1, 2, 3}"
  shows "rt_step (rt_line kind a pid) T =
     (if kind = 3 then T else if a = ActAdd then insert (show_nat kind, show_int pid) T
      else T - {(show_nat kind, show_int pid)})"
proof -
  let ?f = "show_nat (as_flag a)"
  have l: "rt_line kind a pid = (show_nat kind @ CHR 0x2C # ?f @ CHR 0x2C # show_int pid) @ [nl]"
    using assms by (auto simp: rt_line_def)
  have "split_char (CHR 0x2C) (butlast (rt_line kind a pid)) = [show_nat kind, ?f, show_int pid]"
    unfolding l butlast_snoc by (simp add: split_char_append)
  moreover have "rt_line kind a pid \<noteq> ''c'' @ [nl]" "rt_line kind a pid \<noteq> ''4,0,0'' @ [nl]"
    using assms unfolding l by (auto simp: show_nat_digits_small)
  moreover have "?f = (if a = ActAdd then ''1'' else ''0'')" by (cases a) (simp_all add: show_nat_digits_small)
  moreover have "show_nat kind = ''3'' \<longleftrightarrow> kind = 3" using assms by (auto simp: show_nat_digits_small)
  ultimately show ?thesis by (auto simp: rt_step_def)
qed

section \<open>What is written\<close>

lemma write_rt_run:
  assumes "files_ok F"
  shows "\<exists>w. run_state (write_rt F line) s
     = ((), s\<lparr>fos := w, write_log := write_log s @ [(PROC_OSEC_DOCKER_RT, line)]\<rparr>)"
proof -
  have o: "fst (fx_open F p w) = Inr ()" "fst (fx_write F p c w) = Inr ()" for p c w
    using assms by (auto simp: files_ok_def)
  obtain w1 where w1: "fx_open F PROC_OSEC_DOCKER_RT (fos s) = (Inr (), w1)" using o(1) by (metis prod.collapse)
  obtain w2 where w2: "fx_write F PROC_OSEC_DOCKER_RT line w1 = (Inr (), w2)" using o(2) by (metis prod.collapse)
  show ?thesis by (intro exI [of _ w2]) (simp add: write_rt_def open_write_def write_all_def w1 w2)
qed

lemma write_each_run:
  assumes "files_ok F"
  shows "\<exists>w. run_state (for_each ls (write_rt F)) s
     = ((), s\<lparr>fos := w, write_log := write_log s @ map (Pair PROC_OSEC_DOCKER_RT) ls\<rparr>)"
proof (induction ls arbitrary: s)
  case Nil
  then show ?case by (intro exI [of _ "fos s"]) simp
next
  case (Cons l ls)
  from write_rt_run [OF assms, of l s] obtain w where
    w: "run_state (write_rt F l) s = ((), s\<lparr>fos := w, write_log := write_log s @ [(PROC_OSEC_DOCKER_RT, l)]\<rparr>)" by blast
  from Cons.IH [of "s\<lparr>fos := w, write_log := write_log s @ [(PROC_OSEC_DOCKER_RT, l)]\<rparr>"]
  show ?case by (auto simp: w)
qed

definition shim_kinds :: "docker_shim list \<Rightarrow> bool" where
  "shim_kinds ps \<longleftrightarrow> (\<forall>p \<in> set ps. ds_kind p \<in> {1, 2})"

abbreviation entries_of :: "docker_shim list \<Rightarrow> (string \<times> string) set" where
  "entries_of ps \<equiv> rt_entry ` set ps"

lemma rt_step_shim:
  "ds_kind p \<in> {1, 2} \<Longrightarrow> rt_step (rt_line (ds_kind p) a (ds_pid p)) T
     = (if a = ActAdd then insert (rt_entry p) T else T - {rt_entry p})"
  by (subst rt_step_line) (auto simp: rt_entry_def)

lemma fold_adds:
  "shim_kinds ps \<Longrightarrow> fold rt_step (map (\<lambda>p. rt_line (ds_kind p) ActAdd (ds_pid p)) ps) T = T \<union> entries_of ps"
proof (induction ps arbitrary: T)
  case (Cons p ps)
  then show ?case by (simp add: shim_kinds_def rt_step_shim [of p])
qed simp

lemma fold_removes:
  "shim_kinds ps \<Longrightarrow> fold rt_step (map (\<lambda>p. rt_line (ds_kind p) ActRemove (ds_pid p)) ps) T = T - entries_of ps"
proof (induction ps arbitrary: T)
  case (Cons p ps)
  then show ?case by (simp add: shim_kinds_def rt_step_shim [of p]) blast
qed simp

lemma update_lines_exact:
  assumes "shim_kinds seen" and "shim_kinds current"
  shows "fold rt_step (update_lines seen current) (entries_of seen) = entries_of current"
proof -
  let ?new = "filter (\<lambda>p. p \<notin> set seen) current" and ?gone = "filter (\<lambda>p. p \<notin> set current) seen"
  have k: "shim_kinds ?new" "shim_kinds ?gone" using assms by (auto simp: shim_kinds_def)
  have "fold rt_step (change_lines seen current) (entries_of seen) = (entries_of seen \<union> entries_of ?new) - entries_of ?gone"
    by (simp only: change_lines_def fold_append comp_apply fold_adds [OF k(1)] fold_removes [OF k(2)])
  also have "\<dots> = rt_entry ` ((set seen \<union> set ?new) - set ?gone)"
    by (simp add: image_Un image_set_diff [OF rt_entry_inject])
  also have "(set seen \<union> set ?new) - set ?gone = set current" by auto
  finally show ?thesis using assms(2) by (simp add: update_lines_def fold_adds)
qed

lemma update_lines_within:
  assumes "shim_kinds seen" and "shim_kinds current" and "T \<subseteq> entries_of seen"
  shows "fold rt_step (update_lines seen current) T \<subseteq> entries_of current"
  using rt_steps_mono [OF assms(3)] update_lines_exact [OF assms(1,2)] by fastforce

lemma set_seen_after [simp]: "set (seen_after seen current) = set current"
  by (auto simp: seen_after_def has_change_def list_ex_iff)

text \<open>The scan leaves the table and the processes seen last alone.\<close>

definition same_seen :: "('w, 'z) docker_state_scheme \<Rightarrow> ('w, 'z) docker_state_scheme \<Rightarrow> bool" where
  "same_seen s t \<longleftrightarrow> write_log t = write_log s \<and> last_processes t = last_processes s"

lemma keeps_shell: "keeps (same_seen s) (shell X c)"
  by (auto simp: keeps_def same_seen_def shell_def split: prod.splits)

lemma keeps_exec_shell: "keeps (same_seen s) (exec_shell X c)"
  unfolding exec_shell_def by (intro keep_intros keeps_shell)

lemma keeps_detect: "keeps (same_seen s) (detect_from X i cmds)"
proof (induction cmds arbitrary: i)
  case Nil
  then show ?case by (simp add: keep_intros)
next
  case (Cons c cs)
  show ?case unfolding detect_from.simps
    by (intro keep_intros keeps_exec_shell) (auto intro: Cons keeps_return split: list.splits)
qed

lemma keeps_command: "keeps (same_seen s) (current_command X)"
  unfolding current_command_def detect_valid_command_def
  by (intro keep_intros keeps_detect) (simp add: same_seen_def)

lemma shims_of_kinds: "shim_kinds (shims_of i es)"
  by (auto simp: shims_of_def shim_kinds_def Let_def)

lemma scan_run:
  assumes "run_state (scan_docker_processes X held) s = (r, t)"
  shows "same_seen s t" and "r = Some ps \<Longrightarrow> shim_kinds ps"
proof -
  have "keeps (same_seen s) (scan_docker_processes X held)"
    unfolding scan_docker_processes_def
    by (intro keep_intros keeps_command keeps_exec_shell) (auto simp: same_seen_def note_version_def Let_def intro!: keep_intros)
  from keepsD_run [OF this _ assms] show "same_seen s t" by (simp add: same_seen_def)
  show "r = Some ps \<Longrightarrow> shim_kinds ps"
    using assms shims_of_kinds
    by (auto simp: scan_docker_processes_def shim_kinds_def Let_def split: prod.splits option.splits if_splits)
qed

text \<open>The lines about leftovers remove processes of the second kind that are not among those of the scan.\<close>

definition removals :: "int set \<Rightarrow> string list \<Rightarrow> bool" where
  "removals kept ls \<longleftrightarrow> (\<forall>l \<in> set ls. \<exists>pid. pid \<notin> kept \<and> l = rt_line 2 ActRemove pid)"

lemma residual_removals: "removals (set pids) (residual_lines pids r)"
  by (auto simp: removals_def residual_lines_def Let_def split: sum.splits)

lemma removal_step: "rt_step (rt_line 2 ActRemove pid) T = T - {rt_entry \<lparr>ds_pid = pid, ds_kind = 2\<rparr>}"
  using rt_step_shim [of "\<lparr>ds_pid = pid, ds_kind = 2\<rparr>" ActRemove T] by simp

lemma removal_harmless:
  assumes "pid \<notin> ds_pid ` set ps"
  shows "rt_step (rt_line 2 ActRemove pid) (entries_of ps) = entries_of ps"
proof -
  have "rt_entry \<lparr>ds_pid = pid, ds_kind = 2\<rparr> \<notin> entries_of ps"
    unfolding inj_image_mem_iff [OF rt_entry_inject] using assms by (metis docker_shim.select_convs(1) image_eqI)
  then show ?thesis by (simp add: removal_step)
qed

section \<open>The tasks and their steps\<close>

text \<open>A task that is under way: its scan is done and it waits for the lock; it is about to read the
  kernel's list for leftovers; it writes the removals; it has told a new root process and is about
  to look at the version; it writes the clearing lines of a reset in version 1.\<close>

datatype docker_task =
    Scanned "docker_shim list"
  | Residual "int list"
  | Removing "string list"
  | Resetting
  | Clearing "string list"

fun residual_task :: "docker_task \<Rightarrow> bool" where
  "residual_task (Residual _) = True"
| "residual_task (Removing ls) = (ls \<noteq> [])"
| "residual_task _ = False"

definition clearing_lines :: "string list" where
  "clearing_lines = [rt_line 4 ActRemove 0, ''c'' @ [nl]]"

text \<open>The configurations of the monitor: whether the run was calm so far, the shared state, the task
  that holds the lock of the processes with the scan it works on and the lines it has still to
  write, and the other tasks. The host may change at any time. A run stops being calm when an update
  takes the lock while another task looks for leftovers, and when a reset meets version 1.\<close>

inductive docker_reach ::
  "'w sys_ext \<Rightarrow> 'w file_ext \<Rightarrow> bool \<Rightarrow> 'w docker_state \<Rightarrow> (docker_shim list \<times> string list) option \<Rightarrow> docker_task list \<Rightarrow> bool"
  for X F where
  start: "docker_reach X F True (docker_init w) None []"
| host: "docker_reach X F calm s lk ts \<Longrightarrow> docker_reach X F calm (s\<lparr>fos := w\<rparr>) lk ts"
| root: "docker_reach X F calm s lk ts \<Longrightarrow> docker_reach X F calm (snd (run_state (set_container_root_pid X F) s)) lk ts"
| scan: "docker_reach X F calm s lk ts \<Longrightarrow> run_state (scan_docker_processes X held) s = (r, t) \<Longrightarrow>
     docker_reach X F calm t lk (case r of None \<Rightarrow> ts | Some current \<Rightarrow> Scanned current # ts)"
| lock: "docker_reach X F calm s None ts \<Longrightarrow> Scanned current \<in> set ts \<Longrightarrow>
     docker_reach X F (calm \<and> \<not> list_ex residual_task ts) s
       (Some (current, update_lines (last_processes s) current)) (remove1 (Scanned current) ts)"
| tell: "docker_reach X F calm s (Some (current, l # ls)) ts \<Longrightarrow>
     docker_reach X F calm (snd (run_state (write_rt F l) s)) (Some (current, ls)) ts"
| unlock: "docker_reach X F calm s (Some (current, [])) ts \<Longrightarrow>
     docker_reach X F calm (s\<lparr>last_processes := seen_after (last_processes s) current\<rparr>) None
       (if looks_for_residuals current s then Residual (map ds_pid current) # ts else ts)"
| listing: "docker_reach X F calm s lk ts \<Longrightarrow> Residual pids \<in> set ts \<Longrightarrow>
     docker_reach X F calm s lk
       (Removing (residual_lines pids (x_read_file X PROC_OSEC_DOCKER_RT (fos s))) # remove1 (Residual pids) ts)"
| remove: "docker_reach X F calm s lk ts \<Longrightarrow> Removing (l # ls) \<in> set ts \<Longrightarrow>
     docker_reach X F calm (snd (run_state (write_rt F l) s)) lk (Removing ls # remove1 (Removing (l # ls)) ts)"
| reset: "docker_reach X F calm s lk ts \<Longrightarrow> 0 < pid \<Longrightarrow> run_state (write_rt F (rt_line 3 ActAdd pid)) s = (u, t) \<Longrightarrow>
     docker_reach X F calm (t\<lparr>last_root_pid := pid\<rparr>) lk (Resetting # ts)"
| reset_v1: "docker_reach X F calm s lk ts \<Longrightarrow> Resetting \<in> set ts \<Longrightarrow> docker_version s = 1 \<Longrightarrow>
     docker_reach X F False s lk (Clearing clearing_lines # remove1 Resetting ts)"
| reset_v2: "docker_reach X F calm s lk ts \<Longrightarrow> Resetting \<in> set ts \<Longrightarrow> docker_version s \<noteq> 1 \<Longrightarrow>
     run_state (scan_docker_processes X True) s = (r, t) \<Longrightarrow>
     docker_reach X F calm t lk
       (case r of None \<Rightarrow> remove1 Resetting ts | Some current \<Rightarrow> Scanned current # remove1 Resetting ts)"
| clear: "docker_reach X F calm s lk ts \<Longrightarrow> Clearing (l # ls) \<in> set ts \<Longrightarrow>
     docker_reach X F calm (snd (run_state (write_rt F l) s)) lk (Clearing ls # remove1 (Clearing (l # ls)) ts)"

text \<open>The operations of the code, run without interruption, are runs of the steps.\<close>

lemma tell_all:
  "docker_reach X F calm s (Some (current, ls)) ts \<Longrightarrow>
     docker_reach X F calm (snd (run_state (for_each ls (write_rt F)) s)) (Some (current, [])) ts"
proof (induction ls arbitrary: s)
  case (Cons l ls)
  from Cons.IH [OF docker_reach.tell [OF Cons.prems]] show ?case by (simp add: case_prod_beta)
qed simp

lemma remove_all:
  "docker_reach X F calm s lk (Removing ls # ts) \<Longrightarrow>
     docker_reach X F calm (snd (run_state (for_each ls (write_rt F)) s)) lk (Removing [] # ts)"
proof (induction ls arbitrary: s)
  case (Cons l ls)
  from Cons.IH [of "snd (run_state (write_rt F l) s)"] docker_reach.remove [OF Cons.prems, of l ls]
  show ?case by (simp add: case_prod_beta)
qed simp

lemma clear_all:
  "docker_reach X F calm s lk (Clearing ls # ts) \<Longrightarrow>
     docker_reach X F calm (snd (run_state (for_each ls (write_rt F)) s)) lk (Clearing [] # ts)"
proof (induction ls arbitrary: s)
  case (Cons l ls)
  from Cons.IH [of "snd (run_state (write_rt F l) s)"] docker_reach.clear [OF Cons.prems, of l ls]
  show ?case by (simp add: case_prod_beta)
qed simp

lemma locked_reach:
  assumes "docker_reach X F calm s None ts" and "Scanned current \<in> set ts"
    and "run_state (locked_update F current) s = (residuals, t)"
  shows "docker_reach X F (calm \<and> \<not> list_ex residual_task ts) t None
     (if residuals then Residual (map ds_pid current) # remove1 (Scanned current) ts else remove1 (Scanned current) ts)"
proof -
  let ?ls = "update_lines (last_processes s) current" and ?s = "last_processes s"
  obtain u where u: "run_state (for_each ?ls (write_rt F)) s = ((), u)" by (metis (full_types) old.unit.exhaust prod.collapse)
  have "keeps (\<lambda>v. last_processes v = ?s) (for_each ?ls (write_rt F))"
    unfolding write_rt_def by (intro keep_intros) (simp_all add: file_blind_def)
  from keepsD_run [OF this _ u] have "last_processes u = ?s" by simp
  with docker_reach.unlock [OF tell_all [OF docker_reach.lock [OF assms(1,2)]]] u assms(3) show ?thesis
    by (auto simp: locked_update_def)
qed

lemma residual_reach:
  assumes "docker_reach X F calm s lk (Residual pids # ts)"
  shows "docker_reach X F calm (snd (run_state (check_residual_pids X F pids) s)) lk (Removing [] # ts)"
  using remove_all [of X F calm s lk "residual_lines pids (x_read_file X PROC_OSEC_DOCKER_RT (fos s))" ts]
    docker_reach.listing [OF assms, of pids] by (simp add: check_residual_pids_def)

text \<open>Tasks that have nothing left to do.\<close>

definition all_done :: "docker_task list \<Rightarrow> bool" where
  "all_done ts \<longleftrightarrow> set ts \<subseteq> {Removing [], Clearing []}"

lemma scanned_update_reach:
  assumes "docker_reach X F calm s1 None (case r of None \<Rightarrow> ts | Some current \<Rightarrow> Scanned current # ts)"
    and sc: "run_state (scan_docker_processes X held) s = (r, s1)" and "all_done ts"
  shows "\<exists>ts'. docker_reach X F calm (snd (run_state (update_docker_state X F held) s)) None ts' \<and> all_done ts'"
proof (cases r)
  case None
  with assms show ?thesis by (auto simp: update_docker_state_def)
next
  case (Some current)
  obtain residuals s2 where lu: "run_state (locked_update F current) s1 = (residuals, s2)" by (rule prod.exhaust)
  have "\<not> list_ex residual_task (Scanned current # ts)" using assms(3) by (auto simp: all_done_def list_ex_iff)
  with locked_reach [OF _ _ lu, of X calm "Scanned current # ts"] assms(1) Some
  have 2: "docker_reach X F calm s2 None (if residuals then Residual (map ds_pid current) # ts else ts)" by (cases residuals) simp_all
  show ?thesis
  proof (cases residuals)
    case True
    with residual_reach [of X F calm s2 None "map ds_pid current" ts] 2 sc Some lu assms(3) show ?thesis
      by (auto simp: update_docker_state_def all_done_def intro!: exI [of _ "Removing [] # ts"])
  next
    case False
    with 2 sc Some lu assms(3) show ?thesis by (auto simp: update_docker_state_def)
  qed
qed

lemma update_reach:
  assumes "docker_reach X F calm s None ts" and "all_done ts"
  shows "\<exists>ts'. docker_reach X F calm (snd (run_state (update_docker_state X F held) s)) None ts' \<and> all_done ts'"
proof -
  obtain r s1 where sc: "run_state (scan_docker_processes X held) s = (r, s1)" by (rule prod.exhaust)
  from scanned_update_reach [OF docker_reach.scan [OF assms(1) sc] sc assms(2)] show ?thesis .
qed

section \<open>The invariant\<close>

definition same_table :: "('w, 'z) docker_state_scheme \<Rightarrow> ('w, 'z) docker_state_scheme \<Rightarrow> bool" where
  "same_table s t \<longleftrightarrow> rt_table (write_log t) = rt_table (write_log s) \<and> last_processes t = last_processes s"

definition lock_ok :: "bool \<Rightarrow> ('w, 'z) docker_state_scheme \<Rightarrow> (docker_shim list \<times> string list) option \<Rightarrow> bool" where
  "lock_ok calm s lk \<longleftrightarrow>
     (case lk of
        None \<Rightarrow> rt_table (write_log s) \<subseteq> entries_of (last_processes s)
          \<and> (calm \<longrightarrow> rt_table (write_log s) = entries_of (last_processes s))
      | Some (current, ls) \<Rightarrow> shim_kinds current \<and> fold rt_step ls (rt_table (write_log s)) \<subseteq> entries_of current
          \<and> (calm \<longrightarrow> fold rt_step ls (rt_table (write_log s)) = entries_of current))"

text \<open>While the run is calm, leftovers are looked for only when nobody holds the lock, on the
  processes seen last.\<close>

fun task_ok :: "bool \<Rightarrow> bool \<Rightarrow> docker_shim list \<Rightarrow> docker_task \<Rightarrow> bool" where
  "task_ok calm free seen (Scanned current) = shim_kinds current"
| "task_ok calm free seen (Residual pids) = (calm \<longrightarrow> free \<and> set pids = ds_pid ` set seen)"
| "task_ok calm free seen (Removing ls) = (removals {} ls \<and> (calm \<longrightarrow> ls \<noteq> [] \<longrightarrow> free \<and> removals (ds_pid ` set seen) ls))"
| "task_ok calm free seen Resetting = True"
| "task_ok calm free seen (Clearing ls) = (set ls \<subseteq> set clearing_lines \<and> (calm \<longrightarrow> ls = []))"

definition docker_inv ::
  "bool \<Rightarrow> ('w, 'z) docker_state_scheme \<Rightarrow> (docker_shim list \<times> string list) option \<Rightarrow> docker_task list \<Rightarrow> bool" where
  "docker_inv calm s lk ts \<longleftrightarrow> shim_kinds (last_processes s) \<and> lock_ok calm s lk
     \<and> (\<forall>t \<in> set ts. task_ok calm (lk = None) (last_processes s) t)"

lemma docker_inv_same: "docker_inv calm s lk ts \<Longrightarrow> same_table s t \<Longrightarrow> docker_inv calm t lk ts"
  by (auto simp: docker_inv_def same_table_def lock_ok_def split: option.splits)

lemma task_ok_less: "task_ok calm free seen t \<Longrightarrow> task_ok (calm \<and> b) free seen t"
  by (cases t) auto

lemma docker_inv_sub: "docker_inv calm s lk ts \<Longrightarrow> set ts' \<subseteq> set ts \<Longrightarrow> docker_inv calm s lk ts'"
  by (auto simp: docker_inv_def)

lemma docker_inv_add:
  "docker_inv calm s lk ts \<Longrightarrow> task_ok calm (lk = None) (last_processes s) t \<Longrightarrow> docker_inv calm s lk (t # ts)"
  by (auto simp: docker_inv_def)

lemma docker_inv_less: "docker_inv calm s lk ts \<Longrightarrow> docker_inv (calm \<and> b) s lk ts"
  by (auto simp: docker_inv_def lock_ok_def task_ok_less split: option.splits)

text \<open>A write outside the lock that only takes entries away, and none while the run is calm.\<close>

lemma outside_write:
  assumes "files_ok F" and "docker_inv calm s lk ts"
    and "\<And>T. rt_step l T \<subseteq> T" and "calm \<Longrightarrow> rt_step l (rt_table (write_log s)) = rt_table (write_log s)"
  shows "docker_inv calm (snd (run_state (write_rt F l) s)) lk ts"
proof -
  from write_rt_run [OF assms(1), of l s] obtain w where
    w: "snd (run_state (write_rt F l) s) = s\<lparr>fos := w, write_log := write_log s @ [(PROC_OSEC_DOCKER_RT, l)]\<rparr>" by auto
  let ?T = "rt_table (write_log s)"
  have "lock_ok calm (s\<lparr>fos := w, write_log := write_log s @ [(PROC_OSEC_DOCKER_RT, l)]\<rparr>) lk"
  proof (cases lk)
    case None
    with assms(2,4) subset_trans [OF assms(3)] show ?thesis by (cases calm) (simp_all add: docker_inv_def lock_ok_def rt_table_snoc)
  next
    case (Some a)
    obtain current ls where a: "a = (current, ls)" by (rule prod.exhaust)
    have "fold rt_step ls (rt_step l ?T) \<subseteq> fold rt_step ls ?T" by (rule rt_steps_mono [OF assms(3)])
    with assms(2,4) Some a subset_trans [OF this] show ?thesis by (cases calm) (simp_all add: docker_inv_def lock_ok_def rt_table_snoc)
  qed
  with assms(2) w show ?thesis by (simp add: docker_inv_def)
qed

lemma root_line: "rt_step (rt_line 3 a pid) T = T"
  by (subst rt_step_line) simp_all

lemma root_same:
  assumes "files_ok F"
  shows "keeps (same_table s) (emit_event F 3 a pid)"
proof (rule keepsI)
  fix u :: "('a, 'b) docker_state_scheme" and r t
  assume u: "same_table s u" and run: "run_state (emit_event F 3 a pid) u = (r, t)"
  from write_rt_run [OF assms, of "rt_line 3 a pid" u] run obtain w where
    "t = u\<lparr>fos := w, write_log := write_log u @ [(PROC_OSEC_DOCKER_RT, rt_line 3 a pid)]\<rparr>" by (auto simp: emit_event_def)
  with u show "same_table s t" by (simp add: same_table_def rt_table_snoc root_line)
qed

lemma keeps_root: "files_ok F \<Longrightarrow> keeps (same_table s) (set_container_root_pid X F)"
  unfolding set_container_root_pid_def
  by (intro keep_intros root_same) (auto simp: keeps_def shell_def same_table_def split: prod.splits)

text \<open>A calm run finds the removals to miss the table; a hurried one only loses entries.\<close>

lemma removal_write:
  assumes "files_ok F" and "docker_inv calm s lk ts" and "Removing (l # ls) \<in> set ts"
  shows "docker_inv calm (snd (run_state (write_rt F l) s)) lk (Removing ls # remove1 (Removing (l # ls)) ts)"
proof -
  from assms(2,3) have t: "task_ok calm (lk = None) (last_processes s) (Removing (l # ls))" by (auto simp: docker_inv_def)
  from t obtain pid where l: "l = rt_line 2 ActRemove pid" by (auto simp: removals_def)
  have "rt_step l (rt_table (write_log s)) = rt_table (write_log s)" if calm
  proof -
    from t that have "lk = None" "removals (ds_pid ` set (last_processes s)) (l # ls)" by auto
    moreover from this(1) that assms(2) have "rt_table (write_log s) = entries_of (last_processes s)"
      by (simp add: docker_inv_def lock_ok_def)
    ultimately show ?thesis using removal_harmless by (auto simp: removals_def)
  qed
  with assms(1,2) l have inv: "docker_inv calm (snd (run_state (write_rt F l) s)) lk ts"
    by (intro outside_write) (auto simp: removal_step)
  moreover have "last_processes (snd (run_state (write_rt F l) s)) = last_processes s"
    using write_rt_run [OF assms(1), of l s] by auto
  ultimately show ?thesis using t
    by (intro docker_inv_add docker_inv_sub [OF inv]) (auto simp: removals_def dest: notin_set_remove1 set_mp [OF set_remove1_subset])
qed

lemma clear_write:
  assumes "files_ok F" and "docker_inv calm s lk ts" and "Clearing (l # ls) \<in> set ts"
  shows "docker_inv calm (snd (run_state (write_rt F l) s)) lk (Clearing ls # remove1 (Clearing (l # ls)) ts)"
proof -
  from assms(2,3) have t: "task_ok calm (lk = None) (last_processes s) (Clearing (l # ls))" unfolding docker_inv_def by blast
  then have "rt_step l T = {}" for T by (auto simp: clearing_lines_def)
  with t have inv: "docker_inv calm (snd (run_state (write_rt F l) s)) lk ts"
    using assms(1,2) by (intro outside_write) auto
  with t show ?thesis by (intro docker_inv_add docker_inv_sub [OF inv]) (auto dest: set_mp [OF set_remove1_subset])
qed

lemma lock_inv:
  assumes "docker_inv calm s None ts" and "Scanned current \<in> set ts"
  shows "docker_inv (calm \<and> \<not> list_ex residual_task ts) s (Some (current, update_lines (last_processes s) current))
    (remove1 (Scanned current) ts)"
proof -
  from assms have k: "shim_kinds (last_processes s)" "shim_kinds current" by (auto simp: docker_inv_def)
  have "task_ok (calm \<and> \<not> list_ex residual_task ts) False (last_processes s) t" if "t \<in> set ts" for t
  proof -
    from assms(1) that have "task_ok calm True (last_processes s) t" by (simp add: docker_inv_def)
    moreover have "\<not> list_ex residual_task ts \<Longrightarrow> \<not> residual_task t" using that by (auto simp: list_ex_iff)
    ultimately show ?thesis by (cases t) auto
  qed
  moreover have "set (remove1 (Scanned current) ts) \<subseteq> set ts" by (rule set_remove1_subset)
  ultimately show ?thesis using assms(1) k update_lines_exact [OF k] update_lines_within [OF k]
    by (auto simp: docker_inv_def lock_ok_def)
qed

lemma unlock_inv:
  assumes "docker_inv calm s (Some (current, [])) ts"
  shows "docker_inv calm (s\<lparr>last_processes := seen_after (last_processes s) current\<rparr>) None
    (if looks_for_residuals current s then Residual (map ds_pid current) # ts else ts)"
proof -
  have "task_ok calm True (seen_after (last_processes s) current) t" if "t \<in> set ts" for t
    using assms that by (cases t) (force simp: docker_inv_def)+
  moreover have "shim_kinds (seen_after (last_processes s) current)"
    using assms by (auto simp: docker_inv_def lock_ok_def shim_kinds_def)
  ultimately show ?thesis using assms by (auto simp: docker_inv_def lock_ok_def)
qed

lemma scanned_inv:
  assumes "docker_inv calm s lk ts" and "run_state (scan_docker_processes X held) s = (r, t)"
  shows "docker_inv calm t lk (case r of None \<Rightarrow> ts | Some current \<Rightarrow> Scanned current # ts)"
proof -
  from scan_run(1) [OF assms(2)] have "same_table s t" by (simp add: same_seen_def same_table_def)
  with assms show ?thesis using scan_run(2) [OF assms(2)]
    by (auto simp: docker_inv_same intro!: docker_inv_add split: option.splits)
qed

lemma docker_inv_reach:
  assumes "files_ok F" and "docker_reach X F calm s lk ts"
  shows "docker_inv calm s lk ts"
  using assms(2)
proof induction
  case (start w)
  show ?case by (simp add: docker_inv_def lock_ok_def docker_init_def rt_table_def shim_kinds_def)
next
  case (host calm s lk ts w)
  then show ?case by (rule_tac docker_inv_same) (auto simp: same_table_def)
next
  case (root calm s lk ts)
  from keepsD [OF keeps_root [OF assms(1)], of s s] have "same_table s (snd (run_state (set_container_root_pid X F) s))"
    by (simp add: same_table_def)
  with root.IH show ?case by (rule docker_inv_same)
next
  case (scan calm s lk ts held r t)
  from scan.IH scan.hyps(2) show ?case by (rule scanned_inv)
next
  case (lock calm s ts current)
  from lock.IH lock.hyps(2) show ?case by (rule lock_inv)
next
  case (tell calm s current l ls ts)
  with write_rt_run [OF assms(1), of l s] show ?case by (auto simp: docker_inv_def lock_ok_def rt_table_snoc)
next
  case (unlock calm s current ts)
  then show ?case by (intro unlock_inv)
next
  case (listing calm s lk ts pids)
  then have "task_ok calm (lk = None) (last_processes s) (Residual pids)" by (auto simp: docker_inv_def)
  with residual_removals [of pids "x_read_file X PROC_OSEC_DOCKER_RT (fos s)"]
  have "task_ok calm (lk = None) (last_processes s) (Removing (residual_lines pids (x_read_file X PROC_OSEC_DOCKER_RT (fos s))))"
    by (auto simp: removals_def)
  then show ?case by (intro docker_inv_add docker_inv_sub [OF listing.IH]) (simp_all add: set_remove1_subset)
next
  case (remove calm s lk ts l ls)
  then show ?case by (intro removal_write [OF assms(1)])
next
  case (reset calm s lk ts pid u t)
  have "docker_inv calm (snd (run_state (write_rt F (rt_line 3 ActAdd pid)) s)) lk ts"
    by (rule outside_write [OF assms(1) reset.IH]) (simp_all add: root_line)
  then have "docker_inv calm (t\<lparr>last_root_pid := pid\<rparr>) lk ts"
    using reset.hyps(3) by (rule_tac docker_inv_same) (simp_all add: same_table_def)
  then show ?case by (intro docker_inv_add) simp_all
next
  case (reset_v1 calm s lk ts)
  from docker_inv_less [OF reset_v1.IH, of False] have "docker_inv False s lk ts" by simp
  from docker_inv_sub [OF this set_remove1_subset] show ?case by (rule docker_inv_add) simp
next
  case (reset_v2 calm s lk ts r t)
  from docker_inv_sub [OF reset_v2.IH set_remove1_subset] reset_v2.hyps(4) show ?case by (rule scanned_inv)
next
  case (clear calm s lk ts l ls)
  then show ?case by (intro clear_write [OF assms(1)])
qed

lemma reset_reach:
  assumes "docker_reach X F calm s None ts" and "all_done ts"
  shows "\<exists>calm' ts'. docker_reach X F calm' (snd (run_state (reset_container_root_pid X F pid) s)) None ts' \<and> all_done ts'"
proof (cases "0 < pid")
  case False
  with assms show ?thesis by (auto simp: reset_container_root_pid_def)
next
  case True
  obtain u t where wr: "run_state (write_rt F (rt_line 3 ActAdd pid)) s = (u, t)" by (rule prod.exhaust)
  let ?t = "t\<lparr>last_root_pid := pid\<rparr>"
  note r = docker_reach.reset [OF assms(1) True wr]
  show ?thesis
  proof (cases "docker_version t = 1")
    case v1: True
    from docker_reach.reset_v1 [OF r] clear_all [of X F False ?t None clearing_lines ts] v1
    have "docker_reach X F False (snd (run_state (for_each clearing_lines (write_rt F)) ?t)) None (Clearing [] # ts)" by simp
    moreover have "snd (run_state (reset_container_root_pid X F pid) s) = snd (run_state (for_each clearing_lines (write_rt F)) ?t)"
      using True v1 wr by (simp add: reset_container_root_pid_def emit_event_def clear_docker_rt_def clearing_lines_def case_prod_beta)
    moreover have "all_done (Clearing [] # ts)" using assms(2) by (simp add: all_done_def)
    ultimately show ?thesis by (intro exI conjI) simp_all
  next
    case v2: False
    obtain r1 s1 where sc: "run_state (scan_docker_processes X True) ?t = (r1, s1)" by (rule prod.exhaust)
    from docker_reach.reset_v2 [OF r _ _ sc] v2
    have reach: "docker_reach X F calm s1 None (case r1 of None \<Rightarrow> ts | Some current \<Rightarrow> Scanned current # ts)" by (cases r1) simp_all
    have eq: "snd (run_state (reset_container_root_pid X F pid) s) = snd (run_state (update_docker_state X F True) ?t)"
      using True v2 wr by (simp add: reset_container_root_pid_def emit_event_def case_prod_beta)
    from scanned_update_reach [OF reach sc assms(2)] show ?thesis unfolding eq by blast
  qed
qed

lemma kernel_reach:
  assumes "docker_reach X F calm s None ts" and "all_done ts"
  shows "\<exists>calm' ts'. docker_reach X F calm' (snd (run_state (handle_kernel_docker_oper X F data n) s)) None ts' \<and> all_done ts'"
  using reset_reach [OF assms, of "sint (ci_pid (com_info_of data))"] update_reach [OF assms, of False] assms
  by (auto simp: handle_kernel_docker_oper_def Let_def case_prod_beta)

section \<open>Properties\<close>

text \<open>C13: while the control file accepts writes, whenever no update holds the lock, the kernel
  module knows no container process that the monitor does not remember, however the ticks, the
  messages of the kernel and the changes of the host interleave. It knows exactly the processes
  remembered as long as no reset met version 1 and no update took the lock while another task was
  looking for leftovers.\<close>

theorem docker_table_follows:
  assumes "files_ok F" and "docker_reach X F calm s None ts"
  shows "rt_table (write_log s) \<subseteq> rt_entry ` set (last_processes s)
    \<and> (calm \<longrightarrow> rt_table (write_log s) = rt_entry ` set (last_processes s))"
  using docker_inv_reach [OF assms] by (simp add: docker_inv_def lock_ok_def)

text \<open>A host with one container of the first kind.\<close>

definition lab_ps :: "unit sys_ext" where
  "lab_ps = \<lparr>x_output = (\<lambda>cmd args w. (Inr \<lparr>po_success = True, po_stdout = ''300 20'' @ [nl], po_stderr = []\<rparr>, w)),
     x_status = (\<lambda>cmd args w. (Inl ''not found'', w)), x_captures = (\<lambda>re t. None), x_ipv4net = (\<lambda>s. Inl ''invalid''),
     x_net_contains = (\<lambda>n ip. False), x_read_file = (\<lambda>path w. Inl ''not found'')\<rparr>"

abbreviation lab_shim :: docker_shim where "lab_shim \<equiv> \<lparr>ds_pid = 20, ds_kind = 1\<rparr>"

lemma lab_lines: "List.map_filter pid_pair (str_lines (''300 20'' @ [nl])) = [(300, 20)]"
proof -
  have "str_lines (''300 20'' @ [nl]) = [''300 20'']" "split_whitespace (trim ''300 20'') = [''300'', ''20'']" by code_simp+
  moreover have "parse_i32 ''300'' = Some 300" "parse_i32 ''20'' = Some 20"
    by (simp_all add: parse_i32_def parse_uint_def digits_val_def digit_val_def is_digit_def)
  ultimately show ?thesis by (simp add: pid_pair_def List.map_filter_def)
qed

lemma lab_shell: "run_state (exec_shell lab_ps cmd) s = (Some [(300, 20)], s)"
  using lab_lines by (simp add: exec_shell_def shell_def lab_ps_def)

lemmas lab_run = update_docker_state_def locked_update_def update_lines_def change_lines_def seen_after_def looks_for_residuals_def
  scan_docker_processes_def current_command_def detect_valid_command_def
  DETECTION_COMMANDS_def lab_shell docker_init_def shims_of_def Let_def emit_event_def clear_docker_rt_def write_rt_def
  open_write_def write_all_def free_files_def reset_container_root_pid_def note_version_def

lemma lab_seen: "last_processes (snd (run_state (update_docker_state lab_ps free_files False) (docker_init ()))) = [lab_shim]"
  by (simp add: lab_run)

lemma lab_reach: "\<exists>ts. docker_reach lab_ps free_files True
    (snd (run_state (update_docker_state lab_ps free_files False) (docker_init ()))) None ts"
  using update_reach [OF docker_reach.start] by (fastforce simp: all_done_def)

theorem docker_table_follows_witness:
  "rt_table (write_log (snd (run_state (update_docker_state lab_ps free_files False) (docker_init ())))) = {(''1'', ''20'')}"
proof -
  have "rt_entry lab_shim = (''1'', ''20'')" by code_simp
  with lab_reach docker_table_follows [OF free_files_ok] show ?thesis by (force simp: lab_seen)
qed

lemma write_rt_facts:
  assumes "files_ok F"
  shows "write_log (snd (run_state (write_rt F l) s)) = write_log s @ [(PROC_OSEC_DOCKER_RT, l)]"
    and "last_processes (snd (run_state (write_rt F l) s)) = last_processes s"
    and "docker_version (snd (run_state (write_rt F l) s)) = docker_version s"
  using write_rt_run [OF assms, of l s] by auto

lemma residual_shrinks:
  assumes "files_ok F"
  shows "rt_table (write_log (snd (run_state (check_residual_pids X F pids) s))) \<subseteq> rt_table (write_log s)"
proof -
  let ?ls = "residual_lines pids (x_read_file X PROC_OSEC_DOCKER_RT (fos s))"
  have "fold rt_step ls T \<subseteq> T" if "removals K ls" for K ls and T
    using that
  proof (induction ls arbitrary: T)
    case (Cons l ls)
    then have "rt_step l T \<subseteq> T" "removals K ls" by (auto simp: removals_def removal_step)
    with Cons.IH [of "rt_step l T"] show ?case by auto
  qed simp
  then have "fold rt_step ?ls (rt_table (write_log s)) \<subseteq> rt_table (write_log s)" using residual_removals by blast
  moreover from write_each_run [OF assms, of ?ls s] obtain w where
    "run_state (check_residual_pids X F pids) s
      = ((), s\<lparr>fos := w, write_log := write_log s @ map (Pair PROC_OSEC_DOCKER_RT) ?ls\<rparr>)" by (auto simp: check_residual_pids_def)
  ultimately show ?thesis by (simp add: rt_table_lines)
qed

text \<open>A scan that finds nothing new adds nothing.\<close>

lemma update_same:
  assumes "files_ok F" and "run_state (scan_docker_processes X held) s = (Some current, u)"
    and "set current = set (last_processes s)" and "current \<noteq> []"
  shows "rt_table (write_log (snd (run_state (update_docker_state X F held) s))) \<subseteq> rt_table (write_log s)"
proof -
  from scan_run(1) [OF assms(2)] have u: "write_log u = write_log s" "last_processes u = last_processes s" by (simp_all add: same_seen_def)
  from assms(3,4) have "last_processes u \<noteq> []" using u(2) by auto
  then have "update_lines (last_processes u) current = []"
    using assms(3,4) u(2) by (simp add: update_lines_def change_lines_def filter_empty_conv)
  then have "\<exists>seen. snd (run_state (update_docker_state X F held) s)
      = snd (run_state (if looks_for_residuals current u then check_residual_pids X F (map ds_pid current) else State_Monad.return ())
          (u\<lparr>last_processes := seen\<rparr>))"
    using assms(2) by (auto simp: update_docker_state_def locked_update_def)
  then show ?thesis using residual_shrinks [OF assms(1)] u(1) by (auto split: if_splits) fastforce
qed

text \<open>In version 1 a reset of the root process makes the kernel forget the containers for good.
  The table is emptied, but the monitor still believes it has reported them: when the next scan
  finds the same processes, nothing is added again.\<close>

theorem reset_forgets_containers:
  assumes "files_ok F" and "docker_version s = 1" and "0 < pid" and "last_processes s \<noteq> []"
    and "run_state (reset_container_root_pid X F pid) s = (r, t)"
    and "run_state (scan_docker_processes X False) t = (Some current, u)" and "set current = set (last_processes s)"
  shows "rt_table (write_log t) = {} \<and> last_processes t = last_processes s
    \<and> rt_table (write_log (snd (run_state (update_docker_state X F False) t))) = {}"
proof -
  have t: "rt_table (write_log t) = {}" "last_processes t = last_processes s"
    using assms(2,3,5) by (auto simp: reset_container_root_pid_def emit_event_def clear_docker_rt_def case_prod_beta
        write_rt_facts [OF assms(1)] rt_table_def rt_step_def)
  have "current \<noteq> []" using assms(4,7) by auto
  with update_same [OF assms(1,6)] t assms(7) show ?thesis by simp
qed

theorem reset_forgets_containers_witness:
  "\<exists>s t ts. docker_reach lab_ps free_files True s None ts \<and> last_processes s = [lab_shim]
    \<and> t = snd (run_state (reset_container_root_pid lab_ps free_files 5) s)
    \<and> rt_table (write_log (snd (run_state (update_docker_state lab_ps free_files False) t))) = {}"
proof -
  let ?s = "snd (run_state (update_docker_state lab_ps free_files False) (docker_init ()))"
  let ?t = "snd (run_state (reset_container_root_pid lab_ps free_files 5) ?s)"
  have s: "last_processes ?s = [lab_shim]" "docker_version ?s = 1" by (simp_all add: lab_run)
  obtain u where "run_state (scan_docker_processes lab_ps False) ?t = (Some [lab_shim], u)" by (simp add: lab_run)
  with reset_forgets_containers [OF free_files_ok s(2) _ _ prod.collapse [symmetric], of 5 lab_ps "[lab_shim]" u]
  have "rt_table (write_log (snd (run_state (update_docker_state lab_ps free_files False) ?t))) = {}" by (simp add: s(1))
  with s(1) lab_reach show ?thesis by blast
qed

end
