(* ===== verification/Report_Base.thy ===== *)
theory Report_Base
  imports Md5_Cache Net_App Docker Net_Info
begin

text \<open>
  What the handlers of \<^verbatim>\<open>crates/reporter/src\<close> share: the reports (\<^verbatim>\<open>lib.rs\<close>), their documents
  (\<^verbatim>\<open>build_json.rs\<close>), the message that names a run of records in a shared buffer
  (\<^verbatim>\<open>netlink_msg.rs\<close>), reading such records, and posting.

  The record \<open>event_state\<close> extends the cache of digests with the configuration, the token, what was
  posted, the channel to the log worker, the table of ports and the container monitor. The
  configuration is behind a \<^verbatim>\<open>std::sync::Mutex\<close>: a panic while it is held poisons it, and every
  later \<^verbatim>\<open>lock().unwrap()\<close> panics. The shared memory is a parameter; a computation whose value is
  \<open>None\<close> has panicked, or has read outside every mapping, after which nothing is known.
\<close>

section \<open>Signed numbers\<close>

text \<open>The value of an \<^verbatim>\<open>i32\<close>, in a form that evaluates without powers of two.\<close>

definition i32 :: "32 word \<Rightarrow> int" where
  "i32 w = (let u = uint w in if u < 2147483648 then u else u - 4294967296)"

lemma i32_sint [code_unfold]: "sint (w :: 32 word) = i32 w"
proof -
  have b: "0 \<le> uint w" "uint w < 4294967296" using uint_lt2p [of w] by simp_all
  have "uint w div 2147483648 = (if uint w < 2147483648 then 0 else 1)"
  proof (cases "uint w < 2147483648")
    case False
    then have "uint w div 2147483648 = 1" by (intro int_div_pos_eq [where r = "uint w - 2147483648"]) (use b in simp_all)
    with False show ?thesis by simp
  qed (use b in \<open>simp add: div_pos_pos_trivial\<close>)
  then have "bit (uint w) 31 \<longleftrightarrow> \<not> uint w < 2147483648" by (simp add: bit_iff_odd)
  moreover have "take_bit 32 (uint w) = uint w" using b by (simp add: take_bit_int_eq_self)
  ultimately show ?thesis
    by (simp add: sint_uint signed_take_bit_eq_take_bit_minus i32_def Let_def)
qed

section \<open>Text from bytes\<close>

definition text_of_bytes :: "u8 list \<Rightarrow> string" where
  "text_of_bytes bs = map (\<lambda>b. char_of (unat b)) bs"

text \<open>\<^verbatim>\<open>String::from_utf8_lossy\<close>: a longest part of a character that breaks off becomes the
  replacement character.\<close>

definition replacement :: string where "replacement = map char_of [0xEF, 0xBF, 0xBD :: nat]"

definition second_ok :: "char \<Rightarrow> char \<Rightarrow> bool" where
  "second_ok a b \<longleftrightarrow>
     (if a = CHR 0xE0 then cont 0xA0 0xBF b else if a = CHR 0xED then cont 0x80 0x9F b
      else if a = CHR 0xF0 then cont 0x90 0xBF b else if a = CHR 0xF4 then cont 0x80 0x8F b
      else cont 0x80 0xBF b)"

fun lossy :: "string \<Rightarrow> string" where
  "lossy [] = []"
| "lossy (a # s) =
     (if cont 0 0x7F a then a # lossy s
      else if \<not> cont 0xC2 0xF4 a then replacement @ lossy s
      else case s of
        [] \<Rightarrow> replacement
      | b # s2 \<Rightarrow>
          if \<not> second_ok a b then replacement @ lossy s
          else if cont 0xC2 0xDF a then a # b # lossy s2
          else case s2 of
            [] \<Rightarrow> replacement
          | c # s3 \<Rightarrow>
              if \<not> cont 0x80 0xBF c then replacement @ lossy s2
              else if cont 0xE0 0xEF a then a # b # c # lossy s3
              else case s3 of
                [] \<Rightarrow> replacement
              | d # s4 \<Rightarrow> if \<not> cont 0x80 0xBF d then replacement @ lossy s3 else a # b # c # d # lossy s4)"

lemma lossy_samples:
  "lossy ''/bin/sh'' = ''/bin/sh''" "lossy [CHR 0xE4, CHR 0xB8, CHR 0xAD] = [CHR 0xE4, CHR 0xB8, CHR 0xAD]"
  "lossy [CHR 0xE4, CHR 0xB8, CHR ''a''] = replacement @ ''a''" "lossy [CHR 0xFF, CHR 0x80] = replacement @ replacement"
  by code_simp+

lemma lead2: "cont 0xC2 0xDF a \<Longrightarrow> cont 0xC2 0xF4 a \<and> \<not> cont 0 0x7F a \<and> (second_ok a b \<longleftrightarrow> cont 0x80 0xBF b)"
  by (auto simp: cont_def second_ok_def)

lemma lead3:
  "cont 0xE0 0xEF a \<Longrightarrow> cont 0xC2 0xF4 a \<and> \<not> cont 0 0x7F a \<and> \<not> cont 0xC2 0xDF a \<and>
     (second_ok a b \<longleftrightarrow> (if a = CHR 0xE0 then cont 0xA0 0xBF b else if a = CHR 0xED then cont 0x80 0x9F b else cont 0x80 0xBF b))"
  by (auto simp: cont_def second_ok_def)

lemma lead4:
  "cont 0xF0 0xF4 a \<Longrightarrow> cont 0xC2 0xF4 a \<and> \<not> cont 0 0x7F a \<and> \<not> cont 0xC2 0xDF a \<and> \<not> cont 0xE0 0xEF a \<and>
     (second_ok a b \<longleftrightarrow> (if a = CHR 0xF0 then cont 0x90 0xBF b else if a = CHR 0xF4 then cont 0x80 0x8F b else cont 0x80 0xBF b))"
  by (auto simp: cont_def second_ok_def)

lemma lossy_valid: "utf8_valid s \<Longrightarrow> lossy s = s"
proof (induction s rule: utf8_valid.induct)
  case (2 a s)
  consider "cont 0 0x7F a" | "\<not> cont 0 0x7F a" "cont 0xC2 0xDF a" | "\<not> cont 0 0x7F a" "\<not> cont 0xC2 0xDF a" "cont 0xE0 0xEF a"
    | "\<not> cont 0 0x7F a" "\<not> cont 0xC2 0xDF a" "\<not> cont 0xE0 0xEF a" by blast
  then show ?case
  proof cases
    case 1
    with 2 show ?thesis by simp
  next
    case c: 2
    then obtain b s2 where "s = b # s2" using 2(5) by (cases s) auto
    with c 2(2) 2(5) lead2 [OF c(2), of b] show ?thesis by simp
  next
    case c: 3
    then obtain b c' s3 where "s = b # c' # s3" using 2(5) by (cases s; cases "tl s") auto
    with c 2(3) 2(5) lead3 [OF c(3), of b] show ?thesis by simp
  next
    case c: 4
    then obtain b c' d s4 where s: "s = b # c' # d # s4" using 2(5) by (cases s; cases "tl s"; cases "tl (tl s)") auto
    with c 2(5) have l: "cont 0xF0 0xF4 a" by simp
    from s c 2(4) 2(5) lead4 [OF l, of b] show ?thesis by simp
  qed
qed simp

section \<open>Reports (lib.rs)\<close>

datatype rules_type = SelfProtectionType | LesouProtectionType | TamperProtectionType

definition rules_from_u32 :: "u32 \<Rightarrow> rules_type option" where
  "rules_from_u32 v =
     (if v = 0 then Some SelfProtectionType else if v = 1 then Some LesouProtectionType
      else if v = 2 then Some TamperProtectionType else None)"

record audit_log_info =
  al_file_path :: "string option"
  al_rename_dir :: "string option"
  al_exception_process :: "string option"
  al_md5 :: "string option"
  al_type :: u16
  al_level :: u32
  al_time :: u64
  al_notice_remark :: "string option"
  al_peripheral_name :: "string option"
  al_peripheral_remark :: "string option"
  al_peripheral_eid :: "string option"
  al_p_param :: "string option"

record edr_process_log =
  ed_uid :: string
  ed_hash :: string
  ed_p_id :: int
  ed_p_dir :: string
  ed_p_param :: "string option"
  ed_pp_hash :: string
  ed_pp_id :: int
  ed_pp_dir :: string
  ed_pp_param :: "string option"
  ed_time :: int
  ed_log_type :: int

record audit_process =
  au_time :: int
  au_name :: string
  au_vendor :: string
  au_package :: string
  au_process_id :: u32
  au_parent_id :: u32
  au_priority :: int
  au_thread_count :: int
  au_working_set_size :: int
  au_start_time :: string
  au_executable_path :: string
  au_user :: string
  au_hash :: string
  au_depends :: "string list"

record sys_net_log =
  sl_uid :: "string option"
  sl_p_id :: int
  sl_p_dir :: "string option"
  sl_res_ip :: "string option"
  sl_rs_port :: u16
  sl_proto :: u32
  sl_time :: int
  sl_log_type :: int
  sl_hash :: "string option"
  sl_source_ip :: "string option"
  sl_source_port :: u16

record open_port_log =
  op_weight :: int
  op_time :: int
  op_attack_ip :: string
  op_destination_ip :: string
  op_open_port :: int
  op_redirect_ip :: string
  op_redirect_port :: int

record self_protect_log =
  sp_file_dir :: "string option"
  sp_proc_dir :: "string option"
  sp_proc_hash :: "string option"
  sp_proc_param :: "string option"
  sp_target_dir :: "string option"
  sp_type :: u16
  sp_level :: u32
  sp_time :: u64

section \<open>The state of the event side\<close>

record 'w event_state = "'w md5_state" +
  ev_cfg :: net_info_config
  ev_poisoned :: bool
  ev_token :: "string option"
  ev_posts :: "(string \<times> string) list"
  ev_queue :: "audit_log_info list"
  ev_buffer :: "audit_log_info list"
  ev_worker :: bool
  ev_ports :: "'w ports_state"
  ev_docker :: "'w docker_state"

text \<open>\<open>ev_queue\<close> is the channel to the log worker, \<open>ev_buffer\<close> what the worker has taken from it, and
  \<open>ev_worker\<close> tells that the worker still holds the receiving end.\<close>

text \<open>\<open>ex_mem a w\<close> is the byte at the address \<open>a\<close> of the shared memory. \<open>ex_metadata\<close> tells whether a
  path is a directory and whether it is a regular file.\<close>

record ('c, 'p, 'w) event_ext =
  ex_http :: "('c, 'p, 'w) http_ext"
  ex_files :: "'w file_ext"
  ex_md5 :: "'w md5_ext"
  ex_sys :: "'w sys_ext"
  ex_net_app :: "'w net_app_ext"
  ex_json :: "json \<Rightarrow> string"
  ex_mem :: "nat \<Rightarrow> 'w \<Rightarrow> u8"
  ex_now :: "'w \<Rightarrow> int"
  ex_user_name :: "u32 \<Rightarrow> 'w \<Rightarrow> string option"
  ex_metadata :: "string \<Rightarrow> 'w \<Rightarrow> (bool \<times> bool) option"

definition ports_view :: "'w event_state \<Rightarrow> 'w ports_state" where
  "ports_view s = (ev_ports s)\<lparr>fos := fos s, write_log := write_log s\<rparr>"

definition put_ports :: "'w ports_state \<Rightarrow> 'w event_state \<Rightarrow> 'w event_state" where
  "put_ports p s = s\<lparr>fos := fos p, write_log := write_log p, ev_ports := p\<rparr>"

definition docker_view :: "'w event_state \<Rightarrow> 'w docker_state" where
  "docker_view s = (ev_docker s)\<lparr>fos := fos s, write_log := write_log s\<rparr>"

definition put_docker :: "'w docker_state \<Rightarrow> 'w event_state \<Rightarrow> 'w event_state" where
  "put_docker d s = s\<lparr>fos := fos d, write_log := write_log d, ev_docker := d\<rparr>"

abbreviation on_ports :: "('w ports_state, 'r) state \<Rightarrow> ('w event_state, 'r) state" where "on_ports \<equiv> zoom ports_view put_ports"
abbreviation on_docker :: "('w docker_state, 'r) state \<Rightarrow> ('w event_state, 'r) state" where "on_docker \<equiv> zoom docker_view put_docker"

section \<open>The configuration\<close>

definition lock_cfg :: "('w event_state, net_info_config option) state" where
  "lock_cfg = gets (\<lambda>s. if ev_poisoned s then None else Some (ev_cfg s))"

text \<open>A computation that holds the lock: its panic poisons the configuration.\<close>

definition holding_cfg :: "('w event_state, 'a option) state \<Rightarrow> ('w event_state, 'a option) state" where
  "holding_cfg m = State (\<lambda>s. case run_state m s of
       (None, t) \<Rightarrow> (None, t\<lparr>ev_poisoned := True\<rparr>)
     | (Some x, t) \<Rightarrow> (Some x, t))"

definition boot_base_url :: "('w event_state, string option) state" where
  "boot_base_url = bindP lock_cfg (\<lambda>cfg. retP (nc_server_ip_port cfg))"

section \<open>Posting\<close>

definition client_failed :: string where "client_failed = utf8 [229, 136, 155, 229, 187, 186, 32, 78, 101, 116, 67, 108, 105, 101, 110, 116, 32, 229, 164, 177, 232, 180, 165]"

definition new_net_client :: "('c, 'p, 'w) event_ext \<Rightarrow> ('w event_state, 'c net_client res option) state" where
  "new_net_client E =
     bindP boot_base_url (\<lambda>url.
       okP (gets (\<lambda>s. case net_client_new (ex_http E) (Some url) True (fos s) of
                        Inl _ \<Rightarrow> Inl client_failed
                      | Inr nc \<Rightarrow> Inr nc)))"

definition post_document ::
  "('c, 'p, 'w) event_ext \<Rightarrow> 'c net_client \<Rightarrow> string \<Rightarrow> string \<Rightarrow> ('w event_state, unit) state" where
  "post_document E nc url body = do {
     modify (\<lambda>s. s\<lparr>ev_posts := ev_posts s @ [(url, body)]\<rparr>);
     token \<leftarrow> gets ev_token;
     _ \<leftarrow> on_fos (run_state (post_data_async (ex_http E) nc url body 10 token));
     State_Monad.return ()
   }"

text \<open>What the handlers do with a vector of reports: nothing when it is empty, and otherwise a document
  that is posted when it can be built.\<close>

definition upload ::
  "('c, 'p, 'w) event_ext \<Rightarrow> 'c net_client \<Rightarrow> string \<Rightarrow> ('a list \<Rightarrow> ('w event_state, string res option) state) \<Rightarrow> 'a list
     \<Rightarrow> ('w event_state, unit option) state" where
  "upload E nc endpoint build xs =
     (if xs = [] then retP ()
      else bindP (build xs) (\<lambda>r.
             case r of
               Inl _ \<Rightarrow> retP ()
             | Inr json_str \<Rightarrow> okP (post_document E nc (opt_or [] (base_url nc) @ endpoint) json_str)))"

section \<open>Documents (build_json.rs)\<close>

definition opt_member :: "string \<Rightarrow> string option \<Rightarrow> (string \<times> json) list" where
  "opt_member k v = (case v of None \<Rightarrow> [] | Some s \<Rightarrow> [(k, JStr s)])"

definition opt_str :: "string option \<Rightarrow> json" where
  "opt_str v = (case v of None \<Rightarrow> JNull | Some s \<Rightarrow> JStr s)"

text \<open>An object whose one member is the printed array.\<close>

definition wrapped :: "('c, 'p, 'w) event_ext \<Rightarrow> string \<Rightarrow> string \<Rightarrow> json list \<Rightarrow> string res" where
  "wrapped E key empty_msg entries =
     (if entries = [] then Inl empty_msg
      else Inr (ex_json E (JObj [(key, JStr (ex_json E (JArr entries)))])))"

definition or_else :: "'a option \<Rightarrow> 'a option \<Rightarrow> 'a option" where
  "or_else a b = (case a of None \<Rightarrow> b | Some _ \<Rightarrow> a)"

definition alert_entry :: "audit_log_info \<Rightarrow> json" where
  "alert_entry log = JObj
     ([(''level'', JInt (uint (al_level log))), (''time'', JInt (uint (al_time log))), (''type'', JInt (uint (al_type log)))]
      @ opt_member ''dir'' (al_file_path log) @ opt_member ''hash'' (al_md5 log) @ opt_member ''rename_dir'' (al_rename_dir log)
      @ opt_member ''notice_remark'' (al_notice_remark log) @ opt_member ''exception_process'' (al_exception_process log)
      @ opt_member ''peripheral_name'' (al_peripheral_name log) @ opt_member ''peripheral_remark'' (al_peripheral_remark log)
      @ opt_member ''peripheral_eid'' (al_peripheral_eid log)
      @ [(''p_param'', opt_str (or_else (al_p_param log) (al_file_path log)))])"

definition build_alert_log_json :: "('c, 'p, 'w) event_ext \<Rightarrow> audit_log_info list \<Rightarrow> string res" where
  "build_alert_log_json E logs = wrapped E ''alert'' ''No valid log entries'' (map alert_entry logs)"

text \<open>A process without a digest gets the one of its file, or an empty one.\<close>

fun process_entries_json ::
  "('c, 'p, 'w) event_ext \<Rightarrow> audit_process list \<Rightarrow> ('w event_state, json list option) state" where
  "process_entries_json E [] = retP []"
| "process_entries_json E (p # ps) =
     bindP (if au_hash p = [] then bindP (get_md5 (ex_md5 E) (ex_files E) (au_executable_path p))
                                     (\<lambda>r. retP (case r of Inl _ \<Rightarrow> [] | Inr h \<Rightarrow> h))
            else retP (au_hash p)) (\<lambda>hash.
     bindP (process_entries_json E ps) (\<lambda>js.
       retP (JObj [(''id'', JInt (uint (au_process_id p))), (''user'', JStr (au_user p)), (''dir'', JStr (au_executable_path p)),
          (''hash'', JStr hash), (''copyright'', JStr ''linux gun''), (''introduce'', JStr ''linux'')] # js)))"

definition build_auto_process_list_json ::
  "('c, 'p, 'w) event_ext \<Rightarrow> audit_process list \<Rightarrow> ('w event_state, string res option) state" where
  "build_auto_process_list_json E ps =
     bindP (process_entries_json E ps) (\<lambda>js. retP (wrapped E ''proclist'' ''No valid process entries'' js))"

text \<open>\<^verbatim>\<open>as u32\<close> on an \<^verbatim>\<open>i32\<close> wraps.\<close>

definition as_u32 :: "int \<Rightarrow> json" where "as_u32 i = JInt (i mod 2 ^ 32)"

definition edr_entry :: "edr_process_log \<Rightarrow> json" where
  "edr_entry log = JObj
     [(''uid'', JStr (ed_uid log)), (''hash'', JStr (ed_hash log)), (''p_id'', as_u32 (ed_p_id log)), (''p_dir'', JStr (ed_p_dir log)),
      (''p_param'', JStr (opt_or (ed_p_dir log) (ed_p_param log))), (''pp_hash'', JStr (ed_pp_hash log)),
      (''pp_id'', as_u32 (ed_pp_id log)), (''pp_dir'', JStr (ed_pp_dir log)), (''pp_param'', JStr (opt_or [] (ed_pp_param log))),
      (''log_type'', as_u32 (ed_log_type log)), (''time'', JInt (ed_time log))]"

definition build_batch_process_edr_json :: "('c, 'p, 'w) event_ext \<Rightarrow> edr_process_log list \<Rightarrow> string res" where
  "build_batch_process_edr_json E logs = wrapped E ''list'' ''No valid EDR log entries'' (map edr_entry logs)"

definition net_log_json :: "sys_net_log \<Rightarrow> json" where
  "net_log_json l = JObj
     [(''uid'', opt_str (sl_uid l)), (''p_id'', JInt (sl_p_id l)), (''p_dir'', opt_str (sl_p_dir l)), (''res_ip'', opt_str (sl_res_ip l)),
      (''rs_port'', JInt (uint (sl_rs_port l))), (''proto'', JInt (uint (sl_proto l))), (''time'', JInt (sl_time l)),
      (''log_type'', JInt (sl_log_type l)), (''hash'', opt_str (sl_hash l)), (''source_ip'', opt_str (sl_source_ip l)),
      (''source_port'', JInt (uint (sl_source_port l)))]"

definition build_batch_syslog_net_json :: "('c, 'p, 'w) event_ext \<Rightarrow> sys_net_log list \<Rightarrow> string res" where
  "build_batch_syslog_net_json E logs = wrapped E ''list'' ''No valid log entries'' (map net_log_json logs)"

definition open_port_json :: "open_port_log \<Rightarrow> json" where
  "open_port_json l = JObj
     [(''weight'', JInt (op_weight l)), (''time'', JInt (op_time l)), (''attack_ip'', JStr (op_attack_ip l)),
      (''destination_ip'', JStr (op_destination_ip l)), (''open_port'', JInt (op_open_port l)),
      (''redirect_ip'', JStr (op_redirect_ip l)), (''redirect_port'', JInt (op_redirect_port l))]"

definition build_open_port_json :: "('c, 'p, 'w) event_ext \<Rightarrow> open_port_log list \<Rightarrow> string res" where
  "build_open_port_json E logs = wrapped E ''alert'' ''No valid open port log entries'' (map open_port_json logs)"

definition self_protect_entry :: "self_protect_log \<Rightarrow> json" where
  "self_protect_entry log = JObj
     ([(''level'', JInt (uint (sp_level log))), (''time'', JInt (uint (sp_time log))), (''type'', JInt (uint (sp_type log)))]
      @ opt_member ''proc_dir'' (sp_proc_dir log) @ opt_member ''proc_hash'' (sp_proc_hash log)
      @ opt_member ''proc_param'' (sp_proc_param log) @ opt_member ''file_dir'' (sp_file_dir log)
      @ opt_member ''target_dir'' (sp_target_dir log))"

definition build_self_protect_alert_log_json :: "('c, 'p, 'w) event_ext \<Rightarrow> self_protect_log list \<Rightarrow> string res" where
  "build_self_protect_alert_log_json E logs = wrapped E ''alert'' ''No valid log entries'' (map self_protect_entry logs)"

section \<open>Records in shared memory\<close>

record netlink_netlog =
  nn_start_idx :: u32
  nn_end_idx :: u32
  nn_max_idx :: u32

definition load :: "('c, 'p, 'w) event_ext \<Rightarrow> 'w \<Rightarrow> nat \<Rightarrow> nat \<Rightarrow> u8 list" where
  "load E w a n = map (\<lambda>i. ex_mem E (a + i) w) [0..<n]"

text \<open>The end of the mapped memory behind an address; the address itself when it is not mapped.\<close>

definition map_end :: "(nat \<times> nat) list \<Rightarrow> nat \<Rightarrow> nat" where
  "map_end maps a = fold max (map (\<lambda>m. fst m + snd m) (filter (\<lambda>m. fst m \<le> a \<and> a < fst m + snd m) maps)) a"

text \<open>\<^verbatim>\<open>CStr::from_ptr\<close>: the bytes up to the first zero; it has to come before the end of the mapping.\<close>

definition read_cstr :: "('c, 'p, 'w) event_ext \<Rightarrow> (nat \<times> nat) list \<Rightarrow> 'w \<Rightarrow> nat \<Rightarrow> u8 list option" where
  "read_cstr E maps w a =
     (let bs = load E w a (map_end maps a - a) in if 0 \<in> set bs then Some (takeWhile (\<lambda>b. b \<noteq> 0) bs) else None)"

text \<open>The message: \<^verbatim>\<open>read_unaligned\<close> at the start of the data, which has to be there.\<close>

definition read_netlog :: "u8 list \<Rightarrow> netlink_netlog option" where
  "read_netlog data =
     (if length data < 12 then None
      else Some \<lparr>nn_start_idx = from_le (take 4 data), nn_end_idx = from_le (take 4 (drop 4 data)), nn_max_idx = from_le (take 4 (drop 8 data))\<rparr>)"

definition too_short :: "u32 \<Rightarrow> string" where
  "too_short data_len = utf8 [230, 149, 176, 230, 141, 174, 233, 149, 191, 229, 186, 166, 229, 164, 170, 229, 176, 143, 239, 188, 140, 230, 156, 159, 230, 156, 155, 232, 135, 179, 229, 176, 145, 32] @ ''12'' @ utf8 [32, 229, 173, 151, 232, 138, 130, 239, 188, 140, 229, 174, 158, 233, 153, 133, 230, 152, 175, 32] @ show_word data_len @ utf8 [32, 229, 173, 151, 232, 138, 130]"

definition not_initialized :: string where "not_initialized = ''ZcopyMgr file audit not initialized''"

text \<open>The records that a message names: a run, or, when it carries a maximum, all but a run.\<close>

definition netlog_indices :: "netlink_netlog \<Rightarrow> nat list res" where
  "netlog_indices n =
     (if nn_max_idx n = 0
      then (if nn_end_idx n \<le> nn_start_idx n
            then Inl (utf8 [230, 151, 160, 230, 149, 136, 231, 180, 162, 229, 188, 149, 232, 140, 131, 229, 155, 180, 58, 32, 115, 116, 97, 114, 116, 95, 105, 100, 120, 61] @ show_word (nn_start_idx n) @ '' >= end_idx='' @ show_word (nn_end_idx n))
            else Inr [unat (nn_start_idx n)..<unat (nn_end_idx n)])
      else Inr ([0..<unat (nn_start_idx n)] @ [unat (nn_end_idx n)..<unat (nn_max_idx n)]))"

text \<open>The checks at the start of every handler; \<open>ready\<close> is the flag it looks at.\<close>

definition netlog_run :: "bool \<Rightarrow> u8 list \<Rightarrow> u32 \<Rightarrow> netlink_netlog res option" where
  "netlog_run ready data data_len =
     (if unat data_len < 12 then Some (Inl (too_short data_len))
      else Option.bind (read_netlog data) (\<lambda>n. Some (if ready then Inr n else Inl not_initialized)))"

text \<open>Visiting records: a missing buffer is skipped, an empty one panics.\<close>

fun iterate :: "(nat \<Rightarrow> access) \<Rightarrow> (nat \<Rightarrow> ('s, 'a option) state) \<Rightarrow> nat list \<Rightarrow> ('s, 'a list option) state" where
  "iterate get f [] = retP []"
| "iterate get f (i # is) =
     (case get i of
        NoData \<Rightarrow> iterate get f is
      | Panic \<Rightarrow> panicP
      | At a \<Rightarrow> bindP (f a) (\<lambda>x. bindP (iterate get f is) (\<lambda>xs. retP (x # xs))))"

section \<open>What the shared operations change\<close>

text \<open>\<open>event_blind P\<close>: \<open>P\<close> does not look at the world, the log of writes and the cache of digests.\<close>

abbreviation event_blind :: "('w event_state \<Rightarrow> bool) \<Rightarrow> bool" where "event_blind \<equiv> md5_blind"

lemma event_parts [simp]:
  "ev_ports (s\<lparr>fos := w\<rparr>) = ev_ports s" "ev_ports (s\<lparr>write_log := l\<rparr>) = ev_ports s" "ev_ports (s\<lparr>md5_cache := c\<rparr>) = ev_ports s"
  "ev_docker (s\<lparr>fos := w\<rparr>) = ev_docker s" "ev_docker (s\<lparr>write_log := l\<rparr>) = ev_docker s" "ev_docker (s\<lparr>md5_cache := c\<rparr>) = ev_docker s"
  by (cases s, simp)+

text \<open>The table of ports without the copies of the world and the log that it was last run with.\<close>

definition ports_core :: "'w ports_state \<Rightarrow> (u16 \<times> port_info) list \<times> (string \<times> port_info) list \<times> u16 list" where
  "ports_core p = (port_map p, port_str_map p, last_ports p)"

lemma ports_core_world [simp]: "ports_core (p\<lparr>fos := w, write_log := l\<rparr>) = ports_core p"
  by (simp add: ports_core_def)

text \<open>\<open>posted s docs t\<close>: from \<open>s\<close> to \<open>t\<close> the documents were posted, and besides only the world, the log of
  writes and the cache of digests changed, or the configuration was poisoned.\<close>

definition posted :: "'w event_state \<Rightarrow> (string \<times> string) list \<Rightarrow> 'w event_state \<Rightarrow> bool" where
  "posted s docs t \<longleftrightarrow> ev_posts t = ev_posts s @ docs \<and> ev_cfg t = ev_cfg s \<and> ev_token t = ev_token s \<and> ev_queue t = ev_queue s \<and> ev_buffer t = ev_buffer s \<and> ev_worker t = ev_worker s
     \<and> ports_core (ev_ports t) = ports_core (ev_ports s) \<and> ev_docker t = ev_docker s \<and> (ev_poisoned s \<longrightarrow> ev_poisoned t)"

lemma posted_blind: "event_blind (posted s docs)"
  by (simp add: md5_blind_def posted_def)

lemma posted_refl: "posted s [] s"
  by (simp add: posted_def)

lemma posted_trans: "posted s d t \<Longrightarrow> posted t e u \<Longrightarrow> posted s (d @ e) u"
  by (simp add: posted_def)

lemma healthy_blind: "event_blind (\<lambda>s. \<not> ev_poisoned s)"
  by (simp add: md5_blind_def)

lemma holding_cfg_keeps:
  assumes "keeps P m" and "\<And>s. P s \<Longrightarrow> P (s\<lparr>ev_poisoned := True\<rparr>)"
  shows "keeps P (holding_cfg m)"
proof (rule keepsI)
  fix s r t
  assume p: "P s" and r: "run_state (holding_cfg m) s = (r, t)"
  obtain q u where q: "run_state m s = (q, u)" by (rule prod.exhaust)
  from keepsD_run [OF assms(1) p q] have "P u" .
  with r q assms(2) show "P t" by (cases q) (auto simp: holding_cfg_def)
qed

lemma unhurt_holding_cfg [unhurt_intros]: "unhurt P m \<Longrightarrow> unhurt P (holding_cfg m)"
  unfolding unhurt_def holding_cfg_def by fastforce

lemma holding_cfg_some: "run_state (holding_cfg m) s = (Some x, t) \<longleftrightarrow> run_state m s = (Some x, t)"
  by (auto simp: holding_cfg_def split: prod.splits option.splits)

lemma unhurt_lock_cfg: "unhurt (\<lambda>s. \<not> ev_poisoned s) lock_cfg"
  by (simp add: unhurt_def lock_cfg_def)

lemma keeps_lock_cfg [keep_intros]: "keeps P lock_cfg"
  unfolding lock_cfg_def by (rule keeps_gets)

lemma keeps_new_net_client [keep_intros]: "keeps P (new_net_client E)"
  unfolding new_net_client_def boot_base_url_def by (intro keep_intros)

lemma unhurt_new_net_client: "unhurt (\<lambda>s. \<not> ev_poisoned s) (new_net_client E)"
  unfolding new_net_client_def boot_base_url_def by (intro unhurt_intros unhurt_lock_cfg keep_intros)

lemma new_net_client_url: "run_state (new_net_client E) s = (Some (Inr nc), t) \<Longrightarrow> base_url nc = Some (nc_server_ip_port (ev_cfg s))"
  by (auto simp: new_net_client_def boot_base_url_def lock_cfg_def net_client_new_def Let_def split: if_splits sum.splits)

lemma post_document_posted: "posted s [(url, body)] (snd (run_state (post_document E nc url body) s))"
  by (auto simp: post_document_def run_on_fos posted_def)

lemma unhurt_post_document: "unhurt (\<lambda>s. \<not> ev_poisoned s) (okP (post_document E nc url body))"
  by (auto simp: unhurt_def post_document_def run_on_fos)

lemma posted_chain: "keeps (posted s d) m \<Longrightarrow> posted s d t \<Longrightarrow> run_state m t = (r, u) \<Longrightarrow> posted s d u"
  by (rule keepsD_run)

text \<open>An upload posts at most one document, which was built from its reports.\<close>

lemma upload_posted:
  assumes "run_state (upload E nc ep build xs) s = (r, t)" and "\<And>d. keeps (posted s d) (build xs)"
  shows "\<exists>docs. posted s docs t \<and> (docs = [] \<or> (\<exists>body q u. xs \<noteq> [] \<and> docs = [(opt_or [] (base_url nc) @ ep, body)]
           \<and> run_state (build xs) s = (Some (Inr body), u)))"
proof (cases "xs = []")
  case True
  with assms(1) posted_refl [of s] show ?thesis by (auto simp: upload_def)
next
  case False
  obtain q u where q: "run_state (build xs) s = (q, u)" by (rule prod.exhaust)
  have u: "posted s [] u" using keepsD_run [OF assms(2) posted_refl q] .
  show ?thesis
  proof (cases "\<exists>b. q = Some (Inr b)")
    case True
    then obtain b where b: "q = Some (Inr b)" by blast
    with assms(1) False q have "posted u [(opt_or [] (base_url nc) @ ep, b)] t"
      by (auto simp: upload_def post_document_posted)
    with u posted_trans [of s "[]" u] b q False show ?thesis by (intro exI [of _ "[(opt_or [] (base_url nc) @ ep, b)]"]) auto
  next
    case no: False
    with assms(1) False q u show ?thesis by (auto simp: upload_def split: option.splits sum.splits)
  qed
qed

lemma unhurt_upload: "unhurt (\<lambda>s. \<not> ev_poisoned s) (build xs) \<Longrightarrow> unhurt (\<lambda>s. \<not> ev_poisoned s) (upload E nc ep build xs)"
  unfolding upload_def by (intro unhurt_intros unhurt_post_document) auto

text \<open>Visiting records.\<close>

lemma keeps_iterate: "(\<And>a. keeps P (f a)) \<Longrightarrow> keeps P (iterate get f is)"
  by (induction "is") (auto split: access.split intro!: keep_intros)

lemma unhurt_iterate:
  assumes "\<And>i. i \<in> set is \<Longrightarrow> get i \<noteq> Panic" and "\<And>i a. i \<in> set is \<Longrightarrow> get i = At a \<Longrightarrow> unhurt P (f a)"
  shows "unhurt P (iterate get f is)"
  using assms
proof (induction "is")
  case (Cons i "is")
  show ?case
  proof (cases "get i")
    case (At a)
    with Cons show ?thesis by (auto intro!: unhurt_intros)
  qed (use Cons in auto)
qed (simp add: unhurt_retP)

text \<open>The kernel module does not write to the records while they are read.\<close>

definition still_memory :: "('c, 'p, 'w) event_ext \<Rightarrow> bool" where
  "still_memory E \<longleftrightarrow> (\<forall>a v w. ex_mem E a v = ex_mem E a w)"

lemma still_load: "still_memory E \<Longrightarrow> load E w b n = load E v b n"
  unfolding load_def still_memory_def by (metis (no_types, lifting))

text \<open>Every value comes from one call, in a state that satisfies what the calls keep.\<close>

lemma iterate_values:
  assumes "run_state (iterate get f is) s = (Some xs, t)" and "P s" and "\<And>a. keeps P (f a)" and "x \<in> set xs"
  shows "\<exists>i a u v. i \<in> set is \<and> get i = At a \<and> P u \<and> run_state (f a) u = (Some x, v)"
  using assms(1,2,4)
proof (induction "is" arbitrary: s xs)
  case (Cons i "is")
  show ?case
  proof (cases "get i")
    case NoData
    with Cons show ?thesis by fastforce
  next
    case (At a)
    with Cons.prems(1) obtain y u ys where y: "run_state (f a) s = (Some y, u)" "run_state (iterate get f is) u = (Some ys, t)" "xs = y # ys"
      by (auto split: prod.splits option.splits)
    have "P u" using keepsD_run [OF assms(3) Cons.prems(2) y(1)] .
    show ?thesis
    proof (cases "x = y")
      case True
      with At y(1) Cons.prems(2) show ?thesis by (metis list.set_intros(1))
    next
      case False
      with y(3) Cons.prems(3) have "x \<in> set ys" by simp
      from Cons.IH [OF y(2) \<open>P u\<close> this] show ?thesis by (metis list.set_intros(2))
    qed
  next
    case Panic
    with Cons show ?thesis by simp
  qed
qed simp

text \<open>A string that ends inside a piece of a mapping is read without leaving it.\<close>

lemma fold_max_ge: "(x :: nat) \<in> set xs \<Longrightarrow> x \<le> fold max xs y" "y \<le> fold max xs y"
proof (induction xs arbitrary: y)
  case (Cons z xs)
  { case 1 show ?case using Cons(1) [of "max z y"] Cons(2) [of "max z y"] 1 by auto }
  { case 2 show ?case using Cons(2) [of "max z y"] by simp }
qed simp_all

lemma map_end_ge: "(p, sz) \<in> set maps \<Longrightarrow> p \<le> a \<Longrightarrow> a < p + sz \<Longrightarrow> p + sz \<le> map_end maps a"
  unfolding map_end_def by (rule fold_max_ge(1)) force

lemma read_cstr_inside:
  assumes "(p, sz) \<in> set maps" and "p \<le> a" and "a + n \<le> p + sz" and "0 \<in> set (load E w a n)"
  shows "\<exists>bs. read_cstr E maps w a = Some bs"
proof -
  have "n \<noteq> 0" using assms(4) by (auto simp: load_def)
  then have "a + n \<le> map_end maps a" using map_end_ge [OF assms(1,2)] assms(3) by simp
  then have "{0..<n} \<subseteq> {0..<map_end maps a - a}" by auto
  then have "set (load E w a n) \<subseteq> set (load E w a (map_end maps a - a))" by (auto simp: load_def)
  with assms(4) show ?thesis by (auto simp: read_cstr_def Let_def)
qed

section \<open>A small host\<close>

definition event_http :: "(unit, unit, unit) http_ext" where
  "event_http = \<lparr>x_env_var = (\<lambda>v w. Inl ''not present''), x_proxy_http = (\<lambda>u. Inr ()), x_build = (\<lambda>b. Inr ()),
     x_send = (\<lambda>c rq w. (Inr \<lparr>st_success = True, st_client_error = False, st_display = ''200 OK'', rs_text = Inr ''{}'', rs_bytes = Inr ''{}''\<rparr>, w)),
     x_url_parse = (\<lambda>u. Inl ''relative URL without a base''), x_lookup_host = (\<lambda>h w. (Inr [], w))\<rparr>"

text \<open>All files exist, were modified in the second 5 and hold one letter; a document prints as the list
  of its keys.\<close>

definition event_md5 :: "unit md5_ext" where
  "event_md5 = \<lparr>mx_modified = (\<lambda>p w. Inr (Inr 5)), mx_exists = (\<lambda>p w. True), mx_uuid = (\<lambda>w. ([], w)), mx_create = (\<lambda>p w. (Inr (), w)),
     mx_read = (\<lambda>p w. Inr ''x''), mx_digest = (\<lambda>b. ''d'' @ b)\<rparr>"

fun json_keys :: "json \<Rightarrow> string" where
  "json_keys (JObj kvs) = join '','' (map fst kvs)"
| "json_keys (JArr js) = show_nat (length js)"
| "json_keys j = []"

definition lab_event :: "(nat \<Rightarrow> u8) \<Rightarrow> (unit, unit, unit) event_ext" where
  "lab_event mem = \<lparr>ex_http = event_http, ex_files = free_files, ex_md5 = event_md5, ex_sys = lab_shell, ex_net_app = lab_net_app,
     ex_json = json_keys, ex_mem = (\<lambda>a w. mem a), ex_now = (\<lambda>w. 9), ex_user_name = (\<lambda>u w. None), ex_metadata = (\<lambda>p w. Some (False, True))\<rparr>"

definition lab_event_state :: "net_info_config \<Rightarrow> unit event_state" where
  "lab_event_state cfg = \<lparr>fos = (), write_log = [], md5_cache = [], ev_cfg = cfg, ev_poisoned = False, ev_token = None, ev_posts = [],
     ev_queue = [], ev_buffer = [], ev_worker = True, ev_ports = ports_init (), ev_docker = docker_init ()\<rparr>"

lemma lab_event_fresh: "no_old_files (ex_md5 (lab_event mem))"
  by (simp add: no_old_files_def lab_event_def event_md5_def)

abbreviation lab_z :: "unit uio_state" where "lab_z \<equiv> snd (run_state (zcopy_new lab_uio) lab_uio_start)"

end
