(* ===== verification/Process_Audit.thy ===== *)
theory Process_Audit
  imports Report_Base
begin

text \<open>
  \<^verbatim>\<open>crates/reporter/src/process_audit.rs\<close>: the kernel module reports started processes in a shared
  buffer; the handler turns the records that a message names into the upload of new processes, the
  alerts and the process log.
\<close>

section \<open>One record\<close>

record av_process_info =
  ap_union :: "u8 list"
  ap_type :: "32 word"
  ap_flags :: u32

definition process_info_at :: "('c, 'p, 'w) event_ext \<Rightarrow> 'w \<Rightarrow> nat \<Rightarrow> av_process_info" where
  "process_info_at E w a = \<lparr>ap_union = load E w a 16, ap_type = from_le (load E w (a + 16) 4), ap_flags = from_le (load E w (a + 20) 4)\<rparr>"

lemma process_info_offsets: "field_offsets 0 AvProcessInfo = [0, 16, 20, 24]"
  by code_simp

definition bin_to_hex :: "u8 list \<Rightarrow> string" where
  "bin_to_hex data = concat (map (\<lambda>b. [hex_digit (unat b div 16), hex_digit (unat b mod 16)]) data)"

definition get_user_name :: "('c, 'p, 'w) event_ext \<Rightarrow> u32 \<Rightarrow> 'w \<Rightarrow> string" where
  "get_user_name E uid w = opt_or ''root'' (ex_user_name E uid w)"

definition get_process_path :: "('c, 'p, 'w) event_ext \<Rightarrow> u32 \<Rightarrow> 'w \<Rightarrow> string option" where
  "get_process_path E pid w = na_read_link (ex_net_app E) (''/proc/'' @ show_word pid @ ''/exe'') w"

definition file_exists :: "('c, 'p, 'w) event_ext \<Rightarrow> string \<Rightarrow> 'w \<Rightarrow> bool" where
  "file_exists E path w = mx_exists (ex_md5 E) path w"

definition md5_global :: "('c, 'p, 'w) event_ext \<Rightarrow> string \<Rightarrow> ('w event_state, string res option) state" where
  "md5_global E path = get_md5 (ex_md5 E) (ex_files E) path"

definition report_time :: nat where "report_time = 1692760326"

text \<open>The correction of type and level when they contradict the configured mode.\<close>

definition reconcile :: "bool \<Rightarrow> u16 \<Rightarrow> u32 \<Rightarrow> u16 \<times> u32" where
  "reconcile proc_protect n_type n_level =
     (if proc_protect
      then (if n_level = 2 \<or> n_type = 1001 \<or> n_type = 1002
            then (if n_type = 1001 then 1101 else if n_type = 1002 then 1102 else n_type, 3)
            else (n_type, n_level))
      else (if n_level = 3 \<or> n_type = 1101 \<or> n_type = 1102
            then (if n_type = 1101 then 1001 else if n_type = 1102 then 1002 else n_type, 2)
            else (n_type, n_level)))"

definition new_process :: "('c, 'p, 'w) event_ext \<Rightarrow> 'w \<Rightarrow> av_process_info \<Rightarrow> string \<Rightarrow> string \<Rightarrow> audit_process list" where
  "new_process E w info p_dir hash =
     (if ap_type info = 1101 \<or> ap_type info = 1001
      then [\<lparr>au_time = int report_time, au_name = [], au_vendor = [], au_package = [], au_process_id = av_pid (ap_union info),
             au_parent_id = av_ppid (ap_union info), au_priority = 0, au_thread_count = 0, au_working_set_size = 0, au_start_time = [],
             au_executable_path = p_dir, au_user = get_user_name E (av_uid (ap_union info)) w, au_hash = hash, au_depends = []\<rparr>]
      else [])"

definition process_alert :: "net_info_config \<Rightarrow> av_process_info \<Rightarrow> string \<Rightarrow> string \<Rightarrow> audit_log_info list" where
  "process_alert cfg info p_dir hash =
     (case reconcile (nc_proc_protect cfg) (ucast (ap_type info)) (ucast (fl_level (flags_parsed (ap_flags info)))) of
        (n_type, n_level) \<Rightarrow>
          if 0 < n_level \<and> 0 < n_type
          then [\<lparr>al_file_path = Some p_dir, al_rename_dir = None, al_exception_process = None, al_md5 = Some hash, al_type = n_type,
                 al_level = n_level, al_time = of_nat report_time, al_notice_remark = None, al_peripheral_name = None,
                 al_peripheral_remark = None, al_peripheral_eid = None, al_p_param = None\<rparr>]
          else [])"

text \<open>The parent for the process log, \<open>None\<close> where the function returns without a log.\<close>

definition parent_of ::
  "('c, 'p, 'w) event_ext \<Rightarrow> string list \<Rightarrow> av_process_info \<Rightarrow> ('w event_state, (string \<times> string) option option) state" where
  "parent_of E parts info = do {
     w \<leftarrow> gets fos;
     case parts of
       _ # pp_dir # _ \<Rightarrow>
         if file_exists E pp_dir w
         then bindP (md5_global E pp_dir) (\<lambda>r. retP (case r of Inl _ \<Rightarrow> None | Inr pp_hash \<Rightarrow> Some (pp_dir, pp_hash)))
         else retP (Some (pp_dir, []))
     | _ \<Rightarrow>
         (case get_process_path E (av_ppid (ap_union info)) w of
            None \<Rightarrow> retP (Some ([], []))
          | Some pp \<Rightarrow>
              if file_exists E pp w
              then bindP (md5_global E pp) (\<lambda>r. retP (case r of Inl _ \<Rightarrow> None | Inr pp_hash \<Rightarrow> Some (pp, pp_hash)))
              else retP (Some ([], [])))
   }"

definition edr_log ::
  "('c, 'p, 'w) event_ext \<Rightarrow> net_info_config \<Rightarrow> string list \<Rightarrow> av_process_info \<Rightarrow> string \<Rightarrow> string
     \<Rightarrow> ('w event_state, edr_process_log list option) state" where
  "edr_log E cfg parts info p_dir hash =
     (if fl_is_docker_process (flags_parsed (ap_flags info)) \<or> \<not> nc_syslog_process_switch cfg then retP []
      else bindP (parent_of E parts info) (\<lambda>parent. retP
        (case parent of
           None \<Rightarrow> []
         | Some (pp_dir, pp_hash) \<Rightarrow>
             if pp_hash = [] then []
             else [\<lparr>ed_uid = show_int (sint (av_uid (ap_union info))), ed_hash = hash, ed_p_id = sint (av_pid (ap_union info)),
                    ed_p_dir = p_dir, ed_p_param = None, ed_pp_hash = pp_hash, ed_pp_id = sint (av_ppid (ap_union info)),
                    ed_pp_dir = pp_dir, ed_pp_param = None, ed_time = int report_time, ed_log_type = 4\<rparr>])))"

type_synonym process_reports = "audit_process list \<times> audit_log_info list \<times> edr_process_log list"

text \<open>The part of \<^verbatim>\<open>process_one\<close> that runs while the configuration is locked.\<close>

definition process_record ::
  "('c, 'p, 'w) event_ext \<Rightarrow> net_info_config \<Rightarrow> av_process_info \<Rightarrow> string \<Rightarrow> ('w event_state, process_reports option) state" where
  "process_record E cfg info path_str = do {
     w \<leftarrow> gets fos;
     let parts = split_char (CHR '';'') path_str;
     let is_docker = fl_is_docker_process (flags_parsed (ap_flags info));
     let p_dir = hd parts;
     if \<not> is_docker \<and> (p_dir = [] \<or> \<not> file_exists E p_dir w) then retP ([], [], [])
     else let p_dir = (if is_docker then p_dir @ '';docker'' else p_dir) in
       bindP (if is_docker then retP (Inr (bin_to_hex (ap_union info))) else md5_global E p_dir) (\<lambda>r.
         case r of
           Inl _ \<Rightarrow> retP ([], [], [])
         | Inr hash \<Rightarrow>
             bindP (okP (gets fos)) (\<lambda>w.
             bindP (edr_log E cfg parts info p_dir hash) (\<lambda>edr. retP
               (if nc_proc_switch cfg then new_process E w info p_dir hash else [],
                if nc_proc_switch cfg then process_alert cfg info p_dir hash else [],
                edr))))
   }"

text \<open>The path starts at byte 24 of the record.\<close>

definition process_one :: "('c, 'p, 'w) event_ext \<Rightarrow> (nat \<times> nat) list \<Rightarrow> nat \<Rightarrow> ('w event_state, process_reports option) state" where
  "process_one E maps a = do {
     w \<leftarrow> gets fos;
     case read_cstr E maps w (a + 24) of
       None \<Rightarrow> panicP
     | Some bs \<Rightarrow>
         if \<not> utf8_valid (text_of_bytes bs) then retP ([], [], [])
         else bindP lock_cfg (\<lambda>cfg. holding_cfg (process_record E cfg (process_info_at E w a) (text_of_bytes bs)))
   }"

section \<open>The handler\<close>

definition upload_processes ::
  "('c, 'p, 'w) event_ext \<Rightarrow> 'c net_client \<Rightarrow> process_reports list \<Rightarrow> ('w event_state, unit option) state" where
  "upload_processes E nc rs =
     bindP (upload E nc ''/v1/autouploadprocess'' (build_auto_process_list_json E) (concat (map fst rs))) (\<lambda>_.
     bindP (upload E nc ''/v1/alertupload'' (\<lambda>l. retP (build_alert_log_json E l)) (concat (map (fst \<circ> snd) rs))) (\<lambda>_.
       upload E nc ''/v1/putsyslog'' (\<lambda>l. retP (build_batch_process_edr_json E l)) (concat (map (snd \<circ> snd) rs))))"

definition report_processes ::
  "('c, 'p, 'w) event_ext \<Rightarrow> 'v uio_state \<Rightarrow> nat list \<Rightarrow> ('w event_state, unit res option) state" where
  "report_processes E z is =
     bindP (iterate (get_process_audit_data (mgr z)) (process_one E (live_maps z)) is) (\<lambda>rs.
     tryP (new_net_client E) (\<lambda>nc.
     bindP (upload_processes E nc rs) (\<lambda>_. retP (Inr ()))))"

definition handle_process_zcopy_oper ::
  "('c, 'p, 'w) event_ext \<Rightarrow> 'v uio_state \<Rightarrow> u8 list \<Rightarrow> u32 \<Rightarrow> ('w event_state, unit res option) state" where
  "handle_process_zcopy_oper E z data data_len =
     tryP (State_Monad.return (netlog_run (process_audit_succeed (mgr z)) data data_len)) (\<lambda>n.
     tryP (retP (netlog_indices n)) (report_processes E z))"

section \<open>Alerts and the mode of protection\<close>

text \<open>What the mode demands, stated per value: a type that names a started or an ended process has the
  number of the mode, and other types stay; the level is that of the mode when the record has the
  level of one of the modes or a type of the other mode, and stays otherwise.\<close>

definition mode_type :: "bool \<Rightarrow> u16 \<Rightarrow> u16" where
  "mode_type protecting ty =
     (if ty \<in> {1001, 1101} then (if protecting then 1101 else 1001)
      else if ty \<in> {1002, 1102} then (if protecting then 1102 else 1002) else ty)"

definition mode_level :: "bool \<Rightarrow> u16 \<Rightarrow> u32 \<Rightarrow> u32" where
  "mode_level protecting ty level =
     (if level \<in> {2, 3} \<or> mode_type protecting ty \<noteq> ty then (if protecting then 3 else 2) else level)"

lemma reconcile_mode: "reconcile protecting ty level = (mode_type protecting ty, mode_level protecting ty level)"
  by (simp add: reconcile_def mode_type_def mode_level_def)

definition of_mode :: "bool \<Rightarrow> av_process_info \<Rightarrow> audit_log_info \<Rightarrow> bool" where
  "of_mode protecting info l \<longleftrightarrow>
     (let ty = ucast (ap_type info); level = ucast (fl_level (flags_parsed (ap_flags info))) in
      al_type l = mode_type protecting ty \<and> al_level l = mode_level protecting ty level \<and> 0 < al_type l \<and> 0 < al_level l)"

lemma process_alert_of_mode: "l \<in> set (process_alert cfg info p_dir hash) \<Longrightarrow> of_mode (nc_proc_protect cfg) info l"
  by (auto simp: process_alert_def reconcile_mode of_mode_def split: if_splits)

lemma keeps_md5_global: "event_blind P \<Longrightarrow> keeps P (md5_global E path)"
  unfolding md5_global_def by (rule keeps_get_md5)

lemma keeps_parent_of: "event_blind P \<Longrightarrow> keeps P (parent_of E parts info)"
  unfolding parent_of_def by (intro keep_intros) (auto split: list.splits intro!: keep_intros keeps_md5_global)

lemma keeps_edr_log: "event_blind P \<Longrightarrow> keeps P (edr_log E cfg parts info p_dir hash)"
  unfolding edr_log_def by (intro keep_intros keeps_parent_of)

lemma keeps_process_record: "event_blind P \<Longrightarrow> keeps P (process_record E cfg info path_str)"
  unfolding process_record_def Let_def by (intro keep_intros keeps_edr_log keeps_md5_global)

lemma keeps_process_one:
  "event_blind P \<Longrightarrow> (\<And>s. P s \<Longrightarrow> P (s\<lparr>ev_poisoned := True\<rparr>)) \<Longrightarrow> keeps P (process_one E maps a)"
  unfolding process_one_def by (intro keep_intros holding_cfg_keeps keeps_process_record)

lemma process_one_alerts:
  assumes "run_state (process_one E maps a) s = (Some (ps, ls, es), t)" and "l \<in> set ls"
  shows "of_mode (nc_proc_protect (ev_cfg s)) (process_info_at E (fos s) a) l"
  using assms
  by (auto simp: process_one_def lock_cfg_def holding_cfg_some process_record_def Let_def process_alert_of_mode
      split: option.splits if_splits prod.splits sum.splits)

lemma still_info: "still_memory E \<Longrightarrow> process_info_at E w a = process_info_at E v a"
  by (simp add: process_info_at_def still_load [of E w _ _ v])

lemma keeps_entries_json: "event_blind P \<Longrightarrow> keeps P (process_entries_json E ps)"
  by (induction ps) (auto intro!: keep_intros keeps_get_md5)

lemma keeps_build_auto: "event_blind P \<Longrightarrow> keeps P (build_auto_process_list_json E ps)"
  unfolding build_auto_process_list_json_def by (intro keep_intros keeps_entries_json)

lemma unchanged_one: "keeps (posted s d) (process_one E maps a)"
  by (rule keeps_process_one [OF posted_blind]) (simp add: posted_def)

text \<open>The three uploads: where their documents go and what they were built from.\<close>

lemma upload_processes_posted:
  assumes "run_state (upload_processes E nc rs) s = (r, t)"
  shows "\<exists>docs. posted s docs t \<and> (\<forall>e \<in> set docs. fst e = opt_or [] (base_url nc) @ ''/v1/alertupload'' \<longrightarrow>
           concat (map (fst \<circ> snd) rs) \<noteq> [] \<and> build_alert_log_json E (concat (map (fst \<circ> snd) rs)) = Inr (snd e))"
proof -
  let ?b = "opt_or [] (base_url nc)"
  obtain r1 s1 where 1: "run_state (upload E nc ''/v1/autouploadprocess'' (build_auto_process_list_json E) (concat (map fst rs))) s = (r1, s1)"
    by (rule prod.exhaust)
  obtain r2 s2 where 2: "run_state (upload E nc ''/v1/alertupload'' (\<lambda>l. retP (build_alert_log_json E l)) (concat (map (fst \<circ> snd) rs))) s1 = (r2, s2)"
    by (rule prod.exhaust)
  obtain r3 s3 where 3: "run_state (upload E nc ''/v1/putsyslog'' (\<lambda>l. retP (build_batch_process_edr_json E l)) (concat (map (snd \<circ> snd) rs))) s2 = (r3, s3)"
    by (rule prod.exhaust)
  obtain d1 where d1: "posted s d1 s1" "d1 = [] \<or> (\<exists>b. d1 = [(?b @ ''/v1/autouploadprocess'', b)])"
    using upload_posted [OF 1 keeps_build_auto [OF posted_blind]] by auto
  obtain d2 where d2: "posted s1 d2 s2" "d2 = [] \<or> (\<exists>b. concat (map (fst \<circ> snd) rs) \<noteq> [] \<and> d2 = [(?b @ ''/v1/alertupload'', b)]
      \<and> build_alert_log_json E (concat (map (fst \<circ> snd) rs)) = Inr b)"
    using upload_posted [OF 2 keeps_retP] by (auto simp del: concat_eq_Nil_conv)
  obtain d3 where d3: "posted s2 d3 s3" "d3 = [] \<or> (\<exists>b. d3 = [(?b @ ''/v1/putsyslog'', b)])"
    using upload_posted [OF 3 keeps_retP] by auto
  have "t = s1 \<and> r1 = None \<or> t = s2 \<and> r2 = None \<or> t = s3"
    using assms 1 2 3 by (auto simp: upload_processes_def split: option.splits prod.splits)
  then obtain docs where "posted s docs t" "set docs \<subseteq> set d1 \<union> set d2 \<union> set d3"
    using d1(1) d2(1) d3(1) posted_trans by (metis Un_upper1 Un_assoc order_refl set_append)
  with d1(2) d2(2) d3(2) show ?thesis by (intro exI [of _ docs]) auto
qed

text \<open>C11: alerts have the type and level of the mode. When the kernel module does not write to the
  records meanwhile, each alert document that the handler posts consists of alerts of records that
  the message names. The type of an alert is the record's, with 1101 and 1102 for 1001 and 1002 while
  protecting and the reverse while watching. Its level is 3 while protecting and 2 while watching if
  the record has the level 2 or 3 or a type of the other mode; another level with a type that does
  not contradict the mode is kept.\<close>

theorem process_alerts_agree:
  assumes "still_memory E" and "netlog_run (process_audit_succeed (mgr z)) data data_len = Some (Inr n)" and "netlog_indices n = Inr is"
    and "run_state (handle_process_zcopy_oper E z data data_len) s = (r, t)"
  shows "\<exists>docs. ev_posts t = ev_posts s @ docs \<and>
    (\<forall>e \<in> set docs. fst e = nc_server_ip_port (ev_cfg s) @ ''/v1/alertupload'' \<longrightarrow>
       (\<exists>logs. logs \<noteq> [] \<and> build_alert_log_json E logs = Inr (snd e) \<and>
          (\<forall>l \<in> set logs. \<exists>i a. i \<in> set is \<and> get_process_audit_data (mgr z) i = At a
             \<and> of_mode (nc_proc_protect (ev_cfg s)) (process_info_at E (fos s) a) l)))"
proof -
  let ?it = "\<lambda>is. iterate (get_process_audit_data (mgr z)) (process_one E (live_maps z)) is"
  let ?ok = "\<lambda>l. \<exists>i a. i \<in> set is \<and> get_process_audit_data (mgr z) i = At a
    \<and> of_mode (nc_proc_protect (ev_cfg s)) (process_info_at E (fos s) a) l"
  have 2: "run_state (report_processes E z is) s = (r, t)"
    using assms by (simp add: handle_process_zcopy_oper_def)
  show ?thesis
  proof -
    obtain q u where it: "run_state (?it is) s = (q, u)" by (rule prod.exhaust)
    have u: "posted s [] u" using keepsD_run [OF keeps_iterate [OF unchanged_one] posted_refl it] .
    show ?thesis
    proof (cases "\<exists>rs nc v. q = Some rs \<and> run_state (new_net_client E) u = (Some (Inr nc), v)")
      case False
      obtain c v where c: "run_state (new_net_client E) u = (c, v)" by (rule prod.exhaust)
      have "posted s [] v" using keepsD_run [OF keeps_new_net_client [of "posted s []"] u c] .
      with False 2 it c u show ?thesis by (auto simp: report_processes_def posted_def split: option.splits sum.splits)
    next
      case True
      then obtain rs nc v where q: "q = Some rs" and c: "run_state (new_net_client E) u = (Some (Inr nc), v)" by blast
      have v: "posted s [] v" using keepsD_run [OF keeps_new_net_client [of "posted s []"] u c] .
      have url: "base_url nc = Some (nc_server_ip_port (ev_cfg s))" using new_net_client_url [OF c] u by (simp add: posted_def)
      have ok: "\<forall>l \<in> set (concat (map (fst \<circ> snd) rs)). ?ok l"
      proof
        fix l assume "l \<in> set (concat (map (fst \<circ> snd) rs))"
        then obtain x where x: "x \<in> set rs" "l \<in> set (fst (snd x))" by auto
        from iterate_values [OF it [unfolded q] posted_refl unchanged_one x(1)]
        obtain i a w w' where w: "i \<in> set is" "get_process_audit_data (mgr z) i = At a" "posted s [] w"
          "run_state (process_one E (live_maps z) a) w = (Some x, w')" by blast
        from process_one_alerts [of E "live_maps z" a w "fst x" "fst (snd x)" "snd (snd x)" w'] w x(2)
        have "of_mode (nc_proc_protect (ev_cfg s)) (process_info_at E (fos w) a) l" by (simp add: posted_def)
        with w(1,2) show "?ok l" unfolding still_info [OF assms(1), of "fos w" a "fos s"] by blast
      qed
      obtain p t' where p: "run_state (upload_processes E nc rs) v = (p, t')" by (rule prod.exhaust)
      have "t = t'" using 2 it q c p by (auto simp: report_processes_def split: option.splits)
      obtain docs where d: "posted v docs t'" "\<forall>e \<in> set docs. fst e = opt_or [] (base_url nc) @ ''/v1/alertupload'' \<longrightarrow>
          concat (map (fst \<circ> snd) rs) \<noteq> [] \<and> build_alert_log_json E (concat (map (fst \<circ> snd) rs)) = Inr (snd e)"
        using upload_processes_posted [OF p] by blast
      have "ev_posts t = ev_posts s @ docs" using d(1) v \<open>t = t'\<close> by (simp add: posted_def)
      moreover have "\<forall>e \<in> set docs. fst e = nc_server_ip_port (ev_cfg s) @ ''/v1/alertupload'' \<longrightarrow> (\<exists>logs. logs \<noteq> [] \<and>
          build_alert_log_json E logs = Inr (snd e) \<and> (\<forall>l \<in> set logs. ?ok l))"
        using d(2) ok unfolding url opt_or_simps by blast
      ultimately show ?thesis by blast
    qed
  qed
qed

section \<open>No panic\<close>

text \<open>What the kernel module writes: the path of every record ends within its 512 bytes.\<close>

definition paths_terminated :: "('c, 'p, 'w) event_ext \<Rightarrow> 'v uio_state \<Rightarrow> bool" where
  "paths_terminated E z \<longleftrightarrow> (\<forall>w i a. get_process_audit_data (mgr z) i = At a \<longrightarrow> 0 \<in> set (load E w (a + 24) 512))"

abbreviation healthy :: "'w event_state \<Rightarrow> bool" where "healthy s \<equiv> \<not> ev_poisoned s"

lemma unhurt_md5_global: "no_old_files (ex_md5 E) \<Longrightarrow> unhurt healthy (md5_global E path)"
  unfolding md5_global_def by (intro unhurt_get_md5 healthy_blind)

lemma unhurt_process_record: "no_old_files (ex_md5 E) \<Longrightarrow> unhurt healthy (process_record E cfg info path_str)"
  unfolding process_record_def edr_log_def parent_of_def Let_def by (intro unhurt_intros unhurt_md5_global keep_intros)

lemma unhurt_process_one:
  assumes "no_old_files (ex_md5 E)" and "\<And>w. \<exists>bs. read_cstr E maps w (a + 24) = Some bs"
  shows "unhurt healthy (process_one E maps a)"
  unfolding process_one_def
proof (rule unhurt_bind_gets)
  fix s
  obtain bs where bs: "read_cstr E maps (fos s) (a + 24) = Some bs" using assms(2) by blast
  show "unhurt healthy (case read_cstr E maps (fos s) (a + 24) of None \<Rightarrow> panicP
     | Some bs \<Rightarrow> if \<not> utf8_valid (text_of_bytes bs) then retP ([], [], [])
         else bindP lock_cfg (\<lambda>cfg. holding_cfg (process_record E cfg (process_info_at E (fos s) a) (text_of_bytes bs))))"
    unfolding bs by (auto intro!: unhurt_intros unhurt_lock_cfg unhurt_process_record [OF assms(1)])
qed

lemma unhurt_process_entries: "no_old_files (ex_md5 E) \<Longrightarrow> unhurt healthy (process_entries_json E ps)"
proof (induction ps)
  case (Cons p ps)
  then show ?case by (auto intro!: unhurt_intros unhurt_get_md5 healthy_blind)
qed (simp add: unhurt_retP)

lemma unhurt_upload_processes: "no_old_files (ex_md5 E) \<Longrightarrow> unhurt healthy (upload_processes E nc rs)"
  unfolding upload_processes_def build_auto_process_list_json_def by (intro unhurt_intros unhurt_upload unhurt_process_entries)

lemma process_ring_ready:
  assumes "mmap_sane U" and "run_state (zcopy_new U) z0 = (Inr (), z)" and "536 \<le> process_audit_size (mgr z)"
  shows "get_process_audit_data (mgr z) i \<noteq> Panic"
    and "get_process_audit_data (mgr z) i = At a \<Longrightarrow> \<exists>b sz. (b, sz) \<in> set (live_maps z) \<and> b \<le> a \<and> a + 536 \<le> b + sz"
proof -
  from zcopy_new_run [OF assms(1,2)] have t: "tracked (live_maps z0) z" by simp
  then have c: "counts_ok (mgr z)" by (simp add: tracked_def)
  with assms(3) show "get_process_audit_data (mgr z) i \<noteq> Panic"
    by (auto simp: get_process_audit_data_def record_at_def counts_ok_def div_eq_0_iff)
  show "get_process_audit_data (mgr z) i = At a \<Longrightarrow> \<exists>b sz. (b, sz) \<in> set (live_maps z) \<and> b \<le> a \<and> a + 536 \<le> b + sz"
    using inside_live [OF t] process_slot [OF c] by blast
qed

text \<open>C10: the process handler does not panic and reads no memory outside the mappings: on a manager
  that was constructed with room for a record, with paths that end inside their records and no file
  modified before 1970, every message whose data is as long as it says is answered, and the
  configuration stays usable.\<close>

theorem process_handler_unhurt:
  assumes "mmap_sane U" and "run_state (zcopy_new U) z0 = (Inr (), z)" and "536 \<le> process_audit_size (mgr z)"
    and "paths_terminated E z" and "no_old_files (ex_md5 E)" and "length data = unat data_len" and "\<not> ev_poisoned s"
  shows "\<exists>r t. run_state (handle_process_zcopy_oper E z data data_len) s = (Some r, t) \<and> \<not> ev_poisoned t"
proof -
  note ring = process_ring_ready [OF assms(1-3)]
  have one: "unhurt healthy (process_one E (live_maps z) a)" if at: "get_process_audit_data (mgr z) i = At a" for i a
  proof (rule unhurt_process_one [OF assms(5)])
    fix w
    obtain b sz where b: "(b, sz) \<in> set (live_maps z)" "b \<le> a" "a + 536 \<le> b + sz" using ring(2) [OF at] by blast
    have "0 \<in> set (load E w (a + 24) 512)" using assms(4) at by (simp add: paths_terminated_def)
    with b show "\<exists>bs. read_cstr E (live_maps z) w (a + 24) = Some bs" by (intro read_cstr_inside [of b sz _ _ 512]) auto
  qed
  have it: "unhurt healthy (iterate (get_process_audit_data (mgr z)) (process_one E (live_maps z)) is)" for "is"
    using ring(1) one by (intro unhurt_iterate) auto
  have run: "unhurt healthy (State_Monad.return (netlog_run b data data_len))" for b
    using assms(6) by (auto simp: unhurt_def netlog_run_def read_netlog_def)
  have "unhurt healthy (handle_process_zcopy_oper E z data data_len)"
    unfolding handle_process_zcopy_oper_def report_processes_def
    by (intro unhurt_intros run it unhurt_new_net_client unhurt_upload_processes [OF assms(5)])
  with assms(7) show ?thesis by (auto simp: unhurt_def)
qed

section \<open>The theorems on a small host\<close>

text \<open>One record at the start of the process buffer: a container process \<^verbatim>\<open>x\<close> that the kernel reports with
  type 1001 and level 2, while the agent protects.\<close>

definition lab_process_mem :: "nat \<Rightarrow> u8" where
  "lab_process_mem a = (if a = 116 then 0xE9 else if a = 117 then 3 else if a = 122 then 0x22 else if a = 124 then 0x78 else 0)"

definition lab_process_z :: "unit uio_state" where
  "lab_process_z = \<lparr>uw = (), live_maps = [(100, 26)], mgr = zcopy_blank\<lparr>process_audit_succeed := True, process_cir_buffer := 100,
     process_audit_size := 536, process_audit_total_count := 1\<rparr>\<rparr>"

definition lab_protecting :: net_info_config where
  "lab_protecting = net_info_default\<lparr>nc_proc_protect := True, nc_proc_switch := True, nc_server_ip_port := ''s''\<rparr>"

text \<open>A printer that shows type and level of the only entry.\<close>

definition lab_alert_text :: "json \<Rightarrow> string" where
  "lab_alert_text j =
     (case j of
        JArr [JObj ((_, JInt level) # _ # (_, JInt ty) # _)] \<Rightarrow> show_int ty @ '','' @ show_int level
      | JObj [(k, JStr t)] \<Rightarrow> if k = ''alert'' then t else k
      | _ \<Rightarrow> json_keys j)"

definition lab_process_ext :: "(unit, unit, unit) event_ext" where
  "lab_process_ext = (lab_event lab_process_mem)\<lparr>ex_json := lab_alert_text\<rparr>"

definition lab_process_run :: "unit res option \<times> unit event_state" where
  "lab_process_run = run_state (handle_process_zcopy_oper lab_process_ext lab_process_z [0, 0, 0, 0, 1, 0, 0, 0, 0, 0, 0, 0] 12)
     (lab_event_state lab_protecting)"

lemma lab_process_posts: "ev_posts (snd lab_process_run) = [(''s/v1/autouploadprocess'', ''proclist''), (''s/v1/alertupload'', ''1101,3'')]"
  by code_simp

lemma lab_process_info:
  "ap_type (process_info_at lab_process_ext () 100) = 1001"
  "fl_level (flags_parsed (ap_flags (process_info_at lab_process_ext () 100))) = 2"
  "get_process_audit_data (mgr lab_process_z) 0 = At 100"
  by code_simp+

theorem process_alerts_agree_witness:
  "ev_posts (snd lab_process_run) = [(''s/v1/autouploadprocess'', ''proclist''), (''s/v1/alertupload'', ''1101,3'')] \<and>
   (\<exists>logs. logs \<noteq> [] \<and> build_alert_log_json lab_process_ext logs = Inr ''1101,3'' \<and> (\<forall>l \<in> set logs. al_type l = 1101 \<and> al_level l = 3))"
proof -
  let ?data = "[0, 0, 0, 0, 1, 0, 0, 0, 0, 0, 0, 0] :: u8 list"
  have c: "ev_cfg (lab_event_state lab_protecting) = lab_protecting" "ev_posts (lab_event_state lab_protecting) = []"
    "fos (lab_event_state lab_protecting) = ()" by (simp_all add: lab_event_state_def)
  have p: "nc_proc_protect lab_protecting" "nc_server_ip_port lab_protecting = ''s''" by (simp_all add: lab_protecting_def)
  have m: "still_memory lab_process_ext" by (simp add: still_memory_def lab_process_ext_def lab_event_def)
  have "case netlog_run (process_audit_succeed (mgr lab_process_z)) ?data 12 of Some (Inr n) \<Rightarrow> netlog_indices n = Inr [0] | _ \<Rightarrow> False"
    by code_simp
  then obtain n where n: "netlog_run (process_audit_succeed (mgr lab_process_z)) ?data 12 = Some (Inr n)" "netlog_indices n = Inr [0]"
    by (auto split: option.splits sum.splits)
  from process_alerts_agree [OF m n prod.collapse [symmetric], of "lab_event_state lab_protecting",
      folded lab_process_run_def, unfolded lab_process_posts c]
  obtain logs where "logs \<noteq> []" "build_alert_log_json lab_process_ext logs = Inr ''1101,3''"
    "\<forall>l \<in> set logs. of_mode True (process_info_at lab_process_ext () 100) l"
    using p lab_process_info(3) by (auto simp: Let_def)
  with lab_process_posts show ?thesis by (auto simp: of_mode_def Let_def lab_process_info(1,2) mode_type_def mode_level_def)
qed

theorem process_handler_unhurt_witness:
  "\<exists>r t. run_state (handle_process_zcopy_oper (lab_event (\<lambda>a. 0)) lab_z [0, 0, 0, 0, 1, 0, 0, 0, 0, 0, 0, 0] 12) (lab_event_state lab_protecting)
     = (Some r, t) \<and> \<not> ev_poisoned t"
proof -
  have "536 \<le> process_audit_size (mgr lab_z)" by code_simp
  moreover have "paths_terminated (lab_event (\<lambda>a. 0)) lab_z" by (simp add: paths_terminated_def load_def lab_event_def image_constant_conv)
  ultimately show ?thesis
    using process_handler_unhurt [OF lab_uio_sane lab_uio_ok _ _ lab_event_fresh] by (simp add: lab_event_state_def)
qed

end
