(* ===== verification/File_Audit.thy ===== *)
theory File_Audit
  imports Report_Base
begin

text \<open>
  \<^verbatim>\<open>crates/reporter/src/file_audit.rs\<close>: records of renamed and protected files become alerts, which go
  through a channel to the log worker (\<^verbatim>\<open>log_worker.rs\<close>); the worker collects them and posts them
  every thirty seconds.
\<close>

section \<open>Records\<close>

record av_file_info =
  fi_comm :: "u8 list"
  fi_path :: "u8 list"
  fi_dst_path :: "u8 list"
  fi_log_type :: u16
  fi_flags :: u16

definition file_info_at :: "('c, 'p, 'w) event_ext \<Rightarrow> 'w \<Rightarrow> nat \<Rightarrow> av_file_info" where
  "file_info_at E w a = \<lparr>fi_comm = load E w (a + 12) 128, fi_path = load E w (a + 156) 512, fi_dst_path = load E w (a + 668) 512,
     fi_log_type = from_le (load E w (a + 1180) 2), fi_flags = from_le (load E w (a + 1182) 2)\<rparr>"

lemma file_info_offsets: "field_offsets 0 AvFileInfo = [0, 4, 8, 12, 140, 156, 668, 1180, 1182]"
  by code_simp

text \<open>\<^verbatim>\<open>CStr::from_bytes_until_nul(..)?.to_str()?\<close> with the error texts of the code.\<close>

definition cstr_field :: "string \<Rightarrow> u8 list \<Rightarrow> string res" where
  "cstr_field name bs =
     (if 0 \<notin> set bs then Inl (utf8 [230, 151, 160, 230, 149, 136, 32] @ name)
      else let s = text_of_bytes (takeWhile (\<lambda>b. b \<noteq> 0) bs) in
           if utf8_valid s then Inr s else Inl (utf8 [230, 151, 160, 230, 149, 136, 32, 85, 84, 70, 45, 56, 32] @ name))"

definition rules_type_of :: "av_file_info \<Rightarrow> rules_type option" where
  "rules_type_of info = rules_from_u32 (ucast (drop_bit 6 (fi_flags info) AND 0xF))"

definition level_of :: "av_file_info \<Rightarrow> u32" where
  "level_of info = ucast (drop_bit 10 (fi_flags info) AND 7)"

section \<open>The channel\<close>

definition channel_size :: nat where "channel_size = 512"

text \<open>\<^verbatim>\<open>try_send\<close>: fails when the channel is full or its receiver is gone; the log is dropped then.\<close>

definition try_send :: "audit_log_info \<Rightarrow> ('w event_state, bool) state" where
  "try_send log = do {
     ok \<leftarrow> gets (\<lambda>s. ev_worker s \<and> length (ev_queue s) < channel_size);
     (if ok then modify (\<lambda>s. s\<lparr>ev_queue := ev_queue s @ [log]\<rparr>) else State_Monad.return ());
     State_Monad.return ok
   }"

section \<open>Alerts\<close>

definition rename_log :: "string \<Rightarrow> string \<Rightarrow> string \<Rightarrow> u16 \<Rightarrow> u32 \<Rightarrow> nat \<Rightarrow> audit_log_info" where
  "rename_log path dst_path comm n_type level pos =
     \<lparr>al_file_path = Some (if pos = 0 then path else dst_path),
      al_rename_dir = (if pos = 0 then (if dst_path = [] then None else Some dst_path) else (if path = [] then None else Some path)),
      al_exception_process = Some comm, al_md5 = None, al_type = n_type, al_level = level, al_time = 1692760326,
      al_notice_remark = None, al_peripheral_name = None, al_peripheral_remark = None, al_peripheral_eid = None, al_p_param = None\<rparr>"

definition audit_file_oper_rename ::
  "('c, 'p, 'w) event_ext \<Rightarrow> av_file_info \<Rightarrow> u32 \<Rightarrow> nat \<Rightarrow> ('w event_state, unit res option) state" where
  "audit_file_oper_rename E info level pos =
     tryP (retP (cstr_field ''path'' (fi_path info))) (\<lambda>path.
     tryP (retP (cstr_field ''dst_path'' (fi_dst_path info))) (\<lambda>dst_path.
     tryP (retP (cstr_field ''comm'' (fi_comm info))) (\<lambda>comm.
     bindP (get_md5 (ex_md5 E) (ex_files E) comm) (\<lambda>md5.
     bindP (okP (try_send ((rename_log path dst_path comm (fi_log_type info) level pos)
                             \<lparr>al_md5 := (case md5 of Inl _ \<Rightarrow> None | Inr h \<Rightarrow> Some h)\<rparr>))) (\<lambda>_.
       retP (Inr ()))))))"

definition FILE_MODIFY :: u32 where "FILE_MODIFY = 1"

definition G_WARN_LOG_TYPE :: "u32 list list list" where
  "G_WARN_LOG_TYPE =
     [[[3001, 3002, 3003, 3004, 3005], [3101, 3102, 3103, 3104, 3105]],
      [[2001, 2002, 2003, 2004, 2005], [2101, 2102, 2103, 2104, 2105]]]"

definition G_RUN_FILE_MODE :: nat where "G_RUN_FILE_MODE = 0"

text \<open>Indexing an array: out of range is a panic.\<close>

definition at_index :: "'a list \<Rightarrow> nat \<Rightarrow> 'a option" where
  "at_index xs i = (if i < length xs then Some (xs ! i) else None)"

definition warn_log_type :: "u32 \<Rightarrow> u32 \<Rightarrow> u32 option" where
  "warn_log_type file_mode typ =
     Option.bind (at_index G_WARN_LOG_TYPE (unat file_mode)) (\<lambda>modes.
     Option.bind (at_index modes G_RUN_FILE_MODE) (\<lambda>types. at_index types (unat typ)))"

text \<open>The mode of the file, and whether the alert is left out (a directory that was modified).\<close>

definition file_mode_of :: "(bool \<times> bool) option \<Rightarrow> u32 \<Rightarrow> u32 \<Rightarrow> u32 \<times> bool" where
  "file_mode_of stat is_dir typ =
     (case stat of
        Some (True, _) \<Rightarrow> (1, typ = FILE_MODIFY)
      | Some (False, True) \<Rightarrow> (0, False)
      | _ \<Rightarrow> (is_dir, False))"

definition rename_tamper_protect_match ::
  "('c, 'p, 'w) event_ext \<Rightarrow> av_file_info \<Rightarrow> ('w event_state, unit res option) state" where
  "rename_tamper_protect_match E info =
     tryP (retP (cstr_field ''path'' (fi_path info))) (\<lambda>path. do {
       w \<leftarrow> gets fos;
       let is_dir = ucast (fi_flags info AND 7);
       let typ = ucast (drop_bit 3 (fi_flags info) AND 7);
       case file_mode_of (ex_metadata E path w) is_dir typ of
         (file_mode, special) \<Rightarrow>
           if special then retP (Inr ())
           else (case warn_log_type file_mode typ of
                   None \<Rightarrow> panicP
                 | Some t \<Rightarrow> audit_file_oper_rename E (info\<lparr>fi_log_type := ucast t\<rparr>) (level_of info) 0)
     })"

text \<open>The loop over the records goes on after an error and returns the last one.\<close>

definition audit_one :: "('c, 'p, 'w) event_ext \<Rightarrow> av_file_info \<Rightarrow> ('w event_state, unit res option) state" where
  "audit_one E report =
     (case rules_type_of report of
        Some LesouProtectionType \<Rightarrow> audit_file_oper_rename E report (level_of report) 0
      | Some TamperProtectionType \<Rightarrow> rename_tamper_protect_match E report
      | _ \<Rightarrow> retP (Inr ()))"

fun audit_file_oper_new ::
  "('c, 'p, 'w) event_ext \<Rightarrow> unit res \<Rightarrow> av_file_info list \<Rightarrow> ('w event_state, unit res option) state" where
  "audit_file_oper_new E rc [] = retP rc"
| "audit_file_oper_new E rc (report # reports) =
     bindP (audit_one E report) (\<lambda>r. audit_file_oper_new E (case r of Inl e \<Rightarrow> Inl e | Inr _ \<Rightarrow> rc) reports)"

definition handle_file_zcopy_oper ::
  "('c, 'p, 'w) event_ext \<Rightarrow> 'v uio_state \<Rightarrow> u8 list \<Rightarrow> u32 \<Rightarrow> ('w event_state, unit res option) state" where
  "handle_file_zcopy_oper E z data data_len =
     tryP (State_Monad.return (netlog_run (file_audit_succeed (mgr z)) data data_len)) (\<lambda>n.
     tryP (retP (netlog_indices n)) (\<lambda>is.
     bindP (iterate (get_file_audit_data (mgr z)) (\<lambda>a. okP (gets (\<lambda>s. file_info_at E (fos s) a))) is) (\<lambda>reports.
       audit_file_oper_new E (Inr ()) reports)))"

section \<open>The log worker (log_worker.rs)\<close>

text \<open>What wakes the worker: a log in the channel, the timer, or the end of the channel.\<close>

datatype worker_event = LogReceived | LogTimer | LogClosed

definition post_buffer :: "('c, 'p, 'w) event_ext \<Rightarrow> 'c net_client \<Rightarrow> string \<Rightarrow> ('w event_state, unit) state" where
  "post_buffer E nc url = do {
     buf \<leftarrow> gets ev_buffer;
     if buf = [] then State_Monad.return ()
     else (case build_alert_log_json E buf of
             Inl _ \<Rightarrow> State_Monad.return ()
           | Inr json_str \<Rightarrow> do { post_document E nc url json_str; modify (\<lambda>s. s\<lparr>ev_buffer := []\<rparr>) })
   }"

text \<open>One turn of the loop; the result tells whether it goes on. The turn for a log is taken only when
  there is one.\<close>

definition worker_turn ::
  "('c, 'p, 'w) event_ext \<Rightarrow> 'c net_client \<Rightarrow> string \<Rightarrow> worker_event \<Rightarrow> ('w event_state, bool) state" where
  "worker_turn E nc url ev =
     (case ev of
        LogReceived \<Rightarrow> do {
          modify (\<lambda>s. case ev_queue s of
              [] \<Rightarrow> s
            | log # rest \<Rightarrow> s\<lparr>ev_queue := rest, ev_buffer := ev_buffer s @ [log]\<rparr>);
          State_Monad.return True
        }
      | LogTimer \<Rightarrow> do { post_buffer E nc url; State_Monad.return True }
      | LogClosed \<Rightarrow> do { post_buffer E nc url; modify (\<lambda>s. s\<lparr>ev_worker := False\<rparr>); State_Monad.return False })"

text \<open>The start: without a client the receiver is dropped.\<close>

definition start_log_services :: "('c, 'p, 'w) event_ext \<Rightarrow> ('w event_state, ('c net_client \<times> string) res option) state" where
  "start_log_services E =
     bindP (new_net_client E) (\<lambda>r.
       case r of
         Inl e \<Rightarrow> bindP (okP (modify (\<lambda>s. s\<lparr>ev_worker := False\<rparr>))) (\<lambda>_. retP (Inl e))
       | Inr nc \<Rightarrow> retP (Inr (nc, opt_or [] (base_url nc) @ ''/v1/alertupload'')))"

fun worker_loop ::
  "('c, 'p, 'w) event_ext \<Rightarrow> 'c net_client \<Rightarrow> string \<Rightarrow> worker_event list \<Rightarrow> ('w event_state, unit) state" where
  "worker_loop E nc url [] = State_Monad.return ()"
| "worker_loop E nc url (ev # evs) = do {
     go_on \<leftarrow> worker_turn E nc url ev;
     if go_on then worker_loop E nc url evs else State_Monad.return ()
   }"

section \<open>What reaches the server\<close>

text \<open>\<open>queued s t\<close>: from \<open>s\<close> to \<open>t\<close> logs were put into the channel within its size, and nothing else
  happened to what the worker uses.\<close>

definition queued :: "'w event_state \<Rightarrow> 'w event_state \<Rightarrow> bool" where
  "queued s t \<longleftrightarrow> (\<exists>k. ev_queue t = ev_queue s @ k) \<and> (length (ev_queue s) \<le> channel_size \<longrightarrow> length (ev_queue t) \<le> channel_size)
     \<and> ev_buffer t = ev_buffer s \<and> ev_posts t = ev_posts s \<and> ev_worker t = ev_worker s"

lemma queued_blind: "event_blind (queued s)"
  by (simp add: md5_blind_def queued_def)

lemma queued_refl: "queued s s"
  by (simp add: queued_def)

lemma keeps_try_send: "keeps (queued s) (try_send log)"
  by (rule keepsI) (auto simp: try_send_def queued_def split: if_splits)

lemma keeps_audit_rename: "keeps (queued s) (audit_file_oper_rename E info level pos)"
  unfolding audit_file_oper_rename_def by (intro keep_intros keeps_try_send keeps_get_md5 queued_blind)

lemma keeps_audit_one: "keeps (queued s) (audit_one E report)"
  unfolding audit_one_def rename_tamper_protect_match_def Let_def
  by (auto split: option.splits rules_type.splits intro!: keep_intros keeps_audit_rename)

lemma keeps_audit_all: "keeps (queued s) (audit_file_oper_new E rc reports)"
  by (induction reports arbitrary: rc) (auto intro!: keep_intros keeps_audit_one)

lemma keeps_file_handler: "keeps (queued s) (handle_file_zcopy_oper E z data data_len)"
  unfolding handle_file_zcopy_oper_def by (intro keep_intros keeps_audit_all keeps_iterate)

text \<open>The system of the file handler, the worker and the other handlers, in any order. \<open>acc\<close> are the logs
  that the channel accepted, \<open>bs\<close> the batches that the worker posted.\<close>

inductive log_reach ::
  "('c, 'p, 'w) event_ext \<Rightarrow> 'c net_client \<Rightarrow> string \<Rightarrow> audit_log_info list \<Rightarrow> audit_log_info list list \<Rightarrow> 'w event_state \<Rightarrow> bool"
  for E nc url where
  start: "ev_queue s = [] \<Longrightarrow> ev_buffer s = [] \<Longrightarrow> log_reach E nc url [] [] s"
| send: "log_reach E nc url acc bs s \<Longrightarrow> run_state (try_send log) s = (ok, t) \<Longrightarrow>
    log_reach E nc url (if ok then acc @ [log] else acc) bs t"
| file_event: "log_reach E nc url acc bs s \<Longrightarrow> run_state (handle_file_zcopy_oper E (z :: unit uio_state) data data_len) s = (r, t) \<Longrightarrow>
    log_reach E nc url (acc @ drop (length (ev_queue s)) (ev_queue t)) bs t"
| turn: "log_reach E nc url acc bs s \<Longrightarrow> ev_worker s \<Longrightarrow> run_state (worker_turn E nc url ev) s = (go_on, t) \<Longrightarrow>
    log_reach E nc url acc (bs @ (if ev = LogReceived \<or> ev_buffer s = [] then [] else [ev_buffer s])) t"
| other: "log_reach E nc url acc bs s \<Longrightarrow> posted s docs t \<Longrightarrow> log_reach E nc url acc bs t"

definition logs_kept ::
  "('c, 'p, 'w) event_ext \<Rightarrow> string \<Rightarrow> audit_log_info list \<Rightarrow> audit_log_info list list \<Rightarrow> 'w event_state \<Rightarrow> bool" where
  "logs_kept E url acc bs s \<longleftrightarrow> acc = concat bs @ ev_buffer s @ ev_queue s \<and> length (ev_queue s) \<le> channel_size \<and>
     (\<forall>b \<in> set bs. b \<noteq> [] \<and> (\<exists>doc. build_alert_log_json E b = Inr doc \<and> (url, doc) \<in> set (ev_posts s)))"

lemma logs_kept_worker: "logs_kept E url acc bs (s\<lparr>ev_worker := x\<rparr>) = logs_kept E url acc bs s"
  by (simp add: logs_kept_def)

lemma alert_doc: "b \<noteq> [] \<Longrightarrow> \<exists>doc. build_alert_log_json E b = Inr doc"
  by (simp add: build_alert_log_json_def wrapped_def)

lemma post_buffer_run:
  "run_state (post_buffer E nc url) s = ((), t) \<Longrightarrow> ev_buffer t = [] \<and> ev_queue t = ev_queue s \<and>
     (if ev_buffer s = [] then ev_posts t = ev_posts s
      else \<exists>doc. build_alert_log_json E (ev_buffer s) = Inr doc \<and> ev_posts t = ev_posts s @ [(url, doc)])"
  using alert_doc [of "ev_buffer s" E]
  by (auto simp: post_buffer_def post_document_def run_on_fos split: if_splits)

lemma logs_kept_post:
  assumes "logs_kept E url acc bs s" and "run_state (post_buffer E nc url) s = ((), t)"
  shows "logs_kept E url acc (bs @ (if ev_buffer s = [] then [] else [ev_buffer s])) t"
proof (cases "ev_buffer s = []")
  case True
  with assms(1) post_buffer_run [OF assms(2)] show ?thesis by (simp add: logs_kept_def)
next
  case False
  then obtain doc where d: "build_alert_log_json E (ev_buffer s) = Inr doc" "ev_posts t = ev_posts s @ [(url, doc)]"
    "ev_buffer t = []" "ev_queue t = ev_queue s" using post_buffer_run [OF assms(2)] by auto
  have "\<forall>b \<in> set (bs @ [ev_buffer s]). b \<noteq> [] \<and> (\<exists>doc. build_alert_log_json E b = Inr doc \<and> (url, doc) \<in> set (ev_posts t))"
  proof
    fix b assume "b \<in> set (bs @ [ev_buffer s])"
    then consider "b \<in> set bs" | "b = ev_buffer s" by auto
    then show "b \<noteq> [] \<and> (\<exists>doc. build_alert_log_json E b = Inr doc \<and> (url, doc) \<in> set (ev_posts t))"
    proof cases
      case 1
      then obtain doc' where "b \<noteq> []" "build_alert_log_json E b = Inr doc'" "(url, doc') \<in> set (ev_posts s)"
        using assms(1) unfolding logs_kept_def by blast
      with d(2) show ?thesis by simp
    qed (use False d(1,2) in simp)
  qed
  with False assms(1) d(3,4) show ?thesis by (simp add: logs_kept_def)
qed

lemma logs_kept_turn:
  assumes "logs_kept E url acc bs s" and "run_state (worker_turn E nc url ev) s = (go_on, t)"
  shows "logs_kept E url acc (bs @ (if ev = LogReceived \<or> ev_buffer s = [] then [] else [ev_buffer s])) t"
proof (cases "ev = LogReceived")
  case True
  with assms show ?thesis by (auto simp: worker_turn_def logs_kept_def split: list.splits)
next
  case False
  obtain u where u: "run_state (post_buffer E nc url) s = ((), u)" by (metis old.unit.exhaust prod.exhaust)
  have "t = u \<or> t = u\<lparr>ev_worker := False\<rparr>" using assms(2) False u by (cases ev) (simp_all add: worker_turn_def)
  then have "logs_kept E url acc (bs @ (if ev_buffer s = [] then [] else [ev_buffer s])) t"
    using logs_kept_post [OF assms(1) u] by (elim disjE) (simp_all only: logs_kept_worker)
  with False show ?thesis by simp
qed

lemma log_reach_kept: "log_reach E nc url acc bs s \<Longrightarrow> logs_kept E url acc bs s"
proof (induction rule: log_reach.induct)
  case (send acc bs s log ok t)
  then show ?case by (auto simp: try_send_def logs_kept_def split: if_splits)
next
  case (file_event acc bs s z data data_len r t)
  have "queued s t" using keepsD_run [OF keeps_file_handler queued_refl file_event.hyps(2)] .
  with file_event.IH show ?case by (auto simp: logs_kept_def queued_def)
next
  case (turn acc bs s ev go_on t)
  from logs_kept_turn [OF turn.IH turn.hyps(3)] show ?case .
next
  case (other acc bs s docs t)
  then show ?case by (fastforce simp: logs_kept_def posted_def)
qed (simp add: logs_kept_def)

text \<open>C12: no alert is lost or doubled on its way to the post. In every state that the file handler, the
  worker, other senders and the other handlers reach, the logs that the channel accepted are, in
  their order, those of the posted documents, then those that the worker holds, then those in the
  channel, which never holds more than 512; and each batch was posted as one document.
  A post counts whatever the server answers, since the worker clears its buffer either way.\<close>

theorem alerts_reach_server:
  assumes "log_reach E nc url acc bs s"
  shows "acc = concat bs @ ev_buffer s @ ev_queue s \<and> length (ev_queue s) \<le> channel_size \<and>
    (\<forall>b \<in> set bs. b \<noteq> [] \<and> (\<exists>doc. build_alert_log_json E b = Inr doc \<and> (url, doc) \<in> set (ev_posts s)))"
  using log_reach_kept [OF assms] by (simp add: logs_kept_def)

definition lab_log :: audit_log_info where
  "lab_log = rename_log ''/a'' ''/b'' ''/bin/mv'' 7 1 0"

definition lab_nc :: "unit net_client" where "lab_nc = \<lparr>client = (), base_url = Some ''s''\<rparr>"

theorem alerts_reach_server_witness:
  "let s0 = lab_event_state net_info_default;
       s1 = snd (run_state (try_send lab_log) s0);
       s2 = snd (run_state (worker_turn (lab_event (\<lambda>a. 0)) lab_nc ''u'' LogReceived) s1);
       s3 = snd (run_state (worker_turn (lab_event (\<lambda>a. 0)) lab_nc ''u'' LogTimer) s2)
   in ev_buffer s3 @ ev_queue s3 = [] \<and> (\<exists>doc. build_alert_log_json (lab_event (\<lambda>a. 0)) [lab_log] = Inr doc \<and> (''u'', doc) \<in> set (ev_posts s3))"
proof -
  let ?E = "lab_event (\<lambda>a. 0)"
  define s0 where "s0 = lab_event_state net_info_default"
  define s1 where "s1 = snd (run_state (try_send lab_log) s0)"
  define s2 where "s2 = snd (run_state (worker_turn ?E lab_nc ''u'' LogReceived) s1)"
  define s3 where "s3 = snd (run_state (worker_turn ?E lab_nc ''u'' LogTimer) s2)"
  have "log_reach ?E lab_nc ''u'' [] [] s0" by (rule log_reach.start) (simp_all add: s0_def lab_event_state_def)
  then have "log_reach ?E lab_nc ''u'' [lab_log] [] s1"
    using log_reach.send [of ?E lab_nc "''u''" "[]" "[]" s0 lab_log True s1]
    by (auto simp: s1_def s0_def try_send_def lab_event_state_def channel_size_def)
  then have 2: "log_reach ?E lab_nc ''u'' [lab_log] [] s2"
    using log_reach.turn [of ?E lab_nc "''u''" "[lab_log]" "[]" s1 LogReceived True s2]
    by (auto simp: s2_def s1_def s0_def worker_turn_def try_send_def lab_event_state_def channel_size_def)
  have b: "ev_buffer s2 = [lab_log]" "ev_worker s2"
    by (simp_all add: s2_def s1_def s0_def worker_turn_def try_send_def lab_event_state_def channel_size_def)
  have "log_reach ?E lab_nc ''u'' [lab_log] [[lab_log]] s3"
    using log_reach.turn [OF 2 b(2), of LogTimer True s3] b by (auto simp: s3_def worker_turn_def split: prod.splits)
  from alerts_reach_server [OF this] show ?thesis
    unfolding Let_def s0_def [symmetric] s1_def [symmetric] s2_def [symmetric] s3_def [symmetric] by auto
qed

text \<open>A record of the tamper protection with an operation above 4 on something that is no directory makes
  the handler panic.\<close>

lemma tamper_type_panics:
  assumes "cstr_field ''path'' (fi_path info) = Inr path" and "ex_metadata E path (fos s) = Some (False, True)"
    and "4 < unat (drop_bit 3 (fi_flags info) AND 7)"
  shows "run_state (rename_tamper_protect_match E info) s = (None, s)"
proof -
  have "unat (ucast (drop_bit 3 (fi_flags info) AND 7) :: u32) = unat (drop_bit 3 (fi_flags info) AND 7)"
    by (simp add: unsigned_ucast_eq take_bit_nat_eq_self order_less_trans [OF unsigned_less [where 'a = nat]])
  with assms show ?thesis
    by (simp add: rename_tamper_protect_match_def file_mode_of_def warn_log_type_def at_index_def G_WARN_LOG_TYPE_def G_RUN_FILE_MODE_def)
qed

end
