(* ===== verification/Net_Log.thy ===== *)
theory Net_Log
  imports Report_Base
begin

text \<open>
  \<^verbatim>\<open>crates/reporter/src/net_service_log.rs\<close>: connections that the kernel module reports in two rings,
  incoming and outgoing, become entries of the network log; an entry that repeats the last one is
  left out.
\<close>

section \<open>Records\<close>

record net_report =
  nr_src :: "u8 list"
  nr_src_port :: u16
  nr_dst :: "u8 list"
  nr_dest_port :: u16
  nr_pid :: u32

definition net_report_at :: "('c, 'p, 'w) event_ext \<Rightarrow> 'w \<Rightarrow> nat \<Rightarrow> net_report" where
  "net_report_at E w a = \<lparr>nr_src = load E w a 16, nr_src_port = from_le (load E w (a + 16) 2), nr_dst = load E w (a + 24) 16,
     nr_dest_port = from_le (load E w (a + 40) 2), nr_pid = from_le (load E w (a + 44) 4)\<rparr>"

lemma net_report_offsets: "field_offsets 0 OsecNetworkReport = [0, 16, 24, 40, 44, 48]"
  by code_simp

text \<open>\<^verbatim>\<open>u16::to_be\<close> on a little-endian machine.\<close>

definition to_be16 :: "u16 \<Rightarrow> u16" where
  "to_be16 p = push_bit 8 p OR drop_bit 8 p"

definition ip46_address_is_ip4 :: "u8 list \<Rightarrow> bool" where
  "ip46_address_is_ip4 addr \<longleftrightarrow> list_all (\<lambda>b. b = 0) (take 12 addr)"

text \<open>\<^verbatim>\<open>to_ipaddr_host_order(..).to_string()\<close>.\<close>

definition ip_text :: "u8 list \<Rightarrow> string" where
  "ip_text addr =
     (if ip46_address_is_ip4 addr then show_ipv4 (ipv4_from (swap_bytes (from_le (take 4 (drop 12 addr)))))
      else show_ipv6 (extract_ipv6 addr))"

text \<open>Sixteen bytes are compared as two 64-bit numbers.\<close>

definition u64s :: "u8 list \<Rightarrow> u64 \<times> u64" where
  "u64s addr = (from_le (take 8 addr), from_le (take 8 (drop 8 addr)))"

definition is_change :: "net_report \<Rightarrow> net_report \<Rightarrow> bool" where
  "is_change l c \<longleftrightarrow> u64s (nr_src l) \<noteq> u64s (nr_src c) \<or> u64s (nr_dst l) \<noteq> u64s (nr_dst c)
     \<or> to_be16 (nr_src_port l) \<noteq> to_be16 (nr_src_port c) \<or> to_be16 (nr_dest_port l) \<noteq> to_be16 (nr_dest_port c)
     \<or> nr_pid l \<noteq> nr_pid c"

section \<open>Entries\<close>

text \<open>\<^verbatim>\<open>duration_since(UNIX_EPOCH).map(|d| d.as_secs() as i32).unwrap_or(0)\<close>.\<close>

definition time_i32 :: "int \<Rightarrow> int" where
  "time_i32 secs = (if secs < 0 then 0 else sint (word_of_int secs :: 32 word))"

definition sys_log_of :: "int \<Rightarrow> int \<Rightarrow> net_report \<Rightarrow> string \<Rightarrow> sys_net_log" where
  "sys_log_of log_type now r comm =
     \<lparr>sl_uid = None, sl_p_id = sint (nr_pid r), sl_p_dir = Some comm, sl_res_ip = Some (ip_text (nr_dst r)),
      sl_rs_port = to_be16 (nr_dest_port r), sl_proto = 6, sl_time = now, sl_log_type = log_type, sl_hash = None,
      sl_source_ip = Some (ip_text (nr_src r)), sl_source_port = to_be16 (nr_src_port r)\<rparr>"

text \<open>The name of the program at byte 48 of the record.\<close>

definition read_comm :: "('c, 'p, 'w) event_ext \<Rightarrow> (nat \<times> nat) list \<Rightarrow> nat \<Rightarrow> ('w event_state, string option) state" where
  "read_comm E maps a = gets (\<lambda>s. map_option (\<lambda>bs. lossy (text_of_bytes bs)) (read_cstr E maps (fos s) (a + 48)))"

text \<open>The digest of the program, where it has a name.\<close>

definition add_hash :: "('c, 'p, 'w) event_ext \<Rightarrow> sys_net_log \<Rightarrow> ('w event_state, sys_net_log option) state" where
  "add_hash E l =
     (case sl_p_dir l of
        Some (c # cs) \<Rightarrow> bindP (get_md5 (ex_md5 E) (ex_files E) (c # cs)) (\<lambda>r.
                           retP (l\<lparr>sl_hash := (case r of Inl _ \<Rightarrow> None | Inr h \<Rightarrow> Some h)\<rparr>))
      | _ \<Rightarrow> retP l)"

definition business_port :: "sys_net_log \<Rightarrow> ('w event_state, port_info option) state" where
  "business_port l = do {
     b \<leftarrow> on_ports (get_port_from_state (sl_source_port l));
     case b of Some _ \<Rightarrow> State_Monad.return b | None \<Rightarrow> on_ports (get_port_from_state (sl_rs_port l))
   }"

definition internal_entry ::
  "('c, 'p, 'w) event_ext \<Rightarrow> (nat \<times> nat) list \<Rightarrow> int \<Rightarrow> nat \<Rightarrow> net_report \<Rightarrow> ('w event_state, sys_net_log option) state" where
  "internal_entry E maps now a r =
     bindP (read_comm E maps a) (\<lambda>comm.
       let l = sys_log_of 3 now r comm in
       bindP (okP (business_port l)) (\<lambda>b.
         case b of
           None \<Rightarrow> retP l
         | Some business \<Rightarrow>
             add_hash E (l\<lparr>sl_p_id := (if 0 < pi_pid business then pi_pid business else sl_p_id l),
                           sl_p_dir := Some (pi_process_path business)\<rparr>)))"

definition external_entry ::
  "('c, 'p, 'w) event_ext \<Rightarrow> (nat \<times> nat) list \<Rightarrow> int \<Rightarrow> nat \<Rightarrow> net_report \<Rightarrow> ('w event_state, sys_net_log option) state" where
  "external_entry E maps now a r = bindP (read_comm E maps a) (\<lambda>comm. add_hash E (sys_log_of 2 now r comm))"

text \<open>The loops over the records, with the last record that was not left out.\<close>

fun net_records ::
  "('c, 'p, 'w) event_ext \<Rightarrow> (nat \<Rightarrow> access) \<Rightarrow> (nat \<Rightarrow> net_report \<Rightarrow> ('w event_state, sys_net_log option) state) \<Rightarrow> net_report option
     \<Rightarrow> nat list \<Rightarrow> ('w event_state, sys_net_log list option) state" where
  "net_records E get entry pre [] = retP []"
| "net_records E get entry pre (i # is) =
     (case get i of
        NoData \<Rightarrow> net_records E get entry pre is
      | Panic \<Rightarrow> panicP
      | At a \<Rightarrow>
          bindP (okP (gets (\<lambda>s. net_report_at E (fos s) a))) (\<lambda>r.
            if (case pre of None \<Rightarrow> False | Some p \<Rightarrow> \<not> is_change r p) then net_records E get entry pre is
            else bindP (entry a r) (\<lambda>l. bindP (net_records E get entry (Some r) is) (\<lambda>ls. retP (l # ls)))))"

section \<open>The handlers\<close>

definition upload_net_log :: "('c, 'p, 'w) event_ext \<Rightarrow> sys_net_log list \<Rightarrow> ('w event_state, unit res option) state" where
  "upload_net_log E logs =
     (if logs = [] then retP (Inr ())
      else tryP (new_net_client E) (\<lambda>nc.
             bindP (upload E nc ''/v1/putsyslog'' (\<lambda>l. retP (build_batch_syslog_net_json E l)) logs) (\<lambda>_. retP (Inr ()))))"

definition handle_internal_communication_log ::
  "('c, 'p, 'w) event_ext \<Rightarrow> 'v uio_state \<Rightarrow> u8 list \<Rightarrow> u32 \<Rightarrow> ('w event_state, unit res option) state" where
  "handle_internal_communication_log E z data data_len =
     tryP (State_Monad.return (netlog_run (file_audit_succeed (mgr z)) data data_len)) (\<lambda>n.
     bindP (okP (gets (\<lambda>s. time_i32 (ex_now E (fos s))))) (\<lambda>now.
     tryP (retP (netlog_indices n)) (\<lambda>is.
     bindP (net_records E (get_in_netlog_audit_data (mgr z)) (internal_entry E (live_maps z) now) None is) (upload_net_log E))))"

text \<open>The ring that the external handler reads: the outgoing one for a run, the incoming one when the
  message carries a maximum.\<close>

definition external_ring :: "'v uio_state \<Rightarrow> netlink_netlog \<Rightarrow> nat \<Rightarrow> access" where
  "external_ring z n = (if nn_max_idx n = 0 then get_out_netlog_audit_data (mgr z) else get_in_netlog_audit_data (mgr z))"

definition handle_external_communication_log ::
  "('c, 'p, 'w) event_ext \<Rightarrow> 'v uio_state \<Rightarrow> u8 list \<Rightarrow> u32 \<Rightarrow> ('w event_state, unit res option) state" where
  "handle_external_communication_log E z data data_len =
     tryP (State_Monad.return (netlog_run (file_audit_succeed (mgr z)) data data_len)) (\<lambda>n.
     bindP (okP (gets (\<lambda>s. time_i32 (ex_now E (fos s))))) (\<lambda>now.
     tryP (retP (netlog_indices n)) (\<lambda>is.
     bindP (net_records E (external_ring z n) (external_entry E (live_maps z) now) None is) (upload_net_log E))))"

section \<open>Repetitions\<close>

text \<open>What tells connections apart.\<close>

definition conn_key :: "net_report \<Rightarrow> (u64 \<times> u64) \<times> (u64 \<times> u64) \<times> u16 \<times> u16 \<times> u32" where
  "conn_key r = (u64s (nr_src r), u64s (nr_dst r), to_be16 (nr_src_port r), to_be16 (nr_dest_port r), nr_pid r)"

lemma is_change_key: "is_change l c \<longleftrightarrow> conn_key l \<noteq> conn_key c"
  by (auto simp: is_change_def conn_key_def)

text \<open>Reference: of records in a row with one key, the first.\<close>

fun first_of_runs :: "net_report list \<Rightarrow> net_report list" where
  "first_of_runs [] = []"
| "first_of_runs [r] = [r]"
| "first_of_runs (r # q # rs) = (if conn_key r = conn_key q then first_of_runs (r # rs) else r # first_of_runs (q # rs))"

lemma first_of_runs_keys: "map conn_key (first_of_runs rs) = remdups_adj (map conn_key rs)"
  by (induction rs rule: first_of_runs.induct) auto

lemma first_of_runs_hd: "\<exists>ys. first_of_runs (r # rs) = r # ys"
  by (induction rs) auto

lemma still_report: "still_memory E \<Longrightarrow> net_report_at E w a = net_report_at E v a"
proof -
  assume "still_memory E"
  from still_load [OF this, of w _ _ v] show ?thesis by (simp add: net_report_at_def)
qed

definition reports_named :: "('c, 'p, 'w) event_ext \<Rightarrow> 'w \<Rightarrow> (nat \<Rightarrow> access) \<Rightarrow> nat list \<Rightarrow> net_report list" where
  "reports_named E w get is = List.map_filter (\<lambda>i. case get i of At a \<Rightarrow> Some (net_report_at E w a) | _ \<Rightarrow> None) is"

text \<open>The two ends of a connection, as the log shows them.\<close>

definition ends_of :: "net_report \<Rightarrow> string option \<times> u16 \<times> string option \<times> u16" where
  "ends_of r = (Some (ip_text (nr_src r)), to_be16 (nr_src_port r), Some (ip_text (nr_dst r)), to_be16 (nr_dest_port r))"

definition log_ends :: "sys_net_log \<Rightarrow> string option \<times> u16 \<times> string option \<times> u16" where
  "log_ends l = (sl_source_ip l, sl_source_port l, sl_res_ip l, sl_rs_port l)"

lemma add_hash_ends: "run_state (add_hash E l) s = (Some l', t) \<Longrightarrow> log_ends l' = log_ends l \<and> sl_log_type l' = sl_log_type l"
  by (auto simp: add_hash_def log_ends_def split: option.splits list.splits prod.splits)

lemma internal_entry_ends: "run_state (internal_entry E maps now a r) s = (Some l, t) \<Longrightarrow> log_ends l = ends_of r"
  by (auto simp: internal_entry_def read_comm_def Let_def split: option.splits dest!: add_hash_ends)
    (auto simp: log_ends_def ends_of_def sys_log_of_def)

lemma external_entry_ends: "run_state (external_entry E maps now a r) s = (Some l, t) \<Longrightarrow> log_ends l = ends_of r"
  by (auto simp: external_entry_def read_comm_def Let_def split: option.splits dest!: add_hash_ends)
    (auto simp: log_ends_def ends_of_def sys_log_of_def)

lemma map_filter_Cons: "List.map_filter f (x # xs) = (case f x of None \<Rightarrow> List.map_filter f xs | Some y \<Rightarrow> y # List.map_filter f xs)"
  by (simp add: List.map_filter_def split: option.splits)

lemma net_records_ends:
  assumes "still_memory E" and "\<And>a r s l t. run_state (entry a r) s = (Some l, t) \<Longrightarrow> log_ends l = ends_of r"
    and "run_state (net_records E get entry pre is) s = (Some ls, t)"
  shows "map log_ends ls = map ends_of (case pre of None \<Rightarrow> first_of_runs (reports_named E w get is)
           | Some p \<Rightarrow> tl (first_of_runs (p # reports_named E w get is)))"
  using assms(3)
proof (induction "is" arbitrary: pre s ls)
  case Nil
  then show ?case by (auto simp: reports_named_def split: option.splits)
next
  case (Cons i "is")
  show ?case
  proof (cases "get i")
    case NoData
    then have "reports_named E w get (i # is) = reports_named E w get is" by (simp add: reports_named_def map_filter_Cons)
    with NoData Cons.prems Cons.IH [of pre s ls] show ?thesis by (cases pre) simp_all
  next
    case Panic
    with Cons.prems show ?thesis by simp
  next
    case (At a)
    let ?r = "net_report_at E w a"
    have r: "net_report_at E (fos s) a = ?r" using still_report [OF assms(1)] .
    have n: "reports_named E w get (i # is) = ?r # reports_named E w get is" using At by (simp add: reports_named_def map_filter_Cons)
    show ?thesis
    proof (cases "\<exists>p. pre = Some p \<and> \<not> is_change ?r p")
      case True
      then obtain p where p: "pre = Some p" "conn_key p = conn_key ?r" by (auto simp: is_change_key)
      with Cons.prems At r have "run_state (net_records E get entry (Some p) is) s = (Some ls, t)" by (simp add: is_change_key)
      from Cons.IH [OF this] p n show ?thesis by simp
    next
      case False
      then have f: "\<not> (case pre of None \<Rightarrow> False | Some p \<Rightarrow> \<not> is_change ?r p)" by (auto split: option.splits)
      with Cons.prems At r obtain l u ls' where e: "run_state (entry a ?r) s = (Some l, u)"
        "run_state (net_records E get entry (Some ?r) is) u = (Some ls', t)" "ls = l # ls'"
        by (auto split: prod.splits option.splits)
      from Cons.IH [OF e(2)] have "map log_ends ls = map ends_of (first_of_runs (?r # reports_named E w get is))"
        using e(3) assms(2) [OF e(1)] first_of_runs_hd [of ?r "reports_named E w get is"] by auto
      with False n show ?thesis by (cases pre) (auto simp: is_change_key)
    qed
  qed
qed

section \<open>Properties\<close>

lemma keeps_add_hash: "event_blind P \<Longrightarrow> keeps P (add_hash E l)"
  unfolding add_hash_def by (auto split: option.splits list.splits intro!: keep_intros keeps_get_md5)

lemma keeps_business_port: "keeps (posted s d) (business_port l)"
proof -
  have "keeps (posted s d) (on_ports (get_port_from_state p))" for p
    by (auto simp: keeps_def get_port_from_state_def posted_def put_ports_def ports_view_def)
  then show ?thesis unfolding business_port_def by (intro keep_intros)
qed

lemma keeps_internal_entry: "keeps (posted s d) (internal_entry E maps now a r)"
  unfolding internal_entry_def read_comm_def Let_def
  by (intro keep_intros keeps_business_port keeps_add_hash posted_blind)

lemma keeps_external_entry: "keeps (posted s d) (external_entry E maps now a r)"
  unfolding external_entry_def read_comm_def by (intro keep_intros keeps_add_hash posted_blind)

lemma keeps_net_records: "(\<And>a r. keeps P (entry a r)) \<Longrightarrow> keeps P (net_records E get entry pre is)"
  by (induction "is" arbitrary: pre) (auto split: access.split intro!: keep_intros)

lemma upload_net_log_posts:
  assumes "run_state (upload_net_log E logs) s = (Some (Inr ()), t)"
  shows "if logs = [] then ev_posts t = ev_posts s
    else \<exists>doc. build_batch_syslog_net_json E logs = Inr doc \<and> ev_posts t = ev_posts s @ [(nc_server_ip_port (ev_cfg s) @ ''/v1/putsyslog'', doc)]"
proof (cases "logs = []")
  case False
  obtain c u where c: "run_state (new_net_client E) s = (c, u)" by (rule prod.exhaust)
  have u: "posted s [] u" using keepsD_run [OF keeps_new_net_client [of "posted s []"] posted_refl c] .
  from assms False c obtain nc where nc: "c = Some (Inr nc)" by (auto simp: upload_net_log_def split: option.splits sum.splits)
  have url: "base_url nc = Some (nc_server_ip_port (ev_cfg s))" using new_net_client_url c nc by blast
  obtain doc where doc: "build_batch_syslog_net_json E logs = Inr doc" using False by (simp add: build_batch_syslog_net_json_def wrapped_def)
  have "ev_posts t = ev_posts u @ [(nc_server_ip_port (ev_cfg s) @ ''/v1/putsyslog'', doc)]"
    using assms False c nc doc post_document_posted [of u _ doc E nc]
    by (auto simp: upload_net_log_def upload_def url posted_def split: prod.splits)
  with False u doc show ?thesis by (simp add: posted_def)
qed (use assms in \<open>simp add: upload_net_log_def\<close>)

text \<open>C17: a run of equal connections is logged once. While the kernel module leaves the records alone, a
  message about incoming connections that is answered without an error posts one document, whose
  entries are, in order, those of the records that the message names without the repetitions of the
  record before; and none when it names none.\<close>

theorem net_log_drops_repeats:
  assumes "still_memory E" and "netlog_run (file_audit_succeed (mgr z)) data data_len = Some (Inr n)" and "netlog_indices n = Inr is"
    and "run_state (handle_internal_communication_log E z data data_len) s = (Some (Inr ()), t)"
    and "reports = reports_named E (fos s) (get_in_netlog_audit_data (mgr z)) is"
  shows "\<exists>logs. map log_ends logs = map ends_of (first_of_runs reports) \<and> map conn_key (first_of_runs reports) = remdups_adj (map conn_key reports)
    \<and> (if reports = [] then ev_posts t = ev_posts s
       else \<exists>doc. build_batch_syslog_net_json E logs = Inr doc \<and> ev_posts t = ev_posts s @ [(nc_server_ip_port (ev_cfg s) @ ''/v1/putsyslog'', doc)])"
proof -
  let ?now = "time_i32 (ex_now E (fos s))"
  obtain q u where q: "run_state (net_records E (get_in_netlog_audit_data (mgr z)) (internal_entry E (live_maps z) ?now) None is) s = (q, u)"
    by (rule prod.exhaust)
  from assms(2-4) q obtain logs where l: "q = Some logs" and up: "run_state (upload_net_log E logs) u = (Some (Inr ()), t)"
    by (auto simp: handle_internal_communication_log_def split: option.splits)
  have u: "posted s [] u" using keepsD_run [OF keeps_net_records [OF keeps_internal_entry] posted_refl q] .
  have e: "run_state (internal_entry E (live_maps z) ?now a r) v = (Some x, v') \<Longrightarrow> log_ends x = ends_of r" for a r v x v'
    by (rule internal_entry_ends)
  have ends: "map log_ends logs = map ends_of (first_of_runs reports)"
    using net_records_ends [OF assms(1) e q [unfolded l], where w = "fos s"] assms(5) by simp
  have "first_of_runs reports = [] \<longleftrightarrow> reports = []" using first_of_runs_hd by (cases reports) (simp_all, metis list.distinct(1))
  with ends have "logs = [] \<longleftrightarrow> reports = []" by (metis map_is_Nil_conv)
  with upload_net_log_posts [OF up] u ends first_of_runs_keys show ?thesis by (auto simp: posted_def)
qed

text \<open>On a wrap the handler of outgoing connections reads incoming ones. When the message carries a
  maximum, every record that the handler visits lies before every outgoing record.\<close>

theorem external_wrap_reads_incoming:
  assumes "mmap_sane U" and "run_state (zcopy_new U) z0 = (Inr (), z)" and "nn_max_idx n \<noteq> 0"
    and "external_ring z n i = At p" and "get_out_netlog_audit_data (mgr z) j = At q"
  shows "get_in_netlog_audit_data (mgr z) i = At p \<and> p + 176 \<le> q"
proof -
  from zcopy_new_run [OF assms(1,2)] have "counts_ok (mgr z)" by (simp add: tracked_def)
  from in_out_apart [OF this _ assms(5)] assms(3,4) show ?thesis by (simp add: external_ring_def)
qed

section \<open>The theorems on a small host\<close>

text \<open>Two equal records.\<close>

definition lab_net_z :: "unit uio_state" where
  "lab_net_z = \<lparr>uw = (), live_maps = [(100, 50)], mgr = zcopy_blank\<lparr>in_netlog_audit_succeed := True, in_netlog_cir_buffer := 100,
     in_netlog_audit_total_count := 2, file_audit_succeed := True\<rparr>\<rparr>"

definition lab_net_run :: "unit res option \<times> unit event_state" where
  "lab_net_run = run_state (handle_internal_communication_log (lab_event (\<lambda>a. 0)) lab_net_z [0, 0, 0, 0, 2, 0, 0, 0, 0, 0, 0, 0] 12)
     (lab_event_state (net_info_default\<lparr>nc_server_ip_port := ''s''\<rparr>))"

lemma lab_net_records:
  "get_in_netlog_audit_data (mgr lab_net_z) 0 = At 100" "get_in_netlog_audit_data (mgr lab_net_z) (Suc 0) = At 276"
  "net_report_at (lab_event (\<lambda>a. 0)) w 276 = net_report_at (lab_event (\<lambda>a. 0)) w 100"
  "read_cstr (lab_event (\<lambda>a. 0)) [(100, 50)] w 148 = Some []"
  by (code_simp, code_simp, simp add: net_report_at_def load_def lab_event_def, cases w, code_simp)

lemma lab_net_entry:
  "\<exists>l. run_state (internal_entry (lab_event (\<lambda>a. 0)) [(100, 50)] now 100 r) (lab_event_state cfg) =
     (Some l, (lab_event_state cfg)\<lparr>ev_ports := ports_init ()\<rparr>)"
  by (simp add: internal_entry_def read_comm_def lab_net_records business_port_def get_port_from_state_def get_port_info_def Let_def
      put_ports_def ports_view_def lab_event_state_def ports_init_def lossy.simps text_of_bytes_def)

lemma lab_net_upload:
  "fst (run_state (upload_net_log (lab_event mem) logs) ((lab_event_state cfg)\<lparr>ev_ports := p\<rparr>)) = Some (Inr ())"
  by (simp add: upload_net_log_def new_net_client_def boot_base_url_def lock_cfg_def lab_event_state_def lab_event_def event_http_def net_client_new_def
      upload_def build_batch_syslog_net_json_def wrapped_def post_document_def run_on_fos)

lemma lab_net_ok: "fst lab_net_run = Some (Inr ())"
proof -
  have n: "netlog_run (file_audit_succeed (mgr lab_net_z)) [0, 0, 0, 0, 2, 0, 0, 0, 0, 0, 0, 0] 12
      = Some (Inr \<lparr>nn_start_idx = 0, nn_end_idx = 2, nn_max_idx = 0\<rparr>)"
    and i: "netlog_indices \<lparr>nn_start_idx = 0, nn_end_idx = 2, nn_max_idx = 0\<rparr> = Inr [0, Suc 0]" by code_simp+
  have z: "live_maps lab_net_z = [(100, 50)]" by (simp add: lab_net_z_def)
  obtain l where "run_state (internal_entry (lab_event (\<lambda>a. 0)) [(100, 50)] (time_i32 (ex_now (lab_event (\<lambda>a. 0)) ())) 100 (net_report_at (lab_event (\<lambda>a. 0)) () 100))
      (lab_event_state (net_info_default\<lparr>nc_server_ip_port := ''s''\<rparr>)) = (Some l, (lab_event_state (net_info_default\<lparr>nc_server_ip_port := ''s''\<rparr>))\<lparr>ev_ports := ports_init ()\<rparr>)"
    using lab_net_entry by blast
  then show ?thesis
    by (simp add: lab_net_run_def handle_internal_communication_log_def n i z lab_net_records is_change_def lab_net_upload)
qed

theorem net_log_drops_repeats_witness:
  "\<exists>logs doc. length logs = 1 \<and> build_batch_syslog_net_json (lab_event (\<lambda>a. 0)) logs = Inr doc
     \<and> ev_posts (snd lab_net_run) = [(''s/v1/putsyslog'', doc)]"
proof -
  let ?E = "lab_event (\<lambda>a. 0)" and ?s = "lab_event_state (net_info_default\<lparr>nc_server_ip_port := ''s''\<rparr>)"
  let ?n = "\<lparr>nn_start_idx = 0, nn_end_idx = 2, nn_max_idx = 0\<rparr>"
  let ?reports = "reports_named ?E (fos ?s) (get_in_netlog_audit_data (mgr lab_net_z)) [0, 1]"
  have "still_memory ?E" by (simp add: still_memory_def lab_event_def)
  moreover have "netlog_run (file_audit_succeed (mgr lab_net_z)) [0, 0, 0, 0, 2, 0, 0, 0, 0, 0, 0, 0] 12 = Some (Inr ?n)" by code_simp
  moreover have "netlog_indices ?n = Inr [0, 1]" by code_simp
  moreover have "run_state (handle_internal_communication_log ?E lab_net_z [0, 0, 0, 0, 2, 0, 0, 0, 0, 0, 0, 0] 12) ?s = (Some (Inr ()), snd lab_net_run)"
    using lab_net_ok by (metis lab_net_run_def prod.collapse)
  ultimately obtain logs where l: "map log_ends logs = map ends_of (first_of_runs ?reports)"
    and p: "if ?reports = [] then ev_posts (snd lab_net_run) = ev_posts ?s
       else \<exists>doc. build_batch_syslog_net_json ?E logs = Inr doc \<and> ev_posts (snd lab_net_run) = ev_posts ?s @ [(nc_server_ip_port (ev_cfg ?s) @ ''/v1/putsyslog'', doc)]"
    using net_log_drops_repeats [of ?E lab_net_z "[0, 0, 0, 0, 2, 0, 0, 0, 0, 0, 0, 0]" 12 ?n "[0, 1]" ?s "snd lab_net_run" ?reports] by blast
  have r: "length (first_of_runs ?reports) = 1" "?reports \<noteq> []" by code_simp+
  from arg_cong [OF l, of length] r(1) have "length logs = 1" by simp
  with p r(2) show ?thesis by (auto simp: lab_event_state_def)
qed

text \<open>The first turn of the external handler on a device, after a message with a maximum.\<close>

theorem external_wrap_reads_incoming_witness:
  "\<exists>p q. get_in_netlog_audit_data (mgr lab_z) 1 = At p \<and> get_out_netlog_audit_data (mgr lab_z) 0 = At q \<and> p + 176 \<le> q"
proof -
  let ?n = "\<lparr>nn_start_idx = 2, nn_end_idx = 3, nn_max_idx = 4\<rparr>"
  have e: "external_ring lab_z ?n 1 = At 4272" "get_out_netlog_audit_data (mgr lab_z) 0 = At 6032" by code_simp+
  with external_wrap_reads_incoming [OF lab_uio_sane lab_uio_ok _ e] show ?thesis by auto
qed

end
