(* ===== verification/Port_Audit.thy ===== *)
theory Port_Audit
  imports Net_Log
begin

text \<open>
  \<^verbatim>\<open>crates/reporter/src/fake_port_audit.rs\<close> and \<^verbatim>\<open>self_protect.rs\<close>: accesses to virtual ports, from the
  shared buffer, and attempts on the agent itself, from the message, become alerts.
\<close>

section \<open>Virtual ports\<close>

record openport_report =
  or_type :: u32
  or_src_ip :: "u8 list"
  or_src_port :: u16
  or_dest_ip :: "u8 list"
  or_attack_dest_ip :: "u8 list"
  or_dest_port :: u16

definition openport_at :: "('c, 'p, 'w) event_ext \<Rightarrow> 'w \<Rightarrow> nat \<Rightarrow> openport_report" where
  "openport_at E w a = \<lparr>or_type = from_le (load E w a 4), or_src_ip = load E w (a + 8) 16, or_src_port = from_le (load E w (a + 24) 2),
     or_dest_ip = load E w (a + 32) 16, or_attack_dest_ip = load E w (a + 48) 16, or_dest_port = from_le (load E w (a + 64) 2)\<rparr>"

lemma openport_offsets: "take 6 (field_offsets 0 OsecOpenportReport) = [0, 8, 24, 32, 48, 64]"
  by code_simp

definition redirect_text :: "u8 list \<Rightarrow> string" where
  "redirect_text addr =
     (let t = ip_text addr in
      if ip46_address_is_ip4 addr then (if t = ''255.255.255.255'' then [] else t)
      else (if t = ''::'' then [] else t))"

definition open_port_entry :: "openport_report \<Rightarrow> open_port_log" where
  "open_port_entry r =
     \<lparr>op_weight = sint (or_type r), op_time = 1692760326, op_attack_ip = ip_text (or_src_ip r),
      op_destination_ip = ip_text (or_attack_dest_ip r), op_open_port = uint (or_src_port r),
      op_redirect_ip = redirect_text (or_dest_ip r), op_redirect_port = uint (or_dest_port r)\<rparr>"

definition handle_fake_port_zcopy_oper ::
  "('c, 'p, 'w) event_ext \<Rightarrow> 'v uio_state \<Rightarrow> u8 list \<Rightarrow> u32 \<Rightarrow> ('w event_state, unit res option) state" where
  "handle_fake_port_zcopy_oper E z data data_len =
     tryP (State_Monad.return (netlog_run (process_audit_succeed (mgr z)) data data_len)) (\<lambda>n.
     tryP (retP (netlog_indices n)) (\<lambda>is.
     bindP (iterate (get_openport_log_audit_data (mgr z)) (\<lambda>a. okP (gets (\<lambda>s. open_port_entry (openport_at E (fos s) a)))) is) (\<lambda>logs.
     tryP (new_net_client E) (\<lambda>nc.
     bindP (upload E nc ''/v1/upOpenPort'' (\<lambda>l. retP (build_open_port_json E l)) logs) (\<lambda>_. retP (Inr ()))))))"

section \<open>Self protection\<close>

record self_protect_msg =
  sm_pid :: "32 word"
  sm_ppid :: "32 word"
  sm_uid :: "32 word"
  sm_type :: "32 word"
  sm_comm :: "u8 list"
  sm_path :: "u8 list"

definition self_protect_from_bytes :: "u8 list \<Rightarrow> self_protect_msg option" where
  "self_protect_from_bytes data =
     (if length data < 272 then None
      else Some \<lparr>sm_pid = from_le (take 4 data), sm_ppid = from_le (take 4 (drop 4 data)), sm_uid = from_le (take 4 (drop 8 data)),
                 sm_type = from_le (take 4 (drop 12 data)), sm_comm = take 128 (drop 16 data), sm_path = take 128 (drop 144 data)\<rparr>)"

definition cstr_to_string :: "u8 list \<Rightarrow> string" where
  "cstr_to_string bytes = lossy (text_of_bytes (takeWhile (\<lambda>b. b \<noteq> 0) bytes))"

definition looks_like_path :: "string \<Rightarrow> bool" where
  "looks_like_path s \<longleftrightarrow> s \<noteq> [] \<and> starts_with ''/'' s"

definition some_text :: "string \<Rightarrow> string option" where
  "some_text s = (if s = [] then None else Some s)"

definition to_log_info :: "('c, 'p, 'w) event_ext \<Rightarrow> self_protect_msg \<Rightarrow> ('w event_state, self_protect_log option) state" where
  "to_log_info E m =
     (let proc_dir = cstr_to_string (sm_comm m); file_dir = cstr_to_string (sm_path m) in
      bindP (if looks_like_path proc_dir
             then bindP (get_md5 (ex_md5 E) (ex_files E) proc_dir) (\<lambda>r. retP (case r of Inl _ \<Rightarrow> None | Inr h \<Rightarrow> Some h))
             else retP None) (\<lambda>proc_hash.
        retP \<lparr>sp_file_dir = some_text file_dir, sp_proc_dir = some_text proc_dir, sp_proc_hash = proc_hash, sp_proc_param = None,
              sp_target_dir = None, sp_type = ucast (sm_type m), sp_level = 3, sp_time = 1692760326\<rparr>))"

definition parse_failed_self :: string where "parse_failed_self = utf8 [232, 167, 163, 230, 158, 144, 229, 164, 177, 232, 180, 165]"

definition handle_self_protect_oper ::
  "('c, 'p, 'w) event_ext \<Rightarrow> u8 list \<Rightarrow> u32 \<Rightarrow> ('w event_state, unit res option) state" where
  "handle_self_protect_oper E data data_len =
     (case self_protect_from_bytes data of
        None \<Rightarrow> retP (Inl parse_failed_self)
      | Some info \<Rightarrow>
          bindP (to_log_info E info) (\<lambda>log.
          tryP (new_net_client E) (\<lambda>nc.
          bindP (upload E nc ''/v1/alertupload'' (\<lambda>l. retP (build_self_protect_alert_log_json E l)) [log]) (\<lambda>_. retP (Inr ())))))"

section \<open>What the reports show\<close>

text \<open>An IPv4 address is shown in the order in which its bytes stand in the record.\<close>

lemma ip_text_v4:
  assumes "length addr = 16" and "list_all (\<lambda>b. b = 0) (take 12 addr)"
  shows "ip_text addr = show_ipv4 (addr ! 12, addr ! 13, addr ! 14, addr ! 15)"
proof -
  have d: "take 4 (drop 12 addr) = [addr ! 12, addr ! 13, addr ! 14, addr ! 15]"
    using assms(1) by (intro nth_equalityI) (auto simp: less_Suc_eq numeral_eq_Suc)
  define a b c e where "a = addr ! 12" and "b = addr ! 13" and "c = addr ! 14" and "e = addr ! 15"
  have "bit x n \<Longrightarrow> n < 8" for x :: u8 and n using bit_imp_le_length [of x n] by simp
  then have l: "\<not> bit x (8 + n)" "\<not> bit x (16 + n)" "\<not> bit x (24 + n)" for x :: u8 and n by fastforce+
  have "ipv4_from (swap_bytes (from_le [a, b, c, e])) = (a, b, c, e)"
    unfolding ipv4_from_swapped
    by (auto simp: from_le_def bit_simps l intro!: bit_word_eqI)
  then show ?thesis using assms(2) by (simp add: ip_text_def ip46_address_is_ip4_def d a_def b_def c_def e_def)
qed

text \<open>The three handlers leave the queue, the tables and the configuration alone.\<close>

lemma keeps_self_protect: "event_blind P \<Longrightarrow> keeps P (to_log_info E m)"
  unfolding to_log_info_def Let_def by (intro keep_intros keeps_get_md5)

lemma unhurt_self_protect: "no_old_files (ex_md5 E) \<Longrightarrow> unhurt (\<lambda>s. \<not> ev_poisoned s) (handle_self_protect_oper E data data_len)"
  unfolding handle_self_protect_oper_def to_log_info_def Let_def
  by (intro unhurt_intros unhurt_get_md5 healthy_blind unhurt_new_net_client unhurt_upload)

end
