(* ===== verification/Kernel_Event.thy ===== *)
theory Kernel_Event
  imports Process_Audit File_Audit Port_Audit
begin

text \<open>
  \<^verbatim>\<open>crates/kernel_event/src/event_handler/mod.rs\<close>: the messages of the kernel module, the table of the
  handlers for them and the loop that receives them. The handlers are the values of
  \<open>event_callback\<close>; \<open>invoke\<close> runs one.

  A message is handled in a task of its own (\<^verbatim>\<open>tokio::spawn\<close>), which takes the lock of the table first,
  so that one handler runs at a time, in any order: \<open>ks_tasks\<close> are the tasks that wait. A handler that
  panics ends its task only.
\<close>

section \<open>Types of messages\<close>

datatype nl_policy_type =
    NL_POLICY_CMD_UNSPEC
  | NL_POLICY_CMD_ECHO
  | NL_POLICY_SIMPLE_END
  | NL_POLICY_BOOL_END
  | NL_POLICY_CMD_REGISTER
  | NL_POLICY_CMD_ADD_SYMBOL
  | NL_POLICY_CMD_UNREGISTER
  | NL_POLICY_MD5RULE_END
  | NL_POLICY_DEFENSE_UNSPEC
  | NL_POLICY_DEFENSE_SWITCHER
  | NL_POLICY_DEFENSE_ADD_WHITE_EXE
  | NL_POLICY_SELF_SWITCHER
  | NL_POLICY_GLOBAL_DIR
  | NL_POLICY_EXIPORT_RULE
  | NL_POLICY_PROTECT_RULE
  | NL_POLICY_DEFENSE_FILE_PROCESS_POLICY
  | NL_POLICY_NETWORK_UNSPEC
  | NL_POLICY_NETWORK_POLICY
  | NL_POLICY_NETSYSLOG_POLICY
  | NL_POLICY_NETWORK_SERVERIP_POLICY
  | NL_POLICY_NETWORK_NETBLOCK
  | NL_POLICY_NETWORK_BUSINESS_PORT_POLICY
  | NL_POLICY_NETWORK_CLOSE
  | NL_MAX_CLASSIC_INDEX
  | NL_POLICY_CMD_NOTIFY
  | NL_POLICY_CMD_REGISTERED_NOTIFY
  | NL_POLICY_AV_PROCESS_EXEC_NOTIFY
  | NL_POLICY_AV_PROCESS_EXEC_ZCOPY_NOTIFY
  | NL_POLICY_AV_FILE_CHANGE_NOTIFY
  | NL_POLICY_AV_FILE_RENAME_NOTIFY
  | NL_POLICY_AV_FILE_AUDIT_ZCOPY_NOTIFY
  | NL_POLICY_AV_SELF_PROTECTION_NOTIFY
  | NL_POLICY_NET_PORT_NOTIFY
  | NL_POLICY_NET_PORT_ZCOPY_NOTIFY
  | NL_POLICY_NET_CONNECT_PORT_IN_NOTIFY
  | NL_POLICY_NET_CONNECT_PORT_OUT_NOTIFY
  | NL_POLICY_NET_CONNECT_PORT_NOTIFY
  | NL_POLICY_NET_DNS_PORT_NOTIFY
  | NL_POLICY_NET_DNS_PORT_ZCOPY_NOTIFY
  | NL_POLICY_INFO_KERN_TO_APP_NOTIFY
  | NL_POLICY_UPDATE_PROCESS_RULE_NOTIFY
  | NL_POLICY_SERVER_LISTEN_NOTIFY
  | NL_MAX_INDEX

text \<open>The numbers that the enumeration gives to the types, those that \<^verbatim>\<open>from_u32\<close> reads, and the names, which are
  the same for \<^verbatim>\<open>Debug\<close> and \<^verbatim>\<open>Display\<close>.\<close>

definition discriminants :: "(nl_policy_type \<times> nat) list" where
  "discriminants =
     [(NL_POLICY_CMD_UNSPEC, 0), (NL_POLICY_CMD_ECHO, 1), (NL_POLICY_SIMPLE_END, 2), (NL_POLICY_BOOL_END, 3),
      (NL_POLICY_CMD_REGISTER, 4), (NL_POLICY_CMD_ADD_SYMBOL, 5), (NL_POLICY_CMD_UNREGISTER, 6),
      (NL_POLICY_MD5RULE_END, 7), (NL_POLICY_DEFENSE_UNSPEC, 0x100), (NL_POLICY_DEFENSE_SWITCHER, 0x101),
      (NL_POLICY_DEFENSE_ADD_WHITE_EXE, 0x102), (NL_POLICY_SELF_SWITCHER, 0x103), (NL_POLICY_GLOBAL_DIR, 0x104),
      (NL_POLICY_EXIPORT_RULE, 0x105), (NL_POLICY_PROTECT_RULE, 0x106), (NL_POLICY_DEFENSE_FILE_PROCESS_POLICY, 0x107),
      (NL_POLICY_NETWORK_UNSPEC, 0x700), (NL_POLICY_NETWORK_POLICY, 0x701), (NL_POLICY_NETSYSLOG_POLICY, 0x702),
      (NL_POLICY_NETWORK_SERVERIP_POLICY, 0x703), (NL_POLICY_NETWORK_NETBLOCK, 0x704),
      (NL_POLICY_NETWORK_BUSINESS_PORT_POLICY, 0x705), (NL_POLICY_NETWORK_CLOSE, 0x706), (NL_MAX_CLASSIC_INDEX, 0x707),
      (NL_POLICY_CMD_NOTIFY, 0x503), (NL_POLICY_CMD_REGISTERED_NOTIFY, 0x504),
      (NL_POLICY_AV_PROCESS_EXEC_NOTIFY, 0x505), (NL_POLICY_AV_PROCESS_EXEC_ZCOPY_NOTIFY, 0x506),
      (NL_POLICY_AV_FILE_CHANGE_NOTIFY, 0x507), (NL_POLICY_AV_FILE_RENAME_NOTIFY, 0x508),
      (NL_POLICY_AV_FILE_AUDIT_ZCOPY_NOTIFY, 0x509), (NL_POLICY_AV_SELF_PROTECTION_NOTIFY, 0x50a),
      (NL_POLICY_NET_PORT_NOTIFY, 0x50b), (NL_POLICY_NET_PORT_ZCOPY_NOTIFY, 0x50c),
      (NL_POLICY_NET_CONNECT_PORT_IN_NOTIFY, 0x50d), (NL_POLICY_NET_CONNECT_PORT_OUT_NOTIFY, 0x50e),
      (NL_POLICY_NET_CONNECT_PORT_NOTIFY, 0x50f), (NL_POLICY_NET_DNS_PORT_NOTIFY, 0x510),
      (NL_POLICY_NET_DNS_PORT_ZCOPY_NOTIFY, 0x511), (NL_POLICY_INFO_KERN_TO_APP_NOTIFY, 0x512),
      (NL_POLICY_UPDATE_PROCESS_RULE_NOTIFY, 0x513), (NL_POLICY_SERVER_LISTEN_NOTIFY, 0x514), (NL_MAX_INDEX, 0x1000)]"

definition from_u32_table :: "(nat \<times> nl_policy_type) list" where
  "from_u32_table =
     [(0, NL_POLICY_CMD_UNSPEC), (1, NL_POLICY_CMD_ECHO), (2, NL_POLICY_SIMPLE_END), (3, NL_POLICY_BOOL_END),
      (4, NL_POLICY_CMD_REGISTER), (5, NL_POLICY_CMD_ADD_SYMBOL), (6, NL_POLICY_CMD_UNREGISTER),
      (7, NL_POLICY_MD5RULE_END), (0x100, NL_POLICY_DEFENSE_UNSPEC), (0x101, NL_POLICY_DEFENSE_SWITCHER),
      (0x102, NL_POLICY_DEFENSE_ADD_WHITE_EXE), (0x103, NL_POLICY_SELF_SWITCHER), (0x104, NL_POLICY_GLOBAL_DIR),
      (0x105, NL_POLICY_EXIPORT_RULE), (0x106, NL_POLICY_PROTECT_RULE), (0x107, NL_POLICY_DEFENSE_FILE_PROCESS_POLICY),
      (0x700, NL_POLICY_NETWORK_UNSPEC), (0x701, NL_POLICY_NETWORK_POLICY), (0x702, NL_POLICY_NETSYSLOG_POLICY),
      (0x703, NL_POLICY_NETWORK_SERVERIP_POLICY), (0x704, NL_POLICY_NETWORK_NETBLOCK),
      (0x705, NL_POLICY_NETWORK_BUSINESS_PORT_POLICY), (0x706, NL_POLICY_NETWORK_CLOSE), (0x800, NL_MAX_CLASSIC_INDEX),
      (0x503, NL_POLICY_CMD_NOTIFY), (0x504, NL_POLICY_CMD_REGISTERED_NOTIFY),
      (0x505, NL_POLICY_AV_PROCESS_EXEC_NOTIFY), (0x506, NL_POLICY_AV_PROCESS_EXEC_ZCOPY_NOTIFY),
      (0x507, NL_POLICY_AV_FILE_CHANGE_NOTIFY), (0x508, NL_POLICY_AV_FILE_RENAME_NOTIFY),
      (0x509, NL_POLICY_AV_FILE_AUDIT_ZCOPY_NOTIFY), (0x50a, NL_POLICY_AV_SELF_PROTECTION_NOTIFY),
      (0x50b, NL_POLICY_NET_PORT_NOTIFY), (0x50c, NL_POLICY_NET_PORT_ZCOPY_NOTIFY),
      (0x50d, NL_POLICY_NET_CONNECT_PORT_IN_NOTIFY), (0x50e, NL_POLICY_NET_CONNECT_PORT_OUT_NOTIFY),
      (0x50f, NL_POLICY_NET_CONNECT_PORT_NOTIFY), (0x510, NL_POLICY_NET_DNS_PORT_NOTIFY),
      (0x511, NL_POLICY_NET_DNS_PORT_ZCOPY_NOTIFY), (0x512, NL_POLICY_INFO_KERN_TO_APP_NOTIFY),
      (0x513, NL_POLICY_UPDATE_PROCESS_RULE_NOTIFY), (0x514, NL_POLICY_SERVER_LISTEN_NOTIFY), (0x1000, NL_MAX_INDEX)]"

definition policy_names :: "(nl_policy_type \<times> string) list" where
  "policy_names =
     [(NL_POLICY_CMD_UNSPEC, ''NL_POLICY_CMD_UNSPEC''), (NL_POLICY_CMD_ECHO, ''NL_POLICY_CMD_ECHO''),
      (NL_POLICY_SIMPLE_END, ''NL_POLICY_SIMPLE_END''), (NL_POLICY_BOOL_END, ''NL_POLICY_BOOL_END''),
      (NL_POLICY_CMD_REGISTER, ''NL_POLICY_CMD_REGISTER''), (NL_POLICY_CMD_ADD_SYMBOL, ''NL_POLICY_CMD_ADD_SYMBOL''),
      (NL_POLICY_CMD_UNREGISTER, ''NL_POLICY_CMD_UNREGISTER''), (NL_POLICY_MD5RULE_END, ''NL_POLICY_MD5RULE_END''),
      (NL_POLICY_DEFENSE_UNSPEC, ''NL_POLICY_DEFENSE_UNSPEC''),
      (NL_POLICY_DEFENSE_SWITCHER, ''NL_POLICY_DEFENSE_SWITCHER''),
      (NL_POLICY_DEFENSE_ADD_WHITE_EXE, ''NL_POLICY_DEFENSE_ADD_WHITE_EXE''),
      (NL_POLICY_SELF_SWITCHER, ''NL_POLICY_SELF_SWITCHER''), (NL_POLICY_GLOBAL_DIR, ''NL_POLICY_GLOBAL_DIR''),
      (NL_POLICY_EXIPORT_RULE, ''NL_POLICY_EXIPORT_RULE''), (NL_POLICY_PROTECT_RULE, ''NL_POLICY_PROTECT_RULE''),
      (NL_POLICY_DEFENSE_FILE_PROCESS_POLICY, ''NL_POLICY_DEFENSE_FILE_PROCESS_POLICY''),
      (NL_POLICY_NETWORK_UNSPEC, ''NL_POLICY_NETWORK_UNSPEC''),
      (NL_POLICY_NETWORK_POLICY, ''NL_POLICY_NETWORK_POLICY''),
      (NL_POLICY_NETSYSLOG_POLICY, ''NL_POLICY_NETSYSLOG_POLICY''),
      (NL_POLICY_NETWORK_SERVERIP_POLICY, ''NL_POLICY_NETWORK_SERVERIP_POLICY''),
      (NL_POLICY_NETWORK_NETBLOCK, ''NL_POLICY_NETWORK_NETBLOCK''),
      (NL_POLICY_NETWORK_BUSINESS_PORT_POLICY, ''NL_POLICY_NETWORK_BUSINESS_PORT_POLICY''),
      (NL_POLICY_NETWORK_CLOSE, ''NL_POLICY_NETWORK_CLOSE''), (NL_MAX_CLASSIC_INDEX, ''NL_MAX_CLASSIC_INDEX''),
      (NL_POLICY_CMD_NOTIFY, ''NL_POLICY_CMD_NOTIFY''),
      (NL_POLICY_CMD_REGISTERED_NOTIFY, ''NL_POLICY_CMD_REGISTERED_NOTIFY''),
      (NL_POLICY_AV_PROCESS_EXEC_NOTIFY, ''NL_POLICY_AV_PROCESS_EXEC_NOTIFY''),
      (NL_POLICY_AV_PROCESS_EXEC_ZCOPY_NOTIFY, ''NL_POLICY_AV_PROCESS_EXEC_ZCOPY_NOTIFY''),
      (NL_POLICY_AV_FILE_CHANGE_NOTIFY, ''NL_POLICY_AV_FILE_CHANGE_NOTIFY''),
      (NL_POLICY_AV_FILE_RENAME_NOTIFY, ''NL_POLICY_AV_FILE_RENAME_NOTIFY''),
      (NL_POLICY_AV_FILE_AUDIT_ZCOPY_NOTIFY, ''NL_POLICY_AV_FILE_AUDIT_ZCOPY_NOTIFY''),
      (NL_POLICY_AV_SELF_PROTECTION_NOTIFY, ''NL_POLICY_AV_SELF_PROTECTION_NOTIFY''),
      (NL_POLICY_NET_PORT_NOTIFY, ''NL_POLICY_NET_PORT_NOTIFY''),
      (NL_POLICY_NET_PORT_ZCOPY_NOTIFY, ''NL_POLICY_NET_PORT_ZCOPY_NOTIFY''),
      (NL_POLICY_NET_CONNECT_PORT_IN_NOTIFY, ''NL_POLICY_NET_CONNECT_PORT_IN_NOTIFY''),
      (NL_POLICY_NET_CONNECT_PORT_OUT_NOTIFY, ''NL_POLICY_NET_CONNECT_PORT_OUT_NOTIFY''),
      (NL_POLICY_NET_CONNECT_PORT_NOTIFY, ''NL_POLICY_NET_CONNECT_PORT_NOTIFY''),
      (NL_POLICY_NET_DNS_PORT_NOTIFY, ''NL_POLICY_NET_DNS_PORT_NOTIFY''),
      (NL_POLICY_NET_DNS_PORT_ZCOPY_NOTIFY, ''NL_POLICY_NET_DNS_PORT_ZCOPY_NOTIFY''),
      (NL_POLICY_INFO_KERN_TO_APP_NOTIFY, ''NL_POLICY_INFO_KERN_TO_APP_NOTIFY''),
      (NL_POLICY_UPDATE_PROCESS_RULE_NOTIFY, ''NL_POLICY_UPDATE_PROCESS_RULE_NOTIFY''),
      (NL_POLICY_SERVER_LISTEN_NOTIFY, ''NL_POLICY_SERVER_LISTEN_NOTIFY''), (NL_MAX_INDEX, ''NL_MAX_INDEX'')]"

definition nl_from_u32 :: "u32 \<Rightarrow> nl_policy_type option" where
  "nl_from_u32 v = map_of from_u32_table (unat v)"

definition policy_name :: "nl_policy_type \<Rightarrow> string" where
  "policy_name t = the (map_of policy_names t)"

definition discriminant :: "nl_policy_type \<Rightarrow> nat" where
  "discriminant t = the (map_of discriminants t)"

section \<open>The table of handlers\<close>

datatype event_callback =
    OnEcho | OnRegister | OnAddSymbol | OnUnregister | OnFileAudit | OnProcessAudit | OnNetApp | OnInternalLog
  | OnExternalLog | OnFakePort | OnKernelDocker | OnSelfProtect

record ('v, 'w) kernel_state =
  ks_event :: "'w event_state"
  ks_uio :: "'v uio_state"
  ks_callbacks :: "(nl_policy_type \<times> event_callback) list"
  ks_tasks :: "(u32 \<times> u8 list \<times> u32) list"

definition register_event_handler :: "nl_policy_type \<Rightarrow> event_callback \<Rightarrow> (('v, 'w) kernel_state, unit) state" where
  "register_event_handler t cb = modify (\<lambda>k. k\<lparr>ks_callbacks := AList.update t cb (ks_callbacks k)\<rparr>)"

definition register_default_event_handlers :: "(('v, 'w) kernel_state, unit) state" where
  "register_default_event_handlers = do {
     register_event_handler NL_POLICY_CMD_ECHO OnEcho;
     register_event_handler NL_POLICY_CMD_REGISTER OnRegister;
     register_event_handler NL_POLICY_CMD_ADD_SYMBOL OnAddSymbol;
     register_event_handler NL_POLICY_CMD_UNREGISTER OnUnregister
   }"

abbreviation on_event :: "('w event_state, 'r) state \<Rightarrow> (('v, 'w) kernel_state, 'r) state" where
  "on_event \<equiv> zoom ks_event (\<lambda>s k. k\<lparr>ks_event := s\<rparr>)"

abbreviation on_uio :: "('v uio_state, 'r) state \<Rightarrow> (('v, 'w) kernel_state, 'r) state" where
  "on_uio \<equiv> zoom ks_uio (\<lambda>u k. k\<lparr>ks_uio := u\<rparr>)"

text \<open>Without the shared buffers no handler is registered; with them, making \<^verbatim>\<open>NetAppHandler\<close> reads the ports
  once.\<close>

definition register_user_event_handlers ::
  "('c, 'p, 'w) event_ext \<Rightarrow> 'v uio_ext \<Rightarrow> (('v, 'w) kernel_state, unit) state" where
  "register_user_event_handlers E U = do {
     r \<leftarrow> on_uio (zcopy_new U);
     case r of
       Inl _ \<Rightarrow> State_Monad.return ()
     | Inr _ \<Rightarrow> do {
         on_event (on_ports (net_app_refresh (ex_net_app E) (ex_sys E)));
         register_event_handler NL_POLICY_AV_FILE_AUDIT_ZCOPY_NOTIFY OnFileAudit;
         register_event_handler NL_POLICY_AV_PROCESS_EXEC_ZCOPY_NOTIFY OnProcessAudit;
         register_event_handler NL_POLICY_SERVER_LISTEN_NOTIFY OnNetApp;
         register_event_handler NL_POLICY_NET_CONNECT_PORT_IN_NOTIFY OnInternalLog;
         register_event_handler NL_POLICY_NET_CONNECT_PORT_OUT_NOTIFY OnExternalLog;
         register_event_handler NL_POLICY_NET_PORT_ZCOPY_NOTIFY OnFakePort;
         register_event_handler NL_POLICY_INFO_KERN_TO_APP_NOTIFY OnKernelDocker;
         register_event_handler NL_POLICY_AV_SELF_PROTECTION_NOTIFY OnSelfProtect
       }
   }"

definition start_kernel_send_handler :: "('c, 'p, 'w) event_ext \<Rightarrow> 'v uio_ext \<Rightarrow> (('v, 'w) kernel_state, unit) state" where
  "start_kernel_send_handler E U = do { register_default_event_handlers; register_user_event_handlers E U }"

definition invoke ::
  "('c, 'p, 'w) event_ext \<Rightarrow> 'v uio_state \<Rightarrow> event_callback \<Rightarrow> u8 list \<Rightarrow> u32 \<Rightarrow> ('w event_state, unit res option) state" where
  "invoke E z cb data data_len =
     (case cb of
        OnFileAudit \<Rightarrow> handle_file_zcopy_oper E z data data_len
      | OnProcessAudit \<Rightarrow> handle_process_zcopy_oper E z data data_len
      | OnNetApp \<Rightarrow> okP (on_ports (get_net_app_handler (ex_net_app E) (ex_sys E) data data_len))
      | OnInternalLog \<Rightarrow> handle_internal_communication_log E z data data_len
      | OnExternalLog \<Rightarrow> handle_external_communication_log E z data data_len
      | OnFakePort \<Rightarrow> handle_fake_port_zcopy_oper E z data data_len
      | OnKernelDocker \<Rightarrow> okP (on_docker (handle_kernel_docker_oper (ex_sys E) (ex_files E) data data_len))
      | OnSelfProtect \<Rightarrow> handle_self_protect_oper E data data_len
      | _ \<Rightarrow> retP (Inr ()))"

definition handle_event ::
  "('c, 'p, 'w) event_ext \<Rightarrow> u32 \<Rightarrow> u8 list \<Rightarrow> u32 \<Rightarrow> (('v, 'w) kernel_state, unit res option) state" where
  "handle_event E data_type data data_len =
     (case nl_from_u32 data_type of
        None \<Rightarrow> retP (Inl (''Unknown data type: '' @ show_word data_type))
      | Some policy_type \<Rightarrow> do {
          k \<leftarrow> State_Monad.get;
          case map_of (ks_callbacks k) policy_type of
            None \<Rightarrow> retP (Inl (''No callback registered for policy type '' @ policy_name policy_type))
          | Some cb \<Rightarrow> on_event (invoke E (ks_uio k) cb data data_len)
        })"

section \<open>Receiving\<close>

text \<open>The closure that gets a message: the sixteen bytes of the netlink header are skipped, a message of type 1
  is only logged, and any other becomes a task.\<close>

definition on_message :: "u8 list \<Rightarrow> (('v, 'w) kernel_state, unit option) state" where
  "on_message data =
     (if length data < 16 then panicP
      else case kosecs_parse (drop 16 data) of
             None \<Rightarrow> retP ()
           | Some msg \<Rightarrow>
               if km_data_type msg = 1 then retP ()
               else okP (modify (\<lambda>k. k\<lparr>ks_tasks := ks_tasks k @ [(km_data_type msg, km_payload msg, km_data_len msg)]\<rparr>)))"

datatype receive_end = LoopFailed string | LoopClosed | LoopPanicked | LoopGoesOn

text \<open>\<^verbatim>\<open>start_kernel_rcv_handler\<close> with at most so many turns of \<^verbatim>\<open>receive_messages_loop\<close>. The tasks run beside it.\<close>

fun receive_loop :: "'w nl_ext \<Rightarrow> nl_sock_info \<Rightarrow> nat \<Rightarrow> (('v, 'w) kernel_state, receive_end) state" where
  "receive_loop N sock 0 = State_Monad.return LoopGoesOn"
| "receive_loop N sock (Suc turns) = do {
     r \<leftarrow> on_event (on_fos (run_state (receive_turn N sock)));
     case r of
       RecvError e \<Rightarrow> State_Monad.return (LoopFailed e)
     | RecvClosed \<Rightarrow> State_Monad.return LoopClosed
     | RecvData data \<Rightarrow> do {
         p \<leftarrow> on_message data;
         case p of None \<Rightarrow> State_Monad.return LoopPanicked | Some _ \<Rightarrow> receive_loop N sock turns
       }
   }"

text \<open>One of the waiting tasks runs; the order is the scheduler's.\<close>

definition run_task :: "('c, 'p, 'w) event_ext \<Rightarrow> nat \<Rightarrow> (('v, 'w) kernel_state, unit res option) state" where
  "run_task E i = do {
     tasks \<leftarrow> gets ks_tasks;
     if i < length tasks
     then (case tasks ! i of (data_type, data, data_len) \<Rightarrow> do {
             modify (\<lambda>k. k\<lparr>ks_tasks := take i tasks @ drop (Suc i) tasks\<rparr>);
             handle_event E data_type data data_len
           })
     else retP (Inr ())
   }"

text \<open>The messages that the agent sends after it started.\<close>

definition send_data_to_kernel :: "'w nl_ext \<Rightarrow> nl_sock_info \<Rightarrow> ('w, string res) state" where
  "send_data_to_kernel N sock =
     tryE (map_err (\<lambda>e. ''Failed to send set portid message: '' @ e) (send_message N sock 1 (map (\<lambda>c. of_nat (of_char c)) ''set portid''))) (\<lambda>_.
     tryE (map_err (\<lambda>e. ''Failed to send IP address: '' @ e) (send_message N sock 1 [192, 168, 0, 1])) (\<lambda>_.
     tryE (map_err (\<lambda>e. ''Failed to send custom data: '' @ e) (send_message N sock 1 [1, 2, 3, 4, 5])) (\<lambda>_.
     tryE (map_err (\<lambda>e. ''Failed to send custom data: '' @ e) (send_message N sock 4 [1, 0, 0, 0])) (\<lambda>_.
       State_Monad.return (Inr ''Data sent successfully'')))))"

section \<open>Types and their numbers\<close>

lemma table_distinct: "distinct (map fst from_u32_table)" "distinct (map snd from_u32_table)"
  by code_simp+

lemma discriminant_known:
  "(if p = NL_MAX_CLASSIC_INDEX then 0x800 else discriminant p, p) \<in> set from_u32_table"
  by (cases p) (simp_all add: discriminant_def discriminants_def from_u32_table_def)

text \<open>The numbers of the message types. \<^verbatim>\<open>from_u32\<close> recovers a type from a number exactly when the number
  is the one that the enumeration gives to it, for every type but \<^verbatim>\<open>NL_MAX_CLASSIC_INDEX\<close>: the
  enumeration numbers it 0x707, but \<^verbatim>\<open>from_u32\<close> reads 0x800 as that type and refuses 0x707.\<close>

theorem policy_codes_roundtrip:
  "(nl_from_u32 v = Some p \<longleftrightarrow> unat v = (if p = NL_MAX_CLASSIC_INDEX then 0x800 else discriminant p))
   \<and> discriminant NL_MAX_CLASSIC_INDEX = 0x707 \<and> nl_from_u32 0x707 = None"
proof (intro conjI)
  let ?n = "if p = NL_MAX_CLASSIC_INDEX then 0x800 else discriminant p"
  have "x = ?n" if "(x, p) \<in> set from_u32_table" for x
    using inj_onD [OF table_distinct(2) [unfolded distinct_map, THEN conjunct2] _ that discriminant_known] by simp
  then have "(unat v, p) \<in> set from_u32_table \<longleftrightarrow> unat v = ?n" using discriminant_known [of p] by metis
  then show "nl_from_u32 v = Some p \<longleftrightarrow> unat v = (if p = NL_MAX_CLASSIC_INDEX then 0x800 else discriminant p)"
    using table_distinct(1) by (simp add: nl_from_u32_def)
  show "discriminant NL_MAX_CLASSIC_INDEX = 0x707" "nl_from_u32 0x707 = None" by code_simp+
qed

section \<open>Receiving and running tasks\<close>

text \<open>The state after any number of received messages and finished tasks, in any order.\<close>

inductive kernel_reach ::
  "('c, 'p, 'w) event_ext \<Rightarrow> 'w nl_ext \<Rightarrow> nl_sock_info \<Rightarrow> ('v, 'w) kernel_state \<Rightarrow> ('v, 'w) kernel_state \<Rightarrow> bool"
  for E N sock k where
  start: "kernel_reach E N sock k k"
| receive: "kernel_reach E N sock k a \<Longrightarrow> run_state (receive_loop N sock n) a = (r, b) \<Longrightarrow> kernel_reach E N sock k b"
| task: "kernel_reach E N sock k a \<Longrightarrow> run_state (run_task E i) a = (r, b) \<Longrightarrow> kernel_reach E N sock k b"

lemma kernel_reach_keeps:
  assumes "kernel_reach E N sock k a" and "P k" and "\<And>n. keeps P (receive_loop N sock n)" and "\<And>i. keeps P (run_task E i)"
  shows "P a"
  using assms(1)
proof induction
  case start
  show ?case by (rule assms(2))
next
  case (receive a n r b)
  then show ?case using keepsD_run [OF assms(3)] by blast
next
  case (task a i r b)
  then show ?case using keepsD_run [OF assms(4)] by blast
qed

lemma keeps_receive_loop:
  assumes "\<And>m. keeps P (on_event (on_fos m :: ('w event_state, received) state))" and "\<And>d. keeps P (on_message d)"
  shows "keeps P (receive_loop (N :: 'w nl_ext) sock n)"
proof (induction n)
  case (Suc n)
  show ?case unfolding receive_loop.simps
    by (intro keeps_bind assms) (auto split: received.split option.split intro!: keep_intros assms(2) Suc)
qed (auto intro: keep_intros)

definition task_ok :: "u32 \<times> u8 list \<times> u32 \<Rightarrow> bool" where
  "task_ok t = (case t of (data_type, data, data_len) \<Rightarrow> data_type \<noteq> 1 \<and> length data = unat data_len)"

definition tasks_ok :: "('v, 'w) kernel_state \<Rightarrow> bool" where
  "tasks_ok k = list_all task_ok (ks_tasks k)"

lemma tasks_ok_event [simp]: "tasks_ok (k\<lparr>ks_event := s\<rparr>) = tasks_ok k"
  by (simp add: tasks_ok_def)

lemma keeps_tasks_message: "keeps tasks_ok (on_message d)"
  by (rule keepsI)
    (auto simp: on_message_def tasks_ok_def task_ok_def kosecs_parse_bounds(1) split: if_splits option.splits)

lemma keeps_tasks_event: "keeps tasks_ok (handle_event E t d n)"
  by (rule keepsI) (auto simp: handle_event_def split: option.splits)

lemma keeps_tasks_run: "keeps tasks_ok (run_task E i)"
proof (rule keepsI)
  fix k r a
  assume ok: "tasks_ok k" and run: "run_state (run_task E i) k = (r, a)"
  show "tasks_ok a"
  proof (cases "i < length (ks_tasks k)")
    case True
    obtain t d n where t: "ks_tasks k ! i = (t, d, n)" by (rule prod_cases3)
    let ?k = "k\<lparr>ks_tasks := take i (ks_tasks k) @ drop (Suc i) (ks_tasks k)\<rparr>"
    have "tasks_ok ?k" using ok by (auto simp: tasks_ok_def list_all_iff dest: in_set_takeD in_set_dropD)
    moreover have "run_state (handle_event E t d n) ?k = (r, a)" using run True t by (simp add: run_task_def)
    ultimately show ?thesis using keepsD_run [OF keeps_tasks_event] by blast
  qed (use run ok in \<open>simp add: run_task_def\<close>)
qed

lemma reach_tasks_ok: "kernel_reach E N sock k a \<Longrightarrow> ks_tasks k = [] \<Longrightarrow> tasks_ok a"
  by (rule kernel_reach_keeps [where P = tasks_ok])
    (auto simp: tasks_ok_def [of k] intro!: keeps_receive_loop keeps_tasks_message keeps_tasks_run intro: keepsI)

text \<open>C18: the handlers get whole messages. In every state that receiving and running tasks reach, in any
  order, a waiting task carries exactly as many bytes as its length field says, so that no handler
  reads the index record of a message beyond its end, and never a message of the type that is only
  logged.\<close>

theorem tasks_carry_payload:
  assumes "kernel_reach E N sock k a" and "ks_tasks k = []" and "(data_type, data, data_len) \<in> set (ks_tasks a)"
  shows "length data = unat data_len \<and> netlog_run ready data data_len \<noteq> None \<and> data_type \<noteq> 1"
proof -
  have "task_ok (data_type, data, data_len)"
    using reach_tasks_ok [OF assms(1,2)] assms(3) by (auto simp: tasks_ok_def list_all_iff)
  then show ?thesis by (auto simp: task_ok_def netlog_run_def read_netlog_def)
qed

section \<open>A poisoned configuration\<close>

definition silent :: "(string \<times> string) list \<Rightarrow> 'w event_state \<Rightarrow> bool" where
  "silent docs s \<longleftrightarrow> ev_poisoned s \<and> ev_posts s = docs"

lemma silent_blind: "event_blind (silent docs)"
  by (simp add: md5_blind_def silent_def)

text \<open>Without the configuration there is no client, and what would use it does not happen.\<close>

lemma keeps_silent_client: "keeps (silent docs) (tryP (new_net_client E) f)"
  by (rule keepsI) (auto simp: new_net_client_def boot_base_url_def lock_cfg_def silent_def)

lemma keeps_silent_parts: "keeps (silent docs) (on_ports p)" "keeps (silent docs) (on_docker d)"
  by (rule keepsI, auto simp: silent_def put_ports_def put_docker_def)+

lemma keeps_silent_net: "keeps (silent docs) (upload_net_log E logs)"
  unfolding upload_net_log_def by (intro keep_intros keeps_silent_client)

lemma keeps_silent_business: "keeps (silent docs) (business_port l)"
  unfolding business_port_def by (intro keep_intros keeps_silent_parts)

lemma keeps_silent_entries:
  "keeps (silent docs) (internal_entry E maps now a r)" "keeps (silent docs) (external_entry E maps now a r)"
  unfolding internal_entry_def external_entry_def read_comm_def Let_def
  by (intro keep_intros keeps_add_hash silent_blind keeps_silent_business)+

lemma keeps_silent_try_send: "keeps (silent docs) (try_send log)"
  unfolding try_send_def by (intro keep_intros) (simp add: silent_def)

lemma keeps_silent_file: "keeps (silent docs) (handle_file_zcopy_oper E z data data_len)"
proof -
  have r: "keeps (silent docs) (audit_file_oper_rename E info level pos)" for info level pos
    unfolding audit_file_oper_rename_def by (intro keep_intros keeps_silent_try_send keeps_get_md5 silent_blind)
  have o: "keeps (silent docs) (audit_one E report)" for report
    unfolding audit_one_def rename_tamper_protect_match_def Let_def
    by (auto split: option.splits rules_type.splits intro!: keep_intros r)
  have "keeps (silent docs) (audit_file_oper_new E rc reports)" for rc reports
    by (induction reports arbitrary: rc) (auto intro!: keep_intros o)
  then show ?thesis unfolding handle_file_zcopy_oper_def by (intro keep_intros keeps_iterate)
qed

lemma keeps_silent_process: "keeps (silent docs) (handle_process_zcopy_oper E z data data_len)"
  unfolding handle_process_zcopy_oper_def report_processes_def
  by (intro keep_intros keeps_iterate keeps_process_one silent_blind keeps_silent_client) (simp add: silent_def)

lemma keeps_silent_log:
  "keeps (silent docs) (handle_internal_communication_log E z data data_len)"
  "keeps (silent docs) (handle_external_communication_log E z data data_len)"
  unfolding handle_internal_communication_log_def handle_external_communication_log_def
  by (intro keep_intros keeps_net_records keeps_silent_entries keeps_silent_net)+

lemma keeps_silent_ports:
  "keeps (silent docs) (handle_fake_port_zcopy_oper E z data data_len)"
  "keeps (silent docs) (handle_self_protect_oper E data data_len)"
  unfolding handle_fake_port_zcopy_oper_def handle_self_protect_oper_def
  by (intro keep_intros keeps_iterate keeps_silent_client keeps_self_protect silent_blind)+

lemma keeps_silent_invoke: "keeps (silent docs) (invoke E z cb data data_len)"
  unfolding invoke_def
  by (cases cb) (auto intro!: keep_intros keeps_silent_parts keeps_silent_file keeps_silent_process keeps_silent_log keeps_silent_ports)

abbreviation muted :: "(string \<times> string) list \<Rightarrow> ('v, 'w) kernel_state \<Rightarrow> bool" where
  "muted docs k \<equiv> silent docs (ks_event k)"

lemma keeps_muted: "keeps (silent docs) m \<Longrightarrow> keeps (muted docs) (on_event m)"
  by (rule keepsI) (auto simp: keeps_def)

lemma keeps_muted_event: "keeps (muted docs) (handle_event E t d n)"
proof (rule keepsI)
  fix k r a
  assume "muted docs k" "run_state (handle_event E t d n) k = (r, a)"
  then show "muted docs a"
    using keeps_silent_invoke [of docs E "ks_uio k" _ d n, unfolded keeps_def] by (auto simp: handle_event_def split: option.splits)
qed

lemma keeps_muted_run: "keeps (muted docs) (run_task E i)"
proof (rule keepsI)
  fix k r a
  assume "muted docs k" "run_state (run_task E i) k = (r, a)"
  then show "muted docs a"
    using keepsD_run [OF keeps_muted_event, of docs "k\<lparr>ks_tasks := take i (ks_tasks k) @ drop (Suc i) (ks_tasks k)\<rparr>" E]
    by (cases "ks_tasks k ! i") (auto simp: run_task_def split: if_splits)
qed

lemma keeps_muted_message: "keeps (muted docs) (on_message d)"
  by (rule keepsI) (auto simp: on_message_def split: if_splits option.splits)

text \<open>C9: a poisoned configuration silences the agent. Once a task has panicked while it held the
  configuration, no later event is reported: whatever the kernel module sends and in whatever order
  the tasks run, the handlers post nothing any more, and nothing heals the lock.\<close>

theorem poisoned_agent_silent:
  assumes "kernel_reach E N sock k a" and "ev_poisoned (ks_event k)"
  shows "ev_posts (ks_event a) = ev_posts (ks_event k) \<and> ev_poisoned (ks_event a)"
proof -
  let ?docs = "ev_posts (ks_event k)"
  have f: "keeps (muted ?docs) (on_event (on_fos m))" for m
    by (intro keeps_muted keeps_on_fos) (simp add: silent_def file_blind_def)
  have "muted ?docs a"
    by (rule kernel_reach_keeps [OF assms(1)])
      (use assms(2) in \<open>auto simp: silent_def [of _ "ks_event k"] intro: keeps_receive_loop f keeps_muted_message keeps_muted_run\<close>)
  then show ?thesis by (simp add: silent_def)
qed

text \<open>How the configuration is poisoned: by the report of a started program whose file was last modified before
  1970.\<close>

lemma old_file_poisons:
  assumes "read_cstr E maps (fos s) (a + 24) = Some bs" and "utf8_valid (text_of_bytes bs)" and "\<not> ev_poisoned s"
    and "hd (split_char (CHR '';'') (text_of_bytes bs)) = p_dir" and "p_dir \<noteq> []" and "mx_exists (ex_md5 E) p_dir (fos s)"
    and "\<not> fl_is_docker_process (flags_parsed (ap_flags (process_info_at E (fos s) a)))"
    and "mx_modified (ex_md5 E) p_dir (fos s) = Inr (Inr m)" and "m < 0"
  shows "run_state (process_one E maps a) s = (None, s\<lparr>ev_poisoned := True\<rparr>)"
  using assms
  by (simp add: process_one_def lock_cfg_def holding_cfg_def process_record_def Let_def file_exists_def md5_global_def get_md5_def
      current_mtime_def secs_since_epoch_def)

section \<open>The start\<close>

definition default_handlers :: "(nl_policy_type \<times> event_callback) list" where
  "default_handlers =
     [(NL_POLICY_CMD_ECHO, OnEcho), (NL_POLICY_CMD_REGISTER, OnRegister), (NL_POLICY_CMD_ADD_SYMBOL, OnAddSymbol),
      (NL_POLICY_CMD_UNREGISTER, OnUnregister)]"

definition user_handlers :: "(nl_policy_type \<times> event_callback) list" where
  "user_handlers =
     [(NL_POLICY_AV_FILE_AUDIT_ZCOPY_NOTIFY, OnFileAudit), (NL_POLICY_AV_PROCESS_EXEC_ZCOPY_NOTIFY, OnProcessAudit),
      (NL_POLICY_SERVER_LISTEN_NOTIFY, OnNetApp), (NL_POLICY_NET_CONNECT_PORT_IN_NOTIFY, OnInternalLog),
      (NL_POLICY_NET_CONNECT_PORT_OUT_NOTIFY, OnExternalLog), (NL_POLICY_NET_PORT_ZCOPY_NOTIFY, OnFakePort),
      (NL_POLICY_INFO_KERN_TO_APP_NOTIFY, OnKernelDocker), (NL_POLICY_AV_SELF_PROTECTION_NOTIFY, OnSelfProtect)]"

lemma start_callbacks:
  assumes "run_state (zcopy_new U) (ks_uio k) = (r, u)" and "ks_callbacks k = []"
  shows "ks_callbacks (snd (run_state (start_kernel_send_handler E U) k))
     = default_handlers @ (case r of Inl _ \<Rightarrow> [] | Inr _ \<Rightarrow> user_handlers)"
  using assms
  by (cases r) (simp_all add: start_kernel_send_handler_def register_default_event_handlers_def register_user_event_handlers_def
      register_event_handler_def default_handlers_def user_handlers_def)

lemma keeps_handlers:
  "keeps (\<lambda>k. ks_callbacks k = cbs) (on_message d)" "keeps (\<lambda>k. ks_callbacks k = cbs) (run_task E i)"
  by (rule keepsI, auto simp: on_message_def run_task_def handle_event_def split: if_splits option.splits prod.splits)+

text \<open>Without the shared buffers the agent is blind to the kernel. When the shared buffers cannot be set
  up at the start, then for the rest of the run, whatever is received, only the four handlers that do
  nothing are in the table: every other event, also the self-protection and container events that
  need no buffer, is answered with an error and changes nothing. When they can, all twelve handlers are
  there throughout.\<close>

theorem handlers_after_start:
  assumes "run_state (zcopy_new U) (ks_uio k) = (r, u)" and "ks_callbacks k = []"
    and "kernel_reach E N sock (snd (run_state (start_kernel_send_handler E U) k)) a"
  shows "case r of
      Inr _ \<Rightarrow> ks_callbacks a = default_handlers @ user_handlers
    | Inl _ \<Rightarrow> ks_callbacks a = default_handlers \<and>
        (\<forall>v data data_len. run_state (handle_event E v data data_len) a =
           (case nl_from_u32 v of
              None \<Rightarrow> (Some (Inl (''Unknown data type: '' @ show_word v)), a)
            | Some p \<Rightarrow> if p \<in> fst ` set default_handlers then (Some (Inr ()), a)
                       else (Some (Inl (''No callback registered for policy type '' @ policy_name p)), a)))"
proof -
  let ?cbs = "default_handlers @ (case r of Inl _ \<Rightarrow> [] | Inr _ \<Rightarrow> user_handlers)"
  have a: "ks_callbacks a = ?cbs"
    by (rule kernel_reach_keeps [OF assms(3), where P = "\<lambda>k. ks_callbacks k = ?cbs"])
      (auto intro!: start_callbacks [OF assms(1,2)] keeps_receive_loop keeps_handlers intro: keepsI)
  show ?thesis
  proof (cases r)
    case (Inl e)
    then have c: "ks_callbacks a = default_handlers" using a by simp
    have "run_state (handle_event E v data data_len) a =
           (case nl_from_u32 v of
              None \<Rightarrow> (Some (Inl (''Unknown data type: '' @ show_word v)), a)
            | Some p \<Rightarrow> if p \<in> fst ` set default_handlers then (Some (Inr ()), a)
                       else (Some (Inl (''No callback registered for policy type '' @ policy_name p)), a))" for v data data_len
      by (auto simp: handle_event_def c default_handlers_def invoke_def split: option.split)
    with Inl c show ?thesis by simp
  qed (use a in simp)
qed

section \<open>The theorems on a small host\<close>

text \<open>A socket that delivers one message over and over.\<close>

definition lab_netlink :: "u8 list \<Rightarrow> unit nl_ext" where
  "lab_netlink msg = \<lparr>nx_exists = (\<lambda>p w. False), nx_read = (\<lambda>p w. Inl []), nx_sleep = (\<lambda>n w. w), nx_socket = (\<lambda>p w. (3, w)),
     nx_bind = (\<lambda>s a w. (0, w)), nx_sendmsg = (\<lambda>s a d w. (int (length d), w)), nx_recvmsg = (\<lambda>s n w. ((int (length msg), msg), w)),
     nx_last_error = (\<lambda>w. []), nx_getpid = (\<lambda>w. 7)\<rparr>"

definition lab_nl_sock :: nl_sock_info where
  "lab_nl_sock = \<lparr>nls_sock = 3, nl_dest_addr = \<lparr>nl_family = 16, nl_pid = 0\<rparr>, nl_src_addr = \<lparr>nl_family = 16, nl_pid = 7\<rparr>\<rparr>"

definition lab_kernel :: "unit event_state \<Rightarrow> (unit, unit) kernel_state" where
  "lab_kernel s = \<lparr>ks_event = s, ks_uio = lab_uio_start, ks_callbacks = [], ks_tasks = []\<rparr>"

definition lab_received :: "(unit, unit) kernel_state" where
  "lab_received = snd (run_state (receive_loop (lab_netlink (create_netlink_message 0 0 ([6, 5, 0, 0, 12, 0, 0, 0] @ replicate 12 0))) lab_nl_sock 1)
     (lab_kernel (lab_event_state net_info_default)))"

lemma lab_received_tasks: "ks_tasks lab_received = [(0x506, replicate 12 0, 12)]"
  by code_simp

theorem tasks_carry_payload_witness:
  "netlog_run True (replicate 12 0) 12 \<noteq> None \<and> ks_tasks lab_received = [(0x506, replicate 12 0, 12)]"
proof -
  have "kernel_reach (lab_event (\<lambda>a. 0)) (lab_netlink (create_netlink_message 0 0 ([6, 5, 0, 0, 12, 0, 0, 0] @ replicate 12 0))) lab_nl_sock
      (lab_kernel (lab_event_state net_info_default)) lab_received"
    unfolding lab_received_def by (rule kernel_reach.receive [OF kernel_reach.start prod.collapse [symmetric]])
  from tasks_carry_payload [OF this, of "0x506" "replicate 12 0" 12 True] show ?thesis
    by (simp add: lab_received_tasks lab_kernel_def)
qed

text \<open>The program of an event of the self protection, reported to an agent with a poisoned configuration.\<close>

definition lab_poisoned :: "(unit, unit) kernel_state" where
  "lab_poisoned = (lab_kernel ((lab_event_state net_info_default)\<lparr>ev_poisoned := True\<rparr>))
     \<lparr>ks_callbacks := user_handlers, ks_tasks := [(0x50a, replicate 272 0, 272)]\<rparr>"

theorem poisoned_agent_silent_witness:
  "ev_posts (ks_event (snd (run_state (run_task (lab_event (\<lambda>a. 0)) 0) lab_poisoned))) = []"
proof -
  have "kernel_reach (lab_event (\<lambda>a. 0)) (lab_netlink []) lab_nl_sock lab_poisoned (snd (run_state (run_task (lab_event (\<lambda>a. 0)) 0) lab_poisoned))"
    by (rule kernel_reach.task [OF kernel_reach.start prod.collapse [symmetric]])
  from poisoned_agent_silent [OF this] show ?thesis by (simp add: lab_poisoned_def lab_kernel_def lab_event_state_def)
qed

text \<open>A host without the device.\<close>

definition no_uio :: "unit uio_ext" where "no_uio = lab_uio\<lparr>ux_read_dir := (\<lambda>p w. Inr [])\<rparr>"

lemma no_uio_fails: "\<exists>e u. run_state (zcopy_new no_uio) lab_uio_start = (Inl e, u)"
proof -
  have "case fst (run_state (zcopy_new no_uio) lab_uio_start) of Inl _ \<Rightarrow> True | Inr _ \<Rightarrow> False" by code_simp
  then show ?thesis by (cases "run_state (zcopy_new no_uio) lab_uio_start"; cases "fst (run_state (zcopy_new no_uio) lab_uio_start)") auto
qed

theorem handlers_after_start_witness:
  "let a = snd (run_state (start_kernel_send_handler (lab_event (\<lambda>a. 0)) no_uio) (lab_kernel (lab_event_state net_info_default))) in
   run_state (handle_event (lab_event (\<lambda>a. 0)) 0x50a [] 0) a
     = (Some (Inl ''No callback registered for policy type NL_POLICY_AV_SELF_PROTECTION_NOTIFY''), a)"
proof -
  let ?k = "lab_kernel (lab_event_state net_info_default)"
  obtain e u where z: "run_state (zcopy_new no_uio) (ks_uio ?k) = (Inl e, u)" using no_uio_fails by (auto simp: lab_kernel_def)
  have p: "nl_from_u32 0x50a = Some NL_POLICY_AV_SELF_PROTECTION_NOTIFY"
    "policy_name NL_POLICY_AV_SELF_PROTECTION_NOTIFY = ''NL_POLICY_AV_SELF_PROTECTION_NOTIFY''"
    "NL_POLICY_AV_SELF_PROTECTION_NOTIFY \<notin> fst ` set default_handlers" by code_simp+
  have c: "ks_callbacks ?k = []" by (simp add: lab_kernel_def)
  show ?thesis
    using handlers_after_start [OF z c kernel_reach.start, of "lab_event (\<lambda>a. 0)"]
    by (simp add: p Let_def)
qed

end
