(* ===== verification/Usb_Monitor.thy ===== *)
theory Usb_Monitor
  imports Usb_List File_Audit
begin

text \<open>
  \<^verbatim>\<open>crates/udisk/src/monitor.rs\<close> and \<^verbatim>\<open>utils.rs\<close>: what happens when a USB device is plugged in or taken out, the
  devices that a new black list disables, and the list of devices for the server.

  The monitor works beside the handlers of events: it reads the same configuration and sends its alerts through the
  same channel, which are in the record \<open>event_state\<close>. A device is what \<^verbatim>\<open>rusb\<close> tells of it; \<^verbatim>\<open>/sys/bus/usb/devices\<close> and
  the digest are parameters (record \<open>usb_ext\<close>). An alert is sent by a thread of its own; it is taken to run at once.
\<close>

section \<open>State\<close>

record usb_desc =
  de_vendor :: u16
  de_product :: u16
  de_class :: u8

record usb_device =
  ud_bus :: u8
  ud_address :: u8
  ud_ports :: "u8 list option"
  ud_desc :: "usb_desc option"
  ud_interfaces :: "u8 list option"
  ud_manufacturer :: "string option"
  ud_serial :: "string option"

text \<open>\<open>ub_entries\<close> are the paths in the directory of devices, \<open>ub_subdirs\<close> the directories in a directory, and \<open>ub_write0\<close>
  opens a file and writes \<^verbatim>\<open>0\<close> to it.\<close>

record ('c, 'p, 'w) usb_ext =
  ub_event :: "('c, 'p, 'w) event_ext"
  ub_md5 :: "string \<Rightarrow> string"
  ub_entries :: "'w \<Rightarrow> string list option"
  ub_subdirs :: "string \<Rightarrow> 'w \<Rightarrow> string list"
  ub_read :: "string \<Rightarrow> 'w \<Rightarrow> string option"
  ub_exists :: "string \<Rightarrow> 'w \<Rightarrow> bool"
  ub_write0 :: "string \<Rightarrow> 'w \<Rightarrow> bool \<times> 'w"

text \<open>\<open>us_writes\<close> are the files that \<^verbatim>\<open>0\<close> was written to, \<open>us_signals\<close> the signals that wait for the handler.\<close>

record 'w usb_state =
  us_event :: "'w event_state"
  us_list :: black_white_list
  us_seen :: "string list"
  us_info :: "((u8 \<times> u8) \<times> (string \<times> string)) list"
  us_known :: "(string \<times> usb_info) list"
  us_signals :: nat
  us_writes :: "string list"

abbreviation on_usb_event :: "('w event_state, 'r) state \<Rightarrow> ('w usb_state, 'r) state" where
  "on_usb_event \<equiv> zoom us_event (\<lambda>e s. s\<lparr>us_event := e\<rparr>)"

definition usb_world :: "'w usb_state \<Rightarrow> 'w" where
  "usb_world s = fos (us_event s)"

section \<open>utils.rs\<close>

definition md5sum :: "('c, 'p, 'w) usb_ext \<Rightarrow> string \<Rightarrow> string" where
  "md5sum U text = ub_md5 U text"

definition sysfs_join :: "string \<Rightarrow> string \<Rightarrow> string" where
  "sysfs_join dir name = dir @ ''/'' @ name"

definition read_sysfs_string :: "('c, 'p, 'w) usb_ext \<Rightarrow> string \<Rightarrow> 'w \<Rightarrow> string" where
  "read_sysfs_string U path w = trim (opt_or [] (ub_read U path w))"

definition has_mass_storage_interface :: "('c, 'p, 'w) usb_ext \<Rightarrow> string \<Rightarrow> 'w \<Rightarrow> bool" where
  "has_mass_storage_interface U dev_path w =
     list_ex (\<lambda>d. ub_exists U (sysfs_join d ''bInterfaceClass'') w
       \<and> trim (read_sysfs_string U (sysfs_join d ''bInterfaceClass'') w) = ''08'') (ub_subdirs U dev_path w)"

definition sysfs_device_name :: "usb_device \<Rightarrow> string" where
  "sysfs_device_name d =
     (let ports = opt_or [] (ud_ports d) in
      if ports = [] then show_word (ud_bus d) else show_word (ud_bus d) @ ''-'' @ join ''.'' (map show_word ports))"

definition write0 :: "('c, 'p, 'w) usb_ext \<Rightarrow> string \<Rightarrow> ('w usb_state, bool) state" where
  "write0 U path = do {
     ok \<leftarrow> on_usb_event (on_fos (ub_write0 U path));
     (if ok then modify (\<lambda>s. s\<lparr>us_writes := us_writes s @ [path]\<rparr>) else State_Monad.return ());
     State_Monad.return ok
   }"

text \<open>At most \<open>n\<close> attempts; true when one succeeds. An attempt needs the file to be there if \<open>look\<close> says so.\<close>

fun write0_retry :: "('c, 'p, 'w) usb_ext \<Rightarrow> bool \<Rightarrow> nat \<Rightarrow> string \<Rightarrow> ('w usb_state, bool) state" where
  "write0_retry U look 0 path = State_Monad.return False"
| "write0_retry U look (Suc n) path = do {
     there \<leftarrow> gets (\<lambda>s. \<not> look \<or> ub_exists U path (usb_world s));
     ok \<leftarrow> (if there then write0 U path else State_Monad.return False);
     if ok then State_Monad.return True else write0_retry U look n path
   }"

definition auth_path :: "usb_device \<Rightarrow> string" where
  "auth_path d = ''/sys/bus/usb/devices/'' @ sysfs_device_name d @ ''/authorized''"

definition disable_usb_device :: "('c, 'p, 'w) usb_ext \<Rightarrow> usb_device \<Rightarrow> ('w usb_state, bool) state" where
  "disable_usb_device U d = write0_retry U True 5 (auth_path d)"

definition serial_or_model :: "string \<Rightarrow> string \<Rightarrow> string \<Rightarrow> string" where
  "serial_or_model vendor product serial = (if serial = [] then ''vid'' @ vendor @ ''_pid'' @ product else serial)"

text \<open>The serial number is prepared but not used.\<close>

definition generate_eid :: "('c, 'p, 'w) usb_ext \<Rightarrow> string \<Rightarrow> string \<Rightarrow> string \<Rightarrow> string" where
  "generate_eid U vendor product serial =
     (let serial_id = serial_or_model vendor product serial in md5sum U (product @ ''_'' @ vendor))"

section \<open>Devices in the file system\<close>

definition hex04 :: "u16 \<Rightarrow> string" where
  "hex04 v = map (\<lambda>k. hex_digit (unat v div 16 ^ k mod 16)) [3, 2, 1, 0]"

definition read_device_info_from_sysfs :: "('c, 'p, 'w) usb_ext \<Rightarrow> u16 \<Rightarrow> u16 \<Rightarrow> 'w \<Rightarrow> (string \<times> string) option" where
  "read_device_info_from_sysfs U vid pid w =
     (case ub_entries U w of
        None \<Rightarrow> None
      | Some entries \<Rightarrow>
          map_option (\<lambda>p.
            let model = ''vid'' @ hex04 vid @ ''_pid'' @ hex04 pid;
                manufacturer = read_sysfs_string U (sysfs_join p ''manufacturer'') w;
                serial = read_sysfs_string U (sysfs_join p ''serial'') w
            in (if manufacturer = [] then model else manufacturer, if serial = [] then model else serial))
            (find (\<lambda>p. read_sysfs_string U (sysfs_join p ''idVendor'') w = hex04 vid
               \<and> read_sysfs_string U (sysfs_join p ''idProduct'') w = hex04 pid) entries))"

definition local_device :: "('c, 'p, 'w) usb_ext \<Rightarrow> 'w \<Rightarrow> string \<Rightarrow> usb_info option" where
  "local_device U w path =
     (let vendor = read_sysfs_string U (sysfs_join path ''idVendor'') w; product = read_sysfs_string U (sysfs_join path ''idProduct'') w in
      if vendor = [] \<or> product = [] then None
      else if \<not> (trim (read_sysfs_string U (sysfs_join path ''bDeviceClass'') w) = ''08'' \<or> has_mass_storage_interface U path w) then None
      else
        let manufacturer = read_sysfs_string U (sysfs_join path ''manufacturer'') w;
            name = (if manufacturer = [] then ''vid'' @ vendor @ ''_pid'' @ product else manufacturer);
            serial_id = serial_or_model vendor product (read_sysfs_string U (sysfs_join path ''serial'') w)
        in Some \<lparr>perpheral_eid = generate_eid U vendor product serial_id, perpheral_name = name, intro_text = name,
             type_name = ''usb_mass_storage'', allow = (trim (read_sysfs_string U (sysfs_join path ''authorized'') w) = ''1'')\<rparr>)"

definition update_device_cache :: "usb_info list \<Rightarrow> 'w usb_state \<Rightarrow> 'w usb_state" where
  "update_device_cache devices s = s\<lparr>us_known := fold (\<lambda>d. AList.update (perpheral_eid d) d) devices []\<rparr>"

definition get_all_local_usb_devices :: "('c, 'p, 'w) usb_ext \<Rightarrow> ('w usb_state, usb_info list) state" where
  "get_all_local_usb_devices U = do {
     entries \<leftarrow> gets (\<lambda>s. ub_entries U (usb_world s));
     case entries of
       None \<Rightarrow> State_Monad.return []
     | Some paths \<Rightarrow> do {
         devices \<leftarrow> gets (\<lambda>s. List.map_filter (local_device U (usb_world s)) paths);
         modify (update_device_cache devices);
         State_Monad.return devices
       }
   }"

text \<open>\<^verbatim>\<open>utils::get_all_local_usb_devices\<close> gives the same list and leaves the cache alone.\<close>

definition utils_get_all_local_usb_devices :: "('c, 'p, 'w) usb_ext \<Rightarrow> 'w \<Rightarrow> usb_info list" where
  "utils_get_all_local_usb_devices U w =
     (case ub_entries U w of None \<Rightarrow> [] | Some paths \<Rightarrow> List.map_filter (local_device U w) paths)"

lemma device_lists_agree: "fst (run_state (get_all_local_usb_devices U) s) = utils_get_all_local_usb_devices U (usb_world s)"
  by (simp add: get_all_local_usb_devices_def utils_get_all_local_usb_devices_def split: option.splits)

section \<open>A new black list\<close>

definition entry_eid :: "('c, 'p, 'w) usb_ext \<Rightarrow> 'w \<Rightarrow> string \<Rightarrow> string option" where
  "entry_eid U w path =
     (let vendor = read_sysfs_string U (sysfs_join path ''idVendor'') w; product = read_sysfs_string U (sysfs_join path ''idProduct'') w in
      if vendor = [] \<or> product = [] then None
      else Some (generate_eid U vendor product (serial_or_model vendor product (read_sysfs_string U (sysfs_join path ''serial'') w))))"

definition first_device :: "('c, 'p, 'w) usb_ext \<Rightarrow> string \<Rightarrow> 'w \<Rightarrow> string option" where
  "first_device U eid w =
     (case ub_entries U w of None \<Rightarrow> None | Some entries \<Rightarrow> find (\<lambda>p. entry_eid U w p = Some eid) entries)"

text \<open>The first device with the identifier is disabled, and no other.\<close>

definition disable_device_via_sysfs :: "('c, 'p, 'w) usb_ext \<Rightarrow> string \<Rightarrow> ('w usb_state, bool) state" where
  "disable_device_via_sysfs U target_eid = do {
     found \<leftarrow> gets (\<lambda>s. first_device U target_eid (usb_world s));
     case found of
       None \<Rightarrow> State_Monad.return False
     | Some p \<Rightarrow> do {
         there \<leftarrow> gets (\<lambda>s. ub_exists U (sysfs_join p ''authorized'') (usb_world s));
         if there then write0_retry U False 3 (sysfs_join p ''authorized'') else State_Monad.return False
       }
   }"

fun handle_blacklist_update :: "('c, 'p, 'w) usb_ext \<Rightarrow> string list \<Rightarrow> ('w usb_state, string list) state" where
  "handle_blacklist_update U [] = State_Monad.return []"
| "handle_blacklist_update U (eid # eids) = do {
     ok \<leftarrow> disable_device_via_sysfs U eid;
     rest \<leftarrow> handle_blacklist_update U eids;
     State_Monad.return (if ok then eid # rest else rest)
   }"

section \<open>Plugging in and taking out\<close>

definition is_usb_storage :: "usb_device \<Rightarrow> usb_desc \<Rightarrow> bool" where
  "is_usb_storage d desc =
     (de_class desc = 0x08 \<or> (case ud_interfaces d of None \<Rightarrow> False | Some classes \<Rightarrow> list_ex (\<lambda>c. c = 0x08) classes))"

definition usb_time :: "('c, 'p, 'w) usb_ext \<Rightarrow> 'w usb_state \<Rightarrow> u64" where
  "usb_time U s = (let t = ex_now (ub_event U) (usb_world s) in if t < 0 then 0 else word_of_int t)"

definition usb_log :: "u16 \<Rightarrow> u32 \<Rightarrow> u64 \<Rightarrow> string \<Rightarrow> string \<Rightarrow> audit_log_info" where
  "usb_log n_type n_level time name eid =
     \<lparr>al_file_path = None, al_rename_dir = None, al_exception_process = None, al_md5 = None, al_type = n_type, al_level = n_level, al_time = time,
      al_notice_remark = None, al_peripheral_name = Some name, al_peripheral_remark = Some name, al_peripheral_eid = Some eid, al_p_param = None\<rparr>"

text \<open>The signal channel holds a hundred signals (\<^verbatim>\<open>main.rs\<close>).\<close>

definition send_signal :: "('w usb_state, unit) state" where
  "send_signal = modify (\<lambda>s. if us_signals s < 100 then s\<lparr>us_signals := Suc (us_signals s)\<rparr> else s)"

definition device_names :: "('c, 'p, 'w) usb_ext \<Rightarrow> usb_device \<Rightarrow> usb_desc \<Rightarrow> 'w \<Rightarrow> string \<times> string" where
  "device_names U d desc w =
     (let model = ''vid'' @ hex04 (de_vendor desc) @ ''_pid'' @ hex04 (de_product desc) in
      case read_device_info_from_sysfs U (de_vendor desc) (de_product desc) w of
        Some p \<Rightarrow> p
      | None \<Rightarrow> (opt_or model (ud_manufacturer d), opt_or model (ud_serial d)))"

text \<open>The type and level of the alert, and whether the device is disabled; none for a device of the white list.\<close>

definition arrival_verdict :: "device_list_status \<Rightarrow> bool \<Rightarrow> (u16 \<times> u32) option" where
  "arrival_verdict status usb_protect =
     (case status of
        InWhitelist \<Rightarrow> None
      | InBlacklist \<Rightarrow> Some (if usb_protect then (9006, 3) else (9004, 2))
      | NotInAnyList \<Rightarrow> Some (if usb_protect then (9005, 3) else (9003, 2)))"

definition report_arrival :: "('c, 'p, 'w) usb_ext \<Rightarrow> usb_device \<Rightarrow> bool \<Rightarrow> string \<Rightarrow> string \<Rightarrow> ('w usb_state, unit) state" where
  "report_arrival U d usb_protect name eid = do {
     verdict \<leftarrow> gets (\<lambda>s. arrival_verdict (get_device_list_status (us_list s) eid) usb_protect);
     (case verdict of
        None \<Rightarrow> State_Monad.return ()
      | Some (n_type, n_level) \<Rightarrow> do {
          time \<leftarrow> gets (usb_time U);
          (if usb_protect then do { _ \<leftarrow> disable_usb_device U d; State_Monad.return () } else State_Monad.return ());
          _ \<leftarrow> on_usb_event (try_send (usb_log n_type n_level time name eid));
          State_Monad.return ()
        });
     send_signal
   }"

definition device_arrived :: "('c, 'p, 'w) usb_ext \<Rightarrow> usb_device \<Rightarrow> ('w usb_state, unit option) state" where
  "device_arrived U d =
     bindP (on_usb_event lock_cfg) (\<lambda>cfg.
       if \<not> nc_usb_switch cfg then retP ()
       else case ud_desc d of
         None \<Rightarrow> retP ()
       | Some desc \<Rightarrow>
           if \<not> is_usb_storage d desc then retP ()
           else okP (do {
             w \<leftarrow> gets usb_world;
             let (name, serial) = device_names U d desc w;
             let eid = generate_eid U (hex04 (de_vendor desc)) (hex04 (de_product desc)) serial;
             modify (\<lambda>s. s\<lparr>us_info := AList.update (ud_bus d, ud_address d) (eid, name) (us_info s)\<rparr>);
             modify (\<lambda>s. if eid \<in> set (us_seen s) then s else s\<lparr>us_seen := us_seen s @ [eid]\<rparr>);
             report_arrival U d (nc_usb_protect cfg) name eid
           }))"

definition device_left :: "('c, 'p, 'w) usb_ext \<Rightarrow> usb_device \<Rightarrow> ('w usb_state, unit option) state" where
  "device_left U d =
     bindP (on_usb_event lock_cfg) (\<lambda>cfg.
       if \<not> nc_usb_switch cfg then retP ()
       else okP (do {
         send_signal;
         info \<leftarrow> gets (\<lambda>s. map_of (us_info s) (ud_bus d, ud_address d));
         modify (\<lambda>s. s\<lparr>us_info := AList.delete (ud_bus d, ud_address d) (us_info s)\<rparr>);
         case info of
           None \<Rightarrow> State_Monad.return ()
         | Some (eid, name) \<Rightarrow> do {
             modify (\<lambda>s. s\<lparr>us_seen := filter (\<lambda>e. e \<noteq> eid) (us_seen s)\<rparr>);
             status \<leftarrow> gets (\<lambda>s. get_device_list_status (us_list s) eid);
             if status = InWhitelist then State_Monad.return ()
             else do {
               time \<leftarrow> gets (usb_time U);
               _ \<leftarrow> on_usb_event (try_send (usb_log (if nc_usb_protect cfg then 9007 else 9008) (if nc_usb_protect cfg then 3 else 2) time name eid));
               State_Monad.return ()
             }
           }
       }))"

section \<open>The list for the server\<close>

definition usb_item :: "usb_info \<Rightarrow> json" where
  "usb_item d = JObj [(''peripheral_eid'', JStr (perpheral_eid d)), (''peripheral_name'', JStr (perpheral_name d)),
     (''peripheral_intro'', JStr (intro_text d)), (''peripheral_type'', JStr (type_name d))]"

definition build_usb_json :: "('c, 'p, 'w) usb_ext \<Rightarrow> usb_info list \<Rightarrow> string" where
  "build_usb_json U devices =
     (let data_str = (if devices = [] then ''[]'' else ex_json (ub_event U) (JArr (map usb_item devices)))
      in ex_json (ub_event U) (JObj [(''data'', JStr data_str)]))"

definition upload_usb_info :: "('c, 'p, 'w) usb_ext \<Rightarrow> usb_info list \<Rightarrow> 'c net_client \<Rightarrow> string \<Rightarrow> ('w usb_state, unit) state" where
  "upload_usb_info U devices nc url = on_usb_event (post_document (ub_event U) nc url (build_usb_json U devices))"

definition peripherals_url :: "'c net_client \<Rightarrow> string" where
  "peripherals_url nc = opt_or [] (base_url nc) @ ''/v1/addperipherals''"

text \<open>The start: the devices are listed once and posted as soon as there is a token; \<open>polls\<close> is how often the token is
  looked for. \<open>Inr True\<close> when the monitor was started, \<open>Inr False\<close> while it still waits.\<close>

fun post_when_token :: "('c, 'p, 'w) usb_ext \<Rightarrow> ('w \<Rightarrow> 'w) \<Rightarrow> nat \<Rightarrow> usb_info list \<Rightarrow> 'c net_client \<Rightarrow> ('w usb_state, bool) state" where
  "post_when_token U wait 0 devices nc = State_Monad.return False"
| "post_when_token U wait (Suc n) devices nc = do {
     token \<leftarrow> gets (\<lambda>s. ev_token (us_event s));
     if token \<noteq> None then do { upload_usb_info U devices nc (peripherals_url nc); State_Monad.return True }
     else do {
       on_usb_event (on_fos (\<lambda>w. ((), wait w)));
       post_when_token U wait n devices nc
     }
   }"

definition start_usb_services :: "('c, 'p, 'w) usb_ext \<Rightarrow> ('w \<Rightarrow> 'w) \<Rightarrow> nat \<Rightarrow> ('w usb_state, bool res option) state" where
  "start_usb_services U wait polls =
     tryP (on_usb_event (new_net_client (ub_event U))) (\<lambda>nc.
       okP (do {
         devices \<leftarrow> get_all_local_usb_devices U;
         ok \<leftarrow> post_when_token U wait polls devices nc;
         State_Monad.return (Inr ok)
       }))"

text \<open>One signal of the channel.\<close>

definition hotplug_turn :: "('c, 'p, 'w) usb_ext \<Rightarrow> 'c net_client \<Rightarrow> ('w usb_state, unit) state" where
  "hotplug_turn U nc = do {
     n \<leftarrow> gets us_signals;
     if n = 0 then State_Monad.return ()
     else do {
       modify (\<lambda>s. s\<lparr>us_signals := us_signals s - 1\<rparr>);
       devices \<leftarrow> get_all_local_usb_devices U;
       upload_usb_info U devices nc (peripherals_url nc)
     }
   }"

section \<open>What the monitor does\<close>

lemma write0_run:
  "run_state (write0 U path) s = (fst (ub_write0 U path (usb_world s)),
     s\<lparr>us_event := (us_event s)\<lparr>fos := snd (ub_write0 U path (usb_world s))\<rparr>,
       us_writes := us_writes s @ (if fst (ub_write0 U path (usb_world s)) then [path] else [])\<rparr>)"
  by (simp add: write0_def usb_world_def run_on_fos)

lemma write0_retry_run:
  assumes "run_state (write0_retry U look n path) s = (ok, t)"
  shows "\<exists>w. t = s\<lparr>us_event := (us_event s)\<lparr>fos := w\<rparr>, us_writes := us_writes s @ (if ok then [path] else [])\<rparr>"
  using assms
proof (induction n arbitrary: s)
  case 0
  then have "t = s\<lparr>us_event := (us_event s)\<lparr>fos := usb_world s\<rparr>, us_writes := us_writes s @ (if ok then [path] else [])\<rparr>"
    by (simp add: usb_world_def)
  then show ?case by blast
next
  case (Suc n)
  show ?case
  proof (cases "(\<not> look \<or> ub_exists U path (usb_world s)) \<and> fst (ub_write0 U path (usb_world s))")
    case True
    with Suc.prems show ?thesis by (auto simp: write0_run)
  next
    case False
    have "\<exists>v. run_state (write0_retry U look n path) (s\<lparr>us_event := (us_event s)\<lparr>fos := v\<rparr>\<rparr>) = (ok, t)"
    proof (cases "\<not> look \<or> ub_exists U path (usb_world s)")
      case True
      with False Suc.prems have "run_state (write0_retry U look n path) (s\<lparr>us_event := (us_event s)\<lparr>fos := snd (ub_write0 U path (usb_world s))\<rparr>\<rparr>) = (ok, t)"
        by (auto simp: write0_run)
      then show ?thesis by blast
    next
      case gone: False
      with Suc.prems have "run_state (write0_retry U look n path) (s\<lparr>us_event := (us_event s)\<lparr>fos := usb_world s\<rparr>\<rparr>) = (ok, t)"
        by (auto simp: usb_world_def)
      then show ?thesis by blast
    qed
    with Suc.IH show ?thesis by fastforce
  qed
qed

lemma write0_retry_first:
  assumes "\<not> look \<or> ub_exists U path (usb_world s)" "fst (ub_write0 U path (usb_world s))"
  shows "fst (run_state (write0_retry U look (Suc n) path) s)"
  using assms by (auto simp: write0_run)

text \<open>What the channel holds after an attempt to send.\<close>

definition offered :: "audit_log_info \<Rightarrow> 'w event_state \<Rightarrow> audit_log_info list" where
  "offered log e = ev_queue e @ (if ev_worker e \<and> length (ev_queue e) < channel_size then [log] else [])"

lemma run_try_send: "run_state (try_send log) e = (ev_worker e \<and> length (ev_queue e) < channel_size, e\<lparr>ev_queue := offered log e\<rparr>)"
  by (simp add: try_send_def offered_def)

lemma report_arrival_run:
  assumes "run_state (report_arrival U d protect name eid) s = ((), t)"
  shows "case arrival_verdict (get_device_list_status (us_list s) eid) protect of
       None \<Rightarrow> us_event t = us_event s \<and> us_writes t = us_writes s
     | Some (n_type, n_level) \<Rightarrow>
         ev_queue (us_event t) = offered (usb_log n_type n_level (usb_time U s) name eid) (us_event s)
         \<and> us_writes t = us_writes s @ (if protect \<and> fst (run_state (disable_usb_device U d) s) then [auth_path d] else [])"
    and "us_info t = us_info s \<and> us_seen t = us_seen s \<and> us_list t = us_list s"
proof -
  obtain ok u where d: "run_state (disable_usb_device U d) s = (ok, u)" by (rule prod.exhaust)
  then obtain w where u: "u = s\<lparr>us_event := (us_event s)\<lparr>fos := w\<rparr>, us_writes := us_writes s @ (if ok then [auth_path d] else [])\<rparr>"
    using write0_retry_run unfolding disable_usb_device_def by blast
  show "case arrival_verdict (get_device_list_status (us_list s) eid) protect of
       None \<Rightarrow> us_event t = us_event s \<and> us_writes t = us_writes s
     | Some (n_type, n_level) \<Rightarrow>
         ev_queue (us_event t) = offered (usb_log n_type n_level (usb_time U s) name eid) (us_event s)
         \<and> us_writes t = us_writes s @ (if protect \<and> fst (run_state (disable_usb_device U d) s) then [auth_path d] else [])"
    and "us_info t = us_info s \<and> us_seen t = us_seen s \<and> us_list t = us_list s"
    using assms d u
    by (auto simp: report_arrival_def send_signal_def run_try_send offered_def split: option.splits prod.splits if_splits)
qed

text \<open>C26: a storage device that is plugged in while the switch is on is remembered under its bus and address. One of the white list
  causes nothing else. For any other exactly one alert is offered to the channel: of type 9004 or 9003, or 9006 or 9005 when
  protection is on, and then the device is disabled if one of five attempts succeeds.\<close>

theorem usb_arrival_reported:
  assumes "\<not> ev_poisoned (us_event s)" "nc_usb_switch (ev_cfg (us_event s))"
    and "ud_desc d = Some desc" "is_usb_storage d desc"
    and names: "device_names U d desc (usb_world s) = (name, serial)"
    and eid: "eid = generate_eid U (hex04 (de_vendor desc)) (hex04 (de_product desc)) serial"
  shows "let protect = nc_usb_protect (ev_cfg (us_event s)); status = get_device_list_status (us_list s) eid in
    \<exists>t. run_state (device_arrived U d) s = (Some (), t)
      \<and> map_of (us_info t) (ud_bus d, ud_address d) = Some (eid, name) \<and> eid \<in> set (us_seen t)
      \<and> (if status = InWhitelist then ev_queue (us_event t) = ev_queue (us_event s) \<and> us_writes t = us_writes s
         else ev_queue (us_event t) = offered (usb_log
                (if status = InBlacklist then (if protect then 9006 else 9004) else (if protect then 9005 else 9003))
                (if protect then 3 else 2) (usb_time U s) name eid) (us_event s)
           \<and> us_writes t \<in> {us_writes s, us_writes s @ (if protect then [auth_path d] else [])}
           \<and> (protect \<and> ub_exists U (auth_path d) (usb_world s) \<and> fst (ub_write0 U (auth_path d) (usb_world s))
                \<longrightarrow> us_writes t = us_writes s @ [auth_path d]))"
proof -
  define s1 where "s1 = s\<lparr>us_info := AList.update (ud_bus d, ud_address d) (eid, name) (us_info s),
    us_seen := (if eid \<in> set (us_seen s) then us_seen s else us_seen s @ [eid])\<rparr>"
  have s1: "us_event s1 = us_event s" "us_list s1 = us_list s" "us_writes s1 = us_writes s" "usb_world s1 = usb_world s"
    "usb_time U s1 = usb_time U s" by (simp_all add: s1_def usb_world_def usb_time_def)
  obtain t where t: "run_state (report_arrival U d (nc_usb_protect (ev_cfg (us_event s))) name eid) s1 = ((), t)"
    by (metis old.unit.exhaust prod.exhaust)
  have "run_state (device_arrived U d) s = (Some (), t)"
    using assms(1-4) names eid t by (simp add: device_arrived_def lock_cfg_def s1_def Let_def split: if_splits)
  moreover have "map_of (us_info t) (ud_bus d, ud_address d) = Some (eid, name) \<and> eid \<in> set (us_seen t)"
    using report_arrival_run(2) [OF t] by (simp add: s1_def update_conv)
  moreover have "ub_exists U (auth_path d) (usb_world s1) \<Longrightarrow> fst (ub_write0 U (auth_path d) (usb_world s1)) \<Longrightarrow> fst (run_state (disable_usb_device U d) s1)"
    using write0_retry_first [of True U "auth_path d" s1 4] by (simp add: disable_usb_device_def eval_nat_numeral)
  ultimately show ?thesis
    using report_arrival_run(1) [OF t] s1
    by (cases "get_device_list_status (us_list s) eid") (auto simp: Let_def arrival_verdict_def)
qed

text \<open>When it is taken out again it is forgotten, and there is an alert of type 9007 or 9008 unless it is on the white list.\<close>

theorem usb_removal_reported:
  assumes "\<not> ev_poisoned (us_event s)" "nc_usb_switch (ev_cfg (us_event s))"
    and "map_of (us_info s) (ud_bus d, ud_address d) = Some (eid, name)"
  shows "let protect = nc_usb_protect (ev_cfg (us_event s)) in
    \<exists>t. run_state (device_left U d) s = (Some (), t)
      \<and> map_of (us_info t) (ud_bus d, ud_address d) = None \<and> eid \<notin> set (us_seen t) \<and> us_writes t = us_writes s
      \<and> ev_queue (us_event t) = (if get_device_list_status (us_list s) eid = InWhitelist then ev_queue (us_event s)
          else offered (usb_log (if protect then 9007 else 9008) (if protect then 3 else 2) (usb_time U s) name eid) (us_event s))"
  using assms
  by (auto simp: device_left_def lock_cfg_def send_signal_def run_try_send offered_def Let_def usb_time_def usb_world_def delete_conv)

text \<open>The alerts of the monitor go the way of all others: the states of the channel and its worker (\<open>log_reach\<close>) are closed under
  the operations of the monitor, and what an operation adds to the channel counts as accepted.\<close>

definition sent_from :: "'w event_state \<Rightarrow> 'w event_state \<Rightarrow> bool" where
  "sent_from e e' \<longleftrightarrow> e' = e \<or> (\<exists>w log. e' = snd (run_state (try_send log) (e\<lparr>fos := w\<rparr>)))"

lemma sent_fromI: "sent_from e (e\<lparr>fos := w, ev_queue := offered log (e\<lparr>fos := w\<rparr>)\<rparr>)"
  unfolding sent_from_def by (intro disjI2 exI) (simp add: run_try_send)

lemma sent_here: "sent_from e (e\<lparr>ev_queue := offered log e\<rparr>)"
  using sent_fromI [where e = e and w = "fos e" and log = log] by simp

lemma send_joins_log:
  assumes "log_reach E nc url acc bs e" "sent_from e e'"
  shows "\<exists>k. log_reach E nc url (acc @ k) bs e' \<and> ev_queue e' = ev_queue e @ k"
proof (cases "e' = e")
  case True
  with assms(1) show ?thesis by (intro exI [of _ "[]"]) simp
next
  case False
  then obtain w log where l: "e' = snd (run_state (try_send log) (e\<lparr>fos := w\<rparr>))" using assms(2) by (auto simp: sent_from_def)
  have "posted e [] (e\<lparr>fos := w\<rparr>)" by (simp add: posted_def)
  from log_reach.other [OF assms(1) this] have "log_reach E nc url acc bs (e\<lparr>fos := w\<rparr>)" .
  from log_reach.send [OF this run_try_send [of log]] l show ?thesis
    by (intro exI [of _ "if ev_worker e \<and> length (ev_queue e) < channel_size then [log] else []"])
      (auto simp: run_try_send offered_def split: if_splits)
qed

lemma report_arrival_event: "us_event s = e \<Longrightarrow> sent_from e (us_event (snd (run_state (report_arrival U d protect name eid) s)))"
proof -
  assume e: "us_event s = e"
  obtain ok u where d: "run_state (disable_usb_device U d) s = (ok, u)" by (rule prod.exhaust)
  then obtain w where u: "u = s\<lparr>us_event := e\<lparr>fos := w\<rparr>, us_writes := us_writes s @ (if ok then [auth_path d] else [])\<rparr>"
    using write0_retry_run e unfolding disable_usb_device_def by blast
  show ?thesis
    using d u e
    by (cases "arrival_verdict (get_device_list_status (us_list s) eid) protect"; cases protect)
      (auto simp: report_arrival_def send_signal_def run_try_send sent_fromI sent_here sent_from_def [of e e])
qed

lemma arrival_event: "sent_from (us_event s) (us_event (snd (run_state (device_arrived U d) s)))"
  by (auto simp: device_arrived_def lock_cfg_def Let_def sent_from_def [of "us_event s" "us_event s"] intro!: report_arrival_event
      split: option.splits prod.splits)

lemma removal_event: "sent_from (us_event s) (us_event (snd (run_state (device_left U d) s)))"
  by (auto simp: device_left_def lock_cfg_def send_signal_def run_try_send sent_here sent_from_def [of "us_event s" "us_event s"]
      split: option.splits prod.splits)

theorem usb_alerts_join_log:
  assumes "log_reach E nc url acc bs (us_event s)"
    and "run_state (device_arrived U d) s = (r, t) \<or> run_state (device_left U d) s = (r, t)"
  shows "\<exists>k. log_reach E nc url (acc @ k) bs (us_event t) \<and> ev_queue (us_event t) = ev_queue (us_event s) @ k"
  using assms(2) send_joins_log [OF assms(1) arrival_event [of s U d]] send_joins_log [OF assms(1) removal_event [of s U d]] by auto

section \<open>Devices that a black list disables\<close>

text \<open>Two devices of one model have the same identifier, whatever their serial numbers.\<close>

theorem same_model_same_eid:
  assumes "read_sysfs_string U (sysfs_join p ''idVendor'') w = read_sysfs_string U (sysfs_join q ''idVendor'') w"
    and "read_sysfs_string U (sysfs_join p ''idProduct'') w = read_sysfs_string U (sysfs_join q ''idProduct'') w"
  shows "entry_eid U w p = entry_eid U w q"
  using assms by (simp add: entry_eid_def generate_eid_def Let_def)

lemma disable_run:
  assumes "run_state (disable_device_via_sysfs U e) s = (ok, t)"
  shows "\<exists>w. t = s\<lparr>us_event := (us_event s)\<lparr>fos := w\<rparr>,
      us_writes := us_writes s @ (if ok then [sysfs_join (the (first_device U e (usb_world s))) ''authorized''] else [])\<rparr>"
    and "ok \<Longrightarrow> first_device U e (usb_world s) \<noteq> None"
proof -
  have "(\<exists>w. t = s\<lparr>us_event := (us_event s)\<lparr>fos := w\<rparr>,
      us_writes := us_writes s @ (if ok then [sysfs_join (the (first_device U e (usb_world s))) ''authorized''] else [])\<rparr>)
    \<and> (ok \<longrightarrow> first_device U e (usb_world s) \<noteq> None)"
  proof (cases "first_device U e (usb_world s)")
    case None
    with assms show ?thesis by (auto simp: disable_device_via_sysfs_def usb_world_def intro!: exI [of _ "fos (us_event s)"])
  next
    case (Some p)
    show ?thesis
    proof (cases "ub_exists U (sysfs_join p ''authorized'') (usb_world s)")
      case True
      with assms Some have "run_state (write0_retry U False 3 (sysfs_join p ''authorized'')) s = (ok, t)"
        by (simp add: disable_device_via_sysfs_def)
      from write0_retry_run [OF this] Some show ?thesis by auto
    next
      case False
      with assms Some show ?thesis by (auto simp: disable_device_via_sysfs_def usb_world_def intro!: exI [of _ "fos (us_event s)"])
    qed
  qed
  then show "\<exists>w. t = s\<lparr>us_event := (us_event s)\<lparr>fos := w\<rparr>,
      us_writes := us_writes s @ (if ok then [sysfs_join (the (first_device U e (usb_world s))) ''authorized''] else [])\<rparr>"
    "ok \<Longrightarrow> first_device U e (usb_world s) \<noteq> None" by blast+
qed

text \<open>Disabling a device does not change which device is the first with an identifier: \<^verbatim>\<open>idVendor\<close>, \<^verbatim>\<open>idProduct\<close> and \<^verbatim>\<open>serial\<close>
  stay in \<^verbatim>\<open>/sys\<close> when \<^verbatim>\<open>authorized\<close> is cleared.\<close>

definition steady_devices :: "('c, 'p, 'w) usb_ext \<Rightarrow> bool" where
  "steady_devices U \<longleftrightarrow> (\<forall>dev w e. first_device U e (snd (ub_write0 U (sysfs_join dev ''authorized'') w)) = first_device U e w)"

definition devices_are :: "('c, 'p, 'w) usb_ext \<Rightarrow> (string \<Rightarrow> string option) \<Rightarrow> 'w usb_state \<Rightarrow> bool" where
  "devices_are U f s \<longleftrightarrow> (\<lambda>e. first_device U e (usb_world s)) = f"

lemma keeps_write0: "steady_devices U \<Longrightarrow> keeps (devices_are U f) (write0 U (sysfs_join dev ''authorized''))"
  by (rule keepsI) (auto simp: write0_run devices_are_def steady_devices_def usb_world_def)

lemma keeps_retry: "steady_devices U \<Longrightarrow> keeps (devices_are U f) (write0_retry U look n (sysfs_join dev ''authorized''))"
  by (induction n) (auto intro!: keep_intros keeps_write0)

lemma keeps_disable_device: "steady_devices U \<Longrightarrow> keeps (devices_are U f) (disable_device_via_sysfs U e)"
  unfolding disable_device_via_sysfs_def by (auto intro!: keep_intros keeps_retry split: option.splits)

text \<open>C27: a black list disables, for each of its identifiers at most once, the first device with that identifier; any further device
  of the same model stays as it is.\<close>

theorem black_list_disables_one_each:
  assumes "steady_devices U" "run_state (handle_blacklist_update U eids) s = (disabled, t)"
  shows "subseq disabled eids \<and> (\<forall>e \<in> set disabled. first_device U e (usb_world s) \<noteq> None)
    \<and> us_writes t = us_writes s @ map (\<lambda>e. sysfs_join (the (first_device U e (usb_world s))) ''authorized'') disabled"
  using assms(2)
proof (induction eids arbitrary: s disabled)
  case (Cons e eids)
  obtain ok u where d: "run_state (disable_device_via_sysfs U e) s = (ok, u)" by (rule prod.exhaust)
  obtain rest t' where r: "run_state (handle_blacklist_update U eids) u = (rest, t')" by (rule prod.exhaust)
  have "devices_are U (\<lambda>e. first_device U e (usb_world s)) u"
    by (rule keepsD_run [OF keeps_disable_device [OF assms(1)] _ d]) (simp add: devices_are_def)
  then have same: "first_device U e' (usb_world u) = first_device U e' (usb_world s)" for e' by (auto simp: devices_are_def dest: fun_cong)
  have t: "t' = t" and "disabled = (if ok then e # rest else rest)" using Cons.prems d r by simp_all
  with Cons.IH [OF r [unfolded t]] disable_run [OF d] same show ?case by auto
qed simp

section \<open>A small system\<close>

text \<open>Two sticks of one model, at ports 1 and 2 of bus 1.\<close>

definition lab_usb :: "(unit, unit, unit) usb_ext" where
  "lab_usb = \<lparr>ub_event = lab_event (\<lambda>a. 0), ub_md5 = (\<lambda>x. x), ub_entries = (\<lambda>w. Some [''/d/1-1'', ''/d/1-2'']), ub_subdirs = (\<lambda>p w. []),
     ub_read = (\<lambda>p w. if p \<in> {''/d/1-1/idVendor'', ''/d/1-2/idVendor''} then Some ''0781''
                      else if p \<in> {''/d/1-1/idProduct'', ''/d/1-2/idProduct''} then Some ''5567'' else None),
     ub_exists = (\<lambda>p w. True), ub_write0 = (\<lambda>p w. (True, w))\<rparr>"

definition lab_stick :: usb_device where
  "lab_stick = \<lparr>ud_bus = 1, ud_address = 7, ud_ports = Some [2], ud_desc = Some \<lparr>de_vendor = 0x0781, de_product = 0x5567, de_class = 0\<rparr>,
     ud_interfaces = Some [8], ud_manufacturer = None, ud_serial = None\<rparr>"

definition lab_usb_state :: "unit usb_state" where
  "lab_usb_state = \<lparr>us_event = lab_event_state (net_info_default\<lparr>nc_usb_switch := True, nc_usb_protect := True\<rparr>), us_list = bwl_new,
     us_seen = [], us_info = [], us_known = [], us_signals = 0, us_writes = []\<rparr>"

theorem usb_arrival_reported_witness:
  "\<exists>t. run_state (device_arrived lab_usb lab_stick) lab_usb_state = (Some (), t)
    \<and> ev_queue (us_event t) = [usb_log 9005 3 9 ''vid0781_pid5567'' ''5567_0781'']
    \<and> us_writes t = [''/sys/bus/usb/devices/1-2/authorized'']"
proof -
  have n: "device_names lab_usb lab_stick (the (ud_desc lab_stick)) (usb_world lab_usb_state) = (''vid0781_pid5567'', ''vid0781_pid5567'')"
    by code_simp
  have e: "''5567_0781'' = generate_eid lab_usb (hex04 (de_vendor (the (ud_desc lab_stick)))) (hex04 (de_product (the (ud_desc lab_stick)))) ''vid0781_pid5567''"
    by code_simp
  have d: "ud_desc lab_stick = Some (the (ud_desc lab_stick))" "is_usb_storage lab_stick (the (ud_desc lab_stick))"
    by (simp_all add: lab_stick_def is_usb_storage_def)
  have a: "auth_path lab_stick = ''/sys/bus/usb/devices/1-2/authorized''" by code_simp
  have o: "\<not> ev_poisoned (us_event lab_usb_state)" "nc_usb_switch (ev_cfg (us_event lab_usb_state))"
    "nc_usb_protect (ev_cfg (us_event lab_usb_state))" "ev_queue (us_event lab_usb_state) = []" "ev_worker (us_event lab_usb_state)"
    "us_writes lab_usb_state = []" "us_list lab_usb_state = bwl_new" "usb_time lab_usb lab_usb_state = 9"
    "ub_exists lab_usb = (\<lambda>p w. True)" "ub_write0 lab_usb = (\<lambda>p w. (True, w))"
    by (simp_all add: lab_usb_state_def lab_event_state_def usb_time_def lab_usb_def lab_event_def)
  from usb_arrival_reported [OF o(1,2) d n e] show ?thesis
    by (auto simp: Let_def o a offered_def get_device_list_status_def channel_size_def)
qed

theorem black_list_disables_one_each_witness:
  "us_writes (snd (run_state (handle_blacklist_update lab_usb [''5567_0781'']) lab_usb_state)) = [''/d/1-1/authorized'']
   \<and> entry_eid lab_usb () ''/d/1-2'' = Some ''5567_0781''"
proof -
  have st: "steady_devices lab_usb" by (simp add: steady_devices_def lab_usb_def)
  obtain disabled t where r: "run_state (handle_blacklist_update lab_usb [''5567_0781'']) lab_usb_state = (disabled, t)" by (rule prod.exhaust)
  have f: "first_device lab_usb ''5567_0781'' () = Some ''/d/1-1''" "entry_eid lab_usb () ''/d/1-2'' = Some ''5567_0781''" by code_simp+
  have "fst (run_state (handle_blacklist_update lab_usb [''5567_0781'']) lab_usb_state) = [''5567_0781'']" by code_simp
  with r have "disabled = [''5567_0781'']" by simp
  with black_list_disables_one_each [OF st r] r f show ?thesis by (simp add: lab_usb_state_def sysfs_join_def)
qed

end
