(* ===== verification/Kernel_Driver.thy ===== *)
theory Kernel_Driver
  imports Report_Base
begin

text \<open>
  \<^verbatim>\<open>crates/kernel_module/src/lib.rs\<close>: choosing and loading the kernel module that fits the running kernel, with SELinux switched
  off meanwhile. Commands, files and the package \<^verbatim>\<open>levenshtein\<close> are parameters (record \<open>driver_ext\<close>); outputs are bytes. The state
  keeps the commands that were run, the files that were removed, and the drivers that failed.
\<close>

section \<open>State\<close>

text \<open>\<open>dr_list\<close> gives the names in a directory, an error for an entry that cannot be read; \<open>dr_read\<close> gives a file that is text.\<close>

record 'w driver_ext =
  dr_output :: "string \<Rightarrow> string list \<Rightarrow> 'w \<Rightarrow> proc_output res \<times> 'w"
  dr_status :: "string \<Rightarrow> string list \<Rightarrow> 'w \<Rightarrow> proc_status res \<times> 'w"
  dr_exists :: "string \<Rightarrow> 'w \<Rightarrow> bool"
  dr_read :: "string \<Rightarrow> 'w \<Rightarrow> string option"
  dr_list :: "string \<Rightarrow> 'w \<Rightarrow> string res list res"
  dr_remove :: "string \<Rightarrow> 'w \<Rightarrow> bool \<times> 'w"
  dr_mkdir :: "string \<Rightarrow> 'w \<Rightarrow> unit res \<times> 'w"
  dr_copy :: "string \<Rightarrow> string \<Rightarrow> 'w \<Rightarrow> unit res \<times> 'w"
  dr_write :: "string \<Rightarrow> string \<Rightarrow> 'w \<Rightarrow> unit res \<times> 'w"
  dr_wait :: "'w \<Rightarrow> 'w"
  dr_distance :: "string \<Rightarrow> string \<Rightarrow> nat"
  dr_not_text :: "string \<Rightarrow> string"

record 'w driver_state =
  drw :: 'w
  dr_ran :: "(string \<times> string list) list"
  dr_removed :: "string list"
  failed_drivers :: "string list"

definition on_drw :: "('w \<Rightarrow> 'a \<times> 'w) \<Rightarrow> ('w driver_state, 'a) state" where
  "on_drw f = State (\<lambda>s. case f (drw s) of (r, w) \<Rightarrow> (r, s\<lparr>drw := w\<rparr>))"

definition driver_output :: "'w driver_ext \<Rightarrow> string \<Rightarrow> string list \<Rightarrow> ('w driver_state, proc_output res) state" where
  "driver_output D cmd args = do {
     r \<leftarrow> on_drw (dr_output D cmd args);
     modify (\<lambda>s. s\<lparr>dr_ran := dr_ran s @ [(cmd, args)]\<rparr>);
     State_Monad.return r
   }"

definition driver_status :: "'w driver_ext \<Rightarrow> string \<Rightarrow> string list \<Rightarrow> ('w driver_state, proc_status res) state" where
  "driver_status D cmd args = do {
     r \<leftarrow> on_drw (dr_status D cmd args);
     modify (\<lambda>s. s\<lparr>dr_ran := dr_ran s @ [(cmd, args)]\<rparr>);
     State_Monad.return r
   }"

definition remove_driver_file :: "'w driver_ext \<Rightarrow> string \<Rightarrow> ('w driver_state, unit) state" where
  "remove_driver_file D path = do {
     ok \<leftarrow> on_drw (dr_remove D path);
     if ok then modify (\<lambda>s. s\<lparr>dr_removed := dr_removed s @ [path]\<rparr>) else State_Monad.return ()
   }"

section \<open>What there is\<close>

definition osec_dir :: string where "osec_dir = ''/opt/osec/''"

definition driver_prefix :: string where "driver_prefix = ''osec_base.ko-''"

definition get_kernel_version :: "'w driver_ext \<Rightarrow> ('w driver_state, string res) state" where
  "get_kernel_version D =
     tryE (driver_output D ''uname'' [''-r'']) (\<lambda>out.
       State_Monad.return (if utf8_valid (po_stdout out) then Inr (trim (po_stdout out)) else Inl (dr_not_text D (po_stdout out))))"

definition extract_kernel_prefix :: "string \<Rightarrow> string" where
  "extract_kernel_prefix version = hd (split_char (CHR ''-'') version)"

definition is_running_in_container :: "'w driver_ext \<Rightarrow> 'w \<Rightarrow> bool" where
  "is_running_in_container D w =
     (case dr_read D ''/proc/1/cgroup'' w of
        None \<Rightarrow> False
      | Some cgroup \<Rightarrow> str_contains ''docker'' cgroup \<or> str_contains ''kubepods'' cgroup \<or> str_contains ''containerd'' cgroup)"

definition has_modprobe :: "'w driver_ext \<Rightarrow> 'w \<Rightarrow> bool" where
  "has_modprobe D w \<longleftrightarrow> dr_exists D ''/sbin/modprobe'' w \<or> dr_exists D ''/bin/modprobe'' w \<or> dr_exists D ''/usr/sbin/modprobe'' w"

definition can_load_kernel_module :: "'w driver_ext \<Rightarrow> 'w \<Rightarrow> bool" where
  "can_load_kernel_module D w = (if is_running_in_container D w then False else has_modprobe D w)"

definition is_module_loaded :: "'w driver_ext \<Rightarrow> string \<Rightarrow> 'w \<Rightarrow> bool" where
  "is_module_loaded D name w =
     (case dr_read D ''/proc/modules'' w of None \<Rightarrow> False | Some content \<Rightarrow> list_ex (starts_with name) (str_lines content))"

definition is_driver_loaded :: "'w driver_ext \<Rightarrow> 'w \<Rightarrow> bool" where
  "is_driver_loaded D w =
     (case dr_read D ''/proc/modules'' w of None \<Rightarrow> False | Some content \<Rightarrow> list_ex (starts_with ''osec_base '') (str_lines content))"

definition system_module :: "string \<Rightarrow> string" where
  "system_module kernel_version = ''/lib/modules/'' @ kernel_version @ ''/kernel/drivers/osec_base.ko''"

definition is_driver_loaded_from_system_path :: "'w driver_ext \<Rightarrow> string \<Rightarrow> 'w \<Rightarrow> bool" where
  "is_driver_loaded_from_system_path D kernel_version w = dr_exists D (system_module kernel_version) w"

text \<open>The part of a file name behind the prefix; none for the name of another file.\<close>

definition driver_suffix :: "string \<Rightarrow> string option" where
  "driver_suffix name = (if utf8_valid name \<and> starts_with driver_prefix name then Some (drop (length driver_prefix) name) else None)"

definition readable_names :: "string res list \<Rightarrow> string list" where
  "readable_names entries = List.map_filter (\<lambda>x. case x of Inl _ \<Rightarrow> None | Inr n \<Rightarrow> Some n) entries"

definition has_any_driver :: "'w driver_ext \<Rightarrow> 'w \<Rightarrow> bool" where
  "has_any_driver D w = (case dr_list D osec_dir w of Inl _ \<Rightarrow> False | Inr entries \<Rightarrow> list_ex (\<lambda>n. driver_suffix n \<noteq> None) (readable_names entries))"

definition find_only_driver_in_opt_osec :: "'w driver_ext \<Rightarrow> 'w \<Rightarrow> string res" where
  "find_only_driver_in_opt_osec D w =
     (case dr_list D osec_dir w of
        Inl e \<Rightarrow> Inl e
      | Inr entries \<Rightarrow>
          (case find (\<lambda>n. driver_suffix n \<noteq> None) (readable_names entries) of
             Some n \<Rightarrow> Inr (trim_matches driver_prefix n)
           | None \<Rightarrow> Inl ''No loaded driver file found''))"

section \<open>Holding the kernel package\<close>

definition check_and_hold_kernel :: "'w driver_ext \<Rightarrow> ('w driver_state, unit res) state" where
  "check_and_hold_kernel D =
     tryE (get_kernel_version D) (\<lambda>kernel_version. do {
       dpkg \<leftarrow> gets (\<lambda>s. dr_exists D ''/usr/bin/apt-mark'' (drw s) \<or> dr_exists D ''/usr/bin/dpkg'' (drw s));
       if \<not> dpkg then State_Monad.return (Inr ())
       else
         let image_pkg = ''linux-image-'' @ kernel_version; headers_pkg = ''linux-headers-'' @ kernel_version in
         tryE (driver_output D ''apt-mark'' [''showhold'', image_pkg]) (\<lambda>out.
           if str_contains image_pkg (lossy (po_stdout out)) then State_Monad.return (Inr ())
           else tryE (driver_output D ''apt-mark'' [''hold'', image_pkg]) (\<lambda>_. do {
                  _ \<leftarrow> driver_output D ''apt-mark'' [''hold'', headers_pkg];
                  State_Monad.return (Inr ())
                }))
     })"

definition ensure_kernel_hold :: "'w driver_ext \<Rightarrow> ('w driver_state, unit) state" where
  "ensure_kernel_hold D = do { _ \<leftarrow> check_and_hold_kernel D; State_Monad.return () }"

definition unload_driver :: "'w driver_ext \<Rightarrow> ('w driver_state, unit res) state" where
  "unload_driver D = do {
     r \<leftarrow> driver_status D ''rmmod'' [''osec_base''];
     State_Monad.return (case r of Inr _ \<Rightarrow> Inr () | Inl e \<Rightarrow> Inl (''rmmod execution error: '' @ e))
   }"

section \<open>Choosing a driver\<close>

definition driver_score :: "'w driver_ext \<Rightarrow> string \<Rightarrow> string \<Rightarrow> nat" where
  "driver_score D kernel_version suffix' = (if suffix' = kernel_version then 0 else dr_distance D suffix' kernel_version)"

text \<open>The loop over the directory with the best driver so far.\<close>

fun best_driver :: "'w driver_ext \<Rightarrow> string \<Rightarrow> string list \<Rightarrow> (string \<times> nat) option \<Rightarrow> string res list \<Rightarrow> (string \<times> nat) option res" where
  "best_driver D v failed best [] = Inr best"
| "best_driver D v failed best (Inl e # entries) = Inl e"
| "best_driver D v failed best (Inr name # entries) =
     (let path = osec_dir @ name in
      if path \<in> set failed then best_driver D v failed best entries
      else case driver_suffix name of
        None \<Rightarrow> best_driver D v failed best entries
      | Some suffix' \<Rightarrow>
          if \<not> starts_with (extract_kernel_prefix v) suffix' then best_driver D v failed best entries
          else
            let score = driver_score D v suffix' in
            if (case best of None \<Rightarrow> True | Some (p, b) \<Rightarrow> score < b)
            then (if score = 0 then Inr (Some (path, score)) else best_driver D v failed (Some (path, score)) entries)
            else best_driver D v failed best entries)"

definition find_best_driver_excluding :: "'w driver_ext \<Rightarrow> string \<Rightarrow> string list \<Rightarrow> 'w \<Rightarrow> string res" where
  "find_best_driver_excluding D v failed w =
     (case dr_list D osec_dir w of
        Inl e \<Rightarrow> Inl e
      | Inr entries \<Rightarrow>
          (case best_driver D v failed None entries of
             Inl e \<Rightarrow> Inl e
           | Inr None \<Rightarrow> Inl ''No matching driver found''
           | Inr (Some (p, score)) \<Rightarrow> Inr p))"

definition matching_drivers :: "string \<Rightarrow> string list \<Rightarrow> string list" where
  "matching_drivers v names =
     map (\<lambda>n. osec_dir @ n)
       (filter (\<lambda>n. case driver_suffix n of None \<Rightarrow> False | Some suffix' \<Rightarrow> starts_with (extract_kernel_prefix v) suffix') names)"

section \<open>Loading\<close>

definition module_dir :: "string \<Rightarrow> string" where "module_dir kernel_version = ''/opt/osec/lib/modules/'' @ kernel_version"

definition setup_module_structure :: "'w driver_ext \<Rightarrow> string \<Rightarrow> string \<Rightarrow> ('w driver_state, unit res) state" where
  "setup_module_structure D src_path kernel_version =
     (let mod_dir = module_dir kernel_version in
      tryE (on_drw (dr_mkdir D mod_dir)) (\<lambda>_.
      tryE (on_drw (dr_copy D src_path (mod_dir @ ''/osec_base.ko''))) (\<lambda>_.
      tryE (on_drw (dr_write D (mod_dir @ ''/modules.order'') [])) (\<lambda>_.
      tryE (on_drw (dr_write D (mod_dir @ ''/modules.builtin'') [])) (\<lambda>_.
      tryE (driver_status D ''depmod'' [''-b'', ''/opt/osec'', ''-a'']) (\<lambda>_.
        State_Monad.return (Inr ())))))))"

definition sbin_tool :: "'w driver_ext \<Rightarrow> string \<Rightarrow> 'w \<Rightarrow> string option" where
  "sbin_tool D name w =
     (if dr_exists D (''/usr/sbin/'' @ name) w then Some (''/usr/sbin/'' @ name)
      else if dr_exists D (''/sbin/'' @ name) w then Some (''/sbin/'' @ name) else None)"

definition is_enforcing :: "string \<Rightarrow> bool" where "is_enforcing st \<longleftrightarrow> to_lowercase st = ''enforcing''"

definition switch_off :: "'w driver_ext \<Rightarrow> string \<Rightarrow> ('w driver_state, string option) state" where
  "switch_off D st =
     (if \<not> is_enforcing st then State_Monad.return (Some st)
      else do {
        setenforce \<leftarrow> gets (\<lambda>s. sbin_tool D ''setenforce'' (drw s));
        case setenforce of
          None \<Rightarrow> State_Monad.return (Some st)
        | Some path \<Rightarrow> do {
            _ \<leftarrow> driver_status D path [''0''];
            State_Monad.return (Some st)
          }
      })"

definition get_and_disable_selinux :: "'w driver_ext \<Rightarrow> ('w driver_state, string option) state" where
  "get_and_disable_selinux D = do {
     getenforce \<leftarrow> gets (\<lambda>s. sbin_tool D ''getenforce'' (drw s));
     case getenforce of
       None \<Rightarrow> State_Monad.return None
     | Some path \<Rightarrow> do {
         r \<leftarrow> driver_output D path [];
         case r of
           Inl _ \<Rightarrow> State_Monad.return None
         | Inr out \<Rightarrow> switch_off D (trim (lossy (po_stdout out)))
       }
   }"

definition restore_selinux :: "'w driver_ext \<Rightarrow> string option \<Rightarrow> ('w driver_state, unit) state" where
  "restore_selinux D st =
     (case st of
        None \<Rightarrow> State_Monad.return ()
      | Some x \<Rightarrow>
          if \<not> is_enforcing x then State_Monad.return ()
          else do {
            setenforce \<leftarrow> gets (\<lambda>s. sbin_tool D ''setenforce'' (drw s));
            case setenforce of
              None \<Rightarrow> State_Monad.return ()
            | Some path \<Rightarrow> do { _ \<leftarrow> driver_status D path [''1'']; State_Monad.return () }
          })"

definition file_name :: "string \<Rightarrow> string" where "file_name path = last (split_char (CHR ''/'') path)"

definition chosen_name :: "string \<Rightarrow> string" where
  "chosen_name driver_path = (if utf8_valid (file_name driver_path) then trim_matches driver_prefix (file_name driver_path) else [])"

definition exact_driver :: "string \<Rightarrow> string" where "exact_driver v = osec_dir @ driver_prefix @ v"

definition choose_driver :: "'w driver_ext \<Rightarrow> string \<Rightarrow> ('w driver_state, string res) state" where
  "choose_driver D v = gets (\<lambda>s.
     if dr_exists D (exact_driver v) (drw s) then Inr (exact_driver v) else find_best_driver_excluding D v (failed_drivers s) (drw s))"

text \<open>What is left when the chosen driver is in place.\<close>

definition insert_module :: "'w driver_ext \<Rightarrow> string \<Rightarrow> string \<Rightarrow> string option \<Rightarrow> ('w driver_state, string res) state" where
  "insert_module D v driver_path selinux = do {
     _ \<leftarrow> driver_status D ''modprobe'' [''osec_base''];
     loaded \<leftarrow> gets (\<lambda>s. is_module_loaded D ''osec_base'' (drw s));
     if loaded then do { restore_selinux D selinux; State_Monad.return (Inr (chosen_name driver_path)) }
     else do {
       _ \<leftarrow> driver_status D ''modprobe'' [''-d'', ''/opt/osec'', ''osec_base''];
       on_drw (\<lambda>w. ((), dr_wait D w));
       loaded \<leftarrow> gets (\<lambda>s. is_module_loaded D ''osec_base'' (drw s));
       if loaded then do { restore_selinux D selinux; State_Monad.return (Inr (chosen_name driver_path)) }
       else do {
         let ko_path = module_dir v @ ''/osec_base.ko'';
         there \<leftarrow> gets (\<lambda>s. dr_exists D ko_path (drw s));
         if \<not> there
         then do { restore_selinux D selinux; State_Monad.return (Inl (''osec_base.ko not found at '' @ ko_path)) }
         else tryE (driver_output D ''insmod'' [ko_path]) (\<lambda>out.
           if po_success out
           then do { restore_selinux D selinux; State_Monad.return (Inr (chosen_name driver_path)) }
           else do {
             modify (\<lambda>s. s\<lparr>failed_drivers := List.insert driver_path (failed_drivers s)\<rparr>);
             restore_selinux D selinux;
             State_Monad.return (Inl (utf8 [105, 110, 115, 109, 111, 100, 32, 229, 164, 177, 232, 180, 165, 58, 32] @ lossy (po_stderr out)))
           })
       }
     }
   }"

text \<open>What an attempt does while SELinux is off.\<close>

definition load_chosen :: "'w driver_ext \<Rightarrow> string \<Rightarrow> string option \<Rightarrow> ('w driver_state, string res) state" where
  "load_chosen D v selinux = do {
     _ \<leftarrow> on_drw (dr_mkdir D ''/opt/osec/Data'');
     _ \<leftarrow> on_drw (dr_copy D ''/proc/kallsyms'' ''/opt/osec/Data/kallsyms'');
     uio \<leftarrow> gets (\<lambda>s. is_module_loaded D ''uio'' (drw s));
     (if uio then State_Monad.return () else do { _ \<leftarrow> driver_status D ''modprobe'' [''uio'']; State_Monad.return () });
     tryE (choose_driver D v) (\<lambda>driver_path.
     tryE (setup_module_structure D driver_path v) (\<lambda>_.
       insert_module D v driver_path selinux))
   }"

definition try_load_driver_with_cache :: "'w driver_ext \<Rightarrow> string \<Rightarrow> ('w driver_state, string res) state" where
  "try_load_driver_with_cache D v = do {
     w \<leftarrow> gets drw;
     if is_running_in_container D w then State_Monad.return (Inl ''Kernel module loading disabled in container'')
     else if \<not> has_modprobe D w then State_Monad.return (Inl ''modprobe not found on system'')
     else do {
       selinux \<leftarrow> get_and_disable_selinux D;
       load_chosen D v selinux
     }
   }"

section \<open>The search\<close>

definition cleanup_old_module_in_lib :: "'w driver_ext \<Rightarrow> string \<Rightarrow> ('w driver_state, unit) state" where
  "cleanup_old_module_in_lib D v = do {
     there \<leftarrow> gets (\<lambda>s. dr_exists D (system_module v) (drw s));
     if there then remove_driver_file D (system_module v) else State_Monad.return ()
   }"

fun cleanup_entries :: "'w driver_ext \<Rightarrow> string \<Rightarrow> string res list \<Rightarrow> ('w driver_state, unit res) state" where
  "cleanup_entries D keep [] = State_Monad.return (Inr ())"
| "cleanup_entries D keep (Inl e # entries) = State_Monad.return (Inl e)"
| "cleanup_entries D keep (Inr name # entries) = do {
     (if driver_suffix name \<noteq> None \<and> \<not> ends_with keep name then remove_driver_file D (osec_dir @ name) else State_Monad.return ());
     cleanup_entries D keep entries
   }"

definition cleanup_unused_drivers :: "'w driver_ext \<Rightarrow> string \<Rightarrow> ('w driver_state, unit res) state" where
  "cleanup_unused_drivers D except_driver =
     tryE (gets (\<lambda>s. dr_list D osec_dir (drw s))) (cleanup_entries D except_driver)"

text \<open>How loading ends. \<open>StillTrying\<close>: the turns that were looked at are over.\<close>

datatype load_end = LoadedDriver string | LoadFailed string | ProcessExits | StillTrying

definition load_failed :: "'w driver_ext \<Rightarrow> string \<Rightarrow> nat \<Rightarrow> ('w driver_state, load_end option) state" where
  "load_failed D v drivers = do {
     there \<leftarrow> gets (\<lambda>s. dr_exists D (exact_driver v) (drw s));
     failed \<leftarrow> gets failed_drivers;
     if there \<and> exact_driver v \<notin> set failed
     then do { modify (\<lambda>s. s\<lparr>failed_drivers := List.insert (exact_driver v) (failed_drivers s)\<rparr>); State_Monad.return None }
     else State_Monad.return
       (if drivers \<le> length failed then Some (LoadFailed ''All available drivers failed to load'')
        else if exact_driver v \<in> set failed then Some (LoadFailed ''best driver failed to load'') else None)
   }"

text \<open>One turn of the loop; \<open>None\<close> when there is another one.\<close>

definition load_turn :: "'w driver_ext \<Rightarrow> string \<Rightarrow> nat \<Rightarrow> ('w driver_state, load_end option) state" where
  "load_turn D v drivers = do {
     loaded \<leftarrow> gets (\<lambda>s. is_driver_loaded D (drw s));
     if loaded then State_Monad.return (Some ProcessExits)
     else do {
       r \<leftarrow> try_load_driver_with_cache D v;
       case r of
         Inr name \<Rightarrow> do { _ \<leftarrow> cleanup_unused_drivers D name; State_Monad.return (Some (LoadedDriver name)) }
       | Inl _ \<Rightarrow> load_failed D v drivers
     }
   }"

fun load_loop :: "'w driver_ext \<Rightarrow> string \<Rightarrow> nat \<Rightarrow> nat \<Rightarrow> ('w driver_state, load_end) state" where
  "load_loop D v drivers 0 = State_Monad.return StillTrying"
| "load_loop D v drivers (Suc n) = do {
     r \<leftarrow> load_turn D v drivers;
     case r of
       Some e \<Rightarrow> State_Monad.return e
     | None \<Rightarrow> do { on_drw (\<lambda>w. ((), dr_wait D w)); load_loop D v drivers n }
   }"

definition load_kernel_driver :: "'w driver_ext \<Rightarrow> nat \<Rightarrow> ('w driver_state, load_end) state" where
  "load_kernel_driver D turns = do {
     version \<leftarrow> get_kernel_version D;
     case version of
       Inl e \<Rightarrow> State_Monad.return (LoadFailed e)
     | Inr v \<Rightarrow> do {
         w \<leftarrow> gets drw;
         if is_running_in_container D w then State_Monad.return (LoadedDriver [])
         else do {
           cleanup_old_module_in_lib D v;
           listing \<leftarrow> gets (\<lambda>s. dr_list D osec_dir (drw s));
           case listing of
             Inl e \<Rightarrow> State_Monad.return (LoadFailed e)
           | Inr entries \<Rightarrow>
               let drivers = matching_drivers v (readable_names entries) in
               if drivers = [] then State_Monad.return (LoadFailed ''No matching major version drivers found'')
               else do {
                 modify (\<lambda>s. s\<lparr>failed_drivers := []\<rparr>);
                 load_loop D v (length drivers) turns
               }
         }
       }
   }"

section \<open>The driver that is chosen\<close>

definition usable :: "string \<Rightarrow> string list \<Rightarrow> string \<Rightarrow> bool" where
  "usable v failed name \<longleftrightarrow> osec_dir @ name \<notin> set failed
     \<and> (case driver_suffix name of None \<Rightarrow> False | Some suffix' \<Rightarrow> starts_with (extract_kernel_prefix v) suffix')"

definition name_score :: "'w driver_ext \<Rightarrow> string \<Rightarrow> string \<Rightarrow> nat" where
  "name_score D v name = driver_score D v (the (driver_suffix name))"

lemma best_driver_step:
  "best_driver D v failed best (Inr name # entries) =
     (if usable v failed name \<and> (\<forall>p b. best = Some (p, b) \<longrightarrow> name_score D v name < b)
      then (if name_score D v name = 0 then Inr (Some (osec_dir @ name, 0))
            else best_driver D v failed (Some (osec_dir @ name, name_score D v name)) entries)
      else best_driver D v failed best entries)"
  by (cases best) (auto simp: Let_def usable_def name_score_def split: option.splits)

text \<open>The result is the best so far or the best of the names, whichever is better.\<close>

definition better :: "'w driver_ext \<Rightarrow> string \<Rightarrow> string list \<Rightarrow> string list \<Rightarrow> (string \<times> nat) option \<Rightarrow> (string \<times> nat) option \<Rightarrow> bool" where
  "better D v failed names best r \<longleftrightarrow>
     (r = None \<longleftrightarrow> best = None \<and> \<not> list_ex (usable v failed) names)
     \<and> (\<forall>p k. r = Some (p, k) \<longrightarrow>
          (best = Some (p, k) \<or> (\<exists>n \<in> set names. usable v failed n \<and> p = osec_dir @ n \<and> k = name_score D v n))
          \<and> (\<forall>n \<in> set names. usable v failed n \<longrightarrow> k \<le> name_score D v n) \<and> (\<forall>q m. best = Some (q, m) \<longrightarrow> k \<le> m))"

lemma best_driver_better: "\<exists>r. best_driver D v failed best (map Inr names) = Inr r \<and> better D v failed names best r"
proof (induction names arbitrary: best)
  case Nil
  show ?case by (auto simp: better_def)
next
  case (Cons n names)
  show ?case
  proof (cases "usable v failed n \<and> (\<forall>p b. best = Some (p, b) \<longrightarrow> name_score D v n < b)")
    case True
    show ?thesis
    proof (cases "name_score D v n = 0")
      case z: True
      with True show ?thesis by (auto simp: best_driver_step better_def simp del: best_driver.simps)
    next
      case False
      obtain r where "best_driver D v failed (Some (osec_dir @ n, name_score D v n)) (map Inr names) = Inr r"
        "better D v failed names (Some (osec_dir @ n, name_score D v n)) r" using Cons.IH by blast
      with True False show ?thesis
        by (cases r) (auto simp: best_driver_step better_def simp del: best_driver.simps dest: less_imp_le order_trans)
    qed
  next
    case False
    obtain r where r: "best_driver D v failed best (map Inr names) = Inr r" "better D v failed names best r" using Cons.IH by blast
    have "better D v failed (n # names) best r"
    proof (cases "usable v failed n")
      case True
      with False obtain p b where "best = Some (p, b)" "b \<le> name_score D v n" by auto
      with r(2) show ?thesis by (cases r) (auto simp: better_def dest: order_trans)
    qed (use r(2) in \<open>auto simp: better_def\<close>)
    with r(1) False show ?thesis by (auto simp: best_driver_step simp del: best_driver.simps)
  qed
qed

text \<open>When the directory can be read, the driver of the least distance to the running kernel is chosen among those that have its
  prefix and did not fail; there is no choice exactly when none is left.\<close>

theorem best_driver_is_least:
  assumes "dr_list D osec_dir w = Inr (map Inr names)"
  shows "case find_best_driver_excluding D v failed w of
      Inl _ \<Rightarrow> \<not> list_ex (usable v failed) names
    | Inr p \<Rightarrow> \<exists>n \<in> set names. p = osec_dir @ n \<and> usable v failed n \<and> (\<forall>m \<in> set names. usable v failed m \<longrightarrow> name_score D v n \<le> name_score D v m)"
proof -
  obtain r where r: "best_driver D v failed None (map Inr names) = Inr r" "better D v failed names None r" using best_driver_better by blast
  show ?thesis
  proof (cases r)
    case None
    with assms r show ?thesis by (simp add: find_best_driver_excluding_def better_def)
  next
    case (Some a)
    obtain p k where "a = (p, k)" by (rule prod.exhaust)
    with assms r Some show ?thesis by (auto simp: find_best_driver_excluding_def better_def)
  qed
qed

section \<open>SELinux\<close>

text \<open>The arguments of the commands that switch SELinux.\<close>

definition selinux_switches :: "(string \<times> string list) list \<Rightarrow> string list list" where
  "selinux_switches cmds = map snd (filter (\<lambda>(c, a). c = ''/usr/sbin/setenforce'' \<or> c = ''/sbin/setenforce'') cmds)"

abbreviation switched :: "string list list \<Rightarrow> 'w driver_state \<Rightarrow> bool" where
  "switched x \<equiv> \<lambda>s. selinux_switches (dr_ran s) = x"

lemma selinux_switches_append [simp]: "selinux_switches (a @ b) = selinux_switches a @ selinux_switches b"
  by (simp add: selinux_switches_def)

lemma keeps_on_drw: "keeps (switched x) (on_drw f)"
  by (auto simp: keeps_def on_drw_def split: prod.splits)

definition other_cmd :: "string \<Rightarrow> bool" where
  "other_cmd c \<longleftrightarrow> c \<noteq> ''/usr/sbin/setenforce'' \<and> c \<noteq> ''/sbin/setenforce''"

lemma keeps_driver_status: "other_cmd c \<Longrightarrow> keeps (switched x) (driver_status D c args)"
  unfolding driver_status_def by (intro keep_intros keeps_on_drw) (simp add: selinux_switches_def other_cmd_def)

lemma keeps_driver_output: "other_cmd c \<Longrightarrow> keeps (switched x) (driver_output D c args)"
  unfolding driver_output_def by (intro keep_intros keeps_on_drw) (simp add: selinux_switches_def other_cmd_def)

lemmas driver_keeps = keeps_on_drw keeps_driver_status keeps_driver_output

lemma keeps_setup: "keeps (switched x) (setup_module_structure D p v)"
  unfolding setup_module_structure_def Let_def by (intro keep_intros driver_keeps) (simp add: other_cmd_def)

lemma sbin_setenforce: "sbin_tool D ''setenforce'' w = Some p \<Longrightarrow> selinux_switches [(p, a)] = [a]"
  by (auto simp: sbin_tool_def selinux_switches_def split: if_splits)

lemma sbin_getenforce: "sbin_tool D ''getenforce'' w = Some p \<Longrightarrow> other_cmd p"
  by (auto simp: sbin_tool_def other_cmd_def split: if_splits)

text \<open>\<open>yields P m Q\<close>: from a state with \<open>P\<close>, \<open>m\<close> ends with a value and a state that satisfy \<open>Q\<close>.\<close>

definition yields :: "('s \<Rightarrow> bool) \<Rightarrow> ('s, 'a) state \<Rightarrow> ('a \<Rightarrow> 's \<Rightarrow> bool) \<Rightarrow> bool" where
  "yields P m Q \<longleftrightarrow> (\<forall>s. P s \<longrightarrow> Q (fst (run_state m s)) (snd (run_state m s)))"

lemma yields_bind: "yields P m R \<Longrightarrow> (\<And>x. yields (R x) (f x) Q) \<Longrightarrow> yields P (State_Monad.bind m f) Q"
  by (fastforce simp: yields_def split: prod.splits)

lemma yields_keeps: "keeps P m \<Longrightarrow> yields P m (\<lambda>_. P)"
  by (simp add: yields_def keeps_def)

lemma yields_then: "keeps P m \<Longrightarrow> (\<And>x. yields P (f x) Q) \<Longrightarrow> yields P (State_Monad.bind m f) Q"
  by (rule yields_bind [OF yields_keeps])

lemma yields_return: "(\<And>s. P s \<Longrightarrow> Q x s) \<Longrightarrow> yields P (State_Monad.return x) Q"
  by (simp add: yields_def)

lemma yields_try: "keeps P m \<Longrightarrow> (\<And>e s. P s \<Longrightarrow> Q (Inl e) s) \<Longrightarrow> (\<And>x. yields P (f x) Q) \<Longrightarrow> yields P (tryE m f) Q"
  unfolding tryE_def by (rule yields_then) (auto intro: yields_return split: sum.splits)

lemma yields_weaken: "yields P m Q \<Longrightarrow> (\<And>r s. Q r s \<Longrightarrow> Q' r s) \<Longrightarrow> yields P m Q'"
  by (simp add: yields_def)

lemma yields_ifI: "(b \<Longrightarrow> yields P m Q) \<Longrightarrow> (\<not> b \<Longrightarrow> yields P n Q) \<Longrightarrow> yields P (if b then m else n) Q"
  by simp

text \<open>The program that switches SELinux stays where it is.\<close>

definition tool_stays :: "'w driver_ext \<Rightarrow> string option \<Rightarrow> bool" where
  "tool_stays D tool \<longleftrightarrow> (\<forall>w. sbin_tool D ''setenforce'' w = tool)"

definition was_switched :: "string option \<Rightarrow> string option \<Rightarrow> bool" where
  "was_switched tool st \<longleftrightarrow> tool \<noteq> None \<and> (\<exists>x. st = Some x \<and> is_enforcing x)"

lemma yields_const: "(\<And>s. f s = c) \<Longrightarrow> yields P (g c) Q \<Longrightarrow> yields P (State_Monad.bind (gets f) g) Q"
  by (simp add: yields_def)

lemma yields_seen: "(\<And>x. (\<exists>s. f s = x) \<Longrightarrow> yields P (g x) Q) \<Longrightarrow> yields P (State_Monad.bind (gets f) g) Q"
  by (auto simp: yields_def)

lemma was_switched_simps [simp]: "\<not> was_switched tool None" "was_switched tool (Some st) \<longleftrightarrow> tool \<noteq> None \<and> is_enforcing st"
  by (simp_all add: was_switched_def)

lemma tool_switch: "tool_stays D (Some p) \<Longrightarrow> selinux_switches [(p, a)] = [a]"
  by (meson sbin_setenforce tool_stays_def)

lemma status_yields: "tool_stays D (Some p) \<Longrightarrow> yields (switched x) (driver_status D p a) (\<lambda>_. switched (x @ [a]))"
  by (simp add: yields_def driver_status_def on_drw_def tool_switch split: prod.splits)

lemma tool_value: "tool_stays D tool \<Longrightarrow> sbin_tool D ''setenforce'' w = tool"
  by (simp add: tool_stays_def)

lemma switch_off_yields:
  assumes "tool_stays D tool"
  shows "yields (switched x) (switch_off D st) (\<lambda>st. switched (x @ (if was_switched tool st then [[''0'']] else [])))"
  unfolding switch_off_def using assms
  by (cases tool) (auto simp: tool_value intro!: yields_return yields_bind [OF status_yields] yields_const [where c = tool])

lemma disable_yields:
  assumes "tool_stays D tool"
  shows "yields (switched x) (get_and_disable_selinux D) (\<lambda>st. switched (x @ (if was_switched tool st then [[''0'']] else [])))"
  unfolding get_and_disable_selinux_def
proof (rule yields_seen)
  fix g assume "\<exists>s :: 'a driver_state. sbin_tool D ''getenforce'' (drw s) = g"
  then have "other_cmd p" if "g = Some p" for p using that by (auto dest: sbin_getenforce)
  then show "yields (switched x) (case g of None \<Rightarrow> State_Monad.return None
     | Some path \<Rightarrow> do {
         r \<leftarrow> driver_output D path [];
         case r of Inl _ \<Rightarrow> State_Monad.return None | Inr out \<Rightarrow> switch_off D (trim (lossy (po_stdout out)))
       }) (\<lambda>st. switched (x @ (if was_switched tool st then [[''0'']] else [])))"
    using assms by (cases g) (auto split: sum.splits intro!: yields_return yields_then [OF keeps_driver_output] switch_off_yields)
qed

lemma restore_yields:
  assumes "tool_stays D tool"
  shows "yields (switched x) (restore_selinux D st) (\<lambda>_. switched (x @ (if was_switched tool st then [[''1'']] else [])))"
  unfolding restore_selinux_def using assms
  by (cases tool; cases st) (auto simp: tool_value intro!: yields_return yields_bind [OF status_yields] yields_const [where c = tool])

text \<open>How an attempt ends when the driver is in place: SELinux is as before, unless \<^verbatim>\<open>insmod\<close> could not be started.\<close>

lemma insert_yields:
  assumes "tool_stays D tool"
  shows "yields (switched x) (insert_module D v p st)
     (\<lambda>r t. switched (x @ (if was_switched tool st then [[''1'']] else [])) t \<or> isl r \<and> switched x t)"
proof -
  have fin: "yields (switched x) (do { restore_selinux D st; State_Monad.return (r :: string res) })
     (\<lambda>r t. switched (x @ (if was_switched tool st then [[''1'']] else [])) t \<or> isl r \<and> switched x t)" for r
    by (rule yields_bind [OF restore_yields [OF assms]]) (rule yields_return, simp)
  show ?thesis
    unfolding insert_module_def Let_def
    by (intro yields_then yields_try yields_ifI fin keep_intros driver_keeps) (simp_all add: other_cmd_def)
qed

lemma chosen_yields:
  assumes "tool_stays D tool"
  shows "yields (switched x) (load_chosen D v st)
     (\<lambda>r t. switched (x @ (if was_switched tool st then [[''1'']] else [])) t \<or> isl r \<and> switched x t)"
  unfolding load_chosen_def choose_driver_def
  by (intro yields_then yields_try insert_yields [OF assms] keep_intros driver_keeps keeps_setup) (simp_all add: other_cmd_def)

lemma attempt_yields:
  assumes "tool_stays D tool"
  shows "yields (switched x) (try_load_driver_with_cache D v)
     (\<lambda>r t. \<exists>k. switched (x @ k) t \<and> (k = [] \<or> k = [[''0''], [''1'']] \<or> isl r \<and> k = [[''0'']]))"
proof -
  have "yields (switched (x @ (if was_switched tool st then [[''0'']] else []))) (load_chosen D v st)
     (\<lambda>r t. \<exists>k. switched (x @ k) t \<and> (k = [] \<or> k = [[''0''], [''1'']] \<or> isl r \<and> k = [[''0'']]))" for st
  proof (rule yields_weaken [OF chosen_yields [OF assms]])
    fix r :: "string res" and t
    assume "switched ((x @ (if was_switched tool st then [[''0'']] else [])) @ (if was_switched tool st then [[''1'']] else [])) t
      \<or> isl r \<and> switched (x @ (if was_switched tool st then [[''0'']] else [])) t"
    then show "\<exists>k. switched (x @ k) t \<and> (k = [] \<or> k = [[''0''], [''1'']] \<or> isl r \<and> k = [[''0'']])"
      by (cases "was_switched tool st") (auto intro: exI [of _ "[]"])
  qed
  then show ?thesis
    unfolding try_load_driver_with_cache_def
    by (intro yields_then [where m = "gets drw"] yields_ifI yields_return yields_bind [OF disable_yields [OF assms]] keep_intros) auto
qed

text \<open>C29: an attempt switches SELinux off and on again, or leaves it alone. It is left off only by an attempt that fails.\<close>

theorem selinux_back_after_loading:
  assumes "tool_stays D tool" "run_state (try_load_driver_with_cache D v) s = (r, t)"
  shows "\<exists>k. selinux_switches (dr_ran t) = selinux_switches (dr_ran s) @ k \<and> (k = [] \<or> k = [[''0''], [''1'']] \<or> isl r \<and> k = [[''0'']])"
  using attempt_yields [OF assms(1), where v = v and x = "selinux_switches (dr_ran s)"] assms(2) by (fastforce simp: yields_def)

section \<open>The search ends\<close>

text \<open>A host without the exact driver on which every program can be started and every file written.\<close>

definition sound_host :: "'w driver_ext \<Rightarrow> string \<Rightarrow> string list \<Rightarrow> bool" where
  "sound_host D v names \<longleftrightarrow> distinct names \<and> (\<forall>w. dr_list D osec_dir w = Inr (map Inr names) \<and> \<not> dr_exists D (exact_driver v) w
     \<and> has_modprobe D w \<and> \<not> is_running_in_container D w \<and> dr_exists D (module_dir v @ ''/osec_base.ko'') w
     \<and> (\<forall>a b. \<not> isl (fst (dr_mkdir D a w)) \<and> \<not> isl (fst (dr_copy D a b w)) \<and> \<not> isl (fst (dr_write D a b w)))
     \<and> (\<forall>c a. \<not> isl (fst (dr_status D c a w)) \<and> \<not> isl (fst (dr_output D c a w))))"

abbreviation failed_are :: "string list \<Rightarrow> 'w driver_state \<Rightarrow> bool" where
  "failed_are F \<equiv> \<lambda>s. failed_drivers s = F"

lemma keeps_failed: "keeps (failed_are F) (on_drw f)" "keeps (failed_are F) (driver_status D c a)" "keeps (failed_are F) (driver_output D c a)"
  by (auto simp: keeps_def on_drw_def driver_status_def driver_output_def split: prod.splits)

lemma keeps_failed_selinux:
  "keeps (failed_are F) (switch_off D st)" "keeps (failed_are F) (get_and_disable_selinux D)" "keeps (failed_are F) (restore_selinux D o')"
  unfolding switch_off_def get_and_disable_selinux_def restore_selinux_def
  by (intro keep_intros keeps_failed | auto split: option.splits sum.splits intro!: keep_intros keeps_failed)+

lemma yields_ok: "yields P m (\<lambda>r s. \<not> isl r \<and> P s) \<Longrightarrow> (\<And>x. yields P (f x) Q) \<Longrightarrow> yields P (tryE m f) Q"
  unfolding tryE_def by (rule yields_bind) (auto simp: yields_def split: sum.splits)

lemma sound_ok:
  assumes "sound_host D v names"
  shows "yields (failed_are F) (on_drw (dr_mkdir D p)) (\<lambda>r s. \<not> isl r \<and> failed_are F s)"
    "yields (failed_are F) (on_drw (dr_copy D p q)) (\<lambda>r s. \<not> isl r \<and> failed_are F s)"
    "yields (failed_are F) (on_drw (dr_write D p q)) (\<lambda>r s. \<not> isl r \<and> failed_are F s)"
    "yields (failed_are F) (driver_status D c a) (\<lambda>r s. \<not> isl r \<and> failed_are F s)"
    "yields (failed_are F) (driver_output D c a) (\<lambda>r s. \<not> isl r \<and> failed_are F s)"
  using assms unfolding sound_host_def
  by (simp_all add: yields_def on_drw_def driver_status_def driver_output_def split: prod.splits) (metis fst_conv)+

lemma setup_ok: "sound_host D v names \<Longrightarrow> yields (failed_are F) (setup_module_structure D p u) (\<lambda>r s. \<not> isl r \<and> failed_are F s)"
  unfolding setup_module_structure_def Let_def by (intro yields_ok sound_ok yields_return) simp_all

text \<open>An attempt that fails is the refusal of one driver, which is remembered.\<close>

lemma insert_progress:
  assumes "sound_host D v names"
  shows "yields (failed_are F) (insert_module D v p st) (\<lambda>r s. isl r \<longrightarrow> failed_drivers s = List.insert p F)"
proof -
  have good: "yields (failed_are F) (do { restore_selinux D st; State_Monad.return (Inr x) }) (\<lambda>r s. isl r \<longrightarrow> failed_drivers s = List.insert p F)"
    for x :: string by (intro yields_then keeps_failed_selinux yields_return) simp
  have bad: "yields (failed_are F) (do {
      modify (\<lambda>s. s\<lparr>failed_drivers := List.insert p (failed_drivers s)\<rparr>);
      restore_selinux D st; State_Monad.return (Inl e) }) (\<lambda>r s. isl r \<longrightarrow> failed_drivers s = List.insert p F)" for e
  proof (rule yields_bind)
    show "yields (failed_are F) (modify (\<lambda>s. s\<lparr>failed_drivers := List.insert p (failed_drivers s)\<rparr>)) (\<lambda>_. failed_are (List.insert p F))"
      by (simp add: yields_def)
  qed (intro yields_then keeps_failed_selinux yields_return, simp)
  have here: "dr_exists D (module_dir v @ ''/osec_base.ko'') w" for w using assms by (simp add: sound_host_def)
  show ?thesis
    unfolding insert_module_def Let_def
    by (intro yields_then [OF keeps_failed(1)] yields_then [OF keeps_failed(2)] yields_const [where c = True] yields_ok [OF sound_ok(5) [OF assms]]
        yields_seen yields_ifI good bad)
      (simp_all add: here)
qed

lemma usable_matching: "n \<in> set names \<Longrightarrow> usable v F n \<longleftrightarrow> osec_dir @ n \<in> set (matching_drivers v names) - set F"
  by (auto simp: usable_def matching_drivers_def)

lemma matching_names: "p \<in> set (matching_drivers v names) \<Longrightarrow> \<exists>n \<in> set names. p = osec_dir @ n"
  by (auto simp: matching_drivers_def)

lemma choose_yields:
  assumes "sound_host D v names" "set F \<subset> set (matching_drivers v names)"
  shows "yields (failed_are F) (choose_driver D v) (\<lambda>r s. failed_are F s \<and> (\<exists>p \<in> set (matching_drivers v names) - set F. r = Inr p))"
  unfolding yields_def
proof (intro allI impI)
  fix s :: "'a driver_state" assume F: "failed_are F s"
  from assms(2) obtain q where "q \<in> set (matching_drivers v names)" "q \<notin> set F" by auto
  then have ex: "list_ex (usable v F) names" using matching_names usable_matching by (fastforce simp: list_ex_iff)
  have l: "dr_list D osec_dir (drw s) = Inr (map Inr names)" and no: "\<not> dr_exists D (exact_driver v) (drw s)"
    using assms(1) by (simp_all add: sound_host_def)
  from best_driver_is_least [OF l, of v F] ex no F
  show "failed_are F (snd (run_state (choose_driver D v) s))
      \<and> (\<exists>p \<in> set (matching_drivers v names) - set F. fst (run_state (choose_driver D v) s) = Inr p)"
    by (auto simp: choose_driver_def usable_matching split: sum.splits)
qed

lemma attempt_progress:
  assumes "sound_host D v names" "set F \<subset> set (matching_drivers v names)"
  shows "yields (failed_are F) (try_load_driver_with_cache D v)
     (\<lambda>r s. isl r \<longrightarrow> (\<exists>p \<in> set (matching_drivers v names) - set F. failed_drivers s = List.insert p F))"
proof -
  have host: "has_modprobe D w" "\<not> is_running_in_container D w" for w using assms(1) by (simp_all add: sound_host_def)
  have put: "yields (\<lambda>s. failed_are F s \<and> (\<exists>p \<in> set (matching_drivers v names) - set F. r = Inr p))
     (case r of Inl e \<Rightarrow> State_Monad.return (Inl e)
      | Inr p \<Rightarrow> tryE (setup_module_structure D p v) (\<lambda>_. insert_module D v p st))
     (\<lambda>r s. isl r \<longrightarrow> (\<exists>p \<in> set (matching_drivers v names) - set F. failed_drivers s = List.insert p F))" for r st
  proof (cases r)
    case (Inr p)
    have "yields (failed_are F) (tryE (setup_module_structure D p v) (\<lambda>_. insert_module D v p st))
       (\<lambda>r s. isl r \<longrightarrow> failed_drivers s = List.insert p F)"
      by (intro yields_ok [OF setup_ok [OF assms(1)]] insert_progress [OF assms(1)])
    with Inr show ?thesis by (auto simp: yields_def)
  qed (simp add: yields_def)
  have "yields (failed_are F) (load_chosen D v st)
     (\<lambda>r s. isl r \<longrightarrow> (\<exists>p \<in> set (matching_drivers v names) - set F. failed_drivers s = List.insert p F))" for st
    unfolding load_chosen_def tryE_def [of "choose_driver D v"]
    by (intro yields_then keep_intros keeps_failed yields_bind [OF choose_yields [OF assms]] put)
  then show ?thesis
    unfolding try_load_driver_with_cache_def
    by (intro yields_seen) (simp add: host yields_then [OF keeps_failed_selinux(2)])
qed

lemma distinct_matching: "distinct names \<Longrightarrow> distinct (matching_drivers v names)"
  by (simp add: matching_drivers_def distinct_map inj_on_def)

lemma loop_ends:
  assumes "sound_host D v names" "distinct (failed_drivers s)" "set (failed_drivers s) \<subset> set (matching_drivers v names)"
    and "length (matching_drivers v names) - length (failed_drivers s) \<le> n"
  shows "fst (run_state (load_loop D v (length (matching_drivers v names)) n) s) \<noteq> StillTrying"
  using assms(2-4)
proof (induction n arbitrary: s)
  case 0
  let ?m = "matching_drivers v names"
  have "distinct ?m" using assms(1) distinct_matching by (auto simp: sound_host_def)
  with 0 have "length (failed_drivers s) < length ?m" by (metis distinct_card finite_set psubset_card_mono)
  with 0 show ?case by simp
next
  case (Suc n)
  let ?m = "matching_drivers v names"
  have dm: "distinct ?m" using assms(1) distinct_matching by (auto simp: sound_host_def)
  obtain r t where r: "run_state (try_load_driver_with_cache D v) s = (r, t)" by (rule prod.exhaust)
  show ?case
  proof (cases "is_driver_loaded D (drw s) \<or> \<not> isl r")
    case True
    with r show ?thesis by (cases r) (auto simp: load_turn_def split: prod.splits)
  next
    case False
    then obtain e where e: "r = Inl e" by (cases r) auto
    obtain p where p: "p \<in> set ?m - set (failed_drivers s)" "failed_drivers t = List.insert p (failed_drivers s)"
      using attempt_progress [OF assms(1) Suc.prems(2)] r e by (auto simp: yields_def)
    have no: "\<not> dr_exists D (exact_driver v) (drw t)" using assms(1) by (simp add: sound_host_def)
    show ?thesis
    proof (cases "length ?m \<le> length (failed_drivers t) \<or> exact_driver v \<in> set (failed_drivers t)")
      case True
      with False r e no show ?thesis by (auto simp: load_turn_def load_failed_def)
    next
      case more: False
      let ?t = "t\<lparr>drw := dr_wait D (drw t)\<rparr>"
      have d: "distinct (failed_drivers ?t)" using p Suc.prems(1) by simp
      have "set (failed_drivers ?t) \<subseteq> set ?m" using p Suc.prems(2) by auto
      moreover have "set (failed_drivers ?t) \<noteq> set ?m" using more d dm distinct_card [of "failed_drivers t"] distinct_card [of ?m] by auto
      ultimately have "set (failed_drivers ?t) \<subset> set ?m" by blast
      moreover have "length ?m - length (failed_drivers ?t) \<le> n" using p Suc.prems(3) by simp
      ultimately have "fst (run_state (load_loop D v (length ?m) n) ?t) \<noteq> StillTrying" using Suc.IH d by blast
      with False r e no more show ?thesis by (auto simp: load_turn_def load_failed_def on_drw_def split: prod.splits)
    qed
  qed
qed

text \<open>C28: on such a host with at least one driver for the kernel, the search ends after at most as many turns as there are drivers.\<close>

theorem driver_search_ends:
  assumes "sound_host D v names" "matching_drivers v names \<noteq> []" "failed_drivers s = []"
  shows "fst (run_state (load_loop D v (length (matching_drivers v names)) (length (matching_drivers v names))) s) \<noteq> StillTrying"
  using assms by (intro loop_ends) auto

text \<open>Without \<^verbatim>\<open>modprobe\<close> and without the exact driver it never ends.\<close>

theorem missing_modprobe_never_ends:
  assumes "\<And>w. \<not> has_modprobe D w" "\<And>w. \<not> is_running_in_container D w" "\<And>w. \<not> dr_exists D (exact_driver v) w"
    and "\<And>w. \<not> is_driver_loaded D w" "0 < drivers" "failed_drivers s = []"
  shows "fst (run_state (load_loop D v drivers n) s) = StillTrying"
  using assms(6)
proof (induction n arbitrary: s)
  case (Suc n)
  have "run_state (load_turn D v drivers) s = (None, s)"
    using assms(1-5) Suc.prems by (simp add: load_turn_def try_load_driver_with_cache_def load_failed_def)
  then show ?case using Suc.IH [of "s\<lparr>drw := dr_wait D (drw s)\<rparr>"] Suc.prems by (simp add: on_drw_def)
qed simp

section \<open>A small host\<close>

text \<open>The world is whether SELinux enforces and how many copies of a driver still fail; \<open>insmod\<close> says whether the module is accepted.\<close>

definition lab_names :: "string list" where "lab_names = [''osec_base.ko-5.4.0-1'', ''osec_base.ko-5.4.0-22'', ''Data'']"

definition lab_host :: "bool \<Rightarrow> (bool \<times> nat) driver_ext" where
  "lab_host accepts = \<lparr>
     dr_output = (\<lambda>c a w. (Inr \<lparr>po_success = accepts, po_stdout = (if fst w then ''Enforcing'' else ''Permissive''), po_stderr = []\<rparr>, w)),
     dr_status = (\<lambda>c a w. (Inr \<lparr>ps_success = True, ps_display = []\<rparr>, if c = ''/usr/sbin/setenforce'' then (a = [''1''], snd w) else w)),
     dr_exists = (\<lambda>p w. p \<in> {''/sbin/modprobe'', ''/usr/sbin/getenforce'', ''/usr/sbin/setenforce'', module_dir ''5.4.0-2'' @ ''/osec_base.ko''}),
     dr_read = (\<lambda>p w. None), dr_list = (\<lambda>p w. Inr (map Inr lab_names)), dr_remove = (\<lambda>p w. (True, w)), dr_mkdir = (\<lambda>p w. (Inr (), w)),
     dr_copy = (\<lambda>p q w. if snd w = 0 \<or> p = ''/proc/kallsyms'' then (Inr (), w) else (Inl ''full'', (fst w, snd w - 1))),
     dr_write = (\<lambda>p d w. (Inr (), w)), dr_wait = (\<lambda>w. w), dr_distance = (\<lambda>a b. length a), dr_not_text = (\<lambda>x. x)\<rparr>"

definition lab_driver_state :: "nat \<Rightarrow> (bool \<times> nat) driver_state" where
  "lab_driver_state failing = \<lparr>drw = (True, failing), dr_ran = [], dr_removed = [], failed_drivers = []\<rparr>"

lemma lab_host_tool: "tool_stays (lab_host b) (Some ''/usr/sbin/setenforce'')"
  by (simp add: tool_stays_def sbin_tool_def lab_host_def)

lemma lab_matching: "matching_drivers ''5.4.0-2'' lab_names = [''/opt/osec/osec_base.ko-5.4.0-1'', ''/opt/osec/osec_base.ko-5.4.0-22'']"
  by code_simp

theorem selinux_back_after_loading_witness:
  "\<exists>r t. run_state (try_load_driver_with_cache (lab_host True) ''5.4.0-2'') (lab_driver_state 0) = (r, t)
     \<and> r = Inr ''5.4.0-1'' \<and> selinux_switches (dr_ran t) \<in> {[], [[''0''], [''1'']]}"
proof -
  obtain r t where r: "run_state (try_load_driver_with_cache (lab_host True) ''5.4.0-2'') (lab_driver_state 0) = (r, t)" by (rule prod.exhaust)
  have "fst (run_state (try_load_driver_with_cache (lab_host True) ''5.4.0-2'') (lab_driver_state 0)) = Inr ''5.4.0-1''" by code_simp
  with selinux_back_after_loading [OF lab_host_tool r] r show ?thesis by (auto simp: lab_driver_state_def selinux_switches_def)
qed

text \<open>When the first copy fails, SELinux stays off: the next attempt finds it off and leaves it so.\<close>

theorem selinux_left_off:
  "(case run_state (load_loop (lab_host True) ''5.4.0-2'' 2 2) (lab_driver_state 1) of (e, t) \<Rightarrow> (e, fst (drw t)))
     = (LoadedDriver ''5.4.0-1'', False)"
  by code_simp

definition lab_refusing :: "(bool \<times> nat) driver_ext" where
  "lab_refusing = (lab_host False)\<lparr>dr_copy := (\<lambda>p q w. (Inr (), w))\<rparr>"

lemma lab_sound: "sound_host lab_refusing ''5.4.0-2'' lab_names"
  by (simp add: sound_host_def lab_refusing_def lab_host_def lab_names_def has_modprobe_def is_running_in_container_def exact_driver_def
      osec_dir_def driver_prefix_def module_dir_def)

theorem driver_search_ends_witness:
  "fst (run_state (load_loop lab_refusing ''5.4.0-2'' 2 2) (lab_driver_state 0)) \<noteq> StillTrying
   \<and> matching_drivers ''5.4.0-2'' lab_names = [''/opt/osec/osec_base.ko-5.4.0-1'', ''/opt/osec/osec_base.ko-5.4.0-22'']"
proof -
  have l: "length (matching_drivers ''5.4.0-2'' lab_names) = 2" "matching_drivers ''5.4.0-2'' lab_names \<noteq> []" by (simp_all add: lab_matching)
  have f: "failed_drivers (lab_driver_state 0) = []" by (simp add: lab_driver_state_def)
  from driver_search_ends [OF lab_sound l(2) f] lab_matching show ?thesis unfolding l(1) by (rule conjI)
qed

end
