(* ===== verification/Online.thy ===== *)
theory Online
  imports Report_Base
begin

text \<open>
  \<^verbatim>\<open>crates/online/src/lib.rs\<close>, the registration of the agent and the reports of its hardware, and the outer loop of
  \<^verbatim>\<open>task_fetcher\<close> (\<^verbatim>\<open>crates/task/src/task_fetcher.rs\<close>) that works with the token. The two are tasks with two channels between
  them: tokens go to the fetcher, and the fetcher says when the host is offline, so that a new token is fetched. The collector of
  the hardware's numbers, the reader of JSON and the arithmetic on \<^verbatim>\<open>f64\<close> are parameters (record \<open>online_ext\<close>).
\<close>

section \<open>Registration\<close>

text \<open>\<open>oe_boot text now\<close>: the time of the boot for the uptime \<open>text\<close>, if that is a number.\<close>

record ('c, 'p, 'w) online_ext =
  oe_event :: "('c, 'p, 'w) event_ext"
  oe_parse :: "string \<Rightarrow> json res"
  oe_uptime :: "'w \<Rightarrow> string option"
  oe_boot :: "string \<Rightarrow> int \<Rightarrow> int option"
  oe_arch :: string
  oe_metrics :: "'w \<Rightarrow> string option"

definition get_os_start_time :: "('c, 'p, 'w) online_ext \<Rightarrow> 'w \<Rightarrow> string" where
  "get_os_start_time L w =
     (let now = ex_now (oe_event L) w in
      case oe_uptime L w of
        None \<Rightarrow> show_int now
      | Some content \<Rightarrow>
          (case split_whitespace content of
             [] \<Rightarrow> show_int now
           | uptime_str # _ \<Rightarrow> show_int (opt_or now (oe_boot L uptime_str now))))"

definition get_cpu_arch_type :: "string \<Rightarrow> u8" where
  "get_cpu_arch_type arch = (if arch = ''x86_64'' then 1 else if arch = ''aarch64'' then 2 else if arch = ''mips64'' then 3 else 0)"

definition base_online :: "('c, 'p, 'w) online_ext \<Rightarrow> net_info_config \<Rightarrow> 'w \<Rightarrow> json" where
  "base_online L cfg w = JObj
     [(''uid'', JStr (nc_dev_uid cfg)), (''macid'', JStr (nc_macid cfg)), (''ip'', JStr (nc_ips cfg)), (''ver'', JStr (nc_ver cfg)),
      (''type'', JInt 1), (''os'', JStr (nc_os cfg)), (''memsize'', JStr (nc_memsize cfg)), (''cpu'', JStr (nc_cpu cfg)),
      (''hdsize'', JStr (nc_hdsize cfg)), (''asstarttime'', JStr (show_int (ex_now (oe_event L) w))),
      (''osstarttime'', JStr (get_os_start_time L w)), (''auth'', JStr (nc_auth cfg)), (''userid'', JStr (nc_user_id cfg)),
      (''host_name'', JStr (nc_host_name cfg)), (''mod_ver'', JStr (nc_mod_ver cfg)), (''arch_type'', JInt (uint (get_cpu_arch_type (oe_arch L))))]"

text \<open>The derived reader of \<^verbatim>\<open>AuthResponse\<close> takes an object with the fields, or an array in their order.\<close>

definition auth_data :: "json \<Rightarrow> string option" where
  "auth_data v = (case v of JArr [JStr token] \<Rightarrow> Some token | _ \<Rightarrow> Option.bind (json_get v ''token'') as_str)"

definition auth_token :: "json \<Rightarrow> string option" where
  "auth_token v =
     (case v of
        JArr [JStr code, data, JStr msg] \<Rightarrow> auth_data data
      | _ \<Rightarrow> if Option.bind (json_get v ''code'') as_str = None \<or> Option.bind (json_get v ''msg'') as_str = None then None
             else Option.bind (json_get v ''data'') auth_data)"

definition log_post ::
  "('c, 'p, 'w) online_ext \<Rightarrow> 'c net_client \<Rightarrow> string \<Rightarrow> string \<Rightarrow> nat \<Rightarrow> string option \<Rightarrow> ('w event_state, string res) state" where
  "log_post L nc url body timeout token = do {
     modify (\<lambda>s. s\<lparr>ev_posts := ev_posts s @ [(url, body)]\<rparr>);
     on_fos (run_state (post_data_async (ex_http (oe_event L)) nc url body timeout token))
   }"

definition base_online_run :: "('c, 'p, 'w) online_ext \<Rightarrow> 'c net_client \<Rightarrow> ('w event_state, string res option) state" where
  "base_online_run L nc =
     bindP lock_cfg (\<lambda>cfg. okP (do {
       json_str \<leftarrow> gets (\<lambda>s. ex_json (oe_event L) (base_online L cfg (fos s)));
       r \<leftarrow> log_post L nc (opt_or [] (base_url nc) @ ''/v1/auth'') json_str 30 None;
       State_Monad.return
         (case r of
            Inl _ \<Rightarrow> Inl ''Failed to get token.''
          | Inr response \<Rightarrow>
              (case oe_parse L response of
                 Inl _ \<Rightarrow> Inl ''Failed to parse token from response''
               | Inr v \<Rightarrow> (case auth_token v of None \<Rightarrow> Inl ''Failed to parse token from response'' | Some token \<Rightarrow> Inr token)))
     }))"

definition register_once :: "('c, 'p, 'w) online_ext \<Rightarrow> ('w event_state, ('c net_client \<times> string res) res option) state" where
  "register_once L =
     tryP (new_net_client (oe_event L)) (\<lambda>nc.
       bindP (base_online_run L nc) (\<lambda>r. retP (Inr (nc, r))))"

section \<open>The two tasks\<close>

datatype 'c registrar = Registering | Delivering "'c net_client" string | Storing "'c net_client" string | Listening "'c net_client" string bool | RegistrarEnded

datatype fetcher_pc = Connecting | AwaitingToken | Fetching string | Reporting | FetcherEnded

record ('c, 'w) session_state =
  se_event :: "'w event_state"
  se_registrar :: "'c registrar"
  se_fetcher :: fetcher_pc
  se_tokens :: "string list"
  se_offline :: "bool list"

abbreviation on_se :: "('w event_state, 'r) state \<Rightarrow> (('c, 'w) session_state, 'r) state" where
  "on_se \<equiv> zoom se_event (\<lambda>e s. s\<lparr>se_event := e\<rparr>)"

definition signal_size :: nat where "signal_size = 8"

definition goto_registrar :: "'c registrar \<Rightarrow> (('c, 'w) session_state, unit) state" where
  "goto_registrar r = modify (\<lambda>s. s\<lparr>se_registrar := r\<rparr>)"

definition goto_fetcher :: "fetcher_pc \<Rightarrow> (('c, 'w) session_state, unit) state" where
  "goto_fetcher f = modify (\<lambda>s. s\<lparr>se_fetcher := f\<rparr>)"

definition registrar_registers :: "('c, 'p, 'w) online_ext \<Rightarrow> (('c, 'w) session_state, unit) state" where
  "registrar_registers L = do {
     r \<leftarrow> on_se (register_once L);
     goto_registrar (case r of
         None \<Rightarrow> RegistrarEnded
       | Some (Inl _) \<Rightarrow> RegistrarEnded
       | Some (Inr (nc, Inl _)) \<Rightarrow> Registering
       | Some (Inr (nc, Inr token)) \<Rightarrow> Delivering nc token)
   }"

definition get_hardware_info :: "('w event_state, (bool \<times> u32) option) state" where
  "get_hardware_info = bindP lock_cfg (\<lambda>cfg. retP (nc_hardware_switch cfg, nc_hardware_time cfg))"

definition upload_once :: "('c, 'p, 'w) online_ext \<Rightarrow> 'c net_client \<Rightarrow> string \<Rightarrow> ('w event_state, unit) state" where
  "upload_once L nc token = do {
     metrics \<leftarrow> gets (\<lambda>s. oe_metrics L (fos s));
     case metrics of
       None \<Rightarrow> State_Monad.return ()
     | Some json_data \<Rightarrow> do {
         _ \<leftarrow> log_post L nc (opt_or [] (base_url nc) @ ''/v1/puthardwareinfo'') json_data 180 (Some token);
         State_Monad.return ()
       }
   }"

text \<open>The start of a turn of the inner loop: whether reports of the hardware are wanted.\<close>

definition listen_top :: "('c, 'p, 'w) online_ext \<Rightarrow> 'c net_client \<Rightarrow> string \<Rightarrow> bool \<Rightarrow> (('c, 'w) session_state, unit) state" where
  "listen_top L nc token hardware_enabled = do {
     info \<leftarrow> on_se get_hardware_info;
     case info of
       None \<Rightarrow> goto_registrar RegistrarEnded
     | Some (switch, time_secs) \<Rightarrow>
         if switch \<and> 0 < time_secs
         then do {
           (if hardware_enabled then State_Monad.return () else on_se (upload_once L nc token));
           goto_registrar (Listening nc token True)
         }
         else goto_registrar (Listening nc token False)
   }"

text \<open>\<^verbatim>\<open>token_tx.send\<close>: it fails when the fetcher is gone, and waits while the channel is full.\<close>

definition registrar_delivers :: "'c net_client \<Rightarrow> string \<Rightarrow> (('c, 'w) session_state, unit) state" where
  "registrar_delivers nc token = do {
     s \<leftarrow> gets (\<lambda>s. s);
     if se_fetcher s = FetcherEnded then goto_registrar Registering
     else if length (se_tokens s) < signal_size
     then do {
       modify (\<lambda>s. s\<lparr>se_tokens := se_tokens s @ [token]\<rparr>);
       goto_registrar (Storing nc token)
     }
     else State_Monad.return ()
   }"

text \<open>\<^verbatim>\<open>set_token\<close>, and on to the inner loop; the fetcher may have taken the token before.\<close>

definition registrar_stores :: "('c, 'p, 'w) online_ext \<Rightarrow> 'c net_client \<Rightarrow> string \<Rightarrow> (('c, 'w) session_state, unit) state" where
  "registrar_stores L nc token = do {
     modify (\<lambda>s. s\<lparr>se_event := (se_event s)\<lparr>ev_token := Some token\<rparr>\<rparr>);
     listen_top L nc token False
   }"

definition registrar_hears :: "('c, 'p, 'w) online_ext \<Rightarrow> 'c net_client \<Rightarrow> string \<Rightarrow> bool \<Rightarrow> (('c, 'w) session_state, unit) state" where
  "registrar_hears L nc token hardware_enabled = do {
     s \<leftarrow> gets (\<lambda>s. s);
     case se_offline s of
       offline # rest \<Rightarrow> do {
         modify (\<lambda>s. s\<lparr>se_offline := rest\<rparr>);
         if offline then goto_registrar Registering else listen_top L nc token hardware_enabled
       }
     | [] \<Rightarrow> if se_fetcher s = FetcherEnded then goto_registrar RegistrarEnded else State_Monad.return ()
   }"

definition fetcher_connects :: "('c, 'p, 'w) online_ext \<Rightarrow> (('c, 'w) session_state, unit) state" where
  "fetcher_connects L = do {
     r \<leftarrow> on_se (new_net_client (oe_event L));
     goto_fetcher (case r of Some (Inr _) \<Rightarrow> AwaitingToken | _ \<Rightarrow> FetcherEnded)
   }"

definition fetcher_receives :: "(('c, 'w) session_state, unit) state" where
  "fetcher_receives = do {
     s \<leftarrow> gets (\<lambda>s. s);
     case se_tokens s of
       token # rest \<Rightarrow> do { modify (\<lambda>s. s\<lparr>se_tokens := rest\<rparr>); goto_fetcher (Fetching token) }
     | [] \<Rightarrow> if se_registrar s = RegistrarEnded then goto_fetcher FetcherEnded else State_Monad.return ()
   }"

definition fetcher_reports :: "(('c, 'w) session_state, unit) state" where
  "fetcher_reports = do {
     s \<leftarrow> gets (\<lambda>s. s);
     if se_registrar s = RegistrarEnded then goto_fetcher Connecting
     else if length (se_offline s) < signal_size
     then do { modify (\<lambda>s. s\<lparr>se_offline := se_offline s @ [True]\<rparr>); goto_fetcher Connecting }
     else State_Monad.return ()
   }"

text \<open>What wakes a task. \<open>RunFails\<close> and \<open>RunPanics\<close> are the ends of \<^verbatim>\<open>TaskFetcher::run\<close>, which has no other.\<close>

datatype session_event = RegistrarGoes | CheckTick | HardwareTick | FetcherGoes | RunFails | RunPanics

definition registrar_wakes :: "('c, 'p, 'w) online_ext \<Rightarrow> session_event \<Rightarrow> (('c, 'w) session_state, unit) state" where
  "registrar_wakes L ev = do {
     r \<leftarrow> gets se_registrar;
     case r of
       Registering \<Rightarrow> if ev = RegistrarGoes then registrar_registers L else State_Monad.return ()
     | Delivering nc token \<Rightarrow> if ev = RegistrarGoes then registrar_delivers nc token else State_Monad.return ()
     | Storing nc token \<Rightarrow> if ev = RegistrarGoes then registrar_stores L nc token else State_Monad.return ()
     | Listening nc token en \<Rightarrow>
         if ev = RegistrarGoes then registrar_hears L nc token en
         else if ev = CheckTick then listen_top L nc token en
         else if ev = HardwareTick \<and> en then do { on_se (upload_once L nc token); listen_top L nc token en }
         else State_Monad.return ()
     | RegistrarEnded \<Rightarrow> State_Monad.return ()
   }"

definition fetcher_wakes :: "('c, 'p, 'w) online_ext \<Rightarrow> session_event \<Rightarrow> (('c, 'w) session_state, unit) state" where
  "fetcher_wakes L ev = do {
     f \<leftarrow> gets se_fetcher;
     case f of
       Connecting \<Rightarrow> if ev = FetcherGoes then fetcher_connects L else State_Monad.return ()
     | AwaitingToken \<Rightarrow> if ev = FetcherGoes then fetcher_receives else State_Monad.return ()
     | Fetching _ \<Rightarrow>
         if ev = RunFails then goto_fetcher Reporting else if ev = RunPanics then goto_fetcher FetcherEnded else State_Monad.return ()
     | Reporting \<Rightarrow> if ev = FetcherGoes then fetcher_reports else State_Monad.return ()
     | FetcherEnded \<Rightarrow> State_Monad.return ()
   }"

definition session_step :: "('c, 'p, 'w) online_ext \<Rightarrow> session_event \<Rightarrow> ('c, 'w) session_state \<Rightarrow> ('c, 'w) session_state" where
  "session_step L ev s = snd (run_state (do { registrar_wakes L ev; fetcher_wakes L ev }) s)"

text \<open>The two tasks in any order; between their steps anything else of the agent may happen but the token.\<close>

inductive session_reach :: "('c, 'p, 'w) online_ext \<Rightarrow> ('c, 'w) session_state \<Rightarrow> bool" for L where
  start: "se_registrar s = Registering \<Longrightarrow> se_fetcher s = Connecting \<Longrightarrow> se_tokens s = [] \<Longrightarrow> se_offline s = [] \<Longrightarrow> session_reach L s"
| wake: "session_reach L s \<Longrightarrow> session_reach L (session_step L ev s)"
| other: "session_reach L s \<Longrightarrow> ev_token e = ev_token (se_event s) \<Longrightarrow> session_reach L (s\<lparr>se_event := e\<rparr>)"

section \<open>One token\<close>

text \<open>A registration, a token on its way, a fetcher at work and a signal on its way: there is one of these at a time.\<close>

fun registering :: "'c registrar \<Rightarrow> nat" where
  "registering Registering = 1"
| "registering (Delivering _ _) = 1"
| "registering _ = 0"

fun fetching :: "fetcher_pc \<Rightarrow> nat" where
  "fetching (Fetching _) = 1"
| "fetching Reporting = 1"
| "fetching _ = 0"

definition in_flight :: "('c, 'w) session_state \<Rightarrow> nat" where
  "in_flight s = registering (se_registrar s) + length (se_tokens s) + fetching (se_fetcher s) + length (se_offline s)"

definition holds_token :: "string \<Rightarrow> 'c registrar \<Rightarrow> bool" where
  "holds_token t r \<longleftrightarrow> r = RegistrarEnded \<or> (\<exists>nc. r = Storing nc t) \<or> (\<exists>nc en. r = Listening nc t en)"

definition session_ok :: "('c, 'w) session_state \<Rightarrow> bool" where
  "session_ok s \<longleftrightarrow> in_flight s \<le> 1 \<and> (se_registrar s \<noteq> RegistrarEnded \<and> se_fetcher s \<noteq> FetcherEnded \<longrightarrow> in_flight s = 1)
     \<and> (\<forall>b \<in> set (se_offline s). b)
     \<and> (\<forall>t. t \<in> set (se_tokens s) \<or> se_fetcher s = Fetching t \<longrightarrow> holds_token t (se_registrar s))
     \<and> (\<forall>nc t en. se_registrar s = Listening nc t en \<longrightarrow> ev_token (se_event s) = Some t)"

abbreviation token_is :: "string option \<Rightarrow> 'w event_state \<Rightarrow> bool" where
  "token_is x \<equiv> \<lambda>e. ev_token e = x"

lemma keeps_token_fos: "keeps (token_is x) (on_fos f)"
  by (auto simp: keeps_def on_fos_def split: prod.splits)

lemma keeps_token:
  "keeps (token_is x) (log_post L nc url body n tok)" "keeps (token_is x) (upload_once L nc t)" "keeps (token_is x) (base_online_run L nc)"
  "keeps (token_is x) (new_net_client E)" "keeps (token_is x) (register_once L)" "keeps (token_is x) get_hardware_info"
proof -
  show lp: "keeps (token_is x) (log_post L nc url body n tok)" for nc url body n tok
    unfolding log_post_def by (intro keep_intros keeps_token_fos) simp
  show "keeps (token_is x) (upload_once L nc t)"
    unfolding upload_once_def by (auto intro!: keep_intros lp split: option.splits)
  show b: "keeps (token_is x) (base_online_run L nc)" for nc
    unfolding base_online_run_def lock_cfg_def by (intro keep_intros lp)
  show n: "keeps (token_is x) (new_net_client E)" for E
    by (rule keeps_new_net_client)
  show "keeps (token_is x) (register_once L)"
    unfolding register_once_def tryP_def by (auto intro!: keep_intros b n split: sum.splits)
  show "keeps (token_is x) get_hardware_info"
    unfolding get_hardware_info_def lock_cfg_def by (intro keep_intros)
qed

lemma kept_token: "keeps (token_is (ev_token e)) m \<Longrightarrow> ev_token (snd (run_state m e)) = ev_token e"
  by (simp add: keeps_def)

lemma listen_top_run:
  "let s' = snd (run_state (listen_top L nc t en) s) in
     se_tokens s' = se_tokens s \<and> se_offline s' = se_offline s \<and> se_fetcher s' = se_fetcher s
     \<and> ev_token (se_event s') = ev_token (se_event s) \<and> (se_registrar s' = RegistrarEnded \<or> (\<exists>en'. se_registrar s' = Listening nc t en'))"
proof -
  have g: "snd (run_state get_hardware_info (se_event s)) = se_event s"
    by (simp add: get_hardware_info_def lock_cfg_def split: prod.splits option.splits)
  have u: "ev_token (snd (run_state (upload_once L nc t) (se_event s))) = ev_token (se_event s)" by (rule kept_token [OF keeps_token(2)])
  show ?thesis by (auto simp: Let_def listen_top_def goto_registrar_def g u split: option.splits prod.splits)
qed

lemma ok_registers:
  assumes "session_ok s" "se_registrar s = Registering"
  shows "session_ok (snd (run_state (registrar_registers L) s))"
proof -
  have t: "ev_token (snd (run_state (register_once L) (se_event s))) = ev_token (se_event s)" by (rule kept_token [OF keeps_token(5)])
  from assms show ?thesis
    unfolding registrar_registers_def goto_registrar_def
    by (cases "run_state (register_once L) (se_event s)")
      (auto simp: session_ok_def in_flight_def holds_token_def split: option.splits sum.splits)
qed

lemma ok_listen_top:
  assumes "in_flight s \<le> 1" "\<forall>b \<in> set (se_offline s). b" "ev_token (se_event s) = Some t" "registering (se_registrar s) = 0"
    "se_fetcher s \<noteq> FetcherEnded \<longrightarrow> in_flight s = 1" "\<forall>u. u \<in> set (se_tokens s) \<or> se_fetcher s = Fetching u \<longrightarrow> u = t"
  shows "session_ok (snd (run_state (listen_top L nc t en) s))"
  using assms listen_top_run [of L nc t en s] by (auto simp: Let_def session_ok_def in_flight_def holds_token_def)

lemma ok_delivers:
  assumes "session_ok s" "se_registrar s = Delivering nc t"
  shows "session_ok (snd (run_state (registrar_delivers nc t) s))"
proof -
  have f: "se_tokens s = [] \<and> fetching (se_fetcher s) = 0 \<and> se_offline s = []"
    using assms by (auto simp: session_ok_def in_flight_def)
  then have "se_fetcher s \<noteq> Fetching u" for u by auto
  with assms f show ?thesis
    by (auto simp: registrar_delivers_def goto_registrar_def signal_size_def session_ok_def in_flight_def holds_token_def)
qed

lemma ok_stores:
  assumes "session_ok s" "se_registrar s = Storing nc t"
  shows "session_ok (snd (run_state (registrar_stores L nc t) s))"
  using assms unfolding registrar_stores_def
  by (simp, intro ok_listen_top) (auto simp: session_ok_def in_flight_def holds_token_def)

lemma ok_hears:
  assumes "session_ok s" "se_registrar s = Listening nc t en"
  shows "session_ok (snd (run_state (registrar_hears L nc t en) s))"
proof (cases "se_offline s")
  case Nil
  with assms show ?thesis by (auto simp: registrar_hears_def goto_registrar_def session_ok_def in_flight_def holds_token_def)
next
  case (Cons b bs)
  with assms have "b" "bs = []" "se_tokens s = []" "fetching (se_fetcher s) = 0" by (auto simp: session_ok_def in_flight_def)
  then have "se_fetcher s \<noteq> Fetching u" for u by auto
  with assms Cons \<open>b\<close> \<open>bs = []\<close> \<open>se_tokens s = []\<close> \<open>fetching (se_fetcher s) = 0\<close> show ?thesis
    by (auto simp: registrar_hears_def goto_registrar_def session_ok_def in_flight_def)
qed

lemma listening_facts:
  assumes "session_ok s" "se_registrar s = Listening nc t en"
  shows "in_flight s \<le> 1" "\<forall>b \<in> set (se_offline s). b" "ev_token (se_event s) = Some t" "registering (se_registrar s) = 0"
    "se_fetcher s \<noteq> FetcherEnded \<longrightarrow> in_flight s = 1" "\<forall>u. u \<in> set (se_tokens s) \<or> se_fetcher s = Fetching u \<longrightarrow> u = t"
  using assms by (auto simp: session_ok_def holds_token_def)

lemma ok_registrar: "session_ok s \<Longrightarrow> session_ok (snd (run_state (registrar_wakes L ev) s))"
proof (cases "se_registrar s")
  case (Listening nc t en)
  assume ok: "session_ok s"
  note f = listening_facts [OF ok Listening]
  have u: "ev_token (snd (run_state (upload_once L nc t) (se_event s))) = ev_token (se_event s)" by (rule kept_token [OF keeps_token(2)])
  have "session_ok (snd (run_state (listen_top L nc t en) (s\<lparr>se_event := snd (run_state (upload_once L nc t) (se_event s))\<rparr>)))"
    using f u by (intro ok_listen_top) (simp_all add: in_flight_def)
  with Listening ok ok_hears [OF ok Listening] ok_listen_top [OF f] show ?thesis by (auto simp: registrar_wakes_def)
qed (auto simp: registrar_wakes_def ok_registers ok_delivers ok_stores)

lemma ok_fetcher: "session_ok s \<Longrightarrow> session_ok (snd (run_state (fetcher_wakes L ev) s))"
proof (cases "se_fetcher s")
  case Connecting
  assume ok: "session_ok s"
  have "ev_token (snd (run_state (new_net_client (oe_event L)) (se_event s))) = ev_token (se_event s)" by (rule kept_token [OF keeps_token(4)])
  with ok Connecting show ?thesis
    by (auto simp: fetcher_wakes_def fetcher_connects_def goto_fetcher_def session_ok_def in_flight_def split: option.splits sum.splits)
next
  case AwaitingToken
  assume "session_ok s"
  with AwaitingToken show ?thesis
    by (cases "se_tokens s") (auto simp: fetcher_wakes_def fetcher_receives_def goto_fetcher_def session_ok_def in_flight_def)
qed (auto simp: fetcher_wakes_def fetcher_reports_def goto_fetcher_def session_ok_def in_flight_def)

lemma session_reach_ok: "session_reach L s \<Longrightarrow> session_ok s"
proof (induction rule: session_reach.induct)
  case (start s)
  then show ?case by (simp add: session_ok_def in_flight_def)
next
  case (wake s ev)
  then show ?case by (simp add: session_step_def ok_registrar ok_fetcher split: prod.splits) (metis ok_fetcher ok_registrar snd_conv)
next
  case (other s e)
  then show ?case by (auto simp: session_ok_def in_flight_def)
qed

text \<open>C30: registration and the fetcher hand one token to and fro. As long as neither task has ended there is exactly one registration,
  token on its way, fetcher at work or signal on its way; so neither channel ever holds more than one message and no send waits. A
  fetcher at work has the token that the registration listens with and that the other services use, or that is just being stored
  for them.\<close>

theorem one_token_at_a_time:
  assumes "session_reach L s"
  shows "length (se_tokens s) \<le> 1 \<and> length (se_offline s) \<le> 1
    \<and> (se_registrar s \<noteq> RegistrarEnded \<and> se_fetcher s \<noteq> FetcherEnded \<longrightarrow> in_flight s = 1)
    \<and> (\<forall>t. se_fetcher s = Fetching t \<and> se_registrar s \<noteq> RegistrarEnded \<longrightarrow>
         (\<exists>nc. se_registrar s = Storing nc t) \<or> (\<exists>nc en. se_registrar s = Listening nc t en) \<and> ev_token (se_event s) = Some t)"
  using session_reach_ok [OF assms] by (auto simp: session_ok_def in_flight_def holds_token_def)

text \<open>When the fetcher has ended while the registration is under way, no token is ever delivered: the registration is repeated for
  as long as it succeeds, without a pause.\<close>

definition orphaned :: "('c, 'w) session_state \<Rightarrow> bool" where
  "orphaned s \<longleftrightarrow> se_fetcher s = FetcherEnded \<and> (\<forall>nc t en. se_registrar s \<noteq> Storing nc t \<and> se_registrar s \<noteq> Listening nc t en)"

lemma orphaned_step: "orphaned s \<Longrightarrow> orphaned (session_step L ev s) \<and> se_tokens (session_step L ev s) = se_tokens s"
  by (cases "se_registrar s")
    (auto simp: orphaned_def session_step_def registrar_wakes_def fetcher_wakes_def registrar_registers_def registrar_delivers_def
      goto_registrar_def split: option.splits sum.splits)

theorem orphan_never_listens:
  assumes "orphaned s"
  shows "let t = fold (session_step L) evs s in (\<forall>nc u en. se_registrar t \<noteq> Listening nc u en) \<and> se_tokens t = se_tokens s"
proof -
  have "orphaned (fold (session_step L) evs s) \<and> se_tokens (fold (session_step L) evs s) = se_tokens s"
    using assms by (induction evs arbitrary: s) (auto simp: orphaned_step)
  then show ?thesis by (simp add: orphaned_def Let_def)
qed

section \<open>A small session\<close>

definition lab_online :: "(unit, unit, unit) online_ext" where
  "lab_online = \<lparr>oe_event = lab_event (\<lambda>a. 0), oe_parse = (\<lambda>t. Inr (JObj [(''code'', JStr ''0''), (''data'', JObj [(''token'', JStr ''t'')]), (''msg'', JStr [])])),
     oe_uptime = (\<lambda>w. Some ''12.5 3.0''), oe_boot = (\<lambda>t now. Some (now - 8)), oe_arch = ''x86_64'', oe_metrics = (\<lambda>w. None)\<rparr>"

definition lab_session :: "(unit, unit) session_state" where
  "lab_session = \<lparr>se_event = lab_event_state net_info_default, se_registrar = Registering, se_fetcher = Connecting, se_tokens = [], se_offline = []\<rparr>"

definition lab_fetching :: "(unit, unit) session_state" where
  "lab_fetching = fold (session_step lab_online) [RegistrarGoes, RegistrarGoes, RegistrarGoes, FetcherGoes, FetcherGoes] lab_session"

lemma lab_fetching_reach: "session_reach lab_online lab_fetching"
proof -
  have "session_reach lab_online lab_session" by (rule session_reach.start) (simp_all add: lab_session_def)
  then show ?thesis unfolding lab_fetching_def by (simp add: session_reach.wake)
qed

theorem one_token_at_a_time_witness:
  "se_fetcher lab_fetching = Fetching ''t'' \<and> ev_token (se_event lab_fetching) = Some ''t'' \<and> in_flight lab_fetching = 1"
proof -
  have f: "se_fetcher lab_fetching = Fetching ''t''" by code_simp
  have r: "se_registrar lab_fetching = Listening \<lparr>client = (), base_url = Some []\<rparr> ''t'' False" by code_simp
  from one_token_at_a_time [OF lab_fetching_reach] f r show ?thesis by simp
qed

end
