(* ===== verification/Cli_Transfer.thy ===== *)
theory Cli_Transfer
  imports Md5_Cache Zcopy Json
begin

text \<open>
  Files over the connection between the command line server and the agents:
  \<^verbatim>\<open>crates/agent_manager/src/agent_cli_client.rs\<close> (\<^verbatim>\<open>send_file\<close>, \<^verbatim>\<open>receive_file\<close>),
  \<^verbatim>\<open>agent_cli_server.rs\<close> (\<^verbatim>\<open>receive_file_from_bytes\<close>, \<^verbatim>\<open>send_file_to_client_with_writer\<close>) and the
  markers of \<^verbatim>\<open>common.rs\<close>.

  Bytes are characters. The reading half of a connection is the list of the pieces in which the bytes
  arrive: a read returns at most the first piece, an error in the list is returned by the read that
  meets it, and after the list the peer has closed. Files and the sending half are parameters
  (record \<open>cli_ext\<close>).
\<close>

section \<open>Paths\<close>

text \<open>\<^verbatim>\<open>Path::parent\<close>, \<^verbatim>\<open>Path::file_name\<close> and \<^verbatim>\<open>Path::join\<close>, up to repeated separators.\<close>

definition path_parent :: "string \<Rightarrow> string option" where
  "path_parent s = (case path_key s of (root, cs) \<Rightarrow> if cs = [] then None else Some ((if root then ''/'' else []) @ join ''/'' (butlast cs)))"

definition path_file_name :: "string \<Rightarrow> string option" where
  "path_file_name s = (case path_key s of (root, cs) \<Rightarrow> if cs = [] \<or> last cs \<in> {''.'', ''..''} then None else Some (last cs))"

definition path_join :: "string \<Rightarrow> string \<Rightarrow> string" where
  "path_join dir name =
     (if starts_with ''/'' name then name else if dir = [] \<or> ends_with ''/'' dir then dir @ name else dir @ ''/'' @ name)"

section \<open>State\<close>

record file_meta =
  fm_is_file :: bool
  fm_is_dir :: bool
  fm_len :: u64

text \<open>\<open>cx_open\<close> gives the pieces that reading the file returns, one per read, or the error of opening it;
  \<open>cx_send\<close> writes to the connection.\<close>

record 'w cli_ext =
  cx_metadata :: "string \<Rightarrow> 'w \<Rightarrow> file_meta res"
  cx_open :: "string \<Rightarrow> 'w \<Rightarrow> string list res"
  cx_create_dir_all :: "string \<Rightarrow> 'w \<Rightarrow> unit res \<times> 'w"
  cx_create :: "string \<Rightarrow> 'w \<Rightarrow> unit res \<times> 'w"
  cx_write :: "string \<Rightarrow> string \<Rightarrow> 'w \<Rightarrow> unit res \<times> 'w"
  cx_send :: "string \<Rightarrow> 'w \<Rightarrow> unit res \<times> 'w"
  cx_flush :: "'w \<Rightarrow> unit res \<times> 'w"

text \<open>\<open>saved\<close> is the content of each file that was created here, \<open>sent\<close> what was written to the connection.\<close>

record 'w cli_state =
  cw :: 'w
  input :: "string res list"
  sent :: string
  saved :: "(string \<times> string) list"

definition on_cw :: "('w \<Rightarrow> 'a \<times> 'w) \<Rightarrow> (('w, 'z) cli_state_scheme, 'a) state" where
  "on_cw f = State (\<lambda>s. case f (cw s) of (r, w) \<Rightarrow> (r, s\<lparr>cw := w\<rparr>))"

definition send :: "'w cli_ext \<Rightarrow> string \<Rightarrow> (('w, 'z) cli_state_scheme, unit res) state" where
  "send C bs = tryE (on_cw (cx_send C bs)) (\<lambda>_. do { modify (\<lambda>s. s\<lparr>sent := sent s @ bs\<rparr>); State_Monad.return (Inr ()) })"

definition create_at :: "'w cli_ext \<Rightarrow> string \<Rightarrow> (('w, 'z) cli_state_scheme, unit res) state" where
  "create_at C path = tryE (on_cw (cx_create C path)) (\<lambda>_. do { modify (\<lambda>s. s\<lparr>saved := AList.update path [] (saved s)\<rparr>); State_Monad.return (Inr ()) })"

definition write_at :: "'w cli_ext \<Rightarrow> string \<Rightarrow> string \<Rightarrow> (('w, 'z) cli_state_scheme, unit res) state" where
  "write_at C path bs = tryE (on_cw (cx_write C path bs)) (\<lambda>_. do {
     modify (\<lambda>s. s\<lparr>saved := AList.update path (opt_or [] (map_of (saved s) path) @ bs) (saved s)\<rparr>);
     State_Monad.return (Inr ())
   })"

section \<open>Reading\<close>

text \<open>\<^verbatim>\<open>read\<close> into a buffer of \<open>n\<close> bytes: nothing means that the peer has closed.\<close>

fun read_input :: "nat \<Rightarrow> string res list \<Rightarrow> string res \<times> string res list" where
  "read_input n [] = (Inr [], [])"
| "read_input n (Inl e # r) = (Inl e, r)"
| "read_input n (Inr p # r) = (if length p \<le> n then (Inr p, r) else (Inr (take n p), Inr (drop n p) # r))"

definition read_some :: "nat \<Rightarrow> (('w, 'z) cli_state_scheme, string res) state" where
  "read_some n = State (\<lambda>s. case read_input n (input s) of (d, r) \<Rightarrow> (d, s\<lparr>input := r\<rparr>))"

text \<open>\<^verbatim>\<open>read_exact\<close>.\<close>

definition early_eof :: string where "early_eof = ''early eof''"

fun exact_input :: "nat \<Rightarrow> string res list \<Rightarrow> string res \<times> string res list" where
  "exact_input n [] = (if n = 0 then Inr [] else Inl early_eof, [])"
| "exact_input n (Inl e # r) = (if n = 0 then (Inr [], Inl e # r) else (Inl e, r))"
| "exact_input n (Inr p # r) =
     (if n = 0 then (Inr [], Inr p # r)
      else if p = [] then (Inl early_eof, r)
      else if length p \<le> n
      then (case exact_input (n - length p) r of
              (Inl e, r') \<Rightarrow> (Inl e, r')
            | (Inr d, r') \<Rightarrow> (Inr (p @ d), r'))
      else (Inr (take n p), Inr (drop n p) # r))"

definition read_exact :: "nat \<Rightarrow> (('w, 'z) cli_state_scheme, string res) state" where
  "read_exact n = State (\<lambda>s. case exact_input n (input s) of (d, r) \<Rightarrow> (d, s\<lparr>input := r\<rparr>))"

section \<open>Sending a file (agent_cli_client.rs)\<close>

definition BUFFER_SIZE :: nat where "BUFFER_SIZE = 4096"
definition FILE_START_MARKER :: string where "FILE_START_MARKER = [CHR 0x01] @ ''FILE_START'' @ [CHR 0x01]"
definition FILE_END_MARKER :: string where "FILE_END_MARKER = [CHR 0x02] @ ''FILE_END'' @ [CHR 0x02]"

text \<open>Where the file goes: into a directory of the sending host with the name of the file, else as given.\<close>

definition final_dst :: "'w cli_ext \<Rightarrow> string \<Rightarrow> string \<Rightarrow> string \<Rightarrow> (('w, 'z) cli_state_scheme, string res) state" where
  "final_dst C bad_name src dst = gets (\<lambda>s.
     case cx_metadata C dst (cw s) of
       Inl _ \<Rightarrow> Inr dst
     | Inr m \<Rightarrow> if fm_is_dir m
               then (case path_file_name src of None \<Rightarrow> Inl bad_name | Some n \<Rightarrow> Inr (path_join dst n))
               else Inr dst)"

text \<open>The pieces of the file until as many bytes as announced have been sent.\<close>

fun send_pieces :: "(string \<Rightarrow> (('w, 'z) cli_state_scheme, unit res) state) \<Rightarrow> nat \<Rightarrow> nat \<Rightarrow> string list \<Rightarrow> (('w, 'z) cli_state_scheme, unit res) state" where
  "send_pieces out fsize n [] = State_Monad.return (Inr ())"
| "send_pieces out fsize n (p # ps) =
     (if n < fsize \<and> p \<noteq> [] then tryE (out p) (\<lambda>_. send_pieces out fsize (n + length p) ps)
      else State_Monad.return (Inr ()))"

definition file_header :: "u64 \<Rightarrow> string \<Rightarrow> string" where
  "file_header fsize path = FILE_START_MARKER @ show_word fsize @ '':'' @ path"

definition send_file :: "'w cli_ext \<Rightarrow> string \<Rightarrow> string \<Rightarrow> (('w, 'z) cli_state_scheme, unit res) state" where
  "send_file C src dst =
     tryE (gets (\<lambda>s. cx_metadata C src (cw s))) (\<lambda>meta.
       if \<not> fm_is_file meta then send C (''Source path '' @ src @ '' must be a file'' @ [nl])
       else
         tryE (final_dst C ''invalid src filename'' src dst) (\<lambda>path.
         tryE (send C (file_header (fm_len meta) path @ [nl])) (\<lambda>_.
         tryE (gets (\<lambda>s. cx_open C src (cw s))) (\<lambda>pieces.
         tryE (send_pieces (send C) (unat (fm_len meta)) 0 pieces) (\<lambda>_.
         tryE (send C FILE_END_MARKER) (\<lambda>_.
           on_cw (cx_flush C)))))))"

section \<open>Receiving a file (agent_cli_client.rs)\<close>

definition parse_u64 :: "string \<Rightarrow> u64 option" where
  "parse_u64 s = map_option of_nat (parse_uint 18446744073709551615 s)"

text \<open>\<^verbatim>\<open>Path::new(path).parent()\<close> and what is done with it; the client does not make an empty one.\<close>

definition make_parent :: "'w cli_ext \<Rightarrow> bool \<Rightarrow> string \<Rightarrow> (('w, 'z) cli_state_scheme, unit res) state" where
  "make_parent C skip_empty path =
     (case path_parent path of
        None \<Rightarrow> State_Monad.return (Inr ())
      | Some p \<Rightarrow> if skip_empty \<and> p = [] then State_Monad.return (Inr ()) else on_cw (cx_create_dir_all C p))"

text \<open>The loop that stores the body; \<open>cap\<close> is the size of the buffer for the next read.\<close>

function store_body ::
  "'w cli_ext \<Rightarrow> (nat \<Rightarrow> nat) \<Rightarrow> string \<Rightarrow> nat \<Rightarrow> nat \<Rightarrow> ('w, 'z) cli_state_scheme \<Rightarrow> unit res \<times> ('w, 'z) cli_state_scheme" where
  "store_body C cap path fsize received s =
     (if received < fsize
      then (case run_state (read_some (cap (fsize - received))) s of
              (Inl e, t) \<Rightarrow> (Inl e, t)
            | (Inr d, t) \<Rightarrow>
                if d = [] then (Inr (), t)
                else (case run_state (write_at C path d) t of
                        (Inl e, u) \<Rightarrow> (Inl e, u)
                      | (Inr _, u) \<Rightarrow> store_body C cap path fsize (received + length d) u))
      else (Inr (), s))"
  by auto
termination
  by (relation "measure (\<lambda>(C, cap, path, n, k, s). n - k)") (auto simp: length_greater_0_conv [symmetric] simp del: length_greater_0_conv)

declare store_body.simps [simp del]

text \<open>The size and the path of a header, with the error texts of the caller.\<close>

definition split_header :: "string \<Rightarrow> string \<Rightarrow> string \<Rightarrow> string \<Rightarrow> (u64 \<times> string) res" where
  "split_header bad_marker bad_format bad_size header =
     (if \<not> starts_with FILE_START_MARKER header then Inl bad_marker
      else case split_once (CHR '':'') (drop (length FILE_START_MARKER) header) of
        None \<Rightarrow> Inl bad_format
      | Some (size_str, path) \<Rightarrow>
          (case parse_u64 size_str of None \<Rightarrow> Inl bad_size | Some n \<Rightarrow> Inr (n, path)))"

definition receive_file :: "'w cli_ext \<Rightarrow> string \<Rightarrow> (('w, 'z) cli_state_scheme, unit res) state" where
  "receive_file C header =
     tryE (State_Monad.return (split_header ''bad marker'' ''bad format'' ''bad size'' header)) (\<lambda>(fsize, path).
     tryE (make_parent C True path) (\<lambda>_.
     tryE (create_at C path) (\<lambda>_.
     tryE (State (store_body C (\<lambda>_. BUFFER_SIZE) path (unat fsize) 0)) (\<lambda>_.
     tryE (read_exact (length FILE_END_MARKER)) (\<lambda>end_marker.
       State_Monad.return (if utf8_valid end_marker then Inr () else Inl ''invalid end marker''))))))"

section \<open>The server's side (agent_cli_server.rs)\<close>

text \<open>The first place where the marker stands.\<close>

fun from_marker :: "string \<Rightarrow> string \<Rightarrow> string option" where
  "from_marker m [] = (if m = [] then Some [] else None)"
| "from_marker m (c # s) = (if starts_with m (c # s) then Some (c # s) else from_marker m s)"

text \<open>\<^verbatim>\<open>trim_end_matches('\r')\<close>.\<close>

definition strip_crs :: "string \<Rightarrow> string" where
  "strip_crs s = rev (dropWhile (\<lambda>c. c = CHR 0x0D) (rev s))"

text \<open>The part of the body that came with the header, and the end marker. The text of a mismatch goes to the log;
  the bytes that it shows are left out.\<close>

definition store_available :: "'w cli_ext \<Rightarrow> string \<Rightarrow> string \<Rightarrow> (('w, 'z) cli_state_scheme, unit res) state" where
  "store_available C path first = (if first = [] then State_Monad.return (Inr ()) else write_at C path first)"

definition check_end :: "(('w, 'z) cli_state_scheme, unit res) state" where
  "check_end =
     tryE (read_exact (length FILE_END_MARKER)) (\<lambda>end_marker.
       State_Monad.return (if end_marker = FILE_END_MARKER then Inr () else Inl ''end marker mismatch''))"

definition receive_file_from_bytes :: "'w cli_ext \<Rightarrow> string \<Rightarrow> (('w, 'z) cli_state_scheme, unit res) state" where
  "receive_file_from_bytes C raw_data =
     (case from_marker FILE_START_MARKER raw_data of
        None \<Rightarrow> State_Monad.return (Inl ''FILE_START_MARKER not found in raw data'')
      | Some data \<Rightarrow>
          (case split_once nl data of
             None \<Rightarrow> State_Monad.return (Inl ''header newline not found'')
           | Some (header, available) \<Rightarrow>
               if \<not> utf8_valid header then State_Monad.return (Inl ''header is not valid UTF-8'')
               else
                 tryE (State_Monad.return (split_header ''header missing marker'' ''header bad format'' ''header bad size'' header)) (\<lambda>(fsize, p).
                 let path = strip_crs p; n = unat fsize; first = take n available in
                 tryE (make_parent C False path) (\<lambda>_.
                 tryE (create_at C path) (\<lambda>_.
                 tryE (store_available C path first) (\<lambda>_.
                 tryE (State (store_body C (min BUFFER_SIZE) path n (length first))) (\<lambda>_.
                   check_end)))))))"

definition send_file_to_client_with_writer :: "'w cli_ext \<Rightarrow> string \<Rightarrow> string \<Rightarrow> (('w, 'z) cli_state_scheme, unit res) state" where
  "send_file_to_client_with_writer C src dst =
     tryE (gets (\<lambda>s. cx_metadata C src (cw s))) (\<lambda>meta.
       if \<not> fm_is_file meta then State_Monad.return (Inr ())
       else
         tryE (final_dst C (utf8 [230, 151, 160, 230, 179, 149, 232, 142, 183, 229, 143, 150, 230, 186, 144, 230, 150, 135, 228, 187, 182, 229, 144, 141]) src dst) (\<lambda>path.
         tryE (gets (\<lambda>s. cx_open C src (cw s))) (\<lambda>pieces.
         tryE (map_err (\<lambda>_. ''write header failed'') (send C (file_header (fm_len meta) path))) (\<lambda>_.
         tryE (send_pieces (\<lambda>p. map_err (\<lambda>_. ''write payload failed'') (send C p)) (unat (fm_len meta)) 0 pieces) (\<lambda>_.
         tryE (map_err (\<lambda>_. ''write end marker failed'') (send C FILE_END_MARKER)) (\<lambda>_. do {
           _ \<leftarrow> on_cw (cx_flush C);
           State_Monad.return (Inr ())
         }))))))"

section \<open>What arrives\<close>

text \<open>\<open>streams s bs\<close>: the bytes \<open>bs\<close> arrive, in some pieces, and then the peer closes.\<close>

definition streams :: "('w, 'z) cli_state_scheme \<Rightarrow> string \<Rightarrow> bool" where
  "streams s bs \<longleftrightarrow> (\<exists>ps. input s = map Inr ps \<and> [] \<notin> set ps \<and> concat ps = bs)"

text \<open>Storing files works, sending works.\<close>

definition stores :: "'w cli_ext \<Rightarrow> bool" where
  "stores C \<longleftrightarrow> (\<forall>p w. \<exists>w'. cx_create_dir_all C p w = (Inr (), w')) \<and> (\<forall>p w. \<exists>w'. cx_create C p w = (Inr (), w'))
     \<and> (\<forall>p bs w. \<exists>w'. cx_write C p bs w = (Inr (), w'))"

definition sends :: "'w cli_ext \<Rightarrow> bool" where
  "sends C \<longleftrightarrow> (\<forall>bs w. \<exists>w'. cx_send C bs w = (Inr (), w')) \<and> (\<forall>w. \<exists>w'. cx_flush C w = (Inr (), w'))"

lemma streams_input [simp]: "streams (s\<lparr>cw := w\<rparr>) bs = streams s bs" "streams (s\<lparr>saved := f\<rparr>) bs = streams s bs"
  by (simp_all add: streams_def)

lemma streams_ConsE:
  assumes "streams s bs" and "bs \<noteq> []"
  obtains p ps where "input s = Inr p # map Inr ps" and "p \<noteq> []" and "[] \<notin> set ps" and "bs = p @ concat ps"
proof -
  from assms(1) obtain ps where ps: "input s = map Inr ps" "[] \<notin> set ps" "concat ps = bs" by (auto simp: streams_def)
  with assms(2) show ?thesis by (cases ps) (auto intro: that)
qed

lemma read_streams:
  assumes "streams s bs" and "bs \<noteq> []" and "0 < n"
  shows "\<exists>d rest. run_state (read_some n) s = (Inr d, s\<lparr>input := snd (read_input n (input s))\<rparr>) \<and> d \<noteq> [] \<and> length d \<le> n
    \<and> bs = d @ rest \<and> streams (s\<lparr>input := snd (read_input n (input s))\<rparr>) rest"
proof -
  from assms(1,2) obtain p ps where p: "input s = Inr p # map Inr ps" "p \<noteq> []" "[] \<notin> set ps" "bs = p @ concat ps"
    by (rule streams_ConsE)
  show ?thesis
  proof (cases "length p \<le> n")
    case True
    with p show ?thesis by (intro exI [of _ p] exI [of _ "concat ps"]) (auto simp: read_some_def streams_def)
  next
    case False
    then have "Inr (drop n p) # map Inr ps = map Inr (drop n p # ps)" "drop n p \<noteq> []" by simp_all
    then have "streams (s\<lparr>input := Inr (drop n p) # map Inr ps\<rparr>) (drop n p @ concat ps)"
      using p(3) unfolding streams_def by (intro exI [of _ "drop n p # ps"]) simp
    with False p assms(3) show ?thesis
      by (intro exI [of _ "take n p"] exI [of _ "drop n p @ concat ps"]) (simp add: read_some_def)
  qed
qed

lemma exact_pieces:
  assumes "[] \<notin> set ps" and "n \<le> length (concat ps)"
  shows "\<exists>qs. exact_input n (map Inr ps) = (Inr (take n (concat ps)), map Inr qs) \<and> [] \<notin> set qs \<and> concat qs = drop n (concat ps)"
  using assms
proof (induction ps arbitrary: n)
  case (Cons p ps)
  show ?case
  proof (cases "n = 0 \<or> \<not> length p \<le> n")
    case True
    then show ?thesis
    proof
      assume "n = 0"
      with Cons.prems show ?thesis by (intro exI [of _ "p # ps"]) simp
    next
      assume "\<not> length p \<le> n"
      with Cons.prems show ?thesis by (intro exI [of _ "if n = 0 then p # ps else drop n p # ps"]) auto
    qed
  next
    case False
    then obtain qs where "exact_input (n - length p) (map Inr ps) = (Inr (take (n - length p) (concat ps)), map Inr qs)"
      "[] \<notin> set qs" "concat qs = drop (n - length p) (concat ps)"
      using Cons.IH [of "n - length p"] Cons.prems le_diff_conv [of n "length p" "length (concat ps)"] by (auto simp: add.commute)
    with False Cons.prems(1) show ?thesis by (intro exI [of _ qs]) auto
  qed
qed simp

lemma exact_short: "[] \<notin> set ps \<Longrightarrow> length (concat ps) < n \<Longrightarrow> exact_input n (map Inr ps) = (Inl early_eof, [])"
  by (induction ps arbitrary: n) auto

lemma read_exact_streams:
  assumes "streams s bs" and "n \<le> length bs"
  shows "\<exists>t. run_state (read_exact n) s = (Inr (take n bs), t) \<and> streams t (drop n bs) \<and> saved t = saved s"
proof -
  from assms(1) obtain ps where ps: "input s = map Inr ps" "[] \<notin> set ps" "concat ps = bs" by (auto simp: streams_def)
  with assms(2) exact_pieces [of ps n] obtain qs where
    "exact_input n (input s) = (Inr (take n bs), map Inr qs)" "[] \<notin> set qs" "concat qs = drop n bs" by auto
  then show ?thesis by (auto simp: read_exact_def streams_def)
qed

lemma read_exact_short:
  assumes "streams s bs" and "length bs < n"
  shows "\<exists>t. run_state (read_exact n) s = (Inl early_eof, t) \<and> saved t = saved s"
  using assms exact_short by (force simp: streams_def read_exact_def)

lemma run_write_at:
  assumes "stores C"
  shows "\<exists>w. run_state (write_at C path bs) s = (Inr (), s\<lparr>cw := w, saved := AList.update path (opt_or [] (map_of (saved s) path) @ bs) (saved s)\<rparr>)"
proof -
  obtain w where "cx_write C path bs (cw s) = (Inr (), w)" using assms unfolding stores_def by blast
  then show ?thesis by (intro exI [of _ w]) (simp add: write_at_def on_cw_def)
qed

lemma run_create_at:
  assumes "stores C"
  shows "\<exists>w. run_state (create_at C path) s = (Inr (), s\<lparr>cw := w, saved := AList.update path [] (saved s)\<rparr>)"
proof -
  obtain w where "cx_create C path (cw s) = (Inr (), w)" using assms unfolding stores_def by blast
  then show ?thesis by (intro exI [of _ w]) (simp add: create_at_def on_cw_def)
qed

lemma run_make_parent:
  assumes "stores C"
  shows "\<exists>w. run_state (make_parent C b path) s = (Inr (), s\<lparr>cw := w\<rparr>)"
proof -
  have d: "\<exists>w. run_state (on_cw (cx_create_dir_all C p)) s = (Inr (), s\<lparr>cw := w\<rparr>)" for p
  proof -
    obtain w where "cx_create_dir_all C p (cw s) = (Inr (), w)" using assms unfolding stores_def by blast
    then show ?thesis by (intro exI [of _ w]) (simp add: on_cw_def)
  qed
  have n: "\<exists>w. run_state (State_Monad.return (Inr ())) s = (Inr (), s\<lparr>cw := w\<rparr>)" by (rule exI [of _ "cw s"]) simp
  show ?thesis unfolding make_parent_def by (cases "path_parent path") (use d n in auto)
qed

lemma store_body_exact:
  assumes "stores C" and "\<And>m. 0 < m \<Longrightarrow> 0 < cap m \<and> cap m \<le> m" and "streams s bs" and "received \<le> fsize" and "fsize - received \<le> length bs"
    and "map_of (saved s) path = Some old"
  shows "\<exists>t. store_body C cap path fsize received s = (Inr (), t) \<and> streams t (drop (fsize - received) bs)
    \<and> map_of (saved t) path = Some (old @ take (fsize - received) bs)"
  using assms(3-6)
proof (induction "fsize - received" arbitrary: received s bs old rule: less_induct)
  case less
  show ?case
  proof (cases "received < fsize")
    case True
    with less.prems(3) have "bs \<noteq> []" by auto
    with True assms(2) [of "fsize - received"] obtain d rest where d: "d \<noteq> []" "length d \<le> cap (fsize - received)" "bs = d @ rest"
      and r: "run_state (read_some (cap (fsize - received))) s = (Inr d, s\<lparr>input := snd (read_input (cap (fsize - received)) (input s))\<rparr>)"
        "streams (s\<lparr>input := snd (read_input (cap (fsize - received)) (input s))\<rparr>) rest"
      using read_streams [OF less.prems(1), of "cap (fsize - received)"] by auto
    let ?s = "s\<lparr>input := snd (read_input (cap (fsize - received)) (input s))\<rparr>"
    obtain w where w: "run_state (write_at C path d) ?s
        = (Inr (), ?s\<lparr>cw := w, saved := AList.update path (opt_or [] (map_of (saved ?s) path) @ d) (saved ?s)\<rparr>)"
      using run_write_at [OF assms(1)] by blast
    let ?u = "?s\<lparr>cw := w, saved := AList.update path (opt_or [] (map_of (saved ?s) path) @ d) (saved ?s)\<rparr>"
    have u: "streams ?u rest" "map_of (saved ?u) path = Some (old @ d)" using r(2) less.prems(4) by (simp_all add: update_conv')
    have l: "length d \<le> fsize - received" "0 < length d" using d(1,2) assms(2) [of "fsize - received"] True by auto
    have q: "fsize - (received + length d) = fsize - received - length d" by simp
    obtain t where "store_body C cap path fsize (received + length d) ?u = (Inr (), t)"
      "streams t (drop (fsize - received - length d) rest)" "map_of (saved t) path = Some ((old @ d) @ take (fsize - received - length d) rest)"
    proof -
      have "fsize - (received + length d) < fsize - received" "received + length d \<le> fsize" "fsize - (received + length d) \<le> length rest"
        using l less.prems(3) d(3) True by (simp_all del: length_greater_0_conv)
      from less.hyps [OF this(1) u(1) this(2,3) u(2)] show ?thesis using that unfolding q by blast
    qed
    moreover have "store_body C cap path fsize received s = store_body C cap path fsize (received + length d) ?u"
      using True d(1) r(1) w by (subst store_body.simps) simp
    ultimately show ?thesis using l(1) d(3) by simp
  next
    case False
    with less.prems show ?thesis by (subst store_body.simps) simp
  qed
qed

lemma store_body_whole:
  assumes "stores C" and "input s = map Inr (bps @ p # qs)" and "\<forall>x \<in> set (bps @ p # qs). x \<noteq> [] \<and> length x \<le> N"
    and "received + length (concat bps) < fsize" and "fsize \<le> received + length (concat bps) + length p" and "map_of (saved s) path = Some old"
  shows "\<exists>t. store_body C (\<lambda>_. N) path fsize received s = (Inr (), t) \<and> input t = map Inr qs
    \<and> map_of (saved t) path = Some (old @ concat bps @ p)"
  using assms(2-)
proof (induction bps arbitrary: received s old)
  case Nil
  obtain w where w: "run_state (write_at C path p) (s\<lparr>input := map Inr qs\<rparr>)
      = (Inr (), s\<lparr>input := map Inr qs, cw := w, saved := AList.update path (opt_or [] (map_of (saved s) path) @ p) (saved s)\<rparr>)"
    using run_write_at [OF assms(1), of path p "s\<lparr>input := map Inr qs\<rparr>"] by auto
  have r: "run_state (read_some N) s = (Inr p, s\<lparr>input := map Inr qs\<rparr>)" using Nil.prems by (simp add: read_some_def)
  from Nil.prems show ?case
    by (subst store_body.simps) (simp add: r w update_conv' store_body.simps [of C "\<lambda>_. N" path fsize "received + length p"])
next
  case (Cons b bps)
  let ?in = "map Inr (bps @ p # qs)"
  obtain w where w: "run_state (write_at C path b) (s\<lparr>input := ?in\<rparr>)
      = (Inr (), s\<lparr>input := ?in, cw := w, saved := AList.update path (opt_or [] (map_of (saved s) path) @ b) (saved s)\<rparr>)"
    using run_write_at [OF assms(1), of path b "s\<lparr>input := ?in\<rparr>"] by auto
  let ?u = "s\<lparr>input := ?in, cw := w, saved := AList.update path (opt_or [] (map_of (saved s) path) @ b) (saved s)\<rparr>"
  have r: "run_state (read_some N) s = (Inr b, s\<lparr>input := ?in\<rparr>)" using Cons.prems by (simp add: read_some_def)
  have u: "input ?u = ?in" "map_of (saved ?u) path = Some (old @ b)" using Cons.prems(5) by (simp_all add: update_conv')
  obtain t where "store_body C (\<lambda>_. N) path fsize (received + length b) ?u = (Inr (), t)" "input t = map Inr qs"
    "map_of (saved t) path = Some ((old @ b) @ concat bps @ p)"
    using Cons.IH [OF u(1) _ _ _ u(2), of "received + length b"] Cons.prems by auto
  with Cons.prems r w show ?case by (subst store_body.simps) simp
qed

section \<open>Headers\<close>

lemma parse_u64_show: "parse_u64 (show_word n) = Some (n :: u64)"
proof -
  have "unat n \<le> 18446744073709551615" using unsigned_less [where 'a = nat, of n] by simp
  then show ?thesis by (simp add: parse_u64_def parse_uint_show_nat)
qed

lemma colon_notin_show: "CHR '':'' \<notin> set (show_word n)"
  by (simp add: not_in_show_nat is_digit_def)

lemma split_file_header: "split_header a b c (file_header n path) = Inr (n, path)"
proof -
  have "split_once (CHR '':'') (show_word n @ '':'' @ path) = Some (show_word n, path)"
    using colon_notin_show by (simp add: split_once_Some_iff)
  then show ?thesis by (simp add: split_header_def file_header_def parse_u64_show)
qed

section \<open>From the agent to the server\<close>

text \<open>What \<^verbatim>\<open>send_file\<close> writes.\<close>

definition file_wire :: "u64 \<Rightarrow> string \<Rightarrow> string \<Rightarrow> string" where
  "file_wire n path body = file_header n path @ [nl] @ body @ FILE_END_MARKER"

lemma run_send:
  assumes "sends C"
  shows "\<exists>w. run_state (send C bs) s = (Inr (), s\<lparr>cw := w, sent := sent s @ bs\<rparr>)"
proof -
  obtain w where "cx_send C bs (cw s) = (Inr (), w)" using assms unfolding sends_def by blast
  then show ?thesis by (intro exI [of _ w]) (simp add: send_def on_cw_def)
qed

lemma run_send_pieces:
  assumes "sends C" and "[] \<notin> set ps" and "n + length (concat ps) = m"
  shows "\<exists>w. run_state (send_pieces (send C) m n ps) s = (Inr (), s\<lparr>cw := w, sent := sent s @ concat ps\<rparr>)"
  using assms(2,3)
proof (induction ps arbitrary: n s)
  case Nil
  show ?case by (intro exI [of _ "cw s"]) simp
next
  case (Cons p ps)
  obtain w where w: "run_state (send C p) s = (Inr (), s\<lparr>cw := w, sent := sent s @ p\<rparr>)" using run_send [OF assms(1)] by blast
  obtain w' where "run_state (send_pieces (send C) m (n + length p) ps) (s\<lparr>cw := w, sent := sent s @ p\<rparr>)
      = (Inr (), s\<lparr>cw := w', sent := (sent s @ p) @ concat ps\<rparr>)"
    using Cons.IH [of "n + length p" "s\<lparr>cw := w, sent := sent s @ p\<rparr>"] Cons.prems by auto
  moreover have "n < m" "p \<noteq> []" using Cons.prems by auto
  ultimately show ?case using w by (intro exI [of _ w']) simp
qed

lemma send_file_wire:
  assumes "sends C" and "cx_metadata C src (cw s) = Inr meta" and "fm_is_file meta" and "cx_metadata C dst (cw s) = Inl e"
    and "\<And>w. cx_open C src w = Inr pieces" and "[] \<notin> set pieces" and "unat (fm_len meta) = length (concat pieces)"
  shows "\<exists>t. run_state (send_file C src dst) s = (Inr (), t) \<and> sent t = sent s @ file_wire (fm_len meta) dst (concat pieces)"
proof -
  let ?h = "file_header (fm_len meta) dst @ [nl]"
  obtain w1 where 1: "run_state (send C ?h) s = (Inr (), s\<lparr>cw := w1, sent := sent s @ ?h\<rparr>)" using run_send [OF assms(1)] by blast
  let ?s1 = "s\<lparr>cw := w1, sent := sent s @ ?h\<rparr>"
  obtain w2 where 2: "run_state (send_pieces (send C) (unat (fm_len meta)) 0 pieces) ?s1 = (Inr (), ?s1\<lparr>cw := w2, sent := sent ?s1 @ concat pieces\<rparr>)"
    using run_send_pieces [OF assms(1,6), of 0 _ ?s1] assms(7) by auto
  let ?s2 = "?s1\<lparr>cw := w2, sent := sent ?s1 @ concat pieces\<rparr>"
  obtain w3 where 3: "run_state (send C FILE_END_MARKER) ?s2 = (Inr (), ?s2\<lparr>cw := w3, sent := sent ?s2 @ FILE_END_MARKER\<rparr>)"
    using run_send [OF assms(1)] by blast
  obtain w4 where 4: "cx_flush C w3 = (Inr (), w4)" using assms(1) unfolding sends_def by blast
  from 1 2 3 4 assms(2-5) show ?thesis by (simp add: send_file_def final_dst_def file_wire_def on_cw_def)
qed

text \<open>The server got \<open>first\<close> from a read and \<open>later\<close> arrives. The path of a header is read back as it is.\<close>

definition wire_path :: "string \<Rightarrow> bool" where
  "wire_path path \<longleftrightarrow> nl \<notin> set path \<and> utf8_valid path \<and> strip_crs path = path"

lemma utf8_ascii: "list_all (cont 0 0x7F) a \<Longrightarrow> utf8_valid (a @ b) = utf8_valid b"
  by (induction a) auto

lemma header_ascii: "list_all (cont 0 0x7F) (FILE_START_MARKER @ show_word n @ '':'')"
proof -
  have "is_digit c \<Longrightarrow> cont 0 0x7F c" for c by (auto simp: is_digit_def cont_def)
  then have "list_all (cont 0 0x7F) (show_word n)" using show_nat_digits [of "unat n"] by (simp add: list_all_iff)
  moreover have "list_all (cont 0 0x7F) FILE_START_MARKER" by code_simp
  moreover have "cont 0 0x7F (CHR '':'')" by code_simp
  ultimately show ?thesis by simp
qed

lemma header_facts:
  assumes "wire_path path"
  shows "utf8_valid (file_header n path)" and "nl \<notin> set (file_header n path)" and "starts_with FILE_START_MARKER (file_header n path @ r)"
proof -
  have h: "file_header n path = (FILE_START_MARKER @ show_word n @ '':'') @ path" by (simp add: file_header_def)
  show "utf8_valid (file_header n path)" unfolding h utf8_ascii [OF header_ascii] using assms by (simp add: wire_path_def)
  have "nl \<notin> set FILE_START_MARKER" "nl \<notin> set (show_word n)" "nl \<noteq> CHR '':''"
    by (simp_all add: FILE_START_MARKER_def not_in_show_nat is_digit_def nl_def)
  then show "nl \<notin> set (file_header n path)" using assms by (simp add: file_header_def wire_path_def)
  show "starts_with FILE_START_MARKER (file_header n path @ r)" by (simp add: file_header_def)
qed

lemma from_marker_start: "starts_with m s \<Longrightarrow> from_marker m s = Some s"
  by (cases s) (auto simp: starts_with_def)

text \<open>Up to the end marker, the server stores what follows the header.\<close>

lemma receive_up_to_marker:
  assumes "stores C" and "wire_path path" and "first = file_header n path @ [nl] @ available"
    and "streams s later" and "unat n \<le> length (available @ later)"
  shows "\<exists>t. streams t (drop (unat n - length available) later) \<and> map_of (saved t) path = Some (take (unat n) (available @ later))
    \<and> run_state (receive_file_from_bytes C first) s = run_state check_end t"
proof -
  note h = header_facts [OF assms(2), of n]
  let ?first = "take (unat n) available"
  have split: "split_once nl first = Some (file_header n path, available)" using h(2) assms(3) by (simp add: split_once_Some_iff)
  obtain w1 where 1: "run_state (make_parent C False path) s = (Inr (), s\<lparr>cw := w1\<rparr>)" using run_make_parent [OF assms(1)] by blast
  obtain w2 where 2: "run_state (create_at C path) (s\<lparr>cw := w1\<rparr>) = (Inr (), s\<lparr>cw := w2, saved := AList.update path [] (saved s)\<rparr>)"
    using run_create_at [OF assms(1), of path "s\<lparr>cw := w1\<rparr>"] by auto
  let ?s2 = "s\<lparr>cw := w2, saved := AList.update path [] (saved s)\<rparr>"
  obtain s3 where 3: "run_state (store_available C path ?first) ?s2 = (Inr (), s3)"
    "streams s3 later" "map_of (saved s3) path = Some ?first"
  proof (cases "?first = []")
    case True
    then show ?thesis using assms(4) by (intro that [of ?s2]) (auto simp: update_conv' store_available_def)
  next
    case False
    obtain w where w: "run_state (write_at C path ?first) ?s2 = (Inr (), ?s2\<lparr>cw := w, saved := AList.update path (opt_or [] (map_of (saved ?s2) path) @ ?first) (saved ?s2)\<rparr>)"
      using run_write_at [OF assms(1)] by blast
    show ?thesis
      by (rule that [of "?s2\<lparr>cw := w, saved := AList.update path (opt_or [] (map_of (saved ?s2) path) @ ?first) (saved ?s2)\<rparr>"])
        (use w False assms(4) in \<open>auto simp: update_conv' store_available_def\<close>)
  qed
  have "unat n - length ?first \<le> length later" using assms(5) by simp
  then obtain t where t: "store_body C (min BUFFER_SIZE) path (unat n) (length ?first) s3 = (Inr (), t)"
    "streams t (drop (unat n - length ?first) later)" "map_of (saved t) path = Some (?first @ take (unat n - length ?first) later)"
    using store_body_exact [OF assms(1) _ 3(2) _ _ 3(3), of "min BUFFER_SIZE" "length ?first" "unat n"] by (auto simp: BUFFER_SIZE_def)
  have "unat n - length ?first = unat n - length available" by simp
  moreover have "run_state (receive_file_from_bytes C first) s = run_state check_end t"
    using h(1,3) split 1 2 3(1) t(1) assms(2,3)
    by (simp add: receive_file_from_bytes_def from_marker_start split_file_header wire_path_def Let_def)
  ultimately show ?thesis using t(2,3) by (intro exI [of _ t]) (simp add: take_append)
qed

lemma run_check_end:
  assumes "streams t bs"
  shows "\<exists>r u. run_state check_end t = (r, u) \<and> saved u = saved t \<and> (r = Inr () \<longleftrightarrow> take (length FILE_END_MARKER) bs = FILE_END_MARKER)
    \<and> (length FILE_END_MARKER \<le> length bs \<longrightarrow> streams u (drop (length FILE_END_MARKER) bs))"
proof (cases "length FILE_END_MARKER \<le> length bs")
  case True
  then show ?thesis using read_exact_streams [OF assms True] by (auto simp: check_end_def)
next
  case False
  then have "length (take (length FILE_END_MARKER) bs) < length FILE_END_MARKER" by simp
  then have "take (length FILE_END_MARKER) bs \<noteq> FILE_END_MARKER" by auto
  with False read_exact_short [OF assms, of "length FILE_END_MARKER"] show ?thesis by (auto simp: check_end_def)
qed


text \<open>A small file is never confirmed. When the whole message of a file, end marker included, comes with
  the first read, the server stores the file, drops the marker and waits for another one: the transfer
  fails unless the next bytes from the agent happen to be an end marker, and those bytes are lost.\<close>

theorem small_upload_unconfirmed:
  assumes "stores C" and "wire_path path" and "unat n = length body" and "streams s later"
  shows "\<exists>r t. run_state (receive_file_from_bytes C (file_wire n path body)) s = (r, t) \<and> map_of (saved t) path = Some body
    \<and> (r = Inr () \<longleftrightarrow> take (length FILE_END_MARKER) later = FILE_END_MARKER)
    \<and> (length FILE_END_MARKER \<le> length later \<longrightarrow> streams t (drop (length FILE_END_MARKER) later))"
proof -
  obtain t where t: "streams t later" "map_of (saved t) path = Some body"
    "run_state (receive_file_from_bytes C (file_wire n path body)) s = run_state check_end t"
    using receive_up_to_marker [OF assms(1,2) _ assms(4), of "file_wire n path body" n "body @ FILE_END_MARKER"] assms(3)
    by (auto simp: file_wire_def)
  with run_check_end [OF t(1)] show ?thesis by auto
qed

section \<open>From the server to the agent\<close>

text \<open>The agent stores whole reads. It goes on until it has as many bytes as the header announced, but
  never cuts a read, so that the file is the content of the message exactly when some read ends where
  the content ends; otherwise the end marker, or what follows it, becomes part of the file.\<close>

theorem file_download_whole_reads:
  assumes "stores C" and "input s = map Inr (bps @ p # qs)" and "\<forall>x \<in> set (bps @ p # qs). x \<noteq> [] \<and> length x \<le> BUFFER_SIZE"
    and "length (concat bps) < unat n" and "unat n \<le> length (concat bps @ p)"
    and "concat (bps @ p # qs) = body @ FILE_END_MARKER @ rest" and "length body = unat n"
  shows "\<exists>r t. run_state (receive_file C (file_header n path)) s = (r, t) \<and> map_of (saved t) path = Some (concat bps @ p)
    \<and> (concat bps @ p = body \<longleftrightarrow> length (concat bps @ p) = unat n)
    \<and> (length (concat bps @ p) = unat n \<longrightarrow> r = Inr () \<and> streams t rest)"
proof -
  obtain w1 where 1: "run_state (make_parent C True path) s = (Inr (), s\<lparr>cw := w1\<rparr>)" using run_make_parent [OF assms(1)] by blast
  obtain w2 where 2: "run_state (create_at C path) (s\<lparr>cw := w1\<rparr>) = (Inr (), s\<lparr>cw := w2, saved := AList.update path [] (saved s)\<rparr>)"
    using run_create_at [OF assms(1), of path "s\<lparr>cw := w1\<rparr>"] by auto
  let ?s2 = "s\<lparr>cw := w2, saved := AList.update path [] (saved s)\<rparr>"
  obtain t where t: "store_body C (\<lambda>_. BUFFER_SIZE) path (unat n) 0 ?s2 = (Inr (), t)" "input t = map Inr qs"
    "map_of (saved t) path = Some (concat bps @ p)"
    using store_body_whole [OF assms(1), of ?s2 bps p qs BUFFER_SIZE 0 "unat n" path "[]"] assms(2-5) by (auto simp: update_conv')
  have st: "streams t (concat qs)" using t(2) assms(3) by (auto simp: streams_def)
  obtain r u where u: "run_state (tryE (read_exact (length FILE_END_MARKER)) (\<lambda>end_marker.
      State_Monad.return (if utf8_valid end_marker then Inr () else Inl ''invalid end marker''))) t = (r, u)" by (rule prod.exhaust)
  have sv: "saved u = saved t" using u by (auto simp: read_exact_def split: prod.splits sum.splits)
  have run: "run_state (receive_file C (file_header n path)) s = (r, u)"
    using 1 2 t(1) u by (simp add: receive_file_def split_file_header)
  have "take (length (concat bps @ p)) (body @ FILE_END_MARKER @ rest) = concat bps @ p" unfolding assms(6) [symmetric] by simp
  then have eq: "concat bps @ p = body \<longleftrightarrow> length (concat bps @ p) = unat n" using assms(7) by (metis append_eq_conv_conj)
  have "r = Inr () \<and> streams u rest" if "length (concat bps @ p) = unat n"
  proof -
    have "concat qs = FILE_END_MARKER @ rest" using that eq assms(6) by auto
    moreover have "utf8_valid FILE_END_MARKER" by code_simp
    ultimately show ?thesis using read_exact_streams [OF st, of "length FILE_END_MARKER"] u by auto
  qed
  with run t(3) sv eq show ?thesis by auto
qed

section \<open>What the operations leave alone\<close>

text \<open>Predicates that do not look at the connection, the files and the host.\<close>

definition conn_blind :: "(('w, 'z) cli_state_scheme \<Rightarrow> bool) \<Rightarrow> bool" where
  "conn_blind P \<longleftrightarrow> (\<forall>s w i o' f. P s \<longrightarrow> P (s\<lparr>cw := w\<rparr>) \<and> P (s\<lparr>input := i\<rparr>) \<and> P (s\<lparr>sent := o'\<rparr>) \<and> P (s\<lparr>saved := f\<rparr>))"

lemma conn_blindD: "conn_blind P \<Longrightarrow> P s \<Longrightarrow> P (s\<lparr>cw := w\<rparr>)" "conn_blind P \<Longrightarrow> P s \<Longrightarrow> P (s\<lparr>input := i\<rparr>)"
  "conn_blind P \<Longrightarrow> P s \<Longrightarrow> P (s\<lparr>sent := o'\<rparr>)" "conn_blind P \<Longrightarrow> P s \<Longrightarrow> P (s\<lparr>saved := f\<rparr>)"
  by (simp_all add: conn_blind_def)

lemma keeps_on_cw: "conn_blind P \<Longrightarrow> keeps P (on_cw f)"
  by (auto simp: keeps_def on_cw_def conn_blindD split: prod.splits)

lemma keeps_reads: "conn_blind P \<Longrightarrow> keeps P (read_some n)" "conn_blind P \<Longrightarrow> keeps P (read_exact n)"
  by (auto simp: keeps_def read_some_def read_exact_def conn_blindD split: prod.splits)

lemma keeps_send: "conn_blind P \<Longrightarrow> keeps P (send C bs)"
  unfolding send_def by (intro keep_intros keeps_on_cw) (auto intro: conn_blindD)

lemma keeps_files: "conn_blind P \<Longrightarrow> keeps P (create_at C p)" "conn_blind P \<Longrightarrow> keeps P (write_at C p bs)"
  unfolding create_at_def write_at_def by (intro keep_intros keeps_on_cw; auto intro: conn_blindD)+

lemmas conn_keeps = keeps_on_cw keeps_reads keeps_send keeps_files

lemma keeps_send_pieces: "(\<And>p. keeps P (out p)) \<Longrightarrow> keeps P (send_pieces out m n ps)"
  by (induction out m n ps rule: send_pieces.induct) (auto intro!: keep_intros)

lemma keeps_store_body:
  assumes "conn_blind P"
  shows "keeps P (State (store_body C cap path m n))"
proof -
  have "P s \<Longrightarrow> P (snd (store_body C cap path m n s))" for s
  proof (induction C cap path m n s rule: store_body.induct)
    case (1 C cap path m n s)
    obtain r t where r: "run_state (read_some (cap (m - n))) s = (r, t)" by (rule prod.exhaust)
    have t: "P t" using keepsD_run [OF keeps_reads(1) [OF assms] 1(2) r] .
    show ?case
    proof (cases r)
      case (Inr d)
      obtain q u where q: "run_state (write_at C path d) t = (q, u)" by (rule prod.exhaust)
      have "P u" using keepsD_run [OF keeps_files(2) [OF assms] t q] .
      then show ?thesis using 1 r t q Inr by (subst store_body.simps) (auto split: sum.splits)
    qed (use 1 r t in \<open>subst store_body.simps, simp\<close>)
  qed
  then show ?thesis by (simp add: keeps_def)
qed

lemma keeps_receive:
  assumes "conn_blind P"
  shows "keeps P (receive_file_from_bytes C raw)"
  unfolding receive_file_from_bytes_def make_parent_def store_available_def check_end_def Let_def
  by (intro keep_intros conn_keeps keeps_store_body assms)

lemma keeps_send_to_client: "conn_blind P \<Longrightarrow> keeps P (send_file_to_client_with_writer C src dst)"
  unfolding send_file_to_client_with_writer_def final_dst_def
  by (intro keep_intros keeps_send_pieces conn_keeps) auto

section \<open>The theorems on a small host\<close>

definition lab_cli :: "unit cli_ext" where
  "lab_cli = \<lparr>cx_metadata = (\<lambda>p w. if p = ''f'' then Inr \<lparr>fm_is_file = True, fm_is_dir = False, fm_len = 3\<rparr> else Inl ''not found''),
     cx_open = (\<lambda>p w. Inr [''ab'', ''c'']), cx_create_dir_all = (\<lambda>p w. (Inr (), w)), cx_create = (\<lambda>p w. (Inr (), w)),
     cx_write = (\<lambda>p b w. (Inr (), w)), cx_send = (\<lambda>b w. (Inr (), w)), cx_flush = (\<lambda>w. (Inr (), w))\<rparr>"

definition lab_conn :: "string list \<Rightarrow> unit cli_state" where
  "lab_conn ps = \<lparr>cw = (), input = map Inr ps, sent = [], saved = []\<rparr>"

lemma lab_cli_ok: "stores lab_cli" "sends lab_cli"
  by (simp_all add: stores_def sends_def lab_cli_def)

lemma lab_path_plain: "wire_path ''g''"
  unfolding wire_path_def by code_simp

lemma lab_sent: "sent (snd (run_state (send_file lab_cli ''f'' ''g'') (lab_conn []))) = file_header 3 ''g'' @ [nl] @ ''abc'' @ FILE_END_MARKER"
  by code_simp


theorem small_upload_unconfirmed_witness:
  "\<exists>r t. run_state (receive_file_from_bytes lab_cli (file_wire 3 ''g'' ''abc'')) (lab_conn []) = (r, t)
     \<and> map_of (saved t) ''g'' = Some ''abc'' \<and> r \<noteq> Inr ()"
proof -
  have "streams (lab_conn []) []" by (simp add: streams_def lab_conn_def)
  moreover have "FILE_END_MARKER \<noteq> []" by code_simp
  ultimately show ?thesis
    using small_upload_unconfirmed [OF lab_cli_ok(1) lab_path_plain, of 3 "''abc''" "lab_conn []" "[]"] by fastforce
qed

theorem file_download_whole_reads_witness:
  "\<exists>r t. run_state (receive_file lab_cli (file_header 3 ''g'')) (lab_conn [''abc'' @ FILE_END_MARKER]) = (r, t)
     \<and> map_of (saved t) ''g'' = Some (''abc'' @ FILE_END_MARKER)"
  using file_download_whole_reads [OF lab_cli_ok(1), of "lab_conn [''abc'' @ FILE_END_MARKER]" "[]" "''abc'' @ FILE_END_MARKER" "[]" 3 "''abc''" "[]" "''g''"]
  by (auto simp: lab_conn_def FILE_END_MARKER_def BUFFER_SIZE_def)

end
