(* ===== verification/Cli_Client.thy ===== *)
theory Cli_Client
  imports Cli_Transfer Report_Base
begin

text \<open>
  The agent's side of the remote command line: \<^verbatim>\<open>crates/agent_manager/src/agent_cli_client.rs\<close> and the
  configuration it reads (\<^verbatim>\<open>common.rs\<close>). A session reads lines from the server and runs the commands that
  carry its identifier; in silence it sends a heartbeat. TLS and the sockets are parameters: the pieces
  that arrive are the \<open>input\<close> of the state, and the events that wake the session are an argument.
\<close>

section \<open>The configuration (common.rs)\<close>

record client_config =
  cl_port :: u16
  cl_dev_uid :: string
  cl_server_ip :: string

definition client_config_default :: client_config where
  "client_config_default = \<lparr>cl_port = 0, cl_dev_uid = [], cl_server_ip = []\<rparr>"

definition trim_and_check_non_empty :: "string \<Rightarrow> string option" where
  "trim_and_check_non_empty s = (let t = trim s in if t = [] then None else Some t)"

definition ini_read_failed :: "string \<Rightarrow> string" where "ini_read_failed e = utf8 [232, 175, 187, 229, 143, 150, 32, 73, 78, 73, 32, 230, 150, 135, 228, 187, 182, 229, 164, 177, 232, 180, 165, 58, 32] @ e"
definition bad_port :: "string \<Rightarrow> string" where "bad_port v = ''CLI_SERVER_PORT '' @ utf8 [230, 151, 160, 230, 149, 136, 58, 32] @ v"
definition bad_ip :: "string \<Rightarrow> string" where "bad_ip v = ''SERVER_IP '' @ utf8 [228, 184, 141, 230, 152, 175, 230, 156, 137, 230, 149, 136, 32, 73, 80, 118, 52, 58, 32] @ v"
definition no_uid :: string where "no_uid = ''DEV_UID '' @ utf8 [230, 156, 170, 233, 133, 141, 231, 189, 174]"
definition no_ip :: string where "no_ip = ''SERVER_IP '' @ utf8 [230, 156, 170, 233, 133, 141, 231, 189, 174, 230, 136, 150, 230, 151, 160, 230, 149, 136]"

definition parse_port :: "string \<Rightarrow> u16 option" where
  "parse_port s = map_option of_nat (parse_uint 65535 s)"

definition strip_https :: "string \<Rightarrow> string" where
  "strip_https v = (if starts_with ''https://'' v then drop 8 v else v)"

text \<open>One entry of a section.\<close>

definition ini_entry :: "string \<Rightarrow> string \<Rightarrow> string \<Rightarrow> client_config \<Rightarrow> client_config res" where
  "ini_entry sect key val cfg =
     (if sect = ''SERVERINFO''
      then (if key = ''CLI_SERVER_PORT''
            then (case parse_port val of None \<Rightarrow> Inl (bad_port val) | Some p \<Rightarrow> Inr (cfg\<lparr>cl_port := p\<rparr>))
            else if key = ''SERVER_IP''
            then (if parse_ipv4 (strip_https val) \<noteq> None then Inr (cfg\<lparr>cl_server_ip := strip_https val\<rparr>) else Inl (bad_ip val))
            else if key = ''DEV_UID'' then Inr (cfg\<lparr>cl_dev_uid := val\<rparr>)
            else Inr cfg)
      else if sect = ''HOSTINFO'' \<and> key = ''DEV_UID'' then Inr (cfg\<lparr>cl_dev_uid := val\<rparr>)
      else Inr cfg)"

fun ini_scan :: "string \<Rightarrow> client_config \<Rightarrow> string list \<Rightarrow> client_config res" where
  "ini_scan sect cfg [] = Inr cfg"
| "ini_scan sect cfg (raw # rest) =
     (case trim_and_check_non_empty raw of
        None \<Rightarrow> ini_scan sect cfg rest
      | Some line \<Rightarrow>
          if starts_with ''['' line \<and> ends_with '']'' line then ini_scan (trim (butlast (tl line))) cfg rest
          else (case split_once (CHR ''='') line of
                  None \<Rightarrow> ini_scan sect cfg rest
                | Some (k, v) \<Rightarrow>
                    (case ini_entry sect (trim k) (trim v) cfg of
                       Inl e \<Rightarrow> Inl e
                     | Inr cfg' \<Rightarrow> ini_scan sect cfg' rest)))"

definition parse_ini_text :: "string \<Rightarrow> client_config res" where
  "parse_ini_text text =
     (case ini_scan [] client_config_default (str_lines text) of
        Inl e \<Rightarrow> Inl e
      | Inr cfg \<Rightarrow> if cl_dev_uid cfg = [] then Inl no_uid else if cl_server_ip cfg = [] then Inl no_ip else Inr cfg)"

definition parse_ini_file :: "string res \<Rightarrow> client_config res" where
  "parse_ini_file read = (case read of Inl e \<Rightarrow> Inl (ini_read_failed e) | Inr text \<Rightarrow> parse_ini_text text)"

section \<open>State\<close>

text \<open>\<open>executed\<close> are the commands that were started. A command of the shell cannot be started, is killed after ten
  seconds, or ends with what it printed.\<close>

datatype shell_end = NotStarted string | TimedOut | Printed string string

record 'w client_ext =
  cc_cli :: "'w cli_ext"
  cc_shell :: "string \<Rightarrow> 'w \<Rightarrow> shell_end \<times> 'w"
  cc_status :: "string \<Rightarrow> string list \<Rightarrow> 'w \<Rightarrow> proc_status res \<times> 'w"
  cc_today :: "'w \<Rightarrow> nat \<times> nat \<times> nat"
  cc_exists :: "string \<Rightarrow> 'w \<Rightarrow> bool"
  cc_write_file :: "string \<Rightarrow> string \<Rightarrow> 'w \<Rightarrow> unit res \<times> 'w"
  cc_read_file :: "string \<Rightarrow> 'w \<Rightarrow> string res"
  cc_remove_file :: "string \<Rightarrow> 'w \<Rightarrow> unit res \<times> 'w"
  cc_uname :: "'w \<Rightarrow> string res"

record 'w client_state = "'w cli_state" +
  executed :: "(string \<times> string list) list"

definition client_status :: "'w client_ext \<Rightarrow> string \<Rightarrow> string list \<Rightarrow> ('w client_state, proc_status res) state" where
  "client_status X cmd args = do {
     modify (\<lambda>s. s\<lparr>executed := executed s @ [(cmd, args)]\<rparr>);
     on_cw (cc_status X cmd args)
   }"

section \<open>Telling the kernel module\<close>

text \<open>The number that unlocks the kernel module: year, month and day written one after the other, plus one.\<close>

definition self_number :: "nat \<times> nat \<times> nat \<Rightarrow> nat option" where
  "self_number d = (case d of (y, m, day) \<Rightarrow> map_option Suc (parse_uint 18446744073709551615 (show_nat y @ show_nat m @ show_nat day)))"

definition self_line :: "nat \<Rightarrow> string" where
  "self_line n = ''veda '' @ show_nat n @ '' 0'' @ [nl]"

definition proc_self_path :: string where "proc_self_path = ''/proc/osec/self''"

definition client_write_proc_self :: "'w client_ext \<Rightarrow> ('w client_state, unit res) state" where
  "client_write_proc_self X = do {
     w \<leftarrow> gets cw;
     case self_number (cc_today X w) of
       None \<Rightarrow> State_Monad.return (Inl (utf8 [230, 151, 165, 230, 156, 159, 230, 139, 188, 230, 142, 165, 232, 167, 163, 230, 158, 144, 229, 164, 177, 232, 180, 165]))
     | Some n \<Rightarrow>
         if \<not> cc_exists X proc_self_path w then State_Monad.return (Inr ())
         else
           tryE (map_err (\<lambda>e. utf8 [229, 134, 153, 229, 133, 165, 229, 164, 177, 232, 180, 165, 58, 32] @ e) (on_cw (cc_write_file X proc_self_path (self_line n)))) (\<lambda>_.
           gets (\<lambda>s. case cc_read_file X proc_self_path (cw s) of Inl e \<Rightarrow> Inl (utf8 [232, 175, 187, 229, 143, 150, 229, 164, 177, 232, 180, 165, 58, 32] @ e) | Inr _ \<Rightarrow> Inr ()))
   }"

section \<open>Commands\<close>

definition zip_args :: "string \<Rightarrow> string list" where
  "zip_args kver = [''-r'', kver @ ''.zip'', kver, ''-x'', ''*.ko'', ''-x'', ''*.ko.*'', ''-x'', ''*/vmlinuz'', ''-x'', ''*/System.map'',
     ''-x'', ''*/.vmlinuz.hmac'', ''-x'', ''*/symvers.gz'', ''-x'', ''*/vdso/*'', ''-x'', ''*/dtb/*'', ''-x'', ''*/updates/*'',
     ''-x'', ''*/weak-updates/*'', ''-x'', ''*/source/*'', ''-x'', ''*/extra/*'']"

definition get_kernel_src :: "'w client_ext \<Rightarrow> ('w client_state, unit res) state" where
  "get_kernel_src X =
     tryE (gets (\<lambda>s. case cc_uname X (cw s) of Inl e \<Rightarrow> Inl (''uname failed: '' @ e) | Inr k \<Rightarrow> Inr k)) (\<lambda>kver.
     let dir = path_join ''/lib/modules'' kver; zip_path = path_join ''/lib/modules'' (kver @ ''.zip'') in
     tryE (gets (\<lambda>s. if cc_exists X dir (cw s) then Inr () else Inl (''kernel modules directory not found: '' @ debug_str dir))) (\<lambda>_.
     tryE (do {
         w \<leftarrow> gets cw;
         if cc_exists X zip_path w then map_err (\<lambda>e. ''remove old zip failed: '' @ e) (on_cw (cc_remove_file X zip_path))
         else State_Monad.return (Inr ()) }) (\<lambda>_.
     tryE (map_err (\<lambda>e. ''failed to exec zip: '' @ e) (client_status X ''zip'' (zip_args kver))) (\<lambda>status.
       if \<not> ps_success status then State_Monad.return (Inl (''zip command failed with status: '' @ ps_display status))
       else
         tryE (send_file (cc_cli X) zip_path (kver @ ''.zip'')) (\<lambda>_. do {
           _ \<leftarrow> on_cw (cc_remove_file X zip_path);
           State_Monad.return (Inr ())
         })))))"

text \<open>What is sent back for a command of the shell.\<close>

definition answer_shell :: "'w client_ext \<Rightarrow> shell_end \<Rightarrow> ('w client_state, unit res) state" where
  "answer_shell X r =
     (case r of
       NotStarted e \<Rightarrow> State_Monad.return (Inl (''Failed to spawn process: '' @ e))
     | TimedOut \<Rightarrow> send (cc_cli X) (''[WARN] Command timed out and was killed'' @ [nl])
     | Printed out err \<Rightarrow>
         tryE (if out = [] then State_Monad.return (Inr ()) else send (cc_cli X) out) (\<lambda>_.
         tryE (if err = [] then State_Monad.return (Inr ()) else send (cc_cli X) err) (\<lambda>_.
           send (cc_cli X) [nl])))"

definition run_shell_cmd :: "'w client_ext \<Rightarrow> string \<Rightarrow> ('w client_state, unit res) state" where
  "run_shell_cmd X cmd = do {
     modify (\<lambda>s. s\<lparr>executed := executed s @ [(''/bin/sh'', [''-c'', cmd])]\<rparr>);
     r \<leftarrow> on_cw (cc_shell X cmd);
     answer_shell X r
   }"

definition process_command :: "'w client_ext \<Rightarrow> client_config \<Rightarrow> string \<Rightarrow> ('w client_state, unit res) state" where
  "process_command X cfg cmd =
     (if \<not> starts_with ''uid:'' cmd then State_Monad.return (Inr ())
      else case split_whitespace (drop 4 cmd) of
        [] \<Rightarrow> send (cc_cli X) (''Command error: missing UID'' @ [nl])
      | uid # args \<Rightarrow>
          if uid \<noteq> cl_dev_uid cfg then State_Monad.return (Inr ())
          else case args of
            [] \<Rightarrow> send (cc_cli X) (''Command error: missing action'' @ [nl])
          | action # operands \<Rightarrow>
              if action = ''exit'' then State_Monad.return (Inl ''exit'')
              else if action = ''rkill''
              then do {
                _ \<leftarrow> client_write_proc_self X;
                _ \<leftarrow> client_status X ''pkill'' [''-9'', ''MagicArmor_0''];
                State_Monad.return (Inr ())
              }
              else if action = ''get_file''
              then (case operands of
                      src # dst # _ \<Rightarrow> send_file (cc_cli X) src dst
                    | _ \<Rightarrow> send (cc_cli X) (''get_file requires src and dst'' @ [nl]))
              else if action = ''get_kernel_src'' then get_kernel_src X
              else run_shell_cmd X (join '' '' args))"

section \<open>Sessions\<close>

text \<open>One line of what was read. The result ends the session only for the command \<^verbatim>\<open>exit\<close>.\<close>

definition session_line :: "'w client_ext \<Rightarrow> client_config \<Rightarrow> string \<Rightarrow> ('w client_state, unit res) state" where
  "session_line X cfg line =
     (let trimmed = trim line in
      if trimmed = [] then State_Monad.return (Inr ())
      else if starts_with ''uid:'' trimmed
      then do {
        r \<leftarrow> process_command X cfg trimmed;
        State_Monad.return (if r = Inl ''exit'' then Inl ''exit'' else Inr ())
      }
      else if starts_with FILE_START_MARKER trimmed
      then do { _ \<leftarrow> receive_file (cc_cli X) trimmed; State_Monad.return (Inr ()) }
      else State_Monad.return (Inr ()))"

fun session_lines :: "'w client_ext \<Rightarrow> client_config \<Rightarrow> string list \<Rightarrow> ('w client_state, unit res) state" where
  "session_lines X cfg [] = State_Monad.return (Inr ())"
| "session_lines X cfg (l # ls) = tryE (session_line X cfg l) (\<lambda>_. session_lines X cfg ls)"

text \<open>The session wakes when something can be read, or after ten seconds; \<open>quiet\<close> tells that ten seconds have
  passed since the last sign of life.\<close>

datatype session_event = CanRead | Waited bool
datatype session_end = GoesOn | Ended "unit res"

definition session_turn :: "'w client_ext \<Rightarrow> client_config \<Rightarrow> session_event \<Rightarrow> ('w client_state, session_end) state" where
  "session_turn X cfg ev =
     (case ev of
        CanRead \<Rightarrow> do {
          r \<leftarrow> read_some BUFFER_SIZE;
          case r of
            Inl _ \<Rightarrow> State_Monad.return (Ended (Inr ()))
          | Inr d \<Rightarrow>
              if d = [] then State_Monad.return (Ended (Inr ()))
              else do {
                q \<leftarrow> session_lines X cfg (str_lines (lossy d));
                State_Monad.return (case q of Inl e \<Rightarrow> Ended (Inl e) | Inr _ \<Rightarrow> GoesOn)
              }
        }
      | Waited quiet \<Rightarrow>
          if quiet
          then do {
            r \<leftarrow> send (cc_cli X) (''heartbeat'' @ [nl]);
            State_Monad.return (case r of Inl _ \<Rightarrow> Ended (Inr ()) | Inr _ \<Rightarrow> GoesOn)
          }
          else State_Monad.return GoesOn)"

fun handle_session :: "'w client_ext \<Rightarrow> client_config \<Rightarrow> session_event list \<Rightarrow> ('w client_state, session_end) state" where
  "handle_session X cfg [] = State_Monad.return GoesOn"
| "handle_session X cfg (ev # evs) = do {
     r \<leftarrow> session_turn X cfg ev;
     case r of GoesOn \<Rightarrow> handle_session X cfg evs | Ended e \<Rightarrow> State_Monad.return (Ended e)
   }"

text \<open>The start of a session: the agent names itself and expects to be greeted. The first line is read from what
  arrives; its bytes that came with it and lie behind the line are lost with the buffer.\<close>

fun first_line :: "string \<Rightarrow> string res list \<Rightarrow> string res \<times> string res list" where
  "first_line got [] = (Inr got, [])"
| "first_line got (Inl e # r) = (Inl e, r)"
| "first_line got (Inr p # r) =
     (if p = [] then (Inr got, r)
      else case split_once nl p of
        None \<Rightarrow> first_line (got @ p) r
      | Some (a, _) \<Rightarrow> (Inr (got @ a @ [nl]), r))"

definition announcement :: string where "announcement = ''I am agent client, my uid is ''"

definition greeting :: "string \<Rightarrow> string" where "greeting uid = announcement @ uid @ [nl]"
definition reply :: "string \<Rightarrow> string" where "reply uid = ''hello, '' @ uid @ [nl]"

definition greet_server :: "'w client_ext \<Rightarrow> client_config \<Rightarrow> ('w client_state, unit res) state" where
  "greet_server X cfg =
     tryE (send (cc_cli X) (greeting (cl_dev_uid cfg))) (\<lambda>_.
     tryE (on_cw (cx_flush (cc_cli X))) (\<lambda>_.
     tryE (State (\<lambda>s. case first_line [] (input s) of (l, r) \<Rightarrow> (l, s\<lparr>input := r\<rparr>))) (\<lambda>line.
       State_Monad.return
         (if \<not> utf8_valid line then Inl ''stream did not contain valid UTF-8''
          else if line = reply (cl_dev_uid cfg) then Inr ()
          else Inl (''Authentication failed: received '' @ debug_str line)))))"

section \<open>Which sessions run\<close>

text \<open>The file that locks out a second instance: who has it open and locked, and its text. \<open>opened\<close> and \<open>written\<close> are what
  opening and writing it return.\<close>

record pid_lock =
  pl_locked :: bool
  pl_text :: string

definition acquire_lock :: "unit res \<Rightarrow> unit res \<Rightarrow> string \<Rightarrow> pid_lock \<Rightarrow> unit res \<times> pid_lock" where
  "acquire_lock opened written pid l =
     (case opened of
        Inl e \<Rightarrow> (Inl (utf8 [230, 137, 147, 229, 188, 128, 32, 80, 73, 68, 32, 230, 150, 135, 228, 187, 182, 229, 164, 177, 232, 180, 165, 58, 32] @ e), l)
      | Inr _ \<Rightarrow>
          if pl_locked l then (Inl (utf8 [230, 151, 160, 230, 179, 149, 233, 148, 129, 229, 174, 154, 32, 80, 73, 68, 32, 230, 150, 135, 228, 187, 182, 58, 32] @ ''Resource temporarily unavailable''), l)
          else (case written of
                  Inl e \<Rightarrow> (Inl (utf8 [229, 134, 153, 32, 80, 73, 68, 32, 229, 164, 177, 232, 180, 165, 58, 32] @ e), l\<lparr>pl_text := []\<rparr>)
                | Inr _ \<Rightarrow> (Inr (), l\<lparr>pl_locked := True, pl_text := pid @ [nl]\<rparr>)))"

text \<open>How \<^verbatim>\<open>start_client\<close> begins. The locked file is a temporary of the condition and closed with it.\<close>

definition client_may_start :: "unit res \<Rightarrow> unit res \<Rightarrow> string \<Rightarrow> pid_lock \<Rightarrow> unit res \<times> pid_lock" where
  "client_may_start opened written pid l =
     (case acquire_lock opened written pid l of
        (Inl _, l') \<Rightarrow> (Inl ''Failed to acquire single-instance lock'', l')
      | (Inr _, l') \<Rightarrow> (Inr (), l'\<lparr>pl_locked := False\<rparr>))"

lemma client_always_starts: "\<not> pl_locked l \<Longrightarrow> \<exists>l'. client_may_start (Inr ()) (Inr ()) pid l = (Inr (), l') \<and> \<not> pl_locked l'"
  by (simp add: client_may_start_def acquire_lock_def)

text \<open>The loop of \<^verbatim>\<open>start_client\<close>: the configuration is read every five seconds. A configuration that differs
  from the last one that could be read starts a session; no session is ever stopped.\<close>

record sessions =
  ss_last :: "client_config option"
  ss_started :: "client_config list"

definition config_turn :: "string res \<Rightarrow> sessions \<Rightarrow> sessions" where
  "config_turn read_ini s =
     (case parse_ini_file read_ini of
        Inl _ \<Rightarrow> s
      | Inr cfg \<Rightarrow>
          s\<lparr>ss_last := Some cfg,
            ss_started := ss_started s @
              (if (case ss_last s of
                     None \<Rightarrow> True
                   | Some old \<Rightarrow> cl_port cfg \<noteq> cl_port old \<or> cl_dev_uid cfg \<noteq> cl_dev_uid old \<or> cl_server_ip cfg \<noteq> cl_server_ip old)
                  \<and> cl_port cfg \<noteq> 0
               then [cfg] else [])\<rparr>)"

definition start_client :: "string res list \<Rightarrow> sessions" where
  "start_client reads = fold config_turn reads \<lparr>ss_last = None, ss_started = []\<rparr>"

text \<open>The configurations that could be read.\<close>

definition configs :: "string res list \<Rightarrow> client_config list" where
  "configs reads = List.map_filter (\<lambda>r. case parse_ini_file r of Inl _ \<Rightarrow> None | Inr c \<Rightarrow> Some c) reads"

lemma configs_simps [simp]:
  "configs [] = []"
  "configs (reads @ [r]) = configs reads @ (case parse_ini_file r of Inl _ \<Rightarrow> [] | Inr c \<Rightarrow> [c])"
  by (simp_all add: configs_def List.map_filter_def split: sum.splits)

lemma remdups_adj_snoc: "remdups_adj (cs @ [c]) = (if cs \<noteq> [] \<and> last cs = c then remdups_adj cs else remdups_adj cs @ [c])"
  by (induction cs rule: remdups_adj.induct) auto

text \<open>A session is started for every change. The sessions that run are those of all configurations that could be
  read and differ from the one read before, except those without a port: a change of the configuration adds a
  session and leaves the old ones connected.\<close>

theorem sessions_accumulate:
  "ss_last (start_client reads) = (if configs reads = [] then None else Some (last (configs reads))) \<and>
   ss_started (start_client reads) = filter (\<lambda>c. cl_port c \<noteq> 0) (remdups_adj (configs reads))"
proof (induction reads rule: rev_induct)
  case (snoc r reads)
  have eq: "c = d \<longleftrightarrow> cl_port c = cl_port d \<and> cl_dev_uid c = cl_dev_uid d \<and> cl_server_ip c = cl_server_ip d" for c d :: client_config by auto
  have step: "start_client (reads @ [r]) = config_turn r (start_client reads)" by (simp add: start_client_def)
  show ?case
  proof (cases "parse_ini_file r")
    case (Inr c)
    with snoc show ?thesis unfolding step
      by (auto simp: config_turn_def remdups_adj_snoc eq [of "last (configs reads)" c])
  qed (use snoc in \<open>simp add: step config_turn_def\<close>)
qed (simp add: start_client_def)

section \<open>The words of a command\<close>

lemma split_ws_word: "list_all (\<lambda>c. \<not> is_ws c) u \<Longrightarrow> is_ws c \<Longrightarrow> w \<noteq> [] \<or> u \<noteq> [] \<Longrightarrow> split_ws_acc w (u @ c # r) = (rev w @ u) # split_ws_acc [] r"
  by (induction u arbitrary: w) auto

lemma split_whitespace_word: "list_all (\<lambda>c. \<not> is_ws c) u \<Longrightarrow> u \<noteq> [] \<Longrightarrow> split_whitespace (u @ '' '' @ r) = u # split_whitespace r"
  using split_ws_word [of u "CHR '' ''" "[]" r] by (simp add: split_whitespace_def is_ws_def)

lemma split_ws_blank: "list_all is_ws b \<Longrightarrow> split_ws_acc w (s @ b) = split_ws_acc w s"
proof (induction s arbitrary: w)
  case Nil
  then show ?case by (induction b arbitrary: w) (auto split: if_splits)
qed simp

lemma trim_end_split: "\<exists>b. s = trim_end s @ b \<and> list_all is_ws b"
proof -
  have "s = rev (dropWhile is_ws (rev s)) @ rev (takeWhile is_ws (rev s))" by (metis rev_append rev_rev_ident takeWhile_dropWhile_id)
  moreover have "list_all is_ws (rev (takeWhile is_ws (rev s)))" by (auto simp: list_all_iff dest: set_takeWhileD)
  ultimately show ?thesis unfolding trim_end_def by blast
qed

lemma split_trim_end: "split_whitespace (trim_end s) = split_whitespace s"
  using trim_end_split [of s] split_ws_blank [of _ "[]" "trim_end s"] by (metis split_whitespace_def)

lemma trim_no_ws: "list_all (\<lambda>c. \<not> is_ws c) s \<Longrightarrow> trim s = s"
proof -
  have d: "dropWhile is_ws x = x" if "list_all (\<lambda>c. \<not> is_ws c) x" for x using that by (cases x) simp_all
  assume a: "list_all (\<lambda>c. \<not> is_ws c) s"
  then have "list_all (\<lambda>c. \<not> is_ws c) (rev s)" by (simp add: list_all_iff)
  with a show ?thesis by (simp add: trim_def trim_start_def trim_end_def d)
qed

lemma trim_show_nat: "trim (show_nat n) = show_nat n"
  using show_nat_digits [of n] by (intro trim_no_ws) (auto simp: list_all_iff is_digit_def is_ws_def)

lemma trim_end_append: "\<exists>c \<in> set b. \<not> is_ws c \<Longrightarrow> trim_end (a @ b) = a @ trim_end b"
  unfolding trim_end_def by (auto simp: dropWhile_append1)

definition is_word :: "string \<Rightarrow> bool" where
  "is_word u \<longleftrightarrow> u \<noteq> [] \<and> list_all (cont 0x21 0x7E) u"

lemma word_not_ws: "cont 0x21 0x7E c \<Longrightarrow> \<not> is_ws c"
  by (auto simp: is_ws_def cont_def)

lemma is_word_ws: "is_word u \<Longrightarrow> list_all (\<lambda>c. \<not> is_ws c) u"
  by (auto simp: is_word_def list_all_iff word_not_ws)

text \<open>The text of a command for an agent and how the agent reads it.\<close>

definition command_text :: "string \<Rightarrow> string \<Rightarrow> string" where
  "command_text uid cmd = ''uid:'' @ uid @ '' '' @ cmd"

lemma trim_command:
  assumes "is_word uid"
  shows "trim (command_text uid cmd) = ''uid:'' @ trim_end (uid @ '' '' @ cmd)"
proof -
  have "\<exists>c \<in> set (uid @ '' '' @ cmd). \<not> is_ws c" using assms by (cases uid) (auto simp: is_word_def word_not_ws)
  then show ?thesis using trim_end_append [of "uid @ '' '' @ cmd" "''uid:''"]
    by (simp add: trim_def trim_start_def command_text_def is_ws_def)
qed

lemma command_words: "is_word uid \<Longrightarrow> split_whitespace (drop 4 (trim (command_text uid cmd))) = uid # split_whitespace cmd"
  using split_whitespace_word [of uid cmd] is_word_ws [of uid] by (simp add: trim_command split_trim_end is_word_def)

section \<open>Commands reach the agent they name\<close>

lemma executed_blind: "conn_blind (\<lambda>s. executed s = r)"
  by (simp add: conn_blind_def)

lemma process_other:
  assumes "split_whitespace (drop 4 cmd) = uid # args" and "uid \<noteq> cl_dev_uid cfg"
  shows "run_state (process_command X cfg cmd) s = (Inr (), s)"
  using assms by (simp add: process_command_def)

lemma process_shell:
  assumes "starts_with ''uid:'' cmd" and "split_whitespace (drop 4 cmd) = cl_dev_uid cfg # args" and "args \<noteq> []"
    and "hd args \<notin> {''exit'', ''rkill'', ''get_file'', ''get_kernel_src''}"
  shows "executed (snd (run_state (process_command X cfg cmd) s)) = executed s @ [(''/bin/sh'', [''-c'', join '' '' args])]"
proof -
  have p: "process_command X cfg cmd = run_shell_cmd X (join '' '' args)"
    using assms by (cases args) (simp_all add: process_command_def)
  let ?s = "s\<lparr>executed := executed s @ [(''/bin/sh'', [''-c'', join '' '' args])]\<rparr>"
  obtain r t where t: "run_state (on_cw (cc_shell X (join '' '' args))) ?s = (r, t)" by (rule prod.exhaust)
  have rt: "executed t = executed ?s" using keepsD_run [OF keeps_on_cw [OF executed_blind] _ t] by simp
  have "keeps (\<lambda>s. executed s = executed t) (answer_shell X r)"
    unfolding answer_shell_def by (cases r) (auto intro!: keep_intros keeps_send executed_blind)
  from keepsD [OF this, of t] show ?thesis using t rt unfolding p run_shell_cmd_def by simp
qed

lemma command_text_ascii: "is_word uid \<Longrightarrow> list_all (cont 0x20 0x7E) cmd \<Longrightarrow> list_all (cont 0x20 0x7E) (command_text uid cmd)"
  by (auto simp: command_text_def is_word_def list_all_iff cont_def)

lemma ascii_lossy: "list_all (cont 0x20 0x7E) s \<Longrightarrow> lossy s = s"
proof -
  assume "list_all (cont 0x20 0x7E) s"
  then have "list_all (cont 0 0x7F) s" by (auto simp: list_all_iff cont_def)
  then show ?thesis using utf8_ascii [of s "[]"] lossy_valid by simp
qed

lemma ascii_line: "list_all (cont 0x20 0x7E) s \<Longrightarrow> s \<noteq> [] \<Longrightarrow> str_lines s = [s]"
proof -
  assume a: "list_all (cont 0x20 0x7E) s" "s \<noteq> []"
  have "\<not> cont 0x20 0x7E nl" "\<not> cont 0x20 0x7E (CHR 0x0D)" by code_simp+
  with a have "nl \<notin> set s" "last s \<noteq> CHR 0x0D" using last_in_set [of s] unfolding list_all_iff by metis+
  with a(2) show ?thesis by (simp add: str_lines_def strip_cr_def)
qed

text \<open>A session that gets a command in one piece.\<close>

lemma session_command:
  assumes "is_word uid" and "list_all (cont 0x20 0x7E) cmd" and "length (command_text uid cmd) \<le> BUFFER_SIZE"
    and "input s = Inr (command_text uid cmd) # rest"
  shows "snd (run_state (session_turn X cfg CanRead) s)
    = snd (run_state (process_command X cfg (trim (command_text uid cmd))) (s\<lparr>input := rest\<rparr>))"
proof -
  let ?c = "command_text uid cmd"
  have c: "?c \<noteq> []" "lossy ?c = ?c" "str_lines ?c = [?c]"
    using command_text_ascii [OF assms(1,2)] by (simp add: command_text_def, (rule ascii_lossy ascii_line; simp add: command_text_def)+)
  have t: "trim ?c \<noteq> []" "starts_with ''uid:'' (trim ?c)" by (simp_all add: trim_command [OF assms(1)] starts_with_def)
  have r: "run_state (read_some BUFFER_SIZE) s = (Inr ?c, s\<lparr>input := rest\<rparr>)" using assms(3,4) by (simp add: read_some_def)
  show ?thesis using c t r
    by (simp add: session_turn_def session_line_def Let_def split: prod.splits)
qed

end
