(* ===== verification/Cli_Server.thy ===== *)
theory Cli_Server
  imports Cli_Client Panic
begin

text \<open>
  The command line server: \<^verbatim>\<open>crates/agent_manager/src/agent_cli_server.rs\<close>. It accepts agents, lets an operator select one of
  them, sends it commands and files and stores the files it sends.

  The server runs one task per connection, one per line of the console and the loop that accepts both. A
  task runs from one event to the next in one step; what the locks add is kept: a task that waits for
  a lock that is never given back gets no further (the value \<open>None\<close>, with the monad of theory \<open>Panic\<close>),
  and the locks that it holds meanwhile are held from then on. Files and connections are parameters.
\<close>

section \<open>State\<close>

definition HISTORY_SIZE :: nat where "HISTORY_SIZE = 50"

record server_client =
  sc_uid :: "string option"
  sc_addr :: string

text \<open>\<open>sx_values\<close> is the order in which the hash map gives its entries, \<open>sx_send\<close> writes to the connection of
  a client.\<close>

record 'w server_ext =
  sx_files :: "'w cli_ext"
  sx_send :: "nat \<Rightarrow> string \<Rightarrow> 'w \<Rightarrow> unit res \<times> 'w"
  sx_flush :: "nat \<Rightarrow> 'w \<Rightarrow> unit res \<times> 'w"
  sx_values :: "(nat \<times> server_client) list \<Rightarrow> (nat \<times> server_client) list"

text \<open>\<open>sv_accepted\<close> are the connections whose TLS handshake runs, \<open>sv_joining\<close> those whose reading task was started but
  which are not in the map yet, \<open>sv_reading\<close> the reading tasks with what they have still to read, \<open>sv_wire\<close> what was
  written, and to whom. The last six fields tell which locks are held for ever, whether the loop of the
  server runs, and whether the process has ended.\<close>

record 'w server_state = "'w cli_state" +
  sv_clients :: "(nat \<times> server_client) list"
  sv_current :: "nat option"
  sv_next_id :: nat
  sv_history :: "string list"
  sv_accepted :: "(nat \<times> string) list"
  sv_joining :: "(nat \<times> string) list"
  sv_reading :: "(nat \<times> string res list) list"
  sv_wire :: "(nat \<times> string) list"
  sv_prompt :: string
  sv_current_held :: bool
  sv_clients_held :: bool
  sv_history_held :: bool
  sv_serving :: bool
  sv_exited :: bool

type_synonym 'w serve = "('w server_state, unit option) state"

definition server_start :: "'w \<Rightarrow> 'w server_state" where
  "server_start w = \<lparr>cw = w, input = [], sent = [], saved = [], sv_clients = [], sv_current = None, sv_next_id = 0, sv_history = [],
     sv_accepted = [], sv_joining = [], sv_reading = [], sv_wire = [], sv_prompt = ''> '', sv_current_held = False, sv_clients_held = False,
     sv_history_held = False, sv_serving = True, sv_exited = False\<rparr>"

definition conn :: "'w server_ext \<Rightarrow> nat \<Rightarrow> 'w cli_ext" where
  "conn X i = (sx_files X)\<lparr>cx_send := sx_send X i, cx_flush := sx_flush X i\<rparr>"

section \<open>Locks\<close>

definition lock_current :: "'w serve" where
  "lock_current = State (\<lambda>s. (if sv_current_held s then None else Some (), s))"

definition lock_clients :: "'w serve" where
  "lock_clients = State (\<lambda>s. (if sv_clients_held s then None else Some (), s))"

definition lock_history :: "'w serve" where
  "lock_history = State (\<lambda>s. (if sv_history_held s then None else Some (), s))"

text \<open>A task that stops for ever in \<open>m\<close> while it holds a lock.\<close>

definition holding :: "('w server_state \<Rightarrow> 'w server_state) \<Rightarrow> ('w server_state, 'a option) state \<Rightarrow> ('w server_state, 'a option) state" where
  "holding mark m = State (\<lambda>s. case run_state m s of (None, t) \<Rightarrow> (None, mark t) | (Some x, t) \<Rightarrow> (Some x, t))"

definition hold_clients :: "'w server_state \<Rightarrow> 'w server_state" where "hold_clients s = s\<lparr>sv_clients_held := True\<rparr>"
definition hold_history :: "'w server_state \<Rightarrow> 'w server_state" where "hold_history s = s\<lparr>sv_history_held := True\<rparr>"

definition lock_both :: "'w serve" where
  "lock_both = bindP lock_clients (\<lambda>_. holding hold_clients lock_current)"

section \<open>Prompt and connections\<close>

definition prompt_text :: "'w server_state \<Rightarrow> string" where
  "prompt_text s =
     (case sv_current s of
        None \<Rightarrow> []
      | Some i \<Rightarrow> (case map_of (sv_clients s) i of None \<Rightarrow> [] | Some c \<Rightarrow> opt_or ''?'' (sc_uid c)))"

definition print_prompt :: "'w serve" where
  "print_prompt =
     bindP lock_current (\<lambda>_.
     bindP (okP (gets sv_current)) (\<lambda>cur.
     bindP (if cur = None then retP () else lock_clients) (\<lambda>_.
       okP (modify (\<lambda>s. s\<lparr>sv_prompt := prompt_text s @ ''> ''\<rparr>)))))"

text \<open>What is written by \<open>m\<close> goes to client \<open>i\<close>.\<close>

definition to_client :: "nat \<Rightarrow> ('w server_state, 'a) state \<Rightarrow> ('w server_state, 'a) state" where
  "to_client i m = do {
     n \<leftarrow> gets (\<lambda>s. length (sent s));
     r \<leftarrow> m;
     modify (\<lambda>s. if length (sent s) \<le> n then s else s\<lparr>sv_wire := sv_wire s @ [(i, drop n (sent s))]\<rparr>);
     State_Monad.return r
   }"

definition server_write :: "'w server_ext \<Rightarrow> nat \<Rightarrow> string \<Rightarrow> ('w server_state, unit res) state" where
  "server_write X i bs = to_client i (send (conn X i) bs)"

definition remove_client :: "nat \<Rightarrow> 'w server_state \<Rightarrow> 'w server_state" where
  "remove_client i s = s\<lparr>sv_clients := AList.delete i (sv_clients s)\<rparr>"

section \<open>The console\<close>

definition selected :: "'w server_state \<Rightarrow> (nat \<times> string) option" where
  "selected s =
     (case sv_current s of
        None \<Rightarrow> None
      | Some i \<Rightarrow> (case map_of (sv_clients s) i of None \<Rightarrow> None | Some c \<Rightarrow> Some (i, opt_or [] (sc_uid c))))"

text \<open>A command for the selected client. When it cannot be written the client is forgotten, but not deselected.\<close>

definition deliver :: "'w server_ext \<Rightarrow> nat \<Rightarrow> string \<Rightarrow> 'w serve" where
  "deliver X i bs =
     bindP lock_clients (\<lambda>_.
     bindP (okP (server_write X i bs)) (\<lambda>r.
       case r of
         Inl _ \<Rightarrow> bindP lock_clients (\<lambda>_. okP (modify (remove_client i)))
       | Inr _ \<Rightarrow> bindP (okP (on_cw (cx_flush (conn X i)))) (\<lambda>_. retP ())))"

definition send_selected :: "'w server_ext \<Rightarrow> (string \<Rightarrow> string) \<Rightarrow> 'w serve" where
  "send_selected X text =
     bindP lock_both (\<lambda>_.
     bindP (okP (gets selected)) (\<lambda>sel. case sel of None \<Rightarrow> retP () | Some (i, uid) \<Rightarrow> deliver X i (text uid)))"

datatype console_cmd =
    History | ShowUid string | SetUid string string | ListClients | Select string | SendFile string string | GetFile string string
  | Rkill | GetKernelSrc | Deselect | Quit | Help | Remote

definition console_command :: "string list \<Rightarrow> console_cmd" where
  "console_command parts =
     (case parts of
        [a] \<Rightarrow>
          if a \<in> {''history'', ''h''} then History
          else if a = ''list'' then ListClients
          else if a = ''rkill'' then Rkill
          else if a = ''get_kernel_src'' then GetKernelSrc
          else if a \<in> {''clear'', ''deselect''} then Deselect
          else if a \<in> {''exit'', ''quit'', ''bye''} then Quit
          else if a \<in> {''help'', ''?''} then Help
          else Remote
      | [a, b] \<Rightarrow> if a \<in> {''select'', ''use''} then Select b else Remote
      | [a, b, c] \<Rightarrow>
          if a = ''set'' \<and> b = ''uid'' then ShowUid c
          else if a = ''send_file'' then SendFile b c
          else if a = ''get_file'' then GetFile b c
          else Remote
      | [a, b, c, d] \<Rightarrow> if a = ''set'' \<and> b = ''uid'' then SetUid c d else Remote
      | _ \<Rightarrow> Remote)"

definition parse_usize :: "string \<Rightarrow> nat option" where
  "parse_usize = parse_uint 18446744073709551615"

definition select_if_none :: "nat \<Rightarrow> 'w server_state \<Rightarrow> 'w server_state" where
  "select_if_none i s = (if sv_current s = None then s\<lparr>sv_current := Some i\<rparr> else s)"

definition set_uid :: "nat \<Rightarrow> string \<Rightarrow> 'w server_state \<Rightarrow> 'w server_state" where
  "set_uid i uid s =
     (case map_of (sv_clients s) i of
        None \<Rightarrow> s
      | Some c \<Rightarrow> s\<lparr>sv_clients := AList.update i (c\<lparr>sc_uid := Some uid\<rparr>) (sv_clients s)\<rparr>)"

definition cmd_show_uid :: "string \<Rightarrow> 'w serve" where
  "cmd_show_uid id_str =
     (case parse_usize id_str of
        None \<Rightarrow> retP ()
      | Some i \<Rightarrow>
          bindP lock_clients (\<lambda>_.
          bindP (okP (gets (\<lambda>s. map_of (sv_clients s) i))) (\<lambda>c.
            if c = None \<or> sc_uid (the c) = None then retP ()
            else bindP (holding hold_clients lock_current) (\<lambda>_. okP (modify (select_if_none i))))))"

definition cmd_set_uid :: "string \<Rightarrow> string \<Rightarrow> 'w serve" where
  "cmd_set_uid id_str uid =
     (case parse_usize id_str of
        None \<Rightarrow> retP ()
      | Some i \<Rightarrow>
          bindP lock_clients (\<lambda>_.
          bindP (okP (gets (\<lambda>s. map_of (sv_clients s) i))) (\<lambda>c.
            if c = None then retP ()
            else
              bindP (okP (modify (set_uid i uid))) (\<lambda>_.
              bindP (holding hold_clients lock_current) (\<lambda>_. okP (modify (select_if_none i)))))))"

definition pick_client :: "'w server_ext \<Rightarrow> string \<Rightarrow> 'w server_state \<Rightarrow> nat option" where
  "pick_client X target s =
     (case parse_usize target of
        Some i \<Rightarrow> if map_of (sv_clients s) i \<noteq> None then Some i else None
      | None \<Rightarrow> map_option fst (find (\<lambda>(i, c). sc_uid c = Some target) (sx_values X (sv_clients s))))"

definition cmd_select :: "'w server_ext \<Rightarrow> string \<Rightarrow> 'w serve" where
  "cmd_select X target =
     bindP lock_both (\<lambda>_. okP (modify (\<lambda>s.
       case pick_client X target s of None \<Rightarrow> s | Some i \<Rightarrow> s\<lparr>sv_current := Some i\<rparr>)))"

definition cmd_send_file :: "'w server_ext \<Rightarrow> string \<Rightarrow> string \<Rightarrow> 'w serve" where
  "cmd_send_file X src dst =
     bindP lock_current (\<lambda>_.
     bindP (okP (gets sv_current)) (\<lambda>cur.
       case cur of
         None \<Rightarrow> retP ()
       | Some i \<Rightarrow>
           bindP lock_clients (\<lambda>_.
           bindP (okP (gets (\<lambda>s. map_of (sv_clients s) i))) (\<lambda>c.
             if c = None then retP ()
             else bindP (okP (to_client i (send_file_to_client_with_writer (conn X i) src dst))) (\<lambda>_. retP ())))))"

text \<open>Where the file of \<^verbatim>\<open>get_file\<close> goes on the server's host; \<open>None\<close> is one of the messages after which the command
  returns without a prompt.\<close>

definition get_file_dst :: "'w server_ext \<Rightarrow> string \<Rightarrow> string \<Rightarrow> 'w server_state \<Rightarrow> string option" where
  "get_file_dst X src dst s =
     (case path_file_name src of
        None \<Rightarrow> None
      | Some n \<Rightarrow>
          (case cx_metadata (sx_files X) dst (cw s) of
             Inr m \<Rightarrow> Some (if fm_is_dir m then path_join dst n else dst)
           | Inl _ \<Rightarrow>
               (case path_parent dst of
                  None \<Rightarrow> None
                | Some p \<Rightarrow> (case cx_metadata (sx_files X) p (cw s) of Inr _ \<Rightarrow> Some dst | Inl _ \<Rightarrow> None))))"

definition cmd_exit :: "'w serve" where
  "cmd_exit =
     bindP lock_current (\<lambda>_.
     bindP (okP (modify (\<lambda>s. s\<lparr>sv_current := None\<rparr>))) (\<lambda>_.
     bindP lock_clients (\<lambda>_. okP (modify (\<lambda>s. s\<lparr>sv_clients := [], sv_exited := True\<rparr>)))))"

text \<open>The result tells whether the prompt follows.\<close>

definition console_action :: "'w server_ext \<Rightarrow> string \<Rightarrow> ('w server_state, bool option) state" where
  "console_action X cmd =
     (let prompt = (\<lambda>m. bindP m (\<lambda>_. retP True)) in
      case console_command (split_whitespace cmd) of
        History \<Rightarrow> prompt lock_history
      | ShowUid i \<Rightarrow> prompt (cmd_show_uid i)
      | SetUid i uid \<Rightarrow> prompt (cmd_set_uid i uid)
      | ListClients \<Rightarrow> prompt lock_both
      | Select target \<Rightarrow> prompt (cmd_select X target)
      | SendFile src dst \<Rightarrow> prompt (cmd_send_file X src dst)
      | GetFile src dst \<Rightarrow>
          bindP (okP (gets (get_file_dst X src dst))) (\<lambda>d.
            case d of
              None \<Rightarrow> retP False
            | Some path \<Rightarrow> prompt (send_selected X (\<lambda>uid. ''uid:'' @ uid @ '' get_file '' @ src @ '' '' @ path)))
      | Rkill \<Rightarrow> prompt (send_selected X (\<lambda>uid. ''uid:'' @ uid @ '' rkill''))
      | GetKernelSrc \<Rightarrow> prompt (send_selected X (\<lambda>uid. ''uid:'' @ uid @ '' get_kernel_src''))
      | Deselect \<Rightarrow> prompt (bindP lock_current (\<lambda>_. okP (modify (\<lambda>s. s\<lparr>sv_current := None\<rparr>))))
      | Quit \<Rightarrow> bindP cmd_exit (\<lambda>_. retP False)
      | Help \<Rightarrow> retP True
      | Remote \<Rightarrow> prompt (send_selected X (\<lambda>uid. command_text uid cmd)))"

section \<open>The history\<close>

definition ignored_commands :: "string list" where
  "ignored_commands = [''history'', ''list'', ''clear'', ''deselect'', ''exit'', ''quit'', ''bye'', ''help'', ''?'', ''!!'']"

definition not_recorded :: "string \<Rightarrow> bool" where
  "not_recorded cmd =
     (let lower = to_lowercase (trim cmd) in
      lower = ''!!'' \<or> starts_with ''!'' lower \<and> list_all is_digit (tl lower) \<or> lower \<in> set ignored_commands)"

definition remember :: "string \<Rightarrow> string list \<Rightarrow> string list" where
  "remember cmd hist =
     (if not_recorded cmd then hist else (if HISTORY_SIZE \<le> length hist then tl hist else hist) @ [cmd])"

text \<open>The command that a line means, \<open>None\<close> when the history does not have it.\<close>

definition from_history :: "string \<Rightarrow> string list \<Rightarrow> string option" where
  "from_history clean hist =
     (if clean = ''!!'' then find (\<lambda>c. c \<noteq> ''!!'') (rev hist)
      else case parse_usize (tl clean) of
        None \<Rightarrow> Some clean
      | Some idx \<Rightarrow> if 0 < idx \<and> idx \<le> length hist then Some (hist ! (idx - 1)) else None)"

definition uses_history :: "string \<Rightarrow> bool" where
  "uses_history clean \<longleftrightarrow> clean = ''!!'' \<or> starts_with ''!'' clean \<and> parse_usize (tl clean) \<noteq> None"

definition command_of_line :: "string \<Rightarrow> ('w server_state, string option option) state" where
  "command_of_line clean =
     (if uses_history clean
      then
        bindP lock_history (\<lambda>_.
        bindP (okP (gets (\<lambda>s. from_history clean (sv_history s)))) (\<lambda>r.
          case r of
            Some c \<Rightarrow> retP (Some c)
          | None \<Rightarrow> bindP (holding hold_history print_prompt) (\<lambda>_. retP None)))
      else retP (Some clean))"

definition console_char :: "char \<Rightarrow> bool" where
  "console_char c \<longleftrightarrow> 0x21 \<le> (of_char c :: nat) \<and> (of_char c :: nat) \<le> 0x7E \<or> c \<in> {CHR 0x20, CHR 0x09, CHR 0x0A, CHR 0x0C, CHR 0x0D}"

definition handle_console :: "'w server_ext \<Rightarrow> string \<Rightarrow> 'w serve" where
  "handle_console X cmd =
     bindP (command_of_line (filter console_char cmd)) (\<lambda>c.
       case c of
         None \<Rightarrow> retP ()
       | Some run \<Rightarrow>
           bindP lock_history (\<lambda>_.
           bindP (okP (modify (\<lambda>s. s\<lparr>sv_history := remember run (sv_history s)\<rparr>))) (\<lambda>_.
           bindP (console_action X run) (\<lambda>prompt. if prompt then print_prompt else retP ()))))"

section \<open>The task of a connection\<close>

text \<open>The announcement of an agent. The first agent that announces itself is selected, whether it is in the map or
  not; one that is not in the map gets no answer.\<close>

definition client_announces :: "'w server_ext \<Rightarrow> nat \<Rightarrow> string \<Rightarrow> 'w serve" where
  "client_announces X i data =
     (case from_marker ''uid is '' data of
        None \<Rightarrow> retP ()
      | Some d \<Rightarrow>
          let uid = trim (drop 7 d) in
          bindP lock_clients (\<lambda>_.
          bindP (okP (modify (set_uid i uid))) (\<lambda>_.
          bindP lock_current (\<lambda>_.
          bindP (okP (modify (select_if_none i))) (\<lambda>_.
          bindP lock_clients (\<lambda>_.
          bindP (okP (gets (\<lambda>s. map_of (sv_clients s) i))) (\<lambda>c.
            if c = None then retP ()
            else
              bindP (okP (server_write X i (reply uid))) (\<lambda>_.
              bindP (okP (on_cw (cx_flush (conn X i)))) (\<lambda>_. retP ())))))))))"

definition client_text :: "'w server_ext \<Rightarrow> nat \<Rightarrow> string \<Rightarrow> 'w serve" where
  "client_text X i data =
     bindP lock_clients (\<lambda>_.
       if starts_with announcement data then client_announces X i data
       else if trim data = ''heartbeat'' then retP ()
       else print_prompt)"

text \<open>The end of a connection. A client of the map is removed and its task, which is this one, aborted: the task
  ends where it next has to wait, at the latest in the prompt, since the lock of the selection is held
  there. When shutting the connection down has to wait (\<open>suspended\<close>), it ends before the selection is cleared.
  A client that is not in the map is not aborted: the task waits in the prompt for the lock it holds.\<close>

definition client_ends :: "nat \<Rightarrow> bool \<Rightarrow> 'w serve" where
  "client_ends i suspended =
     bindP lock_clients (\<lambda>_.
     bindP (okP (gets (\<lambda>s. map_of (sv_clients s) i))) (\<lambda>c.
       if c \<noteq> None
       then
         bindP (okP (modify (remove_client i))) (\<lambda>_.
         if suspended then retP ()
         else bindP lock_current (\<lambda>_. okP (modify (\<lambda>s. if sv_current s = Some i then s\<lparr>sv_current := None\<rparr> else s))))
       else
         bindP lock_current (\<lambda>_. okP (modify (\<lambda>s.
           if sv_current s = Some i then s\<lparr>sv_current := None, sv_current_held := True\<rparr> else s)))))"

text \<open>One read. The result tells whether the loop goes on.\<close>

definition client_read :: "'w server_ext \<Rightarrow> nat \<Rightarrow> bool \<Rightarrow> ('w server_state, bool option) state" where
  "client_read X i suspended =
     bindP (okP (read_some BUFFER_SIZE)) (\<lambda>r.
       case r of
         Inl _ \<Rightarrow> bindP (client_ends i suspended) (\<lambda>_. retP False)
       | Inr raw \<Rightarrow>
           if raw = [] then bindP (client_ends i suspended) (\<lambda>_. retP False)
           else if from_marker FILE_START_MARKER raw \<noteq> None
           then bindP (okP (receive_file_from_bytes (sx_files X) raw)) (\<lambda>_. retP True)
           else bindP (client_text X i (lossy raw)) (\<lambda>_. retP True))"

definition client_read_loop :: "'w server_ext \<Rightarrow> nat \<Rightarrow> bool \<Rightarrow> string res list \<Rightarrow> 'w server_state \<Rightarrow> 'w server_state" where
  "client_read_loop X i suspended pieces s =
     (case run_state (client_read X i suspended) (s\<lparr>input := pieces\<rparr>) of
        (r, t) \<Rightarrow> t\<lparr>sv_reading := (if r = Some True then AList.update i (input t) (sv_reading t) else AList.delete i (sv_reading t))\<rparr>)"

section \<open>The loop of the server\<close>

definition console_line :: "string \<Rightarrow> string" where
  "console_line line = filter (\<lambda>c. 0x20 \<le> (of_char c :: nat) \<and> (of_char c :: nat) \<le> 0x7E) (strip_crs (trim line))"

datatype server_event =
    Accepted string | TlsDone nat "string res list" | TlsFailed nat | Joins nat | Reads nat bool | Line string | LinesEnd

text \<open>An accepted connection gets the next number; after the handshake its reading task starts and then the client is
  put into the map.\<close>

definition start_server :: "'w server_ext \<Rightarrow> server_event \<Rightarrow> 'w server_state \<Rightarrow> 'w server_state" where
  "start_server X ev s =
     (if sv_exited s then s
      else case ev of
        Accepted addr \<Rightarrow>
          if sv_serving s then s\<lparr>sv_accepted := sv_accepted s @ [(sv_next_id s, addr)], sv_next_id := Suc (sv_next_id s)\<rparr> else s
      | TlsDone i pieces \<Rightarrow>
          (case map_of (sv_accepted s) i of
             None \<Rightarrow> s
           | Some addr \<Rightarrow>
               s\<lparr>sv_accepted := AList.delete i (sv_accepted s), sv_reading := AList.update i pieces (sv_reading s),
                 sv_joining := sv_joining s @ [(i, addr)]\<rparr>)
      | TlsFailed i \<Rightarrow> s\<lparr>sv_accepted := AList.delete i (sv_accepted s)\<rparr>
      | Joins i \<Rightarrow>
          (case map_of (sv_joining s) i of
             None \<Rightarrow> s
           | Some addr \<Rightarrow>
               if sv_clients_held s then s
               else s\<lparr>sv_joining := AList.delete i (sv_joining s),
                      sv_clients := AList.update i \<lparr>sc_uid = None, sc_addr = addr\<rparr> (sv_clients s)\<rparr>)
      | Reads i suspended \<Rightarrow>
          (case map_of (sv_reading s) i of None \<Rightarrow> s | Some pieces \<Rightarrow> client_read_loop X i suspended pieces s)
      | Line line \<Rightarrow>
          if \<not> sv_serving s then s
          else if console_line line \<noteq> [] then snd (run_state (handle_console X (console_line line)) s)
          else (case run_state print_prompt s of (r, t) \<Rightarrow> if r = None then t\<lparr>sv_serving := False\<rparr> else t)
      | LinesEnd \<Rightarrow> if sv_serving s then s\<lparr>sv_exited := True\<rparr> else s)"

definition server_run :: "'w server_ext \<Rightarrow> server_event list \<Rightarrow> 'w server_state \<Rightarrow> 'w server_state" where
  "server_run X evs s = fold (start_server X) evs s"

section \<open>What the operations leave alone\<close>

text \<open>\<open>leads P m Q\<close>: a run of \<open>m\<close> from a state with \<open>P\<close> ends in one with \<open>Q\<close>. The rules go through a task and keep what it
  has looked up.\<close>

definition leads :: "('s \<Rightarrow> bool) \<Rightarrow> ('s, 'a) state \<Rightarrow> ('s \<Rightarrow> bool) \<Rightarrow> bool" where
  "leads P m Q \<longleftrightarrow> (\<forall>s. P s \<longrightarrow> Q (snd (run_state m s)))"

lemma leads_keeps: "keeps P m \<Longrightarrow> leads P m P"
  by (simp add: leads_def keeps_def)

lemma leads_bindP: "keeps P m \<Longrightarrow> (\<And>x. leads P (f x) Q) \<Longrightarrow> (\<And>s. P s \<Longrightarrow> Q s) \<Longrightarrow> leads P (bindP m f) Q"
  unfolding leads_def keeps_def by (simp split: prod.splits option.splits) (metis snd_conv)

lemma leads_gets: "(\<And>x. leads (\<lambda>s. P s \<and> g s = x) (f x) Q) \<Longrightarrow> leads P (bindP (okP (gets g)) f) Q"
  unfolding leads_def by simp

lemma leads_weaken: "leads P m Q \<Longrightarrow> (\<And>s. P' s \<Longrightarrow> P s) \<Longrightarrow> (\<And>s. Q s \<Longrightarrow> Q' s) \<Longrightarrow> leads P' m Q'"
  unfolding leads_def by blast

lemma keeps_holding [keep_intros]: "keeps P m \<Longrightarrow> (\<And>s. P s \<Longrightarrow> P (mark s)) \<Longrightarrow> keeps P (holding mark m)"
  unfolding keeps_def holding_def by (simp split: prod.splits option.splits) (metis snd_conv)

lemma keeps_locks [keep_intros]: "keeps P lock_current" "keeps P lock_clients" "keeps P lock_history"
  by (simp_all add: keeps_def lock_current_def lock_clients_def lock_history_def)

section \<open>Numbers and history\<close>

text \<open>The numbers of the connections are all different and below the next one, wherever they are kept; the history is
  short and has no command that is not recorded.\<close>

definition below :: "nat \<Rightarrow> (nat \<times> 'a) list \<Rightarrow> bool" where
  "below n al \<longleftrightarrow> (\<forall>i \<in> set (map fst al). i < n)"

definition apart :: "(nat \<times> 'a) list \<Rightarrow> (nat \<times> 'b) list \<Rightarrow> bool" where
  "apart xs ys \<longleftrightarrow> (\<forall>i \<in> set (map fst xs). i \<notin> set (map fst ys))"

definition server_ok :: "'w server_state \<Rightarrow> bool" where
  "server_ok s \<longleftrightarrow>
     distinct (map fst (sv_accepted s)) \<and> distinct (map fst (sv_joining s)) \<and> distinct (map fst (sv_clients s)) \<and>
     apart (sv_accepted s) (sv_joining s) \<and> apart (sv_accepted s) (sv_clients s) \<and> apart (sv_joining s) (sv_clients s) \<and>
     apart (sv_accepted s) (sv_reading s) \<and>
     below (sv_next_id s) (sv_accepted s) \<and> below (sv_next_id s) (sv_joining s) \<and> below (sv_next_id s) (sv_clients s) \<and>
     below (sv_next_id s) (sv_reading s) \<and> below (sv_next_id s) (sv_wire s) \<and> (\<forall>i. sv_current s = Some i \<longrightarrow> i < sv_next_id s) \<and>
     length (sv_history s) \<le> HISTORY_SIZE \<and> (\<forall>c \<in> set (sv_history s). \<not> not_recorded c)"

definition known :: "nat \<Rightarrow> 'w server_state \<Rightarrow> bool" where
  "known i s \<longleftrightarrow> server_ok s \<and> i < sv_next_id s"

lemma map_of_keys: "map_of al k = Some v \<Longrightarrow> k \<in> set (map fst al)"
  by (force dest: map_of_SomeD)

lemma below_simps [simp]:
  "below n []" "below n (al @ bl) \<longleftrightarrow> below n al \<and> below n bl" "below n ((k, v) # al) \<longleftrightarrow> k < n \<and> below n al"
  "below n (AList.update k v al) \<longleftrightarrow> k < n \<and> below n al"
  by (auto simp: below_def update_keys)

lemma below_delete: "below n al \<Longrightarrow> below n (AList.delete k al)"
  by (auto simp: below_def delete_keys)

lemma belowD: "below n al \<Longrightarrow> k \<in> set (map fst al) \<Longrightarrow> k < n"
  by (auto simp: below_def)

lemma below_fresh: "below n al \<Longrightarrow> (n, v) \<notin> set al"
  by (auto simp: below_def)

lemma below_Suc: "below n al \<Longrightarrow> below (Suc n) al"
  by (auto simp: below_def)

lemma apart_delete: "apart al bl \<Longrightarrow> apart (AList.delete k al) bl" "apart al bl \<Longrightarrow> apart al (AList.delete k bl)"
  by (auto simp: apart_def delete_keys)

lemma apart_moved: "apart al bl \<Longrightarrow> apart (AList.delete k al) (bl @ [(k, v)])" "apart al bl \<Longrightarrow> apart (AList.delete k al) (AList.update k v bl)"
  by (auto simp: apart_def delete_keys update_keys)

lemma apart_update: "apart al bl \<Longrightarrow> k \<notin> fst ` set al \<Longrightarrow> apart al (AList.update k v bl)"
  by (auto simp: apart_def update_keys)

lemma apart_snoc: "apart (al @ [(k, v)]) bl \<longleftrightarrow> apart al bl \<and> k \<notin> fst ` set bl"
  by (auto simp: apart_def)

lemma apartD: "apart al bl \<Longrightarrow> map_of al k = Some v \<Longrightarrow> k \<notin> fst ` set bl" "apart al bl \<Longrightarrow> map_of bl k = Some w \<Longrightarrow> k \<notin> fst ` set al"
  by (metis apart_def map_of_keys set_map)+

lemma below_map_of: "below n al \<Longrightarrow> map_of al k = Some v \<Longrightarrow> k < n"
  by (auto simp: below_def dest!: map_of_SomeD)

lemma distinct_keys_delete: "distinct (map fst al) \<Longrightarrow> distinct (map fst (AList.delete k al))"
  by (simp add: delete_keys distinct_removeAll)

lemma server_ok_simps [simp]:
  "server_ok (s\<lparr>sv_prompt := p\<rparr>) = server_ok s" "server_ok (hold_clients s) = server_ok s" "server_ok (hold_history s) = server_ok s"
  "server_ok (s\<lparr>sv_current := None, sv_current_held := b\<rparr>) = server_ok (s\<lparr>sv_current := None\<rparr>)"
  "server_ok (s\<lparr>sv_clients := cs, sv_exited := e\<rparr>) = server_ok (s\<lparr>sv_clients := cs\<rparr>)"
  "server_ok (s\<lparr>sv_serving := b\<rparr>) = server_ok s" "server_ok (s\<lparr>sv_exited := b\<rparr>) = server_ok s"
  by (simp_all add: server_ok_def hold_clients_def hold_history_def)

lemma known_simps [simp]: "known i (hold_clients s) = known i s" "known i (hold_history s) = known i s"
  by (simp_all add: known_def hold_clients_def hold_history_def server_ok_def)

lemma server_ok_blind: "conn_blind server_ok" "conn_blind (known i)"
  by (simp_all add: conn_blind_def server_ok_def known_def)

lemma ok_no_current: "server_ok s \<Longrightarrow> server_ok (s\<lparr>sv_current := None\<rparr>)"
  by (simp add: server_ok_def)

lemma ok_no_clients: "server_ok s \<Longrightarrow> server_ok (s\<lparr>sv_clients := []\<rparr>)"
  by (simp add: server_ok_def apart_def)

lemma ok_current: "known i s \<Longrightarrow> server_ok (s\<lparr>sv_current := Some i\<rparr>)"
  by (simp add: server_ok_def known_def)

lemma ok_remove_client: "server_ok s \<Longrightarrow> server_ok (remove_client i s)"
  by (simp add: server_ok_def remove_client_def below_delete apart_delete distinct_keys_delete)

lemma server_ok_same_keys:
  "server_ok s \<Longrightarrow> map fst cs = map fst (sv_clients s) \<Longrightarrow> server_ok (s\<lparr>sv_clients := cs\<rparr>)"
  unfolding server_ok_def below_def apart_def by (simp flip: set_map)

lemma server_ok_client: "server_ok s \<Longrightarrow> map_of (sv_clients s) i = Some c \<Longrightarrow> known i s"
  unfolding known_def server_ok_def below_def by (blast dest: map_of_keys)

lemma ok_set_uid: "server_ok s \<Longrightarrow> server_ok (set_uid i uid s)"
proof (cases "map_of (sv_clients s) i")
  case (Some c)
  assume "server_ok s"
  moreover have "map fst (AList.update i (c\<lparr>sc_uid := Some uid\<rparr>) (sv_clients s)) = map fst (sv_clients s)"
    using map_of_keys [OF Some] by (simp add: update_keys)
  ultimately show ?thesis using Some server_ok_same_keys by (simp add: set_uid_def)
qed (simp add: set_uid_def)

lemma known_steps:
  "known i s \<Longrightarrow> known i (set_uid i uid s)" "known i s \<Longrightarrow> known i (select_if_none i s)" "known i s \<Longrightarrow> known i (remove_client i s)"
  using ok_set_uid [of s] ok_remove_client [of s] ok_current [of i s]
  by (auto simp: known_def set_uid_def select_if_none_def remove_client_def split: option.splits)

lemma server_ok_selected: "server_ok s \<Longrightarrow> selected s = Some (i, uid) \<Longrightarrow> known i s"
  by (auto simp: selected_def split: option.splits intro: server_ok_client)

lemma set_tl: "set (tl h) \<subseteq> set h"
  by (cases h) auto

lemma server_ok_history:
  assumes "server_ok s"
  shows "server_ok (s\<lparr>sv_history := remember c (sv_history s)\<rparr>)"
proof -
  have "length (remember c h) \<le> HISTORY_SIZE \<and> (\<forall>d \<in> set (remember c h). \<not> not_recorded d)"
    if "length h \<le> HISTORY_SIZE" "\<forall>d \<in> set h. \<not> not_recorded d" for h
    using that set_tl [of h] by (auto simp: remember_def HISTORY_SIZE_def)
  from this [of "sv_history s"] assms show ?thesis unfolding server_ok_def by simp
qed

lemma known_ok: "known i s \<Longrightarrow> server_ok s"
  by (simp add: known_def)

lemma keeps_to_client: "keeps (known i) m \<Longrightarrow> keeps (known i) (to_client i m)"
  unfolding to_client_def by (intro keep_intros) (auto simp: known_def server_ok_def)

lemma keeps_server_write: "keeps (known i) (server_write X i bs)"
  unfolding server_write_def by (intro keeps_to_client keeps_send server_ok_blind)

lemma keeps_lock_both: "(\<And>s. P s \<Longrightarrow> P (hold_clients s)) \<Longrightarrow> keeps P lock_both"
  unfolding lock_both_def by (intro keep_intros) auto

lemma keeps_print_prompt: "(\<And>s p. P s \<Longrightarrow> P (s\<lparr>sv_prompt := p\<rparr>)) \<Longrightarrow> keeps P print_prompt"
  unfolding print_prompt_def by (intro keep_intros) auto

lemma ok_print_prompt: "keeps server_ok print_prompt"
  by (rule keeps_print_prompt) simp

text \<open>The operations of the console and of a connection.\<close>

lemma known_flush: "keeps (known i) (on_cw f)"
  by (intro keeps_on_cw server_ok_blind)

lemma leads_known: "keeps (known i) m \<Longrightarrow> leads (known i) m server_ok"
  by (auto simp: leads_def keeps_def known_def)

lemma ok_deliver: "keeps (known i) (deliver X i bs)"
  unfolding deliver_def by (intro keep_intros keeps_server_write known_flush known_steps)

lemma ok_send_selected: "keeps server_ok (send_selected X text)"
proof -
  have "leads (\<lambda>s. server_ok s \<and> selected s = sel) (case sel of None \<Rightarrow> retP () | Some (i, uid) \<Rightarrow> deliver X i (text uid)) server_ok" for sel
    using leads_known [OF ok_deliver [of _ X]] by (cases sel) (auto simp: leads_def dest: server_ok_selected)
  then have "leads server_ok (send_selected X text) server_ok"
    unfolding send_selected_def by (intro leads_bindP leads_gets keeps_lock_both) auto
  then show ?thesis by (simp add: leads_def keeps_def)
qed

lemma ok_select: "keeps server_ok (cmd_select X target)" if "\<And>cs. set (sx_values X cs) \<subseteq> set cs"
proof -
  have "known i s" if "server_ok s" "pick_client X target s = Some i" for s i
  proof (cases "parse_usize target")
    case None
    with that(2) obtain c where "find (\<lambda>(i, c). sc_uid c = Some target) (sx_values X (sv_clients s)) = Some (i, c)"
      by (auto simp: pick_client_def)
    then have "(i, c) \<in> set (sx_values X (sv_clients s))" by (force simp: find_Some_iff in_set_conv_nth)
    with \<open>\<And>cs. set (sx_values X cs) \<subseteq> set cs\<close> [of "sv_clients s"] have "i \<in> set (map fst (sv_clients s))" by force
    with that(1) show ?thesis unfolding known_def server_ok_def below_def by blast
  qed (use that in \<open>auto simp: pick_client_def intro: server_ok_client split: if_splits\<close>)
  then show ?thesis unfolding cmd_select_def
    by (intro keep_intros keeps_lock_both) (auto split: option.splits intro: ok_current)
qed

lemma ok_select_client: "server_ok s \<Longrightarrow> map_of (sv_clients s) i = Some c \<Longrightarrow> server_ok (select_if_none i s)"
  using server_ok_client known_steps(2) known_ok by blast

lemma ok_select_renamed: "server_ok s \<Longrightarrow> map_of (sv_clients s) i = Some c \<Longrightarrow> server_ok (select_if_none i (set_uid i uid s))"
  using server_ok_client known_steps(1,2) known_ok by blast

lemma ok_uid_commands: "keeps server_ok (cmd_show_uid a)" "keeps server_ok (cmd_set_uid a uid)"
  unfolding keeps_def cmd_show_uid_def cmd_set_uid_def
  by (auto simp: lock_clients_def lock_current_def holding_def ok_select_client ok_select_renamed ok_set_uid split: option.splits)

lemma ok_send_file: "keeps server_ok (cmd_send_file X src dst)"
proof -
  have "leads (\<lambda>s. known i s) (bindP (okP (to_client i (send_file_to_client_with_writer (conn X i) src dst))) (\<lambda>_. retP ())) server_ok" for i
    by (intro leads_known keep_intros keeps_to_client keeps_send_to_client server_ok_blind)
  then have "leads (\<lambda>s. (server_ok s \<and> sv_current s = cur) \<and> map_of (sv_clients s) i = c)
      (if c = None then retP () else bindP (okP (to_client i (send_file_to_client_with_writer (conn X i) src dst))) (\<lambda>_. retP ())) server_ok" for cur i c
    by (cases c) (auto simp: leads_def intro: server_ok_client)
  then have "leads (\<lambda>s. server_ok s \<and> sv_current s = cur)
      (case cur of None \<Rightarrow> retP ()
       | Some i \<Rightarrow> bindP lock_clients (\<lambda>_. bindP (okP (gets (\<lambda>s. map_of (sv_clients s) i))) (\<lambda>c.
           if c = None then retP ()
           else bindP (okP (to_client i (send_file_to_client_with_writer (conn X i) src dst))) (\<lambda>_. retP ())))) server_ok" for cur
    by (cases cur) (simp add: leads_def, simp, intro leads_bindP leads_gets keeps_locks, auto)
  then have "leads server_ok (cmd_send_file X src dst) server_ok"
    unfolding cmd_send_file_def by (intro leads_bindP leads_gets keeps_locks) auto
  then show ?thesis by (simp add: leads_def keeps_def)
qed

lemma ok_exit: "keeps server_ok cmd_exit"
  unfolding cmd_exit_def by (intro keep_intros) (auto intro: ok_no_current ok_no_clients)

lemma ok_console_action:
  assumes "\<And>cs. set (sx_values X cs) \<subseteq> set cs"
  shows "keeps server_ok (console_action X cmd)"
  unfolding console_action_def Let_def
  by (cases "console_command (split_whitespace cmd)")
    (auto intro!: keep_intros ok_select [OF assms] ok_uid_commands ok_send_file ok_exit ok_send_selected keeps_lock_both ok_no_current)

lemma ok_handle_console:
  assumes "\<And>cs. set (sx_values X cs) \<subseteq> set cs"
  shows "keeps server_ok (handle_console X cmd)"
  unfolding handle_console_def command_of_line_def
  by (intro keep_intros ok_console_action [OF assms] ok_print_prompt) (auto intro: server_ok_history)

lemma known_deselected: "known i s \<Longrightarrow> known i (s\<lparr>sv_current := None\<rparr>)" "known i s \<Longrightarrow> known i (s\<lparr>sv_current := None, sv_current_held := True\<rparr>)"
  by (simp_all add: known_def ok_no_current)

lemma ok_client_announces: "keeps (known i) (client_announces X i data)"
  unfolding client_announces_def Let_def by (intro keep_intros keeps_server_write known_flush known_steps)

lemma ok_client_text: "keeps (known i) (client_text X i data)"
  unfolding client_text_def by (intro keep_intros ok_client_announces keeps_print_prompt) (simp add: known_def)

lemma ok_client_ends: "keeps (known i) (client_ends i b)"
  unfolding client_ends_def by (intro keep_intros known_steps) (simp_all add: known_deselected)

lemma ok_client_read: "keeps (known i) (client_read X i b)"
  unfolding client_read_def
  by (intro keep_intros ok_client_ends ok_client_text keeps_receive keeps_reads server_ok_blind)

lemma ok_client_read_loop:
  assumes "server_ok s" and "map_of (sv_reading s) i = Some pieces"
  shows "server_ok (client_read_loop X i b pieces s)"
proof -
  have i: "i \<in> set (map fst (sv_reading s))" using map_of_keys [OF assms(2)] .
  with assms(1) have k: "known i (s\<lparr>input := pieces\<rparr>)" unfolding known_def server_ok_def using below_map_of [OF _ assms(2)] by simp
  obtain r t where rt: "run_state (client_read X i b) (s\<lparr>input := pieces\<rparr>) = (r, t)" by (rule prod.exhaust)
  have t: "known i t" using keepsD_run [OF ok_client_read k rt] .
  have a: "sv_accepted t = sv_accepted s"
  proof -
    have "keeps (\<lambda>s'. sv_accepted s' = sv_accepted s) (client_read X i b)"
      unfolding client_read_def client_text_def client_announces_def client_ends_def Let_def server_write_def to_client_def
      by (intro keep_intros keeps_receive keeps_reads keeps_print_prompt keeps_send keeps_on_cw)
        (auto simp: conn_blind_def set_uid_def select_if_none_def remove_client_def split: option.splits)
    from keepsD_run [OF this _ rt] show ?thesis by simp
  qed
  have "i \<notin> set (map fst (sv_accepted s))" using assms(1) i unfolding server_ok_def apart_def by blast
  then have "apart (sv_accepted t) (AList.update i x (sv_reading t))" for x
    using t a unfolding known_def server_ok_def by (simp add: apart_update)
  then show ?thesis using t rt unfolding client_read_loop_def known_def server_ok_def
    by (simp add: below_delete apart_delete)
qed

lemma ok_start_server:
  assumes "\<And>cs. set (sx_values X cs) \<subseteq> set cs" and "server_ok s"
  shows "server_ok (start_server X ev s)"
proof (cases ev)
  case (Accepted addr)
  with assms(2) show ?thesis unfolding start_server_def
    by (auto simp: server_ok_def apart_def below_Suc less_SucI below_fresh)
next
  case (TlsDone i pieces)
  show ?thesis
  proof (cases "map_of (sv_accepted s) i")
    case (Some addr)
    with assms(2) have "i \<notin> fst ` set (sv_joining s)" "i \<notin> fst ` set (sv_clients s)" "i < sv_next_id s"
      unfolding server_ok_def using apartD(1) [OF _ Some] below_map_of [OF _ Some] by blast+
    with assms(2) TlsDone Some show ?thesis unfolding start_server_def
      by (simp add: server_ok_def below_delete apart_delete apart_moved apart_snoc distinct_keys_delete)
  qed (use assms(2) TlsDone in \<open>simp add: start_server_def\<close>)
next
  case (TlsFailed i)
  with assms(2) show ?thesis unfolding start_server_def
    by (simp add: server_ok_def below_delete apart_delete distinct_keys_delete)
next
  case (Joins i)
  show ?thesis
  proof (cases "map_of (sv_joining s) i")
    case (Some addr)
    with assms(2) have "i \<notin> fst ` set (sv_accepted s)" "i < sv_next_id s"
      unfolding server_ok_def using apartD(2) [OF _ Some] below_map_of [OF _ Some] by blast+
    with assms(2) Joins Some show ?thesis unfolding start_server_def
      by (simp add: server_ok_def below_delete apart_delete apart_moved apart_update distinct_keys_delete distinct_update)
  qed (use assms(2) Joins in \<open>simp add: start_server_def\<close>)
next
  case (Reads i b)
  with assms(2) show ?thesis by (simp add: start_server_def ok_client_read_loop split: option.splits)
next
  case (Line l)
  with assms keepsD [OF ok_handle_console [OF assms(1)] assms(2)] keepsD [OF ok_print_prompt assms(2)]
  show ?thesis by (auto simp: start_server_def split: prod.splits)
next
  case LinesEnd
  with assms(2) show ?thesis by (simp add: start_server_def)
qed

lemma server_ok_start: "server_ok (server_start w)"
  by (simp add: server_ok_def server_start_def apart_def HISTORY_SIZE_def)

lemma repeat_last:
  assumes "\<forall>c \<in> set h. \<not> not_recorded c"
  shows "from_history ''!!'' h = (if h = [] then None else Some (last h))"
proof (cases h rule: rev_cases)
  case (snoc h' c)
  have "not_recorded ''!!''" by code_simp
  with assms snoc have "c \<noteq> ''!!''" by auto
  then show ?thesis by (simp add: from_history_def snoc)
qed (simp add: from_history_def)

text \<open>C21: in every run of the server the numbers of connections are different from each other and from the next one
  to be given, wherever they are kept, nothing is written to a connection that was not accepted, the history has at
  most fifty commands, and \<^verbatim>\<open>!!\<close> repeats the last recorded one.\<close>

theorem server_numbers_and_history:
  fixes w :: 'w
  assumes "\<And>cs. set (sx_values X cs) \<subseteq> set cs" and "t = server_run X evs (server_start w)"
  shows "server_ok t \<and> from_history ''!!'' (sv_history t) = (if sv_history t = [] then None else Some (last (sv_history t)))"
proof -
  have "server_ok (fold (start_server X) evs s)" if "server_ok s" for s
    using that by (induction evs arbitrary: s) (simp_all add: ok_start_server [OF assms(1)])
  then have "server_ok t" unfolding assms(2) server_run_def by (simp add: server_ok_start)
  moreover from this have "\<forall>c \<in> set (sv_history t). \<not> not_recorded c" by (simp add: server_ok_def)
  ultimately show ?thesis using repeat_last by blast
qed

section \<open>A selection that is never given back\<close>

definition blocked :: "(nat \<times> string) list \<Rightarrow> 'w server_state \<Rightarrow> bool" where
  "blocked w s \<longleftrightarrow> sv_current_held s \<and> \<not> sv_exited s \<and> sv_wire s = w"

lemma blocked_blind: "conn_blind (blocked w)"
  by (simp add: conn_blind_def blocked_def)

lemma blocked_simps:
  "blocked w s \<Longrightarrow> blocked w (hold_clients s)" "blocked w s \<Longrightarrow> blocked w (hold_history s)" "blocked w s \<Longrightarrow> blocked w (set_uid i uid s)"
  "blocked w s \<Longrightarrow> blocked w (remove_client i s)" "blocked w s \<Longrightarrow> blocked w (s\<lparr>sv_prompt := p\<rparr>)" "blocked w s \<Longrightarrow> blocked w (s\<lparr>sv_history := h\<rparr>)"
  by (auto simp: blocked_def hold_clients_def hold_history_def set_uid_def remove_client_def split: option.splits)

lemma blocked_serving [simp]: "blocked w (s\<lparr>sv_serving := b\<rparr>) = blocked w s"
  by (simp add: blocked_def)

lemma stops_at_current: "keeps (blocked w) (bindP lock_current f)"
  by (auto simp: keeps_def blocked_def lock_current_def)

lemma stops_at_both: "keeps (blocked w) (bindP lock_both f)"
  by (auto simp: keeps_def blocked_def lock_both_def lock_clients_def lock_current_def holding_def hold_clients_def split: option.splits prod.splits)

lemma stops_holding: "keeps (blocked w) (bindP (holding hold_clients lock_current) f)"
  by (auto simp: keeps_def blocked_def lock_current_def holding_def hold_clients_def)

lemma blocked_prompt: "keeps (blocked w) print_prompt"
  unfolding print_prompt_def by (rule stops_at_current)

lemma blocked_selected: "keeps (blocked w) (send_selected X text)"
  unfolding send_selected_def by (rule stops_at_both)

lemma blocked_console_action: "keeps (blocked w) (console_action X cmd)"
  unfolding console_action_def Let_def cmd_show_uid_def cmd_set_uid_def cmd_select_def cmd_send_file_def cmd_exit_def
  by (cases "console_command (split_whitespace cmd)")
    (auto intro!: monad_intros keeps_retP keeps_okP stops_at_current stops_at_both stops_holding keeps_bindP blocked_selected keeps_locks
       keeps_lock_both keeps_modify blocked_simps)

lemma blocked_handle_console: "keeps (blocked w) (handle_console X cmd)"
  unfolding handle_console_def command_of_line_def
  by (intro keep_intros blocked_console_action blocked_prompt) (simp_all add: blocked_simps)

lemma blocked_client_read: "keeps (blocked w) (client_read X i b)"
proof -
  have u: "keeps (blocked w) (bindP (okP (modify (set_uid i uid))) (\<lambda>_. bindP lock_current f))" for uid f
    by (intro keeps_bindP keeps_okP keeps_modify blocked_simps stops_at_current)
  have a: "keeps (blocked w) (client_text X i data)" for data
    unfolding client_text_def client_announces_def Let_def
    by (intro monad_intros keeps_retP u keeps_bindP [of _ lock_clients] keeps_locks blocked_prompt)
  have e: "keeps (blocked w) (client_ends i b)"
    unfolding client_ends_def
    by (intro monad_intros keeps_retP keeps_okP stops_at_current keeps_bindP [of _ lock_clients] keeps_bindP [of _ "okP m" for m] keeps_modify blocked_simps keeps_locks)
  show ?thesis unfolding client_read_def
    by (intro monad_intros keeps_retP keeps_okP keeps_bindP a e keeps_receive keeps_reads blocked_blind)
qed

lemma blocked_step:
  assumes "blocked w s" and "ev \<noteq> LinesEnd"
  shows "blocked w (start_server X ev s)"
proof -
  have "blocked w (client_read_loop X i b pieces s)" for i b pieces
  proof -
    obtain r t where rt: "run_state (client_read X i b) (s\<lparr>input := pieces\<rparr>) = (r, t)" by (rule prod.exhaust)
    have "blocked w (s\<lparr>input := pieces\<rparr>)" using assms(1) by (simp add: blocked_def)
    from keepsD_run [OF blocked_client_read this rt] show ?thesis using rt by (simp add: client_read_loop_def blocked_def)
  qed
  moreover have "blocked w (snd (run_state (handle_console X c) s))" "blocked w (snd (run_state print_prompt s))" for c
    using keepsD [OF blocked_handle_console assms(1)] keepsD [OF blocked_prompt assms(1)] .
  moreover have "blocked w (s\<lparr>sv_accepted := a, sv_next_id := n\<rparr>)" "blocked w (s\<lparr>sv_accepted := a, sv_reading := rd, sv_joining := j\<rparr>)"
    "blocked w (s\<lparr>sv_accepted := a\<rparr>)" "blocked w (s\<lparr>sv_joining := j, sv_clients := c\<rparr>)" for a n rd j c
    using assms(1) by (simp_all add: blocked_def)
  ultimately show ?thesis using assms by (cases ev) (auto simp: start_server_def split: option.splits prod.splits)
qed

lemma blocked_run: "blocked w s \<Longrightarrow> LinesEnd \<notin> set evs \<Longrightarrow> blocked w (fold (start_server X) evs s)"
  by (induction evs arbitrary: s) (auto simp: blocked_step)

section \<open>A command of the console\<close>

text \<open>A line that is sent to the selected agent, on a server that waits for nothing.\<close>

definition remote_line :: "string \<Rightarrow> bool" where
  "remote_line line \<longleftrightarrow> split_whitespace (console_line line) \<noteq> [] \<and> \<not> uses_history (console_line line)
     \<and> console_command (split_whitespace (console_line line)) = Remote"

definition ready :: "'w server_state \<Rightarrow> bool" where
  "ready s \<longleftrightarrow> \<not> sv_current_held s \<and> \<not> sv_clients_held s \<and> \<not> sv_history_held s \<and> sv_serving s \<and> \<not> sv_exited s"

lemma console_line_ascii: "list_all (cont 0x20 0x7E) (console_line line)"
  by (auto simp: console_line_def list_all_iff cont_def)

lemma console_line_kept: "filter console_char (console_line line) = console_line line"
proof -
  have "console_char c" if "cont 0x20 0x7E c" for c
  proof (cases "of_char c = (0x20::nat)")
    case True
    then have "char_of (of_char c :: nat) = (char_of (0x20::nat) :: char)" by simp
    moreover have "(char_of (0x20::nat) :: char) = CHR 0x20" by code_simp
    ultimately have "c = CHR 0x20" by (simp only: char_of_char)
    then show ?thesis by (simp add: console_char_def)
  qed (use that in \<open>simp add: console_char_def cont_def\<close>)
  then show ?thesis using console_line_ascii [of line] by (simp add: filter_id_conv list_all_iff)
qed

lemma run_prompt: "\<not> sv_current_held s \<Longrightarrow> \<not> sv_clients_held s \<Longrightarrow> \<exists>p. run_state print_prompt s = (Some (), s\<lparr>sv_prompt := p\<rparr>)"
  by (auto simp: print_prompt_def lock_current_def lock_clients_def)

lemma run_deliver_ok:
  assumes "\<not> sv_clients_held s" and "sx_send X i bs (cw s) = (Inr (), w)" and "bs \<noteq> []"
  shows "\<exists>w. run_state (deliver X i bs) s = (Some (), s\<lparr>cw := w, sent := sent s @ bs, sv_wire := sv_wire s @ [(i, bs)]\<rparr>)"
proof -
  obtain r w' where "cx_flush (conn X i) w = (r, w')" by (rule prod.exhaust)
  with assms show ?thesis
    by (intro exI [of _ w']) (simp add: deliver_def lock_clients_def server_write_def to_client_def send_def on_cw_def conn_def)
qed

lemma run_deliver_failed:
  assumes "\<not> sv_clients_held s" and "sx_send X i bs (cw s) = (Inl e, w)"
  shows "run_state (deliver X i bs) s = (Some (), remove_client i (s\<lparr>cw := w\<rparr>))"
  using assms by (simp add: deliver_def lock_clients_def server_write_def to_client_def send_def on_cw_def conn_def)

lemma remote_line_step:
  assumes "ready s" and "selected s = Some (i, uid)" and "remote_line line"
  shows "start_server X (Line line) s = snd (run_state (bindP (deliver X i (command_text uid (console_line line))) (\<lambda>_. print_prompt))
     (s\<lparr>sv_history := remember (console_line line) (sv_history s)\<rparr>))"
proof -
  let ?c = "console_line line" and ?s = "s\<lparr>sv_history := remember (console_line line) (sv_history s)\<rparr>"
  have ne: "?c \<noteq> []" using assms(3) by (auto simp: remote_line_def split_whitespace_def)
  have sel: "selected ?s = Some (i, uid)" using assms(2) by (simp add: selected_def cong: option.case_cong)
  have a: "run_state (bindP (console_action X ?c) (\<lambda>prompt. if prompt then print_prompt else retP ())) ?s
      = run_state (bindP (deliver X i (command_text uid ?c)) (\<lambda>_. print_prompt)) ?s"
    using assms(1,3) sel
    by (simp add: console_action_def remote_line_def send_selected_def lock_both_def lock_clients_def lock_current_def holding_def ready_def
        split: prod.splits option.splits)
  have c: "run_state (command_of_line ?c) s = (Some (Some ?c), s)" using assms(3) by (simp add: command_of_line_def remote_line_def)
  have "run_state (handle_console X ?c) s = run_state (bindP (deliver X i (command_text uid ?c)) (\<lambda>_. print_prompt)) ?s"
    unfolding handle_console_def console_line_kept run_bindP c using assms(1) a by (simp add: lock_history_def ready_def)
  then show ?thesis using assms(1) ne by (simp add: start_server_def ready_def)
qed

text \<open>C20: an ordinary command of the console reaches the selected agent and runs there. The server waits for no
  lock, and the line is neither a command of the console itself nor one of the history, nor does it begin with a
  word that the agent treats specially (exit, rkill, get_file, get_kernel_src). If the line can be written, it is
  written to the selected client and to nobody else; the agent with that identifier, when it gets the whole line and
  nothing else in one read of at most 4096 bytes, gives the words of the line to the shell, and an agent with another
  identifier does nothing.\<close>

theorem console_command_runs:
  assumes "ready s" and "selected s = Some (i, uid)" and "remote_line line" and "is_word uid"
    and "hd (split_whitespace (console_line line)) \<notin> {''exit'', ''rkill'', ''get_file'', ''get_kernel_src''}"
    and "length (command_text uid (console_line line)) \<le> BUFFER_SIZE"
    and "sx_send X i (command_text uid (console_line line)) (cw s) = (Inr (), w)"
    and "cl_dev_uid cfg = uid" and "cl_dev_uid other \<noteq> uid"
  shows "\<exists>bs. sv_wire (start_server X (Line line) s) = sv_wire s @ [(i, bs)] \<and>
    (\<forall>a rest. input a = Inr bs # rest \<longrightarrow>
       executed (snd (run_state (session_turn A cfg CanRead) a))
         = executed a @ [(''/bin/sh'', [''-c'', join '' '' (split_whitespace (console_line line))])] \<and>
       snd (run_state (session_turn B other CanRead) a) = a\<lparr>input := rest\<rparr>)"
proof (intro exI conjI allI impI)
  let ?c = "console_line line" and ?bs = "command_text uid (console_line line)"
  let ?s = "s\<lparr>sv_history := remember ?c (sv_history s)\<rparr>"
  obtain w' where d: "run_state (deliver X i ?bs) ?s = (Some (), ?s\<lparr>cw := w', sent := sent s @ ?bs, sv_wire := sv_wire s @ [(i, ?bs)]\<rparr>)"
    using run_deliver_ok [of ?s X i ?bs w] assms(1,7) by (auto simp: ready_def command_text_def)
  let ?t = "?s\<lparr>cw := w', sent := sent s @ ?bs, sv_wire := sv_wire s @ [(i, ?bs)]\<rparr>"
  obtain p where "run_state print_prompt ?t = (Some (), ?t\<lparr>sv_prompt := p\<rparr>)" using run_prompt [of ?t] assms(1) by (auto simp: ready_def)
  then show "sv_wire (start_server X (Line line) s) = sv_wire s @ [(i, ?bs)]"
    unfolding remote_line_step [OF assms(1-3)] by (simp add: d)
  fix a :: "'b client_state" and rest
  assume a: "input a = Inr ?bs # rest"
  have words: "split_whitespace (drop 4 (trim ?bs)) = uid # split_whitespace ?c" using command_words [OF assms(4)] .
  note turn = session_command [OF assms(4) console_line_ascii assms(6) a]
  show "executed (snd (run_state (session_turn A cfg CanRead) a)) = executed a @ [(''/bin/sh'', [''-c'', join '' '' (split_whitespace ?c)])]"
    unfolding turn
    by (subst process_shell [of _ _ "split_whitespace ?c"])
      (use assms(3,5,8) words in \<open>simp_all add: trim_command [OF assms(4)] starts_with_def remote_line_def\<close>)
  show "snd (run_state (session_turn B other CanRead) a) = a\<lparr>input := rest\<rparr>"
    unfolding turn using process_other [OF words, of other B "a\<lparr>input := rest\<rparr>"] assms(9) by simp
qed

text \<open>C22: a client that cannot be written to blocks the server. When a command for the selected client cannot be
  written, the client is forgotten but stays selected; when its connection then ends, its task waits for the lock
  of the selection that it holds itself. From then on nothing is written to any client and the commands to leave
  have no effect.\<close>

theorem lost_client_blocks_console:
  assumes "ready s" and "selected s = Some (i, uid)" and "remote_line line"
    and "sx_send X i (command_text uid (console_line line)) (cw s) = (Inl e, w)"
    and "map_of (sv_reading s) i = Some []" and "LinesEnd \<notin> set evs" and "t = server_run X (Line line # Reads i b # evs) s"
  shows "sv_wire t = sv_wire s \<and> \<not> sv_exited t \<and> sv_current_held t"
proof -
  let ?c = "console_line line" and ?bs = "command_text uid (console_line line)"
  let ?s = "s\<lparr>sv_history := remember ?c (sv_history s)\<rparr>"
  let ?t = "remove_client i (?s\<lparr>cw := w\<rparr>)"
  have d: "run_state (deliver X i ?bs) ?s = (Some (), ?t)" using run_deliver_failed [of ?s X i ?bs e w] assms(1,4) by (simp add: ready_def)
  obtain p where "run_state print_prompt ?t = (Some (), ?t\<lparr>sv_prompt := p\<rparr>)"
    using run_prompt [of ?t] assms(1) by (auto simp: ready_def remove_client_def)
  then have 1: "start_server X (Line line) s = ?t\<lparr>sv_prompt := p\<rparr>" unfolding remote_line_step [OF assms(1-3)] by (simp add: d)
  have cur: "sv_current s = Some i" using assms(2) by (auto simp: selected_def split: option.splits)
  have "blocked (sv_wire s) (start_server X (Reads i b) (?t\<lparr>sv_prompt := p\<rparr>))"
    using assms(1,5) cur
    by (simp add: start_server_def client_read_loop_def client_read_def read_some_def client_ends_def lock_clients_def lock_current_def
        remove_client_def ready_def blocked_def delete_conv')
  from blocked_run [OF this assms(6)] show ?thesis unfolding assms(7) server_run_def by (simp add: 1 blocked_def)
qed

section \<open>The start of a session\<close>

lemma from_marker_None: "m \<noteq> [] \<Longrightarrow> hd m \<notin> set s \<Longrightarrow> from_marker m s = None"
  by (induction s) (auto simp: starts_with_def neq_Nil_conv)

lemma word_chars:
  assumes "is_word uid"
  shows "nl \<notin> set uid" and "CHR 0x01 \<notin> set uid" and "utf8_valid (uid @ [nl])" and "trim (uid @ [nl]) = uid"
proof -
  have n: "\<not> cont 0x21 0x7E nl" "\<not> cont 0x21 0x7E (CHR 0x01)" by code_simp+
  then show "nl \<notin> set uid" "CHR 0x01 \<notin> set uid" using assms by (auto simp: is_word_def list_all_iff)
  have "list_all (cont 0 0x7F) uid" using assms by (auto simp: is_word_def list_all_iff cont_def)
  then show "utf8_valid (uid @ [nl])" using utf8_ascii [of uid "[nl]"] by (simp add: nl_def cont_def)
  obtain c u where u: "uid = c # u" using assms by (cases uid) (auto simp: is_word_def)
  have hd_ws: "\<not> is_ws c" using is_word_ws [OF assms] u by simp
  have "rev uid \<noteq> [] \<and> \<not> is_ws (hd (rev uid))" using is_word_ws [OF assms] assms by (auto simp: is_word_def list_all_iff hd_rev)
  then have "dropWhile is_ws (rev uid) = rev uid" by (cases "rev uid") auto
  then show "trim (uid @ [nl]) = uid" using hd_ws u by (simp add: trim_def trim_start_def trim_end_def is_ws_def nl_def)
qed

lemma greeting_facts:
  assumes "is_word uid"
  shows "lossy (greeting uid) = greeting uid" and "from_marker FILE_START_MARKER (greeting uid) = None"
    and "from_marker ''uid is '' (greeting uid) = Some (''uid is '' @ uid @ [nl])"
    and "starts_with announcement (greeting uid)" and "greeting uid \<noteq> []"
proof -
  have "list_all (cont 0 0x7F) announcement" by code_simp
  then show "lossy (greeting uid) = greeting uid" unfolding greeting_def
    using utf8_ascii [of announcement] word_chars(3) [OF assms] lossy_valid by blast
  have "CHR 0x01 \<notin> set announcement" by code_simp
  moreover have "CHR 0x01 \<noteq> nl" by code_simp
  ultimately show "from_marker FILE_START_MARKER (greeting uid) = None" unfolding greeting_def
    using word_chars(2) [OF assms] by (intro from_marker_None) (auto simp: FILE_START_MARKER_def)
  show "from_marker ''uid is '' (greeting uid) = Some (''uid is '' @ uid @ [nl])"
    by (simp add: greeting_def announcement_def starts_with_def)
  show "starts_with announcement (greeting uid)" "greeting uid \<noteq> []" by (simp_all add: greeting_def starts_with_def announcement_def)
qed

lemma greet_server_reply:
  assumes "is_word (cl_dev_uid cfg)" and "sends (cc_cli A)" and "input a = Inr (reply (cl_dev_uid cfg)) # rest"
  shows "\<exists>t. run_state (greet_server A cfg) a = (Inr (), t) \<and> sent t = sent a @ greeting (cl_dev_uid cfg) \<and> input t = rest"
proof -
  let ?u = "cl_dev_uid cfg"
  obtain w1 where 1: "run_state (send (cc_cli A) (greeting ?u)) a = (Inr (), a\<lparr>cw := w1, sent := sent a @ greeting ?u\<rparr>)"
    using run_send [OF assms(2)] by blast
  obtain w2 where 2: "cx_flush (cc_cli A) w1 = (Inr (), w2)" using assms(2) unfolding sends_def by blast
  have nl: "nl \<notin> set (''hello, '' @ ?u)" using word_chars(1) [OF assms(1)] by (simp add: nl_def)
  then have split: "split_once nl (reply ?u) = Some (''hello, '' @ ?u, [])"
    unfolding reply_def using split_once_Some_iff [of nl "''hello, '' @ ?u @ [nl]"] by simp
  have first: "first_line [] (input a) = (Inr (reply ?u), rest)"
    using assms(3) split by (simp add: reply_def)
  have v: "utf8_valid (reply ?u)"
    using utf8_ascii [of "''hello, ''" "?u @ [nl]"] word_chars(3) [OF assms(1)] by (simp add: reply_def cont_def)
  show ?thesis using 1 2 first v
    by (simp add: greet_server_def on_cw_def)
qed

lemma announces_known:
  assumes "ready s" and "is_word uid" and "s1 = select_if_none i (set_uid i uid s)"
  shows "map_of (sv_clients s1) i = map_option (\<lambda>c. c\<lparr>sc_uid := Some uid\<rparr>) (map_of (sv_clients s) i)"
    and "sv_wire s1 = sv_wire s" and "sv_current s1 = (if sv_current s = None then Some i else sv_current s)"
    and "run_state (client_announces X i (greeting uid)) s =
      run_state (if map_of (sv_clients s) i = None then retP ()
                 else bindP (okP (server_write X i (reply uid))) (\<lambda>_. bindP (okP (on_cw (cx_flush (conn X i)))) (\<lambda>_. retP ()))) s1"
proof -
  show c1: "map_of (sv_clients s1) i = map_option (\<lambda>c. c\<lparr>sc_uid := Some uid\<rparr>) (map_of (sv_clients s) i)" "sv_wire s1 = sv_wire s"
    "sv_current s1 = (if sv_current s = None then Some i else sv_current s)"
    by (auto simp: assms(3) select_if_none_def set_uid_def update_conv' split: option.splits)
  have "\<not> sv_clients_held s" "\<not> sv_current_held (set_uid i uid s)" "\<not> sv_clients_held s1"
    using assms(1) by (auto simp: assms(3) ready_def select_if_none_def set_uid_def split: option.splits)
  then show "run_state (client_announces X i (greeting uid)) s =
      run_state (if map_of (sv_clients s) i = None then retP ()
                 else bindP (okP (server_write X i (reply uid))) (\<lambda>_. bindP (okP (on_cw (cx_flush (conn X i)))) (\<lambda>_. retP ()))) s1"
    using greeting_facts(3) [OF assms(2)] word_chars(4) [OF assms(2)] c1(1) assms(3)
    by (simp add: client_announces_def lock_clients_def lock_current_def Let_def)
qed

lemma run_announces:
  assumes "ready s" and "is_word uid" and "s1 = select_if_none i (set_uid i uid s)" and "\<And>bs w. \<exists>w'. sx_send X i bs w = (Inr (), w')"
  shows "\<exists>u. run_state (client_announces X i (greeting uid)) s = (Some (), u) \<and> sv_clients u = sv_clients s1 \<and> sv_current u = sv_current s1
    \<and> sv_wire u = sv_wire s @ (if map_of (sv_clients s) i = None then [] else [(i, reply uid)])"
proof (cases "map_of (sv_clients s) i")
  case None
  then show ?thesis using announces_known [OF assms(1-3)] by simp
next
  case (Some c)
  obtain w1 where w1: "sx_send X i (reply uid) (cw s1) = (Inr (), w1)" using assms(4) by blast
  obtain q w2 where w2: "cx_flush (conn X i) w1 = (q, w2)" by (rule prod.exhaust)
  have "run_state (server_write X i (reply uid)) s1 = (Inr (), s1\<lparr>cw := w1, sent := sent s1 @ reply uid, sv_wire := sv_wire s1 @ [(i, reply uid)]\<rparr>)"
    using w1 by (simp add: server_write_def to_client_def send_def on_cw_def conn_def reply_def)
  with w2 Some show ?thesis unfolding announces_known(4) [OF assms(1-3)] using announces_known(2) [OF assms(1-3)]
    by (simp add: on_cw_def)
qed

text \<open>C23: the agent and the server greet each other. The announcement of an agent gives its client on the server the
  identifier and selects it when nobody is selected; it is answered exactly when the client is in the map already, and
  with that answer the agent accepts the session.\<close>

theorem sessions_greet:
  assumes "ready s" and "is_word (cl_dev_uid cfg)" and "map_of (sv_reading s) i = Some (Inr (greeting (cl_dev_uid cfg)) # later)"
    and "length (greeting (cl_dev_uid cfg)) \<le> BUFFER_SIZE" and "\<And>bs w. \<exists>w'. sx_send X i bs w = (Inr (), w')"
    and "t = start_server X (Reads i b) s" and "sends (cc_cli A)" and "input a = Inr (reply (cl_dev_uid cfg)) # rest"
  shows "sv_wire t = sv_wire s @ (if map_of (sv_clients s) i = None then [] else [(i, reply (cl_dev_uid cfg))]) \<and>
    map_option sc_uid (map_of (sv_clients t) i) = map_option (\<lambda>_. Some (cl_dev_uid cfg)) (map_of (sv_clients s) i) \<and>
    sv_current t = (if sv_current s = None then Some i else sv_current s) \<and>
    (\<exists>u. run_state (greet_server A cfg) a = (Inr (), u) \<and> sent u = sent a @ greeting (cl_dev_uid cfg) \<and> input u = rest)"
proof -
  let ?u = "cl_dev_uid cfg" and ?s = "s\<lparr>input := later\<rparr>"
  note g = greeting_facts [OF assms(2)]
  define s1 where "s1 = select_if_none i (set_uid i ?u ?s)"
  have rs: "ready ?s" using assms(1) by (simp add: ready_def)
  obtain u where u: "run_state (client_announces X i (greeting ?u)) ?s = (Some (), u)" "sv_clients u = sv_clients s1" "sv_current u = sv_current s1"
    "sv_wire u = sv_wire s @ (if map_of (sv_clients s) i = None then [] else [(i, reply ?u)])"
    using run_announces [OF rs assms(2) s1_def assms(5)] by auto
  have rd: "run_state (read_some BUFFER_SIZE) (s\<lparr>input := Inr (greeting ?u) # later\<rparr>) = (Inr (greeting ?u), ?s)"
    using assms(4) by (simp add: read_some_def)
  have t: "t = u\<lparr>sv_reading := AList.update i (input u) (sv_reading u)\<rparr>"
    using assms(1,3,6) rd g u(1)
    by (simp add: start_server_def client_read_loop_def client_read_def client_text_def lock_clients_def ready_def)
  have "map_option sc_uid (map_of (sv_clients t) i) = map_option (\<lambda>_. Some ?u) (map_of (sv_clients s) i)"
    using t u(2) announces_known(1) [OF rs assms(2) s1_def] by (simp add: option.map_comp comp_def)
  moreover have "sv_current t = (if sv_current s = None then Some i else sv_current s)"
    using t u(3) announces_known(3) [OF rs assms(2) s1_def] by simp
  ultimately show ?thesis using t u(4) greet_server_reply [OF assms(2,7,8)] by simp
qed

text \<open>When shutting down the connection has to wait, the client leaves the map but stays selected.\<close>

lemma suspended_end_keeps_selection:
  "\<not> sv_clients_held s \<Longrightarrow> map_of (sv_clients s) i = Some c \<Longrightarrow> sv_current s = Some i \<Longrightarrow>
     sv_current (snd (run_state (client_ends i True) s)) = Some i \<and> selected (snd (run_state (client_ends i True) s)) = None"
  by (simp add: client_ends_def lock_clients_def remove_client_def selected_def delete_conv')

section \<open>The theorems on a small host\<close>

definition lab_server_ext :: "nat list \<Rightarrow> unit server_ext" where
  "lab_server_ext lost = \<lparr>sx_files = lab_cli, sx_send = (\<lambda>i b w. (if i \<in> set lost then Inl ''broken pipe'' else Inr (), w)), sx_flush = (\<lambda>i w. (Inr (), w)), sx_values = (\<lambda>x. x)\<rparr>"

definition lab_cli_server :: "unit server_state" where
  "lab_cli_server = (server_start ())\<lparr>sv_clients := [(0, \<lparr>sc_uid = Some ''u1'', sc_addr = ''10.0.0.9:4000''\<rparr>)], sv_current := Some 0, sv_next_id := 1,
     sv_reading := [(0, [])]\<rparr>"

definition lab_client_ext :: "unit client_ext" where
  "lab_client_ext = \<lparr>cc_cli = lab_cli, cc_shell = (\<lambda>c w. (Printed ''out'' [], w)), cc_status = (\<lambda>c a w. (Inl ''no'', w)), cc_today = (\<lambda>w. (2025, 1, 11)),
     cc_exists = (\<lambda>p w. False), cc_write_file = (\<lambda>p t w. (Inr (), w)), cc_read_file = (\<lambda>p w. Inl ''no''), cc_remove_file = (\<lambda>p w. (Inr (), w)),
     cc_uname = (\<lambda>w. Inr ''6.1'')\<rparr>"

definition lab_client :: "string list \<Rightarrow> unit client_state" where
  "lab_client ps = \<lparr>cw = (), input = map Inr ps, sent = [], saved = [], executed = []\<rparr>"

definition lab_client_config :: "string \<Rightarrow> client_config" where
  "lab_client_config uid = \<lparr>cl_port = 4433, cl_dev_uid = uid, cl_server_ip = ''10.0.0.1''\<rparr>"

lemma lab_server_facts:
  "ready lab_cli_server" "selected lab_cli_server = Some (0, ''u1'')" "remote_line ''ls -l''" "is_word ''u1''" "map_of (sv_reading lab_cli_server) 0 = Some []"
  "console_line ''ls -l'' = ''ls -l''" "split_whitespace ''ls -l'' = [''ls'', ''-l'']"
  by code_simp+

theorem server_numbers_and_history_witness:
  "server_ok (server_run (lab_server_ext []) [Accepted ''a'', TlsDone 0 [], Joins 0, Line ''pwd'', Line ''!!''] (server_start ()))"
  using server_numbers_and_history [of "lab_server_ext []", OF _ refl] by (simp add: lab_server_ext_def)

theorem console_command_runs_witness:
  "sv_wire (start_server (lab_server_ext []) (Line ''ls -l'') lab_cli_server) = [(0, ''uid:u1 ls -l'')] \<and>
   executed (snd (run_state (session_turn lab_client_ext (lab_client_config ''u1'') CanRead) (lab_client [''uid:u1 ls -l'']))) = [(''/bin/sh'', [''-c'', ''ls -l''])]"
proof -
  have h: "sx_send (lab_server_ext []) 0 (command_text ''u1'' (console_line ''ls -l'')) (cw lab_cli_server) = (Inr (), ())"
    "length (command_text ''u1'' (console_line ''ls -l'')) \<le> BUFFER_SIZE"
    "hd (split_whitespace (console_line ''ls -l'')) \<notin> {''exit'', ''rkill'', ''get_file'', ''get_kernel_src''}"
    unfolding lab_server_facts(6) by (simp_all add: lab_server_ext_def command_text_def BUFFER_SIZE_def lab_server_facts(7))
  have w: "sv_wire (start_server (lab_server_ext []) (Line ''ls -l'') lab_cli_server) = [(0, ''uid:u1 ls -l'')]" by code_simp
  have o: "sv_wire lab_cli_server = []" by code_simp
  from console_command_runs [OF lab_server_facts(1-4) h(3,2,1), of "lab_client_config ''u1''" "lab_client_config ''u2''" lab_client_ext lab_client_ext]
  obtain bs where bs: "sv_wire (start_server (lab_server_ext []) (Line ''ls -l'') lab_cli_server) = [(0, bs)]"
    and run: "input a = Inr bs # rest \<Longrightarrow> executed (snd (run_state (session_turn lab_client_ext (lab_client_config ''u1'') CanRead) a))
        = executed a @ [(''/bin/sh'', [''-c'', join '' '' (split_whitespace (console_line ''ls -l''))])]" for a rest
    unfolding o by (auto simp: lab_client_config_def)
  have "bs = ''uid:u1 ls -l''" using bs w by simp
  with run [of "lab_client [''uid:u1 ls -l'']" "[]"] w show ?thesis
    unfolding lab_server_facts(6,7) by (simp add: lab_client_def)
qed

theorem lost_client_blocks_console_witness:
  "\<not> sv_exited (server_run (lab_server_ext [0]) [Line ''ls -l'', Reads 0 False, Line ''exit'', Line ''quit''] lab_cli_server)"
proof -
  have "sx_send (lab_server_ext [0]) 0 (command_text ''u1'' (console_line ''ls -l'')) (cw lab_cli_server) = (Inl ''broken pipe'', ())"
    by (simp add: lab_server_ext_def)
  moreover have "LinesEnd \<notin> set [Line ''exit'', Line ''quit'']" by simp
  ultimately show ?thesis using lost_client_blocks_console [OF lab_server_facts(1-3) _ lab_server_facts(5) _ refl] by blast
qed

theorem sessions_greet_witness:
  "\<exists>u. run_state (greet_server lab_client_ext (lab_client_config ''u1'')) (lab_client [reply ''u1'']) = (Inr (), u) \<and> sent u = greeting ''u1'' \<and>
     sv_wire (start_server (lab_server_ext []) (Reads 0 False) (lab_cli_server\<lparr>sv_reading := [(0, [Inr (greeting ''u1'')])]\<rparr>)) = [(0, reply ''u1'')]"
proof -
  let ?s = "lab_cli_server\<lparr>sv_reading := [(0, [Inr (greeting ''u1'')])]\<rparr>"
  have "ready ?s" "map_of (sv_reading ?s) 0 = Some (Inr (greeting (cl_dev_uid (lab_client_config ''u1''))) # [])"
    "length (greeting (cl_dev_uid (lab_client_config ''u1''))) \<le> BUFFER_SIZE" "is_word (cl_dev_uid (lab_client_config ''u1''))"
    by code_simp+
  moreover have "sends (cc_cli lab_client_ext)" "\<And>bs w. \<exists>w'. sx_send (lab_server_ext []) 0 bs w = (Inr (), w')"
    by (simp_all add: lab_client_ext_def lab_cli_ok lab_server_ext_def)
  moreover have "input (lab_client [reply ''u1'']) = Inr (reply (cl_dev_uid (lab_client_config ''u1''))) # []"
    by (simp add: lab_client_def lab_client_config_def)
  ultimately show ?thesis
    using sessions_greet [of ?s "lab_client_config ''u1''" 0 "[]" "lab_server_ext []" _ False lab_client_ext "lab_client [reply ''u1'']" "[]"]
    by (auto simp: lab_cli_server_def server_start_def lab_client_config_def lab_client_def)
qed

end
