(* ===== verification/Supervisor.thy ===== *)
theory Supervisor
  imports Cli_Client Panic
begin

text \<open>
  The supervisor of the agent: \<^verbatim>\<open>crates/agent_manager/src/manager.rs\<close>, \<^verbatim>\<open>unix_socket_server.rs\<close> and \<^verbatim>\<open>main.rs\<close>. It takes the
  commands \<^verbatim>\<open>update\<close> and \<^verbatim>\<open>uninstall\<close> from a local socket, stops the agent and its kernel module, and runs
  the installer of an update or removes the installation. Commands, files and the clock of the host are parameters
  (record \<open>sup_ext\<close>); the state keeps the log of what was done. A panic is the value \<open>None\<close>. Installer and removal run
  in spawned tasks; \<open>run_agent_manager\<close> lets their single actions interleave with those of the loop.
\<close>

section \<open>State\<close>

datatype act =
    Ran string "string list" bool
  | RemovedFile string
  | RemovedDir string
  | WroteSelf string
  | Slept nat

text \<open>\<open>su_looks\<close> is how often the list of processes can be asked for within thirty seconds, \<open>su_entries\<close> the names in a
  directory that can be listed, in its order.\<close>

record 'w sup_ext =
  su_status :: "string \<Rightarrow> string list \<Rightarrow> 'w \<Rightarrow> proc_status res \<times> 'w"
  su_output :: "string \<Rightarrow> string list \<Rightarrow> 'w \<Rightarrow> proc_output res \<times> 'w"
  su_exists :: "string \<Rightarrow> 'w \<Rightarrow> bool"
  su_remove_file :: "string \<Rightarrow> 'w \<Rightarrow> bool \<times> 'w"
  su_remove_dir :: "string \<Rightarrow> 'w \<Rightarrow> bool \<times> 'w"
  su_open :: "string \<Rightarrow> 'w \<Rightarrow> unit res"
  su_write :: "string \<Rightarrow> string \<Rightarrow> 'w \<Rightarrow> unit res \<times> 'w"
  su_today :: "'w \<Rightarrow> nat \<times> nat \<times> nat"
  su_entries :: "string \<Rightarrow> 'w \<Rightarrow> string list res"
  su_looks :: "'w \<Rightarrow> nat"
  su_read_text :: "string \<Rightarrow> 'w \<Rightarrow> string res"

datatype agent_command = Update | Uninstall | Unknown string
datatype sup_task = RunScript | RunUninstall

record 'w sup_state =
  suw :: 'w
  acts :: "act list"
  tasks :: "sup_task list"

definition did :: "act \<Rightarrow> ('w sup_state, unit) state" where
  "did a = modify (\<lambda>s. s\<lparr>acts := acts s @ [a]\<rparr>)"

definition on_suw :: "('w \<Rightarrow> 'a \<times> 'w) \<Rightarrow> ('w sup_state, 'a) state" where
  "on_suw f = State (\<lambda>s. case f (suw s) of (r, w) \<Rightarrow> (r, s\<lparr>suw := w\<rparr>))"

text \<open>\<^verbatim>\<open>Command::new(..).status().await\<close>; the log says whether the command succeeded.\<close>

definition succeeded :: "proc_status res \<Rightarrow> bool" where
  "succeeded r = (case r of Inl _ \<Rightarrow> False | Inr st \<Rightarrow> ps_success st)"

definition status :: "'w sup_ext \<Rightarrow> string \<Rightarrow> string list \<Rightarrow> ('w sup_state, proc_status res) state" where
  "status S cmd args = do {
     r \<leftarrow> on_suw (su_status S cmd args);
     did (Ran cmd args (succeeded r));
     State_Monad.return r
   }"

definition output_of :: "'w sup_ext \<Rightarrow> string \<Rightarrow> string list \<Rightarrow> ('w sup_state, proc_output res) state" where
  "output_of S cmd args = do {
     r \<leftarrow> on_suw (su_output S cmd args);
     did (Ran cmd args (case r of Inl _ \<Rightarrow> False | Inr out \<Rightarrow> po_success out));
     State_Monad.return r
   }"

definition runs :: "'w sup_ext \<Rightarrow> (string \<times> string list) list \<Rightarrow> ('w sup_state, unit) state" where
  "runs S cmds = for_each cmds (\<lambda>(cmd, args). do { _ \<leftarrow> status S cmd args; State_Monad.return () })"

definition remove_one :: "'w sup_ext \<Rightarrow> string \<Rightarrow> ('w sup_state, bool) state" where
  "remove_one S path = do {
     ok \<leftarrow> on_suw (su_remove_file S path);
     did (RemovedFile path);
     State_Monad.return ok
   }"

definition remove_files :: "'w sup_ext \<Rightarrow> string list \<Rightarrow> ('w sup_state, unit) state" where
  "remove_files S paths = for_each paths (\<lambda>p. do { _ \<leftarrow> remove_one S p; State_Monad.return () })"

section \<open>Stopping the agent\<close>

definition is_systemd_available :: "'w sup_ext \<Rightarrow> 'w \<Rightarrow> bool" where
  "is_systemd_available S w = su_exists S ''/run/systemd/system'' w"

definition unit_dirs :: "string list" where
  "unit_dirs = [''/usr/lib/systemd/system'', ''/lib/systemd/system'', ''/etc/systemd/system'']"

definition cleanup_all_service_files :: "'w sup_ext \<Rightarrow> string \<Rightarrow> ('w sup_state, unit) state" where
  "cleanup_all_service_files S service_name = remove_files S (map (\<lambda>dir. dir @ ''/'' @ service_name) unit_dirs)"

definition sup_write_proc_self :: "'w sup_ext \<Rightarrow> ('w sup_state, unit res) state" where
  "sup_write_proc_self S = do {
     w \<leftarrow> gets suw;
     case self_number (su_today S w) of
       None \<Rightarrow> State_Monad.return (Inl (utf8 [230, 151, 165, 230, 156, 159, 230, 139, 188, 230, 142, 165, 232, 167, 163, 230, 158, 144, 229, 164, 177, 232, 180, 165]))
     | Some n \<Rightarrow>
         if \<not> su_exists S proc_self_path w then State_Monad.return (Inr ())
         else
           tryE (gets (\<lambda>s. case su_open S proc_self_path (suw s) of Inl e \<Rightarrow> Inl (utf8 [230, 137, 147, 229, 188, 128, 229, 164, 177, 232, 180, 165, 58, 32] @ e) | Inr _ \<Rightarrow> Inr ())) (\<lambda>_.
           tryE (map_err (\<lambda>e. utf8 [229, 134, 153, 229, 133, 165, 229, 164, 177, 232, 180, 165, 58, 32] @ e) (do {
               r \<leftarrow> on_suw (su_write S proc_self_path (self_line n));
               did (WroteSelf (self_line n));
               State_Monad.return r })) (\<lambda>_.
           tryE (map_err (\<lambda>e. utf8 [232, 175, 187, 229, 143, 150, 229, 164, 177, 232, 180, 165, 58, 32] @ e) (output_of S ''cat'' [proc_self_path])) (\<lambda>_.
             State_Monad.return (Inr ()))))
   }"

definition sup_process_running :: "'w sup_ext \<Rightarrow> string \<Rightarrow> ('w sup_state, bool) state" where
  "sup_process_running S name = do {
     r \<leftarrow> output_of S ''pgrep'' [''-f'', name];
     State_Monad.return (case r of Inl _ \<Rightarrow> False | Inr out \<Rightarrow> po_success out)
   }"

text \<open>The wait for the agent to end; false when the time is over.\<close>

fun wait_gone :: "'w sup_ext \<Rightarrow> nat \<Rightarrow> ('w sup_state, bool) state" where
  "wait_gone S 0 = State_Monad.return False"
| "wait_gone S (Suc n) = do {
     running \<leftarrow> sup_process_running S ''MagicArmor_0'';
     if running then do { did (Slept 500); wait_gone S n } else State_Monad.return True
   }"

definition stop_services :: "'w sup_ext \<Rightarrow> ('w sup_state, unit) state" where
  "stop_services S = do {
     systemd \<leftarrow> gets (\<lambda>s. is_systemd_available S (suw s));
     if systemd
     then do {
       runs S [(''systemctl'', [''stop'', ''osec''])];
       remove_files S [''/etc/init.d/osec'', ''/etc/init.d/osecservicecentos'', ''/opt/osec/osec.monitor'', ''/opt/osec/osecmonitor''];
       runs S [(''chkconfig'', [''--del'', ''osec'']), (''chkconfig'', [''--del'', ''osecservicecentos''])]
     }
     else do {
       runs S [(''/opt/osec/osec.monitor'', [''stop'']), (''pkill'', [''-9'', ''-f'', ''osecmonitor'']), (''service'', [''osec'', ''stop''])];
       remove_files S [''/etc/init.d/osecservicecentos'', ''/opt/osec/osecmonitor'']
     }
   }"

definition kill_agent :: "'w sup_ext \<Rightarrow> ('w sup_state, unit) state" where
  "kill_agent S = runs S
     [(''pkill'', [''-9'', ''-f'', ''MagicArmor_0'']), (''killall'', [''-9'', ''MagicArmor_0'']),
      (''pkill'', [''-9'', ''-f'', ''osecmonitor'']), (''killall'', [''-9'', ''osecmonitor'']),
      (''pkill'', [''-9'', ''-f'', ''MagicArmor_cli'']), (''killall'', [''-9'', ''MagicArmor_cli'']),
      (''pkill'', [''-9'', ''-f'', ''osec_cli''])]"

definition ko_path :: "string \<Rightarrow> string" where
  "ko_path kernel_release = ''/lib/modules/'' @ kernel_release @ ''/kernel/drivers/base_osec.ko''"

definition remove_module_file :: "'w sup_ext \<Rightarrow> ('w sup_state, unit) state" where
  "remove_module_file S = do {
     r \<leftarrow> output_of S ''uname'' [''-r''];
     case r of
       Inl _ \<Rightarrow> State_Monad.return ()
     | Inr out \<Rightarrow>
         if \<not> po_success out then State_Monad.return ()
         else do {
           ok \<leftarrow> remove_one S (ko_path (trim (lossy (po_stdout out))));
           if ok then runs S [(''depmod'', [])] else State_Monad.return ()
         }
   }"

text \<open>The result of \<^verbatim>\<open>lsmod\<close> is unwrapped: without a shell to run it, the supervisor panics.\<close>

definition stop_and_unload :: "'w sup_ext \<Rightarrow> ('w sup_state, proc_output res) state" where
  "stop_and_unload S = do {
     stop_services S;
     for_each (replicate 15 1000) (\<lambda>ms. did (Slept ms));
     did (Slept 500);
     kill_agent S;
     did (Slept 500);
     runs S [(''rmmod'', [''-f'', ''osec_base''])];
     output_of S ''bash'' [''-c'', ''lsmod | grep osec'']
   }"

definition await_end :: "'w sup_ext \<Rightarrow> ('w sup_state, unit) state" where
  "await_end S = do {
     looks \<leftarrow> gets (\<lambda>s. su_looks S (suw s));
     _ \<leftarrow> wait_gone S looks;
     remove_files S [''/var/run/osec_backend.pid'', ''/var/run/osec.pid'', ''/var/run/osec_monitor.pid'', ''/tmp/.osec_cli.pid'', ''/tmp/.osec_cli.sock'']
   }"

definition stop_osec_services :: "'w sup_ext \<Rightarrow> ('w sup_state, unit option) state" where
  "stop_osec_services S =
     bindP (okP (stop_and_unload S)) (\<lambda>lsmod_check.
       case lsmod_check of
         Inl _ \<Rightarrow> panicP
       | Inr _ \<Rightarrow> okP (do { await_end S; runs S [(''rmmod'', [''osec_base''])]; remove_module_file S }))"

section \<open>The update\<close>

definition cleanup_c2r_bridge :: "'w sup_ext \<Rightarrow> ('w sup_state, unit) state" where
  "cleanup_c2r_bridge S = do {
     rpm \<leftarrow> status S ''rpm'' [''-q'', ''osec''];
     (if succeeded rpm then runs S [(''rpm'', [''-e'', ''--justdb'', ''--nodeps'', ''--allmatches'', ''osec''])] else State_Monad.return ());
     deb \<leftarrow> status S ''sh'' [''-c'', ''dpkg -l | grep -q '' @ [CHR 0x27] @ ''^[ri].*osec'' @ [CHR 0x27]];
     (if succeeded deb
      then runs S
        [(''sh'', [''-c'', ''sed -i '' @ [CHR 0x27] @ ''/^Package: osec$/,/^$/d'' @ [CHR 0x27] @ '' /var/lib/dpkg/status'']),
         (''sh'', [''-c'', ''rm -f /var/lib/dpkg/info/osec.*'']),
         (''sh'', [''-c'', ''[ -f /var/lib/apt/extended_states ] && sed -i '' @ [CHR 0x27] @ ''/^Package: osec$/,/^$/d'' @ [CHR 0x27]
            @ '' /var/lib/apt/extended_states || true''])]
      else State_Monad.return ());
     etc \<leftarrow> gets (\<lambda>s. su_exists S ''/etc/systemd/system/agent_manager.service'' (suw s));
     (if etc
      then do {
        _ \<leftarrow> remove_one S ''/etc/systemd/system/agent_manager.service'';
        runs S [(''systemctl'', [''daemon-reload''])]
      }
      else State_Monad.return ())
   }"

definition update_dir :: string where "update_dir = ''/tmp/osec_update''"

definition is_installer :: "string \<Rightarrow> bool" where
  "is_installer name \<longleftrightarrow> starts_with ''osec-installer'' name \<and> ends_with ''.sh'' name"

definition find_upgrade_script :: "'w sup_ext \<Rightarrow> string \<Rightarrow> 'w \<Rightarrow> string option" where
  "find_upgrade_script S dir w =
     (case su_entries S dir w of
        Inl _ \<Rightarrow> None
      | Inr names \<Rightarrow> map_option (path_join dir) (find (\<lambda>n. utf8_valid n \<and> is_installer n) names))"

definition run_script_and_cleanup :: "'w sup_ext \<Rightarrow> string \<Rightarrow> string \<Rightarrow> ('w sup_state, unit) state" where
  "run_script_and_cleanup S script_path cleanup_dir = do {
     runs S [(''chmod'', [''+x'', script_path])];
     r \<leftarrow> status S ''/bin/bash'' [script_path, ''--upgrade''];
     if succeeded r
     then do {
       _ \<leftarrow> on_suw (su_remove_dir S cleanup_dir);
       did (RemovedDir cleanup_dir)
     }
     else State_Monad.return ()
   }"

section \<open>Removing the installation\<close>

definition module_files :: "string \<Rightarrow> string list" where
  "module_files text = map (\<lambda>line. trim (trim_matches ''filename:'' line)) (filter (starts_with ''filename:'') (str_lines text))"

definition uninstall_module :: "'w sup_ext \<Rightarrow> ('w sup_state, unit) state" where
  "uninstall_module S = do {
     r \<leftarrow> output_of S ''modinfo'' [''osec_base''];
     case r of
       Inl _ \<Rightarrow> State_Monad.return ()
     | Inr out \<Rightarrow>
         if \<not> po_success out then State_Monad.return ()
         else do {
           runs S [(''rmmod'', [''osec_base''])];
           if utf8_valid (po_stdout out) then remove_files S (module_files (po_stdout out)) else State_Monad.return ()
         }
   }"

definition init_files :: "string list" where
  "init_files = [''/etc/init.d/osec'', ''/etc/init.d/agent_manager'', ''/etc/init.d/osecservicecentos'', ''/opt/osec/osec.monitor'',
     ''/opt/osec/agent_manager.monitor'', ''/opt/osec/osecmonitor'']"

definition unregister_cmds :: "(string \<times> string list) list" where
  "unregister_cmds = [(''chkconfig'', [''--del'', ''osec'']), (''chkconfig'', [''--del'', ''agent_manager'']), (''chkconfig'', [''--del'', ''osecservicecentos''])]"

definition disable_services :: "'w sup_ext \<Rightarrow> ('w sup_state, unit) state" where
  "disable_services S = do {
     systemd \<leftarrow> gets (\<lambda>s. is_systemd_available S (suw s));
     if systemd
     then do {
       runs S [(''systemctl'', [''stop'', ''osec'']), (''systemctl'', [''disable'', ''osec'']), (''systemctl'', [''disable'', ''agent_manager''])];
       cleanup_all_service_files S ''osec.service'';
       cleanup_all_service_files S ''agent_manager.service'';
       cleanup_all_service_files S ''osec_cli.service'';
       runs S [(''systemctl'', [''daemon-reload''])];
       remove_files S init_files;
       runs S unregister_cmds
     }
     else do {
       runs S [(''/opt/osec/osec.monitor'', [''stop'']), (''service'', [''osec'', ''stop'']), (''pkill'', [''-9'', ''-f'', ''osecmonitor'']),
         (''chkconfig'', [''--del'', ''agent_manager''])];
       remove_files S init_files;
       runs S unregister_cmds
     }
   }"

definition uninstall_all :: "'w sup_ext \<Rightarrow> ('w sup_state, unit) state" where
  "uninstall_all S = do {
     disable_services S;
     remove_files S [''/var/run/osec_backend.pid'', ''/var/run/agent_manager.pid'', ''/var/run/osec.pid'', ''/var/run/agent_manager.pid'',
       ''/var/run/osec_monitor.pid'', ''/var/run/agent_manager_monitor.pid''];
     uninstall_module S;
     installed \<leftarrow> gets (\<lambda>s. su_exists S ''/opt/osec'' (suw s));
     if installed then runs S [(''rm'', [''-rf'', ''/opt/osec''])] else State_Monad.return ()
   }"

section \<open>Commands and tasks\<close>

definition run_command :: "'w sup_ext \<Rightarrow> agent_command \<Rightarrow> ('w sup_state, unit option) state" where
  "run_command S cmd =
     (case cmd of
        Update \<Rightarrow>
          bindP (okP (sup_write_proc_self S)) (\<lambda>_.
          bindP (stop_osec_services S) (\<lambda>_.
            okP (do { cleanup_c2r_bridge S; modify (\<lambda>s. s\<lparr>tasks := tasks s @ [RunScript]\<rparr>) })))
      | Uninstall \<Rightarrow>
          bindP (okP (sup_write_proc_self S)) (\<lambda>_.
          bindP (stop_osec_services S) (\<lambda>_.
            okP (modify (\<lambda>s. s\<lparr>tasks := tasks s @ [RunUninstall]\<rparr>))))
      | Unknown _ \<Rightarrow> retP ())"

definition run_sup_task :: "'w sup_ext \<Rightarrow> sup_task \<Rightarrow> ('w sup_state, unit) state" where
  "run_sup_task S t =
     (case t of
        RunScript \<Rightarrow> do {
          script \<leftarrow> gets (\<lambda>s. find_upgrade_script S update_dir (suw s));
          case script of None \<Rightarrow> State_Monad.return () | Some p \<Rightarrow> run_script_and_cleanup S p update_dir
        }
      | RunUninstall \<Rightarrow> uninstall_all S)"

definition handle_client :: "string \<Rightarrow> agent_command" where
  "handle_client line =
     (let t = trim line in if t = ''update'' then Update else if t = ''uninstall'' then Uninstall else Unknown t)"

definition sup_start :: "'w \<Rightarrow> 'w sup_state" where
  "sup_start w = \<lparr>suw = w, acts = [], tasks = []\<rparr>"

text \<open>The runs of the supervisor, action by action: the log so far, the commands that wait in the channel, what the loop
  has still to do for its command (the actions, whether it gets to the end of the command without a panic, and the
  tasks it spawns there), and what each spawned task has still to do.

  A task sees of the other tasks only what its commands and files answer. The actions of a command or task are
  therefore those of a run on a host with any answers: the world of \<open>S\<close> is a number that may change with every call, so
  that every sequence of answers is possible, and each run may have another \<open>S\<close>. A panic of the loop ends the
  supervisor, and so does the end of the removal; steps of the other tasks after that are not excluded.\<close>

inductive run_agent_manager ::
  "act list \<Rightarrow> agent_command list \<Rightarrow> (act list \<times> bool \<times> sup_task list) option \<Rightarrow> (sup_task \<times> act list) list \<Rightarrow> bool" where
  start: "run_agent_manager [] [] None []"
| client: "run_agent_manager log q lk ts \<Longrightarrow> run_agent_manager log (q @ [handle_client line]) lk ts"
| recv: "run_agent_manager log (cmd # q) None ts \<Longrightarrow>
     run_state (run_command (S :: nat sup_ext) cmd) ((sup_start w)\<lparr>acts := log\<rparr>) = (r, t) \<Longrightarrow> acts t = log @ todo \<Longrightarrow>
     run_agent_manager log q (Some (todo, r \<noteq> None, tasks t)) ts"
| act: "run_agent_manager log q (Some (a # todo, ends, spawned)) ts \<Longrightarrow>
     run_agent_manager (log @ [a]) q (Some (todo, ends, spawned)) ts"
| spawn: "run_agent_manager log q (Some ([], True, task # spawned)) ts \<Longrightarrow>
     run_state (run_sup_task (S :: nat sup_ext) task) ((sup_start w)\<lparr>acts := log\<rparr>) = (r, t) \<Longrightarrow> acts t = log @ todo \<Longrightarrow>
     run_agent_manager log q (Some ([], True, spawned)) ((task, todo) # ts)"
| ready: "run_agent_manager log q (Some ([], True, [])) ts \<Longrightarrow> run_agent_manager log q None ts"
| task: "run_agent_manager log q lk ts \<Longrightarrow> (task, a # todo) \<in> set ts \<Longrightarrow>
     run_agent_manager (log @ [a]) q lk ((task, todo) # remove1 (task, a # todo) ts)"

section \<open>One instance (main.rs)\<close>

text \<open>True when the process goes on; the file then has its number, if it could be written.\<close>

definition pid_is_running :: "'w sup_ext \<Rightarrow> nat \<Rightarrow> 'w \<Rightarrow> bool" where
  "pid_is_running S pid w = su_exists S (''/proc/'' @ show_nat pid) w"

definition manager_pid_file :: string where "manager_pid_file = ''/var/run/agent_manager.pid''"

definition other_instance :: "'w sup_ext \<Rightarrow> 'w \<Rightarrow> nat option" where
  "other_instance S w =
     (if su_exists S manager_pid_file w
      then (case su_read_text S manager_pid_file w of
              Inl _ \<Rightarrow> None
            | Inr content \<Rightarrow>
                (case parse_uint 4294967295 (trim content) of
                   None \<Rightarrow> None
                 | Some old \<Rightarrow> if pid_is_running S old w then Some old else None))
      else None)"

definition ensure_single_instance :: "'w sup_ext \<Rightarrow> nat \<Rightarrow> 'w \<Rightarrow> bool \<times> 'w" where
  "ensure_single_instance S current_pid w =
     (if other_instance S w \<noteq> None then (False, w) else (True, snd (su_write S manager_pid_file (show_nat current_pid) w)))"

section \<open>What the log says\<close>

text \<open>The agent was told to stop: a command to kill it and one to unload the kernel module were run. Their outcome is not
  looked at by the code, and not here.\<close>

definition stop_tried :: "act list \<Rightarrow> bool" where
  "stop_tried l \<longleftrightarrow> (\<exists>b. Ran ''pkill'' [''-9'', ''-f'', ''MagicArmor_0''] b \<in> set l) \<and> (\<exists>b. Ran ''rmmod'' [''osec_base''] b \<in> set l)"

definition unregister_tried :: "act list \<Rightarrow> bool" where
  "unregister_tried l \<longleftrightarrow> (\<exists>b. Ran ''chkconfig'' [''--del'', ''osec''] b \<in> set l)"

text \<open>What may follow a log: the installer only after the commands to stop the agent, the removal of the installation
  only after them and after the command to unregister the service, the removal of the downloaded update only after an
  installer that succeeded.\<close>

definition may_follow :: "act list \<Rightarrow> act \<Rightarrow> bool" where
  "may_follow l x =
     (case x of
        Ran cmd args _ \<Rightarrow> (cmd = ''/bin/bash'' \<longrightarrow> stop_tried l) \<and> (cmd = ''rm'' \<longrightarrow> stop_tried l \<and> unregister_tried l)
      | RemovedDir d \<Rightarrow> (\<exists>p. Ran ''/bin/bash'' [p, ''--upgrade''] True \<in> set l)
      | _ \<Rightarrow> True)"

fun safe_from :: "act list \<Rightarrow> act list \<Rightarrow> bool" where
  "safe_from l [] = True"
| "safe_from l (x # xs) = (may_follow l x \<and> safe_from (l @ [x]) xs)"

lemma safe_snoc: "safe_from l (xs @ [x]) \<longleftrightarrow> safe_from l xs \<and> may_follow (l @ xs) x"
  by (induction xs arbitrary: l) auto

lemma safe_append: "safe_from l (xs @ ys) \<longleftrightarrow> safe_from l xs \<and> safe_from (l @ xs) ys"
  by (induction xs arbitrary: l) auto

text \<open>What may follow a log may follow a longer one, so actions of other tasks do no harm.\<close>

lemma may_follow_mono: "may_follow l x \<Longrightarrow> set l \<subseteq> set l' \<Longrightarrow> may_follow l' x"
  by (cases x) (auto simp: may_follow_def stop_tried_def unregister_tried_def)

lemma safe_mono: "safe_from l xs \<Longrightarrow> set l \<subseteq> set l' \<Longrightarrow> safe_from l' xs"
proof (induction xs arbitrary: l l')
  case (Cons x xs)
  from Cons.prems have "safe_from (l @ [x]) xs" "set (l @ [x]) \<subseteq> set (l' @ [x])" by auto
  then have "safe_from (l' @ [x]) xs" by (rule Cons.IH)
  moreover have "may_follow l' x" using Cons.prems by (rule_tac may_follow_mono [of l]) simp_all
  ultimately show ?case by simp
qed simp

definition logged :: "('w sup_state \<Rightarrow> bool) \<Rightarrow> 'w sup_state \<Rightarrow> bool" where
  "logged P s \<longleftrightarrow> safe_from [] (acts s) \<and> P s"

text \<open>Properties of a state that stay when the log grows and the host changes.\<close>

definition lasting :: "('w sup_state \<Rightarrow> bool) \<Rightarrow> bool" where
  "lasting P \<longleftrightarrow> (\<forall>s x. P s \<longrightarrow> P (s\<lparr>acts := acts s @ [x]\<rparr>)) \<and> (\<forall>s w. P s \<longrightarrow> P (s\<lparr>suw := w\<rparr>))"

lemma lastingD: "lasting P \<Longrightarrow> P s \<Longrightarrow> P (s\<lparr>acts := acts s @ [x]\<rparr>)" "lasting P \<Longrightarrow> P s \<Longrightarrow> P (s\<lparr>suw := w\<rparr>)"
  by (simp_all add: lasting_def)

lemma keeps_did: "lasting P \<Longrightarrow> (\<And>s. P s \<Longrightarrow> may_follow (acts s) a) \<Longrightarrow> keeps (logged P) (did a)"
  by (auto simp: keeps_def did_def logged_def safe_snoc lastingD)

lemma keeps_on_suw: "lasting P \<Longrightarrow> keeps (logged P) (on_suw f)"
  by (auto simp: keeps_def on_suw_def logged_def lastingD split: prod.splits)

definition ordinary :: "string \<Rightarrow> bool" where "ordinary cmd \<longleftrightarrow> cmd \<noteq> ''/bin/bash'' \<and> cmd \<noteq> ''rm''"

lemma keeps_status: "lasting P \<Longrightarrow> ordinary cmd \<Longrightarrow> keeps (logged P) (status S cmd args)"
  unfolding status_def by (intro keep_intros keeps_on_suw keeps_did) (auto simp: may_follow_def ordinary_def)

lemma keeps_output_of: "lasting P \<Longrightarrow> ordinary cmd \<Longrightarrow> keeps (logged P) (output_of S cmd args)"
  unfolding output_of_def by (intro keep_intros keeps_on_suw keeps_did) (auto simp: may_follow_def ordinary_def)

lemma keeps_runs: "lasting P \<Longrightarrow> list_all (\<lambda>(cmd, args). ordinary cmd) cmds \<Longrightarrow> keeps (logged P) (runs S cmds)"
  unfolding runs_def by (rule keeps_for_each_set) (auto simp: list_all_iff intro!: keep_intros keeps_status)

lemma keeps_remove_one: "lasting P \<Longrightarrow> keeps (logged P) (remove_one S path)"
  unfolding remove_one_def by (intro keep_intros keeps_on_suw keeps_did) (auto simp: may_follow_def)

lemma keeps_remove_files: "lasting P \<Longrightarrow> keeps (logged P) (remove_files S paths)"
  unfolding remove_files_def by (intro keep_intros keeps_remove_one)

lemma keeps_slept: "lasting P \<Longrightarrow> keeps (logged P) (did (Slept n))"
  by (rule keeps_did) (simp_all add: may_follow_def)

lemmas sup_keeps = keeps_on_suw keeps_status keeps_output_of keeps_runs keeps_remove_one keeps_remove_files keeps_slept

lemma keeps_write_self: "lasting P \<Longrightarrow> keeps (logged P) (sup_write_proc_self S)"
  unfolding sup_write_proc_self_def
  by (intro monad_intros keeps_on_suw keeps_did keeps_output_of) (simp_all add: may_follow_def ordinary_def)

lemma keeps_wait_gone: "lasting P \<Longrightarrow> keeps (logged P) (wait_gone S n)"
  by (induction n) (auto intro!: monad_intros sup_keeps simp: sup_process_running_def ordinary_def)

lemma keeps_stop_services: "lasting P \<Longrightarrow> keeps (logged P) (stop_services S)"
  unfolding stop_services_def by (intro monad_intros sup_keeps) (simp_all add: ordinary_def)

lemma keeps_kill_agent: "lasting P \<Longrightarrow> keeps (logged P) (kill_agent S)"
  unfolding kill_agent_def by (intro sup_keeps) (simp_all add: ordinary_def)

lemma keeps_module_file: "lasting P \<Longrightarrow> keeps (logged P) (remove_module_file S)"
  unfolding remove_module_file_def by (intro monad_intros sup_keeps) (simp_all add: ordinary_def)

lemma keeps_c2r: "lasting P \<Longrightarrow> keeps (logged P) (cleanup_c2r_bridge S)"
  unfolding cleanup_c2r_bridge_def by (intro monad_intros sup_keeps) (simp_all add: ordinary_def)

text \<open>The services are stopped, then the module is unloaded.\<close>

definition ensures :: "('w sup_state \<Rightarrow> bool) \<Rightarrow> ('w sup_state, 'a) state \<Rightarrow> bool" where
  "ensures Q m \<longleftrightarrow> (\<forall>s. Q (snd (run_state m s)))"

lemma ensures_bind: "(\<And>x. ensures Q (f x)) \<Longrightarrow> ensures Q (State_Monad.bind m f)"
  by (simp add: ensures_def split: prod.splits)

lemma ensures_then: "ensures Q m \<Longrightarrow> (\<And>x. keeps Q (f x)) \<Longrightarrow> ensures Q (State_Monad.bind m f)"
  by (auto simp: ensures_def keeps_def split: prod.splits) (metis snd_conv)

lemma ensures_if: "ensures Q m \<Longrightarrow> ensures Q n \<Longrightarrow> ensures Q (if b then m else n)"
  by simp

lemma run_status:
  "run_state (status S cmd args) s = (fst (su_status S cmd args (suw s)),
     s\<lparr>suw := snd (su_status S cmd args (suw s)), acts := acts s @ [Ran cmd args (succeeded (fst (su_status S cmd args (suw s))))]\<rparr>)"
  by (simp add: status_def did_def on_suw_def split: prod.splits)

lemma runs_first: "ensures (\<lambda>s. \<exists>b. Ran cmd args b \<in> set (acts s)) (runs S ((cmd, args) # cmds))"
proof -
  have "keeps (\<lambda>s. Ran cmd args b \<in> set (acts s)) (runs S cmds)" for b
  proof -
    have "keeps (\<lambda>s. Ran cmd args b \<in> set (acts s)) (status S c a)" for c a
      by (simp add: keeps_def run_status)
    then show ?thesis unfolding runs_def by (intro keeps_for_each) (auto intro!: keeps_case_prod keeps_bind keeps_return)
  qed
  then have "Ran cmd args b \<in> set (acts t) \<Longrightarrow> Ran cmd args b \<in> set (acts (snd (run_state (runs S cmds) t)))" for b t
    by (simp add: keeps_def)
  moreover have "run_state (runs S ((cmd, args) # cmds)) s = run_state (runs S cmds) (snd (run_state (status S cmd args) s))" for s
    by (simp add: runs_def split: prod.splits)
  moreover have "\<exists>b. Ran cmd args b \<in> set (acts (snd (run_state (status S cmd args) s)))" for s by (auto simp: run_status)
  ultimately show ?thesis unfolding ensures_def by metis
qed

lemma stop_and_unload_kills: "ensures (\<lambda>s. \<exists>b. Ran ''pkill'' [''-9'', ''-f'', ''MagicArmor_0''] b \<in> set (acts s)) (stop_and_unload S)"
proof -
  let ?Q = "\<lambda>s. \<exists>b. Ran ''pkill'' [''-9'', ''-f'', ''MagicArmor_0''] b \<in> set (acts s)"
  have k: "ensures ?Q (kill_agent S)" unfolding kill_agent_def by (rule runs_first)
  have d: "keeps ?Q (did a)" "keeps ?Q (on_suw f)" for a f by (auto simp: keeps_def did_def on_suw_def split: prod.splits)
  have "keeps ?Q (do { did (Slept 500); runs S [(''rmmod'', [''-f'', ''osec_base''])]; output_of S ''bash'' [''-c'', ''lsmod | grep osec''] })"
    unfolding runs_def status_def output_of_def by (intro monad_intros d) (auto intro!: monad_intros d)
  from ensures_then [OF k this] show ?thesis unfolding stop_and_unload_def by (rule ensures_bind [OF ensures_bind [OF ensures_bind]])
qed

lemma runs_logs: "\<exists>t b. run_state (runs S [(cmd, args)]) s = ((), t) \<and> Ran cmd args b \<in> set (acts t)"
  using runs_first [of cmd args S "[]"] unfolding ensures_def by (metis (full_types) old.unit.exhaust prod.collapse)

lemma stop_osec_services_stops:
  fixes s :: "'w sup_state"
  assumes "lasting P" and "logged P s" and "run_state (stop_osec_services S) s = (r, t)"
  shows "logged P t \<and> (r \<noteq> None \<longrightarrow> stop_tried (acts t))"
proof -
  obtain q u where u: "run_state (stop_and_unload S) s = (q, u)" by (rule prod.exhaust)
  have "keeps (logged P) (stop_and_unload S)" unfolding stop_and_unload_def
    by (intro keeps_bind keeps_for_each keeps_stop_services keeps_kill_agent sup_keeps assms(1)) (simp_all add: ordinary_def)
  from keepsD_run [OF this assms(2) u] have lu: "logged P u" .
  show ?thesis
  proof (cases q)
    case (Inl e)
    with u lu assms(3) show ?thesis by (simp add: stop_osec_services_def)
  next
    case (Inr out)
    obtain d v where v: "run_state (await_end S) u = (d, v)" by (rule prod.exhaust)
    let ?K = "\<lambda>s. \<exists>b. Ran ''pkill'' [''-9'', ''-f'', ''MagicArmor_0''] b \<in> set (acts s)"
    have "?K u" using stop_and_unload_kills [of S] u unfolding ensures_def by (metis snd_conv)
    moreover have pk: "lasting (\<lambda>s. P s \<and> ?K s)" using assms(1) by (auto simp: lasting_def)
    ultimately have "logged (\<lambda>s. P s \<and> ?K s) u" using lu by (simp add: logged_def)
    moreover have "keeps (logged (\<lambda>s. P s \<and> ?K s)) (await_end S)"
      unfolding await_end_def by (intro keeps_bind keeps_gets keeps_wait_gone sup_keeps pk)
    ultimately have lv: "logged (\<lambda>s. P s \<and> ?K s) v" using keepsD_run [OF _ _ v] by blast
    obtain x b where x: "run_state (runs S [(''rmmod'', [''osec_base''])]) v = ((), x)" "Ran ''rmmod'' [''osec_base''] b \<in> set (acts x)"
      using runs_logs by blast
    have "keeps (logged (\<lambda>s. P s \<and> ?K s)) (runs S [(''rmmod'', [''osec_base''])])" by (intro sup_keeps pk) (simp add: ordinary_def)
    from keepsD_run [OF this lv x(1)] x(2) have lx: "logged (\<lambda>s. P s \<and> stop_tried (acts s)) x" by (auto simp: logged_def stop_tried_def)
    have "lasting (\<lambda>s. P s \<and> stop_tried (acts s))" using assms(1) by (auto simp: lasting_def stop_tried_def)
    from keepsD [OF keeps_module_file [OF this] lx] have "logged (\<lambda>s. P s \<and> stop_tried (acts s)) (snd (run_state (remove_module_file S) x))" .
    moreover have "run_state (stop_osec_services S) s = (Some (), snd (run_state (remove_module_file S) x))"
      using u Inr v x(1) by (simp add: stop_osec_services_def)
    ultimately show ?thesis using assms(3) by (auto simp: logged_def)
  qed
qed

section \<open>Installer and removal\<close>

lemma stopped_lasting: "lasting (\<lambda>s. stop_tried (acts s))" "lasting (\<lambda>s. stop_tried (acts s) \<and> unregister_tried (acts s))"
  "lasting (\<lambda>s. tasks s \<noteq> [] \<longrightarrow> stop_tried (acts s))"
  by (auto simp: lasting_def stop_tried_def unregister_tried_def)

lemma script_safe:
  assumes "logged (\<lambda>s. stop_tried (acts s)) s"
  shows "logged (\<lambda>s. stop_tried (acts s)) (snd (run_state (run_script_and_cleanup S path dir) s))"
proof -
  obtain t where t: "run_state (runs S [(''chmod'', [''+x'', path])]) s = ((), t)" using runs_logs by blast
  have "keeps (logged (\<lambda>s. stop_tried (acts s))) (runs S [(''chmod'', [''+x'', path])])"
    by (intro sup_keeps stopped_lasting) (simp add: ordinary_def)
  from keepsD_run [OF this assms t] have lt: "logged (\<lambda>s. stop_tried (acts s)) t" .
  let ?r = "\<lambda>r. Ran ''/bin/bash'' [path, ''--upgrade''] (succeeded r)"
  obtain w r where r: "run_state (status S ''/bin/bash'' [path, ''--upgrade'']) t = (r, t\<lparr>suw := w, acts := acts t @ [?r r]\<rparr>)"
    using run_status [of S "''/bin/bash''" "[path, ''--upgrade'']" t] by blast
  let ?u = "t\<lparr>suw := w, acts := acts t @ [?r r]\<rparr>"
  have lu: "logged (\<lambda>s. stop_tried (acts s)) ?u" using lt by (auto simp: logged_def safe_snoc may_follow_def stop_tried_def)
  show ?thesis
  proof (cases "succeeded r")
    case True
    obtain b w' where "su_remove_dir S dir w = (b, w')" by (rule prod.exhaust)
    moreover have "logged (\<lambda>s. stop_tried (acts s)) (?u\<lparr>suw := w', acts := acts ?u @ [RemovedDir dir]\<rparr>)"
    proof -
      have "safe_from [] ((acts t @ [?r r]) @ [RemovedDir dir])"
        using lu True by (subst safe_snoc) (auto simp: logged_def may_follow_def)
      then show ?thesis using lu by (auto simp: logged_def stop_tried_def)
    qed
    ultimately show ?thesis using t r True by (simp add: run_script_and_cleanup_def on_suw_def did_def)
  qed (use t r lu in \<open>simp add: run_script_and_cleanup_def\<close>)
qed

lemma keeps_disable: "lasting P \<Longrightarrow> keeps (logged P) (disable_services S)"
  unfolding disable_services_def cleanup_all_service_files_def
  by (intro monad_intros sup_keeps) (simp_all add: ordinary_def unregister_cmds_def)

lemma disable_unregisters: "ensures (\<lambda>s. unregister_tried (acts s)) (disable_services S)"
proof -
  have "ensures (\<lambda>s. unregister_tried (acts s)) (runs S unregister_cmds)"
    using runs_first [of "''chkconfig''" "[''--del'', ''osec'']" S] by (simp add: unregister_cmds_def unregister_tried_def)
  then show ?thesis unfolding disable_services_def by (intro ensures_bind ensures_if)
qed

lemma uninstall_safe:
  assumes "logged (\<lambda>s. stop_tried (acts s)) s"
  shows "logged (\<lambda>s. stop_tried (acts s)) (snd (run_state (uninstall_all S) s))"
proof -
  let ?P = "\<lambda>s. stop_tried (acts s) \<and> unregister_tried (acts s)"
  obtain d t where t: "run_state (disable_services S) s = (d, t)" by (rule prod.exhaust)
  have "logged ?P t"
    using keepsD_run [OF keeps_disable [OF stopped_lasting(1)] assms t] disable_unregisters [of S] t
    by (auto simp: logged_def ensures_def) (metis snd_conv)
  moreover have "keeps (logged ?P) (uninstall_module S)" unfolding uninstall_module_def
    by (intro monad_intros sup_keeps stopped_lasting) (simp_all add: ordinary_def)
  moreover have "keeps (logged ?P) (runs S [(''rm'', [''-rf'', ''/opt/osec''])])"
    unfolding runs_def status_def
    by (auto intro!: monad_intros keeps_on_suw keeps_did stopped_lasting simp: may_follow_def)
  ultimately have "keeps (logged ?P) (do {
       remove_files S [''/var/run/osec_backend.pid'', ''/var/run/agent_manager.pid'', ''/var/run/osec.pid'', ''/var/run/agent_manager.pid'',
         ''/var/run/osec_monitor.pid'', ''/var/run/agent_manager_monitor.pid''];
       uninstall_module S;
       installed \<leftarrow> gets (\<lambda>s. su_exists S ''/opt/osec'' (suw s));
       if installed then runs S [(''rm'', [''-rf'', ''/opt/osec''])] else State_Monad.return ()
     })" by (intro monad_intros keeps_remove_files stopped_lasting)
  from keepsD [OF this \<open>logged ?P t\<close>] show ?thesis using t unfolding uninstall_all_def by (simp add: logged_def)
qed

section \<open>Every run\<close>

definition sup_ok :: "'w sup_state \<Rightarrow> bool" where
  "sup_ok = logged (\<lambda>s. tasks s \<noteq> [] \<longrightarrow> stop_tried (acts s))"

lemma stopped_ok: "logged (\<lambda>s. stop_tried (acts s)) s \<Longrightarrow> sup_ok s"
  by (simp add: sup_ok_def logged_def)

lemma stopped_flags [simp]:
  "logged (\<lambda>s. stop_tried (acts s)) (s\<lparr>tasks := ts\<rparr>) = logged (\<lambda>s. stop_tried (acts s)) s"
  by (simp add: logged_def)

lemma run_command_ok:
  assumes "sup_ok s"
  shows "sup_ok (snd (run_state (run_command S cmd) s))"
proof -
  let ?P = "\<lambda>s. tasks s \<noteq> [] \<longrightarrow> stop_tried (acts s)"
  obtain r0 s0 where s0: "run_state (sup_write_proc_self S) s = (r0, s0)" by (rule prod.exhaust)
  have l0: "logged ?P s0"
    using keepsD_run [OF keeps_write_self [OF stopped_lasting(3)] _ s0] assms by (simp add: sup_ok_def)
  obtain r t where t: "run_state (stop_osec_services S) s0 = (r, t)" by (rule prod.exhaust)
  have lt: "logged ?P t \<and> (r \<noteq> None \<longrightarrow> stop_tried (acts t))" using stop_osec_services_stops [OF stopped_lasting(3) l0 t] .
  then have lt': "r \<noteq> None \<Longrightarrow> logged (\<lambda>s. stop_tried (acts s)) t" by (simp add: logged_def)
  have c: "r \<noteq> None \<Longrightarrow> logged (\<lambda>s. stop_tried (acts s)) (snd (run_state (cleanup_c2r_bridge S) t))"
    using keepsD [OF keeps_c2r [OF stopped_lasting(1)] lt'] .
  show ?thesis
  proof (cases cmd)
    case Update
    show ?thesis
    proof (cases r)
      case None
      with Update s0 t lt show ?thesis by (simp add: run_command_def sup_ok_def)
    next
      case (Some u)
      obtain d x where "run_state (cleanup_c2r_bridge S) t = (d, x)" by (rule prod.exhaust)
      with Some Update s0 t c have "logged (\<lambda>s. stop_tried (acts s)) (snd (run_state (run_command S cmd) s))"
        by (simp add: run_command_def)
      then show ?thesis by (rule stopped_ok)
    qed
  next
    case Uninstall
    show ?thesis
    proof (cases r)
      case None
      with Uninstall s0 t lt show ?thesis by (simp add: run_command_def sup_ok_def)
    next
      case (Some u)
      with Uninstall s0 t lt' have "logged (\<lambda>s. stop_tried (acts s)) (snd (run_state (run_command S cmd) s))" by (simp add: run_command_def)
      then show ?thesis by (rule stopped_ok)
    qed
  qed (use assms in \<open>simp add: run_command_def\<close>)
qed

lemma run_sup_task_ok: "logged (\<lambda>s. stop_tried (acts s)) s \<Longrightarrow> sup_ok (snd (run_state (run_sup_task S t) s))"
proof (rule stopped_ok)
  assume l: "logged (\<lambda>s. stop_tried (acts s)) s"
  obtain d u where u: "run_state (uninstall_all S) s = (d, u)" by (rule prod.exhaust)
  show "logged (\<lambda>s. stop_tried (acts s)) (snd (run_state (run_sup_task S t) s))"
    using l u uninstall_safe [OF l, of S] script_safe [OF l, of S]
    by (cases t) (simp_all add: run_sup_task_def split: option.splits)
qed

text \<open>The log is safe, and so is what the loop and the tasks have still to do; tasks are spawned behind the commands to
  stop the agent.\<close>

definition sup_inv :: "act list \<Rightarrow> (act list \<times> bool \<times> sup_task list) option \<Rightarrow> (sup_task \<times> act list) list \<Rightarrow> bool" where
  "sup_inv log lk ts \<longleftrightarrow> safe_from [] log \<and> (\<forall>x \<in> set ts. safe_from log (snd x)) \<and>
     (case lk of None \<Rightarrow> True
      | Some (todo, ends, spawned) \<Rightarrow> safe_from log todo \<and> (spawned \<noteq> [] \<longrightarrow> stop_tried (log @ todo)))"

lemma sup_inv_act:
  assumes "sup_inv log lk ts" and "may_follow log a"
  shows "safe_from [] (log @ [a])" and "\<forall>x \<in> set ts. safe_from (log @ [a]) (snd x)"
  using assms safe_mono [of log _ "log @ [a]"] by (auto simp: sup_inv_def safe_append)

lemma command_inv:
  assumes "safe_from [] log" and "run_state (run_command S cmd) ((sup_start w)\<lparr>acts := log\<rparr>) = (r, t)" and "acts t = log @ todo"
  shows "safe_from log todo" and "tasks t \<noteq> [] \<Longrightarrow> stop_tried (log @ todo)"
proof -
  have "sup_ok ((sup_start w)\<lparr>acts := log\<rparr>)" using assms(1) by (simp add: sup_ok_def logged_def sup_start_def)
  from run_command_ok [OF this, of S cmd] assms(2,3)
  show "safe_from log todo" "tasks t \<noteq> [] \<Longrightarrow> stop_tried (log @ todo)" by (simp_all add: sup_ok_def logged_def safe_append)
qed

lemma spawned_inv:
  assumes "safe_from [] log" and "stop_tried log" and "run_state (run_sup_task S task) ((sup_start w)\<lparr>acts := log\<rparr>) = (r, t)"
    and "acts t = log @ todo"
  shows "safe_from log todo"
proof -
  have "logged (\<lambda>s. stop_tried (acts s)) ((sup_start w)\<lparr>acts := log\<rparr>)" using assms(1,2) by (simp add: logged_def)
  from run_sup_task_ok [OF this, of S task] assms(3,4) show ?thesis by (simp add: sup_ok_def logged_def safe_append)
qed

lemma sup_inv_run: "run_agent_manager log q lk ts \<Longrightarrow> sup_inv log lk ts"
proof (induction rule: run_agent_manager.induct)
  case (recv log cmd q ts S w r t todo)
  from recv.IH have "safe_from [] log" by (simp add: sup_inv_def)
  from command_inv [OF this recv.hyps(2,3)] recv.IH show ?case by (simp add: sup_inv_def)
next
  case (act log q a todo ends spawned ts)
  from act.IH have "may_follow log a" "safe_from (log @ [a]) todo" by (simp_all add: sup_inv_def)
  with sup_inv_act [OF act.IH] act.IH show ?case by (simp add: sup_inv_def)
next
  case (spawn log q task spawned ts S w r t todo)
  from spawn.IH have "safe_from [] log" "stop_tried log" by (simp_all add: sup_inv_def)
  from spawned_inv [OF this spawn.hyps(2,3)] spawn.IH show ?case by (simp add: sup_inv_def)
next
  case (task log q lk ts task a todo)
  then have a: "may_follow log a" "safe_from (log @ [a]) todo" by (auto simp: sup_inv_def)
  moreover have "set (remove1 (task, a # todo) ts) \<subseteq> set ts" by (rule set_remove1_subset)
  moreover have "stop_tried (log @ l) \<Longrightarrow> stop_tried (log @ a # l)" for l by (auto simp: stop_tried_def)
  ultimately show ?case
    using sup_inv_act [OF task.IH a(1)] task.IH safe_mono [of log _ "log @ [a]"]
    by (auto simp: sup_inv_def split: option.splits)
qed (auto simp: sup_inv_def)

text \<open>C25: whatever commands arrive and however the actions of the loop and of the spawned tasks interleave, the installer
  of an update is started only after the commands to kill the agent and to unload the kernel module were run, the
  installation is removed only after them and after the command to unregister the service, and a downloaded update only
  after an installer has succeeded. The outcome of the commands to stop, unload and unregister does not matter.\<close>

theorem installer_runs_on_stopped_agent:
  assumes "run_agent_manager log q lk ts"
  shows "safe_from [] log"
  using sup_inv_run [OF assms] by (simp add: sup_inv_def)

section \<open>A host without a shell\<close>

text \<open>When \<^verbatim>\<open>bash\<close> cannot be started, the first update or uninstall command ends the supervisor after it has stopped the
  agent: no installer and no removal is ever started.\<close>

lemma no_shell_no_update:
  assumes "\<And>w. \<exists>e w'. su_output S ''bash'' [''-c'', ''lsmod | grep osec''] w = (Inl e, w')"
  shows "fst (run_state (stop_osec_services S) s) = None"
proof -
  have "\<exists>e t. run_state (output_of S ''bash'' [''-c'', ''lsmod | grep osec'']) u = (Inl e, t)" for u
    using assms [of "suw u"] by (auto simp: output_of_def on_suw_def did_def)
  then have "\<exists>e t. run_state (stop_and_unload S) s = (Inl e, t)" unfolding stop_and_unload_def by (simp split: prod.splits)
  then show ?thesis by (auto simp: stop_osec_services_def)
qed

lemma update_ends_supervisor:
  assumes "fst (run_state (stop_osec_services S) (snd (run_state (sup_write_proc_self S) s))) = None" and "cmd \<in> {Update, Uninstall}"
  shows "fst (run_state (run_command S cmd) s) = None"
  using assms by (auto simp: run_command_def split: prod.splits option.splits)

section \<open>One instance\<close>

lemma second_instance_refused:
  assumes "ensure_single_instance S pid w = (True, w1)" and "pid \<le> 4294967295"
    and "su_exists S manager_pid_file w1" and "su_read_text S manager_pid_file w1 = Inr (show_nat pid)" and "pid_is_running S pid w1"
  shows "ensure_single_instance S pid2 w1 = (False, w1)"
proof -
  have "trim (show_nat pid) = show_nat pid" by (rule trim_show_nat)
  with assms(2-5) have "other_instance S w1 = Some pid" by (simp add: other_instance_def parse_uint_show_nat)
  then show ?thesis by (simp add: ensure_single_instance_def)
qed

section \<open>An update on a small host\<close>

definition lab_sup :: "nat sup_ext" where
  "lab_sup = \<lparr>su_status = (\<lambda>c a w. (Inr \<lparr>ps_success = True, ps_display = ''exit status: 0''\<rparr>, w)),
     su_output = (\<lambda>c a w. (Inr \<lparr>po_success = (c = ''bash''), po_stdout = [], po_stderr = []\<rparr>, w)), su_exists = (\<lambda>p w. False),
     su_remove_file = (\<lambda>p w. (True, w)), su_remove_dir = (\<lambda>p w. (True, w)), su_open = (\<lambda>p w. Inr ()), su_write = (\<lambda>p t w. (Inr (), w)),
     su_today = (\<lambda>w. (2025, 1, 11)), su_entries = (\<lambda>d w. Inr [''notes'', ''osec-installer-2.sh'']), su_looks = (\<lambda>w. 61), su_read_text = (\<lambda>p w. Inl ''no'')\<rparr>"

definition lab_stopped :: "act list" where
  "lab_stopped = acts (snd (run_state (run_command lab_sup Update) (sup_start 0)))"

definition lab_installed :: "act list" where
  "lab_installed = [Ran ''chmod'' [''+x'', ''/tmp/osec_update/osec-installer-2.sh''] True,
     Ran ''/bin/bash'' [''/tmp/osec_update/osec-installer-2.sh'', ''--upgrade''] True, RemovedDir ''/tmp/osec_update'']"

text \<open>Where a shell can be started, an update gets to its end and spawns the task of the installer.\<close>

lemma update_spawns:
  assumes "\<And>w. \<exists>out w'. su_output S ''bash'' [''-c'', ''lsmod | grep osec''] w = (Inr out, w')" and "safe_from [] (acts s)"
  shows "\<exists>t. run_state (run_command S Update) s = (Some (), t) \<and> tasks t = tasks s @ [RunScript]"
proof -
  let ?P = "\<lambda>u. tasks u = tasks s"
  have P: "lasting ?P" by (simp add: lasting_def)
  obtain r0 s0 where s0: "run_state (sup_write_proc_self S) s = (r0, s0)" by (rule prod.exhaust)
  have l0: "logged ?P s0" using keepsD_run [OF keeps_write_self [OF P] _ s0] assms(2) by (simp add: logged_def)
  obtain r t where t: "run_state (stop_osec_services S) s0 = (r, t)" by (rule prod.exhaust)
  have "\<exists>out t. run_state (output_of S ''bash'' [''-c'', ''lsmod | grep osec'']) u = (Inr out, t)" for u
    using assms(1) [of "suw u"] by (auto simp: output_of_def on_suw_def did_def)
  then have "\<exists>out t. run_state (stop_and_unload S) s0 = (Inr out, t)" unfolding stop_and_unload_def by (simp split: prod.splits)
  with t have r: "r = Some ()" by (auto simp: stop_osec_services_def split: prod.splits)
  have "logged ?P t" using stop_osec_services_stops [OF P l0 t] by blast
  from keepsD [OF keeps_c2r [OF P] this, of S] have "tasks (snd (run_state (cleanup_c2r_bridge S) t)) = tasks s" by (simp add: logged_def)
  with s0 t r show ?thesis by (auto simp: run_command_def split: prod.splits)
qed

lemma lab_command: "fst (run_state (run_command lab_sup Update) (sup_start 0)) = Some ()"
  "tasks (snd (run_state (run_command lab_sup Update) (sup_start 0))) = [RunScript]"
proof -
  have "\<exists>t. run_state (run_command lab_sup Update) (sup_start 0) = (Some (), t) \<and> tasks t = tasks (sup_start (0::nat)) @ [RunScript]"
    by (rule update_spawns) (simp_all add: lab_sup_def sup_start_def)
  then show "fst (run_state (run_command lab_sup Update) (sup_start 0)) = Some ()"
    "tasks (snd (run_state (run_command lab_sup Update) (sup_start 0))) = [RunScript]" by (auto simp: sup_start_def)
qed

lemma lab_script: "acts (snd (run_state (run_sup_task lab_sup RunScript) ((sup_start 0)\<lparr>acts := log\<rparr>))) = log @ lab_installed"
proof -
  have f: "find_upgrade_script lab_sup update_dir 0 = Some ''/tmp/osec_update/osec-installer-2.sh''" by code_simp
  then show ?thesis
    by (simp add: run_sup_task_def sup_start_def run_script_and_cleanup_def runs_def run_status on_suw_def did_def lab_installed_def)
      (simp add: lab_sup_def succeeded_def update_dir_def)
qed

lemma act_all: "run_agent_manager log q (Some (todo, ends, spawned)) ts \<Longrightarrow> run_agent_manager (log @ todo) q (Some ([], ends, spawned)) ts"
proof (induction todo arbitrary: log)
  case (Cons a todo)
  from Cons.IH [OF run_agent_manager.act [OF Cons.prems]] show ?case by simp
qed simp

lemma task_all: "run_agent_manager log q lk ((k, todo) # ts) \<Longrightarrow> run_agent_manager (log @ todo) q lk ((k, []) # ts)"
proof (induction todo arbitrary: log)
  case (Cons a todo)
  from run_agent_manager.task [OF Cons.prems, of k a todo] have "run_agent_manager (log @ [a]) q lk ((k, todo) # ts)" by simp
  from Cons.IH [OF this] show ?case by simp
qed simp

lemma lab_run: "run_agent_manager (lab_stopped @ lab_installed) [] (Some ([], True, [])) [(RunScript, [])]"
proof -
  have u: "handle_client ''update'' = Update" by code_simp
  have "run_agent_manager [] [Update] None []"
    using run_agent_manager.client [OF run_agent_manager.start, of "''update''"] by (simp add: u)
  from run_agent_manager.recv [OF this, of lab_sup 0] lab_command
  have "run_agent_manager [] [] (Some (lab_stopped, True, [RunScript])) []"
    by (simp add: lab_stopped_def sup_start_def prod_eq_iff)
  from act_all [OF this] have "run_agent_manager lab_stopped [] (Some ([], True, [RunScript])) []" by simp
  from run_agent_manager.spawn [OF this prod.collapse [symmetric] lab_script] have
    "run_agent_manager lab_stopped [] (Some ([], True, [])) [(RunScript, lab_installed)]" .
  from task_all [OF this] show ?thesis .
qed

theorem installer_runs_on_stopped_agent_witness:
  "stop_tried (lab_stopped @ [hd lab_installed])
   \<and> run_agent_manager (lab_stopped @ lab_installed) [] (Some ([], True, [])) [(RunScript, [])]"
proof
  from installer_runs_on_stopped_agent [OF lab_run]
  have "may_follow (lab_stopped @ [hd lab_installed]) (lab_installed ! 1)" by (simp add: safe_append lab_installed_def)
  then show "stop_tried (lab_stopped @ [hd lab_installed])" by (simp add: may_follow_def lab_installed_def)
qed (rule lab_run)

end
