(* ===== verification/Spec2Isabelle.thy ===== *)
theory Spec2Isabelle
  imports Agent_Run Net_Config Kernel_Event Usb_Monitor Kernel_Driver Online Cli_Server Supervisor
begin

text \<open>
  A verification of a host security agent written in Rust. The agent runs on a Linux host beside a
  kernel module of its own. One side of it polls a server over HTTP for tasks and policies and
  carries them out; the other side receives events from the kernel module and reports them to the
  server. Both are made of crates of one workspace:

  \<^item> \<^verbatim>\<open>crates/task\<close> polls for tasks, dispatches them, applies the configuration and updates the agent;
  \<^item> \<^verbatim>\<open>crates/rules_jump_mgr\<close> moves the host to another IP address (and changes a password) on the
    server's order, keeps the old address for a while and removes it when it has aged;
  \<^item> \<^verbatim>\<open>crates/netblock\<close> keeps the table of blocked addresses with expiry timers;
  \<^item> \<^verbatim>\<open>crates/process_mgr\<close> keeps the white and black list of executables, and a cache of digests;
  \<^item> \<^verbatim>\<open>crates/udisk\<close> keeps the white and black list of USB devices and watches the devices that come and go;
  \<^item> \<^verbatim>\<open>crates/kernel_module\<close> chooses and loads the kernel module;
  \<^item> \<^verbatim>\<open>crates/online\<close> registers the agent and reports its hardware;
  \<^item> \<^verbatim>\<open>crates/pattern\<close> renders protected, trusted and ransomware-protected directories into the
    pattern language of the kernel module;
  \<^item> \<^verbatim>\<open>crates/snapman\<close> makes and restores snapshots of the volumes;
  \<^item> \<^verbatim>\<open>crates/config\<close> is the configuration and its file;
  \<^item> \<^verbatim>\<open>crates/zcopy_mgr\<close> maps the buffers in which the kernel module reports events,
    \<^verbatim>\<open>crates/netlink\<close> is the socket to it and \<^verbatim>\<open>crates/kernel_event\<close> the dispatch of its messages;
  \<^item> \<^verbatim>\<open>crates/reporter\<close> turns the events into documents for the server;
  \<^item> \<^verbatim>\<open>crates/docker\<close> tells the kernel module which processes belong to containers, and
    \<^verbatim>\<open>crates/hostinfo/src/net_app\<close> which ports are in use;
  \<^item> \<^verbatim>\<open>crates/net_client\<close> is the HTTP client under all of them;
  \<^item> \<^verbatim>\<open>crates/agent_manager\<close> is a program of its own: it supervises the agent, carries out its updates
    and its removal, and is both ends of a remote command line for operators.

  The managers meet the kernel module at control files under \<^verbatim>\<open>/proc/osec\<close> (text written to them), at
  the mapped buffers and at the socket, the host at commands such as \<^verbatim>\<open>ip\<close>, \<^verbatim>\<open>netplan\<close>, \<^verbatim>\<open>lvs\<close>, \<^verbatim>\<open>ps\<close>
  and \<^verbatim>\<open>chpasswd\<close>, and the server at HTTP requests.

  \<^bold>\<open>Theories and sources.\<close> Foundations:

  \<^item> Prelude: \<^verbatim>\<open>u8\<close> to \<^verbatim>\<open>u64\<close> as words, results as sums with the error text on the left, the state
    monad with the predicate \<open>keeps\<close> (an operation preserves a predicate), and the parts of
    Rust's strings, numbers and \<^verbatim>\<open>Ipv4Addr\<close> that the code uses. A string is its UTF-8 bytes.
  \<^item> Json: the values of \<^verbatim>\<open>serde_json\<close> and their accessors.
  \<^item> Panic: computations that may panic, with the predicate \<open>unhurt\<close> (no panic from a state with an
    invariant, and the invariant kept).
  \<^item> Proc_File: files under \<^verbatim>\<open>/proc/osec\<close> as a log of writes, and what a rule file holds after it.
    Host_Call: calls to the host from components that keep such a log.
  \<^item> Black_White: the contract of a white and a black list (locale \<open>black_white\<close>), with what follows
    from it for a whole history of updates; Usb_List and Process_Policy interpret it.
  \<^item> Pattern_Sync: the contract of a manager that reloads the kernel when its texts differ from
    those it loaded last (locale \<open>change_tracker\<close>); Pattern_Rules and Process_Pattern_Rules
    interpret it.

  The side of the server's tasks:

  \<^item> Net_Client: \<^verbatim>\<open>net_client/src/core/client.rs\<close>.
  \<^item> Jump_Utils, Ip_Manager, Ip_Jump, Pw_Manager: \<^verbatim>\<open>rules_jump_mgr/src/utils.rs\<close>, \<^verbatim>\<open>ip_manager.rs\<close>,
    \<^verbatim>\<open>lib.rs\<close> and \<^verbatim>\<open>pw_manager.rs\<close>; Ip_Manager holds the state, the requests and the secondary
    addresses, Ip_Jump the jump, its persistence, the execution of an instruction and the daemon.
  \<^item> Ip_Policy: \<^verbatim>\<open>netblock/src/ip_policy.rs\<close>. Process_Policy: \<^verbatim>\<open>process_mgr/src/policy_mgr.rs\<close>.
    Usb_List: \<^verbatim>\<open>udisk/src/list.rs\<close> and \<^verbatim>\<open>device.rs\<close>.
  \<^item> Pattern_Rules and Pattern_History: \<^verbatim>\<open>pattern/src/pattern_rules_mgr.rs\<close>; Process_Pattern_Rules:
    \<^verbatim>\<open>pattern/src/process_pattern_rules_mgr.rs\<close>.
  \<^item> Snapman: \<^verbatim>\<open>snapman/src/lib.rs\<close>.
  \<^item> Net_Info and Net_Config: \<^verbatim>\<open>config/src/net_info.rs\<close>, saving and reading.
  \<^item> Agent_State: the managers side by side in the record \<open>agent\<close>, each running on its part together
    with the shared world and logs, and the locale \<open>tenant\<close> for a manager that shares the control
    files. Agent_Kernel interprets it for the four managers.
  \<^item> Task_Common, Upload_Tasks, Task_Config, Upgrade, Task_Fetcher: \<^verbatim>\<open>task/src/task_fetcher.rs\<close> with
    \<^verbatim>\<open>get_process_task.rs\<close>, \<^verbatim>\<open>scan_directory_task.rs\<close>, \<^verbatim>\<open>virtual_port_rule.rs\<close>: requests and reports,
    uploads, the configuration and its switches, the update of the agent, the tasks themselves,
    their dispatch and the polling loop.
  \<^item> Agent_Run: the composed agent as a transition system.

  The side of the events:

  \<^item> Zcopy: \<^verbatim>\<open>zcopy_mgr/src/lib.rs\<close>, with the locale \<open>ring\<close> for one circular buffer, interpreted for
    each of the six buffers.
  \<^item> Netlink: \<^verbatim>\<open>netlink/src/netlink.rs\<close> and \<^verbatim>\<open>kernel_event/src/msg_handler/mod.rs\<close>.
  \<^item> Docker: \<^verbatim>\<open>docker/src/monitor.rs\<close>.
  \<^item> Md5_Cache: \<^verbatim>\<open>process_mgr/src/md5_cache.rs\<close>.
  \<^item> Ip_Text and Net_App: \<^verbatim>\<open>hostinfo/src/net_app\<close>, ports and their programs.
  \<^item> Report_Base, Process_Audit, File_Audit, Net_Log, Port_Audit: \<^verbatim>\<open>reporter/src\<close>: what the handlers
    share, then one theory for process events, file events with the log worker, network records,
    and virtual ports with self protection.
  \<^item> Kernel_Event: \<^verbatim>\<open>kernel_event/src/event_handler/mod.rs\<close>: the table of handlers, the dispatch, the
    receiving loop and the tasks, over all of the above.

  \<^item> Usb_Monitor: \<^verbatim>\<open>udisk/src/monitor.rs\<close> and \<^verbatim>\<open>utils.rs\<close>; its alerts go through the channel of File_Audit.
  \<^item> Kernel_Driver: \<^verbatim>\<open>kernel_module/src/lib.rs\<close>.
  \<^item> Online: \<^verbatim>\<open>online/src/lib.rs\<close> and the loop of \<^verbatim>\<open>task_fetcher\<close> that takes its tokens, as two tasks with
    their program counters and the two channels between them.

  The supervisor and the command line:

  \<^item> Cli_Transfer: the transfer of files in both directions (\<^verbatim>\<open>agent_manager/src/agent_cli_client.rs\<close> and
    \<^verbatim>\<open>agent_cli_server.rs\<close>, with the markers of \<^verbatim>\<open>common.rs\<close>).
  \<^item> Cli_Client: the agent's end, \<^verbatim>\<open>agent_cli_client.rs\<close>, and its configuration, \<^verbatim>\<open>common.rs\<close>.
  \<^item> Cli_Server: the operator's end, \<^verbatim>\<open>agent_cli_server.rs\<close>: console, history, connections, selection.
  \<^item> Supervisor: \<^verbatim>\<open>manager.rs\<close>, \<^verbatim>\<open>unix_socket_server.rs\<close> and the check of \<^verbatim>\<open>main.rs\<close> for another instance.

  A Rust struct is a record with the fields of the struct, a method is a definition of its name (a
  prefix sets apart the names that two structs share: \<open>pm_\<close> for \<^verbatim>\<open>ProcessPatternRulesMgr\<close>), and a
  method that changes its object or the world is a computation of the state monad over that record.
  Early returns and \<^verbatim>\<open>?\<close> are \<open>tryE\<close>; a panic is a value of its own where the code can reach one.

  \<^bold>\<open>Parameters.\<close> What is not part of the repository is an argument: processes and their output,
  the \<^verbatim>\<open>regex\<close> and \<^verbatim>\<open>ipnet\<close> packages (record \<open>sys_ext\<close>), \<^verbatim>\<open>reqwest\<close>, \<^verbatim>\<open>url\<close> and the resolver
  (\<open>http_ext\<close>), JSON text (\<open>je_json_print\<close>, \<open>je_json_parse\<close>, \<open>ex_json\<close>), files (\<open>file_ext\<close>,
  \<open>md5_ext\<close>), the UIO device and \<^verbatim>\<open>mmap\<close> (\<open>uio_ext\<close>), the socket calls (\<open>nl_ext\<close>), \<^verbatim>\<open>/proc\<close>
  (\<open>net_app_ext\<close>), the arithmetic on \<^verbatim>\<open>f64\<close> (\<open>f64_ext\<close>), the shared memory and what the handlers of
  events ask the host (\<open>event_ext\<close>), what the tasks ask it (\<open>agent_ext\<close>), the files, commands and
  connections of the command line and the supervisor (\<open>cli_ext\<close>, \<open>client_ext\<close>, \<open>server_ext\<close>,
  \<open>sup_ext\<close>), \<^verbatim>\<open>rusb\<close> and \<^verbatim>\<open>/sys\<close> (\<open>usb_ext\<close>), the commands and files around the kernel module and the
  package \<^verbatim>\<open>levenshtein\<close> (\<open>driver_ext\<close>), what the registration asks the host (\<open>online_ext\<close>), each over an arbitrary
  world \<open>'w\<close> that every call may change. The order in which a \<^verbatim>\<open>HashMap\<close> or \<^verbatim>\<open>HashSet\<close> is visited is a
  parameter \<open>h\<close>, used through \<open>visit h\<close>, which is some permutation of the elements.

  Hypotheses on parameters are named: \<open>files_ok\<close> (opening, creating and writing control files
  succeeds), \<open>mmap_sane\<close> (a successful \<^verbatim>\<open>mmap\<close> returns neither null nor \<^verbatim>\<open>MAP_FAILED\<close>),
  \<open>server_sane\<close> (texts in the documents that the server answers with cannot be mistaken for commands
  of the control files), \<open>file_laws\<close> (renaming and copying files), \<open>still_host\<close> (directories and
  digests give the same answers, errors included, during one upload), \<open>ini_reads\<close> (the INI parser
  finds the lines of a file that was saved, without regard to case, and takes plain values as they
  are), \<open>seconds_tell\<close> (a readable file has one content per second of its modification time),
  \<open>no_old_files\<close> (no file was modified before 1970), \<open>paths_terminated\<close> (paths in the shared memory end inside their field), \<open>still_memory\<close> (the
  records are not written while they are read), \<open>stores\<close> and \<open>sends\<close> (files can be stored, bytes can
  be sent), \<open>steady_devices\<close> (disabling a device leaves the first device of each model the same),
  \<open>tool_stays\<close> (\<^verbatim>\<open>setenforce\<close> stays where it is), \<open>sound_host\<close> (programs can be started and files
  written, and there is no driver of exactly the kernel's version). Each theorem that has one has a witness on a
  concrete instance (\<open>lab_sys\<close>, \<open>lab_http\<close>, \<open>lab_ext\<close>, \<open>free_files\<close>, \<open>lab_uio\<close>, \<open>lab_event\<close> and
  others).

  \<^bold>\<open>What the theorems show.\<close>

  \<^item> The composed agent: in every state that tasks, timers, jumps and changes of the host reach, in
    any order, the kernel module has been told exactly the addresses, executables, patterns and
    trusted processes that the managers hold, and the rules of the process pattern manager.
  \<^item> Address jumps: one entry per interface and address in every reachable state; a failed jump ends
    with the restoring commands; every instruction that is executed is answered with the right
    status; the cleanup removes only aged addresses, keeps one only after a failed attempt; netmasks
    and prefixes convert into each other; an instruction that interrupts the periodic loop is not
    executed. A failed password change puts the old hash back.
  \<^item> Blocked addresses: timers exist exactly for the blocks of limited duration, and the kernel's
    tables are those of the map after every update and expiry.
  \<^item> Lists of executables and devices: no element is on both lists, the last update that concerns
    an element decides, and the kernel has been told exactly the lists that the manager remembers.
  \<^item> Patterns: after any run of the operations the kernel holds the current pattern and process
    texts; the rule texts are not compared, so a change of the access mode alone is not loaded.
  \<^item> Tasks: every switch has a bit of its own in the word sent to the kernel; the old binary survives
    a failed exchange, but the supervisor is not restarted then; the uploads are the pieces of the
    whole list, of which the last is lost after an error; a refused switch is not sent again; the
    configuration survives saving and reading.
  \<^item> Buffers: every access after a successful construction is inside a live mapping, incoming and
    outgoing records do not overlap, and no mapping is leaked on any path.
  \<^item> Messages: the two readers of a message agree, waiting tasks carry whole messages, and the search for the protocol ends. Without the buffers no event is handled.
  \<^item> Events: process alerts have the type of the configured mode, and its level when the record has the
    level of a mode; the process handler does not panic on well-formed input; alerts of files reach
    the server once and in order; repeated connections are reported once; the digest is that of the
    current content unless the file changed within a second. A panic while the configuration is
    locked silences all reports for good, and a wrapped outgoing ring is read from the incoming one.
  \<^item> Containers and ports: the kernel's table of containers never has more than the monitor remembers,
    and has exactly that unless a reset met version 1 or an update overlapped a check for leftovers;
    the table of ports is what the three sources say, and the kernel is told its ports.
  \<^item> Command line: in every run of the server the numbers of connections are unique and the history
    is bounded; an ordinary command reaches the selected agent and runs there, and nowhere else; agent and
    server greet each other when the client is in the map in time; a file from an agent arrives. A
    client that cannot be written to blocks the console for good; small files are not confirmed;
    files for an agent are cut only where its reads end; sessions of old configurations go on.
  \<^item> Supervisor: under any commands and any interleaving of the loop and its tasks the installer is
    started only after the commands that stop the agent and unload its module, whatever their outcome,
    and a downloaded update is removed only after an installer succeeded.

  \<^item> USB devices: a device that comes or goes is reported with the right type and level unless it is on
    the white list, its alert joins those of the files, and it is disabled under protection. A black
    list disables only the first device of a model.
  \<^item> Registration: one token at a time goes to and fro between registration and fetcher, so no send
    waits and both use the same token.
  \<^item> The kernel module: the driver nearest to the running kernel is chosen among those not refused; the
    search ends where programs can be started; SELinux is on again after a driver was loaded, but
    may stay off after an attempt that fails earlier.

  \<^bold>\<open>Loops and fuel.\<close> Loops over lists are structural recursion or \<open>for_each\<close>. A loop with a limit
  in the code has that limit as its fuel: \<open>read_groups\<close> (at most eight groups of an IPv6 address),
  \<open>try_command\<close> (thirty attempts), \<open>wait_ready\<close> (twenty), \<open>proto_attempt\<close> (ten looks),
  \<open>wait_gone\<close> (as many looks as fit into the thirty seconds), \<open>write0_retry\<close> (five or three attempts).
  \<open>load_loop\<close> has the number of turns as its fuel: as many as there are drivers are enough on a sound
  host, and without \<^verbatim>\<open>modprobe\<close> no number is. \<open>store_body\<close> ends because every read
  brings a byte or ends the loop. Endless
  loops are not run: \<open>run_ticks\<close>, \<open>run_monitor_loop\<close>, \<open>receive_loop\<close>, \<open>worker_loop\<close>,
  \<open>handle_session\<close>, \<open>start_client\<close> and \<open>server_run\<close> take the
  number of turns, or the events that wake them, as an argument, the daemon is a step function on
  its program counter, and the theorems about them are over all reachable states (\<open>agent_reach\<close>,
  \<open>jump_reach\<close>, \<open>ip_reach\<close>, \<open>pattern_reach\<close>, \<open>pm_reach\<close>, \<open>docker_reach\<close>, \<open>ports_reach\<close>, \<open>log_reach\<close>,
  \<open>kernel_reach\<close>, \<open>session_reach\<close>, \<open>run_agent_manager\<close>), that is, for any number of turns.

  \<^bold>\<open>Concurrency.\<close> Operations that hold a lock from start to end are single steps of these
  relations, in any order. The monitor of containers releases its lock within an operation:
  \<open>docker_reach\<close> interleaves the scans, the single writes under the lock, and what follows it. The
  supervisor spawns tasks beside its loop: \<open>run_agent_manager\<close> interleaves their single actions. A
  turn of the poller, a step of the jump daemon and its periodic cleanup are single steps, although
  they wait for the network in between. Tasks that wait for the lock of the table of handlers run one at a time in
  any order. A panic ends the task it happens in, and poisons the locks of the standard library that
  the task holds. The locks of the command line server are those of \<^verbatim>\<open>tokio\<close>, which are not poisoned:
  there a task that waits for a lock that is never given back stops, with the locks it holds. Time is
  a clock that advances between steps.

  \<^bold>\<open>The kernel module.\<close> Its code is not in the repository. What it makes of the lines written to its
  control files (\<open>loaded\<close>, \<open>kernel_lists\<close>, \<open>rt_table\<close>) is read off the commands that the agent sends
  (a line that clears, lines that add or delete) and is a reference of the theorems, not a model of
  code. Logs of commands, requests and writes record attempts where the code does not look at the
  result.

  \<^bold>\<open>Not modelled.\<close> Log output; the graphical tool; the copies of third-party code, which no member
  of the workspace uses (\<^verbatim>\<open>utils\<close>, \<^verbatim>\<open>trc\<close>, \<^verbatim>\<open>md5\<close>); the readers of host data for reports
  (\<^verbatim>\<open>system_metrics\<close>, \<^verbatim>\<open>procinfo\<close> and the rest of \<^verbatim>\<open>hostinfo\<close>). Also left out are the periodic collectors
  (\<^verbatim>\<open>task/src/timer_task.rs\<close>, \<^verbatim>\<open>ssh_login_task.rs\<close>) and the start-up, which call the modelled components
  in fixed orders, and TLS and the sockets under the command line.
\<close>

end
